(* ===== verification/Prelude.thy ===== *)
theory Prelude
  imports Main "HOL-Library.AList" "HOL-Library.List_Lexorder" "HOL-Library.Char_ord"
    "HOL-Library.Product_Lexorder"
begin

text \<open>
  Shared vocabulary of the development: results that are either an error or a value, Python
  dictionaries as insertion-ordered association lists, sorted lists of strings, and the
  character classes the regular expressions of the sources use. Python strings are modelled
  by their UTF-8 bytes (HOL's \<open>string\<close>): byte order on UTF-8 is code point order, so
  \<open>sorted\<close> agrees, and the code encodes its strings as UTF-8 before it hashes them.
\<close>

named_theorems dict_simps \<open>lookup and update laws of Python dictionaries\<close>
named_theorems bind_simps \<open>laws of the error monad\<close>

section \<open>Errors as values\<close>

text \<open>
  Casework raises \<^verbatim>\<open>CaseworkError(code, status)\<close>; any other Python exception
  (KeyError, ValueError, a pydantic ValidationError) is recorded by its class name.
\<close>

datatype err = Casework string int | PyExc string

type_synonym 'a res = "err + 'a"

definition ebind :: "'e + 'a \<Rightarrow> ('a \<Rightarrow> 'e + 'b) \<Rightarrow> 'e + 'b" where
  "ebind m f = (case m of Inl e \<Rightarrow> Inl e | Inr x \<Rightarrow> f x)"

lemma ebind_Inl [simp, bind_simps]: "ebind (Inl e) f = Inl e"
  and ebind_Inr [simp, bind_simps]: "ebind (Inr x) f = f x"
  by (simp_all add: ebind_def)

lemma ebind_eq_Inr [bind_simps]: "ebind m f = Inr y \<longleftrightarrow> (\<exists>x. m = Inr x \<and> f x = Inr y)"
  by (cases m) auto

lemma ebind_eq_Inl:
  "ebind m f = Inl e \<longleftrightarrow> m = Inl e \<or> (\<exists>x. m = Inr x \<and> f x = Inl e)"
  by (cases m) auto

lemma ebind_assoc: "ebind (ebind m f) g = ebind m (\<lambda>x. ebind (f x) g)"
  by (cases m) simp_all

lemma ebind_cong [fundef_cong]:
  "m = m' \<Longrightarrow> (\<And>x. m' = Inr x \<Longrightarrow> f x = f' x) \<Longrightarrow> ebind m f = ebind m' f'"
  by (cases m') simp_all

lemma ebind_InrE [elim!]:
  assumes "ebind m f = Inr y"
  obtains x where "m = Inr x" "f x = Inr y"
  using assms by (auto simp: ebind_eq_Inr)

text \<open>A guard that raises: \<^verbatim>\<open>if bad: raise e\<close>.\<close>

definition check :: "bool \<Rightarrow> 'e \<Rightarrow> 'e + unit" where
  "check ok e = (if ok then Inr () else Inl e)"

lemma check_eq_Inr [simp]: "check ok e = Inr u \<longleftrightarrow> ok"
  and check_eq_Inl [simp]: "check ok e = Inl e' \<longleftrightarrow> \<not> ok \<and> e' = e"
  and check_True [simp]: "check True e = Inr ()"
  and check_False [simp]: "check False e = Inl e"
  by (auto simp: check_def)

lemma ebind_check [simp]: "ebind (check ok e) f = (if ok then f () else Inl e)"
  by (simp add: check_def)

text \<open>A list comprehension whose element expression can raise.\<close>

fun emap :: "('a \<Rightarrow> 'e + 'b) \<Rightarrow> 'a list \<Rightarrow> 'e + 'b list" where
  "emap f [] = Inr []"
| "emap f (x # xs) = ebind (f x) (\<lambda>y. ebind (emap f xs) (\<lambda>ys. Inr (y # ys)))"

lemma emap_Inr_iff: "emap f xs = Inr ys \<longleftrightarrow> list_all2 (\<lambda>x y. f x = Inr y) xs ys"
proof (induction xs arbitrary: ys)
  case Nil
  then show ?case by auto
next
  case (Cons x xs)
  then show ?case by (cases ys) (auto simp: ebind_eq_Inr)
qed

lemma emap_total: "(\<And>x. x \<in> set xs \<Longrightarrow> f x = Inr (g x)) \<Longrightarrow> emap f xs = Inr (map g xs)"
  by (induction xs) auto

lemma emap_cong [fundef_cong]:
  "xs = ys \<Longrightarrow> (\<And>x. x \<in> set ys \<Longrightarrow> f x = g x) \<Longrightarrow> emap f xs = emap g ys"
  by (induction xs arbitrary: ys) auto

section \<open>Dictionaries\<close>

text \<open>
  A Python dict keeps insertion order and updates a present key in place; this is
  \<open>AList.update\<close>. Lookup is \<open>map_of\<close>.
\<close>

type_synonym 'v dict = "(string \<times> 'v) list"

abbreviation dset :: "string \<Rightarrow> 'v \<Rightarrow> 'v dict \<Rightarrow> 'v dict" where
  "dset \<equiv> AList.update"

abbreviation keys :: "'v dict \<Rightarrow> string list" where
  "keys d \<equiv> map fst d"

lemma map_of_dset [simp, dict_simps]: "map_of (dset k v d) = (map_of d)(k \<mapsto> v)"
  by (rule update_conv')

lemma distinct_keys_dset [simp, dict_simps]: "distinct (keys d) \<Longrightarrow> distinct (keys (dset k v d))"
  by (rule distinct_update)

lemma set_keys_dset [simp, dict_simps]: "fst ` set (dset k v d) = insert k (fst ` set d)"
  by (induction d) auto

lemma map_of_in_keys: "map_of d k = Some v \<Longrightarrow> k \<in> set (keys d)"
  by (metis domI dom_map_of_conv_image_fst set_map)

lemma map_of_None_keys: "map_of d k = None \<longleftrightarrow> k \<notin> set (keys d)"
  by (simp add: map_of_eq_None_iff)

lemma map_of_distinct_iff: "distinct (keys d) \<Longrightarrow> (k, v) \<in> set d \<longleftrightarrow> map_of d k = Some v"
  by (auto dest: map_of_SomeD)

lemma dset_same: "map_of d k = Some v \<Longrightarrow> dset k v d = d"
  by (induction d) (auto split: if_splits)

lemma set_dset_subset: "set (dset k v d) \<subseteq> insert (k, v) (set d)"
  by (induction d) auto

lemma set_dset_distinct:
  "distinct (keys d) \<Longrightarrow> set (dset k v d) = insert (k, v) {(k', v') \<in> set d. k' \<noteq> k}"
  by (induction d) (auto simp: image_iff)

text \<open>Updating the value of one key and keeping the others.\<close>

definition dadjust :: "string \<Rightarrow> ('v \<Rightarrow> 'v) \<Rightarrow> 'v dict \<Rightarrow> 'v dict" where
  "dadjust k f d = (case map_of d k of None \<Rightarrow> d | Some v \<Rightarrow> dset k (f v) d)"

lemma map_of_dadjust [dict_simps]:
  "map_of (dadjust k f d) k' = (if k' = k then map_option f (map_of d k) else map_of d k')"
  by (auto simp: dadjust_def split: option.splits)

lemma keys_dset_present: "k \<in> set (keys d) \<Longrightarrow> keys (dset k v d) = keys d"
  by (induction d) auto

lemma keys_dadjust [simp, dict_simps]: "keys (dadjust k f d) = keys d"
  by (auto simp: dadjust_def intro!: keys_dset_present dest: map_of_in_keys split: option.splits)

section \<open>Sorted lists\<close>

text \<open>\<^verbatim>\<open>sorted(set(xs))\<close>.\<close>

definition sorted_set :: "'a::linorder list \<Rightarrow> 'a list" where
  "sorted_set xs = sort (remdups xs)"

lemma set_sorted_set [simp]: "set (sorted_set xs) = set xs"
  and sorted_sorted_set [simp]: "sorted (sorted_set xs)"
  and distinct_sorted_set [simp]: "distinct (sorted_set xs)"
  by (simp_all add: sorted_set_def)

lemma sorted_set_cong: "set xs = set ys \<Longrightarrow> sorted_set xs = sorted_set ys"
  by (rule sorted_distinct_set_unique) auto

lemma sorted_set_Nil [simp]: "sorted_set xs = [] \<longleftrightarrow> xs = []"
  by (metis set_empty set_sorted_set)

section \<open>Characters\<close>

definition is_digit :: "char \<Rightarrow> bool" where
  "is_digit c \<longleftrightarrow> CHR ''0'' \<le> c \<and> c \<le> CHR ''9''"

definition is_lower :: "char \<Rightarrow> bool" where
  "is_lower c \<longleftrightarrow> CHR ''a'' \<le> c \<and> c \<le> CHR ''z''"

definition is_upper :: "char \<Rightarrow> bool" where
  "is_upper c \<longleftrightarrow> CHR ''A'' \<le> c \<and> c \<le> CHR ''Z''"

definition is_alpha :: "char \<Rightarrow> bool" where
  "is_alpha c \<longleftrightarrow> is_lower c \<or> is_upper c"

definition is_alnum :: "char \<Rightarrow> bool" where
  "is_alnum c \<longleftrightarrow> is_alpha c \<or> is_digit c"

definition is_hex :: "char \<Rightarrow> bool" where
  "is_hex c \<longleftrightarrow> is_digit c \<or> (CHR ''a'' \<le> c \<and> c \<le> CHR ''f'') \<or> (CHR ''A'' \<le> c \<and> c \<le> CHR ''F'')"

definition is_hexlow :: "char \<Rightarrow> bool" where
  "is_hexlow c \<longleftrightarrow> is_digit c \<or> (CHR ''a'' \<le> c \<and> c \<le> CHR ''f'')"

lemmas char_classes = is_digit_def is_lower_def is_upper_def is_alpha_def is_alnum_def
  is_hex_def is_hexlow_def

text \<open>The number of code points of a UTF-8 byte string: continuation bytes do not count.\<close>

definition py_len :: "string \<Rightarrow> nat" where
  "py_len s = length (filter (\<lambda>c. (of_char c :: nat) div 64 \<noteq> 2) s)"

lemma py_len_le: "py_len s \<le> length s"
  by (simp add: py_len_def)

end
