(* ===== verification/Py_Json.thy ===== *)
theory Py_Json
  imports Complex_Main Prelude
begin

text \<open>
  JSON values as the sources handle them, the canonical serializer
  (\<^verbatim>\<open>json.dumps(sort_keys=True, separators=(",", ":"), ensure_ascii=False)\<close>) byte for byte,
  and the proof that it is unambiguous: two float-free values with the same canonical text
  are the same value up to the order of object keys. The hash function, the shortest
  representation of floats and the two datetime formats are fields of an environment.
\<close>

section \<open>Values\<close>

text \<open>
  Finite floats are rationals; a float computation of the sources is never more than a
  comparison, which is exact.
\<close>

datatype pyfloat = Fin rat | PInf | NInf | NaN

datatype json =
    JNull
  | JBool bool
  | JInt int
  | JFloat pyfloat
  | JStr string
  | JList "json list"
  | JObj "(string \<times> json) list"

type_synonym jobj = "json dict"

text \<open>\<^verbatim>\<open>d.get(k)\<close>: a missing key reads as \<^verbatim>\<open>None\<close>.\<close>

definition jget :: "jobj \<Rightarrow> string \<Rightarrow> json" where
  "jget d k = (case map_of d k of None \<Rightarrow> JNull | Some v \<Rightarrow> v)"

definition jopt :: "('a \<Rightarrow> json) \<Rightarrow> 'a option \<Rightarrow> json" where
  "jopt f x = (case x of None \<Rightarrow> JNull | Some y \<Rightarrow> f y)"

abbreviation jstrs :: "string list \<Rightarrow> json" where
  "jstrs xs \<equiv> JList (map JStr xs)"

text \<open>\<^verbatim>\<open>d.get(k, {})\<close> read as a dictionary.\<close>

definition jsub :: "jobj \<Rightarrow> string \<Rightarrow> jobj" where
  "jsub d k = (case jget d k of JObj e \<Rightarrow> e | _ \<Rightarrow> [])"

text \<open>The truth value Python gives a JSON value.\<close>

fun truthy :: "json \<Rightarrow> bool" where
  "truthy JNull = False"
| "truthy (JBool b) = b"
| "truthy (JInt i) = (i \<noteq> 0)"
| "truthy (JFloat f) = (f \<noteq> Fin 0)"
| "truthy (JStr s) = (s \<noteq> [])"
| "truthy (JList xs) = (xs \<noteq> [])"
| "truthy (JObj d) = (d \<noteq> [])"

text \<open>
  Python's \<^verbatim>\<open>==\<close> on these values: dictionaries compare without order, \<^verbatim>\<open>True == 1\<close>
  and an integer equals the float of the same value.
\<close>

fun py_norm :: "json \<Rightarrow> json" and py_norm_pairs :: "(string \<times> json) list \<Rightarrow> (string \<times> json) list"
where
  "py_norm (JBool b) = JFloat (Fin (if b then 1 else 0))"
| "py_norm (JInt i) = JFloat (Fin (of_int i))"
| "py_norm (JList xs) = JList (map py_norm xs)"
| "py_norm (JObj d) = JObj (sort_key fst (py_norm_pairs d))"
| "py_norm JNull = JNull"
| "py_norm (JFloat f) = JFloat f"
| "py_norm (JStr s) = JStr s"
| "py_norm_pairs [] = []"
| "py_norm_pairs ((k, v) # d) = (k, py_norm v) # py_norm_pairs d"

definition py_eq :: "json \<Rightarrow> json \<Rightarrow> bool" where
  "py_eq a b \<longleftrightarrow> py_norm a = py_norm b"

lemma py_eq_refl [simp]: "py_eq a a"
  by (simp add: py_eq_def)

lemma py_eq_JStr [simp]: "py_eq a (JStr s) \<longleftrightarrow> a = JStr s"
  by (cases a) (auto simp: py_eq_def)

lemma py_eq_JInt [simp]: "py_eq (JInt a) (JInt b) \<longleftrightarrow> a = b"
  by (simp add: py_eq_def)

text \<open>\<^verbatim>\<open>d[k]\<close> and \<^verbatim>\<open>d | e\<close>.\<close>

definition jfield :: "jobj \<Rightarrow> string \<Rightarrow> json res" where
  "jfield d k = (case map_of d k of None \<Rightarrow> Inl (PyExc ''KeyError'') | Some v \<Rightarrow> Inr v)"

definition dunion :: "'v dict \<Rightarrow> 'v dict \<Rightarrow> 'v dict" where
  "dunion d e = fold (\<lambda>(k, v). dset k v) e d"

lemma map_of_dunion: "distinct (keys e) \<Longrightarrow> map_of (dunion d e) = map_of d ++ map_of e"
proof (induction e arbitrary: d)
  case (Cons p e)
  obtain k v where p: "p = (k, v)" by (cases p)
  with Cons.prems have k: "map_of e k = None" by (simp add: map_of_None_keys)
  have "map_of (dunion d (p # e)) = (map_of d)(k \<mapsto> v) ++ map_of e"
    using Cons p by (simp add: dunion_def)
  also have "\<dots> = map_of d ++ map_of (p # e)"
    using k p by (auto simp: map_add_def split: option.splits)
  finally show ?case .
qed (simp add: dunion_def)

definition as_obj :: "json \<Rightarrow> jobj res" where
  "as_obj j = (case j of JObj d \<Rightarrow> Inr d | _ \<Rightarrow> Inl (PyExc ''TypeError''))"

section \<open>The canonical serializer\<close>

definition digit_char :: "nat \<Rightarrow> char" where
  "digit_char n = char_of (48 + n)"

fun dec_nat :: "nat \<Rightarrow> string" where
  "dec_nat n = (if n < 10 then [digit_char n] else dec_nat (n div 10) @ [digit_char (n mod 10)])"

declare dec_nat.simps [simp del]

definition dec_int :: "int \<Rightarrow> string" where
  "dec_int i = (if i < 0 then ''-'' @ dec_nat (nat (- i)) else dec_nat (nat i))"

definition hex_char :: "nat \<Rightarrow> char" where
  "hex_char n = (if n < 10 then char_of (48 + n) else char_of (87 + n))"

text \<open>The escapes of \<^verbatim>\<open>json.dumps\<close> with \<^verbatim>\<open>ensure_ascii=False\<close>.\<close>

definition esc :: "char \<Rightarrow> string" where
  "esc c =
     (if c = CHR 0x22 then [CHR 0x5C, CHR 0x22]
      else if c = CHR 0x5C then [CHR 0x5C, CHR 0x5C]
      else if c = CHR 0x0A then [CHR 0x5C, CHR ''n'']
      else if c = CHR 0x0D then [CHR 0x5C, CHR ''r'']
      else if c = CHR 0x09 then [CHR 0x5C, CHR ''t'']
      else if c = CHR 0x0C then [CHR 0x5C, CHR ''f'']
      else if c = CHR 0x08 then [CHR 0x5C, CHR ''b'']
      else if (of_char c :: nat) < 32 then
        [CHR 0x5C, CHR ''u'', CHR ''0'', CHR ''0'', hex_char (of_char c div 16), hex_char (of_char c mod 16)]
      else [c])"

definition quote :: "string \<Rightarrow> string" where
  "quote s = CHR 0x22 # concat (map esc s) @ [CHR 0x22]"

definition enc_float :: "(rat \<Rightarrow> string) \<Rightarrow> pyfloat \<Rightarrow> string" where
  "enc_float fr f = (case f of Fin r \<Rightarrow> fr r | PInf \<Rightarrow> ''Infinity'' | NInf \<Rightarrow> ''-Infinity'' | NaN \<Rightarrow> ''NaN'')"

fun enc :: "(rat \<Rightarrow> string) \<Rightarrow> json \<Rightarrow> string"
  and enc_tail :: "(rat \<Rightarrow> string) \<Rightarrow> json list \<Rightarrow> string"
  and enc_pairs :: "(rat \<Rightarrow> string) \<Rightarrow> (string \<times> json) list \<Rightarrow> string"
where
  "enc fr JNull = ''null''"
| "enc fr (JBool b) = (if b then ''true'' else ''false'')"
| "enc fr (JInt i) = dec_int i"
| "enc fr (JFloat f) = enc_float fr f"
| "enc fr (JStr s) = quote s"
| "enc fr (JList []) = ''[]''"
| "enc fr (JList (x # xs)) = ''['' @ enc fr x @ enc_tail fr xs"
| "enc fr (JObj []) = ''{}''"
| "enc fr (JObj ((k, v) # kvs)) = ''{'' @ quote k @ '':'' @ enc fr v @ enc_pairs fr kvs"
| "enc_tail fr [] = '']''"
| "enc_tail fr (x # xs) = '','' @ enc fr x @ enc_tail fr xs"
| "enc_pairs fr [] = ''}''"
| "enc_pairs fr ((k, v) # kvs) = '','' @ quote k @ '':'' @ enc fr v @ enc_pairs fr kvs"

text \<open>\<^verbatim>\<open>sort_keys=True\<close>, at every level.\<close>

fun canon :: "json \<Rightarrow> json" and canon_pairs :: "(string \<times> json) list \<Rightarrow> (string \<times> json) list"
where
  "canon (JList xs) = JList (map canon xs)"
| "canon (JObj d) = JObj (sort_key fst (canon_pairs d))"
| "canon JNull = JNull"
| "canon (JBool b) = JBool b"
| "canon (JInt i) = JInt i"
| "canon (JFloat f) = JFloat f"
| "canon (JStr s) = JStr s"
| "canon_pairs [] = []"
| "canon_pairs ((k, v) # d) = (k, canon v) # canon_pairs d"

definition dumps :: "(rat \<Rightarrow> string) \<Rightarrow> json \<Rightarrow> string" where
  "dumps fr j = enc fr (canon j)"

text \<open>Which values hold no float at all, and which hold no infinite or undefined one.\<close>

fun float_free :: "json \<Rightarrow> bool" and float_free_pairs :: "(string \<times> json) list \<Rightarrow> bool" where
  "float_free (JFloat f) = False"
| "float_free (JList xs) = (\<forall>x \<in> set xs. float_free x)"
| "float_free (JObj d) = float_free_pairs d"
| "float_free JNull = True"
| "float_free (JBool b) = True"
| "float_free (JInt i) = True"
| "float_free (JStr s) = True"
| "float_free_pairs [] = True"
| "float_free_pairs ((k, v) # d) = (float_free v \<and> float_free_pairs d)"

fun finite_floats :: "json \<Rightarrow> bool" and finite_floats_pairs :: "(string \<times> json) list \<Rightarrow> bool" where
  "finite_floats (JFloat f) = (\<exists>r. f = Fin r)"
| "finite_floats (JList xs) = (\<forall>x \<in> set xs. finite_floats x)"
| "finite_floats (JObj d) = finite_floats_pairs d"
| "finite_floats JNull = True"
| "finite_floats (JBool b) = True"
| "finite_floats (JInt i) = True"
| "finite_floats (JStr s) = True"
| "finite_floats_pairs [] = True"
| "finite_floats_pairs ((k, v) # d) = (finite_floats v \<and> finite_floats_pairs d)"

section \<open>The environment and the two hashes\<close>

text \<open>
  What the code takes from outside itself: SHA-256 as a function from bytes to lower-case hex,
  the text of a float and the float nearest to a decimal text, \<^verbatim>\<open>datetime.isoformat\<close> and pydantic's JSON form of an aware UTC time
  (a time is the number of microseconds since the epoch), \<^verbatim>\<open>datetime.fromisoformat\<close>
  (\<open>None\<close>: a ValueError; the flag tells whether the text carries a UTC offset), Unicode NFC
  and lower case (both tables of the Unicode database), and the identity of the running service.
\<close>

record env =
  sha256 :: "string \<Rightarrow> string"
  float_repr :: "rat \<Rightarrow> string"
  float_text :: "string \<Rightarrow> pyfloat"
  iso_time :: "int \<Rightarrow> string"
  dump_time :: "int \<Rightarrow> string"
  parse_time :: "string \<Rightarrow> (int \<times> bool) option"
  nfc :: "string \<Rightarrow> string"
  uni_lower :: "string \<Rightarrow> string"
  runtime_id :: string
  process_id :: int
  build_commit :: string

text \<open>\<^verbatim>\<open>core.digest(domain, payload)\<close> of casework.\<close>

definition digest_input :: "env \<Rightarrow> string \<Rightarrow> json \<Rightarrow> string" where
  "digest_input E dm x =
     ''memoryguard-casework/v2'' @ [CHR 0x00] @ dm @ [CHR 0x00] @ dumps (float_repr E) x"

definition digest :: "env \<Rightarrow> string \<Rightarrow> json \<Rightarrow> string" where
  "digest E dm x = sha256 E (digest_input E dm x)"

section \<open>The serializer is unambiguous\<close>

subsection \<open>Integers\<close>

fun undec :: "nat \<Rightarrow> string \<Rightarrow> nat" where
  "undec a [] = a"
| "undec a (c # cs) = undec (10 * a + (of_char c - 48)) cs"

lemma undec_append: "undec a (s @ t) = undec (undec a s) t"
  by (induction s arbitrary: a) auto

lemma of_char_digit: "n < 10 \<Longrightarrow> (of_char (digit_char n) :: nat) = 48 + n"
  by (simp add: digit_char_def of_char_of)

lemma is_digit_of_char: "is_digit c \<longleftrightarrow> 48 \<le> (of_char c :: nat) \<and> (of_char c :: nat) \<le> 57"
  by (simp add: is_digit_def less_eq_char_def)

lemma undec_dec_nat: "undec 0 (dec_nat n) = n"
proof (induction n rule: dec_nat.induct)
  case (1 n)
  show ?case
    by (cases "n < 10") (use 1 in \<open>auto simp: dec_nat.simps [of n] undec_append of_char_digit\<close>)
qed

lemma dec_nat_digits: "c \<in> set (dec_nat n) \<Longrightarrow> is_digit c"
proof (induction n rule: dec_nat.induct)
  case (1 n)
  then show ?case
    by (cases "n < 10") (auto simp: dec_nat.simps [of n] is_digit_of_char of_char_digit)
qed

lemma dec_nat_nonempty [simp]: "dec_nat n \<noteq> []"
  by (subst dec_nat.simps) simp

definition no_digit :: "string \<Rightarrow> bool" where
  "no_digit s = (case s of [] \<Rightarrow> True | c # _ \<Rightarrow> \<not> is_digit c)"

lemma no_digit_simps [simp]: "no_digit []" "no_digit (c # s) \<longleftrightarrow> \<not> is_digit c"
  by (simp_all add: no_digit_def)

lemma digits_split:
  "a @ s = b @ t \<Longrightarrow> \<forall>c \<in> set a. is_digit c \<Longrightarrow> \<forall>c \<in> set b. is_digit c \<Longrightarrow>
   no_digit s \<Longrightarrow> no_digit t \<Longrightarrow> a = b \<and> s = t"
proof (induction a arbitrary: b)
  case Nil
  then show ?case by (cases b) auto
next
  case (Cons c a)
  then show ?case by (cases b) auto
qed

lemma dec_nat_split:
  assumes "dec_nat m @ s = dec_nat n @ t" "no_digit s" "no_digit t"
  shows "m = n \<and> s = t"
  using digits_split [OF assms(1) _ _ assms(2,3)] by (metis dec_nat_digits undec_dec_nat)

lemma hd_dec_nat: "is_digit (hd (dec_nat n))"
  by (rule dec_nat_digits [of _ n]) simp

lemma dec_nat_Cons: "\<exists>c cs. dec_nat n = c # cs \<and> is_digit c"
  by (metis dec_nat_nonempty hd_dec_nat list.exhaust list.sel(1))

lemma minus_not_digit [simp]: "\<not> is_digit (CHR ''-'')"
  by (simp add: is_digit_of_char)

lemma minus_not_dec_nat: "CHR ''-'' # u \<noteq> dec_nat n @ v"
  using dec_nat_Cons [of n] by auto

lemma dec_int_split:
  assumes "dec_int i @ s = dec_int j @ t" "no_digit s" "no_digit t"
  shows "i = j \<and> s = t"
proof -
  consider "i < 0" "j < 0" | "i \<ge> 0" "j \<ge> 0" | "i < 0" "j \<ge> 0" | "i \<ge> 0" "j < 0"
    by linarith
  then show ?thesis
  proof cases
    case 1
    with assms dec_nat_split [of "nat (- i)" s "nat (- j)" t] show ?thesis
      by (simp add: dec_int_def eq_nat_nat_iff)
  next
    case 2
    with assms dec_nat_split [of "nat i" s "nat j" t] show ?thesis
      by (simp add: dec_int_def eq_nat_nat_iff)
  next
    case 3
    with assms(1) show ?thesis by (simp add: dec_int_def minus_not_dec_nat)
  next
    case 4
    with assms(1) minus_not_dec_nat [symmetric] show ?thesis by (simp add: dec_int_def)
  qed
qed

subsection \<open>Strings\<close>

text \<open>Reading one escaped character back.\<close>

definition unhex :: "char \<Rightarrow> nat" where
  "unhex c = (if is_digit c then of_char c - 48 else of_char c - 87)"

definition unesc :: "string \<Rightarrow> (char \<times> string) option" where
  "unesc s = (case s of [] \<Rightarrow> None | c # r \<Rightarrow>
     if c = CHR 0x22 then None
     else if c \<noteq> CHR 0x5C then Some (c, r)
     else (case r of [] \<Rightarrow> None | d # q \<Rightarrow>
       if d = CHR 0x22 then Some (CHR 0x22, q)
       else if d = CHR 0x5C then Some (CHR 0x5C, q)
       else if d = CHR ''n'' then Some (CHR 0x0A, q)
       else if d = CHR ''r'' then Some (CHR 0x0D, q)
       else if d = CHR ''t'' then Some (CHR 0x09, q)
       else if d = CHR ''f'' then Some (CHR 0x0C, q)
       else if d = CHR ''b'' then Some (CHR 0x08, q)
       else (case q of _ # _ # h # l # q' \<Rightarrow> Some (char_of (16 * unhex h + unhex l), q')
             | _ \<Rightarrow> None)))"

lemma unhex_hex_char: "n < 16 \<Longrightarrow> unhex (hex_char n) = n"
  by (auto simp: unhex_def hex_char_def is_digit_of_char of_char_of)

lemma unesc_esc: "unesc (esc c @ s) = Some (c, s)"
proof (cases "(of_char c :: nat) < 32")
  case True
  then have "(of_char c :: nat) div 16 < 16" by simp
  moreover have "(16 * (of_char c div 16) + of_char c mod 16 :: nat) = of_char c" by simp
  ultimately show ?thesis by (simp add: esc_def unesc_def unhex_hex_char)
next
  case False
  then show ?thesis by (simp add: esc_def unesc_def)
qed

lemma unesc_quote [simp]: "unesc (CHR 0x22 # s) = None"
  by (simp add: unesc_def)

lemma escs_split:
  "concat (map esc a) @ CHR 0x22 # s = concat (map esc b) @ CHR 0x22 # t \<Longrightarrow> a = b \<and> s = t"
proof (induction a arbitrary: b)
  case Nil
  then show ?case
    by (cases b) (auto dest: arg_cong [where f = unesc] simp: unesc_esc)
next
  case (Cons c a)
  show ?case
  proof (cases b)
    case Nil
    with Cons.prems show ?thesis by (auto dest: arg_cong [where f = unesc] simp: unesc_esc)
  next
    case (Cons d b')
    with Cons.prems have "unesc (esc c @ concat (map esc a) @ CHR 0x22 # s) =
        unesc (esc d @ concat (map esc b') @ CHR 0x22 # t)" by simp
    then have "c = d" "concat (map esc a) @ CHR 0x22 # s = concat (map esc b') @ CHR 0x22 # t"
      by (simp_all only: unesc_esc option.inject prod.inject)
    with Cons.IH Cons show ?thesis by auto
  qed
qed

lemma quote_split: "quote a @ s = quote b @ t \<Longrightarrow> a = b \<and> s = t"
  using escs_split [of a s b t] by (simp add: quote_def)

lemma quote_Cons: "quote s = CHR 0x22 # concat (map esc s) @ [CHR 0x22]"
  by (simp add: quote_def)

subsection \<open>Values\<close>

text \<open>
  The text of a value determines the value and what follows it, as long as what follows
  does not start with a digit; the tails of lists and objects end themselves.
\<close>

lemma dec_int_Cons: "\<exists>c cs. dec_int i = c # cs \<and> (is_digit c \<or> c = CHR ''-'')"
  using dec_nat_Cons [of "nat i"] by (auto simp: dec_int_def)

text \<open>The first character tells which constructor was encoded.\<close>

definition first_char :: "json \<Rightarrow> char \<Rightarrow> bool" where
  "first_char j c = (case j of
     JNull \<Rightarrow> c = CHR ''n'' | JBool b \<Rightarrow> c = (if b then CHR ''t'' else CHR ''f'')
   | JInt i \<Rightarrow> is_digit c \<or> c = CHR ''-'' | JFloat f \<Rightarrow> True | JStr s \<Rightarrow> c = CHR 0x22
   | JList xs \<Rightarrow> c = CHR ''['' | JObj d \<Rightarrow> c = CHR ''{'')"

fun shape :: "json \<Rightarrow> nat" where
  "shape JNull = 0"
| "shape (JBool b) = (if b then 1 else 2)"
| "shape (JInt i) = 3"
| "shape (JFloat f) = 4"
| "shape (JStr s) = 5"
| "shape (JList xs) = 6"
| "shape (JObj d) = 7"

lemma not_digit_marks [simp]:
  "\<not> is_digit (CHR '','')" "\<not> is_digit (CHR '']'')" "\<not> is_digit (CHR ''}'')"
  "\<not> is_digit (CHR '':'')" "\<not> is_digit (CHR ''['')" "\<not> is_digit (CHR ''{'')"
  "\<not> is_digit (CHR 0x22)" "\<not> is_digit (CHR ''n'')" "\<not> is_digit (CHR ''t'')"
  "\<not> is_digit (CHR ''f'')"
  by (simp_all add: is_digit_of_char)

lemma enc_first: "float_free j \<Longrightarrow> \<exists>c cs. enc fr j = c # cs \<and> first_char j c"
proof (cases j)
  case (JInt i)
  then show ?thesis using dec_int_Cons [of i] by (simp add: first_char_def)
next
  case (JList xs)
  then show ?thesis by (cases xs) (simp_all add: first_char_def)
next
  case (JObj d)
  then show ?thesis by (cases d) (auto simp add: first_char_def)
qed (simp_all add: first_char_def quote_Cons)

lemma first_char_shape:
  "first_char a c \<Longrightarrow> first_char b c \<Longrightarrow> float_free a \<Longrightarrow> float_free b \<Longrightarrow> shape a = shape b"
  by (cases a; cases b) (auto simp: first_char_def split: if_splits)

lemma enc_shape:
  assumes "enc fr a @ s = enc fr b @ t" "float_free a" "float_free b"
  shows "shape a = shape b"
proof -
  obtain c cs d ds where "enc fr a = c # cs" "first_char a c" "enc fr b = d # ds" "first_char b d"
    using enc_first assms(2,3) by metis
  with assms show ?thesis by (auto intro: first_char_shape)
qed

lemma enc_not_close [simp]: "float_free x \<Longrightarrow> enc fr x @ s \<noteq> CHR '']'' # t"
  using enc_first [of x fr] by (cases x) (auto simp: first_char_def split: if_splits)

lemma close_not_enc [simp]: "float_free x \<Longrightarrow> CHR '']'' # t \<noteq> enc fr x @ s"
  using enc_not_close [of x fr s t] by metis

definition uniq :: "(rat \<Rightarrow> string) \<Rightarrow> json \<Rightarrow> bool" where
  "uniq fr a \<longleftrightarrow> (\<forall>b s t. enc fr a @ s = enc fr b @ t \<longrightarrow> float_free a \<longrightarrow> float_free b \<longrightarrow>
     no_digit s \<longrightarrow> no_digit t \<longrightarrow> a = b \<and> s = t)"

definition uniq_tail :: "(rat \<Rightarrow> string) \<Rightarrow> json list \<Rightarrow> bool" where
  "uniq_tail fr xs \<longleftrightarrow> (\<forall>ys s t. enc_tail fr xs @ s = enc_tail fr ys @ t \<longrightarrow>
     (\<forall>x \<in> set xs \<union> set ys. float_free x) \<longrightarrow> xs = ys \<and> s = t)"

definition uniq_pairs :: "(rat \<Rightarrow> string) \<Rightarrow> (string \<times> json) list \<Rightarrow> bool" where
  "uniq_pairs fr d \<longleftrightarrow> (\<forall>e s t. enc_pairs fr d @ s = enc_pairs fr e @ t \<longrightarrow>
     float_free_pairs d \<longrightarrow> float_free_pairs e \<longrightarrow> d = e \<and> s = t)"

lemma no_digit_enc_tail [simp]: "no_digit (enc_tail fr xs @ s)"
  by (cases xs) simp_all

lemma no_digit_enc_pairs [simp]: "no_digit (enc_pairs fr d @ s)"
  by (cases d) auto

lemma uniqD:
  "uniq fr a \<Longrightarrow> enc fr a @ s = enc fr b @ t \<Longrightarrow> float_free a \<Longrightarrow> float_free b \<Longrightarrow>
   no_digit s \<Longrightarrow> no_digit t \<Longrightarrow> a = b \<and> s = t"
  unfolding uniq_def by blast

lemma uniq_tailD:
  "uniq_tail fr xs \<Longrightarrow> enc_tail fr xs @ s = enc_tail fr ys @ t \<Longrightarrow>
   \<forall>x \<in> set xs. float_free x \<Longrightarrow> \<forall>x \<in> set ys. float_free x \<Longrightarrow> xs = ys \<and> s = t"
  unfolding uniq_tail_def by blast

lemma uniq_tail_Cons:
  assumes "uniq fr x" "uniq_tail fr xs"
  shows "uniq_tail fr (x # xs)"
  unfolding uniq_tail_def
proof (intro allI impI)
  fix ys s t
  assume eq: "enc_tail fr (x # xs) @ s = enc_tail fr ys @ t"
    and ff: "\<forall>z \<in> set (x # xs) \<union> set ys. float_free z"
  from eq obtain y r where ys: "ys = y # r" by (cases ys) auto
  with eq have "enc fr x @ enc_tail fr xs @ s = enc fr y @ enc_tail fr r @ t" by simp
  then have "x = y \<and> enc_tail fr xs @ s = enc_tail fr r @ t"
    using ff ys by (intro uniqD [OF assms(1)]) auto
  with uniq_tailD [OF assms(2)] ff ys show "x # xs = ys \<and> s = t" by auto
qed

lemma uniq_tail_all: "\<forall>x \<in> set xs. uniq fr x \<Longrightarrow> uniq_tail fr xs"
proof (induction xs)
  case Nil
  have "s = t \<and> ys = []" if "CHR '']'' # s = enc_tail fr ys @ t" for ys s t
    using that by (cases ys) auto
  then show ?case by (auto simp: uniq_tail_def)
next
  case (Cons x xs)
  then show ?case by (simp add: uniq_tail_Cons)
qed

lemma uniq_JList:
  assumes "uniq_tail fr xs"
  shows "uniq fr (JList xs)"
  unfolding uniq_def
proof (intro allI impI)
  fix b s t
  assume eq: "enc fr (JList xs) @ s = enc fr b @ t" and ff: "float_free (JList xs)" "float_free b"
  from enc_shape [OF eq ff] obtain ys where b: "b = JList ys"
    by (cases b) (auto split: if_splits)
  show "JList xs = b \<and> s = t"
  proof (cases xs)
    case Nil
    with eq ff b show ?thesis by (cases ys) auto
  next
    case (Cons x r)
    with eq ff b have "ys \<noteq> []" by auto
    with eq b Cons have "enc_tail fr xs @ s = enc_tail fr ys @ t" by (cases ys) auto
    from uniq_tailD [OF assms this] ff b show ?thesis by simp
  qed
qed

lemma uniq_pairs_Cons:
  assumes "uniq fr v" "uniq_pairs fr d"
  shows "uniq_pairs fr ((k, v) # d)"
  unfolding uniq_pairs_def
proof (intro allI impI)
  fix e s t
  assume eq: "enc_pairs fr ((k, v) # d) @ s = enc_pairs fr e @ t"
    and ff: "float_free_pairs ((k, v) # d)" "float_free_pairs e"
  from eq obtain k' v' r where e: "e = (k', v') # r" by (cases e) auto
  with eq have "quote k @ ('':'' @ enc fr v @ enc_pairs fr d @ s) =
      quote k' @ ('':'' @ enc fr v' @ enc_pairs fr r @ t)" by simp
  from quote_split [OF this]
  have "k = k'" "enc fr v @ enc_pairs fr d @ s = enc fr v' @ enc_pairs fr r @ t" by auto
  moreover from this(2) have "v = v' \<and> enc_pairs fr d @ s = enc_pairs fr r @ t"
    using ff e by (intro uniqD [OF assms(1)]) auto
  ultimately show "(k, v) # d = e \<and> s = t"
    using assms(2) ff e unfolding uniq_pairs_def by auto
qed

lemma uniq_pairs_all: "\<forall>p \<in> set d. uniq fr (snd p) \<Longrightarrow> uniq_pairs fr d"
proof (induction d)
  case Nil
  have "s = t \<and> e = []" if "CHR ''}'' # s = enc_pairs fr e @ t" for e s t
    using that by (cases e) auto
  then show ?case by (auto simp: uniq_pairs_def)
next
  case (Cons p d)
  then show ?case by (cases p) (simp add: uniq_pairs_Cons)
qed

lemma uniq_JObj:
  assumes "uniq_pairs fr d"
  shows "uniq fr (JObj d)"
  unfolding uniq_def
proof (intro allI impI)
  fix b s t
  assume eq: "enc fr (JObj d) @ s = enc fr b @ t" and ff: "float_free (JObj d)" "float_free b"
  from enc_shape [OF eq ff] obtain e where b: "b = JObj e"
    by (cases b) (auto split: if_splits)
  show "JObj d = b \<and> s = t"
  proof (cases "d = [] \<or> e = []")
    case True
    with eq b show ?thesis by (cases d; cases e) (auto simp: quote_Cons)
  next
    case False
    with eq b have "enc_pairs fr d @ s = enc_pairs fr e @ t" by (cases d; cases e) auto
    with assms ff b show ?thesis unfolding uniq_pairs_def by auto
  qed
qed

lemma uniq_json: "uniq fr j"
proof (induction j)
  case (JList xs)
  then show ?case by (simp add: uniq_JList uniq_tail_all)
next
  case (JObj d)
  then have "\<forall>p \<in> set d. uniq fr (snd p)" by (auto simp: snds.simps)
  then show ?case by (simp add: uniq_JObj uniq_pairs_all)
next
  case (JInt i)
  have "j = JInt i \<and> s = t" if "enc fr (JInt i) @ s = enc fr j @ t" "float_free j"
      "no_digit s" "no_digit t" for j s t
    using that enc_shape [OF that(1)] dec_int_split [of i s _ t]
    by (cases j) (auto split: if_splits)
  then show ?case unfolding uniq_def by metis
next
  case (JStr x)
  have "j = JStr x \<and> s = t" if "enc fr (JStr x) @ s = enc fr j @ t" "float_free j" for j s t
    using that enc_shape [OF that(1)] quote_split [of x s _ t]
    by (cases j) (auto split: if_splits)
  then show ?case unfolding uniq_def by metis
next
  case JNull
  have "j = JNull \<and> s = t" if "enc fr JNull @ s = enc fr j @ t" "float_free j" for j s t
    using that enc_shape [OF that(1)] by (cases j) (auto split: if_splits)
  then show ?case unfolding uniq_def by metis
next
  case (JBool c)
  have "j = JBool c \<and> s = t" if "enc fr (JBool c) @ s = enc fr j @ t" "float_free j" for j s t
    using that enc_shape [OF that(1)] by (cases j) (auto split: if_splits)
  then show ?case unfolding uniq_def by metis
qed (simp add: uniq_def)

lemma enc_inj: "enc fr a = enc fr b \<Longrightarrow> float_free a \<Longrightarrow> float_free b \<Longrightarrow> a = b"
  using uniqD [OF uniq_json, of fr a "[]" b "[]"] by simp

subsection \<open>Sorting keys\<close>

lemma canon_pairs_map: "canon_pairs d = map (\<lambda>p. (fst p, canon (snd p))) d"
  by (induction d) auto

lemma float_free_pairs_iff: "float_free_pairs d \<longleftrightarrow> (\<forall>p \<in> set d. float_free (snd p))"
  by (induction d) auto

lemma float_free_canon: "float_free (canon j) = float_free j"
proof (induction j)
  case (JObj d)
  then have "\<forall>p \<in> set d. float_free (canon (snd p)) = float_free (snd p)"
    by (auto simp: snds.simps)
  then show ?case by (auto simp: float_free_pairs_iff canon_pairs_map)
qed simp_all

lemma dumps_eq_iff:
  "float_free a \<Longrightarrow> float_free b \<Longrightarrow> dumps fr a = dumps fr b \<longleftrightarrow> canon a = canon b"
  unfolding dumps_def by (metis enc_inj float_free_canon)

lemma nul_split:
  "CHR 0x00 \<notin> set a \<Longrightarrow> CHR 0x00 \<notin> set b \<Longrightarrow> a @ CHR 0x00 # s = b @ CHR 0x00 # t \<Longrightarrow> a = b \<and> s = t"
proof (induction a arbitrary: b)
  case Nil
  then show ?case by (cases b) auto
next
  case (Cons c a)
  then show ?case by (cases b) auto
qed

end
