(* ===== verification/Cw_Models.thy ===== *)
theory Cw_Models
  imports Py_Json
begin

text \<open>
  The data model of casework (\<^verbatim>\<open>src/src/proofops_casework/models.py\<close>): one record per pydantic
  model, one datatype per string literal type, the field patterns as executable predicates,
  and \<^verbatim>\<open>model_dump(mode="json")\<close> of each model. A dictionary field keeps insertion order.
\<close>

section \<open>Field patterns\<close>

definition ident_char :: "char \<Rightarrow> bool" where
  "ident_char c \<longleftrightarrow> is_alnum c \<or> c \<in> {CHR ''_'', CHR ''.'', CHR '':'', CHR ''-''}"

definition valid_identifier :: "string \<Rightarrow> bool" where
  "valid_identifier s = (case s of [] \<Rightarrow> False
     | c # r \<Rightarrow> is_alnum c \<and> list_all ident_char r \<and> 2 \<le> length r \<and> length r \<le> 95)"

definition valid_digest :: "string \<Rightarrow> bool" where
  "valid_digest s \<longleftrightarrow> length s = 64 \<and> list_all is_hexlow s"

definition valid_minor :: "int \<Rightarrow> bool" where
  "valid_minor n \<longleftrightarrow> 0 < n \<and> n \<le> 100000000"

definition valid_address :: "string \<Rightarrow> bool" where
  "valid_address s \<longleftrightarrow> length s = 42 \<and> take 2 s = ''0x'' \<and> list_all is_hex (drop 2 s)"

definition valid_method :: "string \<Rightarrow> bool" where
  "valid_method s = (case s of [] \<Rightarrow> False
     | c # r \<Rightarrow> is_alpha c \<and> list_all (\<lambda>d. is_alnum d \<or> d = CHR ''_'') r \<and> length r \<le> 63)"

definition to_lower :: "char \<Rightarrow> char" where
  "to_lower c = (if is_upper c then char_of ((of_char c :: nat) + 32) else c)"

definition py_lower :: "string \<Rightarrow> string" where
  "py_lower s = map to_lower s"

section \<open>Literals\<close>

datatype verdict = READY | DENY | NEEDS_HUMAN
datatype role = Owner | Investigator | Reviewer | Viewer
datatype case_kind = Dispute | Revocation
datatype case_status = OPEN | RESOLVED
datatype task_status = T_READY | T_DENY | T_NEEDS_HUMAN | T_SUSPENDED
datatype planner = DETERMINISTIC | REMOTE | DEGRADED

fun verdict_str :: "verdict \<Rightarrow> string" where
  "verdict_str READY = ''READY''"
| "verdict_str DENY = ''DENY''"
| "verdict_str NEEDS_HUMAN = ''NEEDS_HUMAN''"

fun role_str :: "role \<Rightarrow> string" where
  "role_str Owner = ''owner''"
| "role_str Investigator = ''investigator''"
| "role_str Reviewer = ''reviewer''"
| "role_str Viewer = ''viewer''"

fun kind_str :: "case_kind \<Rightarrow> string" where
  "kind_str Dispute = ''dispute''"
| "kind_str Revocation = ''revocation''"

fun case_status_str :: "case_status \<Rightarrow> string" where
  "case_status_str OPEN = ''OPEN''"
| "case_status_str RESOLVED = ''RESOLVED''"

fun task_status_str :: "task_status \<Rightarrow> string" where
  "task_status_str T_READY = ''READY''"
| "task_status_str T_DENY = ''DENY''"
| "task_status_str T_NEEDS_HUMAN = ''NEEDS_HUMAN''"
| "task_status_str T_SUSPENDED = ''SUSPENDED''"

fun planner_str :: "planner \<Rightarrow> string" where
  "planner_str DETERMINISTIC = ''DETERMINISTIC''"
| "planner_str REMOTE = ''REMOTE''"
| "planner_str DEGRADED = ''DEGRADED''"

text \<open>\<^verbatim>\<open>task.status = verdict\<close>: every verdict is also a task status.\<close>

fun status_of :: "verdict \<Rightarrow> task_status" where
  "status_of READY = T_READY"
| "status_of DENY = T_DENY"
| "status_of NEEDS_HUMAN = T_NEEDS_HUMAN"

lemma status_of_str [simp]: "task_status_str (status_of v) = verdict_str v"
  by (cases v) simp_all

lemma status_of_READY [simp]: "status_of v = T_READY \<longleftrightarrow> v = READY" "T_READY = status_of v \<longleftrightarrow> v = READY"
  by (cases v; simp)+

lemma task_status_str_inj [simp]: "task_status_str a = task_status_str b \<longleftrightarrow> a = b"
  by (cases a; cases b) simp_all

section \<open>Actors, scopes and intents\<close>

record actor =
  ac_id :: string
  ac_tenant :: string
  ac_role :: role
  ac_subjects :: "string list"

record scope =
  sc_subject :: string
  sc_chain :: int
  sc_target :: string
  sc_method :: string

record intent =
  in_scope :: scope
  in_amount :: int

text \<open>Building a scope from request fields: patterns, then the lower-case target.\<close>

definition make_scope :: "string \<Rightarrow> int \<Rightarrow> string \<Rightarrow> string \<Rightarrow> scope res" where
  "make_scope subj chain target meth =
     (if valid_identifier subj \<and> chain \<in> {8453, 84532} \<and> valid_address target \<and> valid_method meth
      then Inr \<lparr>sc_subject = subj, sc_chain = chain, sc_target = py_lower target, sc_method = meth\<rparr>
      else Inl (PyExc ''ValidationError''))"

definition scope_json :: "scope \<Rightarrow> json" where
  "scope_json s = JObj [(''subject_id'', JStr (sc_subject s)), (''chain_id'', JInt (sc_chain s)),
     (''target'', JStr (sc_target s)), (''method'', JStr (sc_method s))]"

definition intent_fields :: "intent \<Rightarrow> jobj" where
  "intent_fields i = [(''scope'', scope_json (in_scope i)), (''amount_minor'', JInt (in_amount i)),
     (''currency'', JStr ''USD'')]"

definition actor_json :: "actor \<Rightarrow> json" where
  "actor_json a = JObj [(''actor_id'', JStr (ac_id a)), (''tenant_id'', JStr (ac_tenant a)),
     (''role'', JStr (role_str (ac_role a))), (''subjects'', jstrs (ac_subjects a))]"

section \<open>Commands\<close>

record command =
  cm_key :: string
  cm_session :: string
  cm_revision :: int

definition valid_command :: "command \<Rightarrow> bool" where
  "valid_command c \<longleftrightarrow> valid_identifier (cm_key c) \<and> valid_identifier (cm_session c) \<and> 0 \<le> cm_revision c"

record baseline_command = command +
  bc_scope :: scope
  bc_limit :: int
  bc_expires :: int

record task_command = command +
  tc_intent :: intent
  tc_depends :: "string list"

record open_case_command = command +
  oc_scope :: scope
  oc_kind :: case_kind
  oc_evidence :: string

record reopen_command = command +
  ro_evidence :: string

record handoff_command = command +
  hc_report :: string
  hc_reviewer :: string

record resolve_command = command +
  rs_handoff :: string
  rs_resolution :: string
  rs_evidence :: string

record note_command = command +
  nc_scope :: scope
  nc_text :: string

text \<open>The request fields a pydantic model constrains beyond its types.\<close>

definition valid_task_command :: "task_command \<Rightarrow> bool" where
  "valid_task_command c \<longleftrightarrow> valid_identifier (cm_key c) \<and> valid_identifier (cm_session c)
     \<and> 0 \<le> cm_revision c \<and> valid_minor (in_amount (tc_intent c))
     \<and> list_all valid_identifier (tc_depends c) \<and> length (tc_depends c) \<le> 64"

definition valid_resolution :: "string \<Rightarrow> bool" where
  "valid_resolution r \<longleftrightarrow> r \<in> {''resolved'', ''false_positive_verified'', ''remediation_verified''}"

definition valid_note_text :: "string \<Rightarrow> bool" where
  "valid_note_text s \<longleftrightarrow> 1 \<le> py_len s \<and> py_len s \<le> 10000"

section \<open>The aggregate\<close>

record baseline =
  bl_scope :: scope
  bl_version :: int
  bl_limit :: int
  bl_expires :: int
  bl_actor :: string
  bl_seq :: int

record risk_case =
  rc_id :: string
  rc_scope :: scope
  rc_kind :: case_kind
  rc_version :: int
  rc_status :: case_status
  rc_opened_by :: string
  rc_opened_seq :: int
  rc_evidence :: string
  rc_resolution :: "string option"
  rc_resolved_by :: "string option"
  rc_resolved_seq :: "int option"

record task =
  tk_id :: string
  tk_intent :: intent
  tk_depends :: "string list"
  tk_taints :: "string dict"
  tk_status :: task_status
  tk_decision :: "string option"

record decision =
  dc_id :: string
  dc_task :: string
  dc_verdict :: verdict
  dc_reasons :: "string list"
  dc_causal :: "string list"
  dc_blockers :: "string list"
  dc_fingerprint :: string
  dc_basis :: string
  dc_revision :: int
  dc_session :: string
  dc_runtime :: string
  dc_process :: int
  dc_build :: string
  dc_created :: int
  dc_expires :: int
  dc_tool :: string
  dc_proof :: string

record report =
  rp_id :: string
  rp_case :: string
  rp_case_version :: int
  rp_investigator :: string
  rp_basis :: string
  rp_case_refs :: "string list"
  rp_affected :: "string list"
  rp_precedents :: "string list"
  rp_trace :: "jobj list"
  rp_receipt :: "jobj option"
  rp_planner :: planner
  rp_root :: string

record handoff =
  hf_id :: string
  hf_report :: string
  hf_case :: string
  hf_case_version :: int
  hf_reviewer :: string
  hf_investigator :: string
  hf_accepted :: bool

record workspace =
  ws_tenant :: string
  ws_revision :: int
  ws_baselines :: "baseline dict"
  ws_cases :: "risk_case dict"
  ws_case_history :: "risk_case list dict"
  ws_baseline_history :: "baseline list dict"
  ws_tasks :: "task dict"
  ws_decisions :: "decision dict"
  ws_reports :: "report dict"
  ws_handoffs :: "handoff dict"
  ws_lessons :: "jobj dict"
  ws_artifacts :: "jobj dict"
  ws_audit :: "jobj list"
  ws_idempotency :: "jobj dict"
  ws_root :: string

definition empty_workspace :: "string \<Rightarrow> workspace" where
  "empty_workspace tenant = \<lparr>ws_tenant = tenant, ws_revision = 0, ws_baselines = [], ws_cases = [],
     ws_case_history = [], ws_baseline_history = [], ws_tasks = [], ws_decisions = [],
     ws_reports = [], ws_handoffs = [], ws_lessons = [], ws_artifacts = [], ws_audit = [],
     ws_idempotency = [], ws_root = []\<rparr>"

section \<open>JSON dumps\<close>

definition dump_dict :: "('v \<Rightarrow> json) \<Rightarrow> 'v dict \<Rightarrow> json" where
  "dump_dict f d = JObj (map (\<lambda>(k, v). (k, f v)) d)"

definition baseline_json :: "env \<Rightarrow> baseline \<Rightarrow> json" where
  "baseline_json E b = JObj [(''scope'', scope_json (bl_scope b)), (''version'', JInt (bl_version b)),
     (''limit_minor'', JInt (bl_limit b)), (''expires_at'', JStr (dump_time E (bl_expires b))),
     (''actor_id'', JStr (bl_actor b)), (''event_seq'', JInt (bl_seq b))]"

definition case_json :: "risk_case \<Rightarrow> json" where
  "case_json c = JObj [(''case_id'', JStr (rc_id c)), (''scope'', scope_json (rc_scope c)),
     (''kind'', JStr (kind_str (rc_kind c))), (''version'', JInt (rc_version c)),
     (''status'', JStr (case_status_str (rc_status c))), (''opened_by'', JStr (rc_opened_by c)),
     (''opened_seq'', JInt (rc_opened_seq c)), (''evidence_digest'', JStr (rc_evidence c)),
     (''resolution'', jopt JStr (rc_resolution c)), (''resolved_by'', jopt JStr (rc_resolved_by c)),
     (''resolved_seq'', jopt JInt (rc_resolved_seq c))]"

definition task_json :: "task \<Rightarrow> json" where
  "task_json t = JObj [(''task_id'', JStr (tk_id t)), (''intent'', JObj (intent_fields (tk_intent t))),
     (''depends_on'', jstrs (tk_depends t)), (''taints'', dump_dict JStr (tk_taints t)),
     (''status'', JStr (task_status_str (tk_status t))),
     (''current_decision_id'', jopt JStr (tk_decision t))]"

text \<open>A decision without its \<^verbatim>\<open>proof_root\<close>, the payload of the proof, and the whole.\<close>

definition decision_payload :: "env \<Rightarrow> decision \<Rightarrow> jobj" where
  "decision_payload E d = [(''decision_id'', JStr (dc_id d)), (''task_id'', JStr (dc_task d)),
     (''verdict'', JStr (verdict_str (dc_verdict d))), (''reason_codes'', jstrs (dc_reasons d)),
     (''causal_refs'', jstrs (dc_causal d)), (''active_blockers'', jstrs (dc_blockers d)),
     (''action_fingerprint'', JStr (dc_fingerprint d)), (''basis_hash'', JStr (dc_basis d)),
     (''memory_revision'', JInt (dc_revision d)), (''session_id'', JStr (dc_session d)),
     (''runtime_id'', JStr (dc_runtime d)), (''process_id'', JInt (dc_process d)),
     (''build_commit'', JStr (dc_build d)), (''created_at'', JStr (dump_time E (dc_created d))),
     (''expires_at'', JStr (dump_time E (dc_expires d))), (''tool'', JStr (dc_tool d)),
     (''executable'', JBool False)]"

definition decision_json :: "env \<Rightarrow> decision \<Rightarrow> json" where
  "decision_json E d = JObj (decision_payload E d @ [(''proof_root'', JStr (dc_proof d))])"

definition report_payload :: "report \<Rightarrow> jobj" where
  "report_payload r = [(''report_id'', JStr (rp_id r)), (''case_id'', JStr (rp_case r)),
     (''case_version'', JInt (rp_case_version r)), (''investigator_id'', JStr (rp_investigator r)),
     (''basis_hash'', JStr (rp_basis r)), (''case_refs'', jstrs (rp_case_refs r)),
     (''affected_tasks'', jstrs (rp_affected r)), (''precedent_ids'', jstrs (rp_precedents r)),
     (''trace'', JList (map JObj (rp_trace r))), (''model_receipt'', jopt JObj (rp_receipt r)),
     (''planner_status'', JStr (planner_str (rp_planner r))),
     (''raw_text_received_by_model'', JBool False), (''authoritative'', JBool False)]"

definition report_json :: "report \<Rightarrow> json" where
  "report_json r = JObj (report_payload r @ [(''report_root'', JStr (rp_root r))])"

definition handoff_json :: "handoff \<Rightarrow> json" where
  "handoff_json h = JObj [(''handoff_id'', JStr (hf_id h)), (''report_id'', JStr (hf_report h)),
     (''case_id'', JStr (hf_case h)), (''case_version'', JInt (hf_case_version h)),
     (''reviewer_id'', JStr (hf_reviewer h)), (''investigator_id'', JStr (hf_investigator h)),
     (''accepted'', JBool (hf_accepted h))]"

text \<open>\<^verbatim>\<open>state_payload\<close>: the whole workspace but its \<^verbatim>\<open>state_root\<close>.\<close>

definition state_payload :: "env \<Rightarrow> workspace \<Rightarrow> json" where
  "state_payload E w = JObj [(''schema_version'', JStr ''memoryguard-casework/2''),
     (''tenant_id'', JStr (ws_tenant w)), (''revision'', JInt (ws_revision w)),
     (''baselines'', dump_dict (baseline_json E) (ws_baselines w)),
     (''cases'', dump_dict case_json (ws_cases w)),
     (''case_history'', dump_dict (\<lambda>h. JList (map case_json h)) (ws_case_history w)),
     (''baseline_history'', dump_dict (\<lambda>h. JList (map (baseline_json E) h)) (ws_baseline_history w)),
     (''tasks'', dump_dict task_json (ws_tasks w)),
     (''decisions'', dump_dict (decision_json E) (ws_decisions w)),
     (''reports'', dump_dict report_json (ws_reports w)),
     (''handoffs'', dump_dict handoff_json (ws_handoffs w)),
     (''lessons'', dump_dict JObj (ws_lessons w)),
     (''artifacts'', dump_dict JObj (ws_artifacts w)),
     (''audit'', JList (map JObj (ws_audit w))),
     (''idempotency'', dump_dict JObj (ws_idempotency w))]"

end
