(* ===== verification/Cw_Core.thy ===== *)
theory Cw_Core
  imports Cw_Models
begin

text \<open>
  The decision kernel of casework (\<^verbatim>\<open>core.py\<close>, and \<^verbatim>\<open>evidence_heads\<close> /
  \<^verbatim>\<open>evidence_basis\<close> of \<^verbatim>\<open>source_state.py\<close>, which it calls): authorization, sealing and
  validation of the aggregate, the dependency closure, risk propagation, the bases a decision
  and an investigation are bound to, and the policy itself. Definitions first; the facts about
  the graph algorithms and about the policy are in \<^verbatim>\<open>Cw_Graph\<close> and \<^verbatim>\<open>Cw_Policy\<close>.
\<close>

section \<open>Identity and permissions\<close>

definition scope_key :: "env \<Rightarrow> scope \<Rightarrow> string" where
  "scope_key E s = digest E ''scope'' (scope_json s)"

definition authorize :: "actor \<Rightarrow> role set \<Rightarrow> string option \<Rightarrow> unit res" where
  "authorize a roles subj =
     check (ac_role a \<in> roles \<and> (case subj of None \<Rightarrow> True | Some s \<Rightarrow> s \<in> set (ac_subjects a)))
       (Casework ''FORBIDDEN'' 403)"

definition new_id :: "string \<Rightarrow> string \<Rightarrow> string" where
  "new_id prefix uuid = prefix @ ''_'' @ uuid"

section \<open>Sealing and validation\<close>

definition zero_hash :: string where
  "zero_hash = replicate 64 (CHR ''0'')"

definition seal :: "env \<Rightarrow> workspace \<Rightarrow> workspace" where
  "seal E w = w\<lparr>ws_root := digest E ''workspace'' (state_payload E w)\<rparr>"

text \<open>One event of the audit log against its position and the hash of the one before.\<close>

definition event_ok :: "env \<Rightarrow> int \<Rightarrow> string \<Rightarrow> jobj \<Rightarrow> bool" where
  "event_ok E n prev ev \<longleftrightarrow>
     py_eq (jget ev ''seq'') (JInt n) \<and> jget ev ''previous_hash'' = JStr prev \<and>
     jget ev ''event_hash'' = JStr (digest E ''event'' (JObj (filter (\<lambda>(k, v). k \<noteq> ''event_hash'') ev)))"

fun audit_ok :: "env \<Rightarrow> int \<Rightarrow> string \<Rightarrow> jobj list \<Rightarrow> bool" where
  "audit_ok E n prev [] = True"
| "audit_ok E n prev (ev # evs) =
     (event_ok E n prev ev \<and>
      audit_ok E (n + 1) (case jget ev ''event_hash'' of JStr h \<Rightarrow> h | _ \<Rightarrow> []) evs)"

definition history_ok :: "('v \<Rightarrow> int) \<Rightarrow> 'v list dict \<Rightarrow> string \<times> 'v \<Rightarrow> bool" where
  "history_ok ver hist = (\<lambda>(key, x).
     let h = (case map_of hist key of None \<Rightarrow> [] | Some h \<Rightarrow> h)
     in h \<noteq> [] \<and> last h = x \<and> map ver h = [1..ver x])"

definition decision_ok :: "env \<Rightarrow> string \<times> decision \<Rightarrow> bool" where
  "decision_ok E = (\<lambda>(key, d). key = dc_id d \<and>
     dc_proof d = digest E ''decision'' (JObj (decision_payload E d)))"

definition report_ok :: "env \<Rightarrow> string \<times> report \<Rightarrow> bool" where
  "report_ok E = (\<lambda>(key, r). key = rp_id r \<and>
     rp_root r = digest E ''investigation'' (JObj (report_payload r)))"

definition validate_workspace :: "env \<Rightarrow> workspace \<Rightarrow> unit res" where
  "validate_workspace E w =
     ebind (check (ws_root w = digest E ''workspace'' (state_payload E w))
              (Casework ''MEMORY_INTEGRITY_FAILED'' 503)) (\<lambda>_.
     ebind (check (audit_ok E 1 zero_hash (ws_audit w)) (Casework ''AUDIT_INTEGRITY_FAILED'' 503)) (\<lambda>_.
     ebind (check (int (length (ws_audit w)) = ws_revision w) (Casework ''MEMORY_REVISION_INVALID'' 503)) (\<lambda>_.
     ebind (check (list_all (history_ok rc_version (ws_case_history w)) (ws_cases w))
              (Casework ''CASE_HISTORY_INTEGRITY_FAILED'' 503)) (\<lambda>_.
     ebind (check (list_all (history_ok bl_version (ws_baseline_history w)) (ws_baselines w))
              (Casework ''BASELINE_HISTORY_INTEGRITY_FAILED'' 503)) (\<lambda>_.
     ebind (check (list_all (decision_ok E) (ws_decisions w)) (Casework ''DECISION_INTEGRITY_FAILED'' 503)) (\<lambda>_.
     check (list_all (report_ok E) (ws_reports w)) (Casework ''REPORT_INTEGRITY_FAILED'' 503)))))))"

section \<open>The dependency closure\<close>

text \<open>
  The depth-first walk of \<^verbatim>\<open>ancestors\<close>. The set \<^verbatim>\<open>visiting\<close> holds exactly the path from the
  root, so it is passed down; \<^verbatim>\<open>visited\<close> and \<^verbatim>\<open>ordered\<close> are threaded through the calls.
\<close>

type_synonym walk_state = "string list \<times> string list"

definition unvisited :: "task dict \<Rightarrow> string list \<Rightarrow> nat" where
  "unvisited ts visiting = card (set (keys ts) - set visiting)"

lemma unvisited_less:
  assumes "map_of ts k = Some t" "k \<notin> set visiting"
  shows "unvisited ts (k # visiting) < unvisited ts visiting"
proof -
  have "set (keys ts) - set (k # visiting) \<subset> set (keys ts) - set visiting"
    using assms map_of_in_keys [OF assms(1)] by auto
  then show ?thesis unfolding unvisited_def by (rule psubset_card_mono [rotated]) simp
qed

function walk :: "task dict \<Rightarrow> string list \<Rightarrow> walk_state \<Rightarrow> string \<Rightarrow> walk_state res"
  and walk_list :: "task dict \<Rightarrow> string list \<Rightarrow> walk_state \<Rightarrow> string list \<Rightarrow> walk_state res"
where
  "walk ts visiting st k =
     (if k \<in> set visiting then Inl (Casework ''DEPENDENCY_CYCLE'' 503)
      else if k \<in> set (fst st) then Inr st
      else case map_of ts k of
        None \<Rightarrow> Inl (Casework ''DEPENDENCY_MISSING'' 503)
      | Some t \<Rightarrow> ebind (walk_list ts (k # visiting) st (sort (tk_depends t)))
          (\<lambda>(visited, ordered). Inr (k # visited, ordered @ [k])))"
| "walk_list ts visiting st [] = Inr st"
| "walk_list ts visiting st (p # ps) =
     ebind (walk ts visiting st p) (\<lambda>st'. walk_list ts visiting st' ps)"
  by pat_completeness auto
termination
  by (relation "measures [\<lambda>x. case x of Inl (ts, v, st, k) \<Rightarrow> unvisited ts v
                            | Inr (ts, v, st, ps) \<Rightarrow> unvisited ts v,
                          \<lambda>x. case x of Inl _ \<Rightarrow> 0 | Inr (ts, v, st, ps) \<Rightarrow> Suc (length ps)]")
    (auto simp: unvisited_less)

declare walk.simps [simp del]

definition ancestors :: "workspace \<Rightarrow> string \<Rightarrow> string list res" where
  "ancestors w task_id = ebind (walk (ws_tasks w) [] ([], []) task_id) (\<lambda>(visited, ordered). Inr ordered)"

section \<open>Risk propagation\<close>

text \<open>The fixed point of \<^verbatim>\<open>affected_tasks\<close>: add every task with an affected parent.\<close>

definition added_tasks :: "task dict \<Rightarrow> string list \<Rightarrow> string list" where
  "added_tasks ts result =
     map fst (filter (\<lambda>(k, t). k \<notin> set result \<and> list_ex (\<lambda>p. p \<in> set result) (tk_depends t)) ts)"

lemma added_tasks_new: "k \<in> set (added_tasks ts result) \<Longrightarrow> k \<in> set (keys ts) \<and> k \<notin> set result"
  by (auto simp: added_tasks_def)

function affected_loop :: "task dict \<Rightarrow> string list \<Rightarrow> string list" where
  "affected_loop ts result =
     (let added = added_tasks ts result
      in if added = [] then sorted_set result else affected_loop ts (result @ added))"
  by pat_completeness auto
termination
proof (relation "measure (\<lambda>(ts, result). unvisited ts result)")
  fix ts :: "task dict" and result added
  assume a: "added = added_tasks ts result" and ne: "added \<noteq> []"
  then have h: "hd added \<in> set added" by simp
  with a added_tasks_new have "hd added \<in> set (keys ts) - set result" by blast
  with h have "set (keys ts) - set (result @ added) \<subset> set (keys ts) - set result" by auto
  then have "unvisited ts (result @ added) < unvisited ts result"
    unfolding unvisited_def by (rule psubset_card_mono [rotated]) simp
  then show "((ts, result @ added), (ts, result)) \<in> measure (\<lambda>(ts, result). unvisited ts result)"
    by simp
qed simp

declare affected_loop.simps [simp del]

definition task_scope :: "env \<Rightarrow> task \<Rightarrow> string" where
  "task_scope E t = scope_key E (in_scope (tk_intent t))"

definition affected_tasks :: "env \<Rightarrow> workspace \<Rightarrow> scope \<Rightarrow> string list" where
  "affected_tasks E w s = (let wanted = scope_key E s in
     affected_loop (ws_tasks w) (map fst (filter (\<lambda>(k, t). task_scope E t = wanted) (ws_tasks w))))"

section \<open>Bases\<close>

definition task_at :: "workspace \<Rightarrow> string \<Rightarrow> task res" where
  "task_at w k = (case map_of (ws_tasks w) k of None \<Rightarrow> Inl (PyExc ''KeyError'') | Some t \<Rightarrow> Inr t)"

definition case_at :: "workspace \<Rightarrow> string \<Rightarrow> risk_case res" where
  "case_at w k = (case map_of (ws_cases w) k of None \<Rightarrow> Inl (PyExc ''KeyError'') | Some c \<Rightarrow> Inr c)"

text \<open>The closure of a task, with the tasks its keys name.\<close>

definition closure :: "workspace \<Rightarrow> string \<Rightarrow> (string \<times> task) list res" where
  "closure w task_id = ebind (ancestors w task_id)
     (emap (\<lambda>k. ebind (task_at w k) (\<lambda>t. Inr (k, t))))"

definition scoped_cases :: "env \<Rightarrow> workspace \<Rightarrow> string list \<Rightarrow> risk_case dict" where
  "scoped_cases E w scopes = filter (\<lambda>(k, c). scope_key E (rc_scope c) \<in> set scopes) (ws_cases w)"

definition resolution_links :: "workspace \<Rightarrow> risk_case dict \<Rightarrow> jobj dict" where
  "resolution_links w cases = filter (\<lambda>(k, v). jget v ''kind'' = JStr ''CASE_RESOLUTION_PROOF'' \<and>
     (case jget v ''case_id'' of JStr i \<Rightarrow> i \<in> set (keys cases) | _ \<Rightarrow> False)) (ws_artifacts w)"

definition task_basis_body :: "env \<Rightarrow> workspace \<Rightarrow> string \<Rightarrow> (string \<times> task) list \<Rightarrow> jobj" where
  "task_basis_body E w task_id cl =
     (let scopes = map (task_scope E \<circ> snd) cl;
          cases = scoped_cases E w scopes;
          links = resolution_links w cases
      in [(''tasks'', JObj (map (\<lambda>(k, t). (k, JObj [
              (''intent'', JObj (intent_fields (tk_intent t))),
              (''depends_on'', jstrs (tk_depends t)),
              (''parent_decision'', if k \<noteq> task_id then jopt JStr (tk_decision t) else JNull),
              (''parent_status'', if k \<noteq> task_id then JStr (task_status_str (tk_status t)) else JNull)])) cl)),
          (''baselines'', dump_dict (baseline_json E) (filter (\<lambda>(k, b). k \<in> set scopes) (ws_baselines w))),
          (''cases'', dump_dict case_json cases)]
         @ (if links \<noteq> [] then [(''resolution_evidence'', dump_dict JObj links)] else []))"

definition task_basis :: "env \<Rightarrow> workspace \<Rightarrow> string \<Rightarrow> string res" where
  "task_basis E w task_id = ebind (closure w task_id)
     (\<lambda>cl. Inr (digest E ''task-basis'' (JObj (task_basis_body E w task_id cl))))"

definition lesson_applies :: "env \<Rightarrow> workspace \<Rightarrow> string \<Rightarrow> risk_case \<Rightarrow> jobj \<Rightarrow> bool" where
  "lesson_applies E w case_id current lesson =
     (case (case jget lesson ''case_id'' of JStr i \<Rightarrow> map_of (ws_cases w) i | _ \<Rightarrow> None) of
        None \<Rightarrow> False
      | Some source \<Rightarrow> rc_id source \<noteq> case_id \<and> rc_status source = RESOLVED \<and>
          py_eq (jget lesson ''case_version'') (JInt (rc_version source)) \<and>
          py_eq (jget lesson ''resolved_seq'') (jopt JInt (rc_resolved_seq source)) \<and>
          jget lesson ''scope_key'' = JStr (scope_key E (rc_scope current)) \<and>
          jget lesson ''kind'' = JStr (kind_str (rc_kind current)))"

definition active_precedents :: "env \<Rightarrow> workspace \<Rightarrow> string \<Rightarrow> string list res" where
  "active_precedents E w case_id = ebind (case_at w case_id) (\<lambda>current.
     Inr (sort (map fst (filter (\<lambda>(k, l). lesson_applies E w case_id current l) (ws_lessons w)))))"

text \<open>
  \<^verbatim>\<open>evidence_heads\<close>: the current head of each source of a case; a second current head for
  one source is a conflict. The service writes a string \<^verbatim>\<open>source_id\<close> into every head; a head
  without one cannot be sorted with the others and is reported as the TypeError it causes.
\<close>

definition head_of_case :: "string \<Rightarrow> risk_case \<Rightarrow> jobj \<Rightarrow> bool" where
  "head_of_case case_id c head \<longleftrightarrow> jget head ''kind'' = JStr ''SOURCE_HEAD'' \<and>
     jget head ''case_id'' = JStr case_id \<and> py_eq (jget head ''case_version'') (JInt (rc_version c))"

fun collect_heads :: "jobj dict \<Rightarrow> jobj list \<Rightarrow> jobj dict res" where
  "collect_heads result [] = Inr result"
| "collect_heads result (head # heads) =
     (case jget head ''source_id'' of
        JStr s \<Rightarrow> (if s \<in> set (keys result) then Inl (Casework ''SOURCE_CONFLICT'' 503)
                   else collect_heads (result @ [(s, head)]) heads)
      | _ \<Rightarrow> Inl (PyExc ''TypeError''))"

definition evidence_heads :: "workspace \<Rightarrow> string \<Rightarrow> jobj dict res" where
  "evidence_heads w case_id = ebind (case_at w case_id) (\<lambda>c.
     collect_heads [] (filter (head_of_case case_id c) (map snd (ws_artifacts w))))"

definition evidence_basis :: "workspace \<Rightarrow> string \<Rightarrow> jobj res" where
  "evidence_basis w case_id = ebind (evidence_heads w case_id) (\<lambda>heads.
     Inr (map (\<lambda>(k, h). (k, JObj (filter (\<lambda>(f, v). f \<noteq> ''kind'') h))) (sort_key fst heads)))"

definition investigation_basis :: "env \<Rightarrow> workspace \<Rightarrow> string \<Rightarrow> string res" where
  "investigation_basis E w case_id =
     ebind (case_at w case_id) (\<lambda>c.
     ebind (emap (\<lambda>k. ebind (task_basis E w k) (\<lambda>b. Inr (k, JStr b))) (affected_tasks E w (rc_scope c))) (\<lambda>affected.
     ebind (active_precedents E w case_id) (\<lambda>precedents.
     ebind (evidence_basis w case_id) (\<lambda>external.
     Inr (digest E ''investigation-basis'' (JObj (
       [(''case'', case_json c), (''affected'', JObj affected),
        (''precedents'', JObj (map (\<lambda>k. (k, JObj (case map_of (ws_lessons w) k of None \<Rightarrow> [] | Some l \<Rightarrow> l))) precedents))]
       @ (if external \<noteq> [] then [(''external_evidence'', JObj external)] else []))))))))"

section \<open>The policy\<close>

type_synonym policy = "verdict \<times> string list \<times> string list \<times> string list"

definition version_ref :: "string \<Rightarrow> string \<Rightarrow> int \<Rightarrow> string" where
  "version_ref kind key v = kind @ '':'' @ key @ '':v'' @ dec_int v"

definition open_blockers :: "risk_case dict \<Rightarrow> string list" where
  "open_blockers cases = sort (map fst (filter (\<lambda>(k, c). rc_status c = OPEN) cases))"

text \<open>The causal references: open cases in the order of the blockers, then resolved ones.\<close>

definition causal_refs :: "risk_case dict \<Rightarrow> string list" where
  "causal_refs cases =
     map (\<lambda>k. version_ref ''case'' k (case map_of cases k of None \<Rightarrow> 0 | Some c \<Rightarrow> rc_version c))
       (open_blockers cases)
     @ sort (map (\<lambda>(k, c). version_ref ''resolution'' k (rc_version c))
         (filter (\<lambda>(k, c). rc_status c = RESOLVED) cases))"

text \<open>The baseline loop: the first failing task of the closure decides the reason.\<close>

fun baseline_loop :: "env \<Rightarrow> workspace \<Rightarrow> int \<Rightarrow> string list \<Rightarrow> (string \<times> task) list \<Rightarrow> string option \<times> string list"
where
  "baseline_loop E w now causal [] = (None, causal)"
| "baseline_loop E w now causal ((k, t) # cl) =
     (case map_of (ws_baselines w) (task_scope E t) of
        None \<Rightarrow> (Some ''BASELINE_MISSING'', causal)
      | Some b \<Rightarrow>
          (let causal' = causal @ [version_ref ''baseline'' (scope_key E (bl_scope b)) (bl_version b)]
           in if bl_expires b \<le> now then (Some ''BASELINE_EXPIRED'', causal')
              else if in_amount (tk_intent t) > bl_limit b then (Some ''LIMIT_EXCEEDED'', causal')
              else baseline_loop E w now causal' cl))"

text \<open>\<^verbatim>\<open>state.decisions.get(task.current_decision_id or "")\<close>\<close>

definition current_decision :: "workspace \<Rightarrow> task \<Rightarrow> decision option" where
  "current_decision w t = map_of (ws_decisions w) (case tk_decision t of None \<Rightarrow> [] | Some d \<Rightarrow> d)"

text \<open>One parent of the closure: its own draft must still be a live READY.\<close>

definition parent_live :: "env \<Rightarrow> workspace \<Rightarrow> int \<Rightarrow> string \<times> task \<Rightarrow> bool res" where
  "parent_live E w now = (\<lambda>(k, parent).
     case current_decision w parent of
       None \<Rightarrow> Inr False
     | Some prev \<Rightarrow>
         (if tk_status parent \<noteq> T_READY \<or> tk_taints parent \<noteq> [] \<or> dc_verdict prev \<noteq> READY
             \<or> dc_task prev \<noteq> k \<or> dc_expires prev \<le> now then Inr False
          else ebind (task_basis E w k) (\<lambda>basis. Inr (dc_basis prev = basis))))"

fun parents_live :: "env \<Rightarrow> workspace \<Rightarrow> int \<Rightarrow> (string \<times> task) list \<Rightarrow> bool res" where
  "parents_live E w now [] = Inr True"
| "parents_live E w now (p # ps) =
     ebind (parent_live E w now p) (\<lambda>ok. if ok then parents_live E w now ps else Inr False)"

definition policy_result :: "env \<Rightarrow> workspace \<Rightarrow> string \<Rightarrow> int \<Rightarrow> bool \<Rightarrow> policy res" where
  "policy_result E w task_id now explicit_review =
     ebind (task_at w task_id) (\<lambda>t.
     ebind (closure w task_id) (\<lambda>cl.
     let cases = scoped_cases E w (map (task_scope E \<circ> snd) cl);
         blockers = open_blockers cases;
         causal = causal_refs cases
     in if blockers \<noteq> [] then Inr (DENY, [''OPEN_RISK_RECALLED''], causal, blockers)
        else (case baseline_loop E w now causal cl of
          (Some reason, refs) \<Rightarrow> Inr (NEEDS_HUMAN, [reason], refs, [])
        | (None, refs) \<Rightarrow>
            ebind (parents_live E w now (filter (\<lambda>(k, p). k \<noteq> task_id) cl)) (\<lambda>live.
            if \<not> live then Inr (NEEDS_HUMAN, [''DEPENDENCY_REVIEW_REQUIRED''], refs, [])
            else if tk_taints t \<noteq> [] \<and> \<not> explicit_review
              then Inr (NEEDS_HUMAN, [''EXPLICIT_RECONSIDERATION_REQUIRED''], refs, [])
            else Inr (READY, [''CURRENT_POLICY_PASSED'', ''HUMAN_CONFIRMATION_STILL_REQUIRED''], refs, [])))))"

section \<open>Validity, expiry, recovery\<close>

record validity =
  va_current :: bool
  va_preparable :: bool
  va_verdict :: verdict
  va_reasons :: "string list"
  va_blockers :: "string list"
  va_invalid :: "string list"

definition decision_validity :: "env \<Rightarrow> workspace \<Rightarrow> string \<Rightarrow> int \<Rightarrow> validity res" where
  "decision_validity E w task_id now =
     ebind (task_at w task_id) (\<lambda>t.
     ebind (policy_result E w task_id now False) (\<lambda>(v, reasons, _, blockers).
     ebind (case current_decision w t of
         None \<Rightarrow> Inr [''DECISION_MISSING'']
       | Some d \<Rightarrow> ebind (task_basis E w task_id) (\<lambda>basis. Inr (
           (if dc_expires d \<le> now then [''DECISION_EXPIRED''] else []) @
           (if dc_basis d \<noteq> basis then [''MEMORY_BASIS_CHANGED''] else []) @
           (if tk_status t \<noteq> status_of (dc_verdict d) then [''TASK_STATUS_CHANGED''] else []) @
           (if dc_verdict d \<noteq> v \<or> sort (dc_reasons d) \<noteq> sort reasons then [''CURRENT_POLICY_CHANGED''] else []))))
     (\<lambda>invalid. Inr \<lparr>va_current = (invalid = []), va_preparable = (invalid = [] \<and> v = READY),
        va_verdict = v, va_reasons = reasons, va_blockers = blockers, va_invalid = invalid\<rparr>)))"

definition validity_fields :: "validity \<Rightarrow> jobj" where
  "validity_fields v = [(''current_proof_valid'', JBool (va_current v)),
     (''review_preparable'', JBool (va_preparable v)),
     (''effective_verdict'', JStr (verdict_str (va_verdict v))),
     (''effective_reason_codes'', jstrs (va_reasons v)),
     (''active_blockers'', jstrs (va_blockers v)), (''proof_invalid_reasons'', jstrs (va_invalid v))]"

definition task_limits :: "env \<Rightarrow> workspace \<Rightarrow> string \<Rightarrow> string \<times> task \<Rightarrow> int list" where
  "task_limits E w task_id = (\<lambda>(k, t).
     (case map_of (ws_baselines w) (task_scope E t) of None \<Rightarrow> [] | Some b \<Rightarrow> [bl_expires b]) @
     (if k \<noteq> task_id then (case current_decision w t of None \<Rightarrow> [] | Some d \<Rightarrow> [dc_expires d]) else []))"

definition expiry_limits :: "env \<Rightarrow> workspace \<Rightarrow> string \<Rightarrow> (string \<times> task) list \<Rightarrow> int list" where
  "expiry_limits E w task_id cl = concat (map (task_limits E w task_id) cl)"

definition ready_expiry :: "env \<Rightarrow> workspace \<Rightarrow> string \<Rightarrow> int \<Rightarrow> int \<Rightarrow> int res" where
  "ready_expiry E w task_id now default_expiry =
     ebind (closure w task_id) (\<lambda>cl.
     let result = fold min (expiry_limits E w task_id cl) default_expiry
     in if result \<le> now then Inl (Casework ''READY_BASIS_EXPIRED'' 409) else Inr result)"

definition next_step :: "validity \<Rightarrow> string" where
  "next_step v =
     (if va_preparable v then ''NO_REVIEW_NEEDED''
      else if va_blockers v \<noteq> [] then ''INVESTIGATE_AND_RESOLVE_EACH_CASE''
      else if list_ex (\<lambda>x. x \<in> {''BASELINE_MISSING'', ''BASELINE_EXPIRED'', ''LIMIT_EXCEEDED''}) (va_reasons v)
        then ''OWNER_REVIEW_BASELINE_OR_REQUEST''
      else if ''DEPENDENCY_REVIEW_REQUIRED'' \<in> set (va_reasons v) then ''REVIEW_ANCESTORS_FIRST''
      else ''EXPLICIT_RECONSIDERATION'')"

definition recovery_plan :: "env \<Rightarrow> workspace \<Rightarrow> string \<Rightarrow> int \<Rightarrow> jobj res" where
  "recovery_plan E w task_id now =
     ebind (closure w task_id) (\<lambda>cl.
     ebind (emap (\<lambda>(k, t). ebind (decision_validity E w k now) (\<lambda>v. Inr (JObj (
        [(''task_id'', JStr k), (''required_predecessors'', jstrs (tk_depends t)),
         (''next_step'', JStr (next_step v))] @ validity_fields v)))) cl) (\<lambda>rows.
     ebind (task_basis E w task_id) (\<lambda>basis. Inr
       [(''task_id'', JStr task_id), (''memory_revision'', JInt (ws_revision w)),
        (''basis_hash'', JStr basis), (''as_of'', JStr (iso_time E now)),
        (''ordered_steps'', JList rows), (''read_only'', JBool True), (''executable'', JBool False),
        (''note'', JStr ''Refresh after each command. This checklist never resolves risks or grants authority.'')])))"

end
