(* ===== verification/Cw_Graph.thy ===== *)
theory Cw_Graph
  imports Cw_Core
begin

text \<open>
  The two graph algorithms of \<^verbatim>\<open>core.py\<close> against their specification. \<^verbatim>\<open>ancestors\<close> succeeds
  exactly when the tasks below the given one are all present and acyclic, and then lists them
  without repetition, parents first; \<^verbatim>\<open>affected_tasks\<close> is the set of tasks reachable from a
  task of the scope.
\<close>

section \<open>Dependency edges\<close>

text \<open>\<open>edge ts p k\<close>: task \<open>k\<close> depends on \<open>p\<close>.\<close>

definition edge :: "task dict \<Rightarrow> string \<Rightarrow> string \<Rightarrow> bool" where
  "edge ts p k \<longleftrightarrow> (case map_of ts k of None \<Rightarrow> False | Some t \<Rightarrow> p \<in> set (tk_depends t))"

lemma edge_iff: "edge ts p k \<longleftrightarrow> (\<exists>t. map_of ts k = Some t \<and> p \<in> set (tk_depends t))"
  by (auto simp: edge_def split: option.splits)

abbreviation below :: "task dict \<Rightarrow> string \<Rightarrow> string \<Rightarrow> bool" where
  "below ts \<equiv> (edge ts)\<^sup>*\<^sup>*"

text \<open>Every task at or below \<open>k\<close> exists, and none is below itself.\<close>

definition well_founded_below :: "task dict \<Rightarrow> string \<Rightarrow> bool" where
  "well_founded_below ts k \<longleftrightarrow>
     (\<forall>x. below ts x k \<longrightarrow> map_of ts x \<noteq> None \<and> \<not> (edge ts)\<^sup>+\<^sup>+ x x)"

lemma well_founded_edge: "well_founded_below ts k \<Longrightarrow> edge ts p k \<Longrightarrow> well_founded_below ts p"
  unfolding well_founded_below_def by (meson rtranclp.rtrancl_into_rtrancl)

section \<open>The walk\<close>

text \<open>A list in which every task comes after the tasks it depends on, each once.\<close>

definition topological :: "task dict \<Rightarrow> string list \<Rightarrow> bool" where
  "topological ts os \<longleftrightarrow> (\<forall>ys k zs. os = ys @ k # zs \<longrightarrow>
     k \<notin> set ys \<and> (\<exists>t. map_of ts k = Some t \<and> set (tk_depends t) \<subseteq> set ys))"

lemma topological_Nil [simp]: "topological ts []"
  by (simp add: topological_def)

lemma topologicalD:
  "topological ts (ys @ k # zs) \<Longrightarrow> map_of ts k = Some t \<Longrightarrow> set (tk_depends t) \<subseteq> set ys"
  unfolding topological_def by (metis option.inject)

lemma topological_snoc:
  "topological ts os \<Longrightarrow> k \<notin> set os \<Longrightarrow> map_of ts k = Some t \<Longrightarrow> set (tk_depends t) \<subseteq> set os \<Longrightarrow>
   topological ts (os @ [k])"
  unfolding topological_def
  by (auto simp: append_eq_append_conv2 Cons_eq_append_conv append_eq_Cons_conv)

lemma topological_distinct: "topological ts os \<Longrightarrow> distinct os"
proof (induction os rule: rev_induct)
  case (snoc k os)
  from snoc.prems have "topological ts os" unfolding topological_def by fastforce
  moreover from snoc.prems have "k \<notin> set os" unfolding topological_def by blast
  ultimately show ?case using snoc.IH by simp
qed simp

lemma topological_closed:
  "topological ts os \<Longrightarrow> k \<in> set os \<Longrightarrow> edge ts p k \<Longrightarrow> p \<in> set os"
  unfolding topological_def edge_iff by (metis UnCI in_set_conv_decomp_first option.inject set_append subsetD)

lemma topological_below: "below ts x k \<Longrightarrow> topological ts os \<Longrightarrow> k \<in> set os \<Longrightarrow> x \<in> set os"
  by (induction rule: converse_rtranclp_induct) (auto intro: topological_closed)

text \<open>The position of a parent is smaller, so nothing in the list is below itself.\<close>

definition rank_of :: "string list \<Rightarrow> string \<Rightarrow> nat" where
  "rank_of os k = length (takeWhile (\<lambda>x. x \<noteq> k) os)"

lemma rank_of_append: "k \<notin> set ys \<Longrightarrow> rank_of (ys @ k # zs) k = length ys"
  by (induction ys) (auto simp: rank_of_def)

lemma rank_of_less: "p \<in> set ys \<Longrightarrow> rank_of (ys @ zs) p < length ys"
  by (induction ys) (auto simp: rank_of_def)

lemma rank_of_edge:
  assumes "topological ts os" "k \<in> set os" "edge ts p k"
  shows "rank_of os p < rank_of os k"
proof -
  from assms(2) obtain ys zs where os: "os = ys @ k # zs" "k \<notin> set ys"
    by (meson split_list_first)
  with assms(1,3) have "p \<in> set ys" by (auto simp: edge_iff dest: topologicalD)
  with os show ?thesis by (simp add: rank_of_append rank_of_less)
qed

lemma topological_acyclic:
  assumes "topological ts os"
  shows "(edge ts)\<^sup>+\<^sup>+ x y \<Longrightarrow> y \<in> set os \<Longrightarrow> rank_of os x < rank_of os y"
proof (induction rule: tranclp_induct)
  case (step y z)
  then show ?case using rank_of_edge [OF assms] topological_closed [OF assms] by fastforce
qed (rule rank_of_edge [OF assms])

text \<open>What one walk does to the threaded state.\<close>

definition walk_inv :: "task dict \<Rightarrow> string list \<Rightarrow> walk_state \<Rightarrow> bool" where
  "walk_inv ts visiting st \<longleftrightarrow> set (fst st) = set (snd st) \<and> topological ts (snd st) \<and>
     set (fst st) \<inter> set visiting = {}"

definition extends :: "task dict \<Rightarrow> string set \<Rightarrow> walk_state \<Rightarrow> walk_state \<Rightarrow> bool" where
  "extends ts roots st st' \<longleftrightarrow>
     (\<exists>new. snd st' = snd st @ new \<and> (\<forall>x \<in> set new. \<exists>r \<in> roots. below ts x r)) \<and> roots \<subseteq> set (snd st')"

lemma extends_trans:
  "extends ts A st st' \<Longrightarrow> extends ts B st' st'' \<Longrightarrow> extends ts (A \<union> B) st st''"
  unfolding extends_def by fastforce

lemma walk_spec:
  "walk ts visiting st k = Inr st' \<Longrightarrow> walk_inv ts visiting st \<Longrightarrow>
     walk_inv ts visiting st' \<and> extends ts {k} st st' \<and>
     (k \<notin> set (snd st) \<longrightarrow> last (snd st') = k)"
  "walk_list ts visiting st ps = Inr st' \<Longrightarrow> walk_inv ts visiting st \<Longrightarrow>
     walk_inv ts visiting st' \<and> extends ts (set ps) st st'"
proof (induction ts visiting st k and ts visiting st ps arbitrary: st' and st'
    rule: walk_walk_list.induct)
  case (1 ts visiting st k)
  show ?case
  proof (cases "k \<in> set (fst st)")
    case True
    with 1 show ?thesis
      by (auto simp: walk.simps [of ts visiting st k] walk_inv_def extends_def split: if_splits)
  next
    case False
    with "1.prems"(1) obtain t v o' where t: "k \<notin> set visiting" "map_of ts k = Some t"
      "walk_list ts (k # visiting) st (sort (tk_depends t)) = Inr (v, o')" "st' = (k # v, o' @ [k])"
      by (auto simp: walk.simps [of ts visiting st k] split: if_splits option.splits)
    from False "1.prems"(2) have "walk_inv ts (k # visiting) st" by (auto simp: walk_inv_def)
    with "1.IH" [OF t(1) False t(2) t(3)]
    have IH: "walk_inv ts (k # visiting) (v, o')" "extends ts (set (tk_depends t)) st (v, o')" by auto
    have "below ts x k" if "below ts x p" "p \<in> set (tk_depends t)" for x p
      using that t(2) by (meson edge_iff rtranclp.rtrancl_into_rtrancl)
    with IH(2) t have "extends ts {k} st st'" unfolding extends_def by fastforce
    moreover from IH t have "walk_inv ts visiting st'"
      by (auto simp: walk_inv_def extends_def intro!: topological_snoc)
    ultimately show ?thesis using t by simp
  qed
next
  case (2 ts visiting st)
  then show ?case by (auto simp: extends_def)
next
  case (3 ts visiting st p ps)
  from "3.prems"(1) obtain st1 where 1: "walk ts visiting st p = Inr st1"
      "walk_list ts visiting st1 ps = Inr st'" by auto
  from "3.IH"(1) [OF 1(1) "3.prems"(2)] have a: "walk_inv ts visiting st1" "extends ts {p} st st1" by auto
  from "3.IH"(2) [OF 1(1) 1(2) a(1)] have "walk_inv ts visiting st'" "extends ts (set ps) st1 st'" by auto
  with a show ?case using extends_trans by fastforce
qed

lemma walk_succeeds:
  "well_founded_below ts k \<Longrightarrow> \<forall>v \<in> set visiting. (edge ts)\<^sup>+\<^sup>+ k v \<Longrightarrow> \<exists>st'. walk ts visiting st k = Inr st'"
  "\<forall>p \<in> set ps. well_founded_below ts p \<and> (\<forall>v \<in> set visiting. (edge ts)\<^sup>+\<^sup>+ p v) \<Longrightarrow>
     \<exists>st'. walk_list ts visiting st ps = Inr st'"
proof (induction ts visiting st k and ts visiting st ps rule: walk_walk_list.induct)
  case (1 ts visiting st k)
  from "1.prems" have k: "k \<notin> set visiting" unfolding well_founded_below_def by blast
  from "1.prems"(1) obtain t where t: "map_of ts k = Some t"
    unfolding well_founded_below_def by auto
  have "well_founded_below ts p \<and> (\<forall>v \<in> set (k # visiting). (edge ts)\<^sup>+\<^sup>+ p v)" if "p \<in> set (sort (tk_depends t))" for p
  proof -
    have e: "edge ts p k" using that t by (simp add: edge_iff)
    then have "(edge ts)\<^sup>+\<^sup>+ p v" if "v \<in> set (k # visiting)" for v
      using that "1.prems"(2) by (auto intro: tranclp_into_tranclp2)
    with e "1.prems"(1) well_founded_edge show ?thesis by blast
  qed
  with "1.IH" [OF k _ t] have "k \<notin> set (fst st) \<Longrightarrow>
      \<exists>st'. walk_list ts (k # visiting) st (sort (tk_depends t)) = Inr st'" by blast
  then show ?case using k t by (auto simp: walk.simps [of ts visiting st k])
next
  case (3 ts visiting st p ps)
  then show ?case by (auto simp: ebind_eq_Inr)
qed simp

text \<open>Every failure has a cause below the task: a missing task or a cycle.\<close>

lemma walk_error:
  "walk ts visiting st k = Inl e \<Longrightarrow>
     (e = Casework ''DEPENDENCY_MISSING'' 503 \<and> (\<exists>x. below ts x k \<and> map_of ts x = None)) \<or>
     e = Casework ''DEPENDENCY_CYCLE'' 503"
  "walk_list ts visiting st ps = Inl e \<Longrightarrow>
     (e = Casework ''DEPENDENCY_MISSING'' 503 \<and> (\<exists>p \<in> set ps. \<exists>x. below ts x p \<and> map_of ts x = None)) \<or>
     e = Casework ''DEPENDENCY_CYCLE'' 503"
proof (induction ts visiting st k and ts visiting st ps rule: walk_walk_list.induct)
  case (1 ts visiting st k)
  show ?case
  proof (cases "map_of ts k")
    case (Some t)
    show ?thesis
    proof (cases "k \<in> set visiting \<or> k \<in> set (fst st)")
      case False
      with "1.prems" Some have "walk_list ts (k # visiting) st (sort (tk_depends t)) = Inl e"
        by (auto simp: walk.simps [of ts visiting st k] ebind_eq_Inl)
      with "1.IH" False Some have "e = Casework ''DEPENDENCY_CYCLE'' 503 \<or>
          (e = Casework ''DEPENDENCY_MISSING'' 503 \<and> (\<exists>p \<in> set (tk_depends t). \<exists>x. below ts x p \<and> map_of ts x = None))"
        by auto
      then show ?thesis using Some by (meson edge_iff rtranclp.rtrancl_into_rtrancl)
    qed (use "1.prems" in \<open>auto simp: walk.simps [of ts visiting st k] split: if_splits\<close>)
  qed (use "1.prems" in \<open>auto simp: walk.simps [of ts visiting st k] split: if_splits\<close>)
next
  case (3 ts visiting st p ps)
  then show ?case by (fastforce simp: ebind_eq_Inl)
qed simp

section \<open>Ancestors\<close>

lemma ancestors_topological:
  assumes "ancestors w k = Inr os"
  shows "topological (ws_tasks w) os" "set os = {x. below (ws_tasks w) x k}" "os \<noteq> []" "last os = k"
proof -
  from assms obtain v where w: "walk (ws_tasks w) [] ([], []) k = Inr (v, os)"
    by (auto simp: ancestors_def)
  have "walk_inv (ws_tasks w) [] ([], [])" by (simp add: walk_inv_def)
  from walk_spec(1) [OF w this]
  have s: "topological (ws_tasks w) os" "extends (ws_tasks w) {k} ([], []) (v, os)" "last os = k"
    by (auto simp: walk_inv_def)
  then show "topological (ws_tasks w) os" "last os = k" by auto
  from s(2) have k: "k \<in> set os" by (simp add: extends_def)
  then show "os \<noteq> []" by auto
  from s k show "set os = {x. below (ws_tasks w) x k}"
    by (auto simp: extends_def intro: topological_below)
qed

lemma ancestors_well_founded:
  "(\<exists>os. ancestors w k = Inr os) \<longleftrightarrow> well_founded_below (ws_tasks w) k"
proof
  assume "\<exists>os. ancestors w k = Inr os"
  then obtain os where os: "ancestors w k = Inr os" by blast
  note t = ancestors_topological [OF os]
  have "map_of (ws_tasks w) x \<noteq> None \<and> \<not> (edge (ws_tasks w))\<^sup>+\<^sup>+ x x" if "below (ws_tasks w) x k" for x
  proof -
    from that t(2) have x: "x \<in> set os" by blast
    with t(1) have "\<exists>a. map_of (ws_tasks w) x = Some a"
      unfolding topological_def by (metis split_list)
    with x topological_acyclic [OF t(1)] show ?thesis by fastforce
  qed
  then show "well_founded_below (ws_tasks w) k" by (simp add: well_founded_below_def)
next
  assume "well_founded_below (ws_tasks w) k"
  from walk_succeeds(1) [OF this, of "[]" "([], [])"]
  show "\<exists>os. ancestors w k = Inr os" by (auto simp: ancestors_def ebind_eq_Inr)
qed

lemma ancestors_present: "ancestors w k = Inr os \<Longrightarrow> x \<in> set os \<Longrightarrow> \<exists>t. map_of (ws_tasks w) x = Some t"
  using ancestors_topological(1) unfolding topological_def by (metis split_list)

lemma ancestors_self: "ancestors w k = Inr os \<Longrightarrow> k \<in> set os"
  using ancestors_topological(2) by fastforce

lemma ancestors_error:
  "ancestors w k = Inl e \<Longrightarrow> e = Casework ''DEPENDENCY_MISSING'' 503 \<or> e = Casework ''DEPENDENCY_CYCLE'' 503"
  by (auto simp: ancestors_def ebind_eq_Inl dest: walk_error)

lemma closure_keys:
  "ancestors w k = Inr os \<Longrightarrow> closure w k = Inr (map (\<lambda>x. (x, the (map_of (ws_tasks w) x))) os)"
  unfolding closure_def
  by (auto intro!: emap_total simp: task_at_def dest!: ancestors_present)

lemma closure_Inr_iff:
  "closure w k = Inr cl \<longleftrightarrow>
     (\<exists>os. ancestors w k = Inr os \<and> cl = map (\<lambda>x. (x, the (map_of (ws_tasks w) x))) os)"
proof (cases "ancestors w k")
  case (Inr os)
  then show ?thesis by (auto simp: closure_keys)
qed (simp add: closure_def)

lemma closure_mem:
  assumes "closure w k = Inr cl"
  shows "(x, t) \<in> set cl \<longleftrightarrow> below (ws_tasks w) x k \<and> map_of (ws_tasks w) x = Some t"
proof -
  from assms obtain os where os: "ancestors w k = Inr os"
      "cl = map (\<lambda>x. (x, the (map_of (ws_tasks w) x))) os"
    by (auto simp: closure_Inr_iff)
  with ancestors_topological(2) [OF os(1)] ancestors_present [OF os(1)] show ?thesis by force
qed

section \<open>Affected tasks\<close>

lemma added_tasks_mem:
  assumes "distinct (keys ts)"
  shows "k \<in> set (added_tasks ts result) \<longleftrightarrow> k \<notin> set result \<and> (\<exists>p \<in> set result. edge ts p k)"
  unfolding added_tasks_def edge_iff list_ex_iff
  using map_of_distinct_iff [OF assms] by (fastforce simp: image_iff)

lemma affected_loop_spec:
  assumes "distinct (keys ts)"
  shows "set (affected_loop ts result) = {k. \<exists>r \<in> set result. below ts r k}"
  using assms
proof (induction ts result rule: affected_loop.induct)
  case (1 ts result)
  show ?case
  proof (cases "added_tasks ts result = []")
    case True
    with 1 have closed: "k \<in> set result" if "p \<in> set result" "edge ts p k" for p k
      using added_tasks_mem [of ts k result] that by auto
    have "k \<in> set result" if "below ts r k" "r \<in> set result" for r k
      using that by (induction rule: rtranclp_induct) (auto intro: closed)
    with True show ?thesis by (auto simp: affected_loop.simps [of ts result])
  next
    case False
    have "below ts r k" if "r \<in> set result" "edge ts r x" "below ts x k" for r x k
      using that by (simp add: converse_rtranclp_into_rtranclp)
    with False 1 show ?thesis
      by (auto simp: affected_loop.simps [of ts result] Let_def added_tasks_mem)
        blast
  qed
qed

lemma affected_loop_sorted: "sorted (affected_loop ts result) \<and> distinct (affected_loop ts result)"
  by (induction ts result rule: affected_loop.induct)
    (simp add: affected_loop.simps Let_def)

text \<open>A task is affected exactly when it is, or depends on, a task of the scope.\<close>

definition hit_by :: "env \<Rightarrow> workspace \<Rightarrow> scope \<Rightarrow> string \<Rightarrow> bool" where
  "hit_by E w s k \<longleftrightarrow> (\<exists>r t. map_of (ws_tasks w) r = Some t \<and> task_scope E t = scope_key E s \<and>
     below (ws_tasks w) r k)"

lemma affected_tasks_mem:
  assumes "distinct (keys (ws_tasks w))"
  shows "k \<in> set (affected_tasks E w s) \<longleftrightarrow> hit_by E w s k"
  unfolding affected_tasks_def Let_def affected_loop_spec [OF assms] hit_by_def
  using map_of_distinct_iff [OF assms] by (fastforce simp: image_iff)

lemma below_present: "below ts r k \<Longrightarrow> map_of ts r = Some t \<Longrightarrow> \<exists>t'. map_of ts k = Some t'"
  by (induction rule: rtranclp_induct) (auto simp: edge_iff)

lemma affected_tasks_present:
  assumes "distinct (keys (ws_tasks w))" "k \<in> set (affected_tasks E w s)"
  shows "\<exists>t. map_of (ws_tasks w) k = Some t"
  using assms(2) below_present unfolding affected_tasks_mem [OF assms(1)] hit_by_def by blast

lemma affected_tasks_sorted: "sorted (affected_tasks E w s)" "distinct (affected_tasks E w s)"
  using affected_loop_sorted by (auto simp: affected_tasks_def Let_def)

end
