(* ===== verification/Cw_Policy.thy ===== *)
theory Cw_Policy
  imports Cw_Graph "HOL-Library.Multiset"
begin

text \<open>
  What the policy of \<^verbatim>\<open>core.py\<close> decides, stated over the dependency relation instead of the
  walk: when it answers at all, when it denies, when it is READY, how long a READY may last, and
  when a stored decision is still current.
\<close>

lemma sort_eq_Nil [simp]: "sort_key f xs = [] \<longleftrightarrow> xs = []"
  by (metis set_empty set_sort)

section \<open>Specification\<close>

text \<open>An open case whose scope is that of a task at or below \<open>k\<close>.\<close>

definition blocks :: "env \<Rightarrow> workspace \<Rightarrow> string \<Rightarrow> risk_case \<Rightarrow> bool" where
  "blocks E w k c \<longleftrightarrow> rc_status c = OPEN \<and>
     (\<exists>x t. below (ws_tasks w) x k \<and> map_of (ws_tasks w) x = Some t \<and> task_scope E t = scope_key E (rc_scope c))"

definition covered :: "env \<Rightarrow> workspace \<Rightarrow> int \<Rightarrow> task \<Rightarrow> bool" where
  "covered E w now t \<longleftrightarrow> (\<exists>b. map_of (ws_baselines w) (task_scope E t) = Some b \<and>
     now < bl_expires b \<and> in_amount (tk_intent t) \<le> bl_limit b)"

definition live_ready :: "env \<Rightarrow> workspace \<Rightarrow> int \<Rightarrow> string \<Rightarrow> task \<Rightarrow> bool" where
  "live_ready E w now k t \<longleftrightarrow> tk_status t = T_READY \<and> tk_taints t = [] \<and>
     (\<exists>d. current_decision w t = Some d \<and> dc_verdict d = READY \<and> dc_task d = k \<and>
        now < dc_expires d \<and> task_basis E w k = Inr (dc_basis d))"

text \<open>The condition for READY, task by task.\<close>

definition may_proceed :: "env \<Rightarrow> workspace \<Rightarrow> string \<Rightarrow> int \<Rightarrow> bool \<Rightarrow> bool" where
  "may_proceed E w k now explicit_review \<longleftrightarrow>
     well_founded_below (ws_tasks w) k \<and>
     (\<forall>(i, c) \<in> set (ws_cases w). \<not> blocks E w k c) \<and>
     (\<forall>x t. below (ws_tasks w) x k \<longrightarrow> map_of (ws_tasks w) x = Some t \<longrightarrow>
        covered E w now t \<and> (x \<noteq> k \<longrightarrow> live_ready E w now x t)) \<and>
     (explicit_review \<or> (\<exists>t. map_of (ws_tasks w) k = Some t \<and> tk_taints t = []))"

section \<open>The closure\<close>

lemma well_founded_present: "well_founded_below ts k \<Longrightarrow> \<exists>t. map_of ts k = Some t"
  unfolding well_founded_below_def by blast

lemma well_founded_below_below: "well_founded_below ts k \<Longrightarrow> below ts x k \<Longrightarrow> well_founded_below ts x"
  unfolding well_founded_below_def by (meson rtranclp_trans)

lemma closure_total: "well_founded_below (ws_tasks w) k \<longleftrightarrow> (\<exists>cl. closure w k = Inr cl)"
  using ancestors_well_founded [of w k] by (auto simp: closure_Inr_iff)

lemma closure_error:
  "closure w k = Inl e \<Longrightarrow> e = Casework ''DEPENDENCY_MISSING'' 503 \<or> e = Casework ''DEPENDENCY_CYCLE'' 503"
  by (cases "ancestors w k") (auto simp: closure_keys, auto simp: closure_def dest: ancestors_error)

lemma task_basis_total: "well_founded_below (ws_tasks w) k \<longleftrightarrow> (\<exists>b. task_basis E w k = Inr b)"
  by (auto simp: closure_total task_basis_def)

lemma scoped_cases_mem:
  assumes "closure w k = Inr cl"
  shows "(i, c) \<in> set (scoped_cases E w (map (task_scope E \<circ> snd) cl)) \<longleftrightarrow>
    (i, c) \<in> set (ws_cases w) \<and>
    (\<exists>x t. below (ws_tasks w) x k \<and> map_of (ws_tasks w) x = Some t \<and> task_scope E t = scope_key E (rc_scope c))"
  using closure_mem [OF assms] by (force simp: scoped_cases_def image_iff)

lemma open_blockers_mem:
  assumes "closure w k = Inr cl"
  shows "i \<in> set (open_blockers (scoped_cases E w (map (task_scope E \<circ> snd) cl))) \<longleftrightarrow>
    (\<exists>c. (i, c) \<in> set (ws_cases w) \<and> blocks E w k c)"
  using scoped_cases_mem [OF assms] by (force simp: open_blockers_def blocks_def image_iff)

section \<open>The baseline and parent loops\<close>

lemma baseline_loop_None:
  "(\<exists>refs. baseline_loop E w now causal cl = (None, refs)) \<longleftrightarrow> (\<forall>(k, t) \<in> set cl. covered E w now t)"
  by (induction E w now causal cl rule: baseline_loop.induct)
    (auto simp: covered_def Let_def split: option.splits)

lemma parent_live_iff:
  assumes "well_founded_below (ws_tasks w) k"
  shows "parent_live E w now (k, t) = Inr (live_ready E w now k t)"
proof -
  obtain b where b: "task_basis E w k = Inr b" using assms task_basis_total by blast
  then show ?thesis
    by (cases "current_decision w t") (auto simp: parent_live_def live_ready_def)
qed

lemma parents_live_iff:
  "\<forall>(k, t) \<in> set ps. well_founded_below (ws_tasks w) k \<Longrightarrow>
   parents_live E w now ps = Inr (\<forall>(k, t) \<in> set ps. live_ready E w now k t)"
  by (induction ps) (auto simp: parent_live_iff)

section \<open>The verdict\<close>

lemma policy_result_eq:
  fixes E :: env
  assumes "well_founded_below (ws_tasks w) k" "closure w k = Inr cl" "map_of (ws_tasks w) k = Some t"
  defines "cs \<equiv> scoped_cases E w (map (task_scope E \<circ> snd) cl)"
  shows "policy_result E w k now ex =
    (if open_blockers cs \<noteq> [] then Inr (DENY, [''OPEN_RISK_RECALLED''], causal_refs cs, open_blockers cs)
     else case baseline_loop E w now (causal_refs cs) cl of
       (Some reason, refs) \<Rightarrow> Inr (NEEDS_HUMAN, [reason], refs, [])
     | (None, refs) \<Rightarrow>
         (if \<not> (\<forall>(x, p) \<in> set cl. x \<noteq> k \<longrightarrow> live_ready E w now x p)
          then Inr (NEEDS_HUMAN, [''DEPENDENCY_REVIEW_REQUIRED''], refs, [])
          else if tk_taints t \<noteq> [] \<and> \<not> ex then Inr (NEEDS_HUMAN, [''EXPLICIT_RECONSIDERATION_REQUIRED''], refs, [])
          else Inr (READY, [''CURRENT_POLICY_PASSED'', ''HUMAN_CONFIRMATION_STILL_REQUIRED''], refs, [])))"
proof -
  have wf: "\<forall>(x, p) \<in> set (filter (\<lambda>(x, p). x \<noteq> k) cl). well_founded_below (ws_tasks w) x"
    using closure_mem [OF assms(2)] well_founded_below_below [OF assms(1)] by auto
  have "(\<forall>(x, p) \<in> set (filter (\<lambda>(x, p). x \<noteq> k) cl). live_ready E w now x p) \<longleftrightarrow>
      (\<forall>(x, p) \<in> set cl. x \<noteq> k \<longrightarrow> live_ready E w now x p)" by auto
  with parents_live_iff [OF wf, of E now] assms(2,3) show ?thesis
    by (auto simp: policy_result_def task_at_def Let_def cs_def split: prod.splits option.splits)
qed

text \<open>The policy answers exactly on well-founded dependencies.\<close>

lemma policy_result_total:
  "(\<exists>r. policy_result E w k now ex = Inr r) \<longleftrightarrow> well_founded_below (ws_tasks w) k"
proof
  assume "well_founded_below (ws_tasks w) k"
  moreover from this obtain cl where "closure w k = Inr cl" using closure_total by blast
  moreover obtain t where "map_of (ws_tasks w) k = Some t"
    using calculation(1) well_founded_present by blast
  ultimately show "\<exists>r. policy_result E w k now ex = Inr r"
    by (auto simp: policy_result_eq split: prod.splits option.splits)
next
  assume "\<exists>r. policy_result E w k now ex = Inr r"
  then have "\<exists>cl. closure w k = Inr cl" by (auto simp: policy_result_def)
  then show "well_founded_below (ws_tasks w) k" by (simp add: closure_total)
qed

lemma policy_obtain:
  assumes "policy_result E w k now ex = Inr (v, rs, refs, bs)"
  obtains cl t where "well_founded_below (ws_tasks w) k" "closure w k = Inr cl" "map_of (ws_tasks w) k = Some t"
  using assms policy_result_total [of E w k now ex] closure_total [of w k] well_founded_present
  by metis

lemma policy_DENY_iff:
  "(\<exists>rs refs. policy_result E w k now ex = Inr (DENY, rs, refs, bs)) \<longleftrightarrow>
     well_founded_below (ws_tasks w) k \<and> bs \<noteq> [] \<and>
     bs = sort (map fst (filter (\<lambda>(i, c). blocks E w k c) (ws_cases w)))"
proof (cases "well_founded_below (ws_tasks w) k")
  case True
  then obtain cl t where cl: "closure w k = Inr cl" "map_of (ws_tasks w) k = Some t"
    using closure_total [of w k] well_founded_present by blast
  have "filter (\<lambda>(i, c). rc_status c = OPEN) (scoped_cases E w (map (task_scope E \<circ> snd) cl)) =
      filter (\<lambda>(i, c). blocks E w k c) (ws_cases w)"
    unfolding scoped_cases_def filter_filter
  proof (rule filter_cong [OF refl], clarify)
    fix i c assume "(i, c) \<in> set (ws_cases w)"
    with scoped_cases_mem [OF cl(1), of i c E]
    show "(scope_key E (rc_scope c) \<in> set (map (task_scope E \<circ> snd) cl) \<and> rc_status c = OPEN) = blocks E w k c"
      by (auto simp: scoped_cases_def blocks_def)
  qed
  then have "open_blockers (scoped_cases E w (map (task_scope E \<circ> snd) cl)) =
      sort (map fst (filter (\<lambda>(i, c). blocks E w k c) (ws_cases w)))"
    by (simp add: open_blockers_def)
  with True cl show ?thesis
    by (auto simp: policy_result_eq split: prod.splits option.splits)
next
  case False
  with policy_result_total [of E w k now ex] show ?thesis by auto
qed

lemma policy_READY_iff:
  "(\<exists>rs refs bs. policy_result E w k now ex = Inr (READY, rs, refs, bs)) \<longleftrightarrow> may_proceed E w k now ex"
proof (cases "well_founded_below (ws_tasks w) k")
  case True
  then obtain cl t where cl: "closure w k = Inr cl" "map_of (ws_tasks w) k = Some t"
    using closure_total [of w k] well_founded_present by blast
  define cs where "cs = scoped_cases E w (map (task_scope E \<circ> snd) cl)"
  have b: "open_blockers cs = [] \<longleftrightarrow> (\<forall>(i, c) \<in> set (ws_cases w). \<not> blocks E w k c)"
  proof -
    have "open_blockers cs = [] \<longleftrightarrow> (\<forall>i. i \<notin> set (open_blockers cs))" by (auto simp: filter_empty_conv open_blockers_def)
    also have "\<dots> \<longleftrightarrow> (\<forall>(i, c) \<in> set (ws_cases w). \<not> blocks E w k c)"
      unfolding cs_def open_blockers_mem [OF cl(1)] by auto
    finally show ?thesis .
  qed
  have m: "(\<forall>(x, p) \<in> set cl. P x p) \<longleftrightarrow>
      (\<forall>x p. below (ws_tasks w) x k \<longrightarrow> map_of (ws_tasks w) x = Some p \<longrightarrow> P x p)" for P
    using closure_mem [OF cl(1)] by blast
  define A where "A \<longleftrightarrow> (\<forall>(x, p) \<in> set cl. x \<noteq> k \<longrightarrow> live_ready E w now x p)"
  have ready: "(\<exists>rs refs bs. policy_result E w k now ex = Inr (READY, rs, refs, bs)) \<longleftrightarrow>
      open_blockers cs = [] \<and> (\<exists>refs. baseline_loop E w now (causal_refs cs) cl = (None, refs)) \<and>
      A \<and> (ex \<or> tk_taints t = [])"
    unfolding policy_result_eq [OF True cl] cs_def [symmetric] A_def [symmetric]
    by (auto split: prod.splits option.splits)
  show ?thesis
    unfolding ready A_def b baseline_loop_None m may_proceed_def using True cl(2) by auto
next
  case False
  with policy_result_total [of E w k now ex] show ?thesis by (auto simp: may_proceed_def)
qed

lemma policy_verdict:
  assumes "policy_result E w k now ex = Inr (v, rs, refs, bs)"
  shows "v \<noteq> DENY \<Longrightarrow> bs = []" "v = READY \<longleftrightarrow> may_proceed E w k now ex"
    "v = DENY \<longleftrightarrow> (\<exists>(i, c) \<in> set (ws_cases w). blocks E w k c)"
proof -
  obtain cl t where cl: "well_founded_below (ws_tasks w) k" "closure w k = Inr cl" "map_of (ws_tasks w) k = Some t"
    using policy_obtain [OF assms] .
  show "v \<noteq> DENY \<Longrightarrow> bs = []"
    using assms policy_result_eq [OF cl, of E now ex] by (auto split: if_splits prod.splits option.splits)
  show "v = READY \<longleftrightarrow> may_proceed E w k now ex"
    using assms policy_READY_iff [of E w k now ex] by auto
  show "v = DENY \<longleftrightarrow> (\<exists>(i, c) \<in> set (ws_cases w). blocks E w k c)"
  proof
    assume "v = DENY"
    with assms policy_DENY_iff [of E w k now ex bs]
    have "filter (\<lambda>(i, c). blocks E w k c) (ws_cases w) \<noteq> []" by auto
    then show "\<exists>(i, c) \<in> set (ws_cases w). blocks E w k c" by (auto simp: filter_empty_conv)
  next
    assume "\<exists>(i, c) \<in> set (ws_cases w). blocks E w k c"
    then have "sort (map fst (filter (\<lambda>(i, c). blocks E w k c) (ws_cases w))) \<noteq> []"
      by (auto simp: filter_empty_conv)
    with policy_DENY_iff [of E w k now ex, THEN iffD2] cl(1)
    have "\<exists>rs' refs' bs'. policy_result E w k now ex = Inr (DENY, rs', refs', bs')" by blast
    with assms show "v = DENY" by auto
  qed
qed

section \<open>Expiry\<close>

lemma fold_min_le: "fold min xs (d :: int) \<le> d" "x \<in> set xs \<Longrightarrow> fold min xs d \<le> x"
proof -
  have *: "fold min xs d \<le> d \<and> (\<forall>x \<in> set xs. fold min xs d \<le> x)" for d
  proof (induction xs arbitrary: d)
    case (Cons a xs)
    from Cons [of "min a d"] show ?case by auto
  qed simp
  show "fold min xs d \<le> d" "x \<in> set xs \<Longrightarrow> fold min xs d \<le> x" using * by auto
qed

lemma ready_expiry_obtain:
  assumes "ready_expiry E w k now dflt = Inr e"
  obtains cl where "closure w k = Inr cl" "e = fold min (expiry_limits E w k cl) dflt" "now < e"
  using assms by (auto simp: ready_expiry_def Let_def split: if_splits)

lemma ready_expiry_bounds: "ready_expiry E w k now dflt = Inr e \<Longrightarrow> now < e \<and> e \<le> dflt"
  by (elim ready_expiry_obtain) (simp add: fold_min_le(1))

lemma expiry_limits_mem:
  "p \<in> set cl \<Longrightarrow> e \<in> set (task_limits E w k p) \<Longrightarrow> e \<in> set (expiry_limits E w k cl)"
  unfolding expiry_limits_def set_concat set_map by (rule UN_I [OF imageI])

lemma ready_expiry_baseline:
  assumes "ready_expiry E w k now dflt = Inr e" "below (ws_tasks w) x k" "map_of (ws_tasks w) x = Some t"
    "map_of (ws_baselines w) (task_scope E t) = Some b"
  shows "e \<le> bl_expires b"
proof -
  from assms(1) obtain cl where cl: "closure w k = Inr cl" "e = fold min (expiry_limits E w k cl) dflt"
    by (auto elim: ready_expiry_obtain)
  have "(x, t) \<in> set cl" using assms(2,3) by (simp add: closure_mem [OF cl(1)])
  moreover have "bl_expires b \<in> set (task_limits E w k (x, t))"
    unfolding task_limits_def prod.case set_append by (rule UnI1) (use assms(4) in simp)
  ultimately have "bl_expires b \<in> set (expiry_limits E w k cl)" by (rule expiry_limits_mem)
  then show ?thesis unfolding cl(2) by (rule fold_min_le(2))
qed

lemma ready_expiry_ancestor:
  assumes "ready_expiry E w k now dflt = Inr e" "below (ws_tasks w) x k" "map_of (ws_tasks w) x = Some t"
    "x \<noteq> k" "current_decision w t = Some d"
  shows "e \<le> dc_expires d"
proof -
  from assms(1) obtain cl where cl: "closure w k = Inr cl" "e = fold min (expiry_limits E w k cl) dflt"
    by (auto elim: ready_expiry_obtain)
  have "(x, t) \<in> set cl" using assms(2,3) by (simp add: closure_mem [OF cl(1)])
  moreover have "dc_expires d \<in> set (task_limits E w k (x, t))" using assms(4,5) by (simp add: task_limits_def)
  ultimately have "dc_expires d \<in> set (expiry_limits E w k cl)" by (rule expiry_limits_mem)
  then show ?thesis unfolding cl(2) by (rule fold_min_le(2))
qed

section \<open>Validity of a stored decision\<close>

lemma if_single_Nil [simp]: "(if P then [x] else []) = [] \<longleftrightarrow> \<not> P"
  by simp

text \<open>A decision that is still current: nothing it was taken from has changed.\<close>

definition still_current :: "env \<Rightarrow> workspace \<Rightarrow> string \<Rightarrow> int \<Rightarrow> verdict \<Rightarrow> string list \<Rightarrow> task \<Rightarrow> decision \<Rightarrow> bool" where
  "still_current E w k now v reasons t d \<longleftrightarrow> now < dc_expires d \<and> task_basis E w k = Inr (dc_basis d) \<and>
     tk_status t = status_of (dc_verdict d) \<and> dc_verdict d = v \<and> mset (dc_reasons d) = mset reasons"

lemma sort_eq_mset: "sort xs = sort ys \<longleftrightarrow> mset xs = mset (ys :: 'a::linorder list)"
  by (metis mset_sort properties_for_sort sorted_sort)

lemma decision_validity_eq:
  assumes t: "map_of (ws_tasks w) k = Some t"
    and p: "policy_result E w k now False = Inr (v, reasons, refs, blockers)"
  shows "\<exists>invalid. decision_validity E w k now = Inr \<lparr>va_current = (invalid = []),
      va_preparable = (invalid = [] \<and> v = READY), va_verdict = v, va_reasons = reasons,
      va_blockers = blockers, va_invalid = invalid\<rparr> \<and>
    (invalid = [] \<longleftrightarrow> (\<exists>d. current_decision w t = Some d \<and> still_current E w k now v reasons t d))"
proof -
  obtain b where b: "task_basis E w k = Inr b"
    using p policy_result_total [of E w k now False] task_basis_total by blast
  show ?thesis
  proof (cases "current_decision w t")
    case None
    then show ?thesis by (simp add: decision_validity_def task_at_def t p)
  next
    case (Some d)
    then show ?thesis
      by (simp add: decision_validity_def task_at_def t p b still_current_def sort_eq_mset not_le)
        (simp add: conj_ac eq_commute)
  qed
qed

lemma decision_validity_Inr:
  assumes "decision_validity E w k now = Inr v"
  obtains t refs where "map_of (ws_tasks w) k = Some t"
    "policy_result E w k now False = Inr (va_verdict v, va_reasons v, refs, va_blockers v)"
    "va_preparable v \<longleftrightarrow> va_current v \<and> va_verdict v = READY"
    "va_current v \<longleftrightarrow> (\<exists>d. current_decision w t = Some d \<and> still_current E w k now (va_verdict v) (va_reasons v) t d)"
    "va_current v \<longleftrightarrow> va_invalid v = []"
proof -
  from assms obtain t p where t: "map_of (ws_tasks w) k = Some t" "policy_result E w k now False = Inr p"
    by (auto simp: decision_validity_def task_at_def split: option.splits)
  obtain vd rs refs bs where p: "p = (vd, rs, refs, bs)" by (cases p) auto
  from decision_validity_eq [OF t(1) t(2) [unfolded p]] assms t(2) p
  show ?thesis by (intro that [OF t(1), of refs]) auto
qed

end
