(* ===== verification/Cw_Evidence.thy ===== *)
theory Cw_Evidence
  imports Cw_Core
begin

text \<open>
  External evidence of a case: receipts and their freshness (\<^verbatim>\<open>source_state.py\<close>), the durable
  source obligations (\<^verbatim>\<open>source_guard.py\<close>), and the read side of the evidence desk
  (\<^verbatim>\<open>EvidenceDesk.policy\<close> to \<^verbatim>\<open>resolution\<close> in \<^verbatim>\<open>source_service.py\<close>). Artifacts are the JSON
  dictionaries the workspace stores; the collection of new receipts is not in this theory.
\<close>

section \<open>Configured sources and policies\<close>

record source_spec =
  sp_id :: string
  sp_kind :: string
  sp_tenant :: string
  sp_subjects :: "string list"
  sp_group :: string
  sp_repositories :: "string list"
  sp_token_env :: "string option"
  sp_rpc_url :: "string option"
  sp_chain :: int
  sp_ttl :: int
  sp_confirmations :: int
  sp_attempts :: int

record evidence_policy =
  ep_tenant :: string
  ep_scope :: scope
  ep_required :: "string list"
  ep_groups :: int

record desk =
  dk_specs :: "source_spec list"
  dk_policies :: "evidence_policy list"

text \<open>The signed incident sources and the review partner of the configuration.\<close>

record incident_spec =
  ic_id :: string
  ic_actor :: string
  ic_secret :: string
  ic_scope :: scope
  ic_skew :: int

record virtuals_spec =
  vs_tenant :: string
  vs_subjects :: "string list"
  vs_chain :: int
  vs_client :: string
  vs_provider :: string
  vs_offering :: string
  vs_budget :: int
  vs_executable :: string
  vs_sha256 :: string
  vs_home :: string
  vs_ttl :: int

definition spec_json :: "source_spec \<Rightarrow> json" where
  "spec_json s = JObj [(''source_id'', JStr (sp_id s)), (''kind'', JStr (sp_kind s)),
     (''tenant_id'', JStr (sp_tenant s)), (''subjects'', jstrs (sp_subjects s)),
     (''independence_group'', JStr (sp_group s)), (''repositories'', jstrs (sp_repositories s)),
     (''token_env'', jopt JStr (sp_token_env s)), (''rpc_url'', jopt JStr (sp_rpc_url s)),
     (''chain_id'', JInt (sp_chain s)), (''ttl_seconds'', JInt (sp_ttl s)),
     (''min_confirmations'', JInt (sp_confirmations s)), (''max_attempts_per_case'', JInt (sp_attempts s))]"

definition policy_json :: "evidence_policy \<Rightarrow> json" where
  "policy_json p = JObj [(''tenant_id'', JStr (ep_tenant p)), (''scope'', scope_json (ep_scope p)),
     (''required_sources'', jstrs (ep_required p)), (''min_independence_groups'', JInt (ep_groups p)),
     (''require_for_resolution'', JBool True)]"

text \<open>\<^verbatim>\<open>self.specs = {s.source_id: s for s in config.sources}\<close>: a later entry wins.\<close>

definition spec_of :: "desk \<Rightarrow> string \<Rightarrow> source_spec option" where
  "spec_of D i = map_of (rev (map (\<lambda>s. (sp_id s, s)) (dk_specs D))) i"

text \<open>The cross references of \<^verbatim>\<open>ConnectorConfig\<close>, incident sources apart.\<close>

definition valid_policy :: "desk \<Rightarrow> evidence_policy \<Rightarrow> bool" where
  "valid_policy D p \<longleftrightarrow> distinct (ep_required p) \<and> 1 \<le> length (ep_required p) \<and> length (ep_required p) \<le> 8
     \<and> (\<forall>i \<in> set (ep_required p). case spec_of D i of None \<Rightarrow> False
          | Some s \<Rightarrow> sp_tenant s = ep_tenant p \<and> sc_subject (ep_scope p) \<in> set (sp_subjects s))
     \<and> ep_groups p \<le> int (length (remdups (map sp_group (List.map_filter (spec_of D) (ep_required p)))))"

definition valid_config :: "desk \<Rightarrow> bool" where
  "valid_config D \<longleftrightarrow> distinct (map sp_id (dk_specs D))
     \<and> distinct (map (\<lambda>p. (ep_tenant p, scope_json (ep_scope p))) (dk_policies D))
     \<and> (\<forall>p \<in> set (dk_policies D). valid_policy D p)"

section \<open>Reading artifacts\<close>

definition artifact :: "workspace \<Rightarrow> json \<Rightarrow> jobj option" where
  "artifact w j = (case j of JStr k \<Rightarrow> map_of (ws_artifacts w) k | _ \<Rightarrow> None)"

definition jstrings :: "json \<Rightarrow> string list" where
  "jstrings j = (case j of JList xs \<Rightarrow> List.map_filter (\<lambda>x. case x of JStr s \<Rightarrow> Some s | _ \<Rightarrow> None) xs | _ \<Rightarrow> [])"

lemma jstrings_jstrs [simp]: "jstrings (jstrs xs) = xs"
  by (induction xs) (simp_all add: jstrings_def List.map_filter_def)

definition jint_or :: "jobj \<Rightarrow> string \<Rightarrow> int \<Rightarrow> int" where
  "jint_or d k z = (case jget d k of JInt i \<Rightarrow> i | _ \<Rightarrow> z)"

definition jobjs :: "json \<Rightarrow> jobj list" where
  "jobjs j = (case j of JList xs \<Rightarrow> List.map_filter (\<lambda>x. case x of JObj d \<Rightarrow> Some d | _ \<Rightarrow> None) xs | _ \<Rightarrow> [])"

definition source_key :: "env \<Rightarrow> string \<Rightarrow> string \<Rightarrow> string" where
  "source_key E case_id source_id = digest E ''source-head'' (jstrs [case_id, source_id])"

definition z_to_offset :: "string \<Rightarrow> string" where
  "z_to_offset s = concat (map (\<lambda>c. if c = CHR ''Z'' then ''+00:00'' else [c]) s)"

definition parsed_time :: "env \<Rightarrow> json \<Rightarrow> int res" where
  "parsed_time E v =
     (case (case v of JStr s \<Rightarrow> parse_time E (z_to_offset s) | _ \<Rightarrow> None) of
        Some (t, True) \<Rightarrow> Inr t
      | _ \<Rightarrow> Inl (Casework ''STORED_EVIDENCE_TIME_INVALID'' 503))"

section \<open>Conflicting receipts\<close>

type_synonym claims = "((string \<times> string) \<times> (string \<times> string list) list) list"

definition jstring :: "json \<Rightarrow> string" where
  "jstring j = (case j of JStr s \<Rightarrow> s | _ \<Rightarrow> [])"

definition add_claim :: "string \<times> string \<Rightarrow> string \<Rightarrow> string \<Rightarrow> claims \<Rightarrow> claims" where
  "add_claim key encoded sid cs =
     (let vals = (case map_of cs key of None \<Rightarrow> [] | Some v \<Rightarrow> v);
          ids = (case map_of vals encoded of None \<Rightarrow> [] | Some l \<Rightarrow> l)
      in AList.update key (AList.update encoded (ids @ [sid]) vals) cs)"

text \<open>The resource is compared in lower case; the adapters only accept ASCII resources.\<close>

definition receipt_claims :: "env \<Rightarrow> jobj \<Rightarrow> claims \<Rightarrow> claims" where
  "receipt_claims E r cs =
     (case (jget r ''resource'', jget r ''facts'') of
        (JStr res, JObj facts) \<Rightarrow>
          fold (\<lambda>(field, v) acc.
              if field \<in> {''updated_at'', ''confirmations''} then acc
              else add_claim (py_lower res, field) (dumps (float_repr E) v) (jstring (jget r ''source_id'')) acc)
            facts cs
      | _ \<Rightarrow> cs)"

definition conflict_json :: "env \<Rightarrow> (string \<times> string) \<times> (string \<times> string list) list \<Rightarrow> jobj" where
  "conflict_json E = (\<lambda>((resource, field), vals).
     [(''resource_digest'', JStr (digest E ''source-conflict-resource'' (JStr resource))),
      (''field'', JStr field),
      (''source_ids'', jstrs (sorted_set (concat (map snd vals)))),
      (''value_digests'', jstrs (sort (map (\<lambda>(v, _). digest E ''source-conflict-value'' (JStr v)) vals))),
      (''reason'', JStr ''SOURCE_CONFLICT'')])"

definition source_conflicts :: "env \<Rightarrow> jobj list \<Rightarrow> jobj list" where
  "source_conflicts E receipts =
     map (conflict_json E) (filter (\<lambda>(k, vals). length vals > 1)
       (sort_key fst (fold (receipt_claims E) receipts [])))"

section \<open>Current receipts\<close>

definition head_bound :: "workspace \<Rightarrow> string \<Rightarrow> risk_case \<Rightarrow> string \<Rightarrow> jobj \<Rightarrow> jobj \<Rightarrow> bool" where
  "head_bound w case_id c source_id head r \<longleftrightarrow>
     jget r ''kind'' = JStr ''SOURCE_RECEIPT'' \<and> jget r ''case_id'' = JStr case_id \<and>
     py_eq (jget r ''case_version'') (JInt (rc_version c)) \<and> jget r ''source_id'' = JStr source_id \<and>
     py_eq (jget r ''receipt_id'') (jget head ''receipt_id'')"

definition spec_current :: "env \<Rightarrow> workspace \<Rightarrow> risk_case \<Rightarrow> jobj \<Rightarrow> source_spec \<Rightarrow> bool" where
  "spec_current E w c r s \<longleftrightarrow> sp_tenant s = ws_tenant w \<and> sc_subject (rc_scope c) \<in> set (sp_subjects s) \<and>
     jget r ''source_spec_hash'' = JStr (digest E ''source-spec'' (spec_json s))"

definition request_bound :: "string \<Rightarrow> risk_case \<Rightarrow> string \<Rightarrow> jobj \<Rightarrow> jobj \<Rightarrow> source_spec \<Rightarrow> bool" where
  "request_bound case_id c source_id q r s \<longleftrightarrow>
     jget q ''kind'' = JStr ''SOURCE_REQUEST'' \<and> jget q ''state'' = JStr ''OBSERVED'' \<and>
     jget q ''case_id'' = JStr case_id \<and> jget q ''source_id'' = JStr source_id \<and>
     py_eq (jget q ''case_version'') (JInt (rc_version c)) \<and>
     py_eq (jget q ''receipt_id'') (jget r ''receipt_id'') \<and>
     py_eq (jget q ''resource'') (jget r ''resource'') \<and>
     py_eq (jget q ''source_spec_hash'') (jget r ''source_spec_hash'') \<and>
     jget r ''independence_group'' = JStr (sp_group s) \<and>
     jget r ''authoritative'' = JBool False \<and> jget r ''executable'' = JBool False"

definition seconds :: "int \<Rightarrow> int" where
  "seconds n = n * 1000000"

text \<open>
  The order of the tests is that of the code: the stored times are read twice, the second time
  for the expiry alone.
\<close>

definition receipt_reason :: "env \<Rightarrow> desk \<Rightarrow> workspace \<Rightarrow> string \<Rightarrow> risk_case \<Rightarrow> int \<Rightarrow> string \<Rightarrow> jobj \<Rightarrow> string option res"
where
  "receipt_reason E D w case_id c now source_id head =
     (case artifact w (jget head ''receipt_id'') of
        None \<Rightarrow> Inr (Some ''SOURCE_NOT_OBSERVED'')
      | Some r \<Rightarrow>
        (if jget head ''state'' \<noteq> JStr ''OBSERVED'' then Inr (Some ''SOURCE_NOT_OBSERVED'')
         else if \<not> head_bound w case_id c source_id head r then Inr (Some ''SOURCE_RECEIPT_BINDING_INVALID'')
         else (case spec_of D source_id of
           None \<Rightarrow> Inr (Some ''SOURCE_POLICY_CHANGED'')
         | Some s \<Rightarrow>
           (if \<not> spec_current E w c r s then Inr (Some ''SOURCE_POLICY_CHANGED'')
            else if \<not> request_bound case_id c source_id
                (case artifact w (jget head ''request_id'') of None \<Rightarrow> [] | Some q \<Rightarrow> q) r s
              then Inr (Some ''SOURCE_REQUEST_BINDING_INVALID'')
            else ebind (parsed_time E (jget r ''fetched_at'')) (\<lambda>fetched.
              if fetched > now then Inr (Some ''SOURCE_FRESHNESS_INVALID'')
              else ebind (parsed_time E (jget r ''expires_at'')) (\<lambda>expires.
              if expires \<le> fetched \<or> expires > fetched + seconds (sp_ttl s)
                then Inr (Some ''SOURCE_FRESHNESS_INVALID'')
              else if expires \<le> now then Inr (Some ''SOURCE_EXPIRED'')
              else if jget r ''receipt_root'' \<noteq>
                  JStr (digest E ''source-receipt'' (JObj (filter (\<lambda>(k, v). k \<noteq> ''receipt_root'') r)))
                then Inr (Some ''SOURCE_RECEIPT_CORRUPT'')
              else Inr None))))))"

fun receipts_loop :: "env \<Rightarrow> desk \<Rightarrow> workspace \<Rightarrow> string \<Rightarrow> risk_case \<Rightarrow> int \<Rightarrow> jobj dict \<Rightarrow> (jobj list \<times> jobj list) res"
where
  "receipts_loop E D w case_id c now [] = Inr ([], [])"
| "receipts_loop E D w case_id c now ((source_id, head) # heads) =
     ebind (receipt_reason E D w case_id c now source_id head) (\<lambda>reason.
     ebind (receipts_loop E D w case_id c now heads) (\<lambda>(accepted, rejected).
     case (reason, artifact w (jget head ''receipt_id'')) of
       (None, Some r) \<Rightarrow> Inr (r # accepted, rejected)
     | (Some why, _) \<Rightarrow> Inr (accepted, [(''source_id'', JStr source_id), (''reason'', JStr why)] # rejected)
     | (None, None) \<Rightarrow> Inr (accepted, rejected)))"

definition current_receipts :: "env \<Rightarrow> desk \<Rightarrow> workspace \<Rightarrow> string \<Rightarrow> int \<Rightarrow> (jobj list \<times> jobj list) res" where
  "current_receipts E D w case_id now =
     ebind (evidence_heads w case_id) (\<lambda>heads.
     ebind (case_at w case_id) (\<lambda>c. receipts_loop E D w case_id c now (sort_key fst heads)))"

section \<open>Source obligations\<close>

record obligation =
  ob_required :: "string list"
  ob_groups :: int
  ob_configured :: bool

text \<open>One artifact's contribution; \<^verbatim>\<open>ids\<close> is the set collected so far.\<close>

definition obligation_step :: "string \<Rightarrow> jobj \<Rightarrow> string list \<times> int \<times> bool \<Rightarrow> string list \<times> int \<times> bool" where
  "obligation_step case_id v = (\<lambda>(ids, groups, configured).
     if jget v ''case_id'' \<noteq> JStr case_id then (ids, groups, configured)
     else if jget v ''kind'' = JStr ''SOURCE_POLICY_GUARD'' then
       (ids @ jstrings (jget v ''required_sources''),
        max groups (jint_or v ''min_independence_groups'' 0),
        configured \<or> truthy (jget v ''configured_policy_required''))
     else if jget v ''kind'' \<in> {JStr ''SOURCE_REQUEST'', JStr ''SOURCE_HEAD'', JStr ''SOURCE_RECEIPT''} then
       (if truthy (jget v ''source_id'') then ids @ [jstring (jget v ''source_id'')] else ids, groups, configured)
     else if jget v ''kind'' = JStr ''REPORT_EVIDENCE_BUNDLE'' then
       (let bundle = jsub v ''bundle'';
            ids' = ids @ jstrings (jget bundle ''required_sources'')
              @ map (\<lambda>r. jstring (jget r ''source_id''))
                  (filter (\<lambda>r. truthy (jget r ''source_id'')) (jobjs (jget bundle ''receipts'')));
            floor = jsub bundle ''source_obligations'';
            required = (if map_of floor ''configured_policy_required'' = None
                        then truthy (jget bundle ''resolution_requires_sources'')
                        else truthy (jget floor ''configured_policy_required''))
        in if required then (ids', max groups (jint_or floor ''min_independence_groups'' (if ids' \<noteq> [] then 1 else 0)), True)
           else (ids', groups, configured))
     else (ids, groups, configured))"

definition obligations :: "workspace \<Rightarrow> string \<Rightarrow> obligation" where
  "obligations w case_id =
     (case fold (obligation_step case_id) (map snd (ws_artifacts w)) ([], 0, False) of
        (ids, groups, configured) \<Rightarrow>
          \<lparr>ob_required = sorted_set ids, ob_groups = groups, ob_configured = configured\<rparr>)"

definition has_obligations :: "workspace \<Rightarrow> string \<Rightarrow> bool" where
  "has_obligations w case_id \<longleftrightarrow>
     ob_required (obligations w case_id) \<noteq> [] \<or> ob_configured (obligations w case_id)"

definition guard_key :: "env \<Rightarrow> string \<Rightarrow> string" where
  "guard_key E case_id = digest E ''source-policy-guard'' (JStr case_id)"

definition guard_of :: "env \<Rightarrow> workspace \<Rightarrow> string \<Rightarrow> jobj" where
  "guard_of E w case_id = (case map_of (ws_artifacts w) (guard_key E case_id) of None \<Rightarrow> [] | Some g \<Rightarrow> g)"

definition effective_policy :: "env \<Rightarrow> workspace \<Rightarrow> risk_case \<Rightarrow> evidence_policy option \<Rightarrow> obligation res" where
  "effective_policy E w c policy =
     (let floor = obligations w (rc_id c); guard = guard_of E w (rc_id c) in
      if ob_configured floor \<and> policy = None then Inl (Casework ''SOURCE_POLICY_REMOVED'' 409)
      else if (case policy of None \<Rightarrow> False
               | Some p \<Rightarrow> truthy (jget guard ''configured_policy_required'') \<and>
                   (\<not> set (jstrings (jget guard ''configured_sources'')) \<subseteq> set (ep_required p) \<or>
                    ep_groups p < jint_or guard ''min_independence_groups'' 0))
        then Inl (Casework ''SOURCE_POLICY_WEAKENED'' 409)
      else Inr \<lparr>ob_required = sorted_set (ob_required floor @ (case policy of None \<Rightarrow> [] | Some p \<Rightarrow> ep_required p)),
                ob_groups = max (ob_groups floor) (case policy of None \<Rightarrow> 0 | Some p \<Rightarrow> ep_groups p),
                ob_configured = (policy \<noteq> None \<or> ob_configured floor)\<rparr>)"

definition obligation_fields :: "obligation \<Rightarrow> jobj" where
  "obligation_fields f = [(''required_sources'', jstrs (ob_required f)),
     (''min_independence_groups'', JInt (ob_groups f)),
     (''configured_policy_required'', JBool (ob_configured f))]"

definition remember_policy :: "env \<Rightarrow> workspace \<Rightarrow> risk_case \<Rightarrow> evidence_policy option \<Rightarrow> string list \<Rightarrow> workspace res"
where
  "remember_policy E w c policy source_ids =
     ebind (effective_policy E w c policy) (\<lambda>floor.
     let floor' = floor\<lparr>ob_required := sorted_set (ob_required floor @ source_ids)\<rparr>;
         configured = sorted_set (jstrings (jget (guard_of E w (rc_id c)) ''configured_sources'')
                        @ (case policy of None \<Rightarrow> [] | Some p \<Rightarrow> ep_required p))
     in if ob_required floor' = [] \<and> \<not> ob_configured floor' then Inr w
        else Inr (w\<lparr>ws_artifacts := dset (guard_key E (rc_id c))
          ([(''kind'', JStr ''SOURCE_POLICY_GUARD''), (''case_id'', JStr (rc_id c))]
            @ obligation_fields floor'
            @ [(''configured_sources'', jstrs configured), (''authority'', JBool False), (''executable'', JBool False)])
          (ws_artifacts w)\<rparr>))"

definition source_traced :: "report \<Rightarrow> bool" where
  "source_traced r \<longleftrightarrow> list_ex (\<lambda>t. jget t ''tool'' = JStr ''evidence.inspect'') (rp_trace r)"

definition require_desk :: "workspace \<Rightarrow> string \<Rightarrow> desk option \<Rightarrow> report option \<Rightarrow> unit res" where
  "require_desk w case_id D r =
     check (\<not> (D = None \<and> ((case r of None \<Rightarrow> False | Some r' \<Rightarrow> source_traced r') \<or> has_obligations w case_id)))
       (Casework ''SOURCE_GUARD_UNAVAILABLE'' 503)"

section \<open>The read side of the evidence desk\<close>

definition desk_policy :: "env \<Rightarrow> desk \<Rightarrow> workspace \<Rightarrow> risk_case \<Rightarrow> evidence_policy option" where
  "desk_policy E D w c = List.find (\<lambda>p. ep_tenant p = ws_tenant w \<and>
     scope_key E (ep_scope p) = scope_key E (rc_scope c)) (dk_policies D)"

definition desk_remember :: "env \<Rightarrow> desk option \<Rightarrow> workspace \<Rightarrow> risk_case \<Rightarrow> string list \<Rightarrow> workspace res" where
  "desk_remember E D w c source_ids =
     (case D of None \<Rightarrow> Inr w | Some dk \<Rightarrow> remember_policy E w c (desk_policy E dk w c) source_ids)"

definition receipt_signals :: "jobj \<Rightarrow> json list" where
  "receipt_signals r =
     (if jget (jsub r ''facts'') ''state'' = JStr ''open''
      then [JObj [(''source_id'', jget r ''source_id''), (''code'', JStr ''ISSUE_REMAINS_OPEN'')]] else []) @
     (if jget (jsub r ''facts'') ''transaction_succeeded'' = JBool False
      then [JObj [(''source_id'', jget r ''source_id''), (''code'', JStr ''TRANSACTION_REVERTED'')]] else [])"

record coverage =
  cv_floor :: obligation
  cv_receipts :: "jobj list"
  cv_rejected :: "jobj list"
  cv_conflicts :: "jobj list"
  cv_missing :: "string list"
  cv_groups :: "string list"

definition receipt_ids :: "jobj list \<Rightarrow> string list" where
  "receipt_ids rs = map (\<lambda>r. jstring (jget r ''source_id'')) rs"

text \<open>What the desk knows of a case before it is rendered: \<^verbatim>\<open>context\<close> up to \<^verbatim>\<open>ready\<close>.\<close>

definition desk_coverage :: "env \<Rightarrow> desk \<Rightarrow> workspace \<Rightarrow> string \<Rightarrow> int \<Rightarrow> coverage res" where
  "desk_coverage E D w case_id now =
     ebind (case_at w case_id) (\<lambda>c.
     ebind (effective_policy E w c (desk_policy E D w c)) (\<lambda>floor.
     ebind (current_receipts E D w case_id now) (\<lambda>(receipts, rejected).
     let required = ob_required floor;
         relevant = (if required \<noteq> [] then filter (\<lambda>r. jstring (jget r ''source_id'') \<in> set required) receipts else receipts)
     in Inr \<lparr>cv_floor = floor, cv_receipts = receipts, cv_rejected = rejected,
          cv_conflicts = source_conflicts E receipts,
          cv_missing = filter (\<lambda>i. i \<notin> set (receipt_ids receipts)) (sorted_set required),
          cv_groups = remdups (map (\<lambda>r. jstring (jget r ''independence_group'')) relevant)\<rparr>)))"

definition coverage_complete :: "coverage \<Rightarrow> bool" where
  "coverage_complete v \<longleftrightarrow> cv_rejected v = [] \<and> cv_conflicts v = [] \<and> cv_missing v = [] \<and>
     int (length (cv_groups v)) \<ge> ob_groups (cv_floor v)"

definition coverage_signals :: "env \<Rightarrow> coverage \<Rightarrow> json list" where
  "coverage_signals E v =
     concat (map receipt_signals (cv_receipts v))
     @ map (\<lambda>k. JObj [(''source_id'', JStr k), (''code'', JStr ''MISSING_REQUIRED_SOURCE'')]) (cv_missing v)
     @ map (\<lambda>i. JObj [(''source_id'', jget i ''source_id''), (''code'', jget i ''reason'')]) (cv_rejected v)
     @ map (\<lambda>i. JObj [(''source_id'', (case jget i ''source_ids'' of JList (s # _) \<Rightarrow> s | _ \<Rightarrow> JNull)),
                      (''code'', JStr ''SOURCE_CONFLICT''),
                      (''conflict_id'', JStr (digest E ''source-conflict'' (JObj i)))]) (cv_conflicts v)"

definition context_fields :: "env \<Rightarrow> string \<Rightarrow> risk_case \<Rightarrow> evidence_policy option \<Rightarrow> coverage \<Rightarrow> jobj" where
  "context_fields E case_id c policy v =
     [(''case_id'', JStr case_id), (''case_version'', JInt (rc_version c)),
      (''review_signals'', JList (coverage_signals E v)),
      (''required_sources'', jstrs (sorted_set (ob_required (cv_floor v)))),
      (''missing_sources'', jstrs (cv_missing v)),
      (''declared_independence_groups'', JInt (int (length (cv_groups v)))),
      (''coverage_complete'', JBool (coverage_complete v)),
      (''source_conflicts'', JList (map JObj (cv_conflicts v))),
      (''resolution_requires_sources'', JBool (ob_required (cv_floor v) \<noteq> [] \<or> policy \<noteq> None)),
      (''source_obligations'', JObj (obligation_fields (cv_floor v))),
      (''policy_hash'', JStr (digest E ''scope-evidence-policy''
         (case policy of None \<Rightarrow> JObj [] | Some p \<Rightarrow> policy_json p))),
      (''receipts'', JList (map (\<lambda>r. JObj (map (\<lambda>f. (f, jget r f))
         [''receipt_id'', ''source_id'', ''receipt_root'', ''facts'', ''expires_at'', ''provenance''])) (cv_receipts v))),
      (''rejected'', JList (map JObj (cv_rejected v))), (''authority'', JBool False),
      (''scope'', JStr ''Configured groups are declarations, not proof of independent people or fact truth'')]"

record desk_context =
  dx_coverage :: coverage
  dx_fields :: jobj
  dx_root :: string

definition context_value :: "desk_context \<Rightarrow> json" where
  "context_value x = JObj (dx_fields x @ [(''bundle_root'', JStr (dx_root x))])"

definition desk_context :: "env \<Rightarrow> desk \<Rightarrow> workspace \<Rightarrow> string \<Rightarrow> int \<Rightarrow> desk_context res" where
  "desk_context E D w case_id now =
     ebind (case_at w case_id) (\<lambda>c.
     ebind (desk_coverage E D w case_id now) (\<lambda>v.
     let fields = context_fields E case_id c (desk_policy E D w c) v
     in Inr \<lparr>dx_coverage = v, dx_fields = fields, dx_root = digest E ''evidence-bundle'' (JObj fields)\<rparr>))"

definition report_context :: "env \<Rightarrow> desk \<Rightarrow> workspace \<Rightarrow> string \<Rightarrow> int \<Rightarrow> desk_context option res" where
  "report_context E D w case_id now =
     ebind (case_at w case_id) (\<lambda>c.
     if desk_policy E D w c = None \<and> \<not> has_obligations w case_id then Inr None
     else ebind (desk_context E D w case_id now) (\<lambda>x. Inr (Some x)))"

definition evidence_gate :: "desk_context \<Rightarrow> unit res" where
  "evidence_gate x =
     ebind (check (cv_conflicts (dx_coverage x) = []) (Casework ''SOURCE_CONFLICT'' 409)) (\<lambda>_.
     check (coverage_complete (dx_coverage x)) (Casework ''SOURCE_COVERAGE_REQUIRED'' 409))"

definition validate_report :: "env \<Rightarrow> desk \<Rightarrow> workspace \<Rightarrow> risk_case \<Rightarrow> report \<Rightarrow> int \<Rightarrow> unit res" where
  "validate_report E D w c r now =
     ebind (report_context E D w (rc_id c) now) (\<lambda>ctx. case ctx of
       None \<Rightarrow> Inr ()
     | Some x \<Rightarrow>
         ebind (check (case filter (\<lambda>e. jget e ''tool'' = JStr ''evidence.inspect'') (rp_trace r) of
             [e] \<Rightarrow> jget e ''output_hash'' = JStr (digest E ''tool-output'' (context_value x)) | _ \<Rightarrow> False)
           (Casework ''SOURCE_REPORT_STALE'' 409)) (\<lambda>_. evidence_gate x))"

definition desk_resolution :: "env \<Rightarrow> desk \<Rightarrow> workspace \<Rightarrow> risk_case \<Rightarrow> string \<Rightarrow> int \<Rightarrow> unit res" where
  "desk_resolution E D w c evidence now =
     ebind (report_context E D w (rc_id c) now) (\<lambda>ctx. case ctx of
       None \<Rightarrow> Inr ()
     | Some x \<Rightarrow>
         ebind (check (cv_conflicts (dx_coverage x) = []) (Casework ''SOURCE_CONFLICT'' 409)) (\<lambda>_.
         check (coverage_complete (dx_coverage x) \<and> evidence = dx_root x)
           (Casework ''CURRENT_EVIDENCE_BUNDLE_REQUIRED'' 409)))"

end
