(* ===== verification/Cw_Engine.thy ===== *)
theory Cw_Engine
  imports Cw_Evidence
begin

text \<open>
  The transaction of casework: \<^verbatim>\<open>CaseworkService._load\<close> and \<^verbatim>\<open>_mutate\<close> of \<^verbatim>\<open>service.py\<close> and
  the store of \<^verbatim>\<open>store.py\<close>. A business mutation is an argument, a function from the loaded
  workspace and the next sequence number to the changed workspace and the result; the engine
  checks permissions, replays, checks the expected revision, appends the audit event, seals and
  saves. A mutation that raises saves nothing. Then the interface of the store as a locale, and
  its interpretation on the store of the code over an entity client.
\<close>

section \<open>Clock readings and fresh names\<close>

text \<open>
  Every call of \<^verbatim>\<open>clock()\<close> and of \<^verbatim>\<open>uuid4()\<close> gets a value of its own: the call sites are
  numbered, and the theorems hold for every assignment of values to them.
\<close>

record run =
  rn_clock :: "nat \<Rightarrow> int"
  rn_uuid :: "nat \<Rightarrow> string"

section \<open>Lookups that raise\<close>

definition find_task :: "workspace \<Rightarrow> actor \<Rightarrow> string \<Rightarrow> task res" where
  "find_task w a k = (case map_of (ws_tasks w) k of
     Some t \<Rightarrow> (if sc_subject (in_scope (tk_intent t)) \<in> set (ac_subjects a) then Inr t
                else Inl (Casework ''TASK_NOT_FOUND'' 404))
   | None \<Rightarrow> Inl (Casework ''TASK_NOT_FOUND'' 404))"

definition find_case :: "workspace \<Rightarrow> actor \<Rightarrow> string \<Rightarrow> risk_case res" where
  "find_case w a k = (case map_of (ws_cases w) k of
     Some c \<Rightarrow> (if sc_subject (rc_scope c) \<in> set (ac_subjects a) then Inr c
                else Inl (Casework ''CASE_NOT_FOUND'' 404))
   | None \<Rightarrow> Inl (Casework ''CASE_NOT_FOUND'' 404))"

lemma find_task_Inr:
  "find_task w a k = Inr t \<longleftrightarrow>
     map_of (ws_tasks w) k = Some t \<and> sc_subject (in_scope (tk_intent t)) \<in> set (ac_subjects a)"
  by (auto simp: find_task_def split: option.splits)

lemma find_case_Inr:
  "find_case w a k = Inr c \<longleftrightarrow>
     map_of (ws_cases w) k = Some c \<and> sc_subject (rc_scope c) \<in> set (ac_subjects a)"
  by (auto simp: find_case_def split: option.splits)

section \<open>The transaction\<close>

definition req_json :: "string \<Rightarrow> actor \<Rightarrow> string \<Rightarrow> jobj \<Rightarrow> json" where
  "req_json name a session payload = JObj [(''command'', JStr name), (''actor'', JStr (ac_id a)),
     (''session'', JStr session), (''payload'', JObj payload)]"

definition request_hash :: "env \<Rightarrow> string \<Rightarrow> actor \<Rightarrow> string \<Rightarrow> jobj \<Rightarrow> string" where
  "request_hash E name a session payload = digest E ''command'' (req_json name a session payload)"

definition idem_key :: "env \<Rightarrow> actor \<Rightarrow> string \<Rightarrow> string" where
  "idem_key E a k = digest E ''idempotency-key'' (jstrs [ac_id a, k])"

text \<open>\<^verbatim>\<open>_load\<close>, and the first lines of \<^verbatim>\<open>_mutate\<close> when the workspace may be created.\<close>

definition opened :: "env \<Rightarrow> bool \<Rightarrow> string \<Rightarrow> workspace option \<Rightarrow> workspace res" where
  "opened E boot tenant loaded =
     ebind (case loaded of
         None \<Rightarrow> (if boot then Inr (seal E (empty_workspace tenant))
                  else Inl (Casework ''MEMORY_WORKSPACE_MISSING'' 503))
       | Some w \<Rightarrow> Inr w) (\<lambda>w.
     ebind (validate_workspace E w) (\<lambda>_.
     ebind (check (ws_tenant w = tenant) (Casework ''TENANT_BINDING_FAILED'' 503)) (\<lambda>_. Inr w)))"

text \<open>Scope permissions are rechecked before an old response is returned.\<close>

definition recheck :: "workspace \<Rightarrow> actor \<Rightarrow> string \<Rightarrow> jobj \<Rightarrow> unit res" where
  "recheck w a name payload =
     ebind (case map_of payload ''task_id'' of None \<Rightarrow> Inr ()
            | Some k \<Rightarrow> ebind (find_task w a (jstring k)) (\<lambda>_. Inr ())) (\<lambda>_.
     ebind (case map_of payload ''case_id'' of None \<Rightarrow> Inr ()
            | Some k \<Rightarrow> ebind (find_case w a (jstring k)) (\<lambda>_. Inr ())) (\<lambda>_.
     if name = ''handoff.accept'' then
       (case map_of (ws_handoffs w) (jstring (jget payload ''handoff_id'')) of
          None \<Rightarrow> Inl (Casework ''HANDOFF_NOT_FOUND'' 404)
        | Some h \<Rightarrow> ebind (check (hf_reviewer h = ac_id a) (Casework ''HANDOFF_NOT_FOUND'' 404)) (\<lambda>_.
            ebind (find_case w a (hf_case h)) (\<lambda>_. Inr ())))
     else Inr ()))"

text \<open>A prepared review is only replayed while its decision is still good.\<close>

definition replay_guard :: "env \<Rightarrow> workspace \<Rightarrow> actor \<Rightarrow> string \<Rightarrow> jobj \<Rightarrow> run \<Rightarrow> unit res" where
  "replay_guard E w a name payload R =
     (if name \<noteq> ''review.prepare'' then Inr ()
      else ebind (find_task w a (jstring (jget payload ''task_id''))) (\<lambda>t.
        ebind (policy_result E w (tk_id t) (rn_clock R 0) False) (\<lambda>(v, _, _, _).
        case map_of (ws_decisions w) (jstring (jget payload ''decision_id'')) of
          None \<Rightarrow> Inl (Casework ''STALE_OR_BLOCKED_REVIEW'' 409)
        | Some d \<Rightarrow>
            (if tk_decision t \<noteq> Some (dc_id d) \<or> v \<noteq> READY \<or> dc_expires d \<le> rn_clock R 1
             then Inl (Casework ''STALE_OR_BLOCKED_REVIEW'' 409)
             else ebind (task_basis E w (tk_id t)) (\<lambda>b.
               check (dc_basis d = b) (Casework ''STALE_OR_BLOCKED_REVIEW'' 409))))))"

definition replayed :: "jobj \<Rightarrow> jobj res" where
  "replayed previous = ebind (jfield previous ''response'') (\<lambda>r. ebind (as_obj r) (\<lambda>d.
     Inr (dunion d [(''replayed'', JBool True), (''historical_only'', JBool True)])))"

definition fresh_check :: "env \<Rightarrow> workspace \<Rightarrow> 'c command_scheme \<Rightarrow> (string \<times> string) option \<Rightarrow> unit res" where
  "fresh_check E w c basis =
     (case basis of
        None \<Rightarrow> check (ws_revision w = cm_revision c) (Casework ''REVISION_CONFLICT'' 409)
      | Some (case_id, expected) \<Rightarrow>
          ebind (check (map_of (ws_cases w) case_id \<noteq> None) (Casework ''STALE_INVESTIGATION'' 409)) (\<lambda>_.
          ebind (investigation_basis E w case_id) (\<lambda>b.
          check (b = expected) (Casework ''STALE_INVESTIGATION'' 409))))"

definition audit_event :: "env \<Rightarrow> actor \<Rightarrow> string \<Rightarrow> string \<Rightarrow> int \<Rightarrow> jobj \<Rightarrow> jobj list \<Rightarrow> int \<Rightarrow> jobj" where
  "audit_event E a name fp tm result evs seq =
     (let body = [(''seq'', JInt seq), (''at'', JStr (iso_time E tm)), (''actor_id'', JStr (ac_id a)),
                  (''role'', JStr (role_str (ac_role a))), (''command'', JStr name),
                  (''request_hash'', JStr fp), (''result_hash'', JStr (digest E ''command-result'' (JObj result))),
                  (''previous_hash'', if evs = [] then JStr zero_hash else jget (last evs) ''event_hash'')]
      in body @ [(''event_hash'', JStr (digest E ''event'' (JObj body)))])"

definition commit :: "env \<Rightarrow> actor \<Rightarrow> string \<Rightarrow> string \<Rightarrow> string \<Rightarrow> int \<Rightarrow> int \<Rightarrow> workspace \<times> jobj \<Rightarrow> workspace \<times> jobj"
where
  "commit E a name fp key tm seq = (\<lambda>(w, result).
     let event = audit_event E a name fp tm result (ws_audit w) seq;
         response = dunion result [(''revision'', JInt seq), (''event_hash'', jget event ''event_hash''),
                      (''executable'', JBool False), (''replayed'', JBool False)]
     in (seal E (w\<lparr>ws_revision := seq, ws_audit := ws_audit w @ [event],
           ws_idempotency := dset key [(''request_hash'', JStr fp), (''response'', JObj response)]
             (ws_idempotency w)\<rparr>), response))"

type_synonym mutation = "workspace \<Rightarrow> int \<Rightarrow> (workspace \<times> jobj) res"

text \<open>\<open>None\<close>: the transaction saves nothing; \<open>Some w\<close>: it saves \<open>w\<close>.\<close>

type_synonym outcome = "workspace option \<times> jobj"

definition mutate :: "env \<Rightarrow> actor \<Rightarrow> 'c command_scheme \<Rightarrow> string \<Rightarrow> jobj \<Rightarrow> mutation \<Rightarrow> bool \<Rightarrow> (string \<times> string) option
    \<Rightarrow> run \<Rightarrow> workspace option \<Rightarrow> outcome res"
where
  "mutate E a c name payload f boot basis R loaded =
     (let fp = request_hash E name a (cm_session c) payload; key = idem_key E a (cm_key c) in
      ebind (opened E boot (ac_tenant a) loaded) (\<lambda>w.
      ebind (recheck w a name payload) (\<lambda>_.
      case map_of (ws_idempotency w) key of
        Some (p # ps) \<Rightarrow>
          ebind (jfield (p # ps) ''request_hash'') (\<lambda>h.
          ebind (check (h = JStr fp) (Casework ''IDEMPOTENCY_CONFLICT'' 409)) (\<lambda>_.
          ebind (replay_guard E w a name payload R) (\<lambda>_.
          ebind (replayed (p # ps)) (\<lambda>r. Inr (None, r)))))
      | _ \<Rightarrow>
          ebind (fresh_check E w c basis) (\<lambda>_.
          ebind (check (\<not> (boot \<and> ws_revision w \<noteq> 0)) (Casework ''WORKSPACE_ALREADY_EXISTS'' 409)) (\<lambda>_.
          ebind (check (ws_revision w < 5000) (Casework ''WORKSPACE_CAPACITY_REACHED'' 413)) (\<lambda>_.
          ebind (f w (ws_revision w + 1)) (\<lambda>wr.
          case commit E a name fp key (rn_clock R 2) (ws_revision w + 1) wr of
            (w', response) \<Rightarrow> Inr (Some w', response))))))))"

end
