(* ===== verification/Mg_Canonical.thy ===== *)
theory Mg_Canonical
  imports Py_Json
begin

text \<open>
  The canonical form and the domain separated hash of the v1 module
  (\<^verbatim>\<open>src/src/proofops_memoryguard/canonical.py\<close>), Python strings as lists of code points, and the
  small part of regular expressions the policy of v1 searches with.
\<close>

section \<open>Normal form\<close>

text \<open>
  \<^verbatim>\<open>_normalize\<close> on JSON values: strings in NFC, keys unchanged, a non-finite float raises.
  The value then goes through the serializer of \<^verbatim>\<open>Py_Json\<close>.
\<close>

fun normalize :: "env \<Rightarrow> json \<Rightarrow> json res"
  and normalize_list :: "env \<Rightarrow> json list \<Rightarrow> json list res"
  and normalize_pairs :: "env \<Rightarrow> (string \<times> json) list \<Rightarrow> (string \<times> json) list res"
where
  "normalize E (JStr s) = Inr (JStr (nfc E s))"
| "normalize E JNull = Inr JNull"
| "normalize E (JBool b) = Inr (JBool b)"
| "normalize E (JInt i) = Inr (JInt i)"
| "normalize E (JFloat f) = (case f of Fin r \<Rightarrow> Inr (JFloat f) | _ \<Rightarrow> Inl (PyExc ''ValueError''))"
| "normalize E (JList xs) = ebind (normalize_list E xs) (\<lambda>ys. Inr (JList ys))"
| "normalize E (JObj d) = ebind (normalize_pairs E d) (\<lambda>e. Inr (JObj e))"
| "normalize_list E [] = Inr []"
| "normalize_list E (x # xs) = ebind (normalize E x) (\<lambda>y. ebind (normalize_list E xs) (\<lambda>ys. Inr (y # ys)))"
| "normalize_pairs E [] = Inr []"
| "normalize_pairs E ((k, v) # d) = ebind (normalize E v) (\<lambda>y. ebind (normalize_pairs E d) (\<lambda>e. Inr ((k, y) # e)))"

definition canonical_json :: "env \<Rightarrow> json \<Rightarrow> string res" where
  "canonical_json E v = ebind (normalize E v) (\<lambda>n. Inr (dumps (float_repr E) n))"

definition domain_prefix :: "string \<Rightarrow> string" where
  "domain_prefix dm = ''proofops-memoryguard/v1:'' @ dm @ [CHR 0x00]"

definition domain_hash :: "env \<Rightarrow> string \<Rightarrow> json \<Rightarrow> string res" where
  "domain_hash E dm v = ebind (canonical_json E v) (\<lambda>t. Inr (sha256 E (domain_prefix dm @ t)))"

definition text_hash :: "env \<Rightarrow> string \<Rightarrow> string res" where
  "text_hash E s = domain_hash E ''external-text'' (JStr (nfc E s))"

text \<open>Only a non-finite float stops the hash.\<close>

lemma normalize_total:
  "finite_floats j \<Longrightarrow> \<exists>n. normalize E j = Inr n"
  "\<forall>x \<in> set xs. finite_floats x \<Longrightarrow> \<exists>ys. normalize_list E xs = Inr ys"
  "finite_floats_pairs d \<Longrightarrow> \<exists>e. normalize_pairs E d = Inr e"
proof (induction E j and E xs and E d rule: normalize_normalize_list_normalize_pairs.induct)
qed (auto split: pyfloat.splits simp: ebind_eq_Inr)

lemma normalize_ValueError:
  "normalize E j = Inl e \<Longrightarrow> e = PyExc ''ValueError'' \<and> \<not> finite_floats j"
  "normalize_list E xs = Inl e \<Longrightarrow> e = PyExc ''ValueError'' \<and> (\<exists>x \<in> set xs. \<not> finite_floats x)"
  "normalize_pairs E d = Inl e \<Longrightarrow> e = PyExc ''ValueError'' \<and> \<not> finite_floats_pairs d"
  by (induction E j and E xs and E d rule: normalize_normalize_list_normalize_pairs.induct)
    (auto split: pyfloat.splits simp: ebind_eq_Inl)

section \<open>Code points\<close>

text \<open>The code points of a UTF-8 string, each as its bytes.\<close>

fun code_points :: "string \<Rightarrow> string list" where
  "code_points [] = []"
| "code_points (c # s) =
     (case code_points s of
        [] \<Rightarrow> [[c]]
      | p # ps \<Rightarrow> (if p \<noteq> [] \<and> (of_char (hd p) :: nat) div 64 = 2 then (c # p) # ps else [c] # p # ps))"

lemma concat_code_points: "concat (code_points s) = s"
proof (induction s)
  case (Cons c s)
  then show ?case by (cases "code_points s") (auto split: list.splits)
qed simp

text \<open>\<^verbatim>\<open>\s\<close> and \<^verbatim>\<open>str.isspace\<close>: the white space of Unicode, in UTF-8.\<close>

definition spaces :: "string list" where
  "spaces = map (\<lambda>n. [char_of (n :: nat)]) ([9..<14] @ [28..<33])
     @ [[CHR 0xC2, CHR 0x85], [CHR 0xC2, CHR 0xA0], [CHR 0xE1, CHR 0x9A, CHR 0x80]]
     @ map (\<lambda>n. [CHR 0xE2, CHR 0x80, char_of (n :: nat)]) ([128..<139] @ [168, 169, 175])
     @ [[CHR 0xE2, CHR 0x81, CHR 0x9F], [CHR 0xE3, CHR 0x80, CHR 0x80]]"

definition is_space :: "string \<Rightarrow> bool" where
  "is_space p \<longleftrightarrow> p \<in> set spaces"

definition py_strip :: "string \<Rightarrow> string" where
  "py_strip s = concat (rev (dropWhile is_space (rev (dropWhile is_space (code_points s)))))"

definition subject_ref :: "env \<Rightarrow> string \<Rightarrow> string res" where
  "subject_ref E s = domain_hash E ''subject'' (JStr (uni_lower E (py_strip s)))"

section \<open>Searching\<close>

text \<open>
  The patterns the policy searches for are sequences of alternatives of words, optional words
  and repeated classes. A search asks whether some suffix starts with a match, which does not
  depend on the order a backtracking engine tries the repetitions in. Words match without case;
  besides the ASCII letters, Unicode gives \<^verbatim>\<open>i\<close>, \<^verbatim>\<open>s\<close> and \<^verbatim>\<open>k\<close> further case variants.
\<close>

datatype item = Words "string list" | Space1 | Gap nat

definition letter_variants :: "char \<Rightarrow> string list" where
  "letter_variants c = [c] # (if is_lower c then [[char_of ((of_char c :: nat) - 32)]] else [])
     @ (if c = CHR ''i'' then [[CHR 0xC4, CHR 0xB0], [CHR 0xC4, CHR 0xB1]] else [])
     @ (if c = CHR ''s'' then [[CHR 0xC5, CHR 0xBF]] else [])
     @ (if c = CHR ''k'' then [[CHR 0xE2, CHR 0x84, CHR 0xAA]] else [])"

fun word_at :: "string \<Rightarrow> string list \<Rightarrow> bool" where
  "word_at [] ps = True"
| "word_at (c # cs) [] = False"
| "word_at (c # cs) (p # ps) = (p \<in> set (letter_variants c) \<and> word_at cs ps)"

fun match_at :: "item list \<Rightarrow> string list \<Rightarrow> bool" where
  "match_at [] ps = True"
| "match_at (Words ws # is) ps = list_ex (\<lambda>w. word_at w ps \<and> match_at is (drop (length w) ps)) ws"
| "match_at (Space1 # is) ps = list_ex (\<lambda>n. list_all is_space (take n ps) \<and> match_at is (drop n ps))
     [1..<Suc (length ps)]"
| "match_at (Gap m # is) ps = list_ex (\<lambda>n. list_all (\<lambda>p. p \<noteq> [CHR 0x0A]) (take n ps) \<and> match_at is (drop n ps))
     [0..<Suc (min m (length ps))]"

fun search_at :: "item list \<Rightarrow> string list \<Rightarrow> bool" where
  "search_at is [] = match_at is []"
| "search_at is (p # ps) = (match_at is (p # ps) \<or> search_at is ps)"

end
