(* ===== verification/Py_Hex.thy ===== *)
theory Py_Hex
  imports Py_Json
begin

text \<open>
  Hexadecimal numbers as the sources write and read them: \<^verbatim>\<open>hex(n)\<close>, the format \<^verbatim>\<open>064x\<close>,
  \<^verbatim>\<open>bytes.hex()\<close>, and \<^verbatim>\<open>int(s, 16)\<close> on ASCII texts, with the laws that a number is read back.
\<close>

section \<open>Hexadecimal texts\<close>

fun hex_nat :: "nat \<Rightarrow> string" where
  "hex_nat n = (if n < 16 then [hex_char n] else hex_nat (n div 16) @ [hex_char (n mod 16)])"

declare hex_nat.simps [simp del]

text \<open>\<^verbatim>\<open>s.rjust(n, "0")\<close> and the format \<^verbatim>\<open>064x\<close>.\<close>

definition zero_pad :: "nat \<Rightarrow> string \<Rightarrow> string" where
  "zero_pad n s = replicate (n - length s) (CHR ''0'') @ s"

definition hex_word :: "nat \<Rightarrow> string" where
  "hex_word n = zero_pad 64 (hex_nat n)"

definition bytes_hex :: "string \<Rightarrow> string" where
  "bytes_hex s = concat (map (\<lambda>c. [hex_char (of_char c div 16), hex_char (of_char c mod 16)]) s)"

definition hex_val :: "char \<Rightarrow> nat" where
  "hex_val c = (if is_digit c then of_char c - 48 else if c \<le> CHR ''F'' then of_char c - 55 else of_char c - 87)"

text \<open>
  \<^verbatim>\<open>int(s, 16)\<close> on an ASCII text: blanks around it, a sign, a prefix \<^verbatim>\<open>0x\<close>, digits with single
  underscores between them.
\<close>

fun hex_run :: "bool \<Rightarrow> nat \<Rightarrow> string \<Rightarrow> nat option" where
  "hex_run ok acc [] = (if ok then Some acc else None)"
| "hex_run ok acc (c # s) =
     (if is_hex c then hex_run True (16 * acc + hex_val c) s
      else if c = CHR ''_'' \<and> ok then hex_run False acc s else None)"

definition ascii_blank :: "char \<Rightarrow> bool" where
  "ascii_blank c \<longleftrightarrow> c = CHR '' '' \<or> (9 \<le> (of_char c :: nat) \<and> of_char c \<le> (13 :: nat)) \<or> (28 \<le> (of_char c :: nat) \<and> of_char c \<le> (31 :: nat))"

definition starts :: "char \<Rightarrow> string \<Rightarrow> bool" where
  "starts c s \<longleftrightarrow> s \<noteq> [] \<and> hd s = c"

definition hex_unsigned :: "string \<Rightarrow> nat option" where
  "hex_unsigned s =
     (if starts (CHR ''0'') s \<and> (starts (CHR ''x'') (tl s) \<or> starts (CHR ''X'') (tl s))
      then (let r = drop 2 s in hex_run False 0 (if starts (CHR ''_'') r then tl r else r))
      else hex_run False 0 s)"

definition ascii_int16 :: "string \<Rightarrow> int option" where
  "ascii_int16 s =
     (let t = rev (dropWhile ascii_blank (rev (dropWhile ascii_blank s))) in
      if starts (CHR ''-'') t then map_option (\<lambda>n. - int n) (hex_unsigned (tl t))
      else map_option int (hex_unsigned (if starts (CHR ''+'') t then tl t else t)))"

lemma of_char_hex_char: "n < 16 \<Longrightarrow> of_char (hex_char n) = (if n < 10 then 48 + n else 87 + n)"
  by (simp add: hex_char_def of_char_of)

lemma hex_char_class: "n < 16 \<Longrightarrow> is_hexlow (hex_char n) \<and> is_hex (hex_char n) \<and> hex_val (hex_char n) = n"
  by (auto simp: is_hexlow_def is_hex_def is_digit_def hex_val_def less_eq_char_def of_char_hex_char)

lemma hex_run_append: "list_all is_hex s \<Longrightarrow> s \<noteq> [] \<Longrightarrow> hex_run ok acc (s @ t) = hex_run True (foldl (\<lambda>n c. 16 * n + hex_val c) acc s) t"
  by (induction s arbitrary: ok acc) (auto, metis append_Nil foldl_Nil list.pred_inject(1))

definition unhex_word :: "string \<Rightarrow> nat" where
  "unhex_word s = foldl (\<lambda>n c. 16 * n + hex_val c) 0 s"

lemma hex_nat_digits: "list_all is_hexlow (hex_nat n) \<and> list_all is_hex (hex_nat n) \<and> hex_nat n \<noteq> []"
proof (induction n rule: hex_nat.induct)
  case (1 n)
  then show ?case by (subst (1 2 3) hex_nat.simps) (use hex_char_class [of n] hex_char_class [of "n mod 16"] in auto)
qed

lemma unhex_hex_nat: "unhex_word (hex_nat n) = n"
proof (induction n rule: hex_nat.induct)
  case (1 n)
  then show ?case
    by (subst hex_nat.simps) (use hex_char_class [of n] hex_char_class [of "n mod 16"] in \<open>auto simp: unhex_word_def\<close>)
qed

lemma unhex_zeros: "unhex_word (replicate k (CHR ''0'') @ s) = unhex_word s"
  by (induction k) (auto simp: unhex_word_def hex_val_def is_digit_def)

lemma unhex_hex_word [simp]: "unhex_word (hex_word n) = n"
  by (simp add: hex_word_def zero_pad_def unhex_zeros unhex_hex_nat)

lemma length_hex_nat: "n < 16 ^ k \<Longrightarrow> 0 < k \<Longrightarrow> length (hex_nat n) \<le> k"
proof (induction n arbitrary: k rule: hex_nat.induct)
  case (1 n)
  show ?case
  proof (cases "n < 16")
    case False
    with "1.prems" obtain j where k: "k = Suc j" "0 < j" by (cases k) (auto, metis gr0I power_0 less_one mult.right_neutral)
    from "1.prems"(1) k(1) have "n div 16 < 16 ^ j" by (simp add: less_mult_imp_div_less mult.commute)
    with "1.IH" [OF False this k(2)] k(1) False show ?thesis by (subst hex_nat.simps) simp
  qed (use "1.prems" in \<open>simp add: hex_nat.simps\<close>)
qed

lemma length_hex_word: "n < 2 ^ 64 \<Longrightarrow> length (hex_word n) = 64"
  using length_hex_nat [of n 64] by (simp add: hex_word_def zero_pad_def)

lemma hex_run_word: "list_all is_hex s \<Longrightarrow> s \<noteq> [] \<Longrightarrow> hex_run ok 0 s = Some (unhex_word s)"
  using hex_run_append [of s ok 0 "[]"] by (simp add: unhex_word_def)

lemma hex_not_marks: "is_hex c \<Longrightarrow> \<not> ascii_blank c \<and> c \<noteq> CHR ''-'' \<and> c \<noteq> CHR ''+'' \<and> c \<noteq> CHR ''_'' \<and> c \<noteq> CHR ''x'' \<and> c \<noteq> CHR ''X'' \<and>
    (of_char c :: nat) < 128"
  by (auto simp: is_hex_def is_digit_def ascii_blank_def less_eq_char_def)

lemma hex_unsigned_word:
  assumes "list_all is_hex s" "s \<noteq> []"
  shows "hex_unsigned s = Some (unhex_word s)"
proof -
  have "\<not> starts (CHR ''x'') (tl s)" "\<not> starts (CHR ''X'') (tl s)"
    using assms(1) hex_not_marks by (cases s; cases "tl s"; force simp: starts_def)+
  then show ?thesis using hex_run_word [OF assms, of False] by (simp add: hex_unsigned_def)
qed

lemma ascii_int16_word:
  assumes "list_all is_hex s" "s \<noteq> []"
  shows "ascii_int16 s = Some (int (unhex_word s))"
proof -
  have m: "\<not> ascii_blank c \<and> c \<noteq> CHR ''-'' \<and> c \<noteq> CHR ''+''" if "c \<in> set s" for c
    using hex_not_marks [of c] assms(1) that by (auto simp: list_all_iff)
  have d: "dropWhile ascii_blank t = t" if "set t \<subseteq> set s" for t using that m by (cases t) auto
  have "\<not> starts (CHR ''-'') s" "\<not> starts (CHR ''+'') s"
    using m assms(2) by (cases s; force simp: starts_def)+
  then show ?thesis using hex_unsigned_word [OF assms] by (simp add: ascii_int16_def d Let_def)
qed

lemma hex_word_text: "list_all is_hex (hex_word n) \<and> hex_word n \<noteq> []"
  using hex_nat_digits [of n] by (auto simp: hex_word_def zero_pad_def list_all_iff is_hex_def is_digit_def)

lemma ascii_int16_hex_word [simp]: "ascii_int16 (hex_word n) = Some (int n)"
  using ascii_int16_word hex_word_text by simp

end
