(* ===== verification/Cw_Anchor.thy ===== *)
theory Cw_Anchor
  imports Cw_Models Mg_Canonical Py_Hex
begin

text \<open>
  The audit anchor of casework (\<^verbatim>\<open>src/src/proofops_casework/anchoring.py\<close>): the calldata of a
  zero-value transaction that records a proof root, and the independent check of a transaction
  against the answers of a Base RPC node. The node, keccak and the clock are arguments.
\<close>

section \<open>The configured anchor\<close>

definition tx_hash_text :: "string \<Rightarrow> bool" where
  "tx_hash_text s \<longleftrightarrow> length s = 66 \<and> take 2 s = ''0x'' \<and> list_all is_hex (drop 2 s)"

definition zero_address :: "string \<Rightarrow> bool" where
  "zero_address s \<longleftrightarrow> list_all (\<lambda>c. hex_val c = 0) (drop 2 s)"

record base_anchor =
  an_chain :: int
  an_contract :: string
  an_attester :: string
  an_confirmations :: int
  an_injected :: bool
  an_selector :: string
  an_topic :: string

text \<open>\<^verbatim>\<open>BaseAuditAnchor.__init__\<close>; \<open>test\<close> is the injected hash, \<open>injected\<close> tells an injected RPC.\<close>

definition make_anchor :: "env \<Rightarrow> (string \<Rightarrow> string) \<Rightarrow> int \<Rightarrow> string \<Rightarrow> string \<Rightarrow> string \<Rightarrow> int \<Rightarrow> bool
    \<Rightarrow> (string \<Rightarrow> string) option \<Rightarrow> bool \<Rightarrow> base_anchor res"
where
  "make_anchor E keccak chain contract attester url confirmations injected test test_mode =
     ebind (check (chain \<in> {8453, 84532}) (PyExc ''ValueError'')) (\<lambda>_.
     ebind (check (valid_address contract \<and> valid_address attester \<and> \<not> zero_address contract \<and> \<not> zero_address attester)
       (PyExc ''ValueError'')) (\<lambda>_.
     ebind (check (1 \<le> confirmations \<and> confirmations \<le> 128 \<and> take 8 url = ''https://'') (PyExc ''ValueError'')) (\<lambda>_.
     ebind (check (\<not> ((injected \<or> test \<noteq> None) \<and> \<not> test_mode)) (PyExc ''ValueError'')) (\<lambda>_.
     let hasher = (case test of Some h \<Rightarrow> h | None \<Rightarrow> keccak) in
     Inr \<lparr>an_chain = chain, an_contract = uni_lower E contract, an_attester = uni_lower E attester,
          an_confirmations = confirmations, an_injected = injected,
          an_selector = bytes_hex (take 4 (hasher ''anchor(bytes32,uint64)'')),
          an_topic = ''0x'' @ bytes_hex (hasher ''MemoryProofAnchored(bytes32,address,uint64,uint64)'')\<rparr>))))"

section \<open>The plan\<close>

definition calldata :: "base_anchor \<Rightarrow> string \<Rightarrow> int \<Rightarrow> string" where
  "calldata B pr version = ''0x'' @ an_selector B @ pr @ hex_word (nat version)"

definition plan_body :: "base_anchor \<Rightarrow> string \<Rightarrow> int \<Rightarrow> jobj" where
  "plan_body B pr version = [(''chain_id'', JInt (an_chain B)), (''to'', JStr (an_contract B)), (''value'', JStr ''0x0''),
     (''data'', JStr (calldata B pr version)), (''proof_root'', JStr pr), (''memory_version'', JInt version),
     (''expected_attester'', JStr (an_attester B)), (''audit_only'', JBool True),
     (''human_wallet_confirmation_required'', JBool True)]"

text \<open>\<^verbatim>\<open>plan\<close> on values of any type: a root that is no text raises a TypeError in the regular expression.\<close>

definition base_plan :: "base_anchor \<Rightarrow> json \<Rightarrow> json \<Rightarrow> json \<Rightarrow> jobj res" where
  "base_plan B pr version chain = (case pr of
     JStr s \<Rightarrow>
       (case version of
          JInt v \<Rightarrow> ebind (check (valid_digest s \<and> s \<noteq> replicate 64 (CHR ''0'') \<and> 1 \<le> v \<and> v < 2 ^ 64 \<and> py_eq chain (JInt (an_chain B)))
            (Casework ''ANCHOR_PROOF_OR_CHAIN_INVALID'' 422)) (\<lambda>_. Inr (plan_body B s v))
        | _ \<Rightarrow> Inl (Casework ''ANCHOR_PROOF_OR_CHAIN_INVALID'' 422))
   | _ \<Rightarrow> Inl (PyExc ''TypeError''))"

section \<open>What comes from outside\<close>

text \<open>
  One verification: the answers of the node to its calls, which are numbered; \<^verbatim>\<open>int(s, 16)\<close> of a text
  outside ASCII, \<^verbatim>\<open>str(v)\<close> of a value that is no text, and the clock.
\<close>

record outside =
  ou_answer :: "nat \<Rightarrow> string \<Rightarrow> json list \<Rightarrow> json res"
  ou_odd_int :: "string \<Rightarrow> int res"
  ou_shown :: "json \<Rightarrow> string"
  ou_now :: int

text \<open>\<^verbatim>\<open>_rpc\<close>: an injected transport answers directly, HTTP with a JSON-RPC body that is checked.\<close>

definition rpc_result :: "json \<Rightarrow> json res" where
  "rpc_result body = (case body of
     JObj d \<Rightarrow> ebind (check (jget d ''jsonrpc'' = JStr ''2.0'' \<and> jget d ''id'' = JInt 1 \<and> map_of d ''error'' = None \<and>
         map_of d ''result'' \<noteq> None) (Casework ''ANCHOR_RPC_ERROR'' 503)) (\<lambda>_. Inr (jget d ''result''))
   | _ \<Rightarrow> Inl (PyExc ''AttributeError''))"

definition rpc :: "base_anchor \<Rightarrow> outside \<Rightarrow> nat \<Rightarrow> string \<Rightarrow> json list \<Rightarrow> json res" where
  "rpc B U n verb args = ebind (ou_answer U n verb args) (\<lambda>v. if an_injected B then Inr v else rpc_result v)"

definition int16 :: "outside \<Rightarrow> json \<Rightarrow> int res" where
  "int16 U v = (case v of
     JStr s \<Rightarrow> (if list_all (\<lambda>c. of_char c < (128 :: nat)) s
       then (case ascii_int16 s of None \<Rightarrow> Inl (PyExc ''ValueError'') | Some i \<Rightarrow> Inr i) else ou_odd_int U s)
   | _ \<Rightarrow> Inl (PyExc ''TypeError''))"

lemma int16_hex_word [simp]: "int16 U (JStr (hex_word n)) = Inr (int n)"
  using hex_word_text [of n] hex_not_marks by (auto simp: int16_def list_all_iff)

text \<open>\<^verbatim>\<open>str(v).lower()\<close>.\<close>

definition lowered :: "env \<Rightarrow> outside \<Rightarrow> json \<Rightarrow> string" where
  "lowered E U v = uni_lower E (case v of JStr s \<Rightarrow> s | _ \<Rightarrow> ou_shown U v)"

text \<open>\<^verbatim>\<open>d.get(k, default)\<close> and \<^verbatim>\<open>v.get\<close> of a value that may be no dictionary.\<close>

definition jget_or :: "jobj \<Rightarrow> string \<Rightarrow> json \<Rightarrow> json" where
  "jget_or d k v = (case map_of d k of None \<Rightarrow> v | Some x \<Rightarrow> x)"

definition has_get :: "json \<Rightarrow> jobj res" where
  "has_get v = (case v of JObj d \<Rightarrow> Inr d | _ \<Rightarrow> Inl (PyExc ''AttributeError''))"

definition as_text :: "json \<Rightarrow> string res" where
  "as_text v = (case v of JStr s \<Rightarrow> Inr s | _ \<Rightarrow> Inl (PyExc ''TypeError''))"

lemma has_get_Inr [simp]: "has_get v = Inr d \<longleftrightarrow> v = JObj d"
  by (auto simp: has_get_def split: json.splits)

lemma as_text_Inr [simp]: "as_text v = Inr s \<longleftrightarrow> v = JStr s"
  by (auto simp: as_text_def split: json.splits)

definition elements :: "json \<Rightarrow> json list res" where
  "elements v = (case v of JList xs \<Rightarrow> Inr xs | JObj d \<Rightarrow> Inr (map JStr (keys d))
     | JStr s \<Rightarrow> Inr (map JStr (code_points s)) | _ \<Rightarrow> Inl (PyExc ''TypeError''))"

section \<open>The verification\<close>

definition pending :: "string \<Rightarrow> (string \<times> json) list \<Rightarrow> jobj" where
  "pending tx extra = [(''state'', JStr ''PENDING''), (''tx_hash'', JStr tx)] @ extra @ [(''audit_only'', JBool True)]"

text \<open>The receipt is bound to the transaction, the contract and the attester.\<close>

definition receipt_bound :: "env \<Rightarrow> base_anchor \<Rightarrow> outside \<Rightarrow> string \<Rightarrow> jobj \<Rightarrow> bool" where
  "receipt_bound E B U tx r \<longleftrightarrow> lowered E U (jget_or r ''transactionHash'' (JStr [])) = uni_lower E tx \<and>
     jget r ''status'' = JStr ''0x1'' \<and> lowered E U (jget_or r ''to'' (JStr [])) = an_contract B \<and>
     lowered E U (jget_or r ''from'' (JStr [])) = an_attester B"

definition transaction_bound :: "env \<Rightarrow> base_anchor \<Rightarrow> outside \<Rightarrow> string \<Rightarrow> string \<Rightarrow> jobj \<Rightarrow> jobj \<Rightarrow> bool" where
  "transaction_bound E B U tx data r t \<longleftrightarrow>
     lowered E U (jget_or t ''hash'' (JStr [])) = uni_lower E tx \<and>
     py_eq (jget t ''blockNumber'') (jget r ''blockNumber'') \<and>
     lowered E U (jget_or t ''blockHash'' (JStr [])) = lowered E U (jget_or r ''blockHash'' (JStr [])) \<and>
     lowered E U (jget_or t ''to'' (JStr [])) = an_contract B \<and>
     lowered E U (jget_or t ''from'' (JStr [])) = an_attester B \<and>
     lowered E U (jget_or t ''input'' (JStr [])) = uni_lower E data"

definition attester_topic :: "base_anchor \<Rightarrow> string" where
  "attester_topic B = ''0x'' @ zero_pad 64 (drop 2 (an_attester B))"

definition word_pair :: "json \<Rightarrow> string option" where
  "word_pair v = (case v of JStr s \<Rightarrow> (if length s = 130 \<and> take 2 s = ''0x'' \<and> list_all is_hex (drop 2 s) then Some s else None)
     | _ \<Rightarrow> None)"

text \<open>One log entry; the tests are made in this order, so a value of another type raises only when it is reached.\<close>

definition log_matches :: "env \<Rightarrow> base_anchor \<Rightarrow> outside \<Rightarrow> string \<Rightarrow> int \<Rightarrow> json \<Rightarrow> bool res" where
  "log_matches E B U pr version entry =
     ebind (has_get entry) (\<lambda>l.
     if lowered E U (jget_or l ''address'' (JStr [])) = an_contract B \<and> \<not> truthy (jget_or l ''removed'' (JBool False)) then
       ebind (elements (jget_or l ''topics'' (JList []))) (\<lambda>topics.
       Inr (map (lowered E U) topics = [uni_lower E (an_topic B), ''0x'' @ pr, attester_topic B] \<and>
         (case word_pair (jget_or l ''data'' (JStr [])) of None \<Rightarrow> False
          | Some s \<Rightarrow> int (unhex_word (take 64 (drop 2 s))) = version)))
     else Inr False)"

definition verified_body :: "env \<Rightarrow> base_anchor \<Rightarrow> string \<Rightarrow> string \<Rightarrow> int \<Rightarrow> int \<Rightarrow> json \<Rightarrow> int \<Rightarrow> int \<Rightarrow> jobj" where
  "verified_body E B tx pr version block block_hash seen now =
     [(''state'', JStr ''VERIFIED''), (''tx_hash'', JStr tx), (''chain_id'', JInt (an_chain B)), (''contract'', JStr (an_contract B)),
      (''attester'', JStr (an_attester B)), (''block_number'', JInt block), (''block_hash'', block_hash),
      (''confirmations_at_verification'', JInt seen), (''minimum_confirmations'', JInt (an_confirmations B)),
      (''proof_root'', JStr pr), (''memory_version'', JInt version), (''verified_at'', JStr (iso_time E now)),
      (''audit_only'', JBool True), (''partner_bonus_awarded'', JBool False), (''economic_action_authorized'', JBool False)]"

text \<open>The block of the receipt: its number and hash, that the node still has it, and how many blocks follow.\<close>

definition block_check :: "env \<Rightarrow> base_anchor \<Rightarrow> outside \<Rightarrow> jobj \<Rightarrow> (int \<times> string \<times> int) res" where
  "block_check E B U r =
     ebind (ebind (jfield r ''blockNumber'') (int16 U)) (\<lambda>number.
     ebind (jfield r ''blockHash'') (\<lambda>h.
     ebind (check (0 < number) (Casework ''ANCHOR_BLOCK_INVALID'' 422)) (\<lambda>_.
     ebind (as_text h) (\<lambda>s.
     ebind (check (tx_hash_text s) (Casework ''ANCHOR_BLOCK_INVALID'' 422)) (\<lambda>_.
     ebind (rpc B U 3 ''eth_getBlockByNumber'' [JStr (''0x'' @ hex_nat (nat number)), JBool False]) (\<lambda>canonical.
     ebind (check (truthy canonical) (Casework ''ANCHOR_BLOCK_NOT_CANONICAL'' 409)) (\<lambda>_.
     ebind (has_get canonical) (\<lambda>k.
     ebind (check (lowered E U (jget_or k ''hash'' (JStr [])) = uni_lower E s) (Casework ''ANCHOR_BLOCK_NOT_CANONICAL'' 409)) (\<lambda>_.
     ebind (int16 U (jget_or k ''number'' (JStr ''-1''))) (\<lambda>n.
     ebind (check (n = number) (Casework ''ANCHOR_BLOCK_NOT_CANONICAL'' 409)) (\<lambda>_.
     ebind (ebind (rpc B U 4 ''eth_blockNumber'' []) (int16 U)) (\<lambda>head.
     Inr (number, s, head - number + 1)))))))))))))"

text \<open>The body of the \<^verbatim>\<open>try\<close> block.\<close>

definition chain_check :: "env \<Rightarrow> base_anchor \<Rightarrow> outside \<Rightarrow> string \<Rightarrow> string \<Rightarrow> int \<Rightarrow> string \<Rightarrow> jobj res" where
  "chain_check E B U data pr version tx =
     ebind (ebind (rpc B U 0 ''eth_chainId'' []) (int16 U)) (\<lambda>chain.
     ebind (check (chain = an_chain B) (Casework ''ANCHOR_RPC_CHAIN_MISMATCH'' 422)) (\<lambda>_.
     ebind (rpc B U 1 ''eth_getTransactionReceipt'' [JStr tx]) (\<lambda>receipt.
     if receipt = JNull then Inr (pending tx []) else
     ebind (has_get receipt) (\<lambda>r.
     ebind (check (receipt_bound E B U tx r) (Casework ''ANCHOR_RECEIPT_BINDING_FAILED'' 422)) (\<lambda>_.
     ebind (rpc B U 2 ''eth_getTransactionByHash'' [JStr tx]) (\<lambda>transaction.
     ebind (case transaction of JObj t \<Rightarrow> Inr t | _ \<Rightarrow> Inl (Casework ''ANCHOR_CALLDATA_OR_VALUE_MISMATCH'' 422)) (\<lambda>t.
     ebind (check (transaction_bound E B U tx data r t) (Casework ''ANCHOR_CALLDATA_OR_VALUE_MISMATCH'' 422)) (\<lambda>_.
     ebind (int16 U (jget_or t ''value'' (JStr ''0x1''))) (\<lambda>sent.
     ebind (check (sent = 0) (Casework ''ANCHOR_CALLDATA_OR_VALUE_MISMATCH'' 422)) (\<lambda>_.
     ebind (ebind (elements (jget_or r ''logs'' (JList []))) (emap (log_matches E B U pr version))) (\<lambda>found.
     ebind (check (True \<in> set found) (Casework ''ANCHOR_EVENT_MISMATCH'' 422)) (\<lambda>_.
     ebind (block_check E B U r) (\<lambda>(number, h, seen).
     Inr (if seen < an_confirmations B then pending tx [(''confirmations'', JInt (max 0 seen))]
          else verified_body E B tx pr version number (JStr h) seen (ou_now U)))))))))))))))"

definition base_verify :: "env \<Rightarrow> base_anchor \<Rightarrow> outside \<Rightarrow> jobj \<Rightarrow> string \<Rightarrow> jobj res" where
  "base_verify E B U plan tx =
     ebind (check (tx_hash_text tx) (Casework ''INVALID_TRANSACTION_HASH'' 422)) (\<lambda>_.
     ebind (jfield plan ''proof_root'') (\<lambda>pr. ebind (jfield plan ''memory_version'') (\<lambda>v. ebind (jfield plan ''chain_id'') (\<lambda>c.
     ebind (base_plan B pr v c) (\<lambda>expected.
     ebind (check (py_eq (JObj expected) (JObj plan)) (Casework ''ANCHOR_PLAN_TAMPERED'' 503)) (\<lambda>_.
     case (pr, v) of
       (JStr s, JInt n) \<Rightarrow>
         (case chain_check E B U (calldata B s n) s n tx of
            Inl (PyExc e) \<Rightarrow> Inl (Casework ''ANCHOR_VERIFICATION_UNAVAILABLE'' 503)
          | out \<Rightarrow> out)
     | _ \<Rightarrow> Inl (PyExc ''TypeError'')))))))"

section \<open>What a verification says\<close>

text \<open>
  The answers a verified transaction rests on: its receipt, itself, a log entry, the block of its
  number, and a head far enough above it.
\<close>

definition anchored_on_chain :: "env \<Rightarrow> base_anchor \<Rightarrow> outside \<Rightarrow> string \<Rightarrow> int \<Rightarrow> string \<Rightarrow> int \<Rightarrow> bool" where
  "anchored_on_chain E B U pr version tx seen \<longleftrightarrow>
     ebind (rpc B U 0 ''eth_chainId'' []) (int16 U) = Inr (an_chain B) \<and>
     (\<exists>r t entries entry number h k head.
        rpc B U 1 ''eth_getTransactionReceipt'' [JStr tx] = Inr (JObj r) \<and> receipt_bound E B U tx r \<and>
        rpc B U 2 ''eth_getTransactionByHash'' [JStr tx] = Inr (JObj t) \<and>
        transaction_bound E B U tx (calldata B pr version) r t \<and> int16 U (jget_or t ''value'' (JStr ''0x1'')) = Inr 0 \<and>
        elements (jget_or r ''logs'' (JList [])) = Inr entries \<and> entry \<in> set entries \<and>
        log_matches E B U pr version entry = Inr True \<and>
        ebind (jfield r ''blockNumber'') (int16 U) = Inr number \<and> jfield r ''blockHash'' = Inr (JStr h) \<and> 0 < number \<and>
        rpc B U 3 ''eth_getBlockByNumber'' [JStr (''0x'' @ hex_nat (nat number)), JBool False] = Inr (JObj k) \<and>
        lowered E U (jget_or k ''hash'' (JStr [])) = uni_lower E h \<and>
        ebind (rpc B U 4 ''eth_blockNumber'' []) (int16 U) = Inr head \<and> seen = head - number + 1 \<and> an_confirmations B \<le> seen)"

lemma block_check_Inr:
  assumes "block_check E B U r = Inr (number, h, seen)"
  shows "\<exists>k head. ebind (jfield r ''blockNumber'') (int16 U) = Inr number \<and> jfield r ''blockHash'' = Inr (JStr h) \<and> 0 < number \<and>
        rpc B U 3 ''eth_getBlockByNumber'' [JStr (''0x'' @ hex_nat (nat number)), JBool False] = Inr (JObj k) \<and>
        lowered E U (jget_or k ''hash'' (JStr [])) = uni_lower E h \<and>
        ebind (rpc B U 4 ''eth_blockNumber'' []) (int16 U) = Inr head \<and> seen = head - number + 1"
  using assms unfolding block_check_def
  by (elim ebind_InrE) auto

lemma chain_check_verified:
  assumes c: "chain_check E B U (calldata B pr version) pr version tx = Inr d" and v: "jget d ''state'' = JStr ''VERIFIED''"
  shows "\<exists>block h seen. anchored_on_chain E B U pr version tx seen \<and> d = verified_body E B tx pr version block h seen (ou_now U)"
proof -
  have p: "jget (pending tx e) ''state'' \<noteq> JStr ''VERIFIED''" for e by (simp add: pending_def jget_def)
  from c v obtain r t found number h seen where
    "ebind (rpc B U 0 ''eth_chainId'' []) (int16 U) = Inr (an_chain B)"
    "rpc B U 1 ''eth_getTransactionReceipt'' [JStr tx] = Inr (JObj r)" "receipt_bound E B U tx r"
    "rpc B U 2 ''eth_getTransactionByHash'' [JStr tx] = Inr (JObj t)" "transaction_bound E B U tx (calldata B pr version) r t"
    "int16 U (jget_or t ''value'' (JStr ''0x1'')) = Inr 0"
    and f: "ebind (elements (jget_or r ''logs'' (JList []))) (emap (log_matches E B U pr version)) = Inr found" "True \<in> set found"
    and b: "block_check E B U r = Inr (number, h, seen)"
    and d: "d = (if seen < an_confirmations B then pending tx [(''confirmations'', JInt (max 0 seen))]
          else verified_body E B tx pr version number (JStr h) seen (ou_now U))"
    unfolding chain_check_def
    by (auto simp: p split: if_splits json.splits prod.splits)
  moreover from f obtain es where es: "elements (jget_or r ''logs'' (JList [])) = Inr es" "emap (log_matches E B U pr version) es = Inr found"
    by auto
  from f(2) obtain i where i: "i < length found" "found ! i" by (auto simp: in_set_conv_nth)
  with es(2) have "i < length es" "log_matches E B U pr version (es ! i) = Inr True"
    by (auto simp: emap_Inr_iff list_all2_conv_all_nth)
  then have "\<exists>entry \<in> set es. log_matches E B U pr version entry = Inr True" using nth_mem by blast
  then obtain entry where "entry \<in> set es" "log_matches E B U pr version entry = Inr True" by blast
  moreover note es(1)
  moreover from d v p have "an_confirmations B \<le> seen" "d = verified_body E B tx pr version number (JStr h) seen (ou_now U)"
    by (auto split: if_splits)
  moreover from block_check_Inr [OF b] obtain k head where
    "ebind (jfield r ''blockNumber'') (int16 U) = Inr number" "jfield r ''blockHash'' = Inr (JStr h)" "0 < number"
    "rpc B U 3 ''eth_getBlockByNumber'' [JStr (''0x'' @ hex_nat (nat number)), JBool False] = Inr (JObj k)"
    "lowered E U (jget_or k ''hash'' (JStr [])) = uni_lower E h"
    "ebind (rpc B U 4 ''eth_blockNumber'' []) (int16 U) = Inr head" "seen = head - number + 1" by (elim exE conjE)
  ultimately show ?thesis unfolding anchored_on_chain_def by (intro exI conjI)
qed

lemma base_plan_Inr:
  "base_plan B pr version chain = Inr d \<longleftrightarrow> (\<exists>s v. pr = JStr s \<and> version = JInt v \<and> valid_digest s \<and>
     s \<noteq> replicate 64 (CHR ''0'') \<and> 1 \<le> v \<and> v < 2 ^ 64 \<and> py_eq chain (JInt (an_chain B)) \<and> d = plan_body B s v)"
  by (auto simp: base_plan_def split: json.splits)

lemma base_verify_verified:
  assumes "base_verify E B U plan tx = Inr d" "jget d ''state'' = JStr ''VERIFIED''"
  shows "\<exists>pr v block h seen. jfield plan ''proof_root'' = Inr (JStr pr) \<and> jfield plan ''memory_version'' = Inr (JInt v) \<and>
    py_eq (JObj (plan_body B pr v)) (JObj plan) \<and> valid_digest pr \<and> 1 \<le> v \<and> v < 2 ^ 64 \<and> tx_hash_text tx \<and>
    anchored_on_chain E B U pr v tx seen \<and> d = verified_body E B tx pr v block h seen (ou_now U)"
proof -
  from assms(1) obtain prj vj chain expected where p: "tx_hash_text tx" "jfield plan ''proof_root'' = Inr prj"
    "jfield plan ''memory_version'' = Inr vj" "base_plan B prj vj chain = Inr expected" "py_eq (JObj expected) (JObj plan)"
    and m: "(case (prj, vj) of (JStr s, JInt n) \<Rightarrow> (case chain_check E B U (calldata B s n) s n tx of
            Inl (PyExc e) \<Rightarrow> Inl (Casework ''ANCHOR_VERIFICATION_UNAVAILABLE'' 503) | out \<Rightarrow> out)
     | _ \<Rightarrow> Inl (PyExc ''TypeError'')) = Inr d"
    unfolding base_verify_def by (elim ebind_InrE) auto
  from p(4) obtain pr v where r: "prj = JStr pr" "vj = JInt v" "valid_digest pr" "1 \<le> v" "v < 2 ^ 64" "expected = plan_body B pr v"
    by (auto simp: base_plan_Inr)
  with m have "chain_check E B U (calldata B pr v) pr v tx = Inr d" by (auto split: sum.splits err.splits)
  from chain_check_verified [OF this assms(2)] p r show ?thesis by blast
qed

text \<open>The calldata determines what is anchored.\<close>

lemma calldata_injective:
  assumes "calldata B pr v = calldata B pr' v'" "length pr = length pr'" "0 \<le> v" "0 \<le> v'"
  shows "pr = pr' \<and> v = v'"
proof -
  from assms(1,2) have "pr = pr'" "hex_word (nat v) = hex_word (nat v')" by (auto simp: calldata_def)
  then show ?thesis using unhex_hex_word [of "nat v"] unhex_hex_word [of "nat v'"] assms(3,4) by (metis eq_nat_nat_iff)
qed

lemma calldata_length:
  assumes "valid_digest pr" "1 \<le> v" "v < 2 ^ 64"
  shows "length (calldata B pr v) = length (an_selector B) + 130"
proof -
  from assms(2,3) have "nat v < 2 ^ 64" by (simp add: nat_less_iff)
  from length_hex_word [OF this] assms(1) show ?thesis by (simp add: calldata_def valid_digest_def)
qed

end
