(* ===== verification/Cw_Service.thy ===== *)
theory Cw_Service
  imports Cw_Engine Cw_Anchor
begin

text \<open>
  The business operations of \<^verbatim>\<open>CaseworkService\<close> (\<^verbatim>\<open>service.py\<close>): for each command the change
  it makes inside the transaction (the local \<^verbatim>\<open>change\<close> function of the method) and the command
  itself, which authorizes, builds the payload and runs the transaction of \<^verbatim>\<open>Cw_Engine\<close>.
\<close>

section \<open>The configured service\<close>

record service =
  sv_actors :: "actor dict"
  sv_desk :: "desk option"
  sv_anchor :: "base_anchor option"
  sv_partner :: "virtuals_spec option"
  sv_incidents :: "incident_spec list"

abbreviation operators :: "role set" where
  "operators \<equiv> {Owner, Investigator}"

abbreviation readers :: "role set" where
  "readers \<equiv> {Owner, Investigator, Reviewer, Viewer}"

text \<open>A request handler: it authorizes, then runs its transaction on what the store loads.\<close>

type_synonym handler = "run \<Rightarrow> workspace option \<Rightarrow> outcome res"

section \<open>Bootstrap\<close>

definition bootstrap :: "env \<Rightarrow> actor \<Rightarrow> 'c command_scheme \<Rightarrow> handler" where
  "bootstrap E a c R loaded =
     ebind (authorize a {Owner} None) (\<lambda>_.
     mutate E a c ''bootstrap'' [] (\<lambda>w seq. Inr (w, [(''state'', JStr ''INITIALIZED'')])) True None R loaded)"

section \<open>Invalidation and baselines\<close>

definition taint :: "string \<Rightarrow> string \<Rightarrow> task_status \<Rightarrow> task \<Rightarrow> task" where
  "taint token reason st t = t\<lparr>tk_taints := dset token reason (tk_taints t), tk_status := st\<rparr>"

definition invalidate :: "env \<Rightarrow> workspace \<Rightarrow> scope \<Rightarrow> string \<Rightarrow> string \<Rightarrow> workspace \<times> string list" where
  "invalidate E w s token reason =
     (let impacted = affected_tasks E w s
      in (w\<lparr>ws_tasks := fold (\<lambda>k. dadjust k (taint token reason T_SUSPENDED)) impacted (ws_tasks w)\<rparr>, impacted))"

definition baseline_payload :: "env \<Rightarrow> baseline_command \<Rightarrow> jobj" where
  "baseline_payload E c = [(''scope'', scope_json (bc_scope c)), (''limit_minor'', JInt (bc_limit c)),
     (''expires_at'', JStr (dump_time E (bc_expires c)))]"

definition set_baseline_change :: "env \<Rightarrow> actor \<Rightarrow> baseline_command \<Rightarrow> mutation" where
  "set_baseline_change E a c w seq =
     (let key = scope_key E (bc_scope c);
          version = (case map_of (ws_baselines w) key of None \<Rightarrow> 1 | Some b \<Rightarrow> bl_version b + 1);
          b = \<lparr>bl_scope = bc_scope c, bl_version = version, bl_limit = bc_limit c,
               bl_expires = bc_expires c, bl_actor = ac_id a, bl_seq = seq\<rparr>;
          old = (case map_of (ws_baseline_history w) key of None \<Rightarrow> [] | Some h \<Rightarrow> h);
          w1 = w\<lparr>ws_baselines := dset key b (ws_baselines w),
                 ws_baseline_history := dset key (old @ [b]) (ws_baseline_history w)\<rparr>
      in case invalidate E w1 (bc_scope c) (version_ref ''baseline'' key version) ''BASELINE_CHANGED_REVIEW_REQUIRED'' of
         (w2, impacted) \<Rightarrow> Inr (w2, [(''baseline_key'', JStr key), (''version'', JInt version),
            (''affected_tasks'', jstrs impacted), (''source'', JStr ''configured_operator_attestation'')]))"

definition set_baseline :: "env \<Rightarrow> actor \<Rightarrow> baseline_command \<Rightarrow> handler" where
  "set_baseline E a c R loaded =
     ebind (authorize a {Owner} (Some (sc_subject (bc_scope c)))) (\<lambda>_.
     ebind (check (bc_expires c > rn_clock R 3) (Casework ''BASELINE_MUST_EXPIRE_IN_FUTURE'' 422)) (\<lambda>_.
     mutate E a c ''baseline.set'' (baseline_payload E c) (set_baseline_change E a c) False None R loaded))"

section \<open>Decisions\<close>

definition action_fingerprint :: "env \<Rightarrow> actor \<Rightarrow> intent \<Rightarrow> string" where
  "action_fingerprint E a i = digest E ''action'' (JObj ((''tenant_id'', JStr (ac_tenant a)) # intent_fields i))"

definition escalation :: "env \<Rightarrow> string \<Rightarrow> task \<Rightarrow> decision \<Rightarrow> string list \<Rightarrow> jobj" where
  "escalation E artifact_id t d reasons = [(''artifact_id'', JStr artifact_id),
     (''kind'', JStr ''OPERATOR_ESCALATION''), (''type'', JStr ''NON_EXECUTABLE_OPERATOR_ESCALATION''),
     (''task_id'', JStr (tk_id t)), (''decision_id'', JStr (dc_id d)), (''proof_root'', JStr (dc_proof d)),
     (''reason_codes'', jstrs reasons), (''active_blockers'', jstrs (dc_blockers d)),
     (''created_at'', JStr (iso_time E (dc_created d))), (''executable'', JBool False)]"

text \<open>The decision of \<^verbatim>\<open>_decision\<close> before it is stored.\<close>

definition new_decision :: "env \<Rightarrow> workspace \<Rightarrow> task \<Rightarrow> actor \<Rightarrow> string \<Rightarrow> int \<Rightarrow> bool \<Rightarrow> run \<Rightarrow> decision res" where
  "new_decision E w t a session rv explicit R =
     (let now = rn_clock R 4; default = now + seconds 600 in
      ebind (policy_result E w (tk_id t) now explicit) (\<lambda>(v, reasons, refs, blockers).
      ebind (task_basis E w (tk_id t)) (\<lambda>basis.
      ebind (if v = READY then ready_expiry E w (tk_id t) now default else Inr default) (\<lambda>expires.
      let d = \<lparr>dc_id = new_id ''decision'' (rn_uuid R 0), dc_task = tk_id t, dc_verdict = v,
            dc_reasons = reasons, dc_causal = sorted_set refs, dc_blockers = blockers,
            dc_fingerprint = action_fingerprint E a (tk_intent t), dc_basis = basis, dc_revision = rv,
            dc_session = session, dc_runtime = runtime_id E, dc_process = process_id E,
            dc_build = build_commit E, dc_created = now, dc_expires = expires,
            dc_tool = (if v = READY then ''human_review.prepare'' else ''operator_escalation.create''),
            dc_proof = []\<rparr>
      in Inr (d\<lparr>dc_proof := digest E ''decision'' (JObj (decision_payload E d))\<rparr>)))))"

definition case_version :: "workspace \<Rightarrow> string \<Rightarrow> int" where
  "case_version w k = (case map_of (ws_cases w) k of None \<Rightarrow> 0 | Some c \<Rightarrow> rc_version c)"

definition decided_task :: "workspace \<Rightarrow> decision \<Rightarrow> bool \<Rightarrow> task \<Rightarrow> task" where
  "decided_task w d explicit t =
     (let taints = fold (\<lambda>b. dset (version_ref ''case'' b (case_version w b)) ''OPEN_RISK'') (dc_blockers d) (tk_taints t)
      in t\<lparr>tk_taints := (if explicit \<and> dc_verdict d = READY then [] else taints),
           tk_decision := Some (dc_id d), tk_status := status_of (dc_verdict d)\<rparr>)"

definition store_decision :: "env \<Rightarrow> workspace \<Rightarrow> string \<Rightarrow> task \<Rightarrow> decision \<Rightarrow> bool \<Rightarrow> workspace" where
  "store_decision E w k t d explicit =
     (let artifact_id = digest E ''escalation-artifact'' (jstrs [tk_id t, dc_id d])
      in w\<lparr>ws_decisions := dset (dc_id d) d (ws_decisions w),
           ws_artifacts := (if dc_verdict d = READY then ws_artifacts w
              else dset artifact_id (escalation E artifact_id t d (dc_reasons d)) (ws_artifacts w)),
           ws_tasks := dset k (decided_task w d explicit t) (ws_tasks w)\<rparr>)"

definition decide_task :: "env \<Rightarrow> workspace \<Rightarrow> string \<Rightarrow> task \<Rightarrow> actor \<Rightarrow> string \<Rightarrow> int \<Rightarrow> bool \<Rightarrow> run
    \<Rightarrow> (workspace \<times> decision) res"
where
  "decide_task E w k t a session rv explicit R =
     ebind (new_decision E w t a session rv explicit R) (\<lambda>d. Inr (store_decision E w k t d explicit, d))"

section \<open>Tasks\<close>

definition parents_ok :: "workspace \<Rightarrow> actor \<Rightarrow> task_command \<Rightarrow> unit res" where
  "parents_ok w a c = ebind (emap (\<lambda>p. ebind (find_task w a p) (\<lambda>parent.
       check (sc_subject (in_scope (tk_intent parent)) = sc_subject (in_scope (tc_intent c)))
         (Casework ''CROSS_SUBJECT_DEPENDENCY_FORBIDDEN'' 403))) (tc_depends c)) (\<lambda>_. Inr ())"

definition new_task :: "task_command \<Rightarrow> run \<Rightarrow> task" where
  "new_task c R = \<lparr>tk_id = new_id ''task'' (rn_uuid R 1), tk_intent = tc_intent c,
     tk_depends = sort (tc_depends c), tk_taints = [], tk_status = T_NEEDS_HUMAN, tk_decision = None\<rparr>"

definition register_task_change :: "env \<Rightarrow> actor \<Rightarrow> task_command \<Rightarrow> run \<Rightarrow> mutation" where
  "register_task_change E a c R w seq =
     ebind (check (length (ws_tasks w) < 250) (Casework ''TASK_CAPACITY_REACHED'' 413)) (\<lambda>_.
     ebind (check (distinct (tc_depends c)) (Casework ''DUPLICATE_DEPENDENCY'' 422)) (\<lambda>_.
     ebind (parents_ok w a c) (\<lambda>_.
     let t = new_task c R; k = tk_id t; w1 = w\<lparr>ws_tasks := dset k t (ws_tasks w)\<rparr> in
     ebind (decide_task E w1 k t a (cm_session c) seq False R) (\<lambda>(w2, d).
     Inr (w2, [(''task'', task_json (decided_task w1 d False t)), (''decision'', decision_json E d)])))))"

definition task_payload :: "task_command \<Rightarrow> jobj" where
  "task_payload c = [(''intent'', JObj (intent_fields (tc_intent c))), (''depends_on'', jstrs (tc_depends c))]"

definition register_task :: "env \<Rightarrow> actor \<Rightarrow> task_command \<Rightarrow> handler" where
  "register_task E a c R loaded =
     ebind (authorize a operators (Some (sc_subject (in_scope (tc_intent c))))) (\<lambda>_.
     mutate E a c ''task.register'' (task_payload c) (register_task_change E a c R) False None R loaded)"

definition evaluate_change :: "env \<Rightarrow> actor \<Rightarrow> 'c command_scheme \<Rightarrow> string \<Rightarrow> bool \<Rightarrow> run \<Rightarrow> mutation" where
  "evaluate_change E a c task_id reconsider R w seq =
     ebind (find_task w a task_id) (\<lambda>t.
     ebind (decide_task E w task_id t a (cm_session c) seq reconsider R) (\<lambda>(w1, d).
     Inr (w1, [(''decision'', decision_json E d), (''supersedes'', jopt JStr (tk_decision t)),
       (''taints_remaining'', jstrs (sort (keys (tk_taints (decided_task w d reconsider t)))))])))"

definition evaluate :: "env \<Rightarrow> actor \<Rightarrow> 'c command_scheme \<Rightarrow> string \<Rightarrow> bool \<Rightarrow> handler" where
  "evaluate E a c task_id reconsider R loaded =
     ebind (authorize a (if reconsider then {Reviewer} else operators \<union> {Reviewer}) None) (\<lambda>_.
     mutate E a c (if reconsider then ''task.reconsider'' else ''task.evaluate'') [(''task_id'', JStr task_id)]
       (evaluate_change E a c task_id reconsider R) False None R loaded)"

section \<open>Cases\<close>

definition append_history :: "string \<Rightarrow> 'v \<Rightarrow> 'v list dict \<Rightarrow> 'v list dict res" where
  "append_history k x d = (case map_of d k of None \<Rightarrow> Inl (PyExc ''KeyError'')
     | Some h \<Rightarrow> Inr (dset k (h @ [x]) d))"

definition case_payload :: "open_case_command \<Rightarrow> jobj" where
  "case_payload c = [(''scope'', scope_json (oc_scope c)), (''kind'', JStr (kind_str (oc_kind c))),
     (''evidence_digest'', JStr (oc_evidence c))]"

definition new_case :: "actor \<Rightarrow> open_case_command \<Rightarrow> run \<Rightarrow> int \<Rightarrow> risk_case" where
  "new_case a c R seq = \<lparr>rc_id = new_id ''case'' (rn_uuid R 2), rc_scope = oc_scope c, rc_kind = oc_kind c,
     rc_version = 1, rc_status = OPEN, rc_opened_by = ac_id a, rc_opened_seq = seq,
     rc_evidence = oc_evidence c, rc_resolution = None, rc_resolved_by = None, rc_resolved_seq = None\<rparr>"

definition open_case_change :: "env \<Rightarrow> service \<Rightarrow> actor \<Rightarrow> open_case_command \<Rightarrow> run \<Rightarrow> mutation" where
  "open_case_change E S a c R w seq =
     ebind (check (length (ws_cases w) < 500) (Casework ''CASE_CAPACITY_REACHED'' 413)) (\<lambda>_.
     let k = new_case a c R seq;
         w1 = w\<lparr>ws_cases := dset (rc_id k) k (ws_cases w),
                ws_case_history := dset (rc_id k) [k] (ws_case_history w)\<rparr>
     in ebind (desk_remember E (sv_desk S) w1 k []) (\<lambda>w2.
     case invalidate E w2 (rc_scope k) (version_ref ''case'' (rc_id k) 1) ''NEW_RISK'' of
       (w3, impacted) \<Rightarrow> Inr (w3, [(''case'', case_json k), (''affected_tasks'', jstrs impacted),
          (''authority'', JStr ''configured_operator_attestation'')])))"

definition open_case :: "env \<Rightarrow> service \<Rightarrow> actor \<Rightarrow> open_case_command \<Rightarrow> handler" where
  "open_case E S a c R loaded =
     ebind (authorize a operators (Some (sc_subject (oc_scope c)))) (\<lambda>_.
     mutate E a c ''case.open'' (case_payload c) (open_case_change E S a c R) False None R loaded)"

definition reopened :: "actor \<Rightarrow> string \<Rightarrow> int \<Rightarrow> risk_case \<Rightarrow> risk_case" where
  "reopened a evidence seq k = k\<lparr>rc_status := OPEN, rc_version := rc_version k + 1, rc_opened_by := ac_id a,
     rc_opened_seq := seq, rc_evidence := evidence, rc_resolved_by := None, rc_resolution := None,
     rc_resolved_seq := None\<rparr>"

definition reopen_case_change :: "env \<Rightarrow> service \<Rightarrow> actor \<Rightarrow> reopen_command \<Rightarrow> string \<Rightarrow> mutation" where
  "reopen_case_change E S a c case_id w seq =
     ebind (find_case w a case_id) (\<lambda>k0.
     ebind (check (rc_status k0 = RESOLVED) (Casework ''CASE_ALREADY_OPEN'' 409)) (\<lambda>_.
     let k = reopened a (ro_evidence c) seq k0 in
     ebind (append_history case_id k (ws_case_history w)) (\<lambda>hist.
     let w1 = w\<lparr>ws_cases := dset case_id k (ws_cases w), ws_case_history := hist\<rparr> in
     ebind (desk_remember E (sv_desk S) w1 k []) (\<lambda>w2.
     case invalidate E w2 (rc_scope k) (version_ref ''case'' case_id (rc_version k)) ''RISK_REOPENED'' of
       (w3, impacted) \<Rightarrow> Inr (w3, [(''case'', case_json k), (''affected_tasks'', jstrs impacted)])))))"

definition reopen_case :: "env \<Rightarrow> service \<Rightarrow> actor \<Rightarrow> reopen_command \<Rightarrow> string \<Rightarrow> handler" where
  "reopen_case E S a c case_id R loaded =
     ebind (authorize a operators None) (\<lambda>_.
     mutate E a c ''case.reopen'' [(''case_id'', JStr case_id), (''evidence_digest'', JStr (ro_evidence c))]
       (reopen_case_change E S a c case_id) False None R loaded)"

definition note_payload :: "env \<Rightarrow> note_command \<Rightarrow> jobj" where
  "note_payload E c = [(''scope'', scope_json (nc_scope c)),
     (''text_hash'', JStr (digest E ''untrusted-text'' (JStr (nc_text c))))]"

definition quarantine_change :: "env \<Rightarrow> note_command \<Rightarrow> mutation" where
  "quarantine_change E c w seq = Inr (w, [(''status'', JStr ''QUARANTINED''),
     (''text_hash'', JStr (digest E ''untrusted-text'' (JStr (nc_text c)))), (''authority'', JBool False),
     (''model_received_raw_text'', JBool False)])"

definition quarantine_note :: "env \<Rightarrow> actor \<Rightarrow> note_command \<Rightarrow> handler" where
  "quarantine_note E a c R loaded =
     ebind (authorize a operators (Some (sc_subject (nc_scope c)))) (\<lambda>_.
     mutate E a c ''note.quarantine'' (note_payload E c) (quarantine_change E c) False None R loaded)"

section \<open>Hand-over and resolution\<close>

definition valid_report :: "env \<Rightarrow> service \<Rightarrow> workspace \<Rightarrow> risk_case \<Rightarrow> string \<Rightarrow> run \<Rightarrow> report res" where
  "valid_report E S w k report_id R =
     (case map_of (ws_reports w) report_id of
        None \<Rightarrow> Inl (Casework ''REPORT_NOT_FOUND'' 404)
      | Some r \<Rightarrow>
          ebind (check (rp_case r = rc_id k) (Casework ''REPORT_NOT_FOUND'' 404)) (\<lambda>_.
          ebind (check (rp_case_version r = rc_version k \<and> rc_status k = OPEN) (Casework ''STALE_INVESTIGATION'' 409)) (\<lambda>_.
          ebind (investigation_basis E w (rc_id k)) (\<lambda>b.
          ebind (check (rp_basis r = b) (Casework ''STALE_INVESTIGATION'' 409)) (\<lambda>_.
          ebind (require_desk w (rc_id k) (sv_desk S) (Some r)) (\<lambda>_.
          ebind (case sv_desk S of None \<Rightarrow> Inr () | Some D \<Rightarrow> validate_report E D w k r (rn_clock R 5)) (\<lambda>_.
          Inr r)))))))"

definition reviewer_ok :: "actor \<Rightarrow> risk_case \<Rightarrow> actor \<Rightarrow> bool" where
  "reviewer_ok a k v \<longleftrightarrow> ac_tenant v = ac_tenant a \<and> ac_role v = Reviewer \<and>
     sc_subject (rc_scope k) \<in> set (ac_subjects v) \<and> ac_id v \<notin> {ac_id a, rc_opened_by k}"

definition handoff_change :: "env \<Rightarrow> service \<Rightarrow> actor \<Rightarrow> handoff_command \<Rightarrow> string \<Rightarrow> run \<Rightarrow> mutation" where
  "handoff_change E S a c case_id R w seq =
     ebind (find_case w a case_id) (\<lambda>k.
     ebind (valid_report E S w k (hc_report c) R) (\<lambda>r.
     case map_of (sv_actors S) (hc_reviewer c) of
       None \<Rightarrow> Inl (Casework ''INDEPENDENT_REVIEWER_REQUIRED'' 403)
     | Some v \<Rightarrow>
         ebind (check (reviewer_ok a k v) (Casework ''INDEPENDENT_REVIEWER_REQUIRED'' 403)) (\<lambda>_.
         ebind (check (rp_investigator r = ac_id a) (Casework ''REPORT_OWNER_MISMATCH'' 403)) (\<lambda>_.
         let h = \<lparr>hf_id = new_id ''handoff'' (rn_uuid R 4), hf_report = rp_id r, hf_case = case_id,
                  hf_case_version = rc_version k, hf_reviewer = ac_id v, hf_investigator = ac_id a,
                  hf_accepted = False\<rparr>
         in Inr (w\<lparr>ws_handoffs := dset (hf_id h) h (ws_handoffs w)\<rparr>, [(''handoff'', handoff_json h)])))))"

definition handoff :: "env \<Rightarrow> service \<Rightarrow> actor \<Rightarrow> handoff_command \<Rightarrow> string \<Rightarrow> handler" where
  "handoff E S a c case_id R loaded =
     ebind (authorize a {Investigator} None) (\<lambda>_.
     mutate E a c ''case.handoff'' [(''case_id'', JStr case_id), (''report_id'', JStr (hc_report c)),
         (''reviewer_id'', JStr (hc_reviewer c))] (handoff_change E S a c case_id R) False None R loaded)"

definition accept_change :: "env \<Rightarrow> service \<Rightarrow> actor \<Rightarrow> string \<Rightarrow> run \<Rightarrow> mutation" where
  "accept_change E S a handoff_id R w seq =
     (case map_of (ws_handoffs w) handoff_id of
        None \<Rightarrow> Inl (Casework ''HANDOFF_NOT_FOUND'' 404)
      | Some h \<Rightarrow>
          ebind (check (hf_reviewer h = ac_id a) (Casework ''HANDOFF_NOT_FOUND'' 404)) (\<lambda>_.
          ebind (find_case w a (hf_case h)) (\<lambda>k.
          ebind (valid_report E S w k (hf_report h) R) (\<lambda>_.
          ebind (check (hf_case_version h = rc_version k) (Casework ''STALE_HANDOFF'' 409)) (\<lambda>_.
          let h' = h\<lparr>hf_accepted := True\<rparr>
          in Inr (w\<lparr>ws_handoffs := dset handoff_id h' (ws_handoffs w)\<rparr>, [(''handoff'', handoff_json h')]))))))"

definition accept_handoff :: "env \<Rightarrow> service \<Rightarrow> actor \<Rightarrow> 'c command_scheme \<Rightarrow> string \<Rightarrow> handler" where
  "accept_handoff E S a c handoff_id R loaded =
     ebind (authorize a {Reviewer} None) (\<lambda>_.
     mutate E a c ''handoff.accept'' [(''handoff_id'', JStr handoff_id)]
       (accept_change E S a handoff_id R) False None R loaded)"

definition review_ack :: "actor \<Rightarrow> risk_case \<Rightarrow> string \<Rightarrow> handoff \<Rightarrow> bool" where
  "review_ack a k case_id h \<longleftrightarrow> hf_case h = case_id \<and> hf_accepted h \<and> hf_reviewer h = ac_id a \<and>
     ac_id a \<notin> {rc_opened_by k, hf_investigator h}"

definition resolved :: "actor \<Rightarrow> string \<Rightarrow> int \<Rightarrow> risk_case \<Rightarrow> risk_case" where
  "resolved a resolution seq k = k\<lparr>rc_status := RESOLVED, rc_version := rc_version k + 1,
     rc_resolution := Some resolution, rc_resolved_by := Some (ac_id a), rc_resolved_seq := Some seq\<rparr>"

definition resolution_proof :: "actor \<Rightarrow> resolve_command \<Rightarrow> string \<Rightarrow> int \<Rightarrow> report \<Rightarrow> handoff \<Rightarrow> int \<Rightarrow> jobj" where
  "resolution_proof a c case_id version r h seq = [(''kind'', JStr ''CASE_RESOLUTION_PROOF''),
     (''case_id'', JStr case_id), (''case_version'', JInt version), (''report_id'', JStr (rp_id r)),
     (''report_root'', JStr (rp_root r)), (''handoff_id'', JStr (hf_id h)),
     (''evidence_digest'', JStr (rs_evidence c)), (''reviewer_id'', JStr (ac_id a)),
     (''event_seq'', JInt seq), (''executable'', JBool False)]"

definition report_sources_key :: "env \<Rightarrow> string \<Rightarrow> string" where
  "report_sources_key E report_id = digest E ''report-sources-key'' (JStr report_id)"

text \<open>The review and the resolution bundle are bound into later task bases.\<close>

definition link_resolution :: "env \<Rightarrow> actor \<Rightarrow> resolve_command \<Rightarrow> string \<Rightarrow> int \<Rightarrow> report \<Rightarrow> handoff \<Rightarrow> int
    \<Rightarrow> jobj dict \<Rightarrow> jobj dict"
where
  "link_resolution E a c case_id version r h seq arts =
     (if report_sources_key E (rp_id r) \<in> set (keys arts)
      then dset (digest E ''resolution-link'' (JList [JStr case_id, JInt version]))
             (resolution_proof a c case_id version r h seq) arts
      else arts)"

text \<open>
  Resolution does not revive a draft: every affected task gets a taint, and its status is that of
  the policy evaluated with the taints added so far, READY excluded.
\<close>

definition tainted :: "string \<Rightarrow> string \<Rightarrow> task \<Rightarrow> task" where
  "tainted token reason t = t\<lparr>tk_taints := dset token reason (tk_taints t)\<rparr>"

definition observed_status :: "verdict \<Rightarrow> task_status" where
  "observed_status v = (if v = DENY then T_DENY else T_NEEDS_HUMAN)"

fun resolve_loop :: "env \<Rightarrow> string \<Rightarrow> run \<Rightarrow> nat \<Rightarrow> workspace \<Rightarrow> string list \<Rightarrow> workspace res" where
  "resolve_loop E token R i w [] = Inr w"
| "resolve_loop E token R i w (k # ks) =
     (let w1 = w\<lparr>ws_tasks := dadjust k (tainted token ''RECONSIDER_REQUIRED'') (ws_tasks w)\<rparr> in
      ebind (policy_result E w1 k (rn_clock R i) False) (\<lambda>(v, _, _, _).
      resolve_loop E token R (i + 1)
        (w1\<lparr>ws_tasks := dadjust k (\<lambda>t. t\<lparr>tk_status := observed_status v\<rparr>) (ws_tasks w1)\<rparr>) ks))"

definition new_lesson :: "env \<Rightarrow> actor \<Rightarrow> resolve_command \<Rightarrow> string \<Rightarrow> risk_case \<Rightarrow> report \<Rightarrow> int \<Rightarrow> jobj" where
  "new_lesson E a c case_id k r seq = [(''scope_key'', JStr (scope_key E (rc_scope k))),
     (''kind'', JStr (kind_str (rc_kind k))), (''case_id'', JStr case_id),
     (''case_version'', JInt (rc_version k)), (''resolved_seq'', JInt seq), (''report_id'', JStr (rp_id r)),
     (''resolution'', JStr (rs_resolution c)), (''reviewer_id'', JStr (ac_id a)),
     (''evidence_digest'', JStr (rs_evidence c)), (''authority'', JBool False)]"

definition resolve_guard :: "env \<Rightarrow> service \<Rightarrow> actor \<Rightarrow> resolve_command \<Rightarrow> string \<Rightarrow> run \<Rightarrow> workspace
    \<Rightarrow> (risk_case \<times> handoff \<times> report) res"
where
  "resolve_guard E S a c case_id R w =
     ebind (find_case w a case_id) (\<lambda>k.
     case map_of (ws_handoffs w) (rs_handoff c) of
       None \<Rightarrow> Inl (Casework ''ACKNOWLEDGED_INDEPENDENT_REVIEW_REQUIRED'' 403)
     | Some h \<Rightarrow>
         ebind (check (review_ack a k case_id h) (Casework ''ACKNOWLEDGED_INDEPENDENT_REVIEW_REQUIRED'' 403)) (\<lambda>_.
         ebind (valid_report E S w k (hf_report h) R) (\<lambda>r.
         ebind (check (hf_case_version h = rc_version k) (Casework ''STALE_HANDOFF'' 409)) (\<lambda>_.
         ebind (case sv_desk S of None \<Rightarrow> Inr ()
                | Some D \<Rightarrow> desk_resolution E D w k (rs_evidence c) (rn_clock R 6)) (\<lambda>_.
         Inr (k, h, r))))))"

definition resolve_change :: "env \<Rightarrow> service \<Rightarrow> actor \<Rightarrow> resolve_command \<Rightarrow> string \<Rightarrow> run \<Rightarrow> mutation" where
  "resolve_change E S a c case_id R w seq =
     ebind (resolve_guard E S a c case_id R w) (\<lambda>(k0, h, r).
     let k = resolved a (rs_resolution c) seq k0;
         arts = link_resolution E a c case_id (rc_version k) r h seq (ws_artifacts w)
     in ebind (append_history case_id k (ws_case_history w)) (\<lambda>hist.
     let w1 = w\<lparr>ws_cases := dset case_id k (ws_cases w), ws_artifacts := arts, ws_case_history := hist\<rparr> in
     ebind (desk_remember E (sv_desk S) w1 k []) (\<lambda>w2.
     let impacted = affected_tasks E w2 (rc_scope k) in
     ebind (resolve_loop E (version_ref ''resolution'' case_id (rc_version k)) R 20 w2 impacted) (\<lambda>w3.
     let lesson_id = new_id ''lesson'' (rn_uuid R 5) in
     Inr (w3\<lparr>ws_lessons := dset lesson_id (new_lesson E a c case_id k r seq) (ws_lessons w3)\<rparr>,
       [(''case'', case_json k), (''affected_tasks'', jstrs impacted), (''lesson_id'', JStr lesson_id),
        (''requires_explicit_reconsideration'', JBool True)])))))"

definition resolve :: "env \<Rightarrow> service \<Rightarrow> actor \<Rightarrow> resolve_command \<Rightarrow> string \<Rightarrow> handler" where
  "resolve E S a c case_id R loaded =
     ebind (authorize a {Reviewer} None) (\<lambda>_.
     mutate E a c ''case.resolve'' [(''case_id'', JStr case_id), (''handoff_id'', JStr (rs_handoff c)),
         (''resolution'', JStr (rs_resolution c)), (''evidence_digest'', JStr (rs_evidence c))]
       (resolve_change E S a c case_id R) False None R loaded)"

section \<open>Preparing a review\<close>

definition review_artifact :: "string \<Rightarrow> string \<Rightarrow> string \<Rightarrow> decision \<Rightarrow> jobj" where
  "review_artifact artifact_id task_id decision_id d = [(''artifact_id'', JStr artifact_id),
     (''task_id'', JStr task_id), (''decision_id'', JStr decision_id), (''proof_root'', JStr (dc_proof d)),
     (''type'', JStr ''NON_EXECUTABLE_HUMAN_REVIEW''), (''executable'', JBool False)]"

definition prepare_review_change :: "env \<Rightarrow> actor \<Rightarrow> string \<Rightarrow> string \<Rightarrow> run \<Rightarrow> mutation" where
  "prepare_review_change E a task_id decision_id R w seq =
     ebind (find_task w a task_id) (\<lambda>t.
     case map_of (ws_decisions w) decision_id of
       None \<Rightarrow> Inl (Casework ''DECISION_SUPERSEDED'' 409)
     | Some d \<Rightarrow>
         ebind (check (dc_task d = task_id \<and> tk_decision t = Some decision_id) (Casework ''DECISION_SUPERSEDED'' 409)) (\<lambda>_.
         ebind (policy_result E w task_id (rn_clock R 7) False) (\<lambda>(v, _, _, _).
         ebind (check (tk_status t = T_READY \<and> dc_verdict d = READY \<and> v = READY \<and> \<not> dc_expires d \<le> rn_clock R 8)
           (Casework ''STALE_OR_BLOCKED_REVIEW'' 409)) (\<lambda>_.
         ebind (task_basis E w task_id) (\<lambda>b.
         ebind (check (dc_basis d = b) (Casework ''STALE_OR_BLOCKED_REVIEW'' 409)) (\<lambda>_.
         let artifact_id = digest E ''review-artifact'' (jstrs [task_id, decision_id]);
             art = review_artifact artifact_id task_id decision_id d
         in Inr (w\<lparr>ws_artifacts := dset artifact_id art (ws_artifacts w)\<rparr>, [(''artifact'', JObj art)])))))))"

definition prepare_review :: "env \<Rightarrow> actor \<Rightarrow> 'c command_scheme \<Rightarrow> string \<Rightarrow> string \<Rightarrow> handler" where
  "prepare_review E a c task_id decision_id R loaded =
     ebind (authorize a (operators \<union> {Reviewer}) None) (\<lambda>_.
     mutate E a c ''review.prepare'' [(''task_id'', JStr task_id), (''decision_id'', JStr decision_id)]
       (prepare_review_change E a task_id decision_id R) False None R loaded)"

end
