(* ===== verification/Cw_Investigate.thy ===== *)
theory Cw_Investigate
  imports Cw_Service Mg_Canonical
begin

text \<open>
  An investigation (\<^verbatim>\<open>CaseworkService.investigate\<close> in \<^verbatim>\<open>service.py\<close> and \<^verbatim>\<open>receipts.py\<close>): a
  snapshot taken in one transaction, a claim on the attempt in a second one when a model is
  configured, the model's plan outside every transaction, and the report stored in a last
  transaction that is checked against the basis of the snapshot. Between the transactions other
  commands may run, so each transaction is a function of the workspace it loads.
\<close>

section \<open>Receipts of the model\<close>

definition receipt_string :: "jobj \<Rightarrow> string \<Rightarrow> bool" where
  "receipt_string d k = (case jget d k of JStr s \<Rightarrow> 1 \<le> py_len s \<and> py_len s \<le> 256 | _ \<Rightarrow> False)"

definition receipt_strings :: "string list" where
  "receipt_strings = [''generation_id'', ''resolved_model'', ''configured_model'', ''completed_at'']"

definition receipt_keys :: "string list" where
  "receipt_keys = sort (receipt_strings @ [''backend'', ''completion_sha256'', ''model_context_hash'',
     ''live_call_verified'', ''structured_output_validated''])"

definition model_context_hash :: "env \<Rightarrow> jobj \<Rightarrow> string list \<Rightarrow> string res" where
  "model_context_hash E context tools = domain_hash E ''agent-model-context''
     (JObj [(''context'', JObj context), (''allowed_tools'', jstrs tools)])"

definition bound_receipt :: "env \<Rightarrow> json \<Rightarrow> jobj \<Rightarrow> string list \<Rightarrow> jobj res" where
  "bound_receipt E candidate context tools =
     ebind (case candidate of JObj d \<Rightarrow> Inr d | _ \<Rightarrow> Inl (PyExc ''ValueError'')) (\<lambda>d.
     ebind (check (list_all (receipt_string d) receipt_strings) (PyExc ''ValueError'')) (\<lambda>_.
     ebind (check (jget d ''backend'' = JStr ''remote_structured_model'' \<and>
         jget d ''live_call_verified'' = JBool True \<and> jget d ''structured_output_validated'' = JBool True \<and>
         (case jget d ''completion_sha256'' of JStr h \<Rightarrow> valid_digest h | _ \<Rightarrow> False)) (PyExc ''ValueError'')) (\<lambda>_.
     ebind (model_context_hash E context tools) (\<lambda>h.
     ebind (check (jget d ''model_context_hash'' = JStr h) (PyExc ''ValueError'')) (\<lambda>_.
     ebind (check (case parse_time E (z_to_offset (jstring (jget d ''completed_at''))) of
         Some (_, True) \<Rightarrow> True | _ \<Rightarrow> False) (PyExc ''ValueError'')) (\<lambda>_.
     Inr (map (\<lambda>k. (k, jget d k)) receipt_keys)))))))"

section \<open>The snapshot\<close>

record snapshot =
  sn_workspace :: workspace
  sn_case :: risk_case
  sn_basis :: string
  sn_external :: "desk_context option"

text \<open>An exception other than a CaseworkError leaves the transaction as an unavailable backend.\<close>

definition in_tx :: "'a res \<Rightarrow> 'a res" where
  "in_tx m = (case m of Inl (PyExc _) \<Rightarrow> Inl (Casework ''MEMORY_BACKEND_UNAVAILABLE'' 503) | _ \<Rightarrow> m)"

lemma in_tx_Inr [simp]: "in_tx m = Inr x \<longleftrightarrow> m = Inr x"
  by (auto simp: in_tx_def split: sum.splits err.splits)

definition investigation_hash :: "env \<Rightarrow> actor \<Rightarrow> 'c command_scheme \<Rightarrow> string \<Rightarrow> string" where
  "investigation_hash E a c case_id =
     request_hash E ''case.investigate'' a (cm_session c) [(''case_id'', JStr case_id)]"

definition attempt_key :: "env \<Rightarrow> actor \<Rightarrow> 'c command_scheme \<Rightarrow> string" where
  "attempt_key E a c =
     ''investigation_'' @ take 40 (digest E ''investigation-attempt'' (jstrs [ac_id a, cm_key c]))"

definition attempt_free :: "env \<Rightarrow> workspace \<Rightarrow> actor \<Rightarrow> 'c command_scheme \<Rightarrow> string \<Rightarrow> unit res" where
  "attempt_free E w a c case_id =
     (case map_of (ws_artifacts w) (attempt_key E a c) of
        None \<Rightarrow> Inr ()
      | Some prior \<Rightarrow>
          ebind (check (jget prior ''request_hash'' = JStr (investigation_hash E a c case_id))
            (Casework ''IDEMPOTENCY_CONFLICT'' 409)) (\<lambda>_.
          Inl (Casework ''INVESTIGATION_IN_PROGRESS_OR_UNCERTAIN'' 409)))"

text \<open>The first transaction: a stored response, or the case and the basis to investigate.\<close>

definition investigate_begin :: "env \<Rightarrow> service \<Rightarrow> actor \<Rightarrow> 'c command_scheme \<Rightarrow> string \<Rightarrow> workspace option
    \<Rightarrow> (jobj + workspace \<times> risk_case \<times> string) res"
where
  "investigate_begin E S a c case_id loaded =
     ebind (opened E False (ac_tenant a) loaded) (\<lambda>w.
     ebind (find_case w a case_id) (\<lambda>k.
     case map_of (ws_idempotency w) (idem_key E a (cm_key c)) of
       Some (p # ps) \<Rightarrow>
         ebind (jfield (p # ps) ''request_hash'') (\<lambda>h.
         ebind (check (h = JStr (investigation_hash E a c case_id)) (Casework ''IDEMPOTENCY_CONFLICT'' 409)) (\<lambda>_.
         ebind (replayed (p # ps)) (\<lambda>r. Inr (Inl r))))
     | _ \<Rightarrow>
         ebind (attempt_free E w a c case_id) (\<lambda>_.
         ebind (check (ws_revision w = cm_revision c) (Casework ''REVISION_CONFLICT'' 409)) (\<lambda>_.
         ebind (check (rc_status k = OPEN) (Casework ''CASE_NOT_OPEN'' 409)) (\<lambda>_.
         ebind (require_desk w case_id (sv_desk S) None) (\<lambda>_.
         ebind (investigation_basis E w case_id) (\<lambda>b. Inr (Inr (w, k, b)))))))))"

text \<open>The evidence context is read from the snapshot, outside the transaction.\<close>

definition investigate_start :: "env \<Rightarrow> service \<Rightarrow> actor \<Rightarrow> 'c command_scheme \<Rightarrow> string \<Rightarrow> run \<Rightarrow> workspace option
    \<Rightarrow> (jobj + snapshot) res"
where
  "investigate_start E S a c case_id R loaded =
     ebind (authorize a {Investigator} None) (\<lambda>_.
     ebind (in_tx (investigate_begin E S a c case_id loaded)) (\<lambda>begun. case begun of
       Inl r \<Rightarrow> Inr (Inl r)
     | Inr (w, k, b) \<Rightarrow>
         ebind (case sv_desk S of None \<Rightarrow> Inr None
                | Some D \<Rightarrow> report_context E D w case_id (rn_clock R 9)) (\<lambda>ext.
         ebind (case ext of None \<Rightarrow> Inr () | Some x \<Rightarrow> evidence_gate x) (\<lambda>_.
         Inr (Inr \<lparr>sn_workspace = w, sn_case = k, sn_basis = b, sn_external = ext\<rparr>)))))"

section \<open>The claim and the plan\<close>

definition claim_command :: "env \<Rightarrow> 'c command_scheme \<Rightarrow> command" where
  "claim_command E c = \<lparr>cm_key = ''claim_'' @ take 40 (digest E ''investigation-claim'' (JStr (cm_key c))),
     cm_session = cm_session c, cm_revision = cm_revision c\<rparr>"

definition attempt_record :: "env \<Rightarrow> actor \<Rightarrow> 'c command_scheme \<Rightarrow> string \<Rightarrow> string \<Rightarrow> int \<Rightarrow> jobj" where
  "attempt_record E a c case_id basis now = [(''kind'', JStr ''INVESTIGATION_ATTEMPT''),
     (''case_id'', JStr case_id), (''attempt_id'', JStr (attempt_key E a c)), (''basis_hash'', JStr basis),
     (''operator_id'', JStr (ac_id a)), (''request_hash'', JStr (investigation_hash E a c case_id)),
     (''state'', JStr ''PENDING''), (''requested_at'', JStr (iso_time E now)), (''executable'', JBool False)]"

definition reserve_change :: "env \<Rightarrow> actor \<Rightarrow> 'c command_scheme \<Rightarrow> string \<Rightarrow> string \<Rightarrow> run \<Rightarrow> mutation" where
  "reserve_change E a c case_id basis R w seq =
     ebind (find_case w a case_id) (\<lambda>k.
     ebind (check (rc_status k = OPEN) (Casework ''STALE_INVESTIGATION'' 409)) (\<lambda>_.
     ebind (investigation_basis E w case_id) (\<lambda>b.
     ebind (check (b = basis) (Casework ''STALE_INVESTIGATION'' 409)) (\<lambda>_.
     Inr (w\<lparr>ws_artifacts := dset (attempt_key E a c) (attempt_record E a c case_id basis (rn_clock R 10))
              (ws_artifacts w)\<rparr>,
          [(''attempt_id'', JStr (attempt_key E a c)), (''state'', JStr ''PENDING'')])))))"

definition investigate_reserve :: "env \<Rightarrow> actor \<Rightarrow> 'c command_scheme \<Rightarrow> string \<Rightarrow> string \<Rightarrow> handler" where
  "investigate_reserve E a c case_id basis R loaded =
     mutate E a (claim_command E c) ''investigation.reserve''
       [(''case_id'', JStr case_id), (''attempt_id'', JStr (attempt_key E a c))]
       (reserve_change E a c case_id basis R) False (Some (case_id, basis)) R loaded"

text \<open>A replayed claim: the committed report of the same request, or an uncertain attempt.\<close>

definition investigate_uncertain :: "env \<Rightarrow> actor \<Rightarrow> 'c command_scheme \<Rightarrow> string \<Rightarrow> workspace option \<Rightarrow> jobj res" where
  "investigate_uncertain E a c case_id loaded =
     ebind (opened E False (ac_tenant a) loaded) (\<lambda>w.
     case map_of (ws_idempotency w) (idem_key E a (cm_key c)) of
       Some (p # ps) \<Rightarrow>
         ebind (jfield (p # ps) ''request_hash'') (\<lambda>h.
         if h = JStr (investigation_hash E a c case_id) then replayed (p # ps)
         else Inl (Casework ''INVESTIGATION_IN_PROGRESS_OR_UNCERTAIN'' 409))
     | _ \<Rightarrow> Inl (Casework ''INVESTIGATION_IN_PROGRESS_OR_UNCERTAIN'' 409))"

definition signal_codes :: "env \<Rightarrow> desk_context option \<Rightarrow> string list" where
  "signal_codes E ext = (case ext of None \<Rightarrow> [] | Some x \<Rightarrow>
     sorted_set (map (\<lambda>s. case s of JObj d \<Rightarrow> jstring (jget d ''code'') | _ \<Rightarrow> [])
       (coverage_signals E (dx_coverage x))))"

definition source_count :: "desk_context option \<Rightarrow> nat" where
  "source_count ext = (case ext of None \<Rightarrow> 0 | Some x \<Rightarrow> length (cv_receipts (dx_coverage x)))"

definition model_context :: "env \<Rightarrow> snapshot \<Rightarrow> jobj" where
  "model_context E n = [(''verdict'', JStr ''deny''), (''case_kind'', JStr (kind_str (rc_kind (sn_case n)))),
     (''case_id'', JStr (rc_id (sn_case n))), (''case_version'', JInt (rc_version (sn_case n))),
     (''evidence_digest'', JStr (rc_evidence (sn_case n))),
     (''scope_digest'', JStr (scope_key E (rc_scope (sn_case n)))),
     (''affected_task_count'', JInt (int (length (affected_tasks E (sn_workspace n) (rc_scope (sn_case n)))))),
     (''non_authoritative_investigation'', JBool True),
     (''source_bundle_root'', (case sn_external n of None \<Rightarrow> JNull | Some x \<Rightarrow> JStr (dx_root x))),
     (''source_count'', JInt (int (source_count (sn_external n)))),
     (''source_signal_codes'', jstrs (signal_codes E (sn_external n)))]"

definition mandatory_tools :: "snapshot \<Rightarrow> string list" where
  "mandatory_tools n = [''case.inspect'', ''dependencies.trace'']
     @ (if sn_external n = None then [] else [''evidence.inspect''])"

definition optional_tools :: "string list" where
  "optional_tools = [''precedent.lookup'']"

record planned =
  pn_requested :: "string list"
  pn_suppressed :: "string list"
  pn_receipt :: "jobj option"
  pn_status :: planner

text \<open>
  What the model answered: nothing when none is configured, \<open>Some None\<close> when the call raised,
  otherwise the requested tools and the receipt. A receipt that does not bind degrades the plan,
  but the suppressed requests stay in the trace.
\<close>

definition planned :: "env \<Rightarrow> snapshot \<Rightarrow> (string list \<times> json) option option \<Rightarrow> planned" where
  "planned E n answer =
     (let tools = mandatory_tools n @ optional_tools in
      case answer of
        None \<Rightarrow> \<lparr>pn_requested = optional_tools, pn_suppressed = [], pn_receipt = None, pn_status = DETERMINISTIC\<rparr>
      | Some None \<Rightarrow> \<lparr>pn_requested = [], pn_suppressed = [], pn_receipt = None, pn_status = DEGRADED\<rparr>
      | Some (Some (requested, candidate)) \<Rightarrow>
          (let hidden = map (\<lambda>t. digest E ''suppressed-tool'' (JStr t)) (filter (\<lambda>t. t \<notin> set tools) requested) in
           case bound_receipt E candidate (model_context E n) tools of
             Inl _ \<Rightarrow> \<lparr>pn_requested = [], pn_suppressed = hidden, pn_receipt = None, pn_status = DEGRADED\<rparr>
           | Inr receipt \<Rightarrow> \<lparr>pn_requested = requested, pn_suppressed = hidden, pn_receipt = Some receipt,
                              pn_status = REMOTE\<rparr>))"

section \<open>The report\<close>

definition run_tools :: "snapshot \<Rightarrow> planned \<Rightarrow> string list" where
  "run_tools n p = mandatory_tools n @ filter (\<lambda>t. t \<in> set (pn_requested p)) optional_tools"

definition related_cases :: "env \<Rightarrow> workspace \<Rightarrow> string list \<Rightarrow> string list res" where
  "related_cases E w impacted =
     ebind (emap (closure w) impacted) (\<lambda>cls.
     let scopes = map (task_scope E \<circ> snd) (concat cls) in
     Inr (sort (map fst (filter (\<lambda>(k, c). rc_status c = OPEN \<and> scope_key E (rc_scope c) \<in> set scopes) (ws_cases w)))))"

definition tool_output :: "env \<Rightarrow> snapshot \<Rightarrow> string list \<Rightarrow> string list \<Rightarrow> string list \<Rightarrow> string \<Rightarrow> json \<times> nat" where
  "tool_output E n refs impacted precedents tool =
     (if tool = ''case.inspect'' then (JObj [(''case_ids'', jstrs refs)], length refs)
      else if tool = ''dependencies.trace'' then (JObj [(''affected_tasks'', jstrs impacted)], length impacted)
      else if tool = ''precedent.lookup'' then (JObj [(''precedent_ids'', jstrs precedents)], length precedents)
      else (case sn_external n of None \<Rightarrow> (JNull, 0) | Some x \<Rightarrow> (context_value x, source_count (Some x))))"

definition trace_entry :: "env \<Rightarrow> string \<Rightarrow> string \<Rightarrow> string \<Rightarrow> json \<times> nat \<Rightarrow> jobj" where
  "trace_entry E case_id basis tool = (\<lambda>(output, count).
     [(''tool'', JStr tool), (''phase'', JStr ''SUCCEEDED''),
      (''input_hash'', JStr (digest E ''tool-input'' (JObj [(''case_id'', JStr case_id), (''basis'', JStr basis)]))),
      (''output_hash'', JStr (digest E ''tool-output'' output)), (''result_count'', JInt (int count))])"

definition suppressed_entry :: "string \<Rightarrow> jobj" where
  "suppressed_entry h = [(''tool'', JStr ''unregistered''), (''phase'', JStr ''SUPPRESSED''), (''request_hash'', JStr h)]"

definition build_report :: "env \<Rightarrow> actor \<Rightarrow> string \<Rightarrow> snapshot \<Rightarrow> planned \<Rightarrow> run \<Rightarrow> report res" where
  "build_report E a case_id n p R =
     (let w = sn_workspace n; impacted = affected_tasks E w (rc_scope (sn_case n)); tools = run_tools n p in
      ebind (related_cases E w impacted) (\<lambda>related.
      ebind (active_precedents E w case_id) (\<lambda>precedents.
      let refs = (if related = [] then [case_id] else related);
          r = \<lparr>rp_id = new_id ''report'' (rn_uuid R 3), rp_case = case_id, rp_case_version = rc_version (sn_case n),
               rp_investigator = ac_id a, rp_basis = sn_basis n, rp_case_refs = refs, rp_affected = impacted,
               rp_precedents = (if ''precedent.lookup'' \<in> set tools then precedents else []),
               rp_trace = map (\<lambda>t. trace_entry E case_id (sn_basis n) t (tool_output E n refs impacted precedents t)) tools
                          @ map suppressed_entry (pn_suppressed p),
               rp_receipt = pn_receipt p, rp_planner = pn_status p, rp_root = []\<rparr>
      in Inr (r\<lparr>rp_root := digest E ''investigation'' (JObj (report_payload r))\<rparr>))))"

definition complete_attempt :: "env \<Rightarrow> string \<Rightarrow> report \<Rightarrow> run \<Rightarrow> jobj dict \<Rightarrow> jobj dict res" where
  "complete_attempt E attempt_id r R arts =
     (case map_of arts attempt_id of
        None \<Rightarrow> Inl (Casework ''INVESTIGATION_ATTEMPT_CHANGED'' 409)
      | Some t \<Rightarrow>
          ebind (check (t \<noteq> [] \<and> jget t ''state'' = JStr ''PENDING'') (Casework ''INVESTIGATION_ATTEMPT_CHANGED'' 409)) (\<lambda>_.
          Inr (dset attempt_id (dunion t [(''state'', JStr ''COMPLETED''), (''report_id'', JStr (rp_id r)),
            (''completed_at'', JStr (iso_time E (rn_clock R 11)))]) arts)))"

definition report_bundle :: "string \<Rightarrow> report \<Rightarrow> desk_context \<Rightarrow> jobj" where
  "report_bundle case_id r x = [(''kind'', JStr ''REPORT_EVIDENCE_BUNDLE''), (''report_id'', JStr (rp_id r)),
     (''case_id'', JStr case_id), (''report_root'', JStr (rp_root r)), (''bundle'', context_value x),
     (''authoritative'', JBool False)]"

definition investigate_change :: "env \<Rightarrow> service \<Rightarrow> actor \<Rightarrow> 'c command_scheme \<Rightarrow> string \<Rightarrow> snapshot \<Rightarrow> bool \<Rightarrow> report
    \<Rightarrow> run \<Rightarrow> mutation"
where
  "investigate_change E S a c case_id n modelled r R w seq =
     ebind (case (sn_external n, sv_desk S) of
         (Some _, Some D) \<Rightarrow> ebind (case_at w case_id) (\<lambda>k. validate_report E D w k r (rn_clock R 12))
       | _ \<Rightarrow> Inr ()) (\<lambda>_.
     ebind (if modelled then complete_attempt E (attempt_key E a c) r R (ws_artifacts w) else Inr (ws_artifacts w)) (\<lambda>arts.
     Inr (w\<lparr>ws_reports := dset (rp_id r) r (ws_reports w),
            ws_artifacts := (case sn_external n of None \<Rightarrow> arts
               | Some x \<Rightarrow> dset (report_sources_key E (rp_id r)) (report_bundle case_id r x) arts)\<rparr>,
          [(''report'', report_json r),
           (''next_step'', JStr (if rp_precedents r \<noteq> [] then ''REVIEW_PRIOR_REMEDIATION''
                                 else ''COLLECT_AND_REVIEW_EVIDENCE''))])))"

text \<open>The last transaction; \<open>modelled\<close> says that a model is configured.\<close>

definition investigate_finish :: "env \<Rightarrow> service \<Rightarrow> actor \<Rightarrow> 'c command_scheme \<Rightarrow> string \<Rightarrow> snapshot
    \<Rightarrow> (string list \<times> json) option option \<Rightarrow> handler"
where
  "investigate_finish E S a c case_id n answer R loaded =
     ebind (build_report E a case_id n (planned E n answer) R) (\<lambda>r.
     mutate E a c ''case.investigate'' [(''case_id'', JStr case_id)]
       (investigate_change E S a c case_id n (answer \<noteq> None) r R) False (Some (case_id, sn_basis n)) R loaded)"

end
