(* ===== verification/Cw_Anchoring.thy ===== *)
theory Cw_Anchoring
  imports Cw_Investigate
begin

text \<open>
  The anchor commands of \<^verbatim>\<open>CaseworkService\<close> (\<^verbatim>\<open>prepare_anchor\<close> and \<^verbatim>\<open>verify_anchor\<close> of
  \<^verbatim>\<open>service.py\<close>). A verification reads the stored plan in one transaction, asks the node outside
  every transaction, and stores the answer in a second one.
\<close>

section \<open>Preparing\<close>

definition configured_anchor :: "service \<Rightarrow> base_anchor res" where
  "configured_anchor S = (case sv_anchor S of None \<Rightarrow> Inl (Casework ''BASE_AUDIT_ANCHOR_NOT_CONFIGURED'' 503) | Some B \<Rightarrow> Inr B)"

definition anchor_record :: "string \<Rightarrow> string \<Rightarrow> string \<Rightarrow> jobj \<Rightarrow> jobj" where
  "anchor_record i task_id decision_id plan = [(''anchor_id'', JStr i), (''kind'', JStr ''AUDIT_ANCHOR''), (''task_id'', JStr task_id),
     (''decision_id'', JStr decision_id), (''plan'', JObj plan), (''verification'', JObj [(''state'', JStr ''NOT_SUBMITTED'')])]"

definition prepare_anchor_change :: "base_anchor \<Rightarrow> actor \<Rightarrow> string \<Rightarrow> string \<Rightarrow> run \<Rightarrow> mutation" where
  "prepare_anchor_change B a task_id decision_id R w seq =
     ebind (find_task w a task_id) (\<lambda>t.
     case map_of (ws_decisions w) decision_id of
       None \<Rightarrow> Inl (Casework ''DECISION_NOT_FOUND'' 404)
     | Some d \<Rightarrow>
         ebind (check (dc_task d = task_id) (Casework ''DECISION_NOT_FOUND'' 404)) (\<lambda>_.
         ebind (base_plan B (JStr (dc_proof d)) (JInt (dc_revision d)) (JInt (sc_chain (in_scope (tk_intent t))))) (\<lambda>plan.
         let i = new_id ''anchor'' (rn_uuid R 6); art = anchor_record i task_id decision_id plan
         in Inr (w\<lparr>ws_artifacts := dset i art (ws_artifacts w)\<rparr>,
              [(''anchor'', JObj art), (''audit_only'', JBool True), (''payment_authorized'', JBool False)]))))"

definition prepare_anchor :: "env \<Rightarrow> service \<Rightarrow> actor \<Rightarrow> 'c command_scheme \<Rightarrow> string \<Rightarrow> string \<Rightarrow> handler" where
  "prepare_anchor E S a c task_id decision_id R loaded =
     ebind (authorize a {Reviewer} None) (\<lambda>_.
     ebind (configured_anchor S) (\<lambda>B.
     mutate E a c ''anchor.prepare'' [(''task_id'', JStr task_id), (''decision_id'', JStr decision_id)]
       (prepare_anchor_change B a task_id decision_id R) False None R loaded))"

section \<open>Verifying\<close>

text \<open>The transaction hash the record is bound to, or a falsy value.\<close>

definition known_tx :: "jobj \<Rightarrow> json res" where
  "known_tx art = (if truthy (jget art ''bound_tx_hash'') then Inr (jget art ''bound_tx_hash'')
     else ebind (has_get (jget_or art ''verification'' (JObj []))) (\<lambda>v. Inr (jget v ''tx_hash'')))"

definition tx_free :: "env \<Rightarrow> jobj \<Rightarrow> string \<Rightarrow> unit res" where
  "tx_free E art tx = ebind (known_tx art) (\<lambda>k.
     if truthy k then
       (case k of JStr s \<Rightarrow> check (uni_lower E s = tx) (Casework ''ANCHOR_TRANSACTION_ALREADY_BOUND'' 409)
        | _ \<Rightarrow> Inl (PyExc ''AttributeError''))
     else Inr ())"

definition verify_payload :: "json \<Rightarrow> string \<Rightarrow> string \<Rightarrow> jobj" where
  "verify_payload task anchor_id tx = [(''task_id'', task), (''anchor_id'', JStr anchor_id), (''tx_hash'', JStr tx)]"

text \<open>The first transaction: a stored response, or the task and the plan to verify.\<close>

definition verify_begin :: "env \<Rightarrow> actor \<Rightarrow> 'c command_scheme \<Rightarrow> string \<Rightarrow> string \<Rightarrow> workspace option \<Rightarrow> (jobj + json \<times> jobj) res"
where
  "verify_begin E a c anchor_id tx loaded =
     ebind (opened E False (ac_tenant a) loaded) (\<lambda>w.
     ebind (case map_of (ws_artifacts w) anchor_id of None \<Rightarrow> Inl (Casework ''ANCHOR_REQUEST_NOT_FOUND'' 404) | Some art \<Rightarrow> Inr art) (\<lambda>art.
     ebind (check (jget art ''kind'' = JStr ''AUDIT_ANCHOR'') (Casework ''ANCHOR_REQUEST_NOT_FOUND'' 404)) (\<lambda>_.
     ebind (jfield art ''task_id'') (\<lambda>task.
     ebind (find_task w a (jstring task)) (\<lambda>_.
     ebind (ebind (jfield art ''plan'') as_obj) (\<lambda>plan.
     ebind (tx_free E art tx) (\<lambda>_.
     case map_of (ws_idempotency w) (idem_key E a (cm_key c)) of
       Some (p # ps) \<Rightarrow>
         ebind (jfield (p # ps) ''request_hash'') (\<lambda>h.
         ebind (check (h = JStr (request_hash E ''anchor.verify'' a (cm_session c) (verify_payload task anchor_id tx)))
           (Casework ''IDEMPOTENCY_CONFLICT'' 409)) (\<lambda>_.
         ebind (replayed (p # ps)) (\<lambda>r. Inr (Inl r))))
     | _ \<Rightarrow> ebind (check (ws_revision w = cm_revision c) (Casework ''REVISION_CONFLICT'' 409)) (\<lambda>_. Inr (Inr (task, plan))))))))))"

text \<open>
  The record after an answer of the node. A record that is verified keeps its verification when the
  answer is weaker; the answer is kept beside it.
\<close>

definition recorded :: "string \<Rightarrow> jobj \<Rightarrow> jobj \<Rightarrow> jobj \<Rightarrow> jobj" where
  "recorded tx old verified art =
     (let art1 = dset ''bound_tx_hash'' (JStr tx) art in
      if jget old ''state'' = JStr ''VERIFIED'' then
        (let art2 = dset ''last_verified'' (JObj old) art1 in
         if jget verified ''state'' \<noteq> JStr ''VERIFIED'' then dset ''last_verification_attempt'' (JObj verified) art2
         else dset ''verification'' (JObj verified) art2)
      else dset ''verification'' (JObj verified) art1)"

definition field_of :: "'v dict \<Rightarrow> string \<Rightarrow> 'v res" where
  "field_of d k = (case map_of d k of None \<Rightarrow> Inl (PyExc ''KeyError'') | Some v \<Rightarrow> Inr v)"

definition verify_change :: "env \<Rightarrow> string \<Rightarrow> string \<Rightarrow> jobj \<Rightarrow> jobj \<Rightarrow> mutation" where
  "verify_change E anchor_id tx plan verified w seq =
     ebind (case map_of (ws_artifacts w) anchor_id of None \<Rightarrow> Inl (Casework ''ANCHOR_REQUEST_CHANGED'' 409) | Some art \<Rightarrow> Inr art) (\<lambda>art.
     ebind (jfield art ''plan'') (\<lambda>stored_plan.
     ebind (check (py_eq stored_plan (JObj plan)) (Casework ''ANCHOR_REQUEST_CHANGED'' 409)) (\<lambda>_.
     ebind (tx_free E art tx) (\<lambda>_.
     ebind (has_get (jget_or art ''verification'' (JObj []))) (\<lambda>old.
     let art' = recorded tx old verified art in
     ebind (ebind (jfield art' ''task_id'') (\<lambda>k. field_of (ws_tasks w) (jstring k))) (\<lambda>t.
     ebind (ebind (jfield art' ''decision_id'') (\<lambda>k. field_of (ws_decisions w) (jstring k))) (\<lambda>d.
     ebind (if tk_decision t \<noteq> Some (dc_id d) then Inr True
            else ebind (task_basis E w (tk_id t)) (\<lambda>b. Inr (dc_basis d \<noteq> b))) (\<lambda>historical.
     Inr (w\<lparr>ws_artifacts := dset anchor_id art' (ws_artifacts w)\<rparr>,
       [(''anchor'', JObj art'), (''historical_proof'', JBool historical), (''audit_only'', JBool True),
        (''payment_authorized'', JBool False)])))))))))"

text \<open>The last transaction.\<close>

definition verify_finish :: "env \<Rightarrow> actor \<Rightarrow> 'c command_scheme \<Rightarrow> string \<Rightarrow> string \<Rightarrow> json \<Rightarrow> jobj \<Rightarrow> jobj \<Rightarrow> handler" where
  "verify_finish E a c anchor_id tx task plan verified R loaded =
     mutate E a c ''anchor.verify'' (verify_payload task anchor_id tx) (verify_change E anchor_id tx plan verified) False None R loaded"

text \<open>The command: \<open>loaded\<close> is what the first transaction finds in the store, \<open>later\<close> what the last one finds.\<close>

definition verify_anchor :: "env \<Rightarrow> service \<Rightarrow> actor \<Rightarrow> 'c command_scheme \<Rightarrow> string \<Rightarrow> string \<Rightarrow> outside \<Rightarrow> run
    \<Rightarrow> workspace option \<Rightarrow> workspace option \<Rightarrow> outcome res"
where
  "verify_anchor E S a c anchor_id tx_hash U R loaded later =
     ebind (authorize a {Reviewer} None) (\<lambda>_.
     ebind (configured_anchor S) (\<lambda>B.
     let tx = uni_lower E tx_hash in
     ebind (in_tx (verify_begin E a c anchor_id tx loaded)) (\<lambda>begun. case begun of
       Inl r \<Rightarrow> Inr (None, r)
     | Inr (task, plan) \<Rightarrow>
         ebind (base_verify E B U plan tx) (\<lambda>verified.
         verify_finish E a c anchor_id tx task plan verified R later))))"

section \<open>What a stored verification keeps\<close>

lemma recorded_keeps:
  assumes "distinct (keys art)" "tx \<noteq> []" "map_of art ''verification'' = Some (JObj old) \<or> map_of art ''verification'' = None \<and> old = []"
  shows "jget (recorded tx old verified art) ''bound_tx_hash'' = JStr tx"
    "jget (recorded tx old verified art) ''plan'' = jget art ''plan''"
    "jget old ''state'' = JStr ''VERIFIED'' \<Longrightarrow> jget verified ''state'' \<noteq> JStr ''VERIFIED'' \<Longrightarrow>
      jget (recorded tx old verified art) ''verification'' = JObj old \<and>
      jget (recorded tx old verified art) ''last_verification_attempt'' = JObj verified"
    "jget old ''state'' \<noteq> JStr ''VERIFIED'' \<or> jget verified ''state'' = JStr ''VERIFIED'' \<Longrightarrow>
      jget (recorded tx old verified art) ''verification'' = JObj verified"
  using assms(3) by (auto simp: recorded_def Let_def jget_def)

lemma verify_change_Inr:
  assumes "verify_change E anchor_id tx plan verified w seq = Inr (w', res)"
  obtains art old t d where "map_of (ws_artifacts w) anchor_id = Some art" "tx_free E art tx = Inr ()"
    "py_eq (jget art ''plan'') (JObj plan)" "jget_or art ''verification'' (JObj []) = JObj old"
    "w' = w\<lparr>ws_artifacts := dset anchor_id (recorded tx old verified art) (ws_artifacts w)\<rparr>"
    "jget res ''anchor'' = JObj (recorded tx old verified art)" "jget res ''payment_authorized'' = JBool False"
  using assms unfolding verify_change_def Let_def
  by (elim ebind_InrE) (auto simp: jfield_def jget_def split: option.splits)

end
