(* ===== verification/Cw_Invariant.thy ===== *)
theory Cw_Invariant
  imports Cw_Policy Cw_Anchoring
begin

text \<open>
  The invariant of a casework workspace and the proof that every business mutation keeps it:
  dictionaries without repeated keys, the histories and proofs \<^verbatim>\<open>validate_workspace\<close> checks,
  keys that are the ids of their entries, an acyclic dependency relation without missing tasks,
  no READY task under an open risk, and no resolution without an independent review.
\<close>

section \<open>The dependency relation is kept\<close>

definition outline :: "task \<Rightarrow> string \<times> intent \<times> string list" where
  "outline t = (tk_id t, tk_intent t, tk_depends t)"

definition same_graph :: "task dict \<Rightarrow> task dict \<Rightarrow> bool" where
  "same_graph ts ts' \<longleftrightarrow> keys ts' = keys ts \<and>
     (\<forall>k. map_option outline (map_of ts' k) = map_option outline (map_of ts k))"

lemma same_graph_refl [simp]: "same_graph ts ts"
  by (simp add: same_graph_def)

lemma same_graph_trans: "same_graph ts us \<Longrightarrow> same_graph us vs \<Longrightarrow> same_graph ts vs"
  by (simp add: same_graph_def)

lemma same_graph_dset: "map_of ts k = Some t \<Longrightarrow> outline t' = outline t \<Longrightarrow> same_graph ts (dset k t' ts)"
  by (auto simp: same_graph_def intro!: keys_dset_present dest: map_of_in_keys)

lemma same_graph_dadjust: "(\<And>t. outline (f t) = outline t) \<Longrightarrow> same_graph ts (dadjust k f ts)"
  by (auto simp: same_graph_def map_of_dadjust option.map_comp comp_def)

lemma same_graph_fold:
  "(\<And>k t. outline (f k t) = outline t) \<Longrightarrow> same_graph ts (fold (\<lambda>k. dadjust k (f k)) ks ts)"
proof (induction ks arbitrary: ts)
  case (Cons k ks)
  have "same_graph ts (dadjust k (f k) ts)" by (rule same_graph_dadjust) (rule Cons.prems)
  moreover have "same_graph (dadjust k (f k) ts) (fold (\<lambda>k. dadjust k (f k)) ks (dadjust k (f k) ts))"
    by (rule Cons.IH) (rule Cons.prems)
  ultimately show ?case by (simp add: same_graph_trans)
qed simp

lemma same_graph_at:
  "same_graph ts ts' \<Longrightarrow> map_of ts' k = Some t' \<Longrightarrow> \<exists>t. map_of ts k = Some t \<and> outline t' = outline t"
proof -
  assume s: "same_graph ts ts'" and k: "map_of ts' k = Some t'"
  from s have "map_option outline (map_of ts k) = map_option outline (map_of ts' k)"
    by (simp add: same_graph_def)
  with k show ?thesis by auto
qed

lemma same_graph_sym: "same_graph ts ts' \<Longrightarrow> same_graph ts' ts"
  by (simp add: same_graph_def)

lemma same_graph_edge: "same_graph ts ts' \<Longrightarrow> edge ts' = edge ts"
proof (intro ext)
  fix p k
  assume "same_graph ts ts'"
  then have "map_option outline (map_of ts k) = map_option outline (map_of ts' k)" by (simp add: same_graph_def)
  then show "edge ts' p k = edge ts p k"
    by (cases "map_of ts k"; cases "map_of ts' k") (simp_all add: edge_def outline_def)
qed

lemma same_graph_missing: "same_graph ts ts' \<Longrightarrow> map_of ts' k = None \<longleftrightarrow> map_of ts k = None"
  unfolding same_graph_def by (metis option.map_disc_iff)

lemma same_graph_well_founded:
  "same_graph ts ts' \<Longrightarrow> well_founded_below ts' k \<longleftrightarrow> well_founded_below ts k"
  by (simp add: well_founded_below_def same_graph_edge same_graph_missing)

lemma same_graph_scope:
  "same_graph ts ts' \<Longrightarrow> (\<exists>t. map_of ts' x = Some t \<and> task_scope E t = s) \<longleftrightarrow>
     (\<exists>t. map_of ts x = Some t \<and> task_scope E t = s)"
  using same_graph_at same_graph_sym unfolding task_scope_def outline_def by (metis prod.inject)

text \<open>Being blocked by a case is being hit by its scope while it is open.\<close>

lemma blocks_hit: "blocks E w k c \<longleftrightarrow> rc_status c = OPEN \<and> hit_by E w (rc_scope c) k"
  by (auto simp: blocks_def hit_by_def)

lemma hit_by_same_graph:
  "same_graph (ws_tasks w) (ws_tasks w') \<Longrightarrow> hit_by E w' s k \<longleftrightarrow> hit_by E w s k"
  using same_graph_scope unfolding hit_by_def by (metis same_graph_edge)

section \<open>The invariant\<close>

definition dicts_ok :: "workspace \<Rightarrow> bool" where
  "dicts_ok w \<longleftrightarrow> distinct (keys (ws_baselines w)) \<and> distinct (keys (ws_cases w)) \<and>
     distinct (keys (ws_case_history w)) \<and> distinct (keys (ws_baseline_history w)) \<and>
     distinct (keys (ws_tasks w)) \<and> distinct (keys (ws_decisions w)) \<and> distinct (keys (ws_reports w)) \<and>
     distinct (keys (ws_handoffs w)) \<and> distinct (keys (ws_lessons w)) \<and> distinct (keys (ws_artifacts w)) \<and>
     set (keys (ws_baseline_history w)) \<subseteq> set (keys (ws_baselines w))"

definition parts_ok :: "env \<Rightarrow> workspace \<Rightarrow> bool" where
  "parts_ok E w \<longleftrightarrow> list_all (history_ok rc_version (ws_case_history w)) (ws_cases w) \<and>
     list_all (history_ok bl_version (ws_baseline_history w)) (ws_baselines w) \<and>
     list_all (decision_ok E) (ws_decisions w) \<and> list_all (report_ok E) (ws_reports w)"

definition ids_ok :: "workspace \<Rightarrow> bool" where
  "ids_ok w \<longleftrightarrow> (\<forall>k t. map_of (ws_tasks w) k = Some t \<longrightarrow> tk_id t = k) \<and>
     (\<forall>k c. map_of (ws_cases w) k = Some c \<longrightarrow> rc_id c = k)"

definition graph_ok :: "workspace \<Rightarrow> bool" where
  "graph_ok w \<longleftrightarrow> (\<forall>k t. map_of (ws_tasks w) k = Some t \<longrightarrow> well_founded_below (ws_tasks w) k)"

text \<open>A READY task has no taint, no open risk, and a READY decision of its own.\<close>

definition has_ready_decision :: "workspace \<Rightarrow> string \<Rightarrow> task \<Rightarrow> bool" where
  "has_ready_decision w k t \<longleftrightarrow>
     (\<exists>d. current_decision w t = Some d \<and> dc_verdict d = READY \<and> dc_task d = k)"

definition ready_ok :: "env \<Rightarrow> workspace \<Rightarrow> bool" where
  "ready_ok E w \<longleftrightarrow> (\<forall>k t. map_of (ws_tasks w) k = Some t \<longrightarrow> tk_status t = T_READY \<longrightarrow>
     tk_taints t = [] \<and> has_ready_decision w k t \<and> (\<forall>(i, c) \<in> set (ws_cases w). \<not> blocks E w k c))"

text \<open>A resolved case was resolved by the accepting reviewer of a hand-over of that version.\<close>

definition reviewed :: "handoff dict \<Rightarrow> string \<Rightarrow> risk_case \<Rightarrow> bool" where
  "reviewed hs i c \<longleftrightarrow> (\<exists>r h. rc_resolved_by c = Some r \<and> r \<noteq> rc_opened_by c \<and> h \<in> snd ` set hs \<and>
     hf_case h = i \<and> hf_accepted h \<and> hf_reviewer h = r \<and> hf_investigator h \<noteq> r \<and>
     hf_case_version h + 1 = rc_version c)"

definition review_ok :: "workspace \<Rightarrow> bool" where
  "review_ok w \<longleftrightarrow> (\<forall>(i, c) \<in> set (ws_cases w). rc_status c = RESOLVED \<longrightarrow> reviewed (ws_handoffs w) i c) \<and>
     (\<forall>(i, h) \<in> set (ws_handoffs w). hf_reviewer h \<noteq> hf_investigator h)"

definition good :: "env \<Rightarrow> workspace \<Rightarrow> bool" where
  "good E w \<longleftrightarrow> dicts_ok w \<and> parts_ok E w \<and> ids_ok w \<and> graph_ok w \<and> ready_ok E w \<and> review_ok w"

lemmas good_defs = good_def dicts_ok_def parts_ok_def ids_ok_def graph_ok_def ready_ok_def review_ok_def

text \<open>What reads only the tasks, or only the decisions.\<close>

lemma blocks_tasks: "ws_tasks w' = ws_tasks w \<Longrightarrow> blocks E w' = blocks E w"
  by (simp add: blocks_def fun_eq_iff)

lemma has_ready_decision_decisions:
  "ws_decisions w' = ws_decisions w \<Longrightarrow> has_ready_decision w' = has_ready_decision w"
  by (simp add: has_ready_decision_def current_decision_def fun_eq_iff)

lemma blocks_update [simp]:
  "blocks E (w\<lparr>ws_artifacts := a\<rparr>) = blocks E w" "blocks E (w\<lparr>ws_lessons := l\<rparr>) = blocks E w"
  "blocks E (w\<lparr>ws_reports := r\<rparr>) = blocks E w" "blocks E (w\<lparr>ws_handoffs := h\<rparr>) = blocks E w"
  by (rule blocks_tasks, simp)+

lemma has_ready_decision_update [simp]:
  "has_ready_decision (w\<lparr>ws_artifacts := a\<rparr>) = has_ready_decision w"
  "has_ready_decision (w\<lparr>ws_lessons := l\<rparr>) = has_ready_decision w"
  "has_ready_decision (w\<lparr>ws_reports := r\<rparr>) = has_ready_decision w"
  "has_ready_decision (w\<lparr>ws_handoffs := h\<rparr>) = has_ready_decision w"
  "has_ready_decision (w\<lparr>ws_tasks := ts\<rparr>) = has_ready_decision w"
  by (rule has_ready_decision_decisions, simp)+

text \<open>What a mutation may not touch: the engine alone writes these fields.\<close>

definition frame :: "workspace \<Rightarrow> workspace \<Rightarrow> bool" where
  "frame w w' \<longleftrightarrow> ws_tenant w' = ws_tenant w \<and> ws_revision w' = ws_revision w \<and> ws_audit w' = ws_audit w \<and>
     ws_idempotency w' = ws_idempotency w"

definition keeps :: "env \<Rightarrow> workspace \<Rightarrow> workspace \<Rightarrow> bool" where
  "keeps E w w' \<longleftrightarrow> (good E w \<longrightarrow> good E w') \<and> frame w w'"

lemma keeps_refl [simp]: "keeps E w w"
  by (simp add: keeps_def frame_def)

lemma keeps_trans: "keeps E u v \<Longrightarrow> keeps E v w \<Longrightarrow> keeps E u w"
  by (simp add: keeps_def frame_def)

lemma good_empty: "good E (empty_workspace t)"
  by (simp add: good_defs empty_workspace_def)

lemma keeps_artifacts:
  "(distinct (keys (ws_artifacts w)) \<Longrightarrow> distinct (keys a)) \<Longrightarrow> keeps E w (w\<lparr>ws_artifacts := a\<rparr>)"
  by (simp add: keeps_def frame_def good_defs)

lemma keeps_lessons:
  "(distinct (keys (ws_lessons w)) \<Longrightarrow> distinct (keys a)) \<Longrightarrow> keeps E w (w\<lparr>ws_lessons := a\<rparr>)"
  by (simp add: keeps_def frame_def good_defs)

lemma remember_policy_keeps: "remember_policy E w c p ids = Inr w' \<Longrightarrow> keeps E w w' \<and> ws_tasks w' = ws_tasks w
    \<and> ws_cases w' = ws_cases w \<and> ws_decisions w' = ws_decisions w \<and> ws_handoffs w' = ws_handoffs w"
  by (auto simp: remember_policy_def Let_def intro!: keeps_artifacts split: if_splits)

lemma desk_remember_keeps: "desk_remember E D w c ids = Inr w' \<Longrightarrow> keeps E w w' \<and> ws_tasks w' = ws_tasks w
    \<and> ws_cases w' = ws_cases w \<and> ws_decisions w' = ws_decisions w \<and> ws_handoffs w' = ws_handoffs w"
  by (auto simp: desk_remember_def dest: remember_policy_keeps split: option.splits)

section \<open>Changing tasks\<close>

lemma set_map_of: "distinct (keys d) \<Longrightarrow> (\<forall>(k, v) \<in> set d. P k v) \<longleftrightarrow> (\<forall>k v. map_of d k = Some v \<longrightarrow> P k v)"
  by (auto simp: Ball_def)

lemma blocks_same_graph:
  "same_graph (ws_tasks w) (ws_tasks w') \<Longrightarrow> blocks E w' k c \<longleftrightarrow> blocks E w k c"
  by (simp add: blocks_hit hit_by_same_graph)

lemma good_tasks:
  assumes g: "dicts_ok w" "parts_ok E w" "ids_ok w" "graph_ok w" "review_ok w"
    and s: "same_graph (ws_tasks w) ts"
    and r: "ready_ok E (w\<lparr>ws_tasks := ts\<rparr>)"
  shows "good E (w\<lparr>ws_tasks := ts\<rparr>)"
proof -
  have "ids_ok (w\<lparr>ws_tasks := ts\<rparr>)"
    using g(3) same_graph_at [OF s] by (fastforce simp: ids_ok_def outline_def)
  moreover have "graph_ok (w\<lparr>ws_tasks := ts\<rparr>)"
    using g(4) same_graph_at [OF s] by (fastforce simp: graph_ok_def same_graph_well_founded [OF s])
  moreover have "dicts_ok (w\<lparr>ws_tasks := ts\<rparr>)" using g(1) s by (simp add: dicts_ok_def same_graph_def)
  moreover have "parts_ok E (w\<lparr>ws_tasks := ts\<rparr>)" "review_ok (w\<lparr>ws_tasks := ts\<rparr>)"
    using g(2,5) by (simp_all add: parts_ok_def review_ok_def)
  ultimately show ?thesis using r by (simp add: good_def)
qed

lemma outline_taint [simp]: "outline (taint token reason st t) = outline t"
  by (simp add: outline_def taint_def)

lemma invalidate_tasks:
  fixes E :: env and s :: scope and token reason :: string
  assumes "distinct (keys (ws_tasks w))"
  defines "ts \<equiv> ws_tasks (fst (invalidate E w s token reason))"
  shows "same_graph (ws_tasks w) ts"
    "map_of ts k = (if hit_by E w s k then map_option (taint token reason T_SUSPENDED) (map_of (ws_tasks w) k)
                    else map_of (ws_tasks w) k)"
proof -
  have m: "map_of (fold (\<lambda>k. dadjust k f) ks ts0) k =
      (if k \<in> set ks then map_option f (map_of ts0 k) else map_of ts0 k)" if "distinct ks" for f ks and ts0 :: "task dict"
    using that by (induction ks arbitrary: ts0) (auto simp: map_of_dadjust)
  show "same_graph (ws_tasks w) ts"
    by (simp add: ts_def invalidate_def Let_def same_graph_fold)
  show "map_of ts k = (if hit_by E w s k then map_option (taint token reason T_SUSPENDED) (map_of (ws_tasks w) k)
                    else map_of (ws_tasks w) k)"
    using m [OF affected_tasks_sorted(2) [of E w s]] affected_tasks_mem [OF assms(1), of k E s]
    by (simp add: ts_def invalidate_def Let_def)
qed

lemma invalidate_other:
  "fst (invalidate E w s token reason) = w\<lparr>ws_tasks := ws_tasks (fst (invalidate E w s token reason))\<rparr>"
  by (simp add: invalidate_def Let_def)

lemma current_decision_tasks [simp]: "current_decision (w\<lparr>ws_tasks := ts\<rparr>) t = current_decision w t"
  by (simp add: current_decision_def)

text \<open>
  After an invalidation only cases of other scopes had to be harmless before: every task the
  scope hits is suspended.
\<close>

lemma invalidate_good:
  assumes g: "dicts_ok w" "parts_ok E w" "ids_ok w" "graph_ok w" "review_ok w"
    and r: "\<And>k t i c. map_of (ws_tasks w) k = Some t \<Longrightarrow> tk_status t = T_READY \<Longrightarrow>
      tk_taints t = [] \<and> has_ready_decision w k t \<and>
      ((i, c) \<in> set (ws_cases w) \<longrightarrow> blocks E w k c \<longrightarrow> rc_scope c = s)"
  shows "good E (fst (invalidate E w s token reason))"
proof -
  define ts where "ts = ws_tasks (fst (invalidate E w s token reason))"
  from g(1) have dk: "distinct (keys (ws_tasks w))" by (simp add: dicts_ok_def)
  note it = invalidate_tasks [OF dk, of E s token reason, folded ts_def]
  have "ready_ok E (w\<lparr>ws_tasks := ts\<rparr>)" unfolding ready_ok_def
  proof (intro allI impI)
    fix k t
    assume "map_of (ws_tasks (w\<lparr>ws_tasks := ts\<rparr>)) k = Some t" and st: "tk_status t = T_READY"
    then have m: "map_of ts k = Some t" by simp
    have h: "\<not> hit_by E w s k"
    proof
      assume "hit_by E w s k"
      with m obtain t0 where "t = taint token reason T_SUSPENDED t0" by (auto simp: it(2))
      with st show False by (simp add: taint_def)
    qed
    with m have t: "map_of (ws_tasks w) k = Some t" by (simp add: it(2))
    have "\<not> blocks E w k c" if "(i, c) \<in> set (ws_cases w)" for i c
      using r [OF t st, of i c] that h by (auto simp: blocks_hit)
    then show "tk_taints t = [] \<and> has_ready_decision (w\<lparr>ws_tasks := ts\<rparr>) k t \<and>
        (\<forall>(i, c)\<in>set (ws_cases (w\<lparr>ws_tasks := ts\<rparr>)). \<not> blocks E (w\<lparr>ws_tasks := ts\<rparr>) k c)"
      using r [OF t st] blocks_same_graph [of w "w\<lparr>ws_tasks := ts\<rparr>"] it(1)
      by auto
  qed
  with good_tasks [OF g it(1)] show ?thesis by (simp add: ts_def invalidate_other [symmetric])
qed

lemma invalidate_frame: "frame w (fst (invalidate E w s token reason))"
  by (simp add: invalidate_def Let_def frame_def)

lemma invalidate_keeps: "keeps E w (fst (invalidate E w s token reason))"
  unfolding keeps_def
proof (intro conjI impI invalidate_frame)
  assume g: "good E w"
  show "good E (fst (invalidate E w s token reason))"
  proof (rule invalidate_good)
    fix k t i c
    assume "map_of (ws_tasks w) k = Some t" "tk_status t = T_READY"
    with g show "tk_taints t = [] \<and> has_ready_decision w k t \<and>
      ((i, c) \<in> set (ws_cases w) \<longrightarrow> blocks E w k c \<longrightarrow> rc_scope c = s)"
      by (fastforce simp: good_def ready_ok_def)
  qed (use g in \<open>simp_all add: good_def\<close>)
qed

end
