(* ===== verification/Cw_Preserve.thy ===== *)
theory Cw_Preserve
  imports Cw_Invariant
begin

text \<open>
  Every business mutation of \<^verbatim>\<open>Cw_Service\<close> and \<^verbatim>\<open>Cw_Investigate\<close> keeps the invariant of
  \<^verbatim>\<open>Cw_Invariant\<close> and the fields the engine owns. Ids from \<^verbatim>\<open>uuid4\<close> are assumed to be new for
  decisions, tasks and hand-overs; the other operations do not need it.
\<close>

definition fresh_ids :: "workspace \<Rightarrow> run \<Rightarrow> bool" where
  "fresh_ids w R \<longleftrightarrow> new_id ''decision'' (rn_uuid R 0) \<notin> set (keys (ws_decisions w)) \<and>
     new_id ''task'' (rn_uuid R 1) \<notin> set (keys (ws_tasks w)) \<and>
     new_id ''handoff'' (rn_uuid R 4) \<notin> set (keys (ws_handoffs w))"

section \<open>Dictionaries and histories\<close>

lemma dset_new: "k \<notin> set (keys d) \<Longrightarrow> dset k v d = d @ [(k, v)]"
  by (induction d) auto

lemma list_all_dset: "list_all P d \<Longrightarrow> P (k, v) \<Longrightarrow> list_all P (dset k v d)"
  using set_dset_subset [of k v d] by (auto simp: list_all_iff)

lemma history_step:
  assumes d: "distinct (keys D)" and ok: "list_all (history_ok ver H) D"
    and v: "map ver (h @ [x]) = [1..ver x]"
  shows "list_all (history_ok ver (dset i (h @ [x]) H)) (dset i x D)"
  unfolding list_all_iff
proof
  fix p assume p: "p \<in> set (dset i x D)"
  show "history_ok ver (dset i (h @ [x]) H) p"
  proof (cases "fst p = i")
    case True
    moreover have "map_of (dset i x D) (fst p) = Some (snd p)"
      using p d by (simp del: map_of_dset)
    ultimately have "p = (i, x)" by (cases p) auto
    with v show ?thesis by (simp add: history_ok_def)
  next
    case False
    with p set_dset_subset [of i x D] have "p \<in> set D" by auto
    with ok have "history_ok ver H p" by (simp add: list_all_iff)
    with False show ?thesis by (cases p) (simp add: history_ok_def)
  qed
qed

lemma upto_snoc: "map ver h = [1..n] \<Longrightarrow> h \<noteq> [] \<Longrightarrow> ver x = n + 1 \<Longrightarrow> map ver (h @ [x]) = [1..ver x]"
proof -
  assume a: "map ver h = [1..n]" "h \<noteq> []" "ver x = n + 1"
  then have "[1..n] \<noteq> []" by (metis Nil_is_map_conv)
  then have "1 \<le> n" by simp
  then have "[1..n + 1] = [1..n] @ [n + 1]" by (simp add: upto_rec2)
  with a show ?thesis by simp
qed

lemma history_ok_at:
  assumes "list_all (history_ok ver H) D" "map_of D i = Some x"
  obtains h where "map_of H i = Some h" "h \<noteq> []" "last h = x" "map ver h = [1..ver x]"
proof -
  from assms have "history_ok ver H (i, x)" by (auto simp: list_all_iff dest: map_of_SomeD)
  then show ?thesis using that by (cases "map_of H i") (auto simp: history_ok_def)
qed

lemma append_history_Inr:
  "append_history k x d = Inr d' \<longleftrightarrow> (\<exists>h. map_of d k = Some h \<and> d' = dset k (h @ [x]) d)"
  by (auto simp: append_history_def split: option.splits)

section \<open>Decisions\<close>

lemma new_decision_Inr:
  assumes "new_decision E w t a session rv explicit R = Inr d"
  shows "dc_id d = new_id ''decision'' (rn_uuid R 0)" "dc_task d = tk_id t"
    "decision_ok E (dc_id d, d)" "dc_created d = rn_clock R 4"
    "\<exists>refs. policy_result E w (tk_id t) (rn_clock R 4) explicit = Inr (dc_verdict d, dc_reasons d, refs, dc_blockers d)
       \<and> dc_causal d = sorted_set refs"
    "task_basis E w (tk_id t) = Inr (dc_basis d)"
    "dc_verdict d = READY \<Longrightarrow> ready_expiry E w (tk_id t) (rn_clock R 4) (rn_clock R 4 + seconds 600) = Inr (dc_expires d)"
    "dc_verdict d \<noteq> READY \<Longrightarrow> dc_expires d = rn_clock R 4 + seconds 600"
    "dc_fingerprint d = action_fingerprint E a (tk_intent t)" "dc_revision d = rv" "dc_session d = session"
    "dc_tool d = (if dc_verdict d = READY then ''human_review.prepare'' else ''operator_escalation.create'')"
  using assms
  by (auto simp: new_decision_def Let_def decision_ok_def decision_payload_def split: if_splits)

lemma outline_decided [simp]: "outline (decided_task w d ex t) = outline t"
  by (simp add: outline_def decided_task_def Let_def)

lemma decided_READY:
  assumes "tk_status (decided_task w d ex t) = T_READY" "dc_blockers d = []" "ex \<or> tk_taints t = []"
  shows "dc_verdict d = READY \<and> tk_taints (decided_task w d ex t) = []"
  using assms by (auto simp: decided_task_def Let_def)

lemma decide_task_keeps:
  assumes g: "good E w" and t: "map_of (ws_tasks w) k = Some t"
    and f: "new_id ''decision'' (rn_uuid R 0) \<notin> set (keys (ws_decisions w))"
    and r: "decide_task E w k t a session rv explicit R = Inr (w', d)"
  shows "good E w' \<and> frame w w' \<and> same_graph (ws_tasks w) (ws_tasks w')"
proof -
  from r have d: "new_decision E w t a session rv explicit R = Inr d" and w': "w' = store_decision E w k t d explicit"
    by (auto simp: decide_task_def)
  note nd = new_decision_Inr [OF d]
  from g t have tid: "tk_id t = k" by (auto simp: good_def ids_ok_def)
  obtain refs where pol: "policy_result E w k (rn_clock R 4) explicit = Inr (dc_verdict d, dc_reasons d, refs, dc_blockers d)"
    using nd(5) tid by auto
  define arts where "arts = ws_artifacts w'"
  define w1 where "w1 = w\<lparr>ws_decisions := dset (dc_id d) d (ws_decisions w), ws_artifacts := arts\<rparr>"
  define ts where "ts = dset k (decided_task w d explicit t) (ws_tasks w)"
  have ww: "w' = w1\<lparr>ws_tasks := ts\<rparr>"
    by (simp add: w1_def ts_def arts_def w' store_decision_def Let_def)
  have da: "distinct (keys (ws_artifacts w)) \<Longrightarrow> distinct (keys arts)"
    by (simp add: arts_def w' store_decision_def Let_def)
  have hr: "has_ready_decision w' = has_ready_decision (w1\<lparr>ws_tasks := ts\<rparr>)" by (simp add: ww)
  have sg: "same_graph (ws_tasks w1) ts"
    by (simp add: w1_def ts_def same_graph_dset [OF t])
  have dec: "map_of (ws_decisions w') = (map_of (ws_decisions w))(dc_id d \<mapsto> d)"
    by (simp add: w' store_decision_def Let_def)
  have keep: "has_ready_decision w' x y" if "has_ready_decision w x y" for x y
  proof -
    from that obtain e where e: "current_decision w y = Some e" "dc_verdict e = READY" "dc_task e = x"
      by (auto simp: has_ready_decision_def)
    then have m: "(case tk_decision y of None \<Rightarrow> [] | Some d \<Rightarrow> d) \<in> set (keys (ws_decisions w))"
      unfolding current_decision_def by (rule_tac map_of_in_keys)
    have "(case tk_decision y of None \<Rightarrow> [] | Some d \<Rightarrow> d) \<noteq> dc_id d"
      by (rule notI) (use m f nd(1) in simp)
    with e dec show ?thesis by (auto simp: has_ready_decision_def current_decision_def)
  qed
  have "ready_ok E (w1\<lparr>ws_tasks := ts\<rparr>)" unfolding ready_ok_def
  proof (intro allI impI)
    fix x y
    assume y: "map_of (ws_tasks (w1\<lparr>ws_tasks := ts\<rparr>)) x = Some y" and st: "tk_status y = T_READY"
    have bl: "blocks E (w1\<lparr>ws_tasks := ts\<rparr>) x c = blocks E w x c" for c
      using blocks_same_graph [of w "w1\<lparr>ws_tasks := ts\<rparr>" E x c] sg by (simp add: w1_def)
    show "tk_taints y = [] \<and> has_ready_decision (w1\<lparr>ws_tasks := ts\<rparr>) x y \<and>
      (\<forall>(i, c)\<in>set (ws_cases (w1\<lparr>ws_tasks := ts\<rparr>)). \<not> blocks E (w1\<lparr>ws_tasks := ts\<rparr>) x c)"
    proof (cases "x = k")
      case True
      with y have yd: "y = decided_task w d explicit t" by (simp add: ts_def)
      have v: "dc_verdict d = READY" using st yd by (auto simp: decided_task_def Let_def)
      with policy_verdict [OF pol] have "may_proceed E w k (rn_clock R 4) explicit" "dc_blockers d = []" by auto
      with t decided_READY [of w d explicit t] st yd
      have "tk_taints y = []" "\<forall>(i, c)\<in>set (ws_cases w). \<not> blocks E w k c"
        by (auto simp: may_proceed_def)
      moreover have "has_ready_decision w' k y"
        using dec yd v nd(2) tid by (auto simp: has_ready_decision_def current_decision_def decided_task_def Let_def)
      ultimately show ?thesis using True bl unfolding hr by (simp add: w1_def)
    next
      case False
      with y have "map_of (ws_tasks w) x = Some y" by (simp add: ts_def)
      with g st have "tk_taints y = []" "has_ready_decision w x y" "\<forall>(i, c)\<in>set (ws_cases w). \<not> blocks E w x c"
        by (auto simp: good_def ready_ok_def)
      with keep [unfolded hr] bl show ?thesis by (simp add: w1_def)
    qed
  qed
  moreover have "dicts_ok w1" "parts_ok E w1" "ids_ok w1" "graph_ok w1" "review_ok w1"
    using g nd(3) da by (simp_all add: good_defs w1_def list_all_dset)
  ultimately have "good E w'" using good_tasks sg ww by metis
  moreover have "frame w w'" by (simp add: w' store_decision_def Let_def frame_def)
  ultimately show ?thesis using sg ww by (simp add: w1_def)
qed

section \<open>Baselines, cases, notes\<close>

lemma good_baselines:
  assumes g: "good E w" and b: "map bl_version (h @ [b]) = [1..bl_version b]"
  shows "good E (w\<lparr>ws_baselines := dset i b (ws_baselines w),
                   ws_baseline_history := dset i (h @ [b]) (ws_baseline_history w)\<rparr>)"
    (is "good E ?w")
proof -
  have "list_all (history_ok bl_version (dset i (h @ [b]) (ws_baseline_history w))) (dset i b (ws_baselines w))"
    using g by (intro history_step b) (simp_all add: good_defs)
  moreover have "blocks E ?w = blocks E w" "has_ready_decision ?w = has_ready_decision w"
    by (rule blocks_tasks has_ready_decision_decisions, simp)+
  ultimately show ?thesis using g by (auto simp: good_defs)
qed

lemma set_baseline_keeps:
  assumes "set_baseline_change E a c w seq = Inr (w', r)"
  shows "keeps E w w'"
proof -
  define key where "key = scope_key E (bc_scope c)"
  define version where "version = (case map_of (ws_baselines w) key of None \<Rightarrow> 1 | Some b \<Rightarrow> bl_version b + 1)"
  define b where "b = \<lparr>bl_scope = bc_scope c, bl_version = version, bl_limit = bc_limit c,
               bl_expires = bc_expires c, bl_actor = ac_id a, bl_seq = seq\<rparr>"
  define h where "h = (case map_of (ws_baseline_history w) key of None \<Rightarrow> [] | Some h \<Rightarrow> h)"
  define w1 where "w1 = w\<lparr>ws_baselines := dset key b (ws_baselines w),
                 ws_baseline_history := dset key (h @ [b]) (ws_baseline_history w)\<rparr>"
  have w': "w' = fst (invalidate E w1 (bc_scope c) (version_ref ''baseline'' key version) ''BASELINE_CHANGED_REVIEW_REQUIRED'')"
    using assms unfolding set_baseline_change_def Let_def
    unfolding key_def [symmetric] version_def [symmetric] b_def [symmetric] h_def [symmetric] w1_def [symmetric]
    by (auto split: prod.splits)
  have "good E w1" if g: "good E w"
  proof -
    have "map bl_version (h @ [b]) = [1..bl_version b]"
    proof (cases "map_of (ws_baselines w) key")
      case None
      then have "key \<notin> set (keys (ws_baselines w))" by (simp add: map_of_None_keys)
      with g have "map_of (ws_baseline_history w) key = None"
        by (auto simp: good_def dicts_ok_def map_of_eq_None_iff)
      with None show ?thesis by (simp add: h_def b_def version_def)
    next
      case (Some b0)
      from g have "list_all (history_ok bl_version (ws_baseline_history w)) (ws_baselines w)"
        by (simp add: good_def parts_ok_def)
      from history_ok_at [OF this Some] obtain h0
        where "map_of (ws_baseline_history w) key = Some h0" "h0 \<noteq> []" "map bl_version h0 = [1..bl_version b0]" .
      with upto_snoc [of bl_version h0 "bl_version b0" b] Some show ?thesis
        by (simp add: h_def b_def version_def)
    qed
    from good_baselines [OF g this] show ?thesis by (simp add: w1_def)
  qed
  then have "keeps E w w1" by (simp add: keeps_def frame_def w1_def)
  then show ?thesis unfolding w' by (rule keeps_trans) (rule invalidate_keeps)
qed

text \<open>Storing a new or changed case, before its scope is invalidated.\<close>

lemma stored_case:
  assumes g: "good E w" and k: "rc_id c = i"
    and h: "map rc_version (h @ [c]) = [1..rc_version c]"
    and v: "rc_status c = RESOLVED \<Longrightarrow> reviewed (ws_handoffs w) i c"
  defines "w1 \<equiv> w\<lparr>ws_cases := dset i c (ws_cases w), ws_case_history := dset i (h @ [c]) (ws_case_history w)\<rparr>"
  shows "dicts_ok w1 \<and> parts_ok E w1 \<and> ids_ok w1 \<and> graph_ok w1 \<and> review_ok w1"
proof -
  have "list_all (history_ok rc_version (dset i (h @ [c]) (ws_case_history w))) (dset i c (ws_cases w))"
    using g by (intro history_step h) (simp_all add: good_defs)
  moreover have "\<forall>(i', c') \<in> set (dset i c (ws_cases w)). rc_status c' = RESOLVED \<longrightarrow> reviewed (ws_handoffs w) i' c'"
    using set_dset_subset [of i c "ws_cases w"] v g by (fastforce simp: good_def review_ok_def)
  ultimately show ?thesis using g k by (simp add: good_defs w1_def)
qed

lemma ready_entry_stored:
  assumes "good E w" "map_of (ws_tasks w) k = Some t" "tk_status t = T_READY"
    "(i', c') \<in> set (dset i c (ws_cases w))" "blocks E w k c'"
  shows "c' = c"
  using assms set_dset_subset [of i c "ws_cases w"] by (fastforce simp: good_def ready_ok_def)

lemma desk_remember_artifacts:
  assumes "desk_remember E D w c ids = Inr w'"
  shows "w' = w\<lparr>ws_artifacts := ws_artifacts w'\<rparr>"
    "distinct (keys (ws_artifacts w)) \<Longrightarrow> distinct (keys (ws_artifacts w'))"
  using assms
  by (auto simp: desk_remember_def remember_policy_def Let_def split: if_splits option.splits)

lemma risk_keeps:
  assumes k: "rc_id c = i" "rc_status c = OPEN"
    and h: "good E w \<Longrightarrow> map rc_version (h @ [c]) = [1..rc_version c]"
    and m: "desk_remember E D (w\<lparr>ws_cases := dset i c (ws_cases w),
                  ws_case_history := dset i (h @ [c]) (ws_case_history w)\<rparr>) c ids = Inr w2"
  shows "keeps E w (fst (invalidate E w2 (rc_scope c) token reason))"
proof -
  define w1 where "w1 = w\<lparr>ws_cases := dset i c (ws_cases w),
                  ws_case_history := dset i (h @ [c]) (ws_case_history w)\<rparr>"
  define arts where "arts = ws_artifacts w2"
  have w2: "w2 = w1\<lparr>ws_artifacts := arts\<rparr>" and da: "distinct (keys (ws_artifacts w1)) \<Longrightarrow> distinct (keys arts)"
    using desk_remember_artifacts [OF m] unfolding w1_def [symmetric] arts_def by blast+
  have "good E (fst (invalidate E w2 (rc_scope c) token reason))" if g: "good E w"
  proof (rule invalidate_good)
    have s: "dicts_ok w1 \<and> parts_ok E w1 \<and> ids_ok w1 \<and> graph_ok w1 \<and> review_ok w1"
      unfolding w1_def using k by (intro stored_case g h [OF g]) auto
    with da show "dicts_ok w2" "parts_ok E w2" "ids_ok w2" "graph_ok w2" "review_ok w2"
      by (simp_all add: w2 good_defs)
    fix t k' i' c'
    assume "map_of (ws_tasks w2) k' = Some t" and st: "tk_status t = T_READY"
    then have t: "map_of (ws_tasks w) k' = Some t" by (simp add: w2 w1_def)
    have "blocks E w2 = blocks E w" "has_ready_decision w2 = has_ready_decision w"
      by (rule blocks_tasks has_ready_decision_decisions, simp add: w2 w1_def)+
    with ready_entry_stored [OF g t st, of i' c' i c] g t st
    show "tk_taints t = [] \<and> has_ready_decision w2 k' t \<and>
      ((i', c') \<in> set (ws_cases w2) \<longrightarrow> blocks E w2 k' c' \<longrightarrow> rc_scope c' = rc_scope c)"
      by (auto simp: good_def ready_ok_def w2 w1_def)
  qed
  moreover have "frame w w2" by (simp add: w2 w1_def frame_def)
  ultimately show ?thesis using invalidate_frame [of w2 E "rc_scope c" token reason]
    by (simp add: keeps_def frame_def)
qed

lemma open_case_keeps:
  assumes "open_case_change E S a c R w seq = Inr (w', r)"
  shows "keeps E w w'"
proof -
  define k where "k = new_case a c R seq"
  from assms obtain w2 where m: "desk_remember E (sv_desk S) (w\<lparr>ws_cases := dset (rc_id k) k (ws_cases w),
                ws_case_history := dset (rc_id k) ([] @ [k]) (ws_case_history w)\<rparr>) k [] = Inr w2"
      "w' = fst (invalidate E w2 (rc_scope k) (version_ref ''case'' (rc_id k) 1) ''NEW_RISK'')"
    by (auto simp: open_case_change_def Let_def k_def [symmetric] split: prod.splits if_splits)
  show ?thesis unfolding m(2)
    by (rule risk_keeps [OF refl _ _ m(1)]) (simp_all add: k_def new_case_def)
qed

lemma reopen_case_keeps:
  assumes "reopen_case_change E S a c case_id w seq = Inr (w', r)"
  shows "keeps E w w'"
proof -
  from assms obtain k0 h w2 where k0: "map_of (ws_cases w) case_id = Some k0"
      "map_of (ws_case_history w) case_id = Some h"
      and m: "desk_remember E (sv_desk S) (w\<lparr>ws_cases := dset case_id (reopened a (ro_evidence c) seq k0) (ws_cases w),
         ws_case_history := dset case_id (h @ [reopened a (ro_evidence c) seq k0]) (ws_case_history w)\<rparr>)
         (reopened a (ro_evidence c) seq k0) [] = Inr w2"
      "w' = fst (invalidate E w2 (rc_scope (reopened a (ro_evidence c) seq k0))
         (version_ref ''case'' case_id (rc_version (reopened a (ro_evidence c) seq k0))) ''RISK_REOPENED'')"
    by (auto simp: reopen_case_change_def Let_def find_case_Inr append_history_Inr split: prod.splits if_splits)
  show ?thesis
  proof (cases "good E w")
    case True
    then have id: "rc_id k0 = case_id" using k0(1) by (simp add: good_def ids_ok_def)
    from True have "list_all (history_ok rc_version (ws_case_history w)) (ws_cases w)"
      by (simp add: good_def parts_ok_def)
    from history_ok_at [OF this k0(1)] k0(2) have "h \<noteq> []" "map rc_version h = [1..rc_version k0]" by auto
    then have hist: "map rc_version (h @ [reopened a (ro_evidence c) seq k0]) =
        [1..rc_version (reopened a (ro_evidence c) seq k0)]"
      by (rule_tac upto_snoc [of _ _ "rc_version k0"]) (simp_all add: reopened_def)
    show ?thesis unfolding m(2) by (rule risk_keeps [OF _ _ hist m(1)]) (simp_all add: reopened_def id)
  next
    case False
    have "frame w w2" using desk_remember_keeps [OF m(1)] by (simp add: keeps_def frame_def)
    with False invalidate_frame show ?thesis unfolding m(2) keeps_def frame_def by metis
  qed
qed

lemma quarantine_keeps: "quarantine_change E c w seq = Inr (w', r) \<Longrightarrow> keeps E w w'"
  by (auto simp: quarantine_change_def)

section \<open>Registering and evaluating tasks\<close>

text \<open>Adding a task under existing parents keeps every task well-founded.\<close>

lemma extend_edge:
  "k \<notin> set (keys ts) \<Longrightarrow> edge (dset k t ts) p x \<longleftrightarrow> (if x = k then p \<in> set (tk_depends t) else edge ts p x)"
  by (simp add: edge_iff)

lemma extend_below:
  assumes k: "k \<notin> set (keys ts)" and y: "well_founded_below ts y" and b: "below (dset k t ts) x y"
  shows "below ts x y"
  using b
proof (induction rule: converse_rtranclp_induct)
  case (step x z)
  then have "map_of ts z \<noteq> None" using y unfolding well_founded_below_def by blast
  then have "z \<noteq> k" using k by (auto simp: map_of_eq_None_iff)
  with step.hyps(1) have "edge ts x z" by (simp add: extend_edge [OF k])
  then show ?case using step.IH by (rule converse_rtranclp_into_rtranclp)
qed simp

lemma extend_below_plus:
  assumes k: "k \<notin> set (keys ts)" and y: "well_founded_below ts y" and b: "(edge (dset k t ts))\<^sup>+\<^sup>+ x y"
  shows "(edge ts)\<^sup>+\<^sup>+ x y"
proof -
  from b obtain z where z: "edge (dset k t ts) x z" "below (dset k t ts) z y"
    by (meson tranclpD)
  from extend_below [OF k y z(2)] have zy: "below ts z y" .
  then have "map_of ts z \<noteq> None" using y unfolding well_founded_below_def by blast
  then have "z \<noteq> k" using k by (auto simp: map_of_eq_None_iff)
  with z(1) have "edge ts x z" by (simp add: extend_edge [OF k])
  then show ?thesis using zy by (rule rtranclp_into_tranclp2)
qed

lemma below_extend: "below ts x y \<Longrightarrow> k \<notin> set (keys ts) \<Longrightarrow> below (dset k t ts) x y"
proof (induction rule: converse_rtranclp_induct)
  case (step x z)
  then have "edge (dset k t ts) x z"
    using map_of_in_keys [of ts z] by (auto simp: extend_edge edge_iff)
  then show ?case using step by (meson converse_rtranclp_into_rtranclp)
qed simp

lemma extend_well_founded:
  assumes k: "k \<notin> set (keys ts)" and y: "well_founded_below ts y"
  shows "well_founded_below (dset k t ts) y"
  unfolding well_founded_below_def
proof (intro allI impI conjI)
  fix x assume "below (dset k t ts) x y"
  then have b: "below ts x y" by (rule extend_below [OF k y])
  then show "map_of (dset k t ts) x \<noteq> None" using y by (auto simp: well_founded_below_def)
  from b have "well_founded_below ts x" using y well_founded_below_below by blast
  from extend_below_plus [OF k this] show "\<not> (edge (dset k t ts))\<^sup>+\<^sup>+ x x"
    using b y unfolding well_founded_below_def by blast
qed

lemma extend_well_founded_new:
  assumes k: "k \<notin> set (keys ts)" and ps: "\<forall>p \<in> set (tk_depends t). well_founded_below ts p"
  shows "well_founded_below (dset k t ts) k"
  unfolding well_founded_below_def
proof (intro allI impI conjI)
  fix x assume b: "below (dset k t ts) x k"
  have wp: "well_founded_below (dset k t ts) p" if "p \<in> set (tk_depends t)" for p
    using extend_well_founded [OF k] ps that by blast
  have up: "\<exists>p \<in> set (tk_depends t). below (dset k t ts) x p" if "(edge (dset k t ts))\<^sup>+\<^sup>+ x k" for x
    using that
  proof (cases rule: tranclp.cases)
    case r_into_trancl
    then show ?thesis by (auto simp: extend_edge [OF k])
  next
    case (trancl_into_trancl p)
    then show ?thesis by (auto simp: extend_edge [OF k] intro!: bexI [of _ p] tranclp_into_rtranclp)
  qed
  show "map_of (dset k t ts) x \<noteq> None"
  proof (cases "x = k")
    case False
    with b have "(edge (dset k t ts))\<^sup>+\<^sup>+ x k" by (metis rtranclpD)
    with up wp show ?thesis unfolding well_founded_below_def by blast
  qed simp
  show "\<not> (edge (dset k t ts))\<^sup>+\<^sup>+ x x"
  proof
    assume c: "(edge (dset k t ts))\<^sup>+\<^sup>+ x x"
    show False
    proof (cases "x = k")
      case True
      with up c obtain p where "p \<in> set (tk_depends t)" "below (dset k t ts) k p" by blast
      moreover from this have "below ts k p" using extend_below [OF k] ps by blast
      ultimately have "map_of ts k \<noteq> None" using ps unfolding well_founded_below_def by blast
      then show False using k by (simp add: map_of_eq_None_iff)
    next
      case False
      with b have "(edge (dset k t ts))\<^sup>+\<^sup>+ x k" by (metis rtranclpD)
      with up wp c show False unfolding well_founded_below_def by blast
    qed
  qed
qed

lemma extend_blocks:
  assumes k: "k \<notin> set (keys (ws_tasks w))" and y: "well_founded_below (ws_tasks w) y"
  shows "blocks E (w\<lparr>ws_tasks := dset k t (ws_tasks w)\<rparr>) y c \<longleftrightarrow> blocks E w y c"
proof -
  have "x \<noteq> k" if "below (ws_tasks w) x y" for x
    using that y k unfolding well_founded_below_def map_of_None_keys by blast
  then have "(\<exists>t'. below (dset k t (ws_tasks w)) x y \<and> map_of (dset k t (ws_tasks w)) x = Some t' \<and> task_scope E t' = q) \<longleftrightarrow>
      (\<exists>t'. below (ws_tasks w) x y \<and> map_of (ws_tasks w) x = Some t' \<and> task_scope E t' = q)" for x q
    using extend_below [OF k y] below_extend [OF _ k] by auto
  then show ?thesis by (simp add: blocks_def)
qed

lemma new_task_good:
  assumes g: "good E w" and k: "tk_id t = k" "k \<notin> set (keys (ws_tasks w))"
    and ps: "\<forall>p \<in> set (tk_depends t). map_of (ws_tasks w) p \<noteq> None" and st: "tk_status t \<noteq> T_READY"
  shows "good E (w\<lparr>ws_tasks := dset k t (ws_tasks w)\<rparr>)"
proof -
  let ?w = "w\<lparr>ws_tasks := dset k t (ws_tasks w)\<rparr>"
  have wf: "well_founded_below (ws_tasks w) x" if "map_of (ws_tasks w) x = Some y" for x y
    using g that by (auto simp: good_def graph_ok_def)
  have "\<forall>p \<in> set (tk_depends t). well_founded_below (ws_tasks w) p" using ps wf by blast
  from extend_well_founded_new [OF k(2) this] have "graph_ok ?w"
    using extend_well_founded [OF k(2) wf] by (auto simp: graph_ok_def)
  moreover have "ready_ok E ?w"
    using g st extend_blocks [OF k(2) wf] by (auto simp: good_def ready_ok_def)
  ultimately show ?thesis using g k(1) by (simp add: good_def dicts_ok_def parts_ok_def ids_ok_def review_ok_def)
qed

lemma parents_ok_Inr:
  assumes "parents_ok w a c = Inr u" "p \<in> set (tc_depends c)"
  shows "\<exists>t. map_of (ws_tasks w) p = Some t \<and>
    sc_subject (in_scope (tk_intent t)) = sc_subject (in_scope (tc_intent c)) \<and>
    sc_subject (in_scope (tk_intent t)) \<in> set (ac_subjects a)"
  using assms by (fastforce simp: parents_ok_def emap_Inr_iff list_all2_conv_all_nth in_set_conv_nth find_task_Inr split: if_splits)

lemma register_task_keeps:
  assumes f: "fresh_ids w R" and r: "register_task_change E a c R w seq = Inr (w', r)"
  shows "keeps E w w'"
proof -
  define t where "t = new_task c R"
  define w1 where "w1 = w\<lparr>ws_tasks := dset (tk_id t) t (ws_tasks w)\<rparr>"
  from r obtain u d where u: "parents_ok w a c = Inr u"
      and d: "decide_task E w1 (tk_id t) t a (cm_session c) seq False R = Inr (w', d)"
    by (auto simp: register_task_change_def Let_def t_def [symmetric] w1_def [symmetric] split: if_splits)
  have "good E w'" if g: "good E w"
  proof -
    have "good E w1" unfolding w1_def
    proof (rule new_task_good [OF g refl])
      show "tk_id t \<notin> set (keys (ws_tasks w))" using f by (simp add: fresh_ids_def t_def new_task_def)
      show "\<forall>p\<in>set (tk_depends t). map_of (ws_tasks w) p \<noteq> None"
        using parents_ok_Inr [OF u] by (fastforce simp: t_def new_task_def)
    qed (simp add: t_def new_task_def)
    from decide_task_keeps [OF this _ _ d] f show ?thesis by (simp add: w1_def fresh_ids_def)
  qed
  moreover have "frame w w'" using d by (auto simp: decide_task_def store_decision_def Let_def frame_def w1_def)
  ultimately show ?thesis by (simp add: keeps_def)
qed

lemma evaluate_keeps:
  assumes f: "fresh_ids w R" and r: "evaluate_change E a c k ex R w seq = Inr (w', r)"
  shows "keeps E w w'"
proof -
  from r obtain t d where "map_of (ws_tasks w) k = Some t"
      "decide_task E w k t a (cm_session c) seq ex R = Inr (w', d)"
    by (auto simp: evaluate_change_def find_task_Inr)
  with f decide_task_keeps [of E w k t R a "cm_session c" seq ex w' d]
  have "good E w \<Longrightarrow> good E w'" by (simp add: fresh_ids_def)
  moreover have "frame w w'" using r by (auto simp: evaluate_change_def decide_task_def store_decision_def Let_def frame_def)
  ultimately show ?thesis by (simp add: keeps_def)
qed

section \<open>Investigations, hand-overs, reviews\<close>

lemma reserve_keeps: "reserve_change E a c i b R w seq = Inr (w', r) \<Longrightarrow> keeps E w w'"
  by (auto simp: reserve_change_def intro!: keeps_artifacts split: if_splits)

lemma prepare_review_keeps: "prepare_review_change E a k d R w seq = Inr (w', r) \<Longrightarrow> keeps E w w'"
  by (auto simp: prepare_review_change_def Let_def intro!: keeps_artifacts split: if_splits option.splits)

lemma prepare_anchor_keeps: "prepare_anchor_change B a k d R w seq = Inr (w', r) \<Longrightarrow> keeps E w w'"
  by (auto simp: prepare_anchor_change_def Let_def intro!: keeps_artifacts split: if_splits option.splits)

lemma verify_anchor_keeps: "verify_change E i tx plan v w seq = Inr (w', r) \<Longrightarrow> keeps E w w'"
  by (erule verify_change_Inr) (auto intro!: keeps_artifacts)

lemma build_report_ok:
  "build_report E a i n p R = Inr r \<Longrightarrow> report_ok E (rp_id r, r) \<and> rp_investigator r = ac_id a \<and> rp_case r = i"
  by (auto simp: build_report_def Let_def report_ok_def report_payload_def)

lemma keeps_reports:
  "report_ok E (rp_id r, r) \<Longrightarrow> keeps E w (w\<lparr>ws_reports := dset (rp_id r) r (ws_reports w)\<rparr>)"
  by (simp add: keeps_def frame_def good_defs list_all_dset)

lemma complete_attempt_dict:
  "complete_attempt E i r R arts = Inr arts' \<Longrightarrow> distinct (keys arts) \<Longrightarrow> distinct (keys arts')"
  by (auto simp: complete_attempt_def split: option.splits if_splits)

lemma investigate_change_frame:
  assumes "investigate_change E S a c i n m r R w seq = Inr (w', res)"
  shows "w' = w\<lparr>ws_reports := dset (rp_id r) r (ws_reports w), ws_artifacts := ws_artifacts w'\<rparr>"
    "distinct (keys (ws_artifacts w)) \<Longrightarrow> distinct (keys (ws_artifacts w'))"
  using assms
  by (auto simp: investigate_change_def dest: complete_attempt_dict split: if_splits option.splits)

lemma investigate_keeps:
  assumes "report_ok E (rp_id r, r)" and c: "investigate_change E S a c i n m r R w seq = Inr (w', res)"
  shows "keeps E w w'"
proof -
  define arts where "arts = ws_artifacts w'"
  note f = investigate_change_frame [OF c, folded arts_def]
  have "keeps E w (w\<lparr>ws_reports := dset (rp_id r) r (ws_reports w)\<rparr>)" by (rule keeps_reports [OF assms(1)])
  moreover have "keeps E (w\<lparr>ws_reports := dset (rp_id r) r (ws_reports w)\<rparr>) ((w\<lparr>ws_reports := dset (rp_id r) r (ws_reports w)\<rparr>)\<lparr>ws_artifacts := arts\<rparr>)"
    by (rule keeps_artifacts) (use f(2) in simp)
  ultimately show ?thesis using f(1) keeps_trans by metis
qed

lemma reviewed_mono:
  "reviewed hs i c \<Longrightarrow> (\<And>h. h \<in> snd ` set hs \<Longrightarrow> hf_accepted h \<Longrightarrow> h \<in> snd ` set hs') \<Longrightarrow> reviewed hs' i c"
  unfolding reviewed_def by blast

lemma handoffs_keep:
  assumes d: "distinct (keys (ws_handoffs w)) \<Longrightarrow> distinct (keys hs)"
    and a: "\<And>h. h \<in> snd ` set (ws_handoffs w) \<Longrightarrow> hf_accepted h \<Longrightarrow> h \<in> snd ` set hs"
    and i: "\<And>h. h \<in> snd ` set hs \<Longrightarrow> good E w \<Longrightarrow> hf_reviewer h \<noteq> hf_investigator h"
  shows "keeps E w (w\<lparr>ws_handoffs := hs\<rparr>)"
proof -
  have "review_ok (w\<lparr>ws_handoffs := hs\<rparr>)" if g: "good E w"
    using g reviewed_mono [OF _ a] i [OF _ g] by (fastforce simp: good_def review_ok_def image_iff)
  then show ?thesis using d
    by (simp add: keeps_def frame_def good_def dicts_ok_def parts_ok_def ids_ok_def graph_ok_def ready_ok_def)
qed

lemma handoff_keeps:
  assumes f: "fresh_ids w R" and r: "handoff_change E S a c i R w seq = Inr (w', r)"
  shows "keeps E w w'"
proof -
  from r obtain h where h: "w' = w\<lparr>ws_handoffs := dset (hf_id h) h (ws_handoffs w)\<rparr>"
      "hf_id h = new_id ''handoff'' (rn_uuid R 4)" "hf_reviewer h \<noteq> hf_investigator h"
    by (auto simp: handoff_change_def Let_def reviewer_ok_def split: option.splits if_splits)
  from f h(2) have "hf_id h \<notin> set (keys (ws_handoffs w))" by (simp add: fresh_ids_def)
  then have s: "set (dset (hf_id h) h (ws_handoffs w)) = insert (hf_id h, h) (set (ws_handoffs w))"
    by (simp add: dset_new)
  show ?thesis unfolding h(1)
    by (rule handoffs_keep) (use s h(3) in \<open>auto simp: good_def review_ok_def\<close>)
qed

lemma accept_keeps:
  assumes r: "accept_change E S a i R w seq = Inr (w', r)"
  shows "keeps E w w'"
proof (cases "good E w")
  case True
  then have d: "distinct (keys (ws_handoffs w))" by (simp add: good_def dicts_ok_def)
  from r obtain h where h: "map_of (ws_handoffs w) i = Some h"
      "w' = w\<lparr>ws_handoffs := dset i (h\<lparr>hf_accepted := True\<rparr>) (ws_handoffs w)\<rparr>"
    by (auto simp: accept_change_def Let_def split: option.splits if_splits)
  note s = set_dset_distinct [OF d, of i "h\<lparr>hf_accepted := True\<rparr>"]
  show ?thesis unfolding h(2)
  proof (rule handoffs_keep)
    fix g assume g: "g \<in> snd ` set (ws_handoffs w)" "hf_accepted g"
    then obtain j where j: "(j, g) \<in> set (ws_handoffs w)" by auto
    show "g \<in> snd ` set (dset i (h\<lparr>hf_accepted := True\<rparr>) (ws_handoffs w))"
    proof (cases "j = i")
      case True
      with j h(1) d have "g = h" by (simp add: map_of_distinct_iff [symmetric] del: map_of_eq_Some_iff)
      with g(2) have "g = h\<lparr>hf_accepted := True\<rparr>" by simp
      with s show ?thesis by force
    next
      case False
      with j s show ?thesis by force
    qed
  next
    fix g assume "g \<in> snd ` set (dset i (h\<lparr>hf_accepted := True\<rparr>) (ws_handoffs w))"
    with s have "g = h\<lparr>hf_accepted := True\<rparr> \<or> g \<in> snd ` set (ws_handoffs w)" by force
    moreover from h(1) have "h \<in> snd ` set (ws_handoffs w)" by (force dest: map_of_SomeD)
    moreover have "hf_reviewer q \<noteq> hf_investigator q" if "q \<in> snd ` set (ws_handoffs w)" for q
      using True that by (auto simp: good_def review_ok_def)
    ultimately have "hf_reviewer h \<noteq> hf_investigator h" "g = h\<lparr>hf_accepted := True\<rparr> \<or> hf_reviewer g \<noteq> hf_investigator g"
      by blast+
    then show "hf_reviewer g \<noteq> hf_investigator g" by auto
  qed simp
next
  case False
  then show ?thesis using r
    by (auto simp: keeps_def frame_def accept_change_def Let_def split: option.splits if_splits)
qed

section \<open>Resolution\<close>

lemma outline_tainted [simp]: "outline (tainted token reason t) = outline t"
  by (simp add: outline_def tainted_def)

lemma outline_status [simp]: "outline (t\<lparr>tk_status := s\<rparr>) = outline t"
  by (simp add: outline_def)

definition observed :: "string \<Rightarrow> task \<Rightarrow> task \<Rightarrow> bool" where
  "observed token t t' \<longleftrightarrow> outline t' = outline t \<and> tk_decision t' = tk_decision t \<and>
     tk_taints t' = dset token ''RECONSIDER_REQUIRED'' (tk_taints t) \<and>
     tk_status t' \<in> {T_DENY, T_NEEDS_HUMAN}"

text \<open>Each affected task is tainted and loses READY; the others and the rest stay as they were.\<close>

lemma resolve_loop_spec:
  assumes "resolve_loop E token R i w ks = Inr w'" "distinct ks"
  shows "w' = w\<lparr>ws_tasks := ws_tasks w'\<rparr> \<and> same_graph (ws_tasks w) (ws_tasks w') \<and>
    (\<forall>k. k \<notin> set ks \<longrightarrow> map_of (ws_tasks w') k = map_of (ws_tasks w) k) \<and>
    (\<forall>k t. k \<in> set ks \<longrightarrow> map_of (ws_tasks w) k = Some t \<longrightarrow>
       (\<exists>t'. map_of (ws_tasks w') k = Some t' \<and> observed token t t'))"
  using assms
proof (induction ks arbitrary: i w)
  case (Cons k ks)
  define w1 where "w1 = w\<lparr>ws_tasks := dadjust k (tainted token ''RECONSIDER_REQUIRED'') (ws_tasks w)\<rparr>"
  from Cons.prems(1) obtain v rs refs bs where p: "policy_result E w1 k (rn_clock R i) False = Inr (v, rs, refs, bs)"
      "resolve_loop E token R (i + 1) (w1\<lparr>ws_tasks := dadjust k (\<lambda>t. t\<lparr>tk_status := observed_status v\<rparr>) (ws_tasks w1)\<rparr>) ks = Inr w'"
    by (auto simp: Let_def w1_def)
  define w2 where "w2 = w1\<lparr>ws_tasks := dadjust k (\<lambda>t. t\<lparr>tk_status := observed_status v\<rparr>) (ws_tasks w1)\<rparr>"
  have IH: "w' = w2\<lparr>ws_tasks := ws_tasks w'\<rparr> \<and> same_graph (ws_tasks w2) (ws_tasks w') \<and>
    (\<forall>k. k \<notin> set ks \<longrightarrow> map_of (ws_tasks w') k = map_of (ws_tasks w2) k) \<and>
    (\<forall>k t. k \<in> set ks \<longrightarrow> map_of (ws_tasks w2) k = Some t \<longrightarrow>
       (\<exists>t'. map_of (ws_tasks w') k = Some t' \<and> observed token t t'))"
    using Cons.IH [OF p(2)] Cons.prems(2) unfolding w2_def by simp
  have "same_graph (ws_tasks w) (ws_tasks w2)"
    unfolding w2_def w1_def by (simp add: same_graph_trans [OF same_graph_dadjust same_graph_dadjust])
  moreover have "map_of (ws_tasks w2) x = (if x = k then map_option (\<lambda>t. (tainted token ''RECONSIDER_REQUIRED'' t)\<lparr>tk_status := observed_status v\<rparr>)
      (map_of (ws_tasks w) k) else map_of (ws_tasks w) x)" for x
    by (simp add: w2_def w1_def map_of_dadjust option.map_comp comp_def)
  moreover have "observed token t ((tainted token ''RECONSIDER_REQUIRED'' t)\<lparr>tk_status := observed_status v\<rparr>)" for t
    by (simp add: observed_def tainted_def outline_def observed_status_def)
  moreover have "w2\<lparr>ws_tasks := ts\<rparr> = w\<lparr>ws_tasks := ts\<rparr>" for ts by (simp add: w2_def w1_def)
  moreover have "k \<notin> set ks" using Cons.prems(2) by simp
  ultimately have a: "same_graph (ws_tasks w) (ws_tasks w')" "w' = w\<lparr>ws_tasks := ws_tasks w'\<rparr>"
    "\<forall>x. x \<notin> set (k # ks) \<longrightarrow> map_of (ws_tasks w') x = map_of (ws_tasks w) x"
    "\<forall>t. map_of (ws_tasks w) k = Some t \<longrightarrow> (\<exists>t'. map_of (ws_tasks w') k = Some t' \<and> observed token t t')"
    using IH same_graph_trans by auto
  have "\<exists>t'. map_of (ws_tasks w') x = Some t' \<and> observed token t t'"
    if x: "x \<in> set ks" "map_of (ws_tasks w) x = Some t" for x t
  proof -
    have "x \<noteq> k" using x(1) Cons.prems(2) by auto
    with x(2) have "map_of (ws_tasks w2) x = Some t" by (simp add: w2_def w1_def map_of_dadjust)
    with x(1) IH show ?thesis by blast
  qed
  with a show ?case by auto
qed simp

lemma resolved_simps [simp]:
  "rc_version (resolved a s q k) = rc_version k + 1" "rc_scope (resolved a s q k) = rc_scope k"
  "rc_id (resolved a s q k) = rc_id k" "rc_status (resolved a s q k) = RESOLVED"
  "rc_resolved_by (resolved a s q k) = Some (ac_id a)" "rc_opened_by (resolved a s q k) = rc_opened_by k"
  by (simp_all add: resolved_def)

lemma valid_report_open: "valid_report E S w k i R = Inr r \<Longrightarrow> rc_status k = OPEN"
  unfolding valid_report_def by (cases "map_of (ws_reports w) i") (simp_all split: if_splits)

lemma resolve_guard_Inr:
  assumes "resolve_guard E S a c i R w = Inr (k, h, r)"
  shows "map_of (ws_cases w) i = Some k" "sc_subject (rc_scope k) \<in> set (ac_subjects a)"
    "map_of (ws_handoffs w) (rs_handoff c) = Some h"
    "review_ack a k i h" "hf_case_version h = rc_version k" "rc_status k = OPEN"
    "valid_report E S w k (hf_report h) R = Inr r"
  using assms by (auto simp: resolve_guard_def find_case_Inr split: option.splits if_splits) (erule valid_report_open)+

lemma resolve_change_Inr:
  assumes "resolve_change E S a c i R w seq = Inr (w', res)"
  obtains k0 h r hist arts w3 where "resolve_guard E S a c i R w = Inr (k0, h, r)"
    "map_of (ws_case_history w) i = Some hist"
    "distinct (keys (ws_artifacts w)) \<longrightarrow> distinct (keys arts)"
    "resolve_loop E (version_ref ''resolution'' i (rc_version k0 + 1)) R 20
       (w\<lparr>ws_cases := dset i (resolved a (rs_resolution c) seq k0) (ws_cases w),
          ws_case_history := dset i (hist @ [resolved a (rs_resolution c) seq k0]) (ws_case_history w),
          ws_artifacts := arts\<rparr>) (affected_tasks E w (rc_scope k0)) = Inr w3"
    "\<exists>l. w' = w3\<lparr>ws_lessons := dset (new_id ''lesson'' (rn_uuid R 5)) l (ws_lessons w3)\<rparr>"
proof -
  from assms obtain k0 h r hist w2 w3 where a: "resolve_guard E S a c i R w = Inr (k0, h, r)"
    "map_of (ws_case_history w) i = Some hist"
    and m: "desk_remember E (sv_desk S) (w\<lparr>ws_cases := dset i (resolved a (rs_resolution c) seq k0) (ws_cases w),
       ws_artifacts := link_resolution E a c i (rc_version k0 + 1) r h seq (ws_artifacts w),
       ws_case_history := dset i (hist @ [resolved a (rs_resolution c) seq k0]) (ws_case_history w)\<rparr>)
       (resolved a (rs_resolution c) seq k0) [] = Inr w2"
    and l: "resolve_loop E (version_ref ''resolution'' i (rc_version k0 + 1)) R 20 w2 (affected_tasks E w2 (rc_scope k0)) = Inr w3"
    and w': "w' = w3\<lparr>ws_lessons := dset (new_id ''lesson'' (rn_uuid R 5))
       (new_lesson E a c i (resolved a (rs_resolution c) seq k0) r seq) (ws_lessons w3)\<rparr>"
    by (auto simp: resolve_change_def Let_def append_history_Inr)
  have da: "distinct (keys (ws_artifacts w)) \<longrightarrow> distinct (keys (ws_artifacts w2))"
    using desk_remember_artifacts(2) [OF m] by (simp add: link_resolution_def)
  have w2: "w2 = w\<lparr>ws_cases := dset i (resolved a (rs_resolution c) seq k0) (ws_cases w),
          ws_case_history := dset i (hist @ [resolved a (rs_resolution c) seq k0]) (ws_case_history w),
          ws_artifacts := ws_artifacts w2\<rparr>"
    using desk_remember_artifacts(1) [OF m] by simp
  have "affected_tasks E w2 (rc_scope k0) = affected_tasks E w (rc_scope k0)"
    by (subst w2) (simp add: affected_tasks_def)
  with l w2 have "resolve_loop E (version_ref ''resolution'' i (rc_version k0 + 1)) R 20
       (w\<lparr>ws_cases := dset i (resolved a (rs_resolution c) seq k0) (ws_cases w),
          ws_case_history := dset i (hist @ [resolved a (rs_resolution c) seq k0]) (ws_case_history w),
          ws_artifacts := ws_artifacts w2\<rparr>) (affected_tasks E w (rc_scope k0)) = Inr w3" by metis
  from that [OF a da this] w' show ?thesis by blast
qed

lemma resolve_keeps:
  assumes r: "resolve_change E S a c i R w seq = Inr (w', res)"
  shows "keeps E w w'"
proof -
  from r obtain k0 h rp hist arts w3 where g: "resolve_guard E S a c i R w = Inr (k0, h, rp)"
    and hist: "map_of (ws_case_history w) i = Some hist"
    and da: "distinct (keys (ws_artifacts w)) \<longrightarrow> distinct (keys arts)"
    and l: "resolve_loop E (version_ref ''resolution'' i (rc_version k0 + 1)) R 20
       (w\<lparr>ws_cases := dset i (resolved a (rs_resolution c) seq k0) (ws_cases w),
          ws_case_history := dset i (hist @ [resolved a (rs_resolution c) seq k0]) (ws_case_history w),
          ws_artifacts := arts\<rparr>) (affected_tasks E w (rc_scope k0)) = Inr w3"
    and w': "\<exists>l. w' = w3\<lparr>ws_lessons := dset (new_id ''lesson'' (rn_uuid R 5)) l (ws_lessons w3)\<rparr>"
    by (rule resolve_change_Inr)
  define k where "k = resolved a (rs_resolution c) seq k0"
  define w0 where "w0 = w\<lparr>ws_cases := dset i k (ws_cases w), ws_case_history := dset i (hist @ [k]) (ws_case_history w)\<rparr>"
  define w1 where "w1 = w0\<lparr>ws_artifacts := arts\<rparr>"
  note gd = resolve_guard_Inr [OF g]
  define ts where "ts = ws_tasks w3"
  have w3: "w3 = w1\<lparr>ws_tasks := ts\<rparr>" and sg: "same_graph (ws_tasks w) ts"
    and o': "\<And>k. k \<notin> set (affected_tasks E w (rc_scope k0)) \<Longrightarrow> map_of ts k = map_of (ws_tasks w) k"
    and ob: "\<And>k t. k \<in> set (affected_tasks E w (rc_scope k0)) \<Longrightarrow> map_of (ws_tasks w) k = Some t \<Longrightarrow>
       \<exists>t'. map_of ts k = Some t' \<and> observed (version_ref ''resolution'' i (rc_version k0 + 1)) t t'"
    using resolve_loop_spec [OF l affected_tasks_sorted(2)] by (simp_all add: ts_def w1_def w0_def k_def)
  have "good E w3" if gw: "good E w"
  proof -
    have id: "rc_id k = i" using gw gd(1) by (simp add: k_def good_def ids_ok_def)
    have "map rc_version (hist @ [k]) = [1..rc_version k]"
    proof -
      from gw have "list_all (history_ok rc_version (ws_case_history w)) (ws_cases w)"
        by (simp add: good_def parts_ok_def)
      from history_ok_at [OF this gd(1)] hist have "hist \<noteq> []" "map rc_version hist = [1..rc_version k0]" by auto
      then show ?thesis by (rule_tac upto_snoc [of _ _ "rc_version k0"]) (simp_all add: k_def)
    qed
    moreover have "reviewed (ws_handoffs w) i k"
      using gd(3,4,5) map_of_SomeD [OF gd(3)] by (force simp: reviewed_def k_def review_ack_def)
    ultimately have s0: "dicts_ok w0 \<and> parts_ok E w0 \<and> ids_ok w0 \<and> graph_ok w0 \<and> review_ok w0"
      unfolding w0_def by (rule_tac stored_case [OF gw id]) auto
    have s: "dicts_ok w1" "parts_ok E w1" "ids_ok w1" "graph_ok w1" "review_ok w1"
      using s0 da by (simp_all add: w1_def w0_def good_defs)
    have "ready_ok E w3" unfolding ready_ok_def
    proof (intro allI impI)
      fix x t
      assume "map_of (ws_tasks w3) x = Some t" and st: "tk_status t = T_READY"
      then have m: "map_of ts x = Some t" by (simp add: w3)
      have na: "x \<notin> set (affected_tasks E w (rc_scope k0))"
      proof
        assume x: "x \<in> set (affected_tasks E w (rc_scope k0))"
        from sg m obtain t0 where "map_of (ws_tasks w) x = Some t0" using same_graph_at by blast
        from ob [OF x this] m st show False by (auto simp: observed_def)
      qed
      with m o' have t: "map_of (ws_tasks w) x = Some t" by simp
      have bl: "blocks E w3 x c = blocks E w x c" for c
        using blocks_same_graph [of w w3 E x c] sg by (simp add: w3)
      have "\<not> blocks E w x c'" if "(i', c') \<in> set (dset i k (ws_cases w))" for i' c'
      proof
        assume b: "blocks E w x c'"
        from ready_entry_stored [OF gw t st that this] b show False by (simp add: k_def blocks_def)
      qed
      moreover have "has_ready_decision w3 = has_ready_decision w"
        by (rule has_ready_decision_decisions) (simp add: w3 w1_def w0_def)
      moreover have "ws_cases w3 = dset i k (ws_cases w)" by (simp add: w3 w1_def w0_def)
      ultimately show "tk_taints t = [] \<and> has_ready_decision w3 x t \<and> (\<forall>(i, c)\<in>set (ws_cases w3). \<not> blocks E w3 x c)"
        using gw t st bl by (auto simp: good_def ready_ok_def)
    qed
    then show ?thesis unfolding w3 by (rule_tac good_tasks [OF s]) (use sg in \<open>simp_all add: w1_def w0_def\<close>)
  qed
  then have "keeps E w w3" by (simp add: keeps_def frame_def w3 w1_def w0_def)
  moreover have "keeps E w3 w'" using w' by (auto intro!: keeps_lessons)
  ultimately show ?thesis by (rule keeps_trans)
qed

lemmas changes_keep = set_baseline_keeps register_task_keeps evaluate_keeps open_case_keeps reopen_case_keeps
  quarantine_keeps reserve_keeps investigate_keeps handoff_keeps accept_keeps resolve_keeps prepare_review_keeps
  prepare_anchor_keeps verify_anchor_keeps

end
