(* ===== verification/Py_Round.thy ===== *)
theory Py_Round
  imports Py_Loads Mg_Canonical
begin

text \<open>
  The other serializers of the sources, \<^verbatim>\<open>json.dumps\<close> with its blanks after commas and colons, with
  and without \<^verbatim>\<open>ensure_ascii\<close>, and the proof that the reader of \<^verbatim>\<open>Py_Loads\<close> reads back what it writes; and
  that the fuel of the reader is enough.
\<close>

section \<open>The serializer with blanks\<close>

fun written :: "(string \<Rightarrow> string) \<Rightarrow> (rat \<Rightarrow> string) \<Rightarrow> json \<Rightarrow> string"
  and written_tail :: "(string \<Rightarrow> string) \<Rightarrow> (rat \<Rightarrow> string) \<Rightarrow> json list \<Rightarrow> string"
  and written_pairs :: "(string \<Rightarrow> string) \<Rightarrow> (rat \<Rightarrow> string) \<Rightarrow> (string \<times> json) list \<Rightarrow> string"
where
  "written q fr JNull = ''null''"
| "written q fr (JBool b) = (if b then ''true'' else ''false'')"
| "written q fr (JInt i) = dec_int i"
| "written q fr (JFloat f) = enc_float fr f"
| "written q fr (JStr s) = q s"
| "written q fr (JList []) = ''[]''"
| "written q fr (JList (x # xs)) = ''['' @ written q fr x @ written_tail q fr xs"
| "written q fr (JObj []) = ''{}''"
| "written q fr (JObj ((k, v) # kvs)) = ''{'' @ q k @ '': '' @ written q fr v @ written_pairs q fr kvs"
| "written_tail q fr [] = '']''"
| "written_tail q fr (x # xs) = '', '' @ written q fr x @ written_tail q fr xs"
| "written_pairs q fr [] = ''}''"
| "written_pairs q fr ((k, v) # kvs) = '', '' @ q k @ '': '' @ written q fr v @ written_pairs q fr kvs"

abbreviation wide :: "(rat \<Rightarrow> string) \<Rightarrow> json \<Rightarrow> string" where
  "wide \<equiv> written quote"

abbreviation wide_tail :: "(rat \<Rightarrow> string) \<Rightarrow> json list \<Rightarrow> string" where
  "wide_tail \<equiv> written_tail quote"

abbreviation wide_pairs :: "(rat \<Rightarrow> string) \<Rightarrow> (string \<times> json) list \<Rightarrow> string" where
  "wide_pairs \<equiv> written_pairs quote"

text \<open>The escapes of \<^verbatim>\<open>json.dumps\<close> with its default \<^verbatim>\<open>ensure_ascii=True\<close>, on the code points of a UTF-8 text.\<close>

definition point_value :: "string \<Rightarrow> nat" where
  "point_value p = (case p of [] \<Rightarrow> 0 | c # r \<Rightarrow>
     foldl (\<lambda>n d. 64 * n + of_char d mod 64)
       (case length r of 0 \<Rightarrow> of_char c | Suc 0 \<Rightarrow> of_char c mod 32 | Suc (Suc 0) \<Rightarrow> of_char c mod 16 | _ \<Rightarrow> of_char c mod 8) r)"

definition u_escape :: "nat \<Rightarrow> string" where
  "u_escape n = [CHR 0x5C, CHR ''u'', hex_char (n div 4096), hex_char (n div 256 mod 16), hex_char (n div 16 mod 16), hex_char (n mod 16)]"

definition esc_point :: "string \<Rightarrow> string" where
  "esc_point p =
     (let n = point_value p in
      if n < 32 \<or> n = 34 \<or> n = 92 then concat (map esc p)
      else if n < 127 then p
      else if n < 65536 then u_escape n
      else u_escape (55296 + (n - 65536) div 1024) @ u_escape (56320 + (n - 65536) mod 1024))"

definition ascii_quote :: "string \<Rightarrow> string" where
  "ascii_quote s = CHR 0x22 # concat (map esc_point (code_points s)) @ [CHR 0x22]"

definition dumps_sorted :: "(rat \<Rightarrow> string) \<Rightarrow> json \<Rightarrow> string" where
  "dumps_sorted fr v = written ascii_quote fr (canon v)"

section \<open>Strings and numbers are read back\<close>

lemma starts_simps [simp]: "\<not> starts c []" "starts c (d # s) \<longleftrightarrow> d = c"
  by (auto simp: starts_def)

lemma unhex_pair: "n < 256 \<Longrightarrow> unhex_word [CHR ''0'', CHR ''0'', hex_char (n div 16), hex_char (n mod 16)] = n"
  using hex_char_class [of "n div 16"] hex_char_class [of "n mod 16"]
  by (simp add: unhex_word_def) (simp add: hex_val_def is_digit_def)

lemma hex4_pair:
  assumes "n < 256"
  shows "hex4 (CHR ''0'' # CHR ''0'' # hex_char (n div 16) # hex_char (n mod 16) # s) = Some (n, s)"
proof -
  have "is_hex (CHR ''0'')" by (simp add: is_hex_def is_digit_def)
  then show ?thesis using unhex_pair [OF assms] hex_char_class [of "n div 16"] hex_char_class [of "n mod 16"] assms
    by (simp add: hex4_def)
qed

lemma scan_string_esc:
  "scan_string (esc c @ s) = map_option (\<lambda>(u, r). (c # u, r)) (scan_string s)"
proof -
  let ?n = "of_char c :: nat"
  consider "c = CHR 0x22" | "c = CHR 0x5C" | "c \<in> {CHR 0x0A, CHR 0x0D, CHR 0x09, CHR 0x0C, CHR 0x08}"
    | "c \<notin> {CHR 0x22, CHR 0x5C, CHR 0x0A, CHR 0x0D, CHR 0x09, CHR 0x0C, CHR 0x08}" "?n < 32"
    | "c \<notin> {CHR 0x22, CHR 0x5C}" "\<not> ?n < 32" by fastforce
  then show ?thesis
  proof cases
    case 4
    then have e: "esc c = [CHR 0x5C, CHR ''u'', CHR ''0'', CHR ''0'', hex_char (?n div 16), hex_char (?n mod 16)]"
      by (simp add: esc_def)
    have "scan_escape (CHR ''u'' # CHR ''0'' # CHR ''0'' # hex_char (?n div 16) # hex_char (?n mod 16) # s) = Some ([c], s)"
      using hex4_pair [of ?n s] 4(2) by (simp add: scan_escape_def utf8_char_def)
    with e show ?thesis by (simp split: option.splits prod.splits)
  next
    case 5
    then have "esc c = [c]" by (auto simp: esc_def)
    with 5 show ?thesis by simp
  qed (auto simp: esc_def scan_escape_def plain_escape_def split: option.splits)
qed

lemma scan_string_quote: "scan_string (concat (map esc t) @ CHR 0x22 # s) = Some (t, s)"
  by (induction t) (simp_all add: scan_string_esc)

lemma starts_quote [simp]: "starts c (quote t @ s) \<longleftrightarrow> c = CHR 0x22" "starts c (quote t) \<longleftrightarrow> c = CHR 0x22"
  by (auto simp: quote_Cons)

lemma scan_quote [simp]: "scan_string (tl (quote t @ s)) = Some (t, s)"
  by (simp add: quote_Cons scan_string_quote)

lemma digits_append: "list_all is_digit w \<Longrightarrow> no_digit s \<Longrightarrow> digits (w @ s) = w \<and> after_digits (w @ s) = s"
  by (induction w) (cases s; auto simp: digits_def after_digits_def)+

lemma dec_nat_all_digits: "list_all is_digit (dec_nat n)"
  using dec_nat_digits by (auto simp: list_all_iff)

lemma read_dec_snoc: "read_dec (s @ [c]) = 10 * read_dec s + (of_char c - 48)"
  by (simp add: read_dec_def)

lemma read_dec_nat [simp]: "read_dec (dec_nat n) = n"
proof (induction n rule: dec_nat.induct)
  case (1 n)
  show ?case
  proof (cases "n < 10")
    case True
    then show ?thesis by (subst dec_nat.simps) (simp add: read_dec_def of_char_digit)
  next
    case False
    with 1 show ?thesis by (subst dec_nat.simps) (simp add: read_dec_snoc of_char_digit)
  qed
qed

lemma hd_dec_nat_zero: "hd (dec_nat n) = CHR ''0'' \<Longrightarrow> n = 0"
proof (induction n rule: dec_nat.induct)
  case (1 n)
  show ?case
  proof (cases "n < 10")
    case True
    then have "hd (dec_nat n) = digit_char n" by (subst dec_nat.simps) simp
    with 1(2) have "(of_char (digit_char n) :: nat) = 48" by simp
    with True show ?thesis by (simp add: of_char_digit)
  next
    case False
    then have "hd (dec_nat n) = hd (dec_nat (n div 10))" by (subst dec_nat.simps) (simp add: hd_append)
    with 1 False show ?thesis by auto
  qed
qed

text \<open>What may follow a number.\<close>

definition after_number :: "string \<Rightarrow> bool" where
  "after_number s \<longleftrightarrow> no_digit s \<and> \<not> starts (CHR ''.'') s \<and> \<not> starts (CHR ''e'') s \<and> \<not> starts (CHR ''E'') s"

lemma whole_part_dec: "no_digit s \<Longrightarrow> whole_part (dec_nat n @ s) = Some (dec_nat n, s)"
proof (cases "n = 0")
  case True
  have "digit_char 0 = CHR ''0''" by code_simp
  with True have "dec_nat n = ''0''" by (subst dec_nat.simps) simp
  then show ?thesis by (simp add: whole_part_def)
next
  case False
  assume s: "no_digit s"
  obtain c cs where c: "dec_nat n = c # cs" using dec_nat_Cons by blast
  with hd_dec_nat_zero [of n] False have "c \<noteq> CHR ''0''" by auto
  with c digits_append [OF dec_nat_all_digits [of n] s] show ?thesis by (simp add: whole_part_def)
qed

lemma scan_number_int:
  assumes "after_number s" "length (dec_nat (nat \<bar>i\<bar>)) \<le> 4300"
  shows "scan_number fl (dec_int i @ s) = Some (JInt i, s)"
proof -
  from assms(1) have s: "no_digit s" "fraction_part s = ([], s)" "exponent_part s = ([], s)"
    by (simp_all add: after_number_def fraction_part_def exponent_part_def)
  show ?thesis
  proof (cases "i < 0")
    case True
    with assms(2) s whole_part_dec [OF s(1), of "nat (- i)"] show ?thesis
      by (simp add: scan_number_def dec_int_def)
  next
    case False
    have "\<not> starts (CHR ''-'') (dec_nat (nat i) @ s)" using dec_nat_Cons [of "nat i"] by auto
    with False assms(2) s whole_part_dec [OF s(1), of "nat i"] show ?thesis
      by (simp add: scan_number_def dec_int_def)
  qed
qed

text \<open>A text that the scanner takes for a float to its end, as \<^verbatim>\<open>float.__repr__\<close> writes one.\<close>

definition float_token :: "string \<Rightarrow> bool" where
  "float_token t \<longleftrightarrow> (case scan_number (\<lambda>_. Fin 0) t of Some (JFloat _, []) \<Rightarrow> True | _ \<Rightarrow> False)"

lemma float_token_Nil [simp]: "\<not> float_token []"
  by (simp add: float_token_def scan_number_def whole_part_def digits_def)

lemma digits_after: "no_digit s \<Longrightarrow> digits (u @ s) = digits u \<and> after_digits (u @ s) = after_digits u @ s"
proof (induction u)
  case Nil
  then show ?case by (cases s) (simp_all add: digits_def after_digits_def)
qed (simp add: digits_def after_digits_def)

lemma digits_parts: "digits u @ after_digits u = u"
  by (simp add: digits_def after_digits_def)

lemma whole_part_parts: "whole_part u = Some (w, r) \<Longrightarrow> u = w @ r \<and> w \<noteq> [] \<and> is_digit (hd w)"
proof -
  assume h: "whole_part u = Some (w, r)"
  show ?thesis
  proof (cases "starts (CHR ''0'') u")
    case True
    with h show ?thesis by (cases u) (auto simp: whole_part_def is_digit_def)
  next
    case False
    with h have w: "w = digits u" "r = after_digits u" "digits u \<noteq> []" by (auto simp: whole_part_def split: if_splits)
    then have "is_digit (hd w)" by (cases u) (auto simp: digits_def split: if_splits)
    with w digits_parts [of u] show ?thesis by simp
  qed
qed

lemma fraction_part_parts: "fraction_part u = (f, r) \<Longrightarrow> u = f @ r"
  using digits_parts [of "tl u"] by (cases u) (auto simp: fraction_part_def split: if_splits)

lemma whole_part_after: "no_digit s \<Longrightarrow> whole_part u = Some (w, r) \<Longrightarrow> whole_part (u @ s) = Some (w, r @ s)"
proof -
  assume s: "no_digit s" and u: "whole_part u = Some (w, r)"
  then have "u \<noteq> []" using whole_part_parts by blast
  then have "starts (CHR ''0'') (u @ s) = starts (CHR ''0'') u" "tl (u @ s) = tl u @ s" by (cases u; simp)+
  with u digits_after [OF s, of u] show ?thesis by (auto simp: whole_part_def split: if_splits)
qed

lemma fraction_part_after:
  assumes "no_digit s" "\<not> starts (CHR ''.'') s" "fraction_part u = (f, r)"
  shows "fraction_part (u @ s) = (f, r @ s)"
proof (cases u)
  case Nil
  with assms show ?thesis by (auto simp: fraction_part_def)
next
  case (Cons c t)
  with assms digits_after [of s t] show ?thesis by (auto simp: fraction_part_def split: if_splits)
qed

lemma exponent_part_after:
  assumes s: "after_number s" and e: "exponent_part u = (e, [])"
  shows "exponent_part (u @ s) = (e, s) \<and> u = e"
proof (cases u)
  case Nil
  with assms show ?thesis by (auto simp: exponent_part_def after_number_def)
next
  case (Cons c t)
  define sign where "sign = (if starts (CHR ''+'') t \<or> starts (CHR ''-'') t then take 1 t else [])"
  from e Cons have c: "c = CHR ''e'' \<or> c = CHR ''E''" and d: "digits (drop (length sign) t) \<noteq> []"
    and r: "after_digits (drop (length sign) t) = []" "e = c # sign @ digits (drop (length sign) t)"
    by (auto simp: exponent_part_def sign_def Let_def split: if_splits)
  from d have t: "t \<noteq> []" by (auto simp: digits_def)
  have sg: "take (length sign) t = sign" "length sign \<le> length t" by (cases t; auto simp: sign_def)+
  have "starts x (t @ s) = starts x t" for x using t by (cases t) simp_all
  moreover have "take 1 (t @ s) = take 1 t" using t by (cases t) simp_all
  ultimately have sg': "(if starts (CHR ''+'') (t @ s) \<or> starts (CHR ''-'') (t @ s) then take 1 (t @ s) else []) = sign"
    by (simp only: sign_def)
  have "drop (length sign) (t @ s) = drop (length sign) t @ s" using sg(2) by simp
  moreover have "no_digit s" using s by (simp add: after_number_def)
  ultimately have "exponent_part (c # t @ s) = (e, s)"
    unfolding exponent_part_def Let_def list.sel sg' using c d r digits_after [of s "drop (length sign) t"] by auto
  with Cons have "exponent_part (u @ s) = (e, s)" by simp
  moreover have "u = e"
    using Cons r digits_parts [of "drop (length sign) t"] sg(1) by (metis append_Nil2 append_take_drop_id)
  ultimately show ?thesis ..
qed

lemma scan_number_float:
  assumes "float_token t" "after_number s"
  shows "scan_number fl (t @ s) = Some (JFloat (fl t), s)" "is_digit (hd t) \<or> hd t = CHR ''-''" "t \<noteq> []"
proof -
  define neg where "neg = starts (CHR ''-'') t"
  define u where "u = (if neg then tl t else t)"
  have nu: "(if neg then tl t else t) = u" by (simp add: u_def)
  have sc: "scan_number g t = (case whole_part u of None \<Rightarrow> None
      | Some (w, r) \<Rightarrow> (case fraction_part r of (f, r1) \<Rightarrow> case exponent_part r1 of (e, r2) \<Rightarrow>
          if f = [] \<and> e = [] then (if length w \<le> 4300 then Some (JInt (if neg then - int (read_dec w) else int (read_dec w)), r2) else None)
          else Some (JFloat (g ((if neg then ''-'' else []) @ w @ f @ e)), r2)))" for g
    unfolding scan_number_def Let_def neg_def [symmetric] nu by (rule HOL.refl)
  note ft = assms(1) [unfolded float_token_def sc]
  obtain w r where w1: "whole_part u = Some (w, r)" using ft by (cases "whole_part u") auto
  obtain f r1 where w2: "fraction_part r = (f, r1)" by (cases "fraction_part r")
  obtain e r2 where w3: "exponent_part r1 = (e, r2)" by (cases "exponent_part r1")
  note ft' = ft [unfolded w1 option.case prod.case w2 w3]
  have ne: "\<not> (f = [] \<and> e = [])" using ft' by (auto split: if_splits)
  have "r2 = []" using ft' ne by (cases r2) auto
  note w = w1 w2 w3 [unfolded \<open>r2 = []\<close>] ne
  have n: "no_digit s" "\<not> starts (CHR ''.'') s" using assms(2) by (simp_all add: after_number_def)
  note sp = whole_part_parts [OF w(1)] fraction_part_parts [OF w(2)] exponent_part_after [OF assms(2) w(3)]
  have t: "t = (if neg then ''-'' else []) @ u" by (cases t) (auto simp: neg_def u_def)
  have u: "u = w @ f @ e" "u \<noteq> []" using sp by auto
  show "t \<noteq> []" using t u(2) by auto
  show "is_digit (hd t) \<or> hd t = CHR ''-''" using t sp(1) by (cases neg) (auto simp: hd_append)
  have ts: "starts (CHR ''-'') (t @ s) = neg" using \<open>t \<noteq> []\<close> by (cases t) (auto simp: neg_def)
  have us: "(if neg then tl (t @ s) else t @ s) = u @ s" using \<open>t \<noteq> []\<close> by (simp add: u_def)
  have "(if neg then ''-'' else []) @ w @ f @ e = t" using t u(1) by simp
  moreover have "scan_number fl (t @ s) = Some (JFloat (fl ((if neg then ''-'' else []) @ w @ f @ e)), s)"
    unfolding scan_number_def Let_def ts us whole_part_after [OF n(1) w(1)] option.case prod.case fraction_part_after [OF n w(2)]
      sp(3) [THEN conjunct1] if_not_P [OF ne] by (rule HOL.refl)
  ultimately show "scan_number fl (t @ s) = Some (JFloat (fl t), s)" by simp
qed

section \<open>Values are read back\<close>

text \<open>Every float of a value is finite and written as a float; and it is read back as that float.\<close>

fun float_tokens :: "(rat \<Rightarrow> string) \<Rightarrow> json \<Rightarrow> bool" and float_tokens_pairs :: "(rat \<Rightarrow> string) \<Rightarrow> (string \<times> json) list \<Rightarrow> bool" where
  "float_tokens fr (JFloat f) = (case f of Fin r \<Rightarrow> float_token (fr r) | _ \<Rightarrow> False)"
| "float_tokens fr (JList xs) = (\<forall>x \<in> set xs. float_tokens fr x)"
| "float_tokens fr (JObj d) = float_tokens_pairs fr d"
| "float_tokens fr _ = True"
| "float_tokens_pairs fr [] = True"
| "float_tokens_pairs fr ((k, v) # d) = (float_tokens fr v \<and> float_tokens_pairs fr d)"

fun floats_back :: "(string \<Rightarrow> pyfloat) \<Rightarrow> (rat \<Rightarrow> string) \<Rightarrow> json \<Rightarrow> bool"
  and floats_back_pairs :: "(string \<Rightarrow> pyfloat) \<Rightarrow> (rat \<Rightarrow> string) \<Rightarrow> (string \<times> json) list \<Rightarrow> bool"
where
  "floats_back fl fr (JFloat f) = (fl (enc_float fr f) = f)"
| "floats_back fl fr (JList xs) = (\<forall>x \<in> set xs. floats_back fl fr x)"
| "floats_back fl fr (JObj d) = floats_back_pairs fl fr d"
| "floats_back fl fr _ = True"
| "floats_back_pairs fl fr [] = True"
| "floats_back_pairs fl fr ((k, v) # d) = (floats_back fl fr v \<and> floats_back_pairs fl fr d)"

fun small_ints :: "json \<Rightarrow> bool" and small_ints_pairs :: "(string \<times> json) list \<Rightarrow> bool" where
  "small_ints (JInt i) = (length (dec_nat (nat \<bar>i\<bar>)) \<le> 4300)"
| "small_ints (JList xs) = (\<forall>x \<in> set xs. small_ints x)"
| "small_ints (JObj d) = small_ints_pairs d"
| "small_ints _ = True"
| "small_ints_pairs [] = True"
| "small_ints_pairs ((k, v) # d) = (small_ints v \<and> small_ints_pairs d)"

definition readable :: "(string \<Rightarrow> pyfloat) \<Rightarrow> (rat \<Rightarrow> string) \<Rightarrow> json \<Rightarrow> bool" where
  "readable fl fr v \<longleftrightarrow> float_tokens fr v \<and> floats_back fl fr v \<and> distinct_keys v \<and> small_ints v"

lemma readable_simps [simp]:
  "readable fl fr (JList xs) \<longleftrightarrow> (\<forall>x \<in> set xs. readable fl fr x)"
  "readable fl fr (JObj []) \<longleftrightarrow> True"
  "readable fl fr (JObj ((k, v) # d)) \<longleftrightarrow> k \<notin> set (keys d) \<and> readable fl fr v \<and> readable fl fr (JObj d)"
  "readable fl fr (JInt i) \<longleftrightarrow> length (dec_nat (nat \<bar>i\<bar>)) \<le> 4300"
  "readable fl fr (JFloat (Fin q)) \<longleftrightarrow> float_token (fr q) \<and> fl (fr q) = Fin q"
  "readable fl fr (JStr s)" "readable fl fr JNull" "readable fl fr (JBool b)"
  by (auto simp: readable_def enc_float_def)

lemma float_tokens_first:
  assumes "float_tokens fr (JFloat f)"
  obtains q c cs where "f = Fin q" "float_token (fr q)" "fr q = c # cs" "is_digit c \<or> c = CHR ''-''"
proof -
  from assms obtain q where q: "f = Fin q" "float_token (fr q)" by (auto split: pyfloat.splits)
  with scan_number_float(2,3) [OF q(2), of "[]"] that show thesis
    by (cases "fr q") (auto simp: after_number_def no_digit_def split: list.splits)
qed

text \<open>The first character of a value.\<close>

definition value_char :: "char \<Rightarrow> bool" where
  "value_char c \<longleftrightarrow> is_digit c \<or> c \<in> {CHR ''-'', CHR ''n'', CHR ''t'', CHR ''f'', CHR 0x22, CHR ''['', CHR ''{''}"

lemma wide_first: "float_tokens fr j \<Longrightarrow> \<exists>c cs. wide fr j = c # cs \<and> value_char c"
proof (cases j)
  case (JInt i)
  then show ?thesis using dec_int_Cons [of i] by (auto simp: value_char_def)
next
  case (JFloat f)
  moreover assume "float_tokens fr j"
  ultimately obtain q c cs where "f = Fin q" "fr q = c # cs" "is_digit c \<or> c = CHR ''-''" using float_tokens_first by metis
  with JFloat show ?thesis by (auto simp: enc_float_def value_char_def)
next
  case (JList xs)
  then show ?thesis by (cases xs) (simp_all add: value_char_def)
next
  case (JObj d)
  then show ?thesis by (cases d) (auto simp: value_char_def)
qed (auto simp: value_char_def quote_Cons)

lemma blank_not_first: "value_char c \<Longrightarrow> \<not> json_blank c \<and> c \<noteq> CHR '']''"
  by (auto simp: value_char_def json_blank_def is_digit_def)

lemma skip_blank_simps [simp]:
  "skip_blank [] = []" "skip_blank (c # s) = (if json_blank c then skip_blank s else c # s)"
  by (auto simp: skip_blank_def)

lemma json_blank_simps [simp]: "json_blank (CHR '' '')" "\<not> json_blank (CHR '','')" "\<not> json_blank (CHR '']'')" "\<not> json_blank (CHR ''}'')"
  "\<not> json_blank (CHR '':'')" "\<not> json_blank (CHR 0x22)" "\<not> json_blank (CHR ''['')" "\<not> json_blank (CHR ''{'')"
  by (auto simp: json_blank_def)

lemma skip_wide [simp]: "float_tokens fr j \<Longrightarrow> skip_blank (wide fr j @ s) = wide fr j @ s \<and> \<not> starts (CHR '']'') (wide fr j @ s)"
  using wide_first [of fr j] blank_not_first by fastforce

lemma skip_quote [simp]: "skip_blank (quote t @ s) = quote t @ s"
  by (simp add: quote_Cons)

lemma after_number_simps [simp]: "after_number []" "after_number (CHR '','' # s)" "after_number (CHR '']'' # s)" "after_number (CHR ''}'' # s)"
  by (auto simp: after_number_def)

lemma after_number_tail [simp]: "after_number (wide_tail fr xs @ s)"
  by (cases xs) simp_all

lemma after_number_pairs [simp]: "after_number (wide_pairs fr d @ s)"
  by (cases "(quote, fr, d)" rule: written_pairs.cases) simp_all

definition reads_back :: "(string \<Rightarrow> pyfloat) \<Rightarrow> (rat \<Rightarrow> string) \<Rightarrow> json \<Rightarrow> bool" where
  "reads_back fl fr v \<longleftrightarrow> (\<forall>n s. readable fl fr v \<longrightarrow> after_number s \<longrightarrow> 2 * json_nodes v \<le> n \<longrightarrow> p_value fl n (wide fr v @ s) = Some (v, s))"

lemma nodes_pos: "1 \<le> json_nodes v"
  by (cases v) auto

lemma reads_backI:
  "(\<And>m s. readable fl fr v \<Longrightarrow> after_number s \<Longrightarrow> 2 * json_nodes v \<le> Suc m \<Longrightarrow> p_value fl (Suc m) (wide fr v @ s) = Some (v, s)) \<Longrightarrow>
    reads_back fl fr v"
  unfolding reads_back_def using nodes_pos [of v] by (intro allI impI) (case_tac n; simp)

lemma reads_backD: "reads_back fl fr v \<Longrightarrow> readable fl fr v \<Longrightarrow> after_number s \<Longrightarrow> 2 * json_nodes v \<le> n \<Longrightarrow> p_value fl n (wide fr v @ s) = Some (v, s)"
  by (simp add: reads_back_def)

lemma readable_tokens: "readable fl fr v \<Longrightarrow> float_tokens fr v"
  by (simp add: readable_def)

lemma items_read_back:
  "\<forall>x \<in> set (x # xs). reads_back fl fr x \<and> readable fl fr x \<Longrightarrow> 2 * sum_list (map json_nodes (x # xs)) + 1 \<le> n \<Longrightarrow>
    p_items fl n (wide fr x @ wide_tail fr xs @ s) = Some (x # xs, s)"
proof (induction xs arbitrary: x n)
  case Nil
  then show ?case by (cases n) (simp_all add: reads_backD)
next
  case (Cons y xs)
  from Cons.prems(2) obtain m where n: "n = Suc m" by (cases n) auto
  have "p_value fl m (wide fr x @ wide_tail fr (y # xs) @ s) = Some (x, wide_tail fr (y # xs) @ s)"
    by (rule reads_backD) (use Cons.prems n in auto)
  moreover have "p_items fl m (wide fr y @ wide_tail fr xs @ s) = Some (y # xs, s)"
    by (rule Cons.IH) (use Cons.prems n nodes_pos [of x] in auto)
  moreover have "float_tokens fr y" using Cons.prems by (auto dest: readable_tokens)
  ultimately show ?case using n by simp
qed

lemma members_read_back:
  "\<forall>p \<in> set ((k, v) # d). reads_back fl fr (snd p) \<Longrightarrow> readable fl fr (JObj ((k, v) # d)) \<Longrightarrow>
    set (keys ((k, v) # d)) \<inter> set ks = {} \<Longrightarrow> 2 * json_nodes_pairs ((k, v) # d) + 1 \<le> n \<Longrightarrow>
    p_members fl n ks (quote k @ '': '' @ wide fr v @ wide_pairs fr d @ s) = Some ((k, v) # d, s)"
proof (induction d arbitrary: k v n ks)
  case Nil
  from Nil.prems(4) obtain m where n: "n = Suc m" by (cases n) auto
  have "p_value fl m (wide fr v @ CHR ''}'' # s) = Some (v, CHR ''}'' # s)"
    by (rule reads_backD) (use Nil.prems n in auto)
  moreover have "float_tokens fr v" using Nil.prems(2) by (auto dest: readable_tokens)
  ultimately show ?case using n Nil.prems(3) by simp
next
  case (Cons p d)
  obtain k1 v1 where p: "p = (k1, v1)" by (cases p)
  from Cons.prems(4) obtain m where n: "n = Suc m" by (cases n) auto
  have a: "p_value fl m (wide fr v @ wide_pairs fr (p # d) @ s) = Some (v, wide_pairs fr (p # d) @ s)"
    by (rule reads_backD) (use Cons.prems n in auto)
  have "p_members fl m (k # ks) (quote k1 @ '': '' @ wide fr v1 @ wide_pairs fr d @ s) = Some ((k1, v1) # d, s)"
    by (rule Cons.IH) (use Cons.prems n p nodes_pos [of v] in auto)
  moreover have "float_tokens fr v" using Cons.prems(2) by (auto dest: readable_tokens)
  ultimately show ?case using n p a Cons.prems(3) by simp
qed

lemma list_read_back: "\<forall>x \<in> set xs. reads_back fl fr x \<Longrightarrow> reads_back fl fr (JList xs)"
proof (rule reads_backI)
  fix m s
  assume h: "\<forall>x \<in> set xs. reads_back fl fr x" "readable fl fr (JList xs)" "2 * json_nodes (JList xs) \<le> Suc m"
  show "p_value fl (Suc m) (wide fr (JList xs) @ s) = Some (JList xs, s)"
  proof (cases xs)
    case (Cons y ys)
    have "p_items fl m (wide fr y @ wide_tail fr ys @ s) = Some (y # ys, s)"
      by (rule items_read_back) (use h Cons in auto)
    moreover have "float_tokens fr y" using h Cons by (auto dest: readable_tokens)
    ultimately show ?thesis using Cons by simp
  qed simp
qed

lemma object_read_back: "\<forall>p \<in> set d. reads_back fl fr (snd p) \<Longrightarrow> reads_back fl fr (JObj d)"
proof (rule reads_backI)
  fix m s
  assume h: "\<forall>p \<in> set d. reads_back fl fr (snd p)" "readable fl fr (JObj d)" "2 * json_nodes (JObj d) \<le> Suc m"
  show "p_value fl (Suc m) (wide fr (JObj d) @ s) = Some (JObj d, s)"
  proof (cases d)
    case (Cons p e)
    obtain k v where p: "p = (k, v)" by (cases p)
    have "p_members fl m [] (quote k @ '': '' @ wide fr v @ wide_pairs fr e @ s) = Some ((k, v) # e, s)"
      by (rule members_read_back) (use h Cons p in auto)
    then show ?thesis using Cons p by simp
  qed simp
qed

lemma int_read_back: "reads_back fl fr (JInt i)"
proof (rule reads_backI)
  fix m s
  assume h: "readable fl fr (JInt i)" "after_number s"
  obtain c cs where c: "dec_int i = c # cs" "is_digit c \<or> c = CHR ''-''" using dec_int_Cons by blast
  then have d: "c \<noteq> CHR 0x22" "c \<noteq> CHR ''[''" "c \<noteq> CHR ''{''" "c \<noteq> CHR ''n''" "c \<noteq> CHR ''t''" "c \<noteq> CHR ''f''" by auto
  have "scan_number fl (c # cs @ s) = Some (JInt i, s)" using scan_number_int [of s i fl] h c(1) by simp
  then show "p_value fl (Suc m) (wide fr (JInt i) @ s) = Some (JInt i, s)" using c(1) d by simp
qed

lemma float_read_back: "reads_back fl fr (JFloat f)"
proof (rule reads_backI)
  fix m s
  assume h: "readable fl fr (JFloat f)" "after_number s"
  from h(1) obtain q c cs where q: "f = Fin q" "float_token (fr q)" "fr q = c # cs" "is_digit c \<or> c = CHR ''-''"
    using float_tokens_first unfolding readable_def by metis
  from q(4) have d: "c \<noteq> CHR 0x22" "c \<noteq> CHR ''[''" "c \<noteq> CHR ''{''" "c \<noteq> CHR ''n''" "c \<noteq> CHR ''t''" "c \<noteq> CHR ''f''" by auto
  have "scan_number fl (c # cs @ s) = Some (JFloat f, s)" using scan_number_float(1) [OF q(2) h(2), of fl] h(1) q(1,3) by simp
  then show "p_value fl (Suc m) (wide fr (JFloat f) @ s) = Some (JFloat f, s)" using q(1,3) d by (simp add: enc_float_def)
qed

lemma value_read_back: "reads_back fl fr v"
proof (induction v)
  case (JList xs)
  then show ?case by (simp add: list_read_back)
next
  case (JObj d)
  then have "\<forall>p \<in> set d. reads_back fl fr (snd p)" by (auto simp: snds.simps)
  then show ?case by (rule object_read_back)
next
  case (JInt i)
  show ?case by (rule int_read_back)
next
  case (JFloat f)
  show ?case by (rule float_read_back)
next
  case (JStr t)
  show ?case by (rule reads_backI) simp
next
  case (JBool b)
  show ?case by (rule reads_backI) simp
qed (rule reads_backI, simp)+

section \<open>The bounded reader reads back\<close>

lemma nodes_length:
  "float_tokens fr v \<Longrightarrow> json_nodes v \<le> length (wide fr v)"
  "\<forall>x \<in> set xs. float_tokens fr x \<Longrightarrow> sum_list (map json_nodes xs) < length (wide_tail fr xs)"
  "float_tokens_pairs fr d \<Longrightarrow> json_nodes_pairs d < length (wide_pairs fr d)"
proof (induction quote fr v and quote fr xs and quote fr d rule: written_written_tail_written_pairs.induct)
qed (auto simp: dec_int_def quote_def enc_float_def Suc_le_eq split: pyfloat.splits dest: scan_number_float(3))

lemma tokens_finite:
  "float_tokens fr v \<Longrightarrow> finite_floats v"
  "float_tokens_pairs fr d \<Longrightarrow> finite_floats_pairs d"
  by (induction v and d rule: float_tokens_float_tokens_pairs.induct) (auto split: pyfloat.splits)

lemma loads_wide:
  assumes "readable fl fr v"
  shows "loads fl (wide fr v) = Some v"
proof -
  have f: "float_tokens fr v" using assms by (rule readable_tokens)
  obtain c cs where c: "wide fr v = c # cs" "value_char c" using wide_first [OF f] by blast
  have "c \<noteq> CHR 0xEF" using c(2) by (auto simp: value_char_def is_digit_def)
  then have "take 3 (wide fr v) \<noteq> bom" by (simp add: c(1) bom_def)
  moreover have "skip_blank (wide fr v) = wide fr v" using skip_wide [OF f, of "[]"] by simp
  moreover have "p_value fl (2 * length (wide fr v) + 2) (wide fr v @ []) = Some (v, [])"
    by (rule reads_backD [OF value_read_back assms]) (use nodes_length(1) [OF f] in auto)
  ultimately show ?thesis by (simp add: loads_def)
qed

lemma strict_json_wide:
  assumes "readable fl fr v" "length (wide fr v) \<le> m" "utf8_ok (wide fr v)" "json_depth v \<le> 48" "json_nodes v \<le> 100000"
  shows "strict_json fl m (wide fr v) = Inr v"
  using assms loads_wide [OF assms(1)] tokens_finite(1) [OF readable_tokens [OF assms(1)]]
  by (simp add: strict_json_Inr)

section \<open>The fuel is enough\<close>

lemma skip_blank_le: "length (skip_blank s) \<le> length s"
  by (simp add: skip_blank_def length_dropWhile_le)

lemma scan_string_shorter: "scan_string s = Some (t, r) \<Longrightarrow> length r < length s"
proof (induction s arbitrary: t r rule: scan_string.induct)
  case (2 c s)
  then show ?case
    by (auto split: if_splits option.splits dest!: scan_escape_shorter) (metis less_SucI less_trans)+
qed simp

lemma parts_shorter:
  "whole_part s = Some (w, r) \<Longrightarrow> length r < length s" "fraction_part s = (f, r) \<Longrightarrow> length r \<le> length s"
  "exponent_part s = (f, r) \<Longrightarrow> length r \<le> length s"
proof -
  have d: "length (after_digits s) < length s" if "digits s \<noteq> []" for s
    using that by (cases s) (auto simp: digits_def after_digits_def less_Suc_eq_le length_dropWhile_le split: if_splits)
  show "whole_part s = Some (w, r) \<Longrightarrow> length r < length s" for s w r
    using d [of s] by (cases s) (auto simp: whole_part_def split: if_splits)
  show "fraction_part s = (f, r) \<Longrightarrow> length r \<le> length s" for s f r
    using d [of "tl s"] by (cases s) (auto simp: fraction_part_def split: if_splits)
  show "exponent_part s = (f, r) \<Longrightarrow> length r \<le> length s" for s f r
  proof -
    assume e: "exponent_part s = (f, r)"
    have "r = s \<or> (\<exists>k. digits (drop k (tl s)) \<noteq> [] \<and> r = after_digits (drop k (tl s)))"
      using e by (auto simp: exponent_part_def Let_def split: if_splits) (metis drop0)+
    then show ?thesis using d by (auto dest!: d intro: order_trans)
  qed
qed

lemma scan_number_shorter: "scan_number fl s = Some (v, r) \<Longrightarrow> length r < length s"
proof -
  assume n: "scan_number fl s = Some (v, r)"
  define t where "t = (if starts (CHR ''-'') s then tl s else s)"
  obtain w r0 f r1 e where "whole_part t = Some (w, r0)" "fraction_part r0 = (f, r1)" "exponent_part r1 = (e, r)"
    using n by (auto simp: scan_number_def Let_def t_def [symmetric] split: option.splits prod.splits if_splits)
  then have "length r < length t" using parts_shorter by (metis le_less_trans)
  moreover have "length t \<le> length s" by (simp add: t_def)
  ultimately show ?thesis by simp
qed

definition settled :: "(string \<Rightarrow> pyfloat) \<Rightarrow> nat \<Rightarrow> bool" where
  "settled fl n \<longleftrightarrow>
     (\<forall>s. 2 * length s + 2 \<le> n \<longrightarrow> p_value fl (Suc n) s = p_value fl n s) \<and>
     (\<forall>s. 2 * length s + 3 \<le> n \<longrightarrow> p_items fl (Suc n) s = p_items fl n s) \<and>
     (\<forall>ks s. 2 * length s + 3 \<le> n \<longrightarrow> p_members fl (Suc n) ks s = p_members fl n ks s)"

lemma tl_shorter: "starts c t \<Longrightarrow> length (tl t) < length t"
  by (cases t) auto

lemma skip_tl_shorter: "starts c t \<Longrightarrow> length (skip_blank (tl t)) < length t"
  using tl_shorter [of c t] skip_blank_le [of "tl t"] by linarith

lemma tl_skip_shorter: "starts c (skip_blank t) \<Longrightarrow> length (tl (skip_blank t)) < length t"
  using tl_shorter [of c "skip_blank t"] skip_blank_le [of t] by linarith

lemma skip_tl_skip_shorter: "starts c (skip_blank t) \<Longrightarrow> length (skip_blank (tl (skip_blank t))) < length t"
  using tl_skip_shorter [of c t] skip_blank_le [of "tl (skip_blank t)"] by linarith

lemmas shorter = tl_shorter skip_tl_shorter tl_skip_shorter skip_tl_skip_shorter

lemma drop_shorter: "take k s = w \<Longrightarrow> w \<noteq> [] \<Longrightarrow> 0 < k \<Longrightarrow> length (drop k s) < length s"
  by (cases s) auto

declare p_value.simps [simp del] p_items.simps [simp del] p_members.simps [simp del]

lemma p_value_shorter:
  "(\<forall>s v r. p_value fl n s = Some (v, r) \<longrightarrow> length r < length s) \<and>
   (\<forall>s xs r. p_items fl n s = Some (xs, r) \<longrightarrow> length r < length s) \<and>
   (\<forall>ks s d r. p_members fl n ks s = Some (d, r) \<longrightarrow> length r < length s)"
proof (induction n)
  case (Suc n)
  have nested: "length r < length s" if "starts c s"
    "if starts d (skip_blank (tl s)) then r = tl (skip_blank (tl s)) else
       (\<exists>xs. p_items fl n (skip_blank (tl s)) = Some (xs, r)) \<or> (\<exists>e. p_members fl n [] (skip_blank (tl s)) = Some (e, r))" for c d s r
  proof (cases "starts d (skip_blank (tl s))")
    case True
    with that skip_tl_shorter [OF that(1)] tl_shorter [OF True] show ?thesis by simp
  next
    case False
    with that have "length r < length (skip_blank (tl s))" using Suc.IH by auto
    with skip_tl_shorter [OF that(1)] show ?thesis by linarith
  qed
  have "length r < length s" if p: "p_value fl (Suc n) s = Some (v, r)" for s v r
  proof -
    consider (t) "starts (CHR 0x22) s" | (l) "starts (CHR ''['') s" | (d) "starts (CHR ''{'') s"
      | (w) "\<not> starts (CHR 0x22) s" "\<not> starts (CHR ''['') s" "\<not> starts (CHR ''{'') s" by blast
    then show ?thesis
    proof cases
      case t
      with p obtain u where "scan_string (tl s) = Some (u, r)" by (auto simp: p_value.simps)
      from scan_string_shorter [OF this] tl_shorter [OF t] show ?thesis by linarith
    next
      case l
      then have "\<not> starts (CHR 0x22) s" by (cases s) auto
      with l p show ?thesis by (intro nested [OF l, of "CHR '']''"]) (auto simp: p_value.simps Let_def split: if_splits)
    next
      case d
      then have "\<not> starts (CHR 0x22) s" "\<not> starts (CHR ''['') s" by (cases s; auto)+
      with d p show ?thesis by (intro nested [OF d, of "CHR ''}''"]) (auto simp: p_value.simps Let_def split: if_splits)
    next
      case w
      have ne: "s \<noteq> []" if "take n s = c # u" for n c u using that by auto
      from w p show ?thesis using scan_number_shorter [of fl s v r]
        by (cases "s = []") (auto simp: p_value.simps split: if_splits dest: ne)
    qed
  qed
  moreover have "length r < length s" if p: "p_items fl (Suc n) s = Some (xs, r)" for s xs r
  proof -
    from p obtain x r0 where v: "p_value fl n s = Some (x, r0)" by (auto simp: p_items.simps split: option.splits)
    with Suc.IH have l: "length r0 < length s" by metis
    from p v obtain c where c: "starts c (skip_blank r0)"
      and "r = tl (skip_blank r0) \<or> (\<exists>ys. p_items fl n (skip_blank (tl (skip_blank r0))) = Some (ys, r))"
      by (auto simp: p_items.simps Let_def split: if_splits)
    then show ?thesis using tl_skip_shorter [OF c] skip_tl_skip_shorter [OF c] l Suc.IH by (metis less_trans)
  qed
  moreover have "length r < length s" if p: "p_members fl (Suc n) ks s = Some (d, r)" for ks s d r
  proof -
    from p obtain k r0 v r1 where k: "starts (CHR 0x22) s" "scan_string (tl s) = Some (k, r0)"
      "starts (CHR '':'') (skip_blank r0)" "p_value fl n (skip_blank (tl (skip_blank r0))) = Some (v, r1)"
      by (auto simp: p_members.simps Let_def split: if_splits option.splits)
    have "length r1 < length (skip_blank (tl (skip_blank r0)))" using k(4) Suc.IH by metis
    then have l: "length r1 < length s"
      using scan_string_shorter [OF k(2)] tl_shorter [OF k(1)] skip_tl_skip_shorter [OF k(3)] by linarith
    from p k obtain c where c: "starts c (skip_blank r1)"
      and "r = tl (skip_blank r1) \<or> (\<exists>e. p_members fl n (k # ks) (skip_blank (tl (skip_blank r1))) = Some (e, r))"
      by (auto simp: p_members.simps Let_def split: if_splits)
    then show ?thesis using tl_skip_shorter [OF c] skip_tl_skip_shorter [OF c] l Suc.IH by (metis less_trans)
  qed
  ultimately show ?case by blast
qed (simp add: p_value.simps p_items.simps p_members.simps)

lemmas value_shorter = p_value_shorter [THEN conjunct1, rule_format]

lemma settledI: "settled fl n"
proof (induction n)
  case (Suc n)
  note v = Suc.IH [unfolded settled_def, THEN conjunct1, rule_format]
  note i = Suc.IH [unfolded settled_def, THEN conjunct2, THEN conjunct1, rule_format]
  note m = Suc.IH [unfolded settled_def, THEN conjunct2, THEN conjunct2, rule_format]
  have "p_value fl (Suc (Suc n)) s = p_value fl (Suc n) s" if l: "2 * length s + 2 \<le> Suc n" for s
  proof -
    have "p_items fl (Suc n) (skip_blank (tl s)) = p_items fl n (skip_blank (tl s)) \<and>
        p_members fl (Suc n) [] (skip_blank (tl s)) = p_members fl n [] (skip_blank (tl s))" if "starts c s" for c
      using skip_tl_shorter [OF that] l by (intro conjI i m) auto
    then show ?thesis by (subst (1 2) p_value.simps) (auto simp: Let_def)
  qed
  moreover have "p_items fl (Suc (Suc n)) s = p_items fl (Suc n) s" if l: "2 * length s + 3 \<le> Suc n" for s
  proof -
    have "p_value fl (Suc n) s = p_value fl n s" by (rule v) (use l in auto)
    moreover have "p_items fl (Suc n) (skip_blank (tl (skip_blank r))) = p_items fl n (skip_blank (tl (skip_blank r)))"
      if "p_value fl n s = Some (x, r)" "starts c (skip_blank r)" for x r c
      using skip_tl_skip_shorter [OF that(2)] value_shorter [OF that(1)] l by (intro i) auto
    ultimately show ?thesis
      by (subst (1 2) p_items.simps) (auto simp: Let_def split: option.splits)
  qed
  moreover have "p_members fl (Suc (Suc n)) ks s = p_members fl (Suc n) ks s" if l: "2 * length s + 3 \<le> Suc n" for ks s
  proof -
    have a: "p_value fl (Suc n) (skip_blank (tl (skip_blank r))) = p_value fl n (skip_blank (tl (skip_blank r)))"
      if "starts (CHR 0x22) s" "scan_string (tl s) = Some (k, r)" "starts (CHR '':'') (skip_blank r)" for k r
      using tl_shorter [OF that(1)] scan_string_shorter [OF that(2)] skip_tl_skip_shorter [OF that(3)] l by (intro v) auto
    have b: "p_members fl (Suc n) ks' (skip_blank (tl (skip_blank r1))) = p_members fl n ks' (skip_blank (tl (skip_blank r1)))"
      if "starts (CHR 0x22) s" "scan_string (tl s) = Some (k, r)" "starts (CHR '':'') (skip_blank r)"
        "p_value fl n (skip_blank (tl (skip_blank r))) = Some (x, r1)" "starts c (skip_blank r1)" for k r x r1 c ks'
      using tl_shorter [OF that(1)] scan_string_shorter [OF that(2)] skip_tl_skip_shorter [OF that(3)]
        value_shorter [OF that(4)] skip_tl_skip_shorter [OF that(5)] l by (intro m) auto
    from a b show ?thesis
      by (subst (1 2) p_members.simps) (auto simp: Let_def split: option.splits)
  qed
  ultimately show ?case by (simp add: settled_def)
qed (simp add: settled_def)

lemma fuel_enough: "2 * length s + 2 \<le> n \<Longrightarrow> p_value fl n s = p_value fl (2 * length s + 2) s"
proof (induction n)
  case (Suc n)
  show ?case
  proof (cases "2 * length s + 2 = Suc n")
    case False
    with Suc have "2 * length s + 2 \<le> n" by simp
    with Suc.IH settledI [of fl n] show ?thesis by (simp add: settled_def)
  qed simp
qed simp

end
