(* ===== verification/Cw_Sources.thy ===== *)
theory Cw_Sources
  imports Cw_Anchor Cw_Evidence Py_Round
begin

text \<open>
  The read-only evidence connectors (\<^verbatim>\<open>connectors/http_client.py\<close>, \<^verbatim>\<open>connectors/base_transaction.py\<close>,
  \<^verbatim>\<open>connectors/github_issue.py\<close>) and the envelope an observation comes back in (\<^verbatim>\<open>observations.py\<close>).
  The network is an argument: the answer to the n-th request, as a status and timed chunks.
\<close>

section \<open>Bounded HTTP\<close>

record http_response =
  hr_status :: int
  hr_chunks :: "(rat \<times> string) list"

text \<open>A request is its number, its verb, the address, the headers and the body.\<close>

type_synonym net = "nat \<Rightarrow> string \<Rightarrow> string \<Rightarrow> jobj \<Rightarrow> json \<Rightarrow> http_response res"

text \<open>Each chunk is read with the seconds since the start.\<close>

fun read_chunks :: "rat \<Rightarrow> nat \<Rightarrow> string \<Rightarrow> (rat \<times> string) list \<Rightarrow> string res" where
  "read_chunks timeout max_bytes raw [] = Inr raw"
| "read_chunks timeout max_bytes raw ((t, c) # cs) =
     (if t > timeout then Inl (Casework ''SOURCE_RESPONSE_DEADLINE'' 504)
      else if length (raw @ c) > max_bytes then Inl (Casework ''SOURCE_RESPONSE_TOO_LARGE'' 502)
      else read_chunks timeout max_bytes (raw @ c) cs)"

definition transport :: "'a res \<Rightarrow> 'a res" where
  "transport m = (case m of Inl (PyExc _) \<Rightarrow> Inl (Casework ''SOURCE_TRANSPORT_UNAVAILABLE'' 502) | _ \<Rightarrow> m)"

definition bounded_json :: "env \<Rightarrow> rat \<Rightarrow> nat \<Rightarrow> http_response res \<Rightarrow> (jobj \<times> string) res" where
  "bounded_json E timeout max_bytes response = transport
     (ebind response (\<lambda>r.
      ebind (check (hr_status r = 200) (Casework ''SOURCE_HTTP_FAILURE'' 502)) (\<lambda>_.
      ebind (read_chunks timeout max_bytes [] (hr_chunks r)) (\<lambda>raw.
      ebind (strict_json (float_text E) max_bytes raw) (\<lambda>data.
      case data of JObj d \<Rightarrow> Inr (d, raw) | _ \<Rightarrow> Inl (Casework ''SOURCE_SCHEMA_INVALID'' 502))))))"

text \<open>The default client of the sources: 512000 bytes, twelve seconds.\<close>

definition http_json :: "env \<Rightarrow> net \<Rightarrow> nat \<Rightarrow> string \<Rightarrow> string \<Rightarrow> jobj \<Rightarrow> json \<Rightarrow> (jobj \<times> string) res" where
  "http_json E N n verb url headers body = bounded_json E 12 512000 (N n verb url headers body)"

section \<open>Transactions on Base\<close>

definition base_resource :: "source_spec \<Rightarrow> string \<Rightarrow> scope \<Rightarrow> string res" where
  "base_resource s resource sc =
     (if tx_hash_text resource \<and> sc_chain sc = sp_chain s then Inr (py_lower resource)
      else Inl (Casework ''BASE_RESOURCE_SCOPE_INVALID'' 403))"

definition rpc_call :: "string \<Rightarrow> json list \<Rightarrow> json" where
  "rpc_call verb args = JObj [(''jsonrpc'', JStr ''2.0''), (''id'', JInt 1), (''method'', JStr verb), (''params'', JList args)]"

definition source_rpc :: "env \<Rightarrow> net \<Rightarrow> source_spec \<Rightarrow> nat \<Rightarrow> string \<Rightarrow> json list \<Rightarrow> json res" where
  "source_rpc E N s n verb args =
     ebind (http_json E N n ''POST'' (case sp_rpc_url s of None \<Rightarrow> [] | Some u \<Rightarrow> u) [] (rpc_call verb args)) (\<lambda>(body, _).
     ebind (check (\<not> truthy (jget body ''error'') \<and> py_eq (jget body ''id'') (JInt 1) \<and> jget body ''jsonrpc'' = JStr ''2.0'')
       (Casework ''SOURCE_RPC_FAILURE'' 502)) (\<lambda>_. Inr (jget body ''result'')))"

text \<open>\<^verbatim>\<open>d.get(k, "").lower()\<close>.\<close>

definition low_field :: "env \<Rightarrow> jobj \<Rightarrow> string \<Rightarrow> string res" where
  "low_field E d k = (case jget_or d k (JStr []) of JStr s \<Rightarrow> Inr (uni_lower E s) | _ \<Rightarrow> Inl (PyExc ''AttributeError''))"

abbreviation unbound :: err where
  "unbound \<equiv> Casework ''SOURCE_TRANSACTION_BINDING_FAILED'' 502"

text \<open>The tests are made in this order; the first that fails ends them.\<close>

definition bound_transaction :: "env \<Rightarrow> scope \<Rightarrow> string \<Rightarrow> json \<Rightarrow> json \<Rightarrow> (jobj \<times> jobj) res" where
  "bound_transaction E sc txid tx receipt =
     (case (tx, receipt) of
       (JObj t, JObj r) \<Rightarrow>
         ebind (low_field E t ''hash'') (\<lambda>h. ebind (check (h = txid) unbound) (\<lambda>_.
         ebind (low_field E r ''transactionHash'') (\<lambda>h. ebind (check (h = txid) unbound) (\<lambda>_.
         ebind (low_field E t ''to'') (\<lambda>x. ebind (check (x = sc_target sc) unbound) (\<lambda>_.
         ebind (low_field E r ''to'') (\<lambda>x. ebind (check (x = sc_target sc) unbound) (\<lambda>_.
         ebind (low_field E t ''from'') (\<lambda>x. ebind (low_field E r ''from'') (\<lambda>y. ebind (check (x = y) unbound) (\<lambda>_.
         ebind (check (py_eq (jget t ''blockHash'') (jget r ''blockHash'')) unbound) (\<lambda>_.
         ebind (check (py_eq (jget t ''blockNumber'') (jget r ''blockNumber'')) unbound) (\<lambda>_.
         ebind (as_text (jget_or r ''from'' (JStr []))) (\<lambda>sender. ebind (check (valid_address sender) unbound) (\<lambda>_.
         ebind (as_text (jget_or r ''blockHash'' (JStr []))) (\<lambda>b. ebind (check (tx_hash_text b) unbound) (\<lambda>_.
         Inr (t, r))))))))))))))))))
     | _ \<Rightarrow> Inl unbound)"

text \<open>The block of the receipt, as the node has it, and the head: the number and the two answers.\<close>

definition block_of :: "env \<Rightarrow> net \<Rightarrow> outside \<Rightarrow> source_spec \<Rightarrow> jobj \<Rightarrow> (int \<times> int \<times> json list) res" where
  "block_of E N U s r =
     ebind (jfield r ''blockNumber'') (\<lambda>bn. ebind (int16 U bn) (\<lambda>number.
     ebind (source_rpc E N s 3 ''eth_getBlockByNumber'' [bn, JBool False]) (\<lambda>block.
     ebind (source_rpc E N s 4 ''eth_blockNumber'' []) (\<lambda>head. ebind (int16 U head) (\<lambda>top.
     ebind (check (truthy block) (Casework ''SOURCE_REORG_DETECTED'' 409)) (\<lambda>_.
     ebind (has_get block) (\<lambda>b. ebind (jfield r ''blockHash'') (\<lambda>h.
     ebind (check (py_eq (jget b ''hash'') h) (Casework ''SOURCE_REORG_DETECTED'' 409)) (\<lambda>_.
     ebind (ebind (jfield b ''number'') (int16 U)) (\<lambda>n.
     ebind (check (n = number) (Casework ''SOURCE_REORG_DETECTED'' 409)) (\<lambda>_.
     Inr (number, top - number + 1, [block, head]))))))))))))"

definition base_facts :: "env \<Rightarrow> source_spec \<Rightarrow> scope \<Rightarrow> string \<Rightarrow> jobj \<Rightarrow> int \<Rightarrow> int \<Rightarrow> int \<Rightarrow> int \<Rightarrow> jobj" where
  "base_facts E s sc txid r number confirmations status sent =
     [(''chain_id'', JInt (sp_chain s)), (''tx_hash'', JStr txid), (''to'', JStr (sc_target sc)),
      (''from'', JStr (uni_lower E (jstring (jget r ''from'')))), (''block_number'', JInt number), (''block_hash'', jget r ''blockHash''),
      (''confirmations'', JInt confirmations), (''transaction_succeeded'', JBool (status = 1)), (''value_wei'', JStr (dec_int sent))]"

definition source_envelope :: "jobj \<Rightarrow> string \<Rightarrow> string \<Rightarrow> int \<Rightarrow> string \<Rightarrow> json" where
  "source_envelope facts payload provenance calls boundary = JObj [(''facts'', JObj facts), (''payload_sha256'', JStr payload),
     (''provenance'', JStr provenance), (''external_calls'', JInt calls), (''claim_boundary'', JStr boundary)]"

definition schema_error :: "'a res \<Rightarrow> 'a res" where
  "schema_error m = (case m of Inl (PyExc _) \<Rightarrow> Inl (Casework ''SOURCE_RPC_SCHEMA_INVALID'' 502) | _ \<Rightarrow> m)"

definition base_fetch :: "env \<Rightarrow> net \<Rightarrow> outside \<Rightarrow> source_spec \<Rightarrow> string \<Rightarrow> scope \<Rightarrow> json res" where
  "base_fetch E N U s resource sc =
     ebind (base_resource s resource sc) (\<lambda>txid. schema_error
     (ebind (source_rpc E N s 0 ''eth_chainId'' []) (\<lambda>chain. ebind (int16 U chain) (\<lambda>c.
      ebind (check (c = sp_chain s) (Casework ''SOURCE_CHAIN_MISMATCH'' 502)) (\<lambda>_.
      ebind (source_rpc E N s 1 ''eth_getTransactionReceipt'' [JStr txid]) (\<lambda>receipt.
      ebind (check (receipt \<noteq> JNull) (Casework ''SOURCE_TRANSACTION_PENDING'' 409)) (\<lambda>_.
      ebind (source_rpc E N s 2 ''eth_getTransactionByHash'' [JStr txid]) (\<lambda>tx.
      ebind (bound_transaction E sc txid tx receipt) (\<lambda>(t, r).
      ebind (block_of E N U s r) (\<lambda>(number, confirmations, answers).
      ebind (check (sp_confirmations s \<le> confirmations) (Casework ''SOURCE_CONFIRMATIONS_INSUFFICIENT'' 409)) (\<lambda>_.
      ebind (ebind (jfield r ''status'') (int16 U)) (\<lambda>status.
      ebind (check (status \<in> {0, 1}) (PyExc ''ValueError'')) (\<lambda>_.
      ebind (ebind (jfield t ''value'') (int16 U)) (\<lambda>sent.
      ebind (check (0 \<le> sent) (PyExc ''ValueError'')) (\<lambda>_.
      Inr (source_envelope (base_facts E s sc txid r number confirmations status sent)
        (sha256 E (dumps_sorted (float_repr E) (JList ([chain, receipt, tx] @ answers)))) ''BASE_RPC_OBSERVED'' 5
        ''RPC observation at fetch time; not perpetual finality or business authorization''))))))))))))))))"

section \<open>Issues on GitHub\<close>

definition repo_char :: "char \<Rightarrow> bool" where
  "repo_char c \<longleftrightarrow> is_alnum c \<or> c = CHR ''_'' \<or> c = CHR ''-''"

definition repository_text :: "string \<Rightarrow> bool" where
  "repository_text s \<longleftrightarrow>
     (let owner = takeWhile repo_char s; name = drop (length owner + 1) s in
      owner \<noteq> [] \<and> starts (CHR ''/'') (drop (length owner) s) \<and> name \<noteq> [] \<and> list_all (\<lambda>c. repo_char c \<or> c = CHR ''.'') name)"

definition issue_number_text :: "string \<Rightarrow> bool" where
  "issue_number_text s \<longleftrightarrow> s \<noteq> [] \<and> length s \<le> 10 \<and> list_all is_digit s \<and> hd s \<noteq> CHR ''0''"

text \<open>\<^verbatim>\<open>repository#number\<close>; neither side holds a number sign.\<close>

definition split_resource :: "string \<Rightarrow> string \<times> string" where
  "split_resource s = (let repo = takeWhile (\<lambda>c. c \<noteq> CHR ''#'') s in (repo, drop (length repo + 1) s))"

definition github_resource :: "source_spec \<Rightarrow> string \<Rightarrow> string res" where
  "github_resource s resource = (case split_resource resource of (repo, number) \<Rightarrow>
     if repository_text repo \<and> issue_number_text number \<and> py_lower repo \<in> set (sp_repositories s)
     then Inr (py_lower repo @ ''#'' @ number) else Inl (Casework ''GITHUB_RESOURCE_NOT_ALLOWLISTED'' 403))"

text \<open>An aware time, or an exception that the caller renames.\<close>

definition aware_time :: "env \<Rightarrow> json \<Rightarrow> int res" where
  "aware_time E v = (case v of
     JStr s \<Rightarrow> (case parse_time E (z_to_offset s) of Some (t, True) \<Rightarrow> Inr t | _ \<Rightarrow> Inl (PyExc ''ValueError''))
   | _ \<Rightarrow> Inl (PyExc ''AttributeError''))"

definition renamed :: "err \<Rightarrow> 'a res \<Rightarrow> 'a res" where
  "renamed e m = (case m of Inl _ \<Rightarrow> Inl e | Inr x \<Rightarrow> Inr x)"

definition issue_identity :: "env \<Rightarrow> string \<Rightarrow> string \<Rightarrow> jobj \<Rightarrow> unit res" where
  "issue_identity E url number data =
     ebind (low_field E data ''url'') (\<lambda>u.
     ebind (check (u = url \<and> jget data ''number'' = JInt (int (read_dec number)) \<and> map_of data ''pull_request'' = None)
       (Casework ''GITHUB_ISSUE_IDENTITY_INVALID'' 502)) (\<lambda>_.
     case jget data ''state'' of
       JList _ \<Rightarrow> Inl (PyExc ''TypeError'') | JObj _ \<Rightarrow> Inl (PyExc ''TypeError'')
     | st \<Rightarrow> check (st \<in> {JStr ''open'', JStr ''closed''}) (Casework ''GITHUB_ISSUE_IDENTITY_INVALID'' 502)))"

definition issue_updated :: "env \<Rightarrow> int \<Rightarrow> jobj \<Rightarrow> int res" where
  "issue_updated E asked data = renamed (Casework ''SOURCE_TIMESTAMP_INVALID'' 502)
     (ebind (ebind (jfield data ''updated_at'') (aware_time E)) (\<lambda>t.
      ebind (check (t \<le> asked - asked mod 1000000 + seconds 300) (PyExc ''ValueError'')) (\<lambda>_. Inr t)))"

definition free_text :: "json \<Rightarrow> bool" where
  "free_text v \<longleftrightarrow> (case v of JNull \<Rightarrow> True | JStr s \<Rightarrow> True | _ \<Rightarrow> False)"

definition issue_closed :: "env \<Rightarrow> int \<Rightarrow> jobj \<Rightarrow> json res" where
  "issue_closed E updated data = renamed (Casework ''SOURCE_SCHEMA_INVALID'' 502)
     (ebind (if jget data ''closed_at'' = JNull then Inr JNull else
        ebind (aware_time E (jget data ''closed_at'')) (\<lambda>t.
        ebind (check (t \<le> updated) (PyExc ''ValueError'')) (\<lambda>_. Inr (JStr (iso_time E t))))) (\<lambda>closed.
      ebind (check (free_text (jget data ''title'') \<and> free_text (jget data ''body'')) (PyExc ''ValueError'')) (\<lambda>_. Inr closed)))"

text \<open>\<open>environ\<close> reads the token the configuration names.\<close>

definition github_headers :: "(string \<Rightarrow> string) \<Rightarrow> source_spec \<Rightarrow> jobj res" where
  "github_headers environ s =
     (let headers = [(''Accept'', JStr ''application/vnd.github+json''), (''X-GitHub-Api-Version'', JStr ''2026-03-10'')] in
      case sp_token_env s of
        Some (n # ns) \<Rightarrow>
          ebind (check (environ (n # ns) \<noteq> []) (Casework ''SOURCE_CREDENTIAL_NOT_CONFIGURED'' 503)) (\<lambda>_.
          Inr (headers @ [(''Authorization'', JStr (''Bearer '' @ environ (n # ns)))]))
      | _ \<Rightarrow> Inr headers)"

definition github_fetch :: "env \<Rightarrow> net \<Rightarrow> (string \<Rightarrow> string) \<Rightarrow> source_spec \<Rightarrow> string \<Rightarrow> int \<Rightarrow> json res" where
  "github_fetch E N environ s resource asked =
     ebind (github_resource s resource) (\<lambda>res. case split_resource res of (repo, number) \<Rightarrow>
     let url = ''https://api.github.com/repos/'' @ repo @ ''/issues/'' @ number in
     ebind (github_headers environ s) (\<lambda>headers.
     ebind (http_json E N 0 ''GET'' url headers JNull) (\<lambda>(data, raw).
     ebind (issue_identity E url number data) (\<lambda>_.
     ebind (issue_updated E asked data) (\<lambda>updated.
     ebind (issue_closed E updated data) (\<lambda>closed.
     Inr (source_envelope [(''repository'', JStr repo), (''issue_number'', JInt (int (read_dec number))), (''state'', jget data ''state''),
         (''updated_at'', JStr (iso_time E updated)), (''closed_at'', closed),
         (''text_digest'', JStr (digest E ''github-untrusted-text'' (JList [jget data ''title'', jget data ''body''])))]
       (sha256 E raw) ''GITHUB_API_OBSERVED'' 1
       ''API snapshot; not fact truth, customer identity or resolution authority'')))))))"

section \<open>The adapters of the desk\<close>

definition source_resource :: "source_spec \<Rightarrow> string \<Rightarrow> scope \<Rightarrow> string res" where
  "source_resource s resource sc =
     (if sp_kind s = ''github_issue'' then github_resource s resource
      else if sp_kind s = ''base_transaction'' then base_resource s resource sc
      else Inl (PyExc ''KeyError''))"

definition source_fetch :: "env \<Rightarrow> net \<Rightarrow> outside \<Rightarrow> (string \<Rightarrow> string) \<Rightarrow> source_spec \<Rightarrow> string \<Rightarrow> scope \<Rightarrow> int \<Rightarrow> json res" where
  "source_fetch E N U environ s resource sc asked =
     (if sp_kind s = ''github_issue'' then github_fetch E N environ s resource asked
      else if sp_kind s = ''base_transaction'' then base_fetch E N U s resource sc
      else Inl (PyExc ''KeyError''))"

section \<open>The envelope\<close>

definition envelope_keys :: "string set" where
  "envelope_keys = {''facts'', ''payload_sha256'', ''provenance'', ''external_calls'', ''claim_boundary''}"

definition short_text :: "nat \<Rightarrow> json \<Rightarrow> bool" where
  "short_text n v = (case v of JStr s \<Rightarrow> py_len s \<le> n | _ \<Rightarrow> False)"

definition envelope_valid :: "jobj \<Rightarrow> bool" where
  "envelope_valid d \<longleftrightarrow> set (keys d) = envelope_keys \<and>
     (case jget d ''facts'' of JObj f \<Rightarrow> length f \<le> 64 | _ \<Rightarrow> False) \<and>
     (case jget d ''payload_sha256'' of JStr h \<Rightarrow> valid_digest h | _ \<Rightarrow> False) \<and>
     (case jget d ''external_calls'' of JInt i \<Rightarrow> 1 \<le> i \<and> i \<le> 32 | _ \<Rightarrow> False) \<and>
     short_text 96 (jget d ''provenance'') \<and> short_text 1000 (jget d ''claim_boundary'')"

abbreviation bad_envelope :: err where
  "bad_envelope \<equiv> Casework ''SOURCE_ENVELOPE_INVALID'' 502"

definition bounded_observation :: "env \<Rightarrow> json \<Rightarrow> jobj res" where
  "bounded_observation E v = (case v of
     JObj d \<Rightarrow>
       ebind (check (envelope_valid d) bad_envelope) (\<lambda>_.
       ebind (check (finite_floats v) bad_envelope) (\<lambda>_.
       ebind (renamed bad_envelope (strict_json (float_text E) 64000 (wide (float_repr E) v))) (\<lambda>x.
       case x of JObj e \<Rightarrow> Inr e | _ \<Rightarrow> Inl bad_envelope)))
   | _ \<Rightarrow> Inl bad_envelope)"

end
