(* ===== verification/Cw_Collect.thy ===== *)
theory Cw_Collect
  imports Cw_Anchoring Cw_Sources
begin

text \<open>
  Collecting evidence (\<^verbatim>\<open>EvidenceDesk.collect\<close> in \<^verbatim>\<open>source_service.py\<close>). A read of an external source is
  reserved in one transaction, made outside every transaction, and recorded in a last one; a
  reservation that is replayed is never sent again. Each transaction is a function of the workspace
  it loads.
\<close>

section \<open>The source that may be read\<close>

record collect_command = command +
  lc_source :: string
  lc_resource :: string
  lc_force :: bool

definition valid_collect :: "collect_command \<Rightarrow> bool" where
  "valid_collect c \<longleftrightarrow> valid_command (command.truncate c) \<and> valid_identifier (lc_source c) \<and> 1 \<le> py_len (lc_resource c) \<and> py_len (lc_resource c) \<le> 240"

definition allowed_spec :: "desk \<Rightarrow> actor \<Rightarrow> string \<Rightarrow> scope \<Rightarrow> source_spec res" where
  "allowed_spec D a i sc = (case spec_of D i of
     None \<Rightarrow> Inl (Casework ''SOURCE_NOT_ALLOWED'' 403)
   | Some s \<Rightarrow>
       ebind (check (sp_tenant s = ac_tenant a \<and> sc_subject sc \<in> set (ac_subjects a) \<and> sc_subject sc \<in> set (sp_subjects s))
         (Casework ''SOURCE_NOT_ALLOWED'' 403)) (\<lambda>_. Inr s))"

text \<open>The source and the normalized resource, for the case as the first transaction found it.\<close>

definition read_target :: "desk \<Rightarrow> actor \<Rightarrow> string \<Rightarrow> string \<Rightarrow> scope \<Rightarrow> (source_spec \<times> string) res" where
  "read_target D a source resource sc =
     ebind (allowed_spec D a source sc) (\<lambda>s. ebind (source_resource s resource sc) (\<lambda>res. Inr (s, res)))"

text \<open>The desk of the running service (\<^verbatim>\<open>integration_component\<close> in \<^verbatim>\<open>runtime.py\<close>).\<close>

definition desk_of :: "service \<Rightarrow> desk res" where
  "desk_of S = (case sv_desk S of None \<Rightarrow> Inl (Casework ''CONNECTORS_NOT_READY'' 503) | Some D \<Rightarrow> Inr D)"

definition found_case :: "env \<Rightarrow> actor \<Rightarrow> string \<Rightarrow> workspace option \<Rightarrow> risk_case res" where
  "found_case E a i loaded = in_tx (ebind (opened E False (ac_tenant a) loaded) (\<lambda>w. find_case w a i))"

definition fetch_id :: "env \<Rightarrow> string \<Rightarrow> string \<Rightarrow> string \<Rightarrow> string" where
  "fetch_id E tenant actor_id key = ''fetch_'' @ take 32 (digest E ''fetch-id'' (jstrs [tenant, actor_id, key]))"

definition spec_hash :: "env \<Rightarrow> source_spec \<Rightarrow> string" where
  "spec_hash E s = digest E ''source-spec'' (spec_json s)"

section \<open>The reservation\<close>

fun cached_receipt :: "string \<Rightarrow> string \<Rightarrow> jobj list \<Rightarrow> jobj option res" where
  "cached_receipt source resource [] = Inr None"
| "cached_receipt source resource (r # rs) =
     ebind (jfield r ''source_id'') (\<lambda>s.
     if s \<noteq> JStr source then cached_receipt source resource rs
     else ebind (jfield r ''resource'') (\<lambda>x. if x = JStr resource then Inr (Some r) else cached_receipt source resource rs))"

definition source_request :: "string \<Rightarrow> string \<Rightarrow> jobj \<Rightarrow> bool" where
  "source_request case_id source a \<longleftrightarrow> jget a ''kind'' = JStr ''SOURCE_REQUEST'' \<and> jget a ''case_id'' = JStr case_id \<and>
     jget a ''source_id'' = JStr source"

definition attempts_made :: "workspace \<Rightarrow> string \<Rightarrow> string \<Rightarrow> nat" where
  "attempts_made w case_id source = length (filter (source_request case_id source) (map snd (ws_artifacts w)))"

definition request_item :: "env \<Rightarrow> actor \<Rightarrow> string \<Rightarrow> risk_case \<Rightarrow> source_spec \<Rightarrow> string \<Rightarrow> string \<Rightarrow> int \<Rightarrow> jobj" where
  "request_item E a i k s resource request_id now = [(''kind'', JStr ''SOURCE_REQUEST''), (''request_id'', JStr request_id),
     (''case_id'', JStr i), (''case_version'', JInt (rc_version k)), (''source_id'', JStr (sp_id s)),
     (''source_spec_hash'', JStr (spec_hash E s)), (''resource'', JStr resource), (''state'', JStr ''PENDING''),
     (''reserved_at'', JStr (iso_time E now)), (''actor_id'', JStr (ac_id a))]"

definition head_item :: "string \<Rightarrow> risk_case \<Rightarrow> source_spec \<Rightarrow> string \<Rightarrow> jobj" where
  "head_item i k s request_id = [(''kind'', JStr ''SOURCE_HEAD''), (''case_id'', JStr i), (''case_version'', JInt (rc_version k)),
     (''source_id'', JStr (sp_id s)), (''request_id'', JStr request_id), (''state'', JStr ''PENDING'')]"

text \<open>\<open>k\<close> is the case of the first transaction.\<close>

definition reserve_read_change :: "env \<Rightarrow> desk \<Rightarrow> actor \<Rightarrow> collect_command \<Rightarrow> string \<Rightarrow> risk_case \<Rightarrow> source_spec \<Rightarrow> string
    \<Rightarrow> run \<Rightarrow> mutation"
where
  "reserve_read_change E D a c i k s resource R w seq =
     (let request_id = fetch_id E (ac_tenant a) (ac_id a) (cm_key c) in
      ebind (find_case w a i) (\<lambda>k'.
      ebind (check (rc_status k' = OPEN \<and> rc_version k' = rc_version k) (Casework ''SOURCE_CASE_CHANGED'' 409)) (\<lambda>_.
      ebind (desk_remember E (Some D) w k' [sp_id s]) (\<lambda>w1.
      ebind (current_receipts E D w1 i (rn_clock R 40)) (\<lambda>(receipts, _).
      ebind (cached_receipt (sp_id s) resource receipts) (\<lambda>cached.
      case (if lc_force c then None else cached) of
        Some r \<Rightarrow> Inr (w1, [(''request_id'', JStr request_id), (''state'', JStr ''CACHE_HIT''), (''receipt'', JObj r),
                          (''external_calls'', JInt 0), (''memory_saved_fetch'', JBool True)])
      | None \<Rightarrow>
          ebind (check (int (attempts_made w1 i (sp_id s)) < sp_attempts s) (Casework ''SOURCE_READ_BUDGET_EXHAUSTED'' 429)) (\<lambda>_.
          Inr (w1\<lparr>ws_artifacts := dset (source_key E i (sp_id s)) (head_item i k' s request_id)
                 (dset request_id (request_item E a i k' s resource request_id (rn_clock R 41)) (ws_artifacts w1))\<rparr>,
               [(''request_id'', JStr request_id), (''state'', JStr ''PENDING''), (''external_calls'', JInt 0)]))))))))"

definition read_payload :: "string \<Rightarrow> source_spec \<Rightarrow> string \<Rightarrow> bool \<Rightarrow> jobj" where
  "read_payload i s resource force = [(''case_id'', JStr i), (''source_id'', JStr (sp_id s)), (''resource'', JStr resource),
     (''force_refresh'', JBool force)]"

definition reserve_read :: "env \<Rightarrow> service \<Rightarrow> actor \<Rightarrow> collect_command \<Rightarrow> string \<Rightarrow> risk_case \<Rightarrow> handler" where
  "reserve_read E S a c i k R loaded =
     ebind (authorize a operators None) (\<lambda>_.
     ebind (desk_of S) (\<lambda>D.
     ebind (read_target D a (lc_source c) (lc_resource c) (rc_scope k)) (\<lambda>(s, resource).
     mutate E a c ''source.reserve'' (read_payload i s resource (lc_force c)) (reserve_read_change E D a c i k s resource R)
       False None R loaded)))"

section \<open>The record\<close>

text \<open>What the adapter answered: an error code, or the observation.\<close>

definition read_result :: "env \<Rightarrow> json res \<Rightarrow> string + jobj" where
  "read_result E answer = (case ebind answer (bounded_observation E) of
     Inl (Casework code _) \<Rightarrow> Inl code
   | Inl (PyExc _) \<Rightarrow> Inl ''SOURCE_READ_FAILED''
   | Inr d \<Rightarrow> Inr d)"

definition result_json :: "string + jobj \<Rightarrow> json list" where
  "result_json got = (case got of Inl e \<Rightarrow> [JNull, JStr e] | Inr d \<Rightarrow> [JObj d, JNull])"

definition new_receipt :: "env \<Rightarrow> string \<Rightarrow> risk_case \<Rightarrow> source_spec \<Rightarrow> string \<Rightarrow> string \<Rightarrow> int \<Rightarrow> jobj \<Rightarrow> jobj" where
  "new_receipt E i k s resource receipt_id finished observed =
     (let body = dunion (dunion [(''kind'', JStr ''SOURCE_RECEIPT''), (''receipt_id'', JStr receipt_id), (''case_id'', JStr i),
            (''case_version'', JInt (rc_version k)), (''source_id'', JStr (sp_id s)), (''source_spec_hash'', JStr (spec_hash E s)),
            (''independence_group'', JStr (sp_group s)), (''resource'', JStr resource), (''fetched_at'', JStr (iso_time E finished)),
            (''expires_at'', JStr (iso_time E (finished + seconds (sp_ttl s))))] observed)
          [(''authoritative'', JBool False), (''executable'', JBool False)]
      in dset ''receipt_root'' (JStr (digest E ''source-receipt'' (JObj body))) body)"

text \<open>The reserved record after the read; a case that changed meanwhile makes it stale.\<close>

definition finished_state :: "bool \<Rightarrow> string + jobj \<Rightarrow> string" where
  "finished_state stale got = (if stale then ''STALE'' else case got of Inl _ \<Rightarrow> ''FAILED'' | Inr _ \<Rightarrow> ''OBSERVED'')"

definition finished_item :: "env \<Rightarrow> string \<Rightarrow> int \<Rightarrow> string + jobj \<Rightarrow> string \<Rightarrow> jobj \<Rightarrow> jobj" where
  "finished_item E st finished got receipt_id item =
     (let p = dset ''error'' (case got of Inl e \<Rightarrow> JStr e | Inr _ \<Rightarrow> JNull)
          (dset ''finished_at'' (JStr (iso_time E finished)) (dset ''state'' (JStr st) item))
      in case got of Inl _ \<Rightarrow> p | Inr _ \<Rightarrow> dset ''receipt_id'' (JStr receipt_id) p)"

definition finished_head :: "string \<Rightarrow> string + jobj \<Rightarrow> string \<Rightarrow> jobj \<Rightarrow> jobj" where
  "finished_head st got receipt_id head =
     (let h = dset ''state'' (JStr st) head in case got of Inl _ \<Rightarrow> h | Inr _ \<Rightarrow> dset ''receipt_id'' (JStr receipt_id) h)"

definition finish_read_change :: "env \<Rightarrow> actor \<Rightarrow> string \<Rightarrow> risk_case \<Rightarrow> source_spec \<Rightarrow> string \<Rightarrow> string \<Rightarrow> string + jobj \<Rightarrow> int
    \<Rightarrow> run \<Rightarrow> mutation"
where
  "finish_read_change E a i k s resource request_id got finished R w seq =
     (case map_of (ws_artifacts w) request_id of
        None \<Rightarrow> Inl (Casework ''SOURCE_REQUEST_NOT_PENDING'' 409)
      | Some item \<Rightarrow>
          ebind (jfield item ''state'') (\<lambda>st0.
          ebind (check (st0 = JStr ''PENDING'') (Casework ''SOURCE_REQUEST_NOT_PENDING'' 409)) (\<lambda>_.
          ebind (find_case w a i) (\<lambda>k'.
          let key = source_key E i (sp_id s);
              head = (case map_of (ws_artifacts w) key of None \<Rightarrow> [] | Some h \<Rightarrow> h);
              mine = (jget head ''request_id'' = JStr request_id);
              st = finished_state (rc_version k' \<noteq> rc_version k \<or> rc_status k' \<noteq> OPEN \<or> \<not> mine) got;
              receipt_id = new_id ''source'' (rn_uuid R 10);
              receipt = (case got of Inl _ \<Rightarrow> None | Inr d \<Rightarrow> Some (new_receipt E i k s resource receipt_id finished d));
              arts1 = dset request_id (finished_item E st finished got receipt_id item) (ws_artifacts w);
              arts2 = (case receipt of None \<Rightarrow> arts1 | Some r \<Rightarrow> dset receipt_id r arts1);
              arts3 = (if mine then dset key (finished_head st got receipt_id head) arts2 else arts2)
          in ebind (case got of Inl _ \<Rightarrow> Inr JNull | Inr d \<Rightarrow> jfield d ''external_calls'') (\<lambda>calls.
             Inr (w\<lparr>ws_artifacts := arts3\<rparr>,
               [(''request_id'', JStr request_id), (''state'', JStr st), (''error'', case got of Inl e \<Rightarrow> JStr e | Inr _ \<Rightarrow> JNull),
                (''receipt'', jopt JObj receipt), (''external_calls'', calls), (''no_external_retry'', JBool True)]))))))"

definition done_command :: "'c command_scheme \<Rightarrow> string \<Rightarrow> int \<Rightarrow> command" where
  "done_command c request_id revision = \<lparr>cm_key = ''done_'' @ drop 6 request_id, cm_session = cm_session c, cm_revision = revision\<rparr>"

definition finish_payload :: "env \<Rightarrow> string \<Rightarrow> string \<Rightarrow> string + jobj \<Rightarrow> jobj" where
  "finish_payload E i request_id got = [(''case_id'', JStr i), (''request_id'', JStr request_id),
     (''result_digest'', JStr (digest E ''source-result'' (JList (result_json got))))]"

text \<open>\<open>revision\<close> is the one a transaction just before found.\<close>

definition finish_read :: "env \<Rightarrow> service \<Rightarrow> actor \<Rightarrow> collect_command \<Rightarrow> string \<Rightarrow> risk_case \<Rightarrow> json res \<Rightarrow> int \<Rightarrow> int \<Rightarrow> handler" where
  "finish_read E S a c i k answer finished revision R loaded =
     (let request_id = fetch_id E (ac_tenant a) (ac_id a) (cm_key c); got = read_result E answer in
      ebind (desk_of S) (\<lambda>D.
      ebind (read_target D a (lc_source c) (lc_resource c) (rc_scope k)) (\<lambda>(s, resource).
      mutate E a (done_command c request_id revision) ''source.finish'' (finish_payload E i request_id got)
        (finish_read_change E a i k s resource request_id got finished R) False None R loaded)))"

section \<open>A replayed reservation\<close>

text \<open>\<^verbatim>\<open>d.get(k)\<close> for a key of any type.\<close>

definition by_key :: "'v dict \<Rightarrow> json \<Rightarrow> 'v option res" where
  "by_key d k = (case k of JStr s \<Rightarrow> Inr (map_of d s) | JList _ \<Rightarrow> Inl (PyExc ''TypeError'') | JObj _ \<Rightarrow> Inl (PyExc ''TypeError'')
     | _ \<Rightarrow> Inr None)"

definition replayed_read :: "env \<Rightarrow> actor \<Rightarrow> string \<Rightarrow> string \<Rightarrow> workspace option \<Rightarrow> jobj res" where
  "replayed_read E a i request_id loaded = in_tx
     (ebind (opened E False (ac_tenant a) loaded) (\<lambda>w.
      ebind (find_case w a i) (\<lambda>_.
      ebind (field_of (ws_artifacts w) request_id) (\<lambda>item.
      ebind (by_key (ws_artifacts w) (jget_or item ''receipt_id'' (JStr []))) (\<lambda>receipt.
      Inr [(''request'', JObj item), (''receipt'', jopt JObj receipt), (''replayed'', JBool True), (''historical_only'', JBool True),
        (''revision'', JInt (ws_revision w)), (''executable'', JBool False)])))))"

end
