(* ===== verification/Cw_Mission.thy ===== *)
theory Cw_Mission
  imports Cw_Collect
begin

text \<open>
  Evidence missions (\<^verbatim>\<open>EvidenceDesk.mission\<close> and \<^verbatim>\<open>resume_mission\<close> in \<^verbatim>\<open>source_service.py\<close>): the two
  transactions of their own, the plan and the resume signal, and the checks between the steps. The
  steps themselves are composed in \<^verbatim>\<open>Cw_Programs\<close>.
\<close>

section \<open>The plan\<close>

record source_query =
  sq_source :: string
  sq_resource :: string

record mission_command = command +
  mi_queries :: "source_query list"
  mi_reviewer :: "string option"

definition valid_mission :: "mission_command \<Rightarrow> bool" where
  "valid_mission c \<longleftrightarrow> valid_command (command.truncate c) \<and> 1 \<le> length (mi_queries c) \<and> length (mi_queries c) \<le> 4 \<and>
     list_all (\<lambda>q. valid_identifier (sq_source q) \<and> 1 \<le> py_len (sq_resource q) \<and> py_len (sq_resource q) \<le> 240) (mi_queries c) \<and>
     (case mi_reviewer c of None \<Rightarrow> True | Some r \<Rightarrow> valid_identifier r)"

definition query_json :: "source_query \<Rightarrow> json" where
  "query_json q = JObj [(''source_id'', JStr (sq_source q)), (''resource'', JStr (sq_resource q))]"

definition mission_key :: "env \<Rightarrow> string \<Rightarrow> json \<Rightarrow> string" where
  "mission_key E label v = ''mission_'' @ take 40 (digest E label v)"

definition mission_id :: "env \<Rightarrow> actor \<Rightarrow> mission_command \<Rightarrow> string" where
  "mission_id E a c = mission_key E ''mission-id'' (jstrs [ac_tenant a, ac_id a, cm_key c])"

definition planned_source :: "env \<Rightarrow> desk \<Rightarrow> actor \<Rightarrow> scope \<Rightarrow> source_query \<Rightarrow> (string \<times> string) res" where
  "planned_source E D a sc q =
     ebind (read_target D a (sq_source q) (sq_resource q) sc) (\<lambda>(s, _). Inr (sp_id s, spec_hash E s))"

definition mission_reviewer_ok :: "service \<Rightarrow> actor \<Rightarrow> risk_case \<Rightarrow> string option \<Rightarrow> bool" where
  "mission_reviewer_ok S a k reviewer = (case reviewer of None \<Rightarrow> True | Some r \<Rightarrow> r = [] \<or>
     (case map_of (sv_actors S) r of None \<Rightarrow> False
      | Some v \<Rightarrow> ac_id v \<notin> {ac_id a, rc_opened_by k} \<and> ac_tenant v = ac_tenant a \<and> ac_role v = Reviewer \<and>
          sc_subject (rc_scope k) \<in> set (ac_subjects v)))"

definition mission_record :: "env \<Rightarrow> actor \<Rightarrow> mission_command \<Rightarrow> string \<Rightarrow> risk_case \<Rightarrow> (string \<times> string) list \<Rightarrow> int \<Rightarrow> jobj" where
  "mission_record E a c i k hashes seq = [(''kind'', JStr ''EVIDENCE_MISSION''), (''mission_id'', JStr (mission_id E a c)),
     (''origin_session_id'', JStr (cm_session c)), (''origin_idempotency_key'', JStr (cm_key c)), (''case_id'', JStr i),
     (''case_version'', JInt (rc_version k)), (''created_seq'', JInt seq), (''planned_queries'', JList (map query_json (mi_queries c))),
     (''reviewer_id'', jopt JStr (mi_reviewer c)), (''source_policy_hashes'', JObj (map (\<lambda>(s, h). (s, JStr h)) hashes)),
     (''operator_id'', JStr (ac_id a)), (''executable'', JBool False), (''resolution_performed'', JBool False)]"

definition plan_mission_change :: "env \<Rightarrow> service \<Rightarrow> desk \<Rightarrow> actor \<Rightarrow> mission_command \<Rightarrow> string \<Rightarrow> mutation" where
  "plan_mission_change E S D a c i w seq =
     ebind (find_case w a i) (\<lambda>k.
     ebind (check (rc_status k = OPEN) (Casework ''CASE_NOT_OPEN'' 409)) (\<lambda>_.
     ebind (emap (planned_source E D a (rc_scope k)) (mi_queries c)) (\<lambda>hashes.
     ebind (check (mission_reviewer_ok S a k (mi_reviewer c)) (Casework ''MISSION_REVIEWER_NOT_ALLOWED'' 403)) (\<lambda>_.
     ebind (desk_remember E (Some D) w k (map fst hashes)) (\<lambda>w1.
     let m = mission_record E a c i k hashes seq in
     Inr (w1\<lparr>ws_artifacts := dset (mission_id E a c) m (ws_artifacts w1)\<rparr>, [(''mission'', JObj m)]))))))"

definition mission_payload :: "string \<Rightarrow> mission_command \<Rightarrow> jobj" where
  "mission_payload i c = [(''case_id'', JStr i), (''queries'', JList (map query_json (mi_queries c))),
     (''reviewer_id'', jopt JStr (mi_reviewer c))]"

definition plan_mission :: "env \<Rightarrow> service \<Rightarrow> actor \<Rightarrow> mission_command \<Rightarrow> string \<Rightarrow> handler" where
  "plan_mission E S a c i R loaded =
     ebind (authorize a {Investigator} None) (\<lambda>_.
     ebind (desk_of S) (\<lambda>D.
     ebind (check (distinct (map sq_source (mi_queries c))) (Casework ''MISSION_DUPLICATE_SOURCE'' 422)) (\<lambda>_.
     mutate E a c ''mission.plan'' (mission_payload i c) (plan_mission_change E S D a c i) False None R loaded)))"

section \<open>Between the steps\<close>

definition stored_mission :: "workspace \<Rightarrow> string \<Rightarrow> jobj res" where
  "stored_mission w m = (case map_of (ws_artifacts w) m of
     None \<Rightarrow> Inl (Casework ''MISSION_NOT_FOUND'' 404)
   | Some r \<Rightarrow> ebind (check (jget r ''kind'' = JStr ''EVIDENCE_MISSION'') (Casework ''MISSION_NOT_FOUND'' 404)) (\<lambda>_. Inr r))"

definition policy_unchanged :: "env \<Rightarrow> desk \<Rightarrow> actor \<Rightarrow> scope \<Rightarrow> string \<times> json \<Rightarrow> unit res" where
  "policy_unchanged E D a sc = (\<lambda>(source, h). ebind (allowed_spec D a source sc) (\<lambda>s.
     check (h = JStr (spec_hash E s)) (Casework ''MISSION_SOURCE_POLICY_CHANGED'' 409)))"

text \<open>The planned mission still fits the case and the configuration; the revision found.\<close>

definition mission_ready :: "env \<Rightarrow> desk \<Rightarrow> actor \<Rightarrow> string \<Rightarrow> string \<Rightarrow> workspace option \<Rightarrow> int res" where
  "mission_ready E D a i m loaded = in_tx
     (ebind (opened E False (ac_tenant a) loaded) (\<lambda>w.
      ebind (find_case w a i) (\<lambda>k.
      ebind (field_of (ws_artifacts w) m) (\<lambda>r.
      ebind (check (rc_status k = OPEN) (Casework ''MISSION_CASE_CHANGED'' 409)) (\<lambda>_.
      ebind (jfield r ''case_version'') (\<lambda>v.
      ebind (check (py_eq v (JInt (rc_version k))) (Casework ''MISSION_CASE_CHANGED'' 409)) (\<lambda>_.
      ebind (ebind (jfield r ''source_policy_hashes'') has_get) (\<lambda>hashes.
      ebind (emap (policy_unchanged E D a (rc_scope k)) hashes) (\<lambda>_. Inr (ws_revision w))))))))))"

definition sources_current :: "env \<Rightarrow> desk \<Rightarrow> actor \<Rightarrow> mission_command \<Rightarrow> string \<Rightarrow> int \<Rightarrow> workspace option \<Rightarrow> bool res" where
  "sources_current E D a c i now loaded = in_tx
     (ebind (opened E False (ac_tenant a) loaded) (\<lambda>w.
      ebind (current_receipts E D w i now) (\<lambda>(receipts, _).
      ebind (emap (\<lambda>r. jfield r ''source_id'') receipts) (\<lambda>ids.
      Inr (\<forall>q \<in> set (mi_queries c). JStr (sq_source q) \<in> set ids)))))"

text \<open>Whether the report of the investigation is still the one to hand over.\<close>

definition report_still_valid :: "env \<Rightarrow> service \<Rightarrow> actor \<Rightarrow> string \<Rightarrow> string \<Rightarrow> run \<Rightarrow> workspace option \<Rightarrow> bool res" where
  "report_still_valid E S a i r R loaded = in_tx
     (ebind (opened E False (ac_tenant a) loaded) (\<lambda>w.
      ebind (find_case w a i) (\<lambda>k.
      case valid_report E S w k r R of
        Inr _ \<Rightarrow> Inr True | Inl (Casework _ _) \<Rightarrow> Inr False | Inl e \<Rightarrow> Inl e)))"

section \<open>Resuming\<close>

text \<open>The record to resume, with the identity of the original request.\<close>

definition resumable :: "env \<Rightarrow> actor \<Rightarrow> string \<Rightarrow> workspace option \<Rightarrow> (jobj \<times> string) res" where
  "resumable E a m loaded = in_tx
     (ebind (opened E False (ac_tenant a) loaded) (\<lambda>w.
      ebind (stored_mission w m) (\<lambda>r.
      ebind (jfield r ''case_id'') (\<lambda>i.
      ebind (find_case w a (jstring i)) (\<lambda>_.
      ebind (jfield r ''operator_id'') (\<lambda>op.
      ebind (check (op = JStr (ac_id a)) (Casework ''MISSION_OWNER_MISMATCH'' 403)) (\<lambda>_.
      ebind (check (truthy (jget r ''origin_idempotency_key'') \<and> truthy (jget r ''origin_session_id''))
        (Casework ''LEGACY_MISSION_REQUIRES_NEW_PLAN'' 409)) (\<lambda>_. Inr (r, jstring i)))))))))"

definition resume_change :: "actor \<Rightarrow> 'c command_scheme \<Rightarrow> string \<Rightarrow> jobj \<Rightarrow> string \<Rightarrow> mutation" where
  "resume_change a c m r i w seq =
     ebind (check (case map_of (ws_artifacts w) m of None \<Rightarrow> False | Some live \<Rightarrow> py_eq (JObj live) (JObj r))
       (Casework ''MISSION_PLAN_CHANGED'' 409)) (\<lambda>_.
     ebind (find_case w a i) (\<lambda>k.
     ebind (check (rc_status k = OPEN) (Casework ''MISSION_CASE_CHANGED'' 409)) (\<lambda>_.
     ebind (jfield r ''case_version'') (\<lambda>v.
     ebind (check (py_eq v (JInt (rc_version k))) (Casework ''MISSION_CASE_CHANGED'' 409)) (\<lambda>_.
     Inr (w, [(''mission_id'', JStr m), (''resume_signal_recorded'', JBool True),
        (''session_changed'', JBool (jget r ''origin_session_id'' \<noteq> JStr (cm_session c))), (''no_restart_claim'', JBool True)]))))))"

definition resume_signal :: "env \<Rightarrow> actor \<Rightarrow> 'c command_scheme \<Rightarrow> string \<Rightarrow> jobj \<Rightarrow> string \<Rightarrow> handler" where
  "resume_signal E a c m r i R loaded =
     ebind (authorize a {Investigator} None) (\<lambda>_.
     mutate E a c ''mission.resume'' [(''case_id'', JStr i), (''mission_id'', JStr m)] (resume_change a c m r i) False None R loaded)"

text \<open>The original command, rebuilt from the record.\<close>

definition query_of :: "json \<Rightarrow> source_query option" where
  "query_of v = (case v of JObj d \<Rightarrow>
       (case (jget d ''source_id'', jget d ''resource'') of (JStr s, JStr x) \<Rightarrow> Some \<lparr>sq_source = s, sq_resource = x\<rparr> | _ \<Rightarrow> None)
     | _ \<Rightarrow> None)"

definition original_command :: "jobj \<Rightarrow> int \<Rightarrow> mission_command res" where
  "original_command r revision =
     (case (jget r ''origin_session_id'', jget r ''origin_idempotency_key'', jget r ''planned_queries'') of
       (JStr session, JStr key, JList qs) \<Rightarrow>
         ebind (emap (\<lambda>q. case query_of q of None \<Rightarrow> Inl (PyExc ''ValidationError'') | Some x \<Rightarrow> Inr x) qs) (\<lambda>queries.
         let c = \<lparr>cm_key = key, cm_session = session, cm_revision = revision, mi_queries = queries,
                  mi_reviewer = (case jget r ''reviewer_id'' of JStr v \<Rightarrow> Some v | _ \<Rightarrow> None)\<rparr> in
         ebind (check (valid_mission c \<and> jget r ''reviewer_id'' \<in> {JNull, jopt JStr (mi_reviewer c)}) (PyExc ''ValidationError'')) (\<lambda>_.
         Inr c))
     | _ \<Rightarrow> Inl (PyExc ''ValidationError''))"

end
