(* ===== verification/Cw_Partner.thy ===== *)
theory Cw_Partner
  imports Cw_Collect
begin

text \<open>
  Reviews by an external partner: the check of a job history of the ACP command line client
  (\<^verbatim>\<open>ACPHistoryReader.history\<close> in \<^verbatim>\<open>connectors/virtuals_cli.py\<close>), and the plans that a history is
  recorded in (\<^verbatim>\<open>PartnerReviewService\<close> in \<^verbatim>\<open>partner_review.py\<close>). The answer of the client is an argument.
\<close>

section \<open>The history of a job\<close>

definition job_id_text :: "string \<Rightarrow> bool" where
  "job_id_text s \<longleftrightarrow> s \<noteq> [] \<and> length s \<le> 30 \<and> list_all is_digit s \<and> hd s \<noteq> CHR ''0''"

text \<open>\<^verbatim>\<open>str(v) == job_id\<close> for a text of digits: a text or an integer.\<close>

definition shows_as :: "json \<Rightarrow> string \<Rightarrow> bool" where
  "shows_as v s = (case v of JStr t \<Rightarrow> t = s | JInt i \<Rightarrow> dec_int i = s | _ \<Rightarrow> False)"

text \<open>\<^verbatim>\<open>v in {...}\<close> of a set of texts: lists and dictionaries do not hash.\<close>

definition text_in :: "json \<Rightarrow> string list \<Rightarrow> bool res" where
  "text_in v xs = (case v of JStr s \<Rightarrow> Inr (s \<in> set xs) | JList _ \<Rightarrow> Inl (PyExc ''TypeError'') | JObj _ \<Rightarrow> Inl (PyExc ''TypeError'')
     | _ \<Rightarrow> Inr False)"

definition job_states :: "string list" where
  "job_states = [''open'', ''budget_set'', ''funded'', ''submitted'', ''completed'', ''rejected'', ''expired'']"

definition phase_of :: "string dict" where
  "phase_of = [(''job.created'', ''open''), (''budget.set'', ''budget_set''), (''job.funded'', ''funded''),
     (''job.submitted'', ''submitted''), (''job.completed'', ''completed''), (''job.rejected'', ''rejected''), (''job.expired'', ''expired'')]"

abbreviation contract_mismatch :: err where
  "contract_mismatch \<equiv> Casework ''ACP_V2_HISTORY_CONTRACT_MISMATCH'' 502"

definition history_shape :: "virtuals_spec \<Rightarrow> string \<Rightarrow> json \<Rightarrow> (jobj \<times> json list) res" where
  "history_shape V job data = (case data of
     JObj d \<Rightarrow>
       ebind (check (jget d ''protocol'' = JStr ''v2'' \<and> shows_as (jget d ''jobId'') job \<and>
         py_eq (jget d ''chainId'') (JInt (vs_chain V))) contract_mismatch) (\<lambda>_.
       ebind (text_in (jget d ''status'') job_states) (\<lambda>known.
       ebind (check known contract_mismatch) (\<lambda>_.
       case jget d ''entries'' of
         JList es \<Rightarrow> ebind (check (length es \<le> 1000 \<and> jget d ''entryCount'' = JInt (int (length es))) contract_mismatch) (\<lambda>_. Inr (d, es))
       | _ \<Rightarrow> Inl contract_mismatch)))
   | _ \<Rightarrow> Inl contract_mismatch)"

definition next_phase :: "string \<Rightarrow> json \<Rightarrow> string res" where
  "next_phase st entry = (case entry of
     JObj e \<Rightarrow>
       (if jget e ''kind'' = JStr ''system'' then
         (case jget e ''event'' of
            JObj v \<Rightarrow> ebind (text_in (jget v ''type'') (keys phase_of)) (\<lambda>known.
              Inr (if known then the (map_of phase_of (jstring (jget v ''type''))) else st))
          | _ \<Rightarrow> Inr st)
        else Inr st)
   | _ \<Rightarrow> Inr st)"

fun derived_phase :: "string \<Rightarrow> json list \<Rightarrow> string res" where
  "derived_phase st [] = Inr st"
| "derived_phase st (e # es) = ebind (next_phase st e) (\<lambda>st'. derived_phase st' es)"

definition review_codes :: "string list" where
  "review_codes = [''SOURCE_CONFLICT'', ''INSUFFICIENT_EVIDENCE'', ''STALE_SOURCE'', ''CONSISTENT_SNAPSHOTS'', ''MANUAL_REVIEW_REQUIRED'']"

definition review_valid :: "string \<Rightarrow> jobj \<Rightarrow> bool res" where
  "review_valid wanted m =
     (if set (keys m) \<noteq> {''schema_version'', ''request_hash'', ''recommendation'', ''finding_codes''} \<or>
         jget m ''request_hash'' \<noteq> JStr wanted then Inr False
      else ebind (text_in (jget m ''recommendation'') [''KEEP_BLOCKED'', ''MORE_EVIDENCE'', ''REVIEW_COMPLETED'']) (\<lambda>known.
        Inr (known \<and> (case jget m ''finding_codes'' of
          JList cs \<Rightarrow> length cs \<le> 12 \<and> list_all (\<lambda>c. case c of JStr s \<Rightarrow> s \<in> set review_codes | _ \<Rightarrow> False) cs
        | _ \<Rightarrow> False))))"

text \<open>The sender and the message of an entry that carries one. A sender that is no text is no address.\<close>

definition message_of :: "env \<Rightarrow> json \<Rightarrow> (string \<times> jobj \<times> jobj) option" where
  "message_of E entry = (case entry of
     JObj e \<Rightarrow>
       (if jget e ''kind'' \<noteq> JStr ''message'' then None else
        case jget e ''content'' of
          JStr content \<Rightarrow>
            (if 32000 < py_len content then None else
             case strict_json (float_text E) 32000 content of
               Inr (JObj m) \<Rightarrow> Some (uni_lower E (jstring (jget_or e ''from'' (JStr []))), e, m)
             | _ \<Rightarrow> None)
        | _ \<Rightarrow> None)
   | _ \<Rightarrow> None)"

text \<open>Whether the request is bound, whether a review is malformed, and the reviews so far.\<close>

record review_scan =
  rv_bound :: bool
  rv_invalid :: bool
  rv_reviews :: "jobj list"

definition scan_entry :: "env \<Rightarrow> virtuals_spec \<Rightarrow> string \<Rightarrow> review_scan \<Rightarrow> json \<Rightarrow> review_scan res" where
  "scan_entry E V wanted q entry = (case message_of E entry of
     None \<Rightarrow> Inr q
   | Some (sender, e, m) \<Rightarrow>
       (let q1 = (if sender = uni_lower E (vs_client V) \<and> jget e ''contentType'' = JStr ''requirement'' \<and>
              digest E ''acp-requirements'' (JObj m) = wanted then q\<lparr>rv_bound := True\<rparr> else q) in
        if sender = uni_lower E (vs_provider V) \<and> jget m ''schema_version'' = JStr ''memoryguard-review/1'' then
          ebind (review_valid wanted m) (\<lambda>ok. Inr (if ok then q1\<lparr>rv_reviews := rv_reviews q1 @ [m]\<rparr> else q1\<lparr>rv_invalid := True\<rparr>))
        else Inr q1))"

fun scan_entries :: "env \<Rightarrow> virtuals_spec \<Rightarrow> string \<Rightarrow> review_scan \<Rightarrow> json list \<Rightarrow> review_scan res" where
  "scan_entries E V wanted q [] = Inr q"
| "scan_entries E V wanted q (e # es) = ebind (scan_entry E V wanted q e) (\<lambda>q'. scan_entries E V wanted q' es)"

definition history_body :: "env \<Rightarrow> virtuals_spec \<Rightarrow> string \<Rightarrow> string \<Rightarrow> jobj \<Rightarrow> jobj list \<Rightarrow> jobj" where
  "history_body E V job wanted d reviews = [(''job_id'', JStr job), (''chain_id'', JInt (vs_chain V)), (''protocol'', JStr ''v2''),
     (''status'', jget d ''status''), (''request_hash'', JStr wanted), (''history_digest'', JStr (digest E ''acp-history'' (JObj d))),
     (''provider_message_bound'', JBool (reviews \<noteq> [])), (''review'', if reviews = [] then JNull else JObj (last reviews)),
     (''complete_review_observed'', JBool (jget d ''status'' = JStr ''completed'' \<and> reviews \<noteq> [])),
     (''cost_verified'', JBool False), (''onchain_receipt_verified'', JBool False), (''provenance'', JStr ''ACP_CLI_HISTORY_BOUND''),
     (''authoritative'', JBool False), (''executable'', JBool False)]"

definition job_history :: "env \<Rightarrow> virtuals_spec \<Rightarrow> string \<Rightarrow> json \<Rightarrow> json res \<Rightarrow> jobj res" where
  "job_history E V job requirements answer =
     ebind (check (job_id_text job) (Casework ''ACP_JOB_ID_INVALID'' 422)) (\<lambda>_.
     ebind answer (\<lambda>data.
     ebind (history_shape V job data) (\<lambda>(d, es).
     ebind (derived_phase ''open'' es) (\<lambda>st.
     ebind (check (jget d ''status'' = JStr st) (Casework ''ACP_STATUS_HISTORY_MISMATCH'' 502)) (\<lambda>_.
     let wanted = digest E ''acp-requirements'' requirements in
     ebind (scan_entries E V wanted \<lparr>rv_bound = False, rv_invalid = False, rv_reviews = []\<rparr> es) (\<lambda>q.
     ebind (check (rv_bound q) (Casework ''ACP_REQUIREMENTS_NOT_BOUND'' 409)) (\<lambda>_.
     ebind (check (\<not> rv_invalid q) (Casework ''ACP_REVIEW_PAYLOAD_INVALID'' 502)) (\<lambda>_.
     ebind (check (length (remdups (map (\<lambda>m. digest E ''acp-review-message'' (JObj m)) (rv_reviews q))) \<le> 1)
       (Casework ''ACP_PROVIDER_REVIEW_CONFLICT'' 409)) (\<lambda>_.
     Inr (history_body E V job wanted d (rv_reviews q)))))))))))"

section \<open>Plans\<close>

definition virtuals_json :: "virtuals_spec \<Rightarrow> json" where
  "virtuals_json V = JObj [(''tenant_id'', JStr (vs_tenant V)), (''subjects'', jstrs (vs_subjects V)), (''chain_id'', JInt (vs_chain V)),
     (''client_address'', JStr (vs_client V)), (''provider_address'', JStr (vs_provider V)), (''offering_name'', JStr (vs_offering V)),
     (''max_budget_micros'', JInt (vs_budget V)), (''cli_executable'', JStr (vs_executable V)), (''cli_sha256'', JStr (vs_sha256 V)),
     (''cli_home'', JStr (vs_home V)), (''ttl_seconds'', JInt (vs_ttl V))]"

definition virtuals_hash :: "env \<Rightarrow> virtuals_spec \<Rightarrow> string" where
  "virtuals_hash E V = digest E ''virtuals-spec'' (virtuals_json V)"

definition partner_of :: "service \<Rightarrow> actor \<Rightarrow> risk_case \<Rightarrow> virtuals_spec res" where
  "partner_of S a k = (case sv_partner S of
     None \<Rightarrow> Inl (Casework ''ACP_REVIEW_NOT_CONFIGURED_FOR_SCOPE'' 403)
   | Some V \<Rightarrow> ebind (check (ac_tenant a = vs_tenant V \<and> sc_subject (rc_scope k) \<in> set (vs_subjects V) \<and>
       sc_subject (rc_scope k) \<in> set (ac_subjects a)) (Casework ''ACP_REVIEW_NOT_CONFIGURED_FOR_SCOPE'' 403)) (\<lambda>_. Inr V))"

text \<open>Why a plan is not current, in the order of the tests; and whether the configuration still matches.\<close>

definition plan_reasons :: "env \<Rightarrow> service \<Rightarrow> virtuals_spec \<Rightarrow> workspace \<Rightarrow> risk_case \<Rightarrow> jobj \<Rightarrow> int \<Rightarrow> run \<Rightarrow> (string list \<times> bool) res" where
  "plan_reasons E S V w k plan now R =
     (let same = (jget plan ''partner_spec_hash'' = JStr (virtuals_hash E V)) in
      ebind (ebind (jfield plan ''expires_at'') (parsed_time E)) (\<lambda>expires.
      ebind (jfield plan ''case_version'') (\<lambda>v.
      ebind (jfield plan ''report_id'') (\<lambda>r.
      ebind (case valid_report E S w k (jstring r) R of
          Inl (Casework code _) \<Rightarrow> Inr [code] | Inl e \<Rightarrow> Inl e
        | Inr rep \<Rightarrow> ebind (jfield plan ''basis_hash'') (\<lambda>b. Inr (if b \<noteq> JStr (rp_basis rep) then [''ACP_BASIS_CHANGED''] else []))) (\<lambda>late.
      Inr ((if same then [] else [''ACP_CONFIG_CHANGED'']) @ (if expires \<le> now then [''ACP_PLAN_EXPIRED''] else []) @
        (if \<not> py_eq v (JInt (rc_version k)) \<or> rc_status k \<noteq> OPEN then [''ACP_CASE_CHANGED''] else []) @ late, same))))))"

definition partner_requirements :: "env \<Rightarrow> string \<Rightarrow> risk_case \<Rightarrow> report \<Rightarrow> string option \<Rightarrow> jobj" where
  "partner_requirements E plan_id k r bundle =
     [(''schema_version'', JStr ''memoryguard-review-request/1''), (''request_id'', JStr plan_id), (''case_version'', JInt (rc_version k)),
      (''risk_kind'', JStr (kind_str (rc_kind k))), (''scope_digest'', JStr (scope_key E (rc_scope k))), (''report_root'', JStr (rp_root r)),
      (''basis_hash'', JStr (rp_basis r)), (''evidence_digest'', JStr (rc_evidence k)), (''no_resolution_authority'', JBool True)]
     @ (case bundle of None \<Rightarrow> [] | Some b \<Rightarrow> [(''source_bundle_root'', JStr b)])"

definition partner_plan :: "env \<Rightarrow> virtuals_spec \<Rightarrow> string \<Rightarrow> string \<Rightarrow> risk_case \<Rightarrow> report \<Rightarrow> jobj \<Rightarrow> int \<Rightarrow> jobj" where
  "partner_plan E V plan_id i k r requirements now = [(''kind'', JStr ''ACP_REVIEW_PLAN''), (''plan_id'', JStr plan_id), (''case_id'', JStr i),
     (''case_version'', JInt (rc_version k)), (''report_id'', JStr (rp_id r)), (''basis_hash'', JStr (rp_basis r)),
     (''requirements'', JObj requirements), (''request_hash'', JStr (digest E ''acp-requirements'' (JObj requirements))),
     (''provider_address'', JStr (uni_lower E (vs_provider V))), (''client_address'', JStr (uni_lower E (vs_client V))),
     (''chain_id'', JInt (vs_chain V)), (''offering_name'', JStr (vs_offering V)), (''max_budget_micros'', JInt (vs_budget V)),
     (''budget_enforced_by_server'', JBool False), (''partner_spec_hash'', JStr (virtuals_hash E V)),
     (''expires_at'', JStr (iso_time E (now + seconds (vs_ttl V)))), (''state'', JStr ''OPERATOR_ACTION_REQUIRED''),
     (''bound_job_id'', JNull), (''authority'', JBool False), (''executable'', JBool False), (''partner_bonus_claimed'', JBool False)]"

text \<open>A plan of the same report that is unchanged and has not expired is answered again.\<close>

definition existing_plan :: "env \<Rightarrow> virtuals_spec \<Rightarrow> workspace \<Rightarrow> string \<Rightarrow> int \<Rightarrow> jobj option res" where
  "existing_plan E V w report_id now =
     (case List.find (\<lambda>v. jget v ''kind'' = JStr ''ACP_REVIEW_PLAN'' \<and> jget v ''report_id'' = JStr report_id) (map snd (ws_artifacts w)) of
        None \<Rightarrow> Inr None
      | Some p \<Rightarrow>
          (if jget p ''partner_spec_hash'' \<noteq> JStr (virtuals_hash E V) then Inr None
           else ebind (ebind (jfield p ''expires_at'') (parsed_time E)) (\<lambda>t. Inr (if now < t then Some p else None))))"

definition prepare_partner_change :: "env \<Rightarrow> service \<Rightarrow> actor \<Rightarrow> string \<Rightarrow> string \<Rightarrow> run \<Rightarrow> mutation" where
  "prepare_partner_change E S a i report_id R w seq =
     ebind (find_case w a i) (\<lambda>k.
     ebind (partner_of S a k) (\<lambda>V.
     ebind (valid_report E S w k report_id R) (\<lambda>r.
     ebind (check (rp_investigator r = ac_id a) (Casework ''REPORT_OWNER_MISMATCH'' 403)) (\<lambda>_.
     ebind (existing_plan E V w report_id (rn_clock R 50)) (\<lambda>existing. case existing of
       Some p \<Rightarrow> Inr (w, [(''plan'', JObj p), (''already_prepared'', JBool True)])
     | None \<Rightarrow>
         ebind (case sv_desk S of None \<Rightarrow> Inr None
           | Some D \<Rightarrow> ebind (desk_context E D w i (rn_clock R 51)) (\<lambda>x. Inr (Some (dx_root x)))) (\<lambda>bundle.
         let plan_id = new_id ''acpreview'' (rn_uuid R 11);
             p = partner_plan E V plan_id i k (r\<lparr>rp_id := report_id\<rparr>) (partner_requirements E plan_id k r bundle) (rn_clock R 51)
         in Inr (w\<lparr>ws_artifacts := dset plan_id p (ws_artifacts w)\<rparr>, [(''plan'', JObj p),
              (''note'', JStr ''Creating/funding/completing remains an explicit external operator action'')])))))))"

definition prepare_partner :: "env \<Rightarrow> service \<Rightarrow> actor \<Rightarrow> 'c command_scheme \<Rightarrow> string \<Rightarrow> string \<Rightarrow> handler" where
  "prepare_partner E S a c i report_id R loaded =
     ebind (authorize a {Investigator} None) (\<lambda>_.
     mutate E a c ''acp.prepare'' [(''case_id'', JStr i), (''report_id'', JStr report_id)] (prepare_partner_change E S a i report_id R)
       False None R loaded)"

section \<open>Inspecting and verifying\<close>

definition stored_plan :: "workspace \<Rightarrow> string \<Rightarrow> jobj res" where
  "stored_plan w p = (case map_of (ws_artifacts w) p of
     None \<Rightarrow> Inl (Casework ''ACP_PLAN_NOT_FOUND'' 404)
   | Some v \<Rightarrow> ebind (check (jget v ''kind'' = JStr ''ACP_REVIEW_PLAN'') (Casework ''ACP_PLAN_NOT_FOUND'' 404)) (\<lambda>_. Inr v))"

record plan_view =
  pv_plan :: jobj
  pv_reasons :: "string list"
  pv_same :: bool
  pv_revision :: int

definition inspect_partner :: "env \<Rightarrow> service \<Rightarrow> actor \<Rightarrow> string \<Rightarrow> run \<Rightarrow> workspace option \<Rightarrow> plan_view res" where
  "inspect_partner E S a p R loaded =
     ebind (authorize a readers None) (\<lambda>_. in_tx
     (ebind (opened E False (ac_tenant a) loaded) (\<lambda>w.
      ebind (stored_plan w p) (\<lambda>plan.
      ebind (jfield plan ''case_id'') (\<lambda>i.
      ebind (find_case w a (jstring i)) (\<lambda>k.
      ebind (partner_of S a k) (\<lambda>V.
      ebind (plan_reasons E S V w k plan (rn_clock R 52) R) (\<lambda>(reasons, same).
      Inr \<lparr>pv_plan = plan, pv_reasons = reasons, pv_same = same, pv_revision = ws_revision w\<rparr>))))))))"

definition view_json :: "plan_view \<Rightarrow> jobj" where
  "view_json v = [(''plan'', JObj (pv_plan v)), (''current'', JBool (pv_reasons v = [])), (''invalid_reasons'', jstrs (pv_reasons v)),
     (''config_matches'', JBool (pv_same v)), (''revision'', JInt (pv_revision v)), (''executable'', JBool False)]"

text \<open>A plan that is bound to another job refuses this one.\<close>

definition job_free :: "jobj \<Rightarrow> string \<Rightarrow> unit res" where
  "job_free plan job = ebind (jfield plan ''bound_job_id'') (\<lambda>b.
     check (\<not> truthy b \<or> b = JStr job) (Casework ''ACP_JOB_ALREADY_BOUND'' 409))"

definition partner_payload :: "json \<Rightarrow> string \<Rightarrow> string \<Rightarrow> jobj" where
  "partner_payload i p job = [(''case_id'', i), (''plan_id'', JStr p), (''job_id'', JStr job)]"

text \<open>The first two transactions of \<^verbatim>\<open>verify\<close>: an old answer, or the plan to verify.\<close>

definition partner_begin :: "env \<Rightarrow> service \<Rightarrow> actor \<Rightarrow> 'c command_scheme \<Rightarrow> string \<Rightarrow> string \<Rightarrow> run \<Rightarrow> workspace option \<Rightarrow> workspace option
    \<Rightarrow> (jobj + json \<times> jobj) res"
where
  "partner_begin E S a c p job R loaded later =
     ebind (authorize a {Investigator, Reviewer} None) (\<lambda>_.
     ebind (inspect_partner E S a p R loaded) (\<lambda>v.
     ebind (check (pv_same v) (Casework ''ACP_CONFIG_CHANGED'' 409)) (\<lambda>_.
     ebind (job_free (pv_plan v) job) (\<lambda>_.
     ebind (in_tx (ebind (opened E False (ac_tenant a) later) (\<lambda>w.
       ebind (jfield (pv_plan v) ''case_id'') (\<lambda>i.
       case map_of (ws_idempotency w) (idem_key E a (cm_key c)) of
         Some (q # qs) \<Rightarrow>
           ebind (jfield (q # qs) ''request_hash'') (\<lambda>h.
           ebind (check (h = JStr (request_hash E ''acp.verify'' a (cm_session c) (partner_payload i p job)))
             (Casework ''IDEMPOTENCY_CONFLICT'' 409)) (\<lambda>_.
           ebind (replayed (q # qs)) (\<lambda>r. Inr (Inl r))))
       | _ \<Rightarrow> Inr (Inr i))))) (\<lambda>begun. case begun of
       Inl r \<Rightarrow> Inr (Inl r)
     | Inr i \<Rightarrow> ebind (check (pv_revision v = cm_revision c) (Casework ''REVISION_CONFLICT'' 409)) (\<lambda>_. Inr (Inr (i, pv_plan v))))))))"

text \<open>A history that could not be had is recorded as a failed query.\<close>

definition partner_result :: "string \<Rightarrow> jobj res \<Rightarrow> jobj res" where
  "partner_result job history = (case history of
     Inl (Casework code _) \<Rightarrow> Inr [(''job_id'', JStr job), (''state'', JStr ''QUERY_FAILED''), (''error'', JStr code),
         (''complete_review_observed'', JBool False), (''authoritative'', JBool False), (''executable'', JBool False)]
   | r \<Rightarrow> r)"

definition observed_plan :: "env \<Rightarrow> string \<Rightarrow> jobj \<Rightarrow> int \<Rightarrow> jobj \<Rightarrow> jobj res" where
  "observed_plan E job verification now plan =
     (let failed = (jget verification ''state'' = JStr ''QUERY_FAILED'');
          p1 = (if failed then plan else dset ''bound_job_id'' (JStr job) plan);
          p2 = dset ''state'' (JStr (if failed then ''QUERY_FAILED'' else ''HISTORY_OBSERVED'')) p1
      in case jget_or p2 ''observations'' (JList []) of
           JList os \<Rightarrow> Inr (dset ''observations'' (JList (os @ [JObj (dset ''observed_at'' (JStr (iso_time E now)) verification)])) p2)
         | _ \<Rightarrow> Inl (PyExc ''AttributeError''))"

definition job_reused :: "virtuals_spec \<Rightarrow> workspace \<Rightarrow> string \<Rightarrow> string \<Rightarrow> bool" where
  "job_reused V w p job \<longleftrightarrow> list_ex (\<lambda>v. jget v ''kind'' = JStr ''ACP_REVIEW_PLAN'' \<and> jget v ''bound_job_id'' = JStr job \<and>
     jget v ''plan_id'' \<noteq> JStr p \<and> py_eq (jget v ''chain_id'') (JInt (vs_chain V))) (map snd (ws_artifacts w))"

definition save_partner_change :: "env \<Rightarrow> service \<Rightarrow> actor \<Rightarrow> string \<Rightarrow> string \<Rightarrow> jobj \<Rightarrow> jobj \<Rightarrow> run \<Rightarrow> mutation" where
  "save_partner_change E S a p job plan verification R w seq =
     ebind (case sv_partner S of None \<Rightarrow> Inl (PyExc ''AttributeError'') | Some V \<Rightarrow> Inr V) (\<lambda>V.
     ebind (case map_of (ws_artifacts w) p of
         Some (q # qs) \<Rightarrow> Inr (q # qs) | _ \<Rightarrow> Inl (Casework ''ACP_PLAN_CHANGED'' 409)) (\<lambda>rec.
     ebind (jfield rec ''request_hash'') (\<lambda>h. ebind (jfield plan ''request_hash'') (\<lambda>h'.
     ebind (check (h = h') (Casework ''ACP_PLAN_CHANGED'' 409)) (\<lambda>_.
     ebind (job_free rec job) (\<lambda>_.
     ebind (check (\<not> job_reused V w p job) (Casework ''ACP_JOB_REUSED'' 409)) (\<lambda>_.
     ebind (observed_plan E job verification (rn_clock R 53) rec) (\<lambda>rec'.
     let w1 = w\<lparr>ws_artifacts := dset p rec' (ws_artifacts w)\<rparr> in
     ebind (jfield rec' ''case_id'') (\<lambda>i.
     ebind (find_case w1 a (jstring i)) (\<lambda>k.
     ebind (plan_reasons E S V w1 k rec' (rn_clock R 54) R) (\<lambda>(reasons, _).
     Inr (w1, [(''verification'', JObj verification), (''current'', JBool (reasons = [])), (''invalid_reasons'', jstrs reasons),
        (''partner_bonus_claimed'', JBool False), (''case_status_unchanged'', JStr (case_status_str (rc_status k))),
        (''resolution_performed'', JBool False)]))))))))))))"

definition save_partner :: "env \<Rightarrow> service \<Rightarrow> actor \<Rightarrow> 'c command_scheme \<Rightarrow> string \<Rightarrow> string \<Rightarrow> json \<Rightarrow> jobj \<Rightarrow> jobj \<Rightarrow> handler" where
  "save_partner E S a c p job i plan verification R loaded =
     mutate E a c ''acp.verify'' (partner_payload i p job) (save_partner_change E S a p job plan verification R) False None R loaded"

end
