(* ===== verification/Cw_Ingress.thy ===== *)
theory Cw_Ingress
  imports Cw_Service Py_Loads
begin

text \<open>
  Signed incident ingress (\<^verbatim>\<open>incident_ingress.py\<close>): the checks on a delivery in the order of the code,
  the HMAC over the bytes that arrived, and the transaction that opens the case. \<open>environ\<close> is the
  process environment, \<open>now\<close> the clock at the start of the call.
\<close>

section \<open>HMAC-SHA256\<close>

fun hex_bytes :: "string \<Rightarrow> string" where
  "hex_bytes (a # b # s) = char_of (16 * unhex a + unhex b) # hex_bytes s"
| "hex_bytes _ = []"

definition mask_bytes :: "nat \<Rightarrow> string \<Rightarrow> string" where
  "mask_bytes m s = map (\<lambda>c. char_of (semiring_bit_operations_class.xor (of_char c :: nat) m)) s"

definition hmac_block :: "env \<Rightarrow> string \<Rightarrow> string" where
  "hmac_block E key = (let k = (if 64 < length key then hex_bytes (sha256 E key) else key) in k @ replicate (64 - length k) (CHR 0x00))"

definition hmac_sha256 :: "env \<Rightarrow> string \<Rightarrow> string \<Rightarrow> string" where
  "hmac_sha256 E key msg = sha256 E (mask_bytes 92 (hmac_block E key) @ hex_bytes (sha256 E (mask_bytes 54 (hmac_block E key) @ msg)))"

section \<open>The delivery\<close>

record incident_body =
  ib_kind :: case_kind
  ib_evidence :: string

definition incident_body_of :: "json \<Rightarrow> incident_body option" where
  "incident_body_of v = (case v of
     JObj d \<Rightarrow>
       (case (jget d ''kind'', jget d ''evidence_digest'') of
          (JStr k, JStr e) \<Rightarrow>
            (if length d = 2 \<and> k \<in> {''dispute'', ''revocation''} \<and> valid_digest e
             then Some \<lparr>ib_kind = (if k = ''dispute'' then Dispute else Revocation), ib_evidence = e\<rparr> else None)
        | _ \<Rightarrow> None)
   | _ \<Rightarrow> None)"

definition incident_spec_of :: "service \<Rightarrow> string \<Rightarrow> incident_spec option" where
  "incident_spec_of S i = map_of (rev (map (\<lambda>s. (ic_id s, s)) (sv_incidents S))) i"

definition header :: "string option \<Rightarrow> string" where
  "header h = (case h of None \<Rightarrow> [] | Some s \<Rightarrow> s)"

definition delivery_char :: "char \<Rightarrow> bool" where
  "delivery_char c \<longleftrightarrow> is_alnum c \<or> c \<in> {CHR ''_'', CHR ''.'', CHR '':'', CHR ''-''}"

definition headers_ok :: "string \<Rightarrow> string \<Rightarrow> string \<Rightarrow> bool" where
  "headers_ok timestamp delivery signature \<longleftrightarrow>
     length timestamp = 10 \<and> list_all is_digit timestamp \<and>
     8 \<le> length delivery \<and> length delivery \<le> 80 \<and> list_all delivery_char delivery \<and>
     length signature = 71 \<and> take 7 signature = ''sha256='' \<and> list_all is_hexlow (drop 7 signature)"

definition signed_text :: "string \<Rightarrow> string \<Rightarrow> string \<Rightarrow> string" where
  "signed_text timestamp delivery raw = timestamp @ ''.'' @ delivery @ ''.'' @ raw"

definition incident_secret :: "(string \<Rightarrow> string option) \<Rightarrow> incident_spec \<Rightarrow> string" where
  "incident_secret environ s = header (environ (ic_secret s))"

text \<open>
  Times are microseconds; the difference of the two floats of the code is exact for the years in
  which a double still resolves them.
\<close>

definition in_skew :: "incident_spec \<Rightarrow> int \<Rightarrow> string \<Rightarrow> bool" where
  "in_skew s now timestamp \<longleftrightarrow> \<bar>now - seconds (int (undec 0 timestamp))\<bar> \<le> seconds (ic_skew s)"

record delivered =
  dl_spec :: incident_spec
  dl_body :: incident_body
  dl_delivery :: string
  dl_raw :: string

definition admitted :: "env \<Rightarrow> service \<Rightarrow> (string \<Rightarrow> string option) \<Rightarrow> int \<Rightarrow> string \<Rightarrow> string option \<Rightarrow> string option
    \<Rightarrow> string option \<Rightarrow> string \<Rightarrow> delivered res"
where
  "admitted E S environ now source timestamp delivery signature raw =
     ebind (case incident_spec_of S source of None \<Rightarrow> Inl (Casework ''INCIDENT_NOT_ACCEPTED'' 403) | Some s \<Rightarrow> Inr s) (\<lambda>s.
     ebind (check (length raw \<le> 16384) (Casework ''INCIDENT_NOT_ACCEPTED'' 403)) (\<lambda>_.
     ebind (check (headers_ok (header timestamp) (header delivery) (header signature)) (Casework ''INCIDENT_AUTHENTICATION_FAILED'' 401)) (\<lambda>_.
     ebind (check (in_skew s now (header timestamp)) (Casework ''INCIDENT_TIMESTAMP_EXPIRED'' 401)) (\<lambda>_.
     ebind (check (32 \<le> py_len (incident_secret environ s)) (Casework ''INCIDENT_SOURCE_UNAVAILABLE'' 503)) (\<lambda>_.
     ebind (check (header signature = ''sha256='' @ hmac_sha256 E (incident_secret environ s)
         (signed_text (header timestamp) (header delivery) raw)) (Casework ''INCIDENT_AUTHENTICATION_FAILED'' 401)) (\<lambda>_.
     ebind (case ebind (strict_json (float_text E) 16384 raw) (\<lambda>v. case incident_body_of v of None \<Rightarrow> Inl (PyExc ''ValidationError'') | Some b \<Rightarrow> Inr b) of
         Inl _ \<Rightarrow> Inl (Casework ''INCIDENT_SCHEMA_INVALID'' 422) | Inr b \<Rightarrow> Inr b) (\<lambda>b.
     Inr \<lparr>dl_spec = s, dl_body = b, dl_delivery = header delivery, dl_raw = raw\<rparr>)))))))"

section \<open>The transaction\<close>

definition incident_command :: "env \<Rightarrow> delivered \<Rightarrow> int \<Rightarrow> command" where
  "incident_command E d revision =
     \<lparr>cm_key = ''incident_'' @ take 48 (digest E ''incident-key'' (jstrs [ic_id (dl_spec d), dl_delivery d])),
      cm_session = ''ingress_'' @ take 40 (digest E ''incident-source'' (JStr (ic_id (dl_spec d)))), cm_revision = revision\<rparr>"

definition delivery_hash :: "env \<Rightarrow> delivered \<Rightarrow> string" where
  "delivery_hash E d = digest E ''delivery'' (JStr (dl_delivery d))"

definition incident_payload :: "env \<Rightarrow> delivered \<Rightarrow> jobj" where
  "incident_payload E d = [(''source_id'', JStr (ic_id (dl_spec d))), (''delivery_id_hash'', JStr (delivery_hash E d)),
     (''scope'', scope_json (ic_scope (dl_spec d))), (''kind'', JStr (kind_str (ib_kind (dl_body d)))),
     (''evidence_digest'', JStr (ib_evidence (dl_body d))), (''payload_sha256'', JStr (sha256 E (dl_raw d)))]"

definition incident_case :: "actor \<Rightarrow> delivered \<Rightarrow> run \<Rightarrow> int \<Rightarrow> risk_case" where
  "incident_case a d R seq = \<lparr>rc_id = new_id ''case'' (rn_uuid R 12), rc_scope = ic_scope (dl_spec d), rc_kind = ib_kind (dl_body d),
     rc_version = 1, rc_status = OPEN, rc_opened_by = ac_id a, rc_opened_seq = seq,
     rc_evidence = ib_evidence (dl_body d), rc_resolution = None, rc_resolved_by = None, rc_resolved_seq = None\<rparr>"

definition incident_receipt :: "env \<Rightarrow> actor \<Rightarrow> delivered \<Rightarrow> risk_case \<Rightarrow> int \<Rightarrow> jobj" where
  "incident_receipt E a d k now = [(''kind'', JStr ''INCIDENT_RECEIPT''), (''case_id'', JStr (rc_id k)), (''source_id'', JStr (ic_id (dl_spec d))),
     (''source_actor'', JStr (ac_id a)), (''received_at'', JStr (iso_time E now)), (''payload_sha256'', JStr (sha256 E (dl_raw d))),
     (''delivery_id_hash'', JStr (delivery_hash E d)), (''authentication'', JStr ''HMAC_VERIFIED''), (''truth_verified'', JBool False),
     (''executable'', JBool False)]"

definition incident_change :: "env \<Rightarrow> service \<Rightarrow> actor \<Rightarrow> delivered \<Rightarrow> int \<Rightarrow> run \<Rightarrow> mutation" where
  "incident_change E S a d now R w seq =
     ebind (check (length (ws_cases w) < 500) (Casework ''CASE_CAPACITY_REACHED'' 413)) (\<lambda>_.
     let k = incident_case a d R seq;
         w1 = w\<lparr>ws_cases := dset (rc_id k) k (ws_cases w),
                ws_case_history := dset (rc_id k) [k] (ws_case_history w)\<rparr>
     in ebind (desk_remember E (sv_desk S) w1 k []) (\<lambda>w2.
     case invalidate E w2 (rc_scope k) (version_ref ''case'' (rc_id k) 1) ''SIGNED_INCIDENT'' of
       (w3, impacted) \<Rightarrow>
         let record = incident_receipt E a d k now in
         Inr (w3\<lparr>ws_artifacts := dset (new_id ''incident'' (rn_uuid R 13)) record (ws_artifacts w3)\<rparr>,
           [(''case_id'', JStr (rc_id k)), (''affected_tasks'', jstrs impacted), (''receipt'', JObj record)])))"

definition incident_actor :: "service \<Rightarrow> delivered \<Rightarrow> actor res" where
  "incident_actor S d = (case map_of (sv_actors S) (ic_actor (dl_spec d)) of None \<Rightarrow> Inl (PyExc ''KeyError'') | Some a \<Rightarrow> Inr a)"

text \<open>One attempt, at the revision a transaction just before found.\<close>

definition ingest :: "env \<Rightarrow> service \<Rightarrow> actor \<Rightarrow> delivered \<Rightarrow> int \<Rightarrow> int \<Rightarrow> handler" where
  "ingest E S a d now revision R loaded =
     mutate E a (incident_command E d revision) ''incident.ingest'' (incident_payload E d) (incident_change E S a d now R)
       False None R loaded"

section \<open>What an admitted delivery is\<close>

lemma admitted_Inr:
  "admitted E S environ now source timestamp delivery signature raw = Inr d \<longleftrightarrow>
     (\<exists>s b. incident_spec_of S source = Some s \<and> length raw \<le> 16384 \<and>
       headers_ok (header timestamp) (header delivery) (header signature) \<and> in_skew s now (header timestamp) \<and>
       32 \<le> py_len (incident_secret environ s) \<and>
       header signature = ''sha256='' @ hmac_sha256 E (incident_secret environ s) (signed_text (header timestamp) (header delivery) raw) \<and>
       (\<exists>v. strict_json (float_text E) 16384 raw = Inr v \<and> incident_body_of v = Some b) \<and>
       d = \<lparr>dl_spec = s, dl_body = b, dl_delivery = header delivery, dl_raw = raw\<rparr>)"
  by (auto simp: admitted_def ebind_eq_Inr split: option.splits sum.splits)

lemma incident_spec_id: "incident_spec_of S i = Some s \<Longrightarrow> ic_id s = i \<and> s \<in> set (sv_incidents S)"
  by (auto simp: incident_spec_of_def dest: map_of_SomeD)

text \<open>
  The separators of the signed text are found again: a timestamp has ten characters, and the body of
  an accepted delivery starts with a character that no delivery id has.
\<close>

lemma scan_number_no_obj: "scan_number fl s \<noteq> Some (JObj d, r)"
  by (auto simp: scan_number_def Let_def split: option.splits prod.splits)

lemma p_value_brace: "p_value fl n s = Some (JObj d, r) \<Longrightarrow> starts (CHR ''{'') s"
  by (cases n) (auto simp: Let_def scan_number_no_obj split: if_splits)

lemma starts_hd: "starts c s \<longleftrightarrow> (\<exists>t. s = c # t)"
  by (cases s) (auto simp: starts_def)

lemma loads_head:
  assumes "loads fl s = Some (JObj d)"
  shows "\<exists>c t. s = c # t \<and> \<not> delivery_char c"
proof -
  from assms have "starts (CHR ''{'') (skip_blank s)"
    by (auto simp: loads_def simp del: p_value.simps split: if_splits option.splits prod.splits dest: p_value_brace)
  then have h: "skip_blank s = CHR ''{'' # tl (skip_blank s)" by (auto simp: starts_hd)
  show ?thesis
  proof (cases s)
    case Nil
    with h show ?thesis by (simp add: skip_blank_def)
  next
    case (Cons c t)
    with h have "json_blank c \<or> c = CHR ''{''" by (auto simp: skip_blank_def split: if_splits)
    then have "\<not> delivery_char c"
      by (auto simp: json_blank_def delivery_char_def is_alnum_def is_alpha_def is_lower_def is_upper_def is_digit_def less_eq_char_def)
    with Cons show ?thesis by blast
  qed
qed

lemma body_head:
  assumes "strict_json fl m raw = Inr v" "incident_body_of v = Some b"
  shows "\<exists>c t. raw = c # t \<and> \<not> delivery_char c"
proof -
  from assms(2) obtain d where "v = JObj d" by (auto simp: incident_body_of_def split: json.splits)
  with assms(1) have "loads fl raw = Some (JObj d)" by (simp add: strict_json_Inr)
  then show ?thesis by (rule loads_head)
qed

lemma split_at_dot:
  assumes "d @ ''.'' @ r = d' @ ''.'' @ r'" "length d < length d'" "list_all delivery_char d'"
  shows "\<exists>c t. r = c # t \<and> delivery_char c"
proof -
  from assms(1) have "d' = take (length d') (d @ ''.'' @ r)" by simp
  with assms(2) have d': "d' = d @ take (length d' - length d) (''.'' @ r)" by simp
  define n where "n = length d' - length d - 1"
  from assms(2) have "length d' - length d = Suc n" by (simp add: n_def)
  with d' have e: "d' = d @ ''.'' @ take n r" by simp
  with assms(1) have "r = take n r @ ''.'' @ r'" by (metis append.assoc append_same_eq same_append_eq)
  then show ?thesis using assms(3) e
    by (cases "take n r") (auto simp: delivery_char_def)
qed

lemma signed_text_unique:
  assumes "signed_text t d r = signed_text t' d' r'" "length t = length t'"
    "list_all delivery_char d" "list_all delivery_char d'"
    "\<exists>c s. r = c # s \<and> \<not> delivery_char c" "\<exists>c s. r' = c # s \<and> \<not> delivery_char c"
  shows "t = t' \<and> d = d' \<and> r = r'"
proof -
  from assms(1,2) have t: "t = t'" and e: "d @ ''.'' @ r = d' @ ''.'' @ r'" by (auto simp: signed_text_def)
  have "\<not> length d < length d'" using split_at_dot [OF e _ assms(4)] assms(5) by auto
  moreover have "\<not> length d' < length d" using split_at_dot [OF e [symmetric] _ assms(3)] assms(6) by auto
  ultimately have "length d = length d'" by simp
  with e t show ?thesis by auto
qed

text \<open>Two texts with one MAC are the same text, or the hash function has a collision.\<close>

lemma hexlow_of_char:
  "is_hexlow c \<longleftrightarrow> 48 \<le> (of_char c :: nat) \<and> (of_char c :: nat) \<le> 57 \<or> 97 \<le> (of_char c :: nat) \<and> (of_char c :: nat) \<le> 102"
  by (simp add: is_hexlow_def is_digit_def less_eq_char_def)

lemma unhex_inj: "is_hexlow a \<Longrightarrow> is_hexlow b \<Longrightarrow> unhex a = unhex b \<Longrightarrow> a = b"
proof -
  assume "is_hexlow a" "is_hexlow b" "unhex a = unhex b"
  then have "(of_char a :: nat) = of_char b"
    by (auto simp: unhex_def is_digit_of_char hexlow_of_char simp del: of_char_eq_iff split: if_splits)
  then show "a = b" by simp
qed

lemma unhex_small: "is_hexlow a \<Longrightarrow> unhex a < 16"
  by (auto simp: unhex_def is_digit_of_char hexlow_of_char split: if_splits)

lemma byte_inj:
  assumes "is_hexlow a" "is_hexlow b" "is_hexlow c" "is_hexlow d"
    "(char_of (16 * unhex a + unhex b) :: char) = char_of (16 * unhex c + unhex d)"
  shows "a = c \<and> b = d"
proof -
  from assms(5) have "(16 * unhex a + unhex b) mod 256 = (16 * unhex c + unhex d) mod 256"
    by (metis of_char_of)
  with unhex_small [OF assms(1)] unhex_small [OF assms(2)] unhex_small [OF assms(3)] unhex_small [OF assms(4)]
  have "16 * unhex a + unhex b = 16 * unhex c + unhex d" by simp
  then have "(16 * unhex a + unhex b) div 16 = (16 * unhex c + unhex d) div 16" "(16 * unhex a + unhex b) mod 16 = (16 * unhex c + unhex d) mod 16"
    by simp_all
  with unhex_small [OF assms(2)] unhex_small [OF assms(4)] have "unhex a = unhex c \<and> unhex b = unhex d" by simp
  with assms unhex_inj show ?thesis by blast
qed

lemma hex_bytes_inj:
  "list_all is_hexlow s \<Longrightarrow> list_all is_hexlow t \<Longrightarrow> length s = length t \<Longrightarrow> even (length s) \<Longrightarrow> hex_bytes s = hex_bytes t \<Longrightarrow> s = t"
proof (induction s arbitrary: t rule: hex_bytes.induct)
  case (1 a b s)
  then obtain c d u where t: "t = c # d # u" by (metis length_Suc_conv length_Cons)
  with "1.prems" byte_inj [of a b c d] have "a = c \<and> b = d" by simp
  with 1 t show ?case by simp
qed auto

definition hex_hash :: "env \<Rightarrow> bool" where
  "hex_hash E \<longleftrightarrow> (\<forall>x. length (sha256 E x) = 64 \<and> list_all is_hexlow (sha256 E x))"

text \<open>Two messages whose authentication codes under one key agree although the texts that are hashed differ.\<close>

definition hmac_inner :: "env \<Rightarrow> string \<Rightarrow> string \<Rightarrow> string" where
  "hmac_inner E key msg = mask_bytes 54 (hmac_block E key) @ msg"

definition hmac_outer :: "env \<Rightarrow> string \<Rightarrow> string \<Rightarrow> string" where
  "hmac_outer E key msg = mask_bytes 92 (hmac_block E key) @ hex_bytes (sha256 E (hmac_inner E key msg))"

definition same_hash :: "env \<Rightarrow> string \<Rightarrow> string \<Rightarrow> bool" where
  "same_hash E u v \<longleftrightarrow> u \<noteq> v \<and> sha256 E u = sha256 E v"

definition hmac_collision :: "env \<Rightarrow> string \<Rightarrow> string \<Rightarrow> string \<Rightarrow> bool" where
  "hmac_collision E key x y \<longleftrightarrow> same_hash E (hmac_inner E key x) (hmac_inner E key y) \<or> same_hash E (hmac_outer E key x) (hmac_outer E key y)"

lemma hmac_inj:
  assumes "hex_hash E" "hmac_sha256 E key x = hmac_sha256 E key y"
  shows "x = y \<or> hmac_collision E key x y"
proof (cases "sha256 E (hmac_inner E key x) = sha256 E (hmac_inner E key y)")
  case True
  then show ?thesis by (auto simp: hmac_collision_def same_hash_def hmac_inner_def)
next
  case False
  with assms(1) have "hex_bytes (sha256 E (hmac_inner E key x)) \<noteq> hex_bytes (sha256 E (hmac_inner E key y))"
    using hex_bytes_inj [of "sha256 E (hmac_inner E key x)" "sha256 E (hmac_inner E key y)"] unfolding hex_hash_def by auto
  with assms(2) show ?thesis by (simp add: hmac_collision_def same_hash_def hmac_outer_def hmac_sha256_def hmac_inner_def)
qed

end
