(* ===== verification/Cw_Preserve_Desk.thy ===== *)
theory Cw_Preserve_Desk
  imports Cw_Preserve Cw_Mission Cw_Partner Cw_Ingress
begin

text \<open>
  The mutations of the evidence desk, of missions, of the partner review and of incident ingress keep the
  invariant of \<^verbatim>\<open>Cw_Invariant\<close>: they write artifacts, and an incident opens a case like any other.
\<close>

lemma keeps_remember:
  assumes "desk_remember E D w k ids = Inr w1" "distinct (keys (ws_artifacts w1)) \<Longrightarrow> distinct (keys a)"
  shows "keeps E w (w1\<lparr>ws_artifacts := a\<rparr>)"
  using desk_remember_keeps [OF assms(1)] keeps_artifacts [OF assms(2)] keeps_trans by blast

lemma reserve_read_change_Inr:
  assumes "reserve_read_change E D a c i k s resource R w seq = Inr (w', r)"
  obtains (hit) k' w1 where "desk_remember E (Some D) w k' [sp_id s] = Inr w1" "w' = w1"
      "jget r ''state'' = JStr ''CACHE_HIT''" "\<not> lc_force c"
  | (grant) k' w1 where "find_case w a i = Inr k'" "rc_status k' = OPEN" "rc_version k' = rc_version k"
      "desk_remember E (Some D) w k' [sp_id s] = Inr w1" "int (attempts_made w1 i (sp_id s)) < sp_attempts s"
      "w' = w1\<lparr>ws_artifacts := dset (source_key E i (sp_id s)) (head_item i k' s (fetch_id E (ac_tenant a) (ac_id a) (cm_key c)))
         (dset (fetch_id E (ac_tenant a) (ac_id a) (cm_key c))
           (request_item E a i k' s resource (fetch_id E (ac_tenant a) (ac_id a) (cm_key c)) (rn_clock R 41)) (ws_artifacts w1))\<rparr>"
      "jget r ''state'' = JStr ''PENDING''"
proof -
  from assms obtain k' w1 cached where p: "find_case w a i = Inr k'" "rc_status k' = OPEN" "rc_version k' = rc_version k"
      "desk_remember E (Some D) w k' [sp_id s] = Inr w1"
    and c: "(case (if lc_force c then None else cached) of
        Some q \<Rightarrow> Inr (w1, [(''request_id'', JStr (fetch_id E (ac_tenant a) (ac_id a) (cm_key c))), (''state'', JStr ''CACHE_HIT''), (''receipt'', JObj q),
                          (''external_calls'', JInt 0), (''memory_saved_fetch'', JBool True)])
      | None \<Rightarrow>
          ebind (check (int (attempts_made w1 i (sp_id s)) < sp_attempts s) (Casework ''SOURCE_READ_BUDGET_EXHAUSTED'' 429)) (\<lambda>_.
          Inr (w1\<lparr>ws_artifacts := dset (source_key E i (sp_id s)) (head_item i k' s (fetch_id E (ac_tenant a) (ac_id a) (cm_key c)))
                 (dset (fetch_id E (ac_tenant a) (ac_id a) (cm_key c)) (request_item E a i k' s resource
                   (fetch_id E (ac_tenant a) (ac_id a) (cm_key c)) (rn_clock R 41)) (ws_artifacts w1))\<rparr>,
               [(''request_id'', JStr (fetch_id E (ac_tenant a) (ac_id a) (cm_key c))), (''state'', JStr ''PENDING''), (''external_calls'', JInt 0)]))) = Inr (w', r)"
    unfolding reserve_read_change_def Let_def by (elim ebind_InrE) (auto split: prod.splits if_splits)
  show ?thesis
  proof (cases "if lc_force c then None else cached")
    case None
    with c p grant show ?thesis by (auto simp: jget_def split: if_splits)
  next
    case (Some q)
    with c p hit show ?thesis by (auto simp: jget_def split: if_splits)
  qed
qed

lemma reserve_read_keeps: "reserve_read_change E D a c i k s resource R w seq = Inr (w', r) \<Longrightarrow> keeps E w w'"
  by (erule reserve_read_change_Inr) (auto intro!: keeps_remember dest: desk_remember_keeps)

lemma finish_read_change_Inr:
  assumes "finish_read_change E a i k s resource rid got finished R w seq = Inr (w', r)"
  obtains item st mine head rcid where "map_of (ws_artifacts w) rid = Some item" "jfield item ''state'' = Inr (JStr ''PENDING'')"
    "head = (case map_of (ws_artifacts w) (source_key E i (sp_id s)) of None \<Rightarrow> [] | Some h \<Rightarrow> h)"
    "mine = (jget head ''request_id'' = JStr rid)" "rcid = new_id ''source'' (rn_uuid R 10)"
    "w' = w\<lparr>ws_artifacts := (let a1 = dset rid (finished_item E st finished got rcid item) (ws_artifacts w);
       a2 = (case got of Inl _ \<Rightarrow> a1 | Inr d \<Rightarrow> dset rcid (new_receipt E i k s resource rcid finished d) a1)
       in if mine then dset (source_key E i (sp_id s)) (finished_head st got rcid head) a2 else a2)\<rparr>"
proof -
  from assms obtain item where item: "map_of (ws_artifacts w) rid = Some item" by (auto simp: finish_read_change_def split: option.splits)
  with assms obtain k' where "jfield item ''state'' = Inr (JStr ''PENDING'')" "find_case w a i = Inr k'"
    unfolding finish_read_change_def by (auto split: if_splits)
  then have i: "jfield item ''state'' = Inr (JStr ''PENDING'')" "find_case w a i = Inr k'" by simp_all
  define head where "head = (case map_of (ws_artifacts w) (source_key E i (sp_id s)) of None \<Rightarrow> [] | Some h \<Rightarrow> h)"
  define st where "st = finished_state (rc_version k' \<noteq> rc_version k \<or> rc_status k' \<noteq> OPEN \<or> jget head ''request_id'' \<noteq> JStr rid) got"
  define rcid where "rcid = new_id ''source'' (rn_uuid R 10)"
  have "w' = w\<lparr>ws_artifacts := (let a1 = dset rid (finished_item E st finished got rcid item) (ws_artifacts w);
       a2 = (case got of Inl _ \<Rightarrow> a1 | Inr d \<Rightarrow> dset rcid (new_receipt E i k s resource rcid finished d) a1)
       in if jget head ''request_id'' = JStr rid then dset (source_key E i (sp_id s)) (finished_head st got rcid head) a2 else a2)\<rparr>"
    using assms item i unfolding finish_read_change_def Let_def head_def [symmetric] rcid_def [symmetric]
    by (cases got) (auto simp: st_def)
  then show ?thesis by (rule that [OF item i(1) head_def refl rcid_def])
qed

lemma finish_read_keeps: "finish_read_change E a i k s resource rid got finished R w seq = Inr (w', r) \<Longrightarrow> keeps E w w'"
  by (erule finish_read_change_Inr) (auto simp: Let_def intro!: keeps_artifacts split: sum.splits)

lemma plan_mission_keeps: "plan_mission_change E S D a c i w seq = Inr (w', r) \<Longrightarrow> keeps E w w'"
  by (auto simp: plan_mission_change_def Let_def intro!: keeps_remember split: if_splits)

lemma resume_keeps: "resume_change a c m rec i w seq = Inr (w', r) \<Longrightarrow> keeps E w w'"
  by (auto simp: resume_change_def split: if_splits)

lemma prepare_partner_change_Inr:
  assumes "prepare_partner_change E S a i rid R w seq = Inr (w', r)"
  obtains (same) "w' = w"
  | (new) k V p q bnd where "partner_of S a k = Inr V"
      "w' = w\<lparr>ws_artifacts := dset (new_id ''acpreview'' (rn_uuid R 11))
         (partner_plan E V (new_id ''acpreview'' (rn_uuid R 11)) i k p
           (partner_requirements E (new_id ''acpreview'' (rn_uuid R 11)) k q bnd) (rn_clock R 51)) (ws_artifacts w)\<rparr>"
  using assms unfolding prepare_partner_change_def Let_def
  by (elim ebind_InrE) (auto split: option.splits)

lemma prepare_partner_keeps: "prepare_partner_change E S a i rid R w seq = Inr (w', r) \<Longrightarrow> keeps E w w'"
  by (erule prepare_partner_change_Inr) (auto intro!: keeps_artifacts)

lemma save_partner_change_Inr:
  assumes "save_partner_change E S a p job plan v R w seq = Inr (w', r)"
  obtains V art art' where "sv_partner S = Some V" "map_of (ws_artifacts w) p = Some art" "map_of art ''request_hash'' \<noteq> None"
    "job_free art job = Inr ()" "\<not> job_reused V w p job" "observed_plan E job v (rn_clock R 53) art = Inr art'"
    "w' = w\<lparr>ws_artifacts := dset p art' (ws_artifacts w)\<rparr>"
proof -
  from assms obtain V where V: "sv_partner S = Some V" by (cases "sv_partner S") (simp_all add: save_partner_change_def)
  from assms V obtain art where art: "map_of (ws_artifacts w) p = Some art"
    by (cases "map_of (ws_artifacts w) p") (simp_all add: save_partner_change_def)
  have c: "x = art" if "(case art of [] \<Rightarrow> Inl (Casework ''ACP_PLAN_CHANGED'' 409) | q # qs \<Rightarrow> Inr (q # qs)) = Inr x" for x
    using that by (cases art) auto
  from assms obtain h art' where "jfield art ''request_hash'' = Inr h" "job_free art job = Inr ()" "\<not> job_reused V w p job"
    "observed_plan E job v (rn_clock R 53) art = Inr art'" "w' = w\<lparr>ws_artifacts := dset p art' (ws_artifacts w)\<rparr>"
    unfolding save_partner_change_def V art option.case ebind_Inr Let_def
    by (elim ebind_InrE) (auto dest!: c split: if_splits)
  moreover from this(1) have "map_of art ''request_hash'' \<noteq> None" by (auto simp: jfield_def split: option.splits)
  ultimately show ?thesis by (metis that [OF V art])
qed

lemma save_partner_keeps: "save_partner_change E S a p job plan v R w seq = Inr (w', r) \<Longrightarrow> keeps E w w'"
  by (erule save_partner_change_Inr) (auto intro!: keeps_artifacts)

lemma incident_change_Inr:
  assumes "incident_change E S a d now R w seq = Inr (w', r)"
  obtains k w2 where "k = incident_case a d R seq"
    "desk_remember E (sv_desk S) (w\<lparr>ws_cases := dset (rc_id k) k (ws_cases w),
       ws_case_history := dset (rc_id k) ([] @ [k]) (ws_case_history w)\<rparr>) k [] = Inr w2"
    "w' = fst (invalidate E w2 (rc_scope k) (version_ref ''case'' (rc_id k) 1) ''SIGNED_INCIDENT'')
       \<lparr>ws_artifacts := dset (new_id ''incident'' (rn_uuid R 13)) (incident_receipt E a d k now) (ws_artifacts w2)\<rparr>"
  using assms unfolding incident_change_def Let_def
  by (auto simp: invalidate_def Let_def split: prod.splits if_splits)

lemma incident_keeps:
  assumes "incident_change E S a d now R w seq = Inr (w', r)"
  shows "keeps E w w'"
proof (rule incident_change_Inr [OF assms])
  fix k :: risk_case and w2
  let ?x = "fst (invalidate E w2 (rc_scope k) (version_ref ''case'' (rc_id k) 1) ''SIGNED_INCIDENT'')"
  assume k: "k = incident_case a d R seq"
    and m: "desk_remember E (sv_desk S) (w\<lparr>ws_cases := dset (rc_id k) k (ws_cases w),
       ws_case_history := dset (rc_id k) ([] @ [k]) (ws_case_history w)\<rparr>) k [] = Inr w2"
    and w': "w' = ?x\<lparr>ws_artifacts := dset (new_id ''incident'' (rn_uuid R 13)) (incident_receipt E a d k now) (ws_artifacts w2)\<rparr>"
  have "keeps E w ?x" by (rule risk_keeps [OF refl _ _ m]) (simp_all add: k incident_case_def)
  moreover have "keeps E ?x w'" unfolding w' by (rule keeps_artifacts) (simp add: invalidate_def Let_def)
  ultimately show "keeps E w w'" by (rule keeps_trans)
qed

lemmas desk_changes_keep = reserve_read_keeps finish_read_keeps plan_mission_keeps resume_keeps prepare_partner_keeps
  save_partner_keeps incident_keeps

end
