(* ===== verification/Py_Keys.thy ===== *)
theory Py_Keys
  imports Py_Round
begin

text \<open>
  What the reader returns for a text the serializer wrote, when it returns anything: an object has
  the keys it was written with. Numbers are only assumed to be written with the characters of a number,
  so nothing is needed of the printer and the reader of floats beyond that.
\<close>

definition number_char :: "char \<Rightarrow> bool" where
  "number_char c \<longleftrightarrow> is_digit c \<or> c \<in> {CHR ''-'', CHR ''+'', CHR ''.'', CHR ''e'', CHR ''E''}"

text \<open>The documented form of \<^verbatim>\<open>float.__repr__\<close> for finite floats.\<close>

definition number_texts :: "(rat \<Rightarrow> string) \<Rightarrow> bool" where
  "number_texts fr \<longleftrightarrow> (\<forall>q. fr q \<noteq> [] \<and> list_all number_char (fr q))"

definition number_start :: "string \<Rightarrow> bool" where
  "number_start s \<longleftrightarrow> (\<exists>c t. s = c # t \<and> number_char c)"

section \<open>What a number takes\<close>

lemma digit_run_split: "s = digits s @ after_digits s \<and> list_all number_char (digits s)"
  by (auto simp: digits_def after_digits_def list_all_iff number_char_def dest: set_takeWhileD)

lemma starts_Cons: "starts c s \<Longrightarrow> s = c # tl s"
  by (cases s) (simp_all add: starts_def)

lemma whole_part_split: "whole_part s = Some (w, r) \<Longrightarrow> s = w @ r \<and> list_all number_char w"
  using digit_run_split [of s]
  by (auto simp: whole_part_def number_char_def is_digit_def dest: starts_Cons split: if_splits)

lemma fraction_part_split: "fraction_part s = (f, r) \<Longrightarrow> s = f @ r \<and> list_all number_char f"
  using digit_run_split [of "tl s"]
  by (auto simp: fraction_part_def number_char_def dest: starts_Cons split: if_splits)

lemma exponent_part_split:
  assumes "exponent_part s = (e, r)"
  shows "s = e @ r \<and> list_all number_char e"
proof (cases "starts (CHR ''e'') s \<or> starts (CHR ''E'') s")
  case True
  define t where "t = tl s"
  define sign where "sign = (if starts (CHR ''+'') t \<or> starts (CHR ''-'') t then take 1 t else [])"
  define u where "u = drop (length sign) t"
  have sg: "t = sign @ u" "list_all number_char sign"
    unfolding u_def sign_def by (cases t; simp add: number_char_def)+
  from True have s: "s = hd s # t" "number_char (hd s)" unfolding t_def by (cases s; auto simp: number_char_def)+
  from assms True have "e = (if digits u \<noteq> [] then hd s # sign @ digits u else []) \<and> r = (if digits u \<noteq> [] then after_digits u else s)"
    by (auto simp: exponent_part_def Let_def t_def [symmetric] sign_def [symmetric] u_def [symmetric] split: if_splits)
  moreover have "s = (hd s # sign @ digits u) @ after_digits u" using s(1) sg(1) digit_run_split [of u] by simp
  ultimately show ?thesis using s(2) sg(2) digit_run_split [of u] by (cases "digits u = []") simp_all
qed (use assms in \<open>auto simp: exponent_part_def\<close>)

lemma scan_number_split:
  assumes "scan_number fl s = Some (v, r)"
  shows "\<exists>p. s = p @ r \<and> list_all number_char p"
proof -
  define neg where "neg = starts (CHR ''-'') s"
  obtain w r0 f r1 e where w: "whole_part (if neg then tl s else s) = Some (w, r0)" "fraction_part r0 = (f, r1)" "exponent_part r1 = (e, r)"
    using assms unfolding scan_number_def Let_def neg_def [symmetric] by (auto split: option.splits prod.splits if_splits)
  have "s = (if neg then ''-'' else []) @ (if neg then tl s else s)"
    by (auto simp: neg_def dest: starts_Cons)
  with whole_part_split [OF w(1)] fraction_part_split [OF w(2)] exponent_part_split [OF w(3)]
  have "s = ((if neg then ''-'' else []) @ w @ f @ e) @ r" "list_all number_char ((if neg then ''-'' else []) @ w @ f @ e)"
    by (auto simp: number_char_def split: if_splits)
  then show ?thesis by blast
qed

text \<open>What follows a value in a written text.\<close>

definition after_value :: "string \<Rightarrow> bool" where
  "after_value s \<longleftrightarrow> \<not> number_start s"

lemma number_rest:
  assumes "list_all number_char t" "after_value s" "t @ s = p @ r" "list_all number_char p"
  shows "r = s \<or> number_start r"
proof (cases "length p \<le> length t")
  case True
  then have "r = drop (length p) t @ s" using assms(3) by (metis append_eq_append_conv_if append_eq_conv_conj drop_append)
  with assms(1) show ?thesis
    using set_drop_subset [of "length p" t]
    by (cases "drop (length p) t") (auto simp: number_start_def list_all_iff)
next
  case False
  then have "p = t @ take (length p - length t) s" using assms(3)
    by (metis append_eq_append_conv_if append_eq_conv_conj nat_le_linear take_append take_all)
  then have "list_all number_char (take (length p - length t) s)" using assms(4) by (metis list_all_append)
  moreover obtain n where "length p - length t = Suc n" using False by (metis Suc_diff_Suc not_le)
  moreover have "s \<noteq> []" using False \<open>p = t @ take (length p - length t) s\<close> by auto
  ultimately have "number_start s" by (cases s) (simp_all add: number_start_def)
  with assms(2) show ?thesis by (simp add: after_value_def)
qed

section \<open>Values\<close>

definition keyed :: "(string \<Rightarrow> pyfloat) \<Rightarrow> (rat \<Rightarrow> string) \<Rightarrow> json \<Rightarrow> bool" where
  "keyed fl fr v \<longleftrightarrow> (\<forall>n s x r. after_value s \<longrightarrow> p_value fl n (wide fr v @ s) = Some (x, r) \<longrightarrow>
     (r = s \<or> number_start r) \<and> (\<forall>d. v = JObj d \<longrightarrow> r = s \<and> (\<exists>e. x = JObj e \<and> keys e = keys d)))"

lemma keyedI:
  "(\<And>n s x r. after_value s \<Longrightarrow> p_value fl (Suc n) (wide fr v @ s) = Some (x, r) \<Longrightarrow>
     (r = s \<or> number_start r) \<and> (\<forall>d. v = JObj d \<longrightarrow> r = s \<and> (\<exists>e. x = JObj e \<and> keys e = keys d))) \<Longrightarrow> keyed fl fr v"
  unfolding keyed_def
proof (intro allI impI)
  fix n s x r
  assume h: "\<And>n s x r. after_value s \<Longrightarrow> p_value fl (Suc n) (wide fr v @ s) = Some (x, r) \<Longrightarrow>
     (r = s \<or> number_start r) \<and> (\<forall>d. v = JObj d \<longrightarrow> r = s \<and> (\<exists>e. x = JObj e \<and> keys e = keys d))"
    and s: "after_value s" "p_value fl n (wide fr v @ s) = Some (x, r)"
  then show "(r = s \<or> number_start r) \<and> (\<forall>d. v = JObj d \<longrightarrow> r = s \<and> (\<exists>e. x = JObj e \<and> keys e = keys d))"
  proof (cases n)
    case (Suc m)
    from s(2) show ?thesis unfolding Suc by (rule h [OF s(1)])
  qed (simp add: p_value.simps(1))
qed

lemma keyedD: "keyed fl fr v \<Longrightarrow> after_value s \<Longrightarrow> p_value fl n (wide fr v @ s) = Some (x, r) \<Longrightarrow> r = s \<or> number_start r"
  by (auto simp: keyed_def)

lemma keyed_number:
  assumes "list_all number_char (wide fr v)" "wide fr v \<noteq> []" "\<And>d. v \<noteq> JObj d"
  shows "keyed fl fr v"
proof (rule keyedI)
  fix n s x r
  assume s: "after_value s" and p: "p_value fl (Suc n) (wide fr v @ s) = Some (x, r)"
  obtain c t where c: "wide fr v = c # t" "number_char c" using assms(1,2) by (cases "wide fr v") auto
  then have "c \<notin> {CHR 0x22, CHR ''['', CHR ''{'', CHR ''n'', CHR ''t'', CHR ''f''}"
    by (auto simp: number_char_def is_digit_def)
  with p c have "scan_number fl (wide fr v @ s) = Some (x, r)" by (simp add: p_value.simps(2))
  then obtain q where "wide fr v @ s = q @ r" "list_all number_char q" using scan_number_split by blast
  from number_rest [OF assms(1) s this] assms(3)
  show "(r = s \<or> number_start r) \<and> (\<forall>d. v = JObj d \<longrightarrow> r = s \<and> (\<exists>e. x = JObj e \<and> keys e = keys d))" by simp
qed

lemma after_value_simps [simp]: "after_value []" "after_value (CHR '','' # s)" "after_value (CHR '']'' # s)" "after_value (CHR ''}'' # s)"
  by (auto simp: after_value_def number_start_def number_char_def is_digit_def)

lemma after_value_tail [simp]: "after_value (wide_tail fr xs @ s)"
  by (cases xs) simp_all

lemma after_value_pairs [simp]: "after_value (wide_pairs fr d @ s)"
  by (cases "(quote, fr, d)" rule: written_pairs.cases) simp_all

lemma number_start_stuck: "number_start r \<Longrightarrow> skip_blank r = r \<and> \<not> starts (CHR '']'') r \<and> \<not> starts (CHR '','') r \<and> \<not> starts (CHR ''}'') r"
  by (auto simp: number_start_def number_char_def json_blank_def is_digit_def)

lemma dec_int_number: "list_all number_char (dec_int i) \<and> dec_int i \<noteq> []"
proof -
  have "list_all number_char (dec_nat n)" for n using dec_nat_digits by (auto simp: list_all_iff number_char_def)
  then show ?thesis by (simp add: dec_int_def number_char_def)
qed

text \<open>A value starts with a character of its own, neither blank nor closing.\<close>

lemma wide_start:
  assumes "number_texts fr" "finite_floats v"
  shows "\<exists>c t. wide fr v = c # t \<and> \<not> json_blank c \<and> c \<noteq> CHR '']'' \<and> c \<noteq> CHR ''}''"
proof -
  have n: "\<exists>c t. u = c # t \<and> \<not> json_blank c \<and> c \<noteq> CHR '']'' \<and> c \<noteq> CHR ''}''" if "u \<noteq> []" "list_all number_char u" for u
    using that by (cases u) (auto simp: number_char_def json_blank_def is_digit_def)
  show ?thesis
  proof (cases v)
    case (JInt i)
    then show ?thesis using n dec_int_number by simp
  next
    case (JFloat f)
    then obtain q where "f = Fin q" using assms(2) by (cases f) simp_all
    then show ?thesis using n assms(1) JFloat by (simp add: number_texts_def enc_float_def)
  next
    case (JList xs)
    then show ?thesis by (cases xs) (simp_all add: json_blank_def)
  next
    case (JObj d)
    then show ?thesis by (cases "(quote, fr, d)" rule: written_pairs.cases) (simp_all add: json_blank_def)
  qed (simp_all add: json_blank_def quote_Cons)
qed

lemma wide_stays:
  assumes "number_texts fr" "finite_floats v"
  shows "skip_blank (wide fr v @ s) = wide fr v @ s" "\<not> starts (CHR '']'') (wide fr v @ s)" "\<not> starts (CHR ''}'') (wide fr v @ s)"
  using wide_start [OF assms] by auto

lemma items_keyed:
  assumes "number_texts fr" "\<forall>x \<in> set (y # ys). keyed fl fr x \<and> finite_floats x"
    "p_items fl n (wide fr y @ wide_tail fr ys @ s) = Some (zs, r)"
  shows "r = s"
  using assms(2,3)
proof (induction ys arbitrary: y n zs r)
  case Nil
  from Nil.prems(2) obtain m x r1 where p: "n = Suc m" "p_value fl m (wide fr y @ CHR '']'' # s) = Some (x, r1)"
    by (cases n) (auto simp: p_items.simps split: option.splits)
  from keyedD [OF _ _ p(2)] Nil.prems(1) have "r1 = CHR '']'' # s \<or> number_start r1" by simp
  with p Nil.prems(2) number_start_stuck [of r1] show ?case by (auto simp: p_items.simps Let_def split: if_splits)
next
  case (Cons z ys)
  from Cons.prems(2) obtain m x r1 where p: "n = Suc m" "p_value fl m (wide fr y @ wide_tail fr (z # ys) @ s) = Some (x, r1)"
    by (cases n) (auto simp: p_items.simps split: option.splits)
  from keyedD [OF _ _ p(2)] Cons.prems(1) have "r1 = wide_tail fr (z # ys) @ s \<or> number_start r1" by simp
  with p Cons.prems(2) number_start_stuck [of r1] wide_stays [OF assms(1), of z] Cons.prems(1)
  obtain us where "p_items fl m (wide fr z @ wide_tail fr ys @ s) = Some (us, r)"
    by (auto simp: p_items.simps Let_def split: if_splits)
  from Cons.IH [OF _ this] Cons.prems(1) show ?case by simp
qed

lemma members_keyed:
  assumes "number_texts fr" "\<forall>p \<in> set ((k, v) # d). keyed fl fr (snd p) \<and> finite_floats (snd p)"
    "p_members fl n ks (quote k @ '': '' @ wide fr v @ wide_pairs fr d @ s) = Some (e, r)"
  shows "r = s \<and> keys e = keys ((k, v) # d)"
  using assms(2,3)
proof (induction d arbitrary: k v n ks e r)
  case Nil
  from Nil.prems(2) obtain m where n: "n = Suc m" by (cases n) (auto simp: p_members.simps)
  from Nil.prems n wide_stays [OF assms(1), of v] obtain x r1 where p: "p_value fl m (wide fr v @ CHR ''}'' # s) = Some (x, r1)"
    by (auto simp: p_members.simps Let_def split: if_splits option.splits)
  from keyedD [OF _ _ p] Nil.prems(1) have "r1 = CHR ''}'' # s \<or> number_start r1" by simp
  with p n Nil.prems wide_stays [OF assms(1), of v] number_start_stuck [of r1] show ?case
    by (auto simp: p_members.simps Let_def split: if_splits)
next
  case (Cons q d)
  obtain k1 v1 where q: "q = (k1, v1)" by (cases q)
  from Cons.prems(2) obtain m where n: "n = Suc m" by (cases n) (auto simp: p_members.simps)
  from Cons.prems n wide_stays [OF assms(1), of v] obtain x r1 where p: "p_value fl m (wide fr v @ wide_pairs fr (q # d) @ s) = Some (x, r1)"
    by (auto simp: p_members.simps Let_def split: if_splits option.splits)
  from keyedD [OF _ _ p] Cons.prems(1) have "r1 = wide_pairs fr (q # d) @ s \<or> number_start r1" by simp
  with p n q Cons.prems wide_stays [OF assms(1), of v] number_start_stuck [of r1]
  obtain us where u: "p_members fl m (k # ks) (quote k1 @ '': '' @ wide fr v1 @ wide_pairs fr d @ s) = Some (us, r)" "e = (k, x) # us"
    by (auto simp: p_members.simps Let_def split: if_splits)
  from Cons.IH [OF _ u(1)] Cons.prems(1) q u(2) show ?case by simp
qed

lemma value_keyed: "number_texts fr \<Longrightarrow> finite_floats v \<Longrightarrow> keyed fl fr v"
proof (induction v)
  case (JList xs)
  show ?case
  proof (rule keyedI)
    fix n s x r
    assume p: "p_value fl (Suc n) (wide fr (JList xs) @ s) = Some (x, r)"
    have "r = s"
    proof (cases xs)
      case Nil
      with p show ?thesis by (simp add: p_value.simps(2))
    next
      case (Cons y ys)
      with p wide_stays [OF JList.prems(1), of y] JList.prems(2)
      obtain zs where "p_items fl n (wide fr y @ wide_tail fr ys @ s) = Some (zs, r)"
        by (auto simp: p_value.simps(2) Let_def)
      with items_keyed [OF JList.prems(1)] JList Cons show ?thesis by (metis finite_floats.simps(2))
    qed
    then show "(r = s \<or> number_start r) \<and> (\<forall>d. JList xs = JObj d \<longrightarrow> r = s \<and> (\<exists>e. x = JObj e \<and> keys e = keys d))" by simp
  qed
next
  case (JObj d)
  show ?case
  proof (rule keyedI)
    fix n s x r
    assume p: "p_value fl (Suc n) (wide fr (JObj d) @ s) = Some (x, r)"
    have "r = s \<and> (\<exists>e. x = JObj e \<and> keys e = keys d)"
    proof (cases d)
      case Nil
      with p show ?thesis by (simp add: p_value.simps(2))
    next
      case (Cons q d')
      obtain k v where q: "q = (k, v)" by (cases q)
      have "finite_floats u" if "(i, u) \<in> set e" "finite_floats_pairs e" for i u e
        using that by (induction e) auto
      then have f: "\<forall>p \<in> set ((k, v) # d'). keyed fl fr (snd p) \<and> finite_floats (snd p)"
        using JObj Cons q by (fastforce simp: snds.simps)
      from p Cons q obtain e where "x = JObj e" "p_members fl n [] (quote k @ '': '' @ wide fr v @ wide_pairs fr d' @ s) = Some (e, r)"
        by (auto simp: p_value.simps(2) Let_def)
      with members_keyed [OF JObj.prems(1) f] Cons q show ?thesis by blast
    qed
    then show "(r = s \<or> number_start r) \<and> (\<forall>d'. JObj d = JObj d' \<longrightarrow> r = s \<and> (\<exists>e. x = JObj e \<and> keys e = keys d'))" by simp
  qed
next
  case (JInt i)
  then show ?case using dec_int_number by (intro keyed_number) simp_all
next
  case (JFloat f)
  then show ?case by (intro keyed_number) (auto simp: number_texts_def enc_float_def)
next
  case (JStr t)
  show ?case by (rule keyedI) (simp add: p_value.simps(2))
next
  case (JBool b)
  show ?case by (cases b; rule keyedI; simp add: p_value.simps(2))
next
  case JNull
  show ?case by (rule keyedI) (simp add: p_value.simps(2))
qed

lemma loads_wide_keys:
  assumes "number_texts fr" "finite_floats (JObj d)" "loads fl (wide fr (JObj d)) = Some x"
  shows "\<exists>e. x = JObj e \<and> keys e = keys d"
proof -
  from wide_stays(1) [OF assms(1,2), of "[]"] assms(3)
  obtain r where "p_value fl (2 * length (wide fr (JObj d)) + 2) (wide fr (JObj d) @ []) = Some (x, r)"
    by (auto simp: loads_def split: if_splits option.splits prod.splits)
  with value_keyed [OF assms(1,2), of fl] show ?thesis unfolding keyed_def by (metis after_value_simps(1))
qed

lemma strict_json_keys:
  "number_texts fr \<Longrightarrow> finite_floats (JObj d) \<Longrightarrow> strict_json fl m (wide fr (JObj d)) = Inr x \<Longrightarrow> \<exists>e. x = JObj e \<and> keys e = keys d"
  using loads_wide_keys [of fr d fl x] by (simp add: strict_json_Inr)

end
