(* ===== verification/Cw_Records.thy ===== *)
theory Cw_Records
  imports Cw_Preserve_Desk Py_Keys
begin

text \<open>
  The records of a workspace (its \<^verbatim>\<open>artifacts\<close>): what every one of them satisfies, and that every mutation
  keeps it. No record is executable or claims authority, a source receipt is sealed by its root, the
  reads of a source stay within its budget, and an ACP job is bound to one plan only.
\<close>

section \<open>One record\<close>

definition sealed_keys :: "string set" where
  "sealed_keys = {''kind'', ''receipt_id'', ''case_id'', ''case_version'', ''source_id'', ''source_spec_hash'', ''independence_group'',
     ''resource'', ''fetched_at'', ''expires_at'', ''authoritative'', ''executable'', ''receipt_root''} \<union> envelope_keys"

definition sealed_receipt :: "env \<Rightarrow> jobj \<Rightarrow> bool" where
  "sealed_receipt E v \<longleftrightarrow> set (keys v) = sealed_keys \<and>
     jget v ''receipt_root'' = JStr (digest E ''source-receipt'' (JObj (filter (\<lambda>(k, x). k \<noteq> ''receipt_root'') v)))"

definition inert :: "jobj \<Rightarrow> bool" where
  "inert v \<longleftrightarrow> jget v ''executable'' \<noteq> JBool True \<and> jget v ''authoritative'' \<noteq> JBool True \<and> jget v ''authority'' \<noteq> JBool True"

definition record_ok :: "env \<Rightarrow> jobj \<Rightarrow> bool" where
  "record_ok E v \<longleftrightarrow> inert v \<and> (jget v ''kind'' = JStr ''SOURCE_RECEIPT'' \<longrightarrow> sealed_receipt E v)"

lemma jget_dset [simp]: "jget (dset k v d) f = (if f = k then v else jget d f)"
  by (simp add: jget_def)

lemma keys_dset [simp]: "fst ` set (dset k v d) = insert k (fst ` set d)"
  by (induction d) auto

lemma dunion_nil [simp]: "dunion d [] = d"
  by (simp add: dunion_def)

lemma dunion_Cons [simp]: "dunion d ((k, v) # e) = dunion (dset k v d) e"
  by (simp add: dunion_def)

lemma keys_dunion [simp]: "fst ` set (dunion d e) = fst ` set d \<union> fst ` set e"
proof (induction e arbitrary: d)
  case (Cons p e)
  then show ?case by (cases p) simp
qed simp

lemma jget_dunion: "f \<notin> set (keys e) \<Longrightarrow> jget (dunion d e) f = jget d f"
  by (induction e arbitrary: d) auto

text \<open>A new receipt is a sealed record.\<close>

lemma observation_keys:
  assumes "number_texts (float_repr E)" "read_result E answer = Inr d"
  shows "set (keys d) = envelope_keys"
proof -
  from assms(2) obtain v where b: "bounded_observation E v = Inr d"
    by (auto simp: read_result_def ebind_def split: sum.splits err.splits)
  then obtain w where v: "v = JObj w" "envelope_valid w" "finite_floats (JObj w)"
    and x: "ebind (renamed bad_envelope (strict_json (float_text E) 64000 (wide (float_repr E) v))) (\<lambda>x.
        case x of JObj e \<Rightarrow> Inr e | _ \<Rightarrow> Inl bad_envelope) = Inr d"
    by (cases v) (auto simp: bounded_observation_def split: if_splits)
  from x obtain y where "strict_json (float_text E) 64000 (wide (float_repr E) v) = Inr y" "(case y of JObj e \<Rightarrow> Inr e | _ \<Rightarrow> Inl bad_envelope) = Inr d"
    by (auto simp: renamed_def ebind_eq_Inr split: sum.splits)
  then have v4: "strict_json (float_text E) 64000 (wide (float_repr E) (JObj w)) = Inr (JObj d)" using v(1) by (cases y) auto
  from strict_json_keys [OF assms(1) v(3) v4] v(2) show ?thesis by (simp add: envelope_valid_def)
qed

lemma dset_filter: "k \<notin> set (keys d) \<Longrightarrow> filter (\<lambda>(i, x). i \<noteq> k) (dset k v d) = d"
  by (induction d) auto

definition receipt_base :: "env \<Rightarrow> string \<Rightarrow> risk_case \<Rightarrow> source_spec \<Rightarrow> string \<Rightarrow> string \<Rightarrow> int \<Rightarrow> jobj" where
  "receipt_base E i k s resource rid finished = [(''kind'', JStr ''SOURCE_RECEIPT''), (''receipt_id'', JStr rid), (''case_id'', JStr i),
     (''case_version'', JInt (rc_version k)), (''source_id'', JStr (sp_id s)), (''source_spec_hash'', JStr (spec_hash E s)),
     (''independence_group'', JStr (sp_group s)), (''resource'', JStr resource), (''fetched_at'', JStr (iso_time E finished)),
     (''expires_at'', JStr (iso_time E (finished + seconds (sp_ttl s))))]"

definition receipt_body :: "jobj \<Rightarrow> jobj \<Rightarrow> jobj" where
  "receipt_body base d = dset ''executable'' (JBool False) (dset ''authoritative'' (JBool False) (dunion base d))"

lemma new_receipt_body:
  "new_receipt E i k s resource rid finished d = (let body = receipt_body (receipt_base E i k s resource rid finished) d in
     dset ''receipt_root'' (JStr (digest E ''source-receipt'' (JObj body))) body)"
  unfolding new_receipt_def receipt_body_def receipt_base_def dunion_Cons dunion_nil by (rule refl)

lemma receipt_base_keys: "set (keys (receipt_base E i k s resource rid finished)) = sealed_keys - envelope_keys - {''authoritative'', ''executable'', ''receipt_root''}"
  unfolding receipt_base_def sealed_keys_def envelope_keys_def by auto

lemma receipt_body_keys:
  assumes "set (keys d) = envelope_keys" "base = receipt_base E i k s resource rid finished"
  shows "set (keys (receipt_body base d)) = sealed_keys - {''receipt_root''}"
  using assms receipt_base_keys [of E i k s resource rid finished]
  by (simp add: receipt_body_def) (auto simp: sealed_keys_def envelope_keys_def)

lemma new_receipt_ok:
  assumes "set (keys d) = envelope_keys"
  shows "record_ok E (new_receipt E i k s resource rid finished d) \<and> jget (new_receipt E i k s resource rid finished d) ''kind'' = JStr ''SOURCE_RECEIPT''"
proof -
  define base where "base = receipt_base E i k s resource rid finished"
  define body where "body = receipt_body base d"
  have n: "new_receipt E i k s resource rid finished d = dset ''receipt_root'' (JStr (digest E ''source-receipt'' (JObj body))) body"
    by (simp add: new_receipt_body Let_def body_def base_def)
  have ks: "set (keys body) = sealed_keys - {''receipt_root''}" unfolding body_def by (rule receipt_body_keys [OF assms base_def])
  have "''kind'' \<notin> set (keys d)" "''authority'' \<notin> set (keys d)" by (simp_all only: assms) (simp_all add: envelope_keys_def)
  then have "jget body ''kind'' = jget base ''kind''" "jget body ''authority'' = jget base ''authority''"
    by (simp_all add: body_def receipt_body_def jget_dunion)
  moreover have "jget base ''kind'' = JStr ''SOURCE_RECEIPT''" "jget base ''authority'' = JNull"
    by (simp_all add: base_def receipt_base_def jget_def)
  moreover have "jget body ''executable'' = JBool False" "jget body ''authoritative'' = JBool False" by (simp_all add: body_def receipt_body_def)
  ultimately have j: "jget (new_receipt E i k s resource rid finished d) ''kind'' = JStr ''SOURCE_RECEIPT''"
    "inert (new_receipt E i k s resource rid finished d)" by (simp_all add: n inert_def)
  have m: "''receipt_root'' \<in> sealed_keys" by (simp add: sealed_keys_def)
  have "set (keys (new_receipt E i k s resource rid finished d)) = insert ''receipt_root'' (set (keys body))" by (simp add: n)
  with ks m have "set (keys (new_receipt E i k s resource rid finished d)) = sealed_keys" by (metis insert_Diff)
  moreover have "''receipt_root'' \<notin> set (keys body)" unfolding ks by blast
  ultimately have "sealed_receipt E (new_receipt E i k s resource rid finished d)"
    unfolding sealed_receipt_def by (simp only: n jget_dset dset_filter simp_thms if_True)
  with j show ?thesis by (simp only: record_ok_def simp_thms)
qed

section \<open>Changes that keep the identity of the records\<close>

definition same_identity :: "jobj \<Rightarrow> jobj \<Rightarrow> bool" where
  "same_identity u v \<longleftrightarrow> (\<forall>f \<in> {''kind'', ''case_id'', ''source_id'', ''plan_id'', ''bound_job_id'', ''chain_id''}. jget v f = jget u f)"

text \<open>Records of other kinds are added, and records are edited apart from what identifies them.\<close>

inductive quiet :: "env \<Rightarrow> jobj dict \<Rightarrow> jobj dict \<Rightarrow> bool" for E d where
  refl: "quiet E d d"
| new: "quiet E d e \<Longrightarrow> jget v ''kind'' \<notin> {JStr ''SOURCE_REQUEST'', JStr ''ACP_REVIEW_PLAN''} \<Longrightarrow> record_ok E v \<Longrightarrow> quiet E d (dset k v e)"
| edit: "quiet E d e \<Longrightarrow> map_of e k = Some u \<Longrightarrow> same_identity u v \<Longrightarrow> (record_ok E u \<Longrightarrow> record_ok E v) \<Longrightarrow> quiet E d (dset k v e)"

lemma quiet_trans: "quiet E a b \<Longrightarrow> quiet E b c \<Longrightarrow> quiet E a c"
  by (rotate_tac, induction rule: quiet.induct) (auto intro: quiet.intros)

definition attempts :: "jobj dict \<Rightarrow> string \<Rightarrow> string \<Rightarrow> nat" where
  "attempts d i source = length (filter (source_request i source) (map snd d))"

lemma attempts_made: "attempts_made w = attempts (ws_artifacts w)"
  by (simp add: attempts_made_def attempts_def fun_eq_iff)

lemma attempts_dset: "attempts (dset k v d) i src \<le> attempts d i src + (if source_request i src v then 1 else 0)"
  by (induction d) (auto simp: attempts_def)

lemma attempts_edit:
  "map_of d k = Some u \<Longrightarrow> (source_request i src v \<Longrightarrow> source_request i src u) \<Longrightarrow> attempts (dset k v d) i src \<le> attempts d i src"
  by (induction d) (auto simp: attempts_def split: if_splits)

definition acp_plan :: "jobj \<Rightarrow> bool" where
  "acp_plan v \<longleftrightarrow> jget v ''kind'' = JStr ''ACP_REVIEW_PLAN''"

definition plans_named :: "service \<Rightarrow> jobj dict \<Rightarrow> bool" where
  "plans_named S d \<longleftrightarrow> (\<forall>p v. map_of d p = Some v \<longrightarrow> acp_plan v \<longrightarrow> jget v ''plan_id'' = JStr p \<and>
     (\<forall>V. sv_partner S = Some V \<longrightarrow> jget v ''chain_id'' = JInt (vs_chain V)))"

definition jobs_once :: "jobj dict \<Rightarrow> bool" where
  "jobs_once d \<longleftrightarrow> (\<forall>p q u v job. map_of d p = Some u \<longrightarrow> map_of d q = Some v \<longrightarrow> acp_plan u \<longrightarrow> acp_plan v \<longrightarrow>
     jget u ''bound_job_id'' = JStr job \<longrightarrow> jget v ''bound_job_id'' = JStr job \<longrightarrow> p = q)"

definition within_budget :: "service \<Rightarrow> jobj dict \<Rightarrow> bool" where
  "within_budget S d \<longleftrightarrow> (\<forall>D i src s. sv_desk S = Some D \<longrightarrow> spec_of D src = Some s \<longrightarrow> int (attempts d i src) \<le> sp_attempts s)"

definition tidy :: "env \<Rightarrow> service \<Rightarrow> jobj dict \<Rightarrow> bool" where
  "tidy E S d \<longleftrightarrow> distinct (keys d) \<and> (\<forall>p v. map_of d p = Some v \<longrightarrow> record_ok E v) \<and> within_budget S d \<and> plans_named S d \<and> jobs_once d"

lemma within_budget_mono: "within_budget S d \<Longrightarrow> (\<And>i src. attempts e i src \<le> attempts d i src) \<Longrightarrow> within_budget S e"
  unfolding within_budget_def by (meson of_nat_mono order_trans)

text \<open>A record that is no plan may be stored anywhere, and a plan may be replaced by one of the same identity.\<close>

lemma jobs_once_other: "jobs_once d \<Longrightarrow> \<not> acp_plan v \<Longrightarrow> jobs_once (dset k v d)"
  unfolding jobs_once_def by (simp add: all_conj_distrib split: if_splits)

lemma plans_named_other: "plans_named S d \<Longrightarrow> \<not> acp_plan v \<Longrightarrow> plans_named S (dset k v d)"
  unfolding plans_named_def by simp

lemma same_identity_D:
  assumes "same_identity u v"
  shows "jget v ''kind'' = jget u ''kind''" "jget v ''case_id'' = jget u ''case_id''" "jget v ''source_id'' = jget u ''source_id''"
    "jget v ''plan_id'' = jget u ''plan_id''" "jget v ''bound_job_id'' = jget u ''bound_job_id''" "jget v ''chain_id'' = jget u ''chain_id''"
  using assms by (simp_all add: same_identity_def)

lemma plans_named_edit:
  assumes "plans_named S d" "map_of d k = Some u" "same_identity u v"
  shows "plans_named S (dset k v d)"
  using assms(1,2) same_identity_D [OF assms(3)] unfolding plans_named_def acp_plan_def by simp

lemma jobs_once_edit:
  assumes "jobs_once d" "map_of d k = Some u" "same_identity u v"
  shows "jobs_once (dset k v d)"
  unfolding jobs_once_def
proof (intro allI impI)
  fix p q x y job
  let ?o = "\<lambda>p x. if p = k then u else x"
  assume h: "map_of (dset k v d) p = Some x" "map_of (dset k v d) q = Some y" "acp_plan x" "acp_plan y"
    "jget x ''bound_job_id'' = JStr job" "jget y ''bound_job_id'' = JStr job"
  then have "map_of d p = Some (?o p x)" "map_of d q = Some (?o q y)" using assms(2) by (auto split: if_splits)
  moreover have "acp_plan (?o p x)" "acp_plan (?o q y)" "jget (?o p x) ''bound_job_id'' = JStr job" "jget (?o q y) ''bound_job_id'' = JStr job"
    using h same_identity_D [OF assms(3)] by (auto simp: acp_plan_def split: if_splits)
  ultimately show "p = q" using assms(1) unfolding jobs_once_def by blast
qed

lemma tidyD:
  assumes "tidy E S d"
  shows "distinct (keys d)" "map_of d p = Some v \<Longrightarrow> record_ok E v" "within_budget S d" "plans_named S d" "jobs_once d"
  using assms unfolding tidy_def by blast+

lemma tidy_dset:
  assumes "tidy E S d" "record_ok E v" "within_budget S (dset k v d)" "plans_named S (dset k v d)" "jobs_once (dset k v d)"
  shows "tidy E S (dset k v d)"
  using tidyD(1,2) [OF assms(1)] assms(2-) unfolding tidy_def by (simp del: map_of_eq_Some_iff)

lemma quiet_tidy: "quiet E d e \<Longrightarrow> tidy E S d \<Longrightarrow> tidy E S e"
proof (induction rule: quiet.induct)
  case (new e v k)
  then have t: "tidy E S e" and v: "\<not> acp_plan v" "\<not> source_request i src v" for i src
    by (simp_all only: acp_plan_def source_request_def) auto
  have "attempts (dset k v e) i src \<le> attempts e i src" for i src using v(2) attempts_dset [of k v e i src] by simp
  with tidyD(3) [OF t] have "within_budget S (dset k v e)" by (rule within_budget_mono)
  from tidy_dset [OF t new.hyps(3) this plans_named_other [OF tidyD(4) [OF t] v(1)] jobs_once_other [OF tidyD(5) [OF t] v(1)]] show ?case .
next
  case (edit e k u v)
  then have t: "tidy E S e" by simp
  have "source_request i src v \<Longrightarrow> source_request i src u" for i src
    using same_identity_D [OF edit.hyps(3)] by (simp add: source_request_def)
  then have "attempts (dset k v e) i src \<le> attempts e i src" for i src by (rule attempts_edit [OF edit.hyps(2)])
  with tidyD(3) [OF t] have b: "within_budget S (dset k v e)" by (rule within_budget_mono)
  have r: "record_ok E v" by (rule edit.hyps(4) [OF tidyD(2) [OF t edit.hyps(2)]])
  from tidy_dset [OF t r b plans_named_edit [OF tidyD(4) [OF t] edit.hyps(2,3)] jobs_once_edit [OF tidyD(5) [OF t] edit.hyps(2,3)]] show ?case .
qed

end
