(* ===== verification/Cw_Records_Keep.thy ===== *)
theory Cw_Records_Keep
  imports Cw_Records
begin

text \<open>Every mutation keeps the records tidy. Most add one record of their own kind or edit the state of one.\<close>

section \<open>Mutations that add or edit records\<close>

lemma literal_record:
  "jget v ''executable'' \<in> {JNull, JBool False} \<Longrightarrow> jget v ''authoritative'' \<in> {JNull, JBool False} \<Longrightarrow> jget v ''authority'' \<in> {JNull, JBool False} \<Longrightarrow>
    jget v ''kind'' \<noteq> JStr ''SOURCE_RECEIPT'' \<Longrightarrow> record_ok E v"
  by (auto simp: record_ok_def inert_def)

lemma quiet_new: "jget v ''executable'' \<in> {JNull, JBool False} \<Longrightarrow> jget v ''authoritative'' \<in> {JNull, JBool False} \<Longrightarrow>
    jget v ''authority'' \<in> {JNull, JBool False} \<Longrightarrow>
    jget v ''kind'' \<notin> {JStr ''SOURCE_RECEIPT'', JStr ''SOURCE_REQUEST'', JStr ''ACP_REVIEW_PLAN''} \<Longrightarrow> quiet E d (dset k v d)"
  by (rule quiet.new [OF quiet.refl]) (auto intro: literal_record)

lemma remember_quiet: "remember_policy E w c p ids = Inr w' \<Longrightarrow> quiet E (ws_artifacts w) (ws_artifacts w')"
  by (auto simp: remember_policy_def Let_def obligation_fields_def jget_def intro!: quiet_new quiet.refl split: if_splits)

lemma desk_remember_quiet: "desk_remember E D w c ids = Inr w' \<Longrightarrow> quiet E (ws_artifacts w) (ws_artifacts w')"
  by (auto simp: desk_remember_def intro: quiet.refl remember_quiet split: option.splits)

lemma invalidate_artifacts [simp]: "ws_artifacts (fst (invalidate E w s token reason)) = ws_artifacts w"
  by (simp add: invalidate_def Let_def)

lemma set_baseline_quiet: "set_baseline_change E a c w seq = Inr (w', r) \<Longrightarrow> quiet E (ws_artifacts w) (ws_artifacts w')"
  by (auto simp: set_baseline_change_def Let_def invalidate_def intro: quiet.refl)

lemma decide_task_quiet: "decide_task E w k t a session rv explicit R = Inr (w', d) \<Longrightarrow> quiet E (ws_artifacts w) (ws_artifacts w')"
  by (auto simp: decide_task_def store_decision_def Let_def escalation_def jget_def intro!: quiet_new intro: quiet.refl)

lemma register_task_quiet: "register_task_change E a c R w seq = Inr (w', r) \<Longrightarrow> quiet E (ws_artifacts w) (ws_artifacts w')"
  by (auto simp: register_task_change_def Let_def split: if_splits dest!: decide_task_quiet)

lemma evaluate_quiet: "evaluate_change E a c k ex R w seq = Inr (w', r) \<Longrightarrow> quiet E (ws_artifacts w) (ws_artifacts w')"
  by (auto simp: evaluate_change_def dest!: decide_task_quiet)

lemma open_case_quiet: "open_case_change E S a c R w seq = Inr (w', r) \<Longrightarrow> quiet E (ws_artifacts w) (ws_artifacts w')"
  by (auto simp: open_case_change_def Let_def invalidate_def split: if_splits dest!: desk_remember_quiet)

lemma reopen_case_quiet: "reopen_case_change E S a c i w seq = Inr (w', r) \<Longrightarrow> quiet E (ws_artifacts w) (ws_artifacts w')"
  by (auto simp: reopen_case_change_def Let_def invalidate_def split: if_splits dest!: desk_remember_quiet)

lemma quarantine_quiet: "quarantine_change E c w seq = Inr (w', r) \<Longrightarrow> quiet E (ws_artifacts w) (ws_artifacts w')"
  by (auto simp: quarantine_change_def intro: quiet.refl)

lemma reserve_quiet: "reserve_change E a c i b R w seq = Inr (w', r) \<Longrightarrow> quiet E (ws_artifacts w) (ws_artifacts w')"
  by (auto simp: reserve_change_def attempt_record_def jget_def intro!: quiet_new split: if_splits)

lemma handoff_quiet: "handoff_change E S a c i R w seq = Inr (w', r) \<Longrightarrow> quiet E (ws_artifacts w) (ws_artifacts w')"
  by (auto simp: handoff_change_def Let_def intro!: quiet.refl split: option.splits if_splits)

lemma accept_quiet: "accept_change E S a i R w seq = Inr (w', r) \<Longrightarrow> quiet E (ws_artifacts w) (ws_artifacts w')"
  by (auto simp: accept_change_def Let_def intro!: quiet.refl split: option.splits if_splits)

lemma prepare_review_quiet: "prepare_review_change E a k d R w seq = Inr (w', r) \<Longrightarrow> quiet E (ws_artifacts w) (ws_artifacts w')"
  by (auto simp: prepare_review_change_def review_artifact_def Let_def jget_def intro!: quiet_new split: if_splits option.splits)

lemma prepare_anchor_quiet: "prepare_anchor_change B a k d R w seq = Inr (w', r) \<Longrightarrow> quiet E (ws_artifacts w) (ws_artifacts w')"
  by (auto simp: prepare_anchor_change_def anchor_record_def Let_def jget_def intro!: quiet_new split: if_splits option.splits)

lemma link_resolution_quiet: "quiet E arts (link_resolution E a c i v r h seq arts)"
  by (auto simp: link_resolution_def resolution_proof_def jget_def intro!: quiet_new intro: quiet.refl)

lemma resolve_quiet:
  assumes "resolve_change E S a c i R w seq = Inr (w', res)"
  shows "quiet E (ws_artifacts w) (ws_artifacts w')"
proof -
  from assms obtain k0 h r hist w2 w3 where m: "desk_remember E (sv_desk S) (w\<lparr>ws_cases := dset i (resolved a (rs_resolution c) seq k0) (ws_cases w),
       ws_artifacts := link_resolution E a c i (rc_version k0 + 1) r h seq (ws_artifacts w),
       ws_case_history := dset i (hist @ [resolved a (rs_resolution c) seq k0]) (ws_case_history w)\<rparr>)
       (resolved a (rs_resolution c) seq k0) [] = Inr w2"
    and l: "resolve_loop E (version_ref ''resolution'' i (rc_version k0 + 1)) R 20 w2 (affected_tasks E w2 (rc_scope k0)) = Inr w3"
    and w': "ws_artifacts w' = ws_artifacts w3"
    by (auto simp: resolve_change_def Let_def append_history_Inr)
  have "w3 = w2\<lparr>ws_tasks := ws_tasks w3\<rparr>" using resolve_loop_spec [OF l affected_tasks_sorted(2)] by simp
  then have "ws_artifacts w3 = ws_artifacts (w2\<lparr>ws_tasks := ws_tasks w3\<rparr>)" by (rule arg_cong)
  then have "ws_artifacts w3 = ws_artifacts w2" by simp
  moreover from desk_remember_quiet [OF m]
  have "quiet E (link_resolution E a c i (rc_version k0 + 1) r h seq (ws_artifacts w)) (ws_artifacts w2)" by simp
  ultimately show ?thesis using w' quiet_trans [OF link_resolution_quiet] by simp
qed

text \<open>A receipt has none of the keys that an edit of another record needs.\<close>

lemma receipt_lacks:
  assumes "record_ok E u" "jget u ''kind'' = JStr ''SOURCE_RECEIPT''" "f \<in> {''plan'', ''state'', ''request_id'', ''request_hash''}"
  shows "map_of u f = None"
proof -
  have "f \<notin> sealed_keys" using assms(3) unfolding sealed_keys_def envelope_keys_def by auto
  with assms(1,2) show ?thesis by (simp add: record_ok_def sealed_receipt_def map_of_eq_None_iff)
qed

lemma edit_ok:
  assumes "map_of u f \<noteq> None" "f \<in> {''plan'', ''state'', ''request_id'', ''request_hash''}"
    "\<And>g. g \<in> {''kind'', ''executable'', ''authoritative'', ''authority''} \<Longrightarrow> jget v g = jget u g" "record_ok E u"
  shows "record_ok E v"
proof -
  have "jget u ''kind'' \<noteq> JStr ''SOURCE_RECEIPT''" using receipt_lacks [OF assms(4) _ assms(2)] assms(1) by blast
  with assms(3,4) show ?thesis by (simp add: record_ok_def inert_def)
qed

lemma quiet_edit:
  assumes "map_of d k = Some u" "map_of u f \<noteq> None" "f \<in> {''plan'', ''state'', ''request_id'', ''request_hash''}" "same_identity u v"
    "\<And>g. g \<in> {''executable'', ''authoritative'', ''authority''} \<Longrightarrow> jget v g = jget u g"
  shows "quiet E d (dset k v d)"
  by (rule quiet.edit [OF quiet.refl assms(1,4)], rule edit_ok [OF assms(2,3)])
    (use assms(5) same_identity_D [OF assms(4)] in auto)


lemma verify_anchor_quiet:
  assumes "verify_change E i tx plan v w seq = Inr (w', r)"
  shows "quiet E (ws_artifacts w) (ws_artifacts w')"
proof -
  from assms obtain art where a: "map_of (ws_artifacts w) i = Some art" by (auto simp: verify_change_def split: option.splits)
  with assms obtain p where "jfield art ''plan'' = Inr p" by (auto simp: verify_change_def)
  then have p: "map_of art ''plan'' \<noteq> None" by (auto simp: jfield_def split: option.splits)
  from assms show ?thesis
  proof (rule verify_change_Inr)
    fix art' old
    assume b: "map_of (ws_artifacts w) i = Some art'" and w': "w' = w\<lparr>ws_artifacts := dset i (recorded tx old v art') (ws_artifacts w)\<rparr>"
    from a b have "art' = art" by simp
    with w' a p show ?thesis
      by (simp, intro quiet_edit [of _ _ art "''plan''"]) (auto simp: recorded_def Let_def same_identity_def)
  qed
qed

lemma complete_attempt_quiet:
  assumes "complete_attempt E k r R d = Inr d'"
  shows "quiet E d d'"
proof -
  from assms obtain t where t: "map_of d k = Some t" "jget t ''state'' = JStr ''PENDING''"
      "d' = dset k (dunion t [(''state'', JStr ''COMPLETED''), (''report_id'', JStr (rp_id r)), (''completed_at'', JStr (iso_time E (rn_clock R 11)))]) d"
    by (auto simp: complete_attempt_def split: option.splits if_splits)
  from t(2) have "map_of t ''state'' \<noteq> None" by (cases "map_of t ''state''") (auto simp: jget_def)
  with t show ?thesis by (simp, intro quiet_edit [of _ _ t "''state''"]) (auto simp: same_identity_def)
qed

lemma investigate_quiet:
  assumes "investigate_change E S a c i n m r R w seq = Inr (w', res)"
  shows "quiet E (ws_artifacts w) (ws_artifacts w')"
proof -
  from assms obtain arts where a: "(if m then complete_attempt E (attempt_key E a c) r R (ws_artifacts w) else Inr (ws_artifacts w)) = Inr arts"
      and w': "ws_artifacts w' = (case sn_external n of None \<Rightarrow> arts | Some x \<Rightarrow> dset (report_sources_key E (rp_id r)) (report_bundle i r x) arts)"
    unfolding investigate_change_def by (elim ebind_InrE) auto
  have "quiet E (ws_artifacts w) arts" using a complete_attempt_quiet quiet.refl by (cases m) auto
  moreover have "quiet E arts (ws_artifacts w')"
    unfolding w' by (cases "sn_external n") (auto simp: report_bundle_def jget_def intro!: quiet_new quiet.refl)
  ultimately show ?thesis by (rule quiet_trans)
qed

section \<open>The evidence desk\<close>

lemma plan_mission_quiet: "plan_mission_change E S D a c i w seq = Inr (w', r) \<Longrightarrow> quiet E (ws_artifacts w) (ws_artifacts w')"
  by (auto simp: plan_mission_change_def mission_record_def Let_def jget_def split: if_splits
      intro!: quiet_trans [OF desk_remember_quiet quiet_new])

lemma resume_quiet: "resume_change a c m rec i w seq = Inr (w', r) \<Longrightarrow> quiet E (ws_artifacts w) (ws_artifacts w')"
  by (auto simp: resume_change_def intro!: quiet.refl split: if_splits)

lemma incident_quiet:
  assumes "incident_change E S a d now R w seq = Inr (w', r)"
  shows "quiet E (ws_artifacts w) (ws_artifacts w')"
  by (rule incident_change_Inr [OF assms])
    (auto simp: incident_receipt_def jget_def intro!: quiet_new quiet_trans [OF _ quiet_new] dest!: desk_remember_quiet)

lemma finish_read_quiet:
  assumes nt: "number_texts (float_repr E)"
    and f: "finish_read_change E a i k s resource rid (read_result E answer) finished R w seq = Inr (w', r)"
  shows "quiet E (ws_artifacts w) (ws_artifacts w')"
  using f
proof (rule finish_read_change_Inr)
  fix item st mine head rcid
  define got where "got = read_result E answer"
  define a1 where "a1 = dset rid (finished_item E st finished got rcid item) (ws_artifacts w)"
  define a2 where "a2 = (case got of Inl _ \<Rightarrow> a1 | Inr d \<Rightarrow> dset rcid (new_receipt E i k s resource rcid finished d) a1)"
  assume item: "map_of (ws_artifacts w) rid = Some item" "jfield item ''state'' = Inr (JStr ''PENDING'')"
    and h: "head = (case map_of (ws_artifacts w) (source_key E i (sp_id s)) of None \<Rightarrow> [] | Some h \<Rightarrow> h)"
    and mine: "mine = (jget head ''request_id'' = JStr rid)"
    and w0: "w' = w\<lparr>ws_artifacts := (let a1 = dset rid (finished_item E st finished (read_result E answer) rcid item) (ws_artifacts w);
       a2 = (case read_result E answer of Inl _ \<Rightarrow> a1 | Inr d \<Rightarrow> dset rcid (new_receipt E i k s resource rcid finished d) a1)
       in if mine then dset (source_key E i (sp_id s)) (finished_head st (read_result E answer) rcid head) a2 else a2)\<rparr>"
  have w': "ws_artifacts w' = (if mine then dset (source_key E i (sp_id s)) (finished_head st got rcid head) a2 else a2)"
    unfolding w0 a2_def a1_def got_def Let_def by simp
  from item(2) have "map_of item ''state'' \<noteq> None" by (auto simp: jfield_def split: option.splits)
  then have q1: "quiet E (ws_artifacts w) a1" unfolding a1_def
    by (rule_tac quiet_edit [OF item(1)]) (auto simp: finished_item_def Let_def same_identity_def split: sum.splits)
  have q2: "quiet E a1 a2"
  proof (cases got)
    case (Inr d)
    with observation_keys [OF nt] have "set (keys d) = envelope_keys" by (simp add: got_def)
    from new_receipt_ok [OF this, of E i k s resource rcid finished] show ?thesis
      unfolding a2_def Inr sum.case by (intro quiet.new [OF quiet.refl]) auto
  qed (simp add: a2_def quiet.refl)
  have "quiet E a1 (ws_artifacts w')"
  proof (cases mine)
    case True
    then have hr: "map_of head ''request_id'' \<noteq> None" using mine by (cases "map_of head ''request_id''") (auto simp: jget_def)
    let ?k = "source_key E i (sp_id s)"
    have hd: "map_of (ws_artifacts w) ?k = Some head"
      using h hr by (cases "map_of (ws_artifacts w) ?k") auto
    have e: "quiet E d (dset ?k (finished_head st got rcid head) d)" if d: "map_of d ?k = map_of a1 ?k" for d
    proof (cases "?k = rid")
      case True
      with hd item(1) have "head = item" by simp
      with True d show ?thesis
        by (intro quiet_edit [of _ _ "finished_item E st finished got rcid item" "''state''"])
          (auto simp: a1_def finished_item_def finished_head_def Let_def same_identity_def split: sum.splits)
    next
      case False
      with d hd have "map_of d ?k = Some head" by (simp add: a1_def)
      then show ?thesis using hr
        by (intro quiet_edit [of _ _ head "''request_id''"]) (auto simp: finished_head_def Let_def same_identity_def split: sum.splits)
    qed
    show ?thesis
    proof (cases "?k = rcid")
      case True
      then have "dset ?k (finished_head st got rcid head) a2 = dset ?k (finished_head st got rcid head) a1"
        by (cases got) (simp_all add: a2_def)
      with e [of a1] w' \<open>mine\<close> show ?thesis by simp
    next
      case False
      then have "map_of a2 ?k = map_of a1 ?k" by (cases got) (simp_all add: a2_def)
      with e [of a2] \<open>mine\<close> quiet_trans [OF q2] show ?thesis by (simp add: w')
    qed
  qed (simp add: w' q2)
  with q1 show ?thesis by (rule quiet_trans)
qed

section \<open>Mutations that reserve a read or bind a job\<close>

lemma literal_dset:
  assumes "tidy E S d" "record_ok E v" "\<not> acp_plan v"
    "\<And>D i src s. sv_desk S = Some D \<Longrightarrow> spec_of D src = Some s \<Longrightarrow> int (attempts (dset k v d) i src) \<le> sp_attempts s"
  shows "tidy E S (dset k v d)"
  using tidy_dset [OF assms(1,2) _ plans_named_other [OF tidyD(4) [OF assms(1)] assms(3)] jobs_once_other [OF tidyD(5) [OF assms(1)] assms(3)]]
    assms(4) by (simp add: within_budget_def)

definition reserve_mutation :: "env \<Rightarrow> service \<Rightarrow> actor \<Rightarrow> collect_command \<Rightarrow> string \<Rightarrow> risk_case \<Rightarrow> run \<Rightarrow> mutation" where
  "reserve_mutation E S a c i k R w seq =
     ebind (desk_of S) (\<lambda>D.
     ebind (read_target D a (lc_source c) (lc_resource c) (rc_scope k)) (\<lambda>(s, resource).
     reserve_read_change E D a c i k s resource R w seq))"

lemma reserve_mutation_keeps: "reserve_mutation E S a c i k R w seq = Inr (w', r) \<Longrightarrow> keeps E w w'"
  by (auto simp: reserve_mutation_def dest: reserve_read_keeps)

lemma reserve_mutation_tidy:
  assumes r: "reserve_mutation E S a c i k R w seq = Inr (w', res)" and t: "tidy E S (ws_artifacts w)"
  shows "tidy E S (ws_artifacts w')"
proof -
  from r obtain D s resource where D: "sv_desk S = Some D" "spec_of D (lc_source c) = Some s"
      and f: "reserve_read_change E D a c i k s resource R w seq = Inr (w', res)"
    by (auto simp: reserve_mutation_def desk_of_def read_target_def allowed_spec_def split: option.splits if_splits)
  have id: "sp_id s = lc_source c" using D(2) by (auto simp: spec_of_def dest!: map_of_SomeD)
  from f show ?thesis
  proof (cases rule: reserve_read_change_Inr)
    case (hit k' w1)
    with t quiet_tidy [OF desk_remember_quiet] show ?thesis by blast
  next
    case (grant k' w1)
    let ?q = "request_item E a i k' s resource (fetch_id E (ac_tenant a) (ac_id a) (cm_key c)) (rn_clock R 41)"
    let ?d = "dset (fetch_id E (ac_tenant a) (ac_id a) (cm_key c)) ?q (ws_artifacts w1)"
    have t1: "tidy E S (ws_artifacts w1)" by (rule quiet_tidy [OF desk_remember_quiet [OF grant(4)] t])
    have "int (attempts ?d j src) \<le> sp_attempts s'" if s': "sv_desk S = Some D'" "spec_of D' src = Some s'" for D' j src s'
    proof (cases "j = i \<and> src = sp_id s")
      case True
      with s' D id have "s' = s" by simp
      with True grant(5) attempts_dset [of "fetch_id E (ac_tenant a) (ac_id a) (cm_key c)" ?q "ws_artifacts w1" i "sp_id s"]
      show ?thesis by (simp add: attempts_made split: if_splits)
    next
      case False
      then have "\<not> source_request j src ?q" by (auto simp: source_request_def request_item_def jget_def)
      with attempts_dset [of "fetch_id E (ac_tenant a) (ac_id a) (cm_key c)" ?q "ws_artifacts w1" j src]
      have "attempts ?d j src \<le> attempts (ws_artifacts w1) j src" by simp
      moreover have "int (attempts (ws_artifacts w1) j src) \<le> sp_attempts s'"
        using tidyD(3) [OF t1] s' by (simp add: within_budget_def)
      ultimately show ?thesis by linarith
    qed
    then have "tidy E S ?d"
      by (intro literal_dset t1 literal_record) (auto simp: request_item_def acp_plan_def jget_def)
    moreover have "quiet E ?d (dset (source_key E i (sp_id s)) (head_item i k' s (fetch_id E (ac_tenant a) (ac_id a) (cm_key c))) ?d)"
      by (rule quiet_new) (auto simp: head_item_def jget_def)
    ultimately show ?thesis using grant(6) quiet_tidy by simp
  qed
qed

lemma prepare_partner_tidy:
  assumes f: "prepare_partner_change E S a i rid R w seq = Inr (w', r)" and t: "tidy E S (ws_artifacts w)"
  shows "tidy E S (ws_artifacts w')"
  using f
proof (cases rule: prepare_partner_change_Inr)
  case (new k V p q bnd)
  define k0 where "k0 = new_id ''acpreview'' (rn_uuid R 11)"
  define v where "v = partner_plan E V k0 i k p (partner_requirements E k0 k q bnd) (rn_clock R 51)"
  have V: "sv_partner S = Some V" using new(1) by (auto simp: partner_of_def split: option.splits if_splits)
  have v: "jget v ''kind'' = JStr ''ACP_REVIEW_PLAN''" "jget v ''plan_id'' = JStr k0" "jget v ''chain_id'' = JInt (vs_chain V)"
    "jget v ''bound_job_id'' = JNull" "record_ok E v"
    by (simp_all add: v_def partner_plan_def jget_def record_ok_def inert_def)
  have "attempts (dset k0 v (ws_artifacts w)) j src \<le> attempts (ws_artifacts w) j src" for j src
    using attempts_dset [of k0 v "ws_artifacts w" j src] v(1) by (simp add: source_request_def)
  then have "within_budget S (dset k0 v (ws_artifacts w))" by (rule within_budget_mono [OF tidyD(3) [OF t]])
  moreover have "plans_named S (dset k0 v (ws_artifacts w))"
    using tidyD(4) [OF t] v V unfolding plans_named_def by simp
  moreover have "jobs_once (dset k0 v (ws_artifacts w))"
    using tidyD(5) [OF t] v(4) unfolding jobs_once_def by (simp split: if_splits)
  ultimately show ?thesis using tidy_dset [OF t v(5)] new(2) by (simp add: k0_def v_def)
qed (use t in simp)

lemma observed_plan_fields:
  assumes "observed_plan E job v now art = Inr art'"
  shows "f \<notin> {''bound_job_id'', ''state'', ''observations''} \<Longrightarrow> jget art' f = jget art f"
    "jget art' ''bound_job_id'' \<in> {jget art ''bound_job_id'', JStr job}"
  using assms by (auto simp: observed_plan_def Let_def split: json.splits if_splits)

lemma job_not_reused:
  assumes "\<not> job_reused V w p job" "map_of (ws_artifacts w) q = Some u" "acp_plan u" "jget u ''plan_id'' = JStr q"
    "jget u ''chain_id'' = JInt (vs_chain V)" "q \<noteq> p"
  shows "jget u ''bound_job_id'' \<noteq> JStr job"
proof
  assume j: "jget u ''bound_job_id'' = JStr job"
  have "u \<in> snd ` set (ws_artifacts w)" using map_of_SomeD [OF assms(2)] by force
  then have "job_reused V w p job" unfolding job_reused_def list_ex_iff
    using j assms(3-6) by (intro bexI [of _ u]) (simp_all add: acp_plan_def py_eq_def)
  with assms(1) show False by simp
qed

lemma jobs_once_bind:
  assumes "jobs_once d" "map_of d p = Some u" "acp_plan v \<longleftrightarrow> acp_plan u" "jget v ''bound_job_id'' \<in> {jget u ''bound_job_id'', JStr job}"
    and free: "\<And>q x. map_of d q = Some x \<Longrightarrow> acp_plan x \<Longrightarrow> q \<noteq> p \<Longrightarrow> jget x ''bound_job_id'' \<noteq> JStr job"
  shows "jobs_once (dset p v d)"
proof -
  have one: "x = y" if "map_of d x = Some a" "map_of d y = Some b" "acp_plan a" "acp_plan b"
      "jget a ''bound_job_id'' = JStr j" "jget b ''bound_job_id'' = JStr j" for x y a b j
    using assms(1) that unfolding jobs_once_def by blast
  have other: "q = p" if q: "map_of d q = Some x" "acp_plan x" "jget x ''bound_job_id'' = JStr j" and v: "acp_plan v" "jget v ''bound_job_id'' = JStr j" for q x j
  proof (rule ccontr)
    assume qp: "q \<noteq> p"
    from v(2) assms(4) consider "jget u ''bound_job_id'' = JStr j" | "j = job" by auto
    then show False
    proof cases
      case 1
      with one [OF q(1) assms(2) q(2) _ q(3)] v(1) assms(3) qp show False by simp
    next
      case 2
      with free [OF q(1,2) qp] q(3) show False by simp
    qed
  qed
  show ?thesis unfolding jobs_once_def
  proof (intro allI impI)
    fix x y a b j
    assume h: "map_of (dset p v d) x = Some a" "map_of (dset p v d) y = Some b" "acp_plan a" "acp_plan b"
      "jget a ''bound_job_id'' = JStr j" "jget b ''bound_job_id'' = JStr j"
    consider "x = p" "y = p" | "x = p" "y \<noteq> p" | "x \<noteq> p" "y = p" | "x \<noteq> p" "y \<noteq> p" by blast
    then show "x = y"
    proof cases
      case 2
      with h have "map_of d y = Some b" "a = v" by simp_all
      with other [of y b j] h 2 show ?thesis by simp
    next
      case 3
      with h have "map_of d x = Some a" "b = v" by simp_all
      with other [of x a j] h 3 show ?thesis by simp
    next
      case 4
      with h one [of x a y b j] show ?thesis by simp
    qed simp
  qed
qed

lemma save_partner_tidy:
  assumes f: "save_partner_change E S a p job plan v R w seq = Inr (w', r)" and t: "tidy E S (ws_artifacts w)"
  shows "tidy E S (ws_artifacts w')"
  using f
proof (rule save_partner_change_Inr)
  fix V art art'
  let ?d = "ws_artifacts w"
  assume V: "sv_partner S = Some V" and art: "map_of ?d p = Some art" "map_of art ''request_hash'' \<noteq> None"
    and nr: "\<not> job_reused V w p job" and obs: "observed_plan E job v (rn_clock R 53) art = Inr art'"
    and w': "w' = w\<lparr>ws_artifacts := dset p art' ?d\<rparr>"
  note fld = observed_plan_fields [OF obs]
  have kept: "jget art' g = jget art g" if "g \<in> {''kind'', ''case_id'', ''source_id'', ''plan_id'', ''chain_id'', ''executable'', ''authoritative'', ''authority''}" for g
    by (rule fld(1)) (use that in auto)
  have kind: "acp_plan art' \<longleftrightarrow> acp_plan art" by (simp add: acp_plan_def kept)
  have ok: "record_ok E art'" by (rule edit_ok [OF art(2) _ _ tidyD(2) [OF t art(1)]]) (auto simp: kept)
  have "attempts (dset p art' ?d) j src \<le> attempts ?d j src" for j src
    by (rule attempts_edit [OF art(1)]) (simp add: source_request_def kept)
  then have b: "within_budget S (dset p art' ?d)" by (rule within_budget_mono [OF tidyD(3) [OF t]])
  have named: "jget u ''plan_id'' = JStr q \<and> jget u ''chain_id'' = JInt (vs_chain V)" if "map_of ?d q = Some u" "acp_plan u" for q u
    using tidyD(4) [OF t] that V unfolding plans_named_def by blast
  have n: "plans_named S (dset p art' ?d)" using named [OF art(1)] tidyD(4) [OF t] kind V
    unfolding plans_named_def by (simp add: kept)
  have "jobs_once (dset p art' ?d)"
    by (rule jobs_once_bind [OF tidyD(5) [OF t] art(1) kind fld(2)]) (use named job_not_reused [OF nr] in blast)
  from tidy_dset [OF t ok b n this] w' show ?thesis by simp
qed

end
