(* ===== verification/Cw_Store.thy ===== *)
theory Cw_Store
  imports Cw_Engine
begin

text \<open>
  The store of casework (\<^verbatim>\<open>SibylWorkspaceStore\<close> in \<^verbatim>\<open>store.py\<close>) and the interfaces around it: what
  the store needs of the SDK's entity client, what the service needs of the store, and the
  lemmas a service gets from that interface. The row's body is the workspace; that pydantic
  reads back what it dumped is left to the library. A client that raises, and a database file that is
  replaced while a row is written (the second check of the identity in \<^verbatim>\<open>save\<close>, which raises
  \<^verbatim>\<open>MEMORY_WRITE_UNCERTAIN\<close>), are left out: a write that is started is done.
\<close>

section \<open>What a saved body weighs\<close>

text \<open>\<^verbatim>\<open>json.dumps(body, ensure_ascii=False)\<close> with the default separators.\<close>

fun wire :: "(rat \<Rightarrow> string) \<Rightarrow> json \<Rightarrow> string"
  and wire_tail :: "(rat \<Rightarrow> string) \<Rightarrow> json list \<Rightarrow> string"
  and wire_pairs :: "(rat \<Rightarrow> string) \<Rightarrow> (string \<times> json) list \<Rightarrow> string"
where
  "wire fr JNull = ''null''"
| "wire fr (JBool b) = (if b then ''true'' else ''false'')"
| "wire fr (JInt i) = dec_int i"
| "wire fr (JFloat f) = enc_float fr f"
| "wire fr (JStr s) = quote s"
| "wire fr (JList []) = ''[]''"
| "wire fr (JList (x # xs)) = ''['' @ wire fr x @ wire_tail fr xs"
| "wire fr (JObj []) = ''{}''"
| "wire fr (JObj ((k, v) # kvs)) = ''{'' @ quote k @ '': '' @ wire fr v @ wire_pairs fr kvs"
| "wire_tail fr [] = '']''"
| "wire_tail fr (x # xs) = '', '' @ wire fr x @ wire_tail fr xs"
| "wire_pairs fr [] = ''}''"
| "wire_pairs fr ((k, v) # kvs) = '', '' @ quote k @ '': '' @ wire fr v @ wire_pairs fr kvs"

definition workspace_json :: "env \<Rightarrow> workspace \<Rightarrow> json" where
  "workspace_json E w = (case state_payload E w of
     JObj d \<Rightarrow> JObj (d @ [(''state_root'', JStr (ws_root w))]) | j \<Rightarrow> j)"

definition save_guard :: "env \<Rightarrow> workspace \<Rightarrow> unit res" where
  "save_guard E w = ebind (validate_workspace E w) (\<lambda>_.
     check (length (wire (float_repr E) (workspace_json E w)) \<le> 8000000)
       (Casework ''WORKSPACE_CAPACITY_REACHED'' 413))"

section \<open>The store\<close>

text \<open>
  The database behind the client, the identity of the file the store opened first, and the
  identity of the file at its path now (\<open>None\<close>: it is gone).
\<close>

record 'd sibyl =
  si_db :: 'd
  si_known :: "(int \<times> int) option"
  si_stat :: "(int \<times> int) option"

definition check_identity :: "'d sibyl \<Rightarrow> unit res" where
  "check_identity s = (case si_known s of
     None \<Rightarrow> Inr ()
   | Some i \<Rightarrow> (case si_stat s of
       None \<Rightarrow> Inl (Casework ''MEMORY_FILE_REMOVED_RESTART_REQUIRED'' 503)
     | Some j \<Rightarrow> check (i = j) (Casework ''MEMORY_FILE_REPLACED_RESTART_REQUIRED'' 503)))"

definition category :: string where
  "category = ''memoryguard-casework-v2''"

definition row_key :: "env \<Rightarrow> string \<Rightarrow> string" where
  "row_key E tenant = digest E ''workspace-key'' (JStr tenant)"

text \<open>The client is the SDK's: it is opened per tenant, so a row is found under the tenant too.\<close>

type_synonym 'd entity_get = "'d \<Rightarrow> string \<Rightarrow> string \<Rightarrow> string \<Rightarrow> workspace option"
type_synonym 'd entity_put = "'d \<Rightarrow> string \<Rightarrow> string \<Rightarrow> string \<Rightarrow> workspace \<Rightarrow> 'd"

definition sibyl_load :: "env \<Rightarrow> 'd entity_get \<Rightarrow> 'd sibyl \<Rightarrow> string \<Rightarrow> workspace option res" where
  "sibyl_load E get s tenant =
     ebind (check_identity s) (\<lambda>_.
     case get (si_db s) tenant category (row_key E tenant) of
       None \<Rightarrow> Inr None
     | Some w \<Rightarrow> ebind (validate_workspace E w) (\<lambda>_. Inr (Some w)))"

definition sibyl_save :: "env \<Rightarrow> 'd entity_put \<Rightarrow> 'd sibyl \<Rightarrow> string \<Rightarrow> workspace \<Rightarrow> 'd sibyl res" where
  "sibyl_save E put s tenant w =
     ebind (save_guard E w) (\<lambda>_.
     ebind (check_identity s) (\<lambda>_.
     Inr (s\<lparr>si_db := put (si_db s) tenant category (row_key E tenant) w\<rparr>)))"

text \<open>A command against a store: load, run the transaction, save what it changed.\<close>

definition serve :: "('s \<Rightarrow> string \<Rightarrow> workspace option res) \<Rightarrow> ('s \<Rightarrow> string \<Rightarrow> workspace \<Rightarrow> 's res)
    \<Rightarrow> string \<Rightarrow> (workspace option \<Rightarrow> outcome res) \<Rightarrow> 's \<Rightarrow> ('s \<times> jobj) res"
where
  "serve load save tenant h s =
     ebind (load s tenant) (\<lambda>loaded.
     ebind (h loaded) (\<lambda>(saved, response).
     case saved of None \<Rightarrow> Inr (s, response)
     | Some w \<Rightarrow> ebind (save s tenant w) (\<lambda>s'. Inr (s', response))))"

lemma served_row:
  assumes "serve (sibyl_load E get) (sibyl_save E put) tenant h s = Inr (s', r)"
    and "loaded = get (si_db s) tenant category (row_key E tenant)"
  obtains saved where "h loaded = Inr (saved, r)"
    "case saved of None \<Rightarrow> s' = s | Some w \<Rightarrow> sibyl_save E put s tenant w = Inr s'"
proof -
  from assms(1) obtain l x where l: "sibyl_load E get s tenant = Inr l" "h l = Inr x"
      and x: "(case x of (u, q) \<Rightarrow> case u of None \<Rightarrow> Inr (s, q)
        | Some w \<Rightarrow> ebind (sibyl_save E put s tenant w) (\<lambda>v. Inr (v, q))) = Inr (s', r)"
    unfolding serve_def ebind_eq_Inr by blast
  from l(1) have "l = loaded" by (auto simp: sibyl_load_def assms(2) elim!: ebind_InrE split: option.splits)
  with l(2) x that show thesis by (cases x) (auto split: option.splits elim!: ebind_InrE)
qed

section \<open>The interface of the store\<close>

locale workspace_store =
  fixes load :: "'s \<Rightarrow> string \<Rightarrow> workspace option res"
    and save :: "'s \<Rightarrow> string \<Rightarrow> workspace \<Rightarrow> 's res"
    and valid :: "workspace \<Rightarrow> bool"
  assumes load_save: "save s t w = Inr s' \<Longrightarrow> load s' t = Inr (Some w)"
    and load_other: "save s t w = Inr s' \<Longrightarrow> t' \<noteq> t \<Longrightarrow> load s' t' = load s t'"
    and load_valid: "load s t = Inr (Some w) \<Longrightarrow> valid w"
    and save_valid: "save s t w = Inr s' \<Longrightarrow> valid w"
begin

text \<open>A response and what the store then holds come from the same transaction.\<close>

lemma serve_cases:
  assumes "serve load save t h s = Inr (s', r)"
  obtains (kept) l where "load s t = Inr l" "h l = Inr (None, r)" "s' = s"
  | (saved) l w where "load s t = Inr l" "h l = Inr (Some w, r)" "save s t w = Inr s'" "load s' t = Inr (Some w)"
proof -
  from assms obtain l x where l: "load s t = Inr l" "h l = Inr x"
      and x: "(case x of (u, q) \<Rightarrow> case u of None \<Rightarrow> Inr (s, q)
        | Some w \<Rightarrow> ebind (save s t w) (\<lambda>v. Inr (v, q))) = Inr (s', r)"
    unfolding serve_def ebind_eq_Inr by blast
  show ?thesis
  proof (cases "fst x")
    case None
    with x have "x = (None, r)" "s' = s" by (cases x; simp)+
    with l kept show ?thesis by blast
  next
    case (Some w)
    with x have "x = (Some w, r)" "save s t w = Inr s'" by (cases x; auto)+
    with l saved load_save show ?thesis by blast
  qed
qed

lemma serve_isolated:
  assumes "serve load save t h s = Inr (s', r)" "t' \<noteq> t"
  shows "load s' t' = load s t'"
  using assms(1) by (cases rule: serve_cases) (use load_other assms(2) in auto)

text \<open>A property that every transaction keeps holds of every workspace the store returns.\<close>

lemma serve_invariant:
  assumes "serve load save t h s = Inr (s', r)"
    and "\<And>l w. load s t = Inr l \<Longrightarrow> (\<And>v. l = Some v \<Longrightarrow> P v) \<Longrightarrow> h l = Inr (Some w, r) \<Longrightarrow> P w"
    and "\<And>v. load s t = Inr (Some v) \<Longrightarrow> P v"
    and "load s' t = Inr (Some w)"
  shows "P w \<and> valid w"
  using assms(1)
proof (cases rule: serve_cases)
  case (saved l u)
  then show ?thesis using assms(2) [of l u] assms(3,4) load_valid by auto
qed (use assms(3,4) load_valid in auto)

end

section \<open>The interface of the SDK's entity client\<close>

locale entity_client =
  fixes get :: "'d entity_get" and put :: "'d entity_put"
  assumes get_put: "get (put d t c k w) t c k = Some w"
    and get_other: "(t', c', k') \<noteq> (t, c, k) \<Longrightarrow> get (put d t c k w) t' c' k' = get d t' c' k'"
begin

lemma sibyl_store: "workspace_store (sibyl_load E get) (sibyl_save E put) (\<lambda>w. validate_workspace E w = Inr ())"
  by unfold_locales
    (auto simp: sibyl_load_def sibyl_save_def save_guard_def check_identity_def get_put get_other
      split: option.splits if_splits)

end

sublocale entity_client \<subseteq> sibyl: workspace_store "sibyl_load E get" "sibyl_save E put"
    "\<lambda>w. validate_workspace E w = Inr ()"
  for E
  by (rule sibyl_store)

text \<open>The documented behaviour of the client: a row is found under the key it was set under.\<close>

type_synonym rows = "(string \<times> string \<times> string) \<Rightarrow> workspace option"

definition rows_get :: "rows entity_get" where
  "rows_get d t c k = d (t, c, k)"

definition rows_put :: "rows entity_put" where
  "rows_put d t c k w = d((t, c, k) \<mapsto> w)"

interpretation rows: entity_client rows_get rows_put
  by unfold_locales (auto simp: rows_get_def rows_put_def)

end
