(* ===== verification/Cw_Lifecycle.thy ===== *)
theory Cw_Lifecycle
  imports Cw_Records_Keep Cw_Store
begin

text \<open>
  Whole runs of casework. The contract a business mutation owes the engine is a locale; the
  engine's guarantees (a valid sealed workspace, one more event, the revision it promised) are
  proved once inside it, and every mutation of the service is an interpretation. Then the step
  relation of a store served by arbitrary actors and the invariant of all reachable stores.
\<close>

section \<open>The engine\<close>

text \<open>The workspace a transaction works on.\<close>

definition at_start :: "env \<Rightarrow> string \<Rightarrow> workspace option \<Rightarrow> workspace" where
  "at_start E tenant loaded = (case loaded of None \<Rightarrow> seal E (empty_workspace tenant) | Some w \<Rightarrow> w)"

lemma opened_Inr:
  "opened E boot tenant loaded = Inr w \<longleftrightarrow>
     w = at_start E tenant loaded \<and> (loaded = None \<longrightarrow> boot) \<and> validate_workspace E w = Inr () \<and> ws_tenant w = tenant"
  by (auto simp: opened_def at_start_def split: option.splits if_splits)

lemma good_same:
  assumes "ws_baselines w' = ws_baselines w" "ws_cases w' = ws_cases w" "ws_case_history w' = ws_case_history w"
    "ws_baseline_history w' = ws_baseline_history w" "ws_tasks w' = ws_tasks w" "ws_decisions w' = ws_decisions w"
    "ws_reports w' = ws_reports w" "ws_handoffs w' = ws_handoffs w" "ws_lessons w' = ws_lessons w"
    "ws_artifacts w' = ws_artifacts w"
  shows "good E w' \<longleftrightarrow> good E w"
proof -
  have "blocks E w' = blocks E w" "has_ready_decision w' = has_ready_decision w"
    using assms blocks_tasks has_ready_decision_decisions by metis+
  then show ?thesis by (simp add: good_defs assms)
qed

lemma good_seal [simp]: "good E (seal E w) = good E w"
  by (rule good_same) (simp_all add: seal_def)

lemma state_payload_root [simp]: "state_payload E (w\<lparr>ws_root := r\<rparr>) = state_payload E w"
  by (simp add: state_payload_def)

lemma validate_Inr:
  "validate_workspace E w = Inr () \<longleftrightarrow> ws_root w = digest E ''workspace'' (state_payload E w) \<and>
     audit_ok E 1 zero_hash (ws_audit w) \<and> int (length (ws_audit w)) = ws_revision w \<and> parts_ok E w"
  by (auto simp: validate_workspace_def parts_ok_def)

text \<open>The hash the next event has to name.\<close>

definition last_hash :: "jobj list \<Rightarrow> json" where
  "last_hash evs = (if evs = [] then JStr zero_hash else jget (last evs) ''event_hash'')"

lemma event_ok_hash: "event_ok E n prev ev \<Longrightarrow> \<exists>h. jget ev ''event_hash'' = JStr h"
  by (auto simp: event_ok_def)

lemma audit_ok_snoc:
  "audit_ok E n prev (evs @ [ev]) \<longleftrightarrow> audit_ok E n prev evs \<and>
     event_ok E (n + int (length evs)) (if evs = [] then prev else
        (case jget (last evs) ''event_hash'' of JStr h \<Rightarrow> h | _ \<Rightarrow> [])) ev"
proof (induction evs arbitrary: n prev)
  case (Cons e evs)
  show ?case by (cases "evs = []") (auto simp: Cons.IH algebra_simps)
qed simp

lemma audit_last:
  assumes "audit_ok E n prev evs" "evs \<noteq> []"
  shows "\<exists>h. jget (last evs) ''event_hash'' = JStr h"
proof -
  from assms obtain es e where "evs = es @ [e]" by (metis append_butlast_last_id)
  with assms(1) show ?thesis by (auto simp: audit_ok_snoc dest: event_ok_hash)
qed

lemma event_ok_audit_event:
  assumes "evs = [] \<or> jget (last evs) ''event_hash'' = JStr prev" "evs = [] \<Longrightarrow> prev = zero_hash"
  shows "event_ok E seq prev (audit_event E a name fp tm res evs seq)"
  using assms by (auto simp: event_ok_def audit_event_def Let_def jget_def)

lemma commit_valid:
  assumes v: "audit_ok E 1 zero_hash (ws_audit w)" "int (length (ws_audit w)) = n" and p: "parts_ok E w"
  shows "validate_workspace E (fst (commit E a name fp key tm (n + 1) (w, res))) = Inr ()"
proof -
  define ev where "ev = audit_event E a name fp tm res (ws_audit w) (n + 1)"
  define prev where "prev = (if ws_audit w = [] then zero_hash else
      (case jget (last (ws_audit w)) ''event_hash'' of JStr h \<Rightarrow> h | _ \<Rightarrow> []))"
  have "ws_audit w = [] \<or> jget (last (ws_audit w)) ''event_hash'' = JStr prev"
    using audit_last [OF v(1)] by (auto simp: prev_def)
  then have "event_ok E (n + 1) prev ev" unfolding ev_def
    by (rule event_ok_audit_event) (simp add: prev_def)
  with v have "audit_ok E 1 zero_hash (ws_audit w @ [ev])"
    by (auto simp: audit_ok_snoc prev_def add.commute)
  with v(2) p show ?thesis
    by (simp add: validate_Inr commit_def Let_def seal_def ev_def [symmetric] parts_ok_def)
qed

lemma commit_good: "good E (fst (commit E a name fp key tm n (w, res))) \<longleftrightarrow> good E w"
  by (rule good_same) (simp_all add: commit_def Let_def seal_def)

lemma commit_fields:
  "ws_tenant (fst (commit E a name fp key tm n (w, res))) = ws_tenant w"
  "ws_revision (fst (commit E a name fp key tm n (w, res))) = n"
  "ws_audit (fst (commit E a name fp key tm n (w, res))) =
     ws_audit w @ [audit_event E a name fp tm res (ws_audit w) n]"
  by (simp_all add: commit_def Let_def seal_def)

lemma audit_event_actor: "jget (audit_event E a name fp tm res evs n) ''actor_id'' = JStr (ac_id a)"
  by (simp add: audit_event_def Let_def jget_def)

lemma mutate_Inr:
  assumes "mutate E a c name payload f boot basis R loaded = Inr (Some w', r)"
  obtains w1 res fp key where "opened E boot (ac_tenant a) loaded = Inr (at_start E (ac_tenant a) loaded)"
    "recheck (at_start E (ac_tenant a) loaded) a name payload = Inr ()"
    "fresh_check E (at_start E (ac_tenant a) loaded) c basis = Inr ()"
    "boot \<longrightarrow> ws_revision (at_start E (ac_tenant a) loaded) = 0"
    "ws_revision (at_start E (ac_tenant a) loaded) < 5000"
    "f (at_start E (ac_tenant a) loaded) (ws_revision (at_start E (ac_tenant a) loaded) + 1) = Inr (w1, res)"
    "fp = request_hash E name a (cm_session c) payload" "key = idem_key E a (cm_key c)"
    "\<forall>p. map_of (ws_idempotency (at_start E (ac_tenant a) loaded)) key = Some p \<longrightarrow> p = []"
    "commit E a name fp key (rn_clock R 2) (ws_revision (at_start E (ac_tenant a) loaded) + 1) (w1, res) = (w', r)"
proof -
  define fp where "fp = request_hash E name a (cm_session c) payload"
  define key where "key = idem_key E a (cm_key c)"
  from assms obtain w where o: "opened E boot (ac_tenant a) loaded = Inr w" "recheck w a name payload = Inr ()"
      and m: "(case map_of (ws_idempotency w) key of
        Some (p # ps) \<Rightarrow>
          ebind (jfield (p # ps) ''request_hash'') (\<lambda>h.
          ebind (check (h = JStr fp) (Casework ''IDEMPOTENCY_CONFLICT'' 409)) (\<lambda>_.
          ebind (replay_guard E w a name payload R) (\<lambda>_.
          ebind (replayed (p # ps)) (\<lambda>r. Inr (None, r)))))
      | _ \<Rightarrow>
          ebind (fresh_check E w c basis) (\<lambda>_.
          ebind (check (\<not> (boot \<and> ws_revision w \<noteq> 0)) (Casework ''WORKSPACE_ALREADY_EXISTS'' 409)) (\<lambda>_.
          ebind (check (ws_revision w < 5000) (Casework ''WORKSPACE_CAPACITY_REACHED'' 413)) (\<lambda>_.
          ebind (f w (ws_revision w + 1)) (\<lambda>wr.
          case commit E a name fp key (rn_clock R 2) (ws_revision w + 1) wr of
            (w', response) \<Rightarrow> Inr (Some w', response)))))) = Inr (Some w', r)"
    unfolding mutate_def Let_def fp_def key_def ebind_eq_Inr by (auto simp: ebind_eq_Inr)
  from o(1) have w: "w = at_start E (ac_tenant a) loaded" by (simp add: opened_Inr)
  from m obtain wr where "fresh_check E w c basis = Inr ()" "boot \<longrightarrow> ws_revision w = 0" "ws_revision w < 5000"
      "f w (ws_revision w + 1) = Inr wr" "commit E a name fp key (rn_clock R 2) (ws_revision w + 1) wr = (w', r)"
      "\<forall>p. map_of (ws_idempotency w) key = Some p \<longrightarrow> p = []"
    by (auto split: option.splits list.splits prod.splits if_splits)
  with o w that [OF _ _ _ _ _ _ fp_def key_def] show ?thesis by (cases wr) auto
qed

section \<open>The contract of a business mutation\<close>

text \<open>What a committed transaction does to the workspace it started from.\<close>

definition committed :: "env \<Rightarrow> actor \<Rightarrow> workspace \<Rightarrow> workspace \<Rightarrow> bool" where
  "committed E a w w' \<longleftrightarrow> validate_workspace E w' = Inr () \<and> ws_tenant w' = ws_tenant w \<and>
     ws_revision w' = ws_revision w + 1 \<and> ws_revision w' \<le> 5000 \<and>
     (\<exists>ev. ws_audit w' = ws_audit w @ [ev] \<and> jget ev ''actor_id'' = JStr (ac_id a)) \<and>
     (\<forall>k p. map_of (ws_idempotency w) k = Some p \<longrightarrow> p \<noteq> [] \<longrightarrow> map_of (ws_idempotency w') k = Some p)"

lemma commit_idempotency:
  "ws_idempotency (fst (commit E a name fp key tm n (w, res))) = dset key [(''request_hash'', JStr fp),
     (''response'', JObj (snd (commit E a name fp key tm n (w, res))))] (ws_idempotency w)"
  by (simp add: commit_def Let_def seal_def)

lemma commit_artifacts: "ws_artifacts (fst (commit E a name fp key tm n (w, res))) = ws_artifacts w"
  by (simp add: commit_def Let_def seal_def)

text \<open>A row, when there is one, is of the tenant of the actor.\<close>

definition own :: "actor \<Rightarrow> workspace option \<Rightarrow> bool" where
  "own a row \<longleftrightarrow> (\<forall>w. row = Some w \<longrightarrow> ws_tenant w = ac_tenant a)"

lemma opened_own: "opened E boot (ac_tenant a) loaded = Inr w \<Longrightarrow> own a loaded \<and> ws_tenant w = ac_tenant a"
  by (auto simp: opened_Inr own_def at_start_def)

lemma mutate_opened:
  "mutate E a c name payload f boot basis R loaded = Inr x \<Longrightarrow>
    opened E boot (ac_tenant a) loaded = Inr (at_start E (ac_tenant a) loaded)"
  unfolding mutate_def Let_def by (elim ebind_InrE) (simp add: opened_Inr)

locale business_change =
  fixes E :: env and f :: mutation and R :: run
  assumes keeps: "fresh_ids w R \<Longrightarrow> f w seq = Inr (w', res) \<Longrightarrow> keeps E w w'"
begin

lemma mutate_committed:
  assumes m: "mutate E a c name payload f boot basis R loaded = Inr (Some w', r)"
    and g: "good E (at_start E (ac_tenant a) loaded)" and fr: "fresh_ids (at_start E (ac_tenant a) loaded) R"
  shows "good E w' \<and> committed E a (at_start E (ac_tenant a) loaded) w'"
  using m
proof (rule mutate_Inr)
  fix w1 res fp key
  let ?w = "at_start E (ac_tenant a) loaded"
  assume o: "opened E boot (ac_tenant a) loaded = Inr ?w" and lt: "ws_revision ?w < 5000"
    and new: "\<forall>p. map_of (ws_idempotency ?w) key = Some p \<longrightarrow> p = []"
    and f: "f ?w (ws_revision ?w + 1) = Inr (w1, res)"
    and c: "commit E a name fp key (rn_clock R 2) (ws_revision ?w + 1) (w1, res) = (w', r)"
  from keeps [OF fr f] g have g1: "good E w1" and fm: "frame ?w w1" by (auto simp: keeps_def)
  from o have v: "audit_ok E 1 zero_hash (ws_audit ?w)" "int (length (ws_audit ?w)) = ws_revision ?w"
    by (simp_all add: opened_Inr validate_Inr)
  have w': "w' = fst (commit E a name fp key (rn_clock R 2) (ws_revision ?w + 1) (w1, res))" by (simp add: c)
  have "validate_workspace E w' = Inr ()" unfolding w'
    by (rule commit_valid) (use v fm g1 in \<open>simp_all add: frame_def good_def\<close>)
  moreover have "good E w'" unfolding w' commit_good by (rule g1)
  moreover have "ws_tenant w' = ws_tenant ?w" "ws_revision w' = ws_revision ?w + 1"
    using fm unfolding w' commit_fields by (simp_all add: frame_def)
  moreover have "\<exists>ev. ws_audit w' = ws_audit ?w @ [ev] \<and> jget ev ''actor_id'' = JStr (ac_id a)"
    using fm audit_event_actor unfolding w' commit_fields by (auto simp: frame_def)
  moreover have "map_of (ws_idempotency w') k = Some p" if "map_of (ws_idempotency ?w) k = Some p" "p \<noteq> []" for k p
    using that new fm unfolding w' commit_idempotency by (auto simp: frame_def)
  ultimately show ?thesis using lt by (simp add: committed_def)
qed

lemma mutate_own:
  assumes m: "mutate E a c name payload f boot basis R loaded = Inr (saved, r)"
    and fr: "fresh_ids (at_start E (ac_tenant a) loaded) R"
  shows "own a loaded \<and> own a saved"
proof -
  note o = opened_own [OF mutate_opened [OF m]]
  have "ws_tenant w' = ac_tenant a" if "saved = Some w'" for w'
    using m [unfolded that]
  proof (rule mutate_Inr)
    fix w1 res fp key
    let ?w = "at_start E (ac_tenant a) loaded"
    assume f: "f ?w (ws_revision ?w + 1) = Inr (w1, res)"
      and c: "commit E a name fp key (rn_clock R 2) (ws_revision ?w + 1) (w1, res) = (w', r)"
    from keeps [OF fr f] have "ws_tenant w1 = ws_tenant ?w" by (simp add: keeps_def frame_def)
    moreover have "ws_tenant w' = ws_tenant w1"
      using commit_fields(1) [of E a name fp key "rn_clock R 2" "ws_revision ?w + 1" w1 res] c by simp
    ultimately show ?thesis using o by simp
  qed
  with o show ?thesis by (simp add: own_def)
qed

end

text \<open>The contract for the records, as a further law.\<close>

locale record_change = business_change +
  fixes S :: service
  assumes tidies: "number_texts (float_repr E) \<Longrightarrow> tidy E S (ws_artifacts w) \<Longrightarrow> f w seq = Inr (w', res) \<Longrightarrow> tidy E S (ws_artifacts w')"
begin

lemma mutate_tidy:
  assumes "mutate E a c name payload f boot basis R loaded = Inr (Some w', r)"
    and nt: "number_texts (float_repr E)" and t: "tidy E S (ws_artifacts (at_start E (ac_tenant a) loaded))"
  shows "tidy E S (ws_artifacts w')"
  using assms(1)
proof (rule mutate_Inr)
  fix w1 res fp key
  let ?w = "at_start E (ac_tenant a) loaded"
  assume f: "f ?w (ws_revision ?w + 1) = Inr (w1, res)"
    and c: "commit E a name fp key (rn_clock R 2) (ws_revision ?w + 1) (w1, res) = (w', r)"
  have "ws_artifacts w' = ws_artifacts w1" using commit_artifacts [of E a name fp key "rn_clock R 2" "ws_revision ?w + 1" w1 res] c by simp
  with tidies [OF nt t f] show ?thesis by simp
qed

end

interpretation bootstrap_change: record_change E "\<lambda>w seq. Inr (w, [(''state'', JStr ''INITIALIZED'')])" R S
  for E R S by unfold_locales auto
interpretation set_baseline_op: record_change E "set_baseline_change E a c" R S for E a c R S
  by unfold_locales (rule changes_keep desk_changes_keep, assumption, rule quiet_tidy [OF set_baseline_quiet], assumption, assumption)
interpretation register_task_op: record_change E "register_task_change E a c R" R S for E a c R S
  by unfold_locales (rule changes_keep desk_changes_keep, assumption, assumption, rule quiet_tidy [OF register_task_quiet], assumption, assumption)
interpretation evaluate_op: record_change E "evaluate_change E a c k ex R" R S for E a c k ex R S
  by unfold_locales (rule changes_keep desk_changes_keep, assumption, assumption, rule quiet_tidy [OF evaluate_quiet], assumption, assumption)
interpretation open_case_op: record_change E "open_case_change E T a c R" R S for E T a c R S
  by unfold_locales (rule changes_keep desk_changes_keep, assumption, rule quiet_tidy [OF open_case_quiet], assumption, assumption)
interpretation reopen_case_op: record_change E "reopen_case_change E T a c i" R S for E T a c i R S
  by unfold_locales (rule changes_keep desk_changes_keep, assumption, rule quiet_tidy [OF reopen_case_quiet], assumption, assumption)
interpretation quarantine_op: record_change E "quarantine_change E c" R S for E c R S
  by unfold_locales (rule changes_keep desk_changes_keep, assumption, rule quiet_tidy [OF quarantine_quiet], assumption, assumption)
interpretation reserve_op: record_change E "reserve_change E a c i b R" R S for E a c i b R S
  by unfold_locales (rule changes_keep desk_changes_keep, assumption, rule quiet_tidy [OF reserve_quiet], assumption, assumption)
interpretation handoff_op: record_change E "handoff_change E T a c i R" R S for E T a c i R S
  by unfold_locales (rule changes_keep desk_changes_keep, assumption, assumption, rule quiet_tidy [OF handoff_quiet], assumption, assumption)
interpretation accept_op: record_change E "accept_change E T a i R" R S for E T a i R S
  by unfold_locales (rule changes_keep desk_changes_keep, assumption, rule quiet_tidy [OF accept_quiet], assumption, assumption)
interpretation resolve_op: record_change E "resolve_change E T a c i R" R S for E T a c i R S
  by unfold_locales (rule changes_keep desk_changes_keep, assumption, rule quiet_tidy [OF resolve_quiet], assumption, assumption)
interpretation prepare_anchor_op: record_change E "prepare_anchor_change B a k d R" R S for E B a k d R S
  by unfold_locales (rule changes_keep desk_changes_keep, assumption, rule quiet_tidy [OF prepare_anchor_quiet], assumption, assumption)
interpretation verify_anchor_op: record_change E "verify_change E i tx plan v" R S for E i tx plan v R S
  by unfold_locales (rule changes_keep desk_changes_keep, assumption, rule quiet_tidy [OF verify_anchor_quiet], assumption, assumption)
interpretation prepare_review_op: record_change E "prepare_review_change E a k d R" R S for E a k d R S
  by unfold_locales (rule changes_keep desk_changes_keep, assumption, rule quiet_tidy [OF prepare_review_quiet], assumption, assumption)
interpretation plan_mission_op: record_change E "plan_mission_change E T D a c i" R S for E T D a c i R S
  by unfold_locales (rule changes_keep desk_changes_keep, assumption, rule quiet_tidy [OF plan_mission_quiet], assumption, assumption)
interpretation resume_op: record_change E "resume_change a c m q i" R S for E a c m q i R S
  by unfold_locales (rule changes_keep desk_changes_keep, assumption, rule quiet_tidy [OF resume_quiet], assumption, assumption)
interpretation incident_op: record_change E "incident_change E T a d now R" R S for E T a d now R S
  by unfold_locales (rule changes_keep desk_changes_keep, assumption, rule quiet_tidy [OF incident_quiet], assumption, assumption)
interpretation finish_read_op: record_change E "finish_read_change E a i k s resource rid (read_result E answer) finished R" R S
  for E a i k s resource rid answer finished R S
  by unfold_locales (rule desk_changes_keep, assumption, rule quiet_tidy [OF finish_read_quiet], assumption, assumption, assumption)
interpretation reserve_read_op: record_change E "reserve_mutation E S a c i k R" R S for E S a c i k R
  by unfold_locales (rule reserve_mutation_keeps, assumption, rule reserve_mutation_tidy)
interpretation prepare_partner_op: record_change E "prepare_partner_change E S a i rid R" R S for E S a i rid R
  by unfold_locales (rule desk_changes_keep, assumption, rule prepare_partner_tidy)
interpretation save_partner_op: record_change E "save_partner_change E S a p job plan v R" R S for E S a p job plan v R
  by unfold_locales (rule desk_changes_keep, assumption, rule save_partner_tidy)

text \<open>A report enters a workspace only as \<^verbatim>\<open>build_report\<close> made it.\<close>

definition finish_change :: "env \<Rightarrow> service \<Rightarrow> actor \<Rightarrow> 'c command_scheme \<Rightarrow> string \<Rightarrow> snapshot
    \<Rightarrow> (string list \<times> json) option option \<Rightarrow> run \<Rightarrow> mutation"
where
  "finish_change E S a c i n answer R w seq =
     ebind (build_report E a i n (planned E n answer) R) (\<lambda>r.
     investigate_change E S a c i n (answer \<noteq> None) r R w seq)"

lemma finish_keeps: "finish_change E T a c i n answer R w seq = Inr (w', res) \<Longrightarrow> keeps E w w'"
  by (auto simp: finish_change_def dest: build_report_ok intro: changes_keep)

lemma finish_quiet: "finish_change E T a c i n answer R w seq = Inr (w', res) \<Longrightarrow> quiet E (ws_artifacts w) (ws_artifacts w')"
  by (auto simp: finish_change_def dest: investigate_quiet)

interpretation finish_op: record_change E "finish_change E T a c i n answer R" R S for E T a c i n answer R S
  by unfold_locales (rule finish_keeps, assumption, rule quiet_tidy [OF finish_quiet], assumption, assumption)

lemma investigate_finish_mutate:
  assumes "investigate_finish E S a c i n answer R loaded = Inr x"
  shows "mutate E a c ''case.investigate'' [(''case_id'', JStr i)] (finish_change E S a c i n answer R) False
    (Some (i, sn_basis n)) R loaded = Inr x"
proof -
  from assms obtain r where "build_report E a i n (planned E n answer) R = Inr r"
    "mutate E a c ''case.investigate'' [(''case_id'', JStr i)] (investigate_change E S a c i n (answer \<noteq> None) r R) False
    (Some (i, sn_basis n)) R loaded = Inr x" by (auto simp: investigate_finish_def)
  moreover from this(1) have "finish_change E S a c i n answer R = investigate_change E S a c i n (answer \<noteq> None) r R"
    by (simp add: finish_change_def fun_eq_iff)
  ultimately show ?thesis by simp
qed

section \<open>Requests\<close>

datatype request =
    Bootstrap command
  | SetBaseline baseline_command
  | RegisterTask task_command
  | Evaluate command string
  | Reconsider command string
  | OpenCase open_case_command
  | ReopenCase reopen_command string
  | QuarantineNote note_command
  | Reserve command string string
  | Finish command string snapshot "(string list \<times> json) option option"
  | HandOff handoff_command string
  | AcceptHandoff command string
  | Resolve resolve_command string
  | PrepareReview command string string
  | PrepareAnchor command string string
  | VerifyAnchor command string string json jobj jobj
  | ReserveRead collect_command string risk_case
  | FinishRead collect_command string risk_case "json res" int int
  | PlanMission mission_command string
  | ResumeMission command string jobj string
  | PreparePartner command string string
  | SavePartner command string string json jobj jobj
  | Ingest delivered int int

fun handle :: "env \<Rightarrow> service \<Rightarrow> actor \<Rightarrow> request \<Rightarrow> handler" where
  "handle E S a (Bootstrap c) = bootstrap E a c"
| "handle E S a (SetBaseline c) = set_baseline E a c"
| "handle E S a (RegisterTask c) = register_task E a c"
| "handle E S a (Evaluate c k) = evaluate E a c k False"
| "handle E S a (Reconsider c k) = evaluate E a c k True"
| "handle E S a (OpenCase c) = open_case E S a c"
| "handle E S a (ReopenCase c i) = reopen_case E S a c i"
| "handle E S a (QuarantineNote c) = quarantine_note E a c"
| "handle E S a (Reserve c i b) = investigate_reserve E a c i b"
| "handle E S a (Finish c i n answer) = investigate_finish E S a c i n answer"
| "handle E S a (HandOff c i) = handoff E S a c i"
| "handle E S a (AcceptHandoff c i) = accept_handoff E S a c i"
| "handle E S a (Resolve c i) = resolve E S a c i"
| "handle E S a (PrepareReview c k d) = prepare_review E a c k d"
| "handle E S a (PrepareAnchor c k d) = prepare_anchor E S a c k d"
| "handle E S a (VerifyAnchor c i tx task plan v) = verify_finish E a c i tx task plan v"
| "handle E S a (ReserveRead c i k) = reserve_read E S a c i k"
| "handle E S a (FinishRead c i k answer finished revision) = finish_read E S a c i k answer finished revision"
| "handle E S a (PlanMission c i) = plan_mission E S a c i"
| "handle E S a (ResumeMission c m r i) = resume_signal E a c m r i"
| "handle E S a (PreparePartner c i r) = prepare_partner E S a c i r"
| "handle E S a (SavePartner c p job i plan v) = save_partner E S a c p job i plan v"
| "handle E S a (Ingest d now revision) = ingest E S a d now revision"

lemma reserve_read_mutate:
  assumes "reserve_read E S a c i k R loaded = Inr x"
  shows "\<exists>payload. mutate E a c ''source.reserve'' payload (reserve_mutation E S a c i k R) False None R loaded = Inr x"
proof -
  from assms obtain D s resource where D: "desk_of S = Inr D" "read_target D a (lc_source c) (lc_resource c) (rc_scope k) = Inr (s, resource)"
      and m: "mutate E a c ''source.reserve'' (read_payload i s resource (lc_force c)) (reserve_read_change E D a c i k s resource R)
       False None R loaded = Inr x"
    by (auto simp: reserve_read_def)
  have "reserve_mutation E S a c i k R = reserve_read_change E D a c i k s resource R"
    by (simp add: reserve_mutation_def fun_eq_iff D)
  with m show ?thesis by auto
qed

lemma finish_read_mutate:
  assumes "finish_read E S a c i k answer finished revision R loaded = Inr x"
  shows "\<exists>payload s resource. mutate E a (done_command c (fetch_id E (ac_tenant a) (ac_id a) (cm_key c)) revision) ''source.finish'' payload
    (finish_read_change E a i k s resource (fetch_id E (ac_tenant a) (ac_id a) (cm_key c)) (read_result E answer) finished R) False None R loaded = Inr x"
  using assms by (auto simp: finish_read_def Let_def)

lemmas handler_defs = bootstrap_def set_baseline_def register_task_def evaluate_def open_case_def
  reopen_case_def quarantine_note_def investigate_reserve_def handoff_def accept_handoff_def resolve_def
  prepare_review_def prepare_anchor_def verify_finish_def plan_mission_def resume_signal_def prepare_partner_def
  save_partner_def ingest_def

lemmas committed_ops = bootstrap_change.mutate_committed set_baseline_op.mutate_committed
  register_task_op.mutate_committed evaluate_op.mutate_committed open_case_op.mutate_committed
  reopen_case_op.mutate_committed quarantine_op.mutate_committed reserve_op.mutate_committed
  handoff_op.mutate_committed accept_op.mutate_committed resolve_op.mutate_committed
  prepare_review_op.mutate_committed prepare_anchor_op.mutate_committed verify_anchor_op.mutate_committed finish_op.mutate_committed
  plan_mission_op.mutate_committed resume_op.mutate_committed incident_op.mutate_committed prepare_partner_op.mutate_committed
  save_partner_op.mutate_committed

lemma handle_committed:
  assumes h: "handle E S a q R loaded = Inr (Some w', r)"
    and g: "good E (at_start E (ac_tenant a) loaded)" and fr: "fresh_ids (at_start E (ac_tenant a) loaded) R"
  shows "good E w' \<and> committed E a (at_start E (ac_tenant a) loaded) w'"
proof (cases q)
  case (Finish c i n answer)
  with h have "investigate_finish E S a c i n answer R loaded = Inr (Some w', r)" by simp
  from finish_op.mutate_committed [OF investigate_finish_mutate [OF this] g fr] show ?thesis .
next
  case (ReserveRead c i k)
  with h have "reserve_read E S a c i k R loaded = Inr (Some w', r)" by simp
  from reserve_read_mutate [OF this] show ?thesis by (auto dest: reserve_read_op.mutate_committed [OF _ g fr])
next
  case (FinishRead c i k answer finished revision)
  with h have "finish_read E S a c i k answer finished revision R loaded = Inr (Some w', r)" by simp
  from finish_read_mutate [OF this] show ?thesis by (auto dest: finish_read_op.mutate_committed [OF _ g fr])
qed (use h in \<open>auto simp: handler_defs dest!: committed_ops [OF _ g fr] split: if_splits\<close>)

text \<open>Every request works on the row of the actor's own tenant, and leaves such a row.\<close>

lemmas own_ops = bootstrap_change.mutate_own set_baseline_op.mutate_own register_task_op.mutate_own evaluate_op.mutate_own
  open_case_op.mutate_own reopen_case_op.mutate_own quarantine_op.mutate_own reserve_op.mutate_own handoff_op.mutate_own
  accept_op.mutate_own resolve_op.mutate_own prepare_review_op.mutate_own prepare_anchor_op.mutate_own verify_anchor_op.mutate_own
  plan_mission_op.mutate_own resume_op.mutate_own incident_op.mutate_own prepare_partner_op.mutate_own save_partner_op.mutate_own

lemma handle_own:
  assumes h: "handle E S a q R loaded = Inr (saved, r)" and fr: "fresh_ids (at_start E (ac_tenant a) loaded) R"
  shows "own a loaded \<and> own a saved"
proof (cases q)
  case (Finish c i n answer)
  with h have "investigate_finish E S a c i n answer R loaded = Inr (saved, r)" by simp
  from finish_op.mutate_own [OF investigate_finish_mutate [OF this] fr] show ?thesis .
next
  case (ReserveRead c i k)
  with h have "reserve_read E S a c i k R loaded = Inr (saved, r)" by simp
  from reserve_read_mutate [OF this] show ?thesis by (auto dest: reserve_read_op.mutate_own [OF _ fr])
next
  case (FinishRead c i k answer finished revision)
  with h have "finish_read E S a c i k answer finished revision R loaded = Inr (saved, r)" by simp
  from finish_read_mutate [OF this] show ?thesis by (auto dest: finish_read_op.mutate_own [OF _ fr])
qed (use h in \<open>auto simp: handler_defs dest!: own_ops [OF _ fr] split: if_splits\<close>)

text \<open>The same for the records.\<close>

lemmas tidy_ops = bootstrap_change.mutate_tidy set_baseline_op.mutate_tidy register_task_op.mutate_tidy evaluate_op.mutate_tidy open_case_op.mutate_tidy
  reopen_case_op.mutate_tidy quarantine_op.mutate_tidy reserve_op.mutate_tidy handoff_op.mutate_tidy accept_op.mutate_tidy
  resolve_op.mutate_tidy prepare_anchor_op.mutate_tidy verify_anchor_op.mutate_tidy prepare_review_op.mutate_tidy plan_mission_op.mutate_tidy
  resume_op.mutate_tidy incident_op.mutate_tidy finish_op.mutate_tidy prepare_partner_op.mutate_tidy save_partner_op.mutate_tidy
 

lemma handle_tidy:
  assumes h: "handle E S a q R loaded = Inr (Some w', r)"
    and nt: "number_texts (float_repr E)" and t: "tidy E S (ws_artifacts (at_start E (ac_tenant a) loaded))"
  shows "tidy E S (ws_artifacts w')"
proof (cases q)
  case (Finish c i n answer)
  with h have "investigate_finish E S a c i n answer R loaded = Inr (Some w', r)" by simp
  from finish_op.mutate_tidy [OF investigate_finish_mutate [OF this] nt t] show ?thesis .
next
  case (ReserveRead c i k)
  with h have "reserve_read E S a c i k R loaded = Inr (Some w', r)" by simp
  from reserve_read_mutate [OF this] show ?thesis by (auto dest: reserve_read_op.mutate_tidy [OF _ nt t])
next
  case (FinishRead c i k answer finished revision)
  with h have "finish_read E S a c i k answer finished revision R loaded = Inr (Some w', r)" by simp
  from finish_read_mutate [OF this] show ?thesis by (auto dest: finish_read_op.mutate_tidy [OF _ nt t])
qed (use h in \<open>auto simp: handler_defs dest!: tidy_ops [OF _ nt t] split: if_splits\<close>)

section \<open>Served stores\<close>

text \<open>
  One request of any actor against the store. The run is new for the workspace of the actor's
  tenant: its ids come from \<^verbatim>\<open>uuid4\<close>.
\<close>

inductive served :: "env \<Rightarrow> service \<Rightarrow> rows sibyl \<Rightarrow> rows sibyl \<Rightarrow> bool" for E S where
  request: "sibyl_load E rows_get s (ac_tenant a) = Inr l \<Longrightarrow> fresh_ids (at_start E (ac_tenant a) l) R \<Longrightarrow>
    serve (sibyl_load E rows_get) (sibyl_save E rows_put) (ac_tenant a) (handle E S a q R) s = Inr (s', r) \<Longrightarrow>
    served E S s s'"

inductive_cases servedE: "served E S s s'"

definition no_rows :: rows where
  "no_rows = (\<lambda>_. None)"

definition stored :: "env \<Rightarrow> rows sibyl \<Rightarrow> string \<Rightarrow> workspace \<Rightarrow> bool" where
  "stored E s t w \<longleftrightarrow> sibyl_load E rows_get s t = Inr (Some w)"

definition store_good :: "env \<Rightarrow> rows sibyl \<Rightarrow> bool" where
  "store_good E s \<longleftrightarrow> (\<forall>t w. stored E s t w \<longrightarrow> good E w \<and> ws_tenant w = t)"

lemma stored_valid: "stored E s t w \<Longrightarrow> validate_workspace E w = Inr ()"
  unfolding stored_def by (rule rows.sibyl.load_valid)

lemma good_at_start:
  assumes "store_good E s" "sibyl_load E rows_get s t = Inr l"
  shows "good E (at_start E t l) \<and> ws_tenant (at_start E t l) = t"
proof (cases l)
  case None
  have "ws_tenant (seal E (empty_workspace t)) = t" by (simp add: seal_def empty_workspace_def)
  with None show ?thesis by (simp add: at_start_def good_empty)
qed (use assms in \<open>auto simp: at_start_def store_good_def stored_def\<close>)

text \<open>What a request leaves behind for the tenant of the actor.\<close>

lemma request_outcome:
  assumes g: "store_good E s" and l: "sibyl_load E rows_get s (ac_tenant a) = Inr l"
    and fr: "fresh_ids (at_start E (ac_tenant a) l) R"
    and s: "serve (sibyl_load E rows_get) (sibyl_save E rows_put) (ac_tenant a) (handle E S a q R) s = Inr (s', r)"
  shows "s' = s \<or> (\<exists>w. stored E s' (ac_tenant a) w \<and> good E w \<and>
           committed E a (at_start E (ac_tenant a) l) w)"
  using s
proof (cases rule: rows.sibyl.serve_cases)
  case (saved l' w)
  with l have "handle E S a q R l = Inr (Some w, r)" by simp
  from handle_committed [OF this] good_at_start [OF g l] fr saved show ?thesis
    by (auto simp: stored_def)
qed simp

lemma served_good: "served E S s s' \<Longrightarrow> store_good E s \<Longrightarrow> store_good E s'"
proof (elim servedE)
  fix a l R q r
  assume g: "store_good E s" and l: "sibyl_load E rows_get s (ac_tenant a) = Inr l"
    and fr: "fresh_ids (at_start E (ac_tenant a) l) R"
    and s: "serve (sibyl_load E rows_get) (sibyl_save E rows_put) (ac_tenant a) (handle E S a q R) s = Inr (s', r)"
  have "good E w \<and> ws_tenant w = t" if w: "stored E s' t w" for t w
  proof (cases "t = ac_tenant a")
    case True
    with request_outcome [OF g l fr s] w good_at_start [OF g l] g show ?thesis
      by (auto simp: stored_def committed_def store_good_def)
  next
    case False
    with rows.sibyl.serve_isolated [OF s, of t] w g show ?thesis
      by (simp add: stored_def store_good_def)
  qed
  then show "store_good E s'" by (simp add: store_good_def)
qed

lemma store_good_empty: "si_db s = no_rows \<Longrightarrow> store_good E s"
  by (auto simp: store_good_def stored_def sibyl_load_def rows_get_def no_rows_def)

text \<open>The stores a service can reach from an empty database.\<close>

definition reachable :: "env \<Rightarrow> service \<Rightarrow> rows sibyl \<Rightarrow> bool" where
  "reachable E S s \<longleftrightarrow> (\<exists>s0. si_db s0 = no_rows \<and> (served E S)\<^sup>*\<^sup>* s0 s)"

lemma reachable_good: "reachable E S s \<Longrightarrow> store_good E s"
proof -
  assume "reachable E S s"
  then obtain s0 where "si_db s0 = no_rows" and r: "(served E S)\<^sup>*\<^sup>* s0 s" by (auto simp: reachable_def)
  then have "store_good E s0" by (simp add: store_good_empty)
  with r show ?thesis by (induction rule: rtranclp_induct) (auto intro: served_good)
qed

lemma served_history:
  assumes "served E S s s'" "store_good E s" "stored E s t w"
  shows "\<exists>w'. stored E s' t w' \<and> (w' = w \<or> (\<exists>a. ac_tenant a = t \<and> committed E a w w'))"
  using assms(1)
proof (elim servedE)
  fix a l R q r
  assume l: "sibyl_load E rows_get s (ac_tenant a) = Inr l"
    and fr: "fresh_ids (at_start E (ac_tenant a) l) R"
    and s: "serve (sibyl_load E rows_get) (sibyl_save E rows_put) (ac_tenant a) (handle E S a q R) s = Inr (s', r)"
  show ?thesis
  proof (cases "t = ac_tenant a")
    case True
    with l assms(3) have "l = Some w" by (simp add: stored_def)
    with request_outcome [OF assms(2) l fr s] assms(3) True show ?thesis
      by (auto simp: at_start_def)
  next
    case False
    with rows.sibyl.serve_isolated [OF s, of t] assms(3) show ?thesis by (auto simp: stored_def)
  qed
qed

section \<open>Records and recorded commands of reachable stores\<close>

definition store_tidy :: "env \<Rightarrow> service \<Rightarrow> rows sibyl \<Rightarrow> bool" where
  "store_tidy E S s \<longleftrightarrow> (\<forall>t w. stored E s t w \<longrightarrow> tidy E S (ws_artifacts w))"

text \<open>The configuration allows no negative number of reads.\<close>

definition attempts_allowed :: "service \<Rightarrow> bool" where
  "attempts_allowed S \<longleftrightarrow> (\<forall>D src s. sv_desk S = Some D \<longrightarrow> spec_of D src = Some s \<longrightarrow> 0 \<le> sp_attempts s)"

lemma tidy_empty: "attempts_allowed S \<Longrightarrow> tidy E S []"
  unfolding tidy_def within_budget_def plans_named_def jobs_once_def attempts_allowed_def by (simp add: attempts_def)

lemma tidy_at_start:
  assumes "attempts_allowed S" "store_tidy E S s" "sibyl_load E rows_get s t = Inr l"
  shows "tidy E S (ws_artifacts (at_start E t l))"
proof (cases l)
  case None
  have "ws_artifacts (seal E (empty_workspace t)) = []" by (simp add: seal_def empty_workspace_def)
  with None tidy_empty [OF assms(1)] show ?thesis by (simp add: at_start_def)
qed (use assms in \<open>auto simp: at_start_def store_tidy_def stored_def\<close>)

lemma served_tidy:
  assumes "served E S s s'" "store_tidy E S s" "attempts_allowed S" "number_texts (float_repr E)"
  shows "store_tidy E S s'"
  using assms(1)
proof (elim servedE)
  fix a l R q r
  assume l: "sibyl_load E rows_get s (ac_tenant a) = Inr l"
    and s: "serve (sibyl_load E rows_get) (sibyl_save E rows_put) (ac_tenant a) (handle E S a q R) s = Inr (s', r)"
  have "tidy E S (ws_artifacts w)" if w: "stored E s' t w" for t w
  proof (cases "t = ac_tenant a")
    case True
    from s show ?thesis
    proof (cases rule: rows.sibyl.serve_cases)
      case (kept l')
      with w assms(2) show ?thesis by (simp add: store_tidy_def)
    next
      case (saved l' w')
      with l have "handle E S a q R l = Inr (Some w', r)" by simp
      from handle_tidy [OF this assms(4) tidy_at_start [OF assms(3,2) l]] saved w True show ?thesis
        by (simp add: stored_def)
    qed
  next
    case False
    with rows.sibyl.serve_isolated [OF s, of t] w assms(2) show ?thesis by (simp add: stored_def store_tidy_def)
  qed
  then show "store_tidy E S s'" by (simp add: store_tidy_def)
qed

lemma store_tidy_empty: "si_db s = no_rows \<Longrightarrow> store_tidy E S s"
  by (auto simp: store_tidy_def stored_def sibyl_load_def rows_get_def no_rows_def)

lemma reachable_tidy:
  assumes "reachable E S s" "attempts_allowed S" "number_texts (float_repr E)"
  shows "store_tidy E S s"
proof -
  from assms(1) obtain s0 where "si_db s0 = no_rows" and r: "(served E S)\<^sup>*\<^sup>* s0 s" by (auto simp: reachable_def)
  then have "store_tidy E S s0" by (simp add: store_tidy_empty)
  with r show ?thesis by (induction rule: rtranclp_induct) (auto intro: served_tidy assms)
qed

lemma later_good: "(served E S)\<^sup>*\<^sup>* s s' \<Longrightarrow> store_good E s \<Longrightarrow> store_good E s'"
  by (induction rule: rtranclp_induct) (auto intro: served_good)

text \<open>A recorded command stays recorded, with the answer it was given.\<close>

lemma recorded_stays:
  assumes "(served E S)\<^sup>*\<^sup>* s s'" "store_good E s" "stored E s t w" "map_of (ws_idempotency w) k = Some p" "p \<noteq> []"
  shows "\<exists>w'. stored E s' t w' \<and> map_of (ws_idempotency w') k = Some p"
  using assms(1)
proof (induction rule: rtranclp_induct)
  case (step u v)
  then obtain w1 where w1: "stored E u t w1" "map_of (ws_idempotency w1) k = Some p" by blast
  from served_history [OF step.hyps(2) later_good [OF step.hyps(1) assms(2)] w1(1)] w1(2) assms(5) show ?case
    by (auto simp: committed_def)
qed (use assms in auto)

end
