(* ===== verification/Cw_Views.thy ===== *)
theory Cw_Views
  imports Cw_Service
begin

text \<open>
  The read operations of \<^verbatim>\<open>CaseworkService\<close> (\<^verbatim>\<open>overview\<close>, \<^verbatim>\<open>replay\<close>, \<^verbatim>\<open>recovery\<close>,
  \<^verbatim>\<open>case_timeline\<close> in \<^verbatim>\<open>service.py\<close>): they load, check and render, and return no workspace.
\<close>

type_synonym reader = "run \<Rightarrow> workspace option \<Rightarrow> jobj res"

definition visible_tasks :: "workspace \<Rightarrow> actor \<Rightarrow> task dict" where
  "visible_tasks w a = filter (\<lambda>(k, t). sc_subject (in_scope (tk_intent t)) \<in> set (ac_subjects a)) (ws_tasks w)"

definition visible_cases :: "workspace \<Rightarrow> actor \<Rightarrow> risk_case dict" where
  "visible_cases w a = filter (\<lambda>(k, c). sc_subject (rc_scope c) \<in> set (ac_subjects a)) (ws_cases w)"

definition as_fields :: "json \<Rightarrow> jobj" where
  "as_fields j = (case j of JObj d \<Rightarrow> d | _ \<Rightarrow> [])"

text \<open>Each task is rendered with the validity of its decision at a reading of its own.\<close>

fun overview_tasks :: "env \<Rightarrow> workspace \<Rightarrow> run \<Rightarrow> nat \<Rightarrow> task dict \<Rightarrow> json list res" where
  "overview_tasks E w R i [] = Inr []"
| "overview_tasks E w R i ((k, t) # ts) =
     ebind (decision_validity E w k (rn_clock R i)) (\<lambda>v.
     ebind (overview_tasks E w R (i + 1) ts) (\<lambda>rows.
     Inr (JObj (dunion (as_fields (task_json t)) (validity_fields v)) # rows)))"

definition anchor_rows :: "workspace \<Rightarrow> actor \<Rightarrow> jobj list" where
  "anchor_rows w a = filter (\<lambda>i. jget i ''kind'' = JStr ''AUDIT_ANCHOR'' \<and>
     (case jget i ''task_id'' of JStr k \<Rightarrow> k \<in> set (keys (visible_tasks w a)) | _ \<Rightarrow> False)) (map snd (ws_artifacts w))"

definition overview :: "env \<Rightarrow> actor \<Rightarrow> string \<Rightarrow> reader" where
  "overview E a backend R loaded =
     ebind (authorize a readers None) (\<lambda>_.
     ebind (opened E False (ac_tenant a) loaded) (\<lambda>w.
     ebind (overview_tasks E w R 0 (visible_tasks w a)) (\<lambda>tasks.
     let cases = visible_cases w a in
     Inr [(''revision'', JInt (ws_revision w)), (''state_root'', JStr (ws_root w)),
       (''runtime_id'', JStr (runtime_id E)), (''process_id'', JInt (process_id E)),
       (''build_commit'', JStr (build_commit E)), (''memory_backend'', JStr backend),
       (''principal'', actor_json a), (''tasks'', JList tasks),
       (''cases'', JList (map (case_json \<circ> snd) cases)),
       (''reports'', JList (map report_json (filter (\<lambda>r. rp_case r \<in> set (keys cases)) (map snd (ws_reports w))))),
       (''handoffs'', JList (map handoff_json (filter (\<lambda>h. hf_case h \<in> set (keys cases)) (map snd (ws_handoffs w))))),
       (''anchor_evidence'', JList (map JObj (anchor_rows w a))),
       (''partners'', JObj [(''base'', JStr (if list_ex (\<lambda>i. jget (jsub i ''verification'') ''state'' = JStr ''VERIFIED'')
             (anchor_rows w a) then ''JUDGE_VERIFICATION_REQUIRED'' else ''NOT_CLAIMED'')),
          (''virtuals'', JStr ''NOT_CLAIMED'')]),
       (''executable'', JBool False)])))"

definition safety_artifact :: "string \<Rightarrow> jobj \<Rightarrow> bool" where
  "safety_artifact task_id i \<longleftrightarrow> jget i ''task_id'' = JStr task_id \<and> jget i ''executable'' = JBool False \<and>
     jget i ''type'' \<in> {JStr ''NON_EXECUTABLE_OPERATOR_ESCALATION'', JStr ''NON_EXECUTABLE_HUMAN_REVIEW''}"

definition task_decisions :: "workspace \<Rightarrow> string \<Rightarrow> decision list" where
  "task_decisions w task_id =
     sort_key dc_revision (filter (\<lambda>d. dc_task d = task_id) (map snd (ws_decisions w)))"

definition replay :: "env \<Rightarrow> actor \<Rightarrow> string \<Rightarrow> reader" where
  "replay E a task_id R loaded =
     ebind (authorize a readers None) (\<lambda>_.
     ebind (opened E False (ac_tenant a) loaded) (\<lambda>w.
     ebind (find_task w a task_id) (\<lambda>t.
     ebind (decision_validity E w task_id (rn_clock R 0)) (\<lambda>v.
     Inr [(''task_id'', JStr task_id), (''current_status'', JStr (task_status_str (tk_status t))),
       (''decisions'', JList (map (decision_json E) (task_decisions w task_id))),
       (''current_validity'', JObj (validity_fields v)),
       (''safety_artifacts'', JList (map JObj (filter (safety_artifact task_id) (map snd (ws_artifacts w))))),
       (''note'', JStr ''Hash integrity is not proof of real-world truth or a signed model attestation.''),
       (''executable'', JBool False)]))))"

definition recovery :: "env \<Rightarrow> actor \<Rightarrow> string \<Rightarrow> reader" where
  "recovery E a task_id R loaded =
     ebind (authorize a readers None) (\<lambda>_.
     ebind (opened E False (ac_tenant a) loaded) (\<lambda>w.
     ebind (find_task w a task_id) (\<lambda>_. recovery_plan E w task_id (rn_clock R 0))))"

definition case_timeline :: "env \<Rightarrow> actor \<Rightarrow> string \<Rightarrow> reader" where
  "case_timeline E a case_id R loaded =
     ebind (authorize a readers None) (\<lambda>_.
     ebind (opened E False (ac_tenant a) loaded) (\<lambda>w.
     ebind (find_case w a case_id) (\<lambda>_.
     case map_of (ws_case_history w) case_id of
       None \<Rightarrow> Inl (PyExc ''KeyError'')
     | Some h \<Rightarrow> Inr [(''case_id'', JStr case_id), (''versions'', JList (map case_json h)),
                       (''executable'', JBool False)])))"

end
