(* ===== verification/Cw_Example.thy ===== *)
theory Cw_Example
  imports Cw_Lifecycle Cw_Views
begin

text \<open>
  A run of the service from an empty database, evaluated step by step: a workspace, a baseline,
  a task that is READY, a case that suspends it, its investigation, hand-over and resolution, and
  the reconsideration of the task. The theorems about reachable stores are applied to it. The
  hash of this environment is a constant except on idempotency keys, where it is the key.
\<close>

section \<open>Environment, actors and commands\<close>

definition sha0 :: "string \<Rightarrow> string" where
  "sha0 s = (if s ! 24 = CHR ''i'' \<and> s ! 25 = CHR ''d'' then [s ! 46] else ''h'')"

definition E0 :: env where
  "E0 = \<lparr>sha256 = sha0, float_repr = (\<lambda>_. ''0.5''), float_text = (\<lambda>_. Fin 0), iso_time = (\<lambda>_. ''t''), dump_time = (\<lambda>_. ''t''),
     parse_time = (\<lambda>_. Some (0, True)), nfc = (\<lambda>s. s), uni_lower = (\<lambda>s. s),
     runtime_id = ''r'', process_id = 1, build_commit = ''c''\<rparr>"

lemma E0_simps [simp]: "iso_time E0 t = ''t''" "dump_time E0 t = ''t''" "runtime_id E0 = ''r''"
  "process_id E0 = 1" "build_commit E0 = ''c''" "parse_time E0 s = Some (0, True)"
  by (simp_all add: E0_def)

lemma digest_h [simp]: "c \<noteq> CHR ''i'' \<or> d \<noteq> CHR ''d'' \<Longrightarrow> digest E0 (c # d # dm) x = ''h''"
  by (auto simp: digest_def digest_input_def E0_def sha0_def)

definition the_scope :: scope where
  "the_scope = \<lparr>sc_subject = ''a'', sc_chain = 8453, sc_target = ''0x'', sc_method = ''m''\<rparr>"

definition owner :: actor where
  "owner = \<lparr>ac_id = ''o'', ac_tenant = ''t'', ac_role = Owner, ac_subjects = [''a'']\<rparr>"
definition investigator :: actor where
  "investigator = \<lparr>ac_id = ''i'', ac_tenant = ''t'', ac_role = Investigator, ac_subjects = [''a'']\<rparr>"
definition reviewer :: actor where
  "reviewer = \<lparr>ac_id = ''r'', ac_tenant = ''t'', ac_role = Reviewer, ac_subjects = [''a'']\<rparr>"

lemma actor_simps [simp]:
  "ac_id owner = ''o''" "ac_tenant owner = ''t''" "ac_role owner = Owner" "ac_subjects owner = [''a'']"
  "ac_id investigator = ''i''" "ac_tenant investigator = ''t''" "ac_role investigator = Investigator" "ac_subjects investigator = [''a'']"
  "ac_id reviewer = ''r''" "ac_tenant reviewer = ''t''" "ac_role reviewer = Reviewer" "ac_subjects reviewer = [''a'']"
  "sc_subject the_scope = ''a''"
  by (simp_all add: owner_def investigator_def reviewer_def the_scope_def)

definition S0 :: service where
  "S0 = \<lparr>sv_actors = [(''r'', reviewer)], sv_desk = None, sv_anchor = None, sv_partner = None, sv_incidents = []\<rparr>"

lemma S0_simps [simp]: "sv_actors S0 = [(''r'', reviewer)]" "sv_desk S0 = None"
  by (simp_all add: S0_def)

text \<open>A run with one uuid for decisions and tasks, one for hand-overs, and one for the rest.\<close>

definition run_of :: "string \<Rightarrow> string \<Rightarrow> run" where
  "run_of u v = \<lparr>rn_clock = (\<lambda>_. 5), rn_uuid = (\<lambda>i. if i < 2 then u else if i = 4 then v else ''u'')\<rparr>"

lemma run_of_simps [simp]: "rn_clock (run_of u v) i = 5" "rn_uuid (run_of u v) 0 = u" "rn_uuid (run_of u v) 1 = u"
  "rn_uuid (run_of u v) (Suc 0) = u" "rn_uuid (run_of u v) 2 = ''u''" "rn_uuid (run_of u v) 3 = ''u''"
  "rn_uuid (run_of u v) 4 = v" "rn_uuid (run_of u v) 5 = ''u''"
  by (simp_all add: run_of_def)

definition cmd :: "string \<Rightarrow> int \<Rightarrow> command" where
  "cmd k r = \<lparr>cm_key = k, cm_session = ''s'', cm_revision = r\<rparr>"

definition the_baseline :: baseline_command where
  "the_baseline = \<lparr>cm_key = ''2'', cm_session = ''s'', cm_revision = 1, bc_scope = the_scope, bc_limit = 10, bc_expires = 100\<rparr>"
definition the_task :: task_command where
  "the_task = \<lparr>cm_key = ''3'', cm_session = ''s'', cm_revision = 2,
     tc_intent = \<lparr>in_scope = the_scope, in_amount = 7\<rparr>, tc_depends = []\<rparr>"
definition the_case :: open_case_command where
  "the_case = \<lparr>cm_key = ''4'', cm_session = ''s'', cm_revision = 3, oc_scope = the_scope, oc_kind = Dispute, oc_evidence = ''e''\<rparr>"
definition the_handoff :: handoff_command where
  "the_handoff = \<lparr>cm_key = ''6'', cm_session = ''s'', cm_revision = 5, hc_report = ''report_u'', hc_reviewer = ''r''\<rparr>"
definition the_resolution :: resolve_command where
  "the_resolution = \<lparr>cm_key = ''8'', cm_session = ''s'', cm_revision = 7, rs_handoff = ''handoff_u'',
     rs_resolution = ''resolved'', rs_evidence = ''f''\<rparr>"

lemmas command_defs = cmd_def the_baseline_def the_task_def the_case_def the_handoff_def the_resolution_def

lemma idem_keys [simp]:
  "idem_key E0 owner ''1'' = ''1''" "idem_key E0 owner ''2'' = ''2''" "idem_key E0 owner ''3'' = ''3''"
  "idem_key E0 investigator ''4'' = ''4''" "idem_key E0 investigator ''5'' = ''5''" "idem_key E0 investigator ''6'' = ''6''"
  "idem_key E0 reviewer ''7'' = ''7''" "idem_key E0 reviewer ''8'' = ''8''" "idem_key E0 reviewer ''9'' = ''9''"
  by (simp_all add: idem_key_def digest_def digest_input_def E0_def sha0_def dumps_def quote_def esc_def)

lemma seal_E0 [simp]: "seal E0 w = w\<lparr>ws_root := ''h''\<rparr>"
  by (simp add: seal_def)

lemma request_hash_E0 [simp]: "request_hash E0 n a s p = ''h''"
  by (simp add: request_hash_def)

section \<open>The workspaces of the run\<close>

definition event_row :: "int \<Rightarrow> string \<Rightarrow> string \<Rightarrow> string \<Rightarrow> string \<Rightarrow> jobj" where
  "event_row n i r c prev = [(''seq'', JInt n), (''at'', JStr ''t''), (''actor_id'', JStr i), (''role'', JStr r),
     (''command'', JStr c), (''request_hash'', JStr ''h''), (''result_hash'', JStr ''h''),
     (''previous_hash'', JStr prev), (''event_hash'', JStr ''h'')]"

definition answer_row :: "jobj \<Rightarrow> int \<Rightarrow> jobj" where
  "answer_row r n = [(''request_hash'', JStr ''h''), (''response'', JObj (r @ [(''revision'', JInt n),
     (''event_hash'', JStr ''h''), (''executable'', JBool False), (''replayed'', JBool False)]))]"

definition base1 :: baseline where
  "base1 = \<lparr>bl_scope = the_scope, bl_version = 1, bl_limit = 10, bl_expires = 100, bl_actor = ''o'', bl_seq = 2\<rparr>"
definition dec1 :: decision where
  "dec1 = \<lparr>dc_id = ''decision_u'', dc_task = ''task_u'', dc_verdict = READY,
     dc_reasons = [''CURRENT_POLICY_PASSED'', ''HUMAN_CONFIRMATION_STILL_REQUIRED''],
     dc_causal = [''baseline:h:v1''], dc_blockers = [], dc_fingerprint = ''h'', dc_basis = ''h'', dc_revision = 3,
     dc_session = ''s'', dc_runtime = ''r'', dc_process = 1, dc_build = ''c'', dc_created = 5, dc_expires = 100,
     dc_tool = ''human_review.prepare'', dc_proof = ''h''\<rparr>"
definition dec2 :: decision where
  "dec2 = dec1\<lparr>dc_id := ''decision_v'', dc_causal := [''baseline:h:v1'', ''resolution:case_u:v2''], dc_revision := 9\<rparr>"
definition task1 :: task where
  "task1 = \<lparr>tk_id = ''task_u'', tk_intent = \<lparr>in_scope = the_scope, in_amount = 7\<rparr>, tk_depends = [], tk_taints = [],
     tk_status = T_READY, tk_decision = Some ''decision_u''\<rparr>"
definition task2 :: task where
  "task2 = task1\<lparr>tk_taints := [(''case:case_u:v1'', ''NEW_RISK'')], tk_status := T_SUSPENDED\<rparr>"
definition task3 :: task where
  "task3 = task1\<lparr>tk_taints := [(''case:case_u:v1'', ''NEW_RISK''), (''resolution:case_u:v2'', ''RECONSIDER_REQUIRED'')],
     tk_status := T_NEEDS_HUMAN\<rparr>"
definition task4 :: task where
  "task4 = task1\<lparr>tk_decision := Some ''decision_v''\<rparr>"
definition case1 :: risk_case where
  "case1 = \<lparr>rc_id = ''case_u'', rc_scope = the_scope, rc_kind = Dispute, rc_version = 1, rc_status = OPEN,
     rc_opened_by = ''i'', rc_opened_seq = 4, rc_evidence = ''e'', rc_resolution = None, rc_resolved_by = None,
     rc_resolved_seq = None\<rparr>"
definition case2 :: risk_case where
  "case2 = case1\<lparr>rc_version := 2, rc_status := RESOLVED, rc_resolution := Some ''resolved'',
     rc_resolved_by := Some ''r'', rc_resolved_seq := Some 8\<rparr>"
definition traced :: "string \<Rightarrow> int \<Rightarrow> jobj" where
  "traced tool n = [(''tool'', JStr tool), (''phase'', JStr ''SUCCEEDED''), (''input_hash'', JStr ''h''),
     (''output_hash'', JStr ''h''), (''result_count'', JInt n)]"
definition report1 :: report where
  "report1 = \<lparr>rp_id = ''report_u'', rp_case = ''case_u'', rp_case_version = 1, rp_investigator = ''i'', rp_basis = ''h'',
     rp_case_refs = [''case_u''], rp_affected = [''task_u''], rp_precedents = [],
     rp_trace = [traced ''case.inspect'' 1, traced ''dependencies.trace'' 1, traced ''precedent.lookup'' 0],
     rp_receipt = None, rp_planner = DETERMINISTIC, rp_root = ''h''\<rparr>"
definition handoff1 :: handoff where
  "handoff1 = \<lparr>hf_id = ''handoff_u'', hf_report = ''report_u'', hf_case = ''case_u'', hf_case_version = 1,
     hf_reviewer = ''r'', hf_investigator = ''i'', hf_accepted = False\<rparr>"
definition lesson1 :: jobj where
  "lesson1 = [(''scope_key'', JStr ''h''), (''kind'', JStr ''dispute''), (''case_id'', JStr ''case_u''),
     (''case_version'', JInt 2), (''resolved_seq'', JInt 8), (''report_id'', JStr ''report_u''),
     (''resolution'', JStr ''resolved''), (''reviewer_id'', JStr ''r''), (''evidence_digest'', JStr ''f''),
     (''authority'', JBool False)]"

lemmas part_defs = base1_def dec1_def dec2_def task1_def task2_def task3_def task4_def case1_def case2_def
  traced_def report1_def handoff1_def lesson1_def event_row_def answer_row_def

definition w1 :: workspace where
  "w1 = (empty_workspace ''t'')\<lparr>ws_revision := 1, ws_audit := [event_row 1 ''o'' ''owner'' ''bootstrap'' zero_hash],
     ws_idempotency := [(''1'', answer_row [(''state'', JStr ''INITIALIZED'')] 1)], ws_root := ''h''\<rparr>"
definition w2 :: workspace where
  "w2 = w1\<lparr>ws_revision := 2, ws_baselines := [(''h'', base1)], ws_baseline_history := [(''h'', [base1])],
     ws_audit := ws_audit w1 @ [event_row 2 ''o'' ''owner'' ''baseline.set'' ''h''],
     ws_idempotency := ws_idempotency w1 @ [(''2'', answer_row [(''baseline_key'', JStr ''h''), (''version'', JInt 1),
       (''affected_tasks'', JList []), (''source'', JStr ''configured_operator_attestation'')] 2)], ws_root := ''h''\<rparr>"
definition w3 :: workspace where
  "w3 = w2\<lparr>ws_revision := 3, ws_tasks := [(''task_u'', task1)], ws_decisions := [(''decision_u'', dec1)],
     ws_audit := ws_audit w2 @ [event_row 3 ''o'' ''owner'' ''task.register'' ''h''],
     ws_idempotency := ws_idempotency w2 @
       [(''3'', answer_row [(''task'', task_json task1), (''decision'', decision_json E0 dec1)] 3)], ws_root := ''h''\<rparr>"
definition w4 :: workspace where
  "w4 = w3\<lparr>ws_revision := 4, ws_cases := [(''case_u'', case1)], ws_case_history := [(''case_u'', [case1])],
     ws_tasks := [(''task_u'', task2)], ws_audit := ws_audit w3 @ [event_row 4 ''i'' ''investigator'' ''case.open'' ''h''],
     ws_idempotency := ws_idempotency w3 @ [(''4'', answer_row [(''case'', case_json case1),
       (''affected_tasks'', JList [JStr ''task_u'']), (''authority'', JStr ''configured_operator_attestation'')] 4)], ws_root := ''h''\<rparr>"
definition w5 :: workspace where
  "w5 = w4\<lparr>ws_revision := 5, ws_reports := [(''report_u'', report1)],
     ws_audit := ws_audit w4 @ [event_row 5 ''i'' ''investigator'' ''case.investigate'' ''h''],
     ws_idempotency := ws_idempotency w4 @ [(''5'', answer_row [(''report'', report_json report1),
       (''next_step'', JStr ''COLLECT_AND_REVIEW_EVIDENCE'')] 5)], ws_root := ''h''\<rparr>"
definition w6 :: workspace where
  "w6 = w5\<lparr>ws_revision := 6, ws_handoffs := [(''handoff_u'', handoff1)],
     ws_audit := ws_audit w5 @ [event_row 6 ''i'' ''investigator'' ''case.handoff'' ''h''],
     ws_idempotency := ws_idempotency w5 @ [(''6'', answer_row [(''handoff'', handoff_json handoff1)] 6)], ws_root := ''h''\<rparr>"
definition w7 :: workspace where
  "w7 = w6\<lparr>ws_revision := 7, ws_handoffs := [(''handoff_u'', handoff1\<lparr>hf_accepted := True\<rparr>)],
     ws_audit := ws_audit w6 @ [event_row 7 ''r'' ''reviewer'' ''handoff.accept'' ''h''],
     ws_idempotency := ws_idempotency w6 @ [(''7'', answer_row [(''handoff'', handoff_json (handoff1\<lparr>hf_accepted := True\<rparr>))] 7)], ws_root := ''h''\<rparr>"
definition w8 :: workspace where
  "w8 = w7\<lparr>ws_revision := 8, ws_cases := [(''case_u'', case2)], ws_case_history := [(''case_u'', [case1, case2])],
     ws_tasks := [(''task_u'', task3)], ws_lessons := [(''lesson_u'', lesson1)],
     ws_audit := ws_audit w7 @ [event_row 8 ''r'' ''reviewer'' ''case.resolve'' ''h''],
     ws_idempotency := ws_idempotency w7 @ [(''8'', answer_row [(''case'', case_json case2),
       (''affected_tasks'', JList [JStr ''task_u'']), (''lesson_id'', JStr ''lesson_u''),
       (''requires_explicit_reconsideration'', JBool True)] 8)], ws_root := ''h''\<rparr>"
definition w9 :: workspace where
  "w9 = w8\<lparr>ws_revision := 9, ws_tasks := [(''task_u'', task4)], ws_decisions := [(''decision_u'', dec1), (''decision_v'', dec2)],
     ws_artifacts := [], ws_audit := ws_audit w8 @ [event_row 9 ''r'' ''reviewer'' ''task.reconsider'' ''h''],
     ws_idempotency := ws_idempotency w8 @ [(''9'', answer_row [(''decision'', decision_json E0 dec2),
       (''supersedes'', JStr ''decision_u''), (''taints_remaining'', JList [])] 9)], ws_root := ''h''\<rparr>"

definition the_snapshot :: snapshot where
  "the_snapshot = \<lparr>sn_workspace = w4, sn_case = case1, sn_basis = ''h'', sn_external = None\<rparr>"

lemma w1_fields [simp]:
  "ws_tenant w1 = ''t''" "ws_revision w1 = 1" "ws_baselines w1 = []" "ws_cases w1 = []" "ws_case_history w1 = []"
  "ws_baseline_history w1 = []" "ws_tasks w1 = []" "ws_decisions w1 = []" "ws_reports w1 = []" "ws_handoffs w1 = []"
  "ws_lessons w1 = []" "ws_artifacts w1 = []" "ws_audit w1 = [event_row 1 ''o'' ''owner'' ''bootstrap'' zero_hash]"
  "ws_idempotency w1 = [(''1'', answer_row [(''state'', JStr ''INITIALIZED'')] 1)]" "ws_root w1 = ''h''"
  by (simp_all add: w1_def empty_workspace_def)

lemma w2_fields [simp]:
  "ws_tenant w2 = ''t''" "ws_revision w2 = 2" "ws_baselines w2 = [(''h'', base1)]" "ws_cases w2 = []"
  "ws_case_history w2 = []" "ws_baseline_history w2 = [(''h'', [base1])]" "ws_tasks w2 = []" "ws_decisions w2 = []"
  "ws_reports w2 = []" "ws_handoffs w2 = []" "ws_lessons w2 = []" "ws_artifacts w2 = []"
  "ws_audit w2 = ws_audit w1 @ [event_row 2 ''o'' ''owner'' ''baseline.set'' ''h'']"
  "ws_idempotency w2 = ws_idempotency w1 @ [(''2'', answer_row [(''baseline_key'', JStr ''h''), (''version'', JInt 1), (''affected_tasks'', JList []), (''source'', JStr ''configured_operator_attestation'')] 2)]"
  "ws_root w2 = ''h''"
  by (simp_all add: w2_def)

lemma w3_fields [simp]:
  "ws_tenant w3 = ''t''" "ws_revision w3 = 3" "ws_baselines w3 = [(''h'', base1)]" "ws_cases w3 = []"
  "ws_case_history w3 = []" "ws_baseline_history w3 = [(''h'', [base1])]" "ws_tasks w3 = [(''task_u'', task1)]"
  "ws_decisions w3 = [(''decision_u'', dec1)]" "ws_reports w3 = []" "ws_handoffs w3 = []" "ws_lessons w3 = []"
  "ws_artifacts w3 = []" "ws_audit w3 = ws_audit w2 @ [event_row 3 ''o'' ''owner'' ''task.register'' ''h'']"
  "ws_idempotency w3 = ws_idempotency w2 @ [(''3'', answer_row [(''task'', task_json task1), (''decision'', decision_json E0 dec1)] 3)]"
  "ws_root w3 = ''h''"
  by (simp_all add: w3_def)

lemma w4_fields [simp]:
  "ws_tenant w4 = ''t''" "ws_revision w4 = 4" "ws_baselines w4 = [(''h'', base1)]"
  "ws_cases w4 = [(''case_u'', case1)]" "ws_case_history w4 = [(''case_u'', [case1])]"
  "ws_baseline_history w4 = [(''h'', [base1])]" "ws_tasks w4 = [(''task_u'', task2)]"
  "ws_decisions w4 = [(''decision_u'', dec1)]" "ws_reports w4 = []" "ws_handoffs w4 = []" "ws_lessons w4 = []"
  "ws_artifacts w4 = []" "ws_audit w4 = ws_audit w3 @ [event_row 4 ''i'' ''investigator'' ''case.open'' ''h'']"
  "ws_idempotency w4 = ws_idempotency w3 @ [(''4'', answer_row [(''case'', case_json case1), (''affected_tasks'', JList [JStr ''task_u'']), (''authority'', JStr ''configured_operator_attestation'')] 4)]"
  "ws_root w4 = ''h''"
  by (simp_all add: w4_def)

lemma w5_fields [simp]:
  "ws_tenant w5 = ''t''" "ws_revision w5 = 5" "ws_baselines w5 = [(''h'', base1)]"
  "ws_cases w5 = [(''case_u'', case1)]" "ws_case_history w5 = [(''case_u'', [case1])]"
  "ws_baseline_history w5 = [(''h'', [base1])]" "ws_tasks w5 = [(''task_u'', task2)]"
  "ws_decisions w5 = [(''decision_u'', dec1)]" "ws_reports w5 = [(''report_u'', report1)]" "ws_handoffs w5 = []"
  "ws_lessons w5 = []" "ws_artifacts w5 = []"
  "ws_audit w5 = ws_audit w4 @ [event_row 5 ''i'' ''investigator'' ''case.investigate'' ''h'']"
  "ws_idempotency w5 = ws_idempotency w4 @ [(''5'', answer_row [(''report'', report_json report1), (''next_step'', JStr ''COLLECT_AND_REVIEW_EVIDENCE'')] 5)]"
  "ws_root w5 = ''h''"
  by (simp_all add: w5_def)

lemma w6_fields [simp]:
  "ws_tenant w6 = ''t''" "ws_revision w6 = 6" "ws_baselines w6 = [(''h'', base1)]"
  "ws_cases w6 = [(''case_u'', case1)]" "ws_case_history w6 = [(''case_u'', [case1])]"
  "ws_baseline_history w6 = [(''h'', [base1])]" "ws_tasks w6 = [(''task_u'', task2)]"
  "ws_decisions w6 = [(''decision_u'', dec1)]" "ws_reports w6 = [(''report_u'', report1)]"
  "ws_handoffs w6 = [(''handoff_u'', handoff1)]" "ws_lessons w6 = []" "ws_artifacts w6 = []"
  "ws_audit w6 = ws_audit w5 @ [event_row 6 ''i'' ''investigator'' ''case.handoff'' ''h'']"
  "ws_idempotency w6 = ws_idempotency w5 @ [(''6'', answer_row [(''handoff'', handoff_json handoff1)] 6)]"
  "ws_root w6 = ''h''"
  by (simp_all add: w6_def)

lemma w7_fields [simp]:
  "ws_tenant w7 = ''t''" "ws_revision w7 = 7" "ws_baselines w7 = [(''h'', base1)]"
  "ws_cases w7 = [(''case_u'', case1)]" "ws_case_history w7 = [(''case_u'', [case1])]"
  "ws_baseline_history w7 = [(''h'', [base1])]" "ws_tasks w7 = [(''task_u'', task2)]"
  "ws_decisions w7 = [(''decision_u'', dec1)]" "ws_reports w7 = [(''report_u'', report1)]"
  "ws_handoffs w7 = [(''handoff_u'', handoff1\<lparr>hf_accepted := True\<rparr>)]" "ws_lessons w7 = []"
  "ws_artifacts w7 = []" "ws_audit w7 = ws_audit w6 @ [event_row 7 ''r'' ''reviewer'' ''handoff.accept'' ''h'']"
  "ws_idempotency w7 = ws_idempotency w6 @ [(''7'', answer_row [(''handoff'', handoff_json (handoff1\<lparr>hf_accepted := True\<rparr>))] 7)]"
  "ws_root w7 = ''h''"
  by (simp_all add: w7_def)

lemma w8_fields [simp]:
  "ws_tenant w8 = ''t''" "ws_revision w8 = 8" "ws_baselines w8 = [(''h'', base1)]"
  "ws_cases w8 = [(''case_u'', case2)]" "ws_case_history w8 = [(''case_u'', [case1, case2])]"
  "ws_baseline_history w8 = [(''h'', [base1])]" "ws_tasks w8 = [(''task_u'', task3)]"
  "ws_decisions w8 = [(''decision_u'', dec1)]" "ws_reports w8 = [(''report_u'', report1)]"
  "ws_handoffs w8 = [(''handoff_u'', handoff1\<lparr>hf_accepted := True\<rparr>)]"
  "ws_lessons w8 = [(''lesson_u'', lesson1)]" "ws_artifacts w8 = []"
  "ws_audit w8 = ws_audit w7 @ [event_row 8 ''r'' ''reviewer'' ''case.resolve'' ''h'']"
  "ws_idempotency w8 = ws_idempotency w7 @ [(''8'', answer_row [(''case'', case_json case2), (''affected_tasks'', JList [JStr ''task_u'']), (''lesson_id'', JStr ''lesson_u''), (''requires_explicit_reconsideration'', JBool True)] 8)]"
  "ws_root w8 = ''h''"
  by (simp_all add: w8_def)

lemma w9_fields [simp]:
  "ws_tenant w9 = ''t''" "ws_revision w9 = 9" "ws_baselines w9 = [(''h'', base1)]"
  "ws_cases w9 = [(''case_u'', case2)]" "ws_case_history w9 = [(''case_u'', [case1, case2])]"
  "ws_baseline_history w9 = [(''h'', [base1])]" "ws_tasks w9 = [(''task_u'', task4)]"
  "ws_decisions w9 = [(''decision_u'', dec1), (''decision_v'', dec2)]" "ws_reports w9 = [(''report_u'', report1)]"
  "ws_handoffs w9 = [(''handoff_u'', handoff1\<lparr>hf_accepted := True\<rparr>)]"
  "ws_lessons w9 = [(''lesson_u'', lesson1)]" "ws_artifacts w9 = []"
  "ws_audit w9 = ws_audit w8 @ [event_row 9 ''r'' ''reviewer'' ''task.reconsider'' ''h'']"
  "ws_idempotency w9 = ws_idempotency w8 @ [(''9'', answer_row [(''decision'', decision_json E0 dec2), (''supersedes'', JStr ''decision_u''), (''taints_remaining'', JList [])] 9)]"
  "ws_root w9 = ''h''"
  by (simp_all add: w9_def)

section \<open>The steps\<close>

lemma digit_chars [simp]: "digit_char 0 = CHR ''0''" "digit_char (Suc 0) = CHR ''1''" "digit_char 1 = CHR ''1''"
  "digit_char 2 = CHR ''2''" "digit_char 3 = CHR ''3''" "digit_char 4 = CHR ''4''" "digit_char 5 = CHR ''5''"
  "digit_char 6 = CHR ''6''" "digit_char 7 = CHR ''7''" "digit_char 8 = CHR ''8''" "digit_char 9 = CHR ''9''"
  by code_simp+

lemmas engine_defs = authorize_def mutate_def opened_def recheck_def
  fresh_check_def commit_def audit_event_def Let_def dunion_def find_task_def find_case_def jfield_def replay_guard_def
  scope_key_def history_ok_def version_ref_def event_ok_def jget_def dec_int_def dec_nat.simps jstring_def new_id_def

lemmas graph_defs = affected_tasks_def affected_loop.simps added_tasks_def sorted_set_def task_scope_def
  ancestors_def walk.simps closure_def task_at_def case_at_def dadjust_def

lemmas policy_defs = policy_result_def scoped_cases_def open_blockers_def causal_refs_def current_decision_def
  task_basis_def ready_expiry_def expiry_limits_def task_limits_def seconds_def new_decision_def decide_task_def
  store_decision_def decided_task_def case_version_def action_fingerprint_def resolution_links_def task_basis_body_def

lemma upto_2 [simp]: "[1..2] = [1, 2 :: int]"
  by (simp add: upto.simps)

lemmas valid_defs = validate_workspace_def history_ok_def event_ok_def jget_def decision_ok_def report_ok_def

lemma valid1 [simp]: "validate_workspace E0 w1 = Inr ()"
  by (simp add: valid_defs part_defs)

lemma valid2 [simp]: "validate_workspace E0 w2 = Inr ()"
  by (simp add: valid_defs part_defs)

lemma valid3 [simp]: "validate_workspace E0 w3 = Inr ()"
  by (simp add: valid_defs part_defs)

lemma valid4 [simp]: "validate_workspace E0 w4 = Inr ()"
  by (simp add: valid_defs part_defs)

lemma valid5 [simp]: "validate_workspace E0 w5 = Inr ()"
  by (simp add: valid_defs part_defs)

lemma valid6 [simp]: "validate_workspace E0 w6 = Inr ()"
  by (simp add: valid_defs part_defs)

lemma valid7 [simp]: "validate_workspace E0 w7 = Inr ()"
  by (simp add: valid_defs part_defs)

lemma valid8 [simp]: "validate_workspace E0 w8 = Inr ()"
  by (simp add: valid_defs part_defs)

lemma valid9 [simp]: "validate_workspace E0 w9 = Inr ()"
  by (simp add: valid_defs part_defs)

lemma step1: "\<exists>r. handle E0 S0 owner (Bootstrap (cmd ''1'' 0)) (run_of ''u'' ''u'') None = Inr (Some w1, r)"
  by (simp add: bootstrap_def valid_defs empty_workspace_def engine_defs command_defs w1_def part_defs)

lemma step2: "\<exists>r. handle E0 S0 owner (SetBaseline the_baseline) (run_of ''u'' ''u'') (Some w1) = Inr (Some w2, r)"
  by (simp add: set_baseline_def set_baseline_change_def invalidate_def baseline_payload_def engine_defs graph_defs
      command_defs w2_def part_defs)

lemma step3: "\<exists>r. handle E0 S0 owner (RegisterTask the_task) (run_of ''u'' ''u'') (Some w2) = Inr (Some w3, r)"
  by (simp add: register_task_def register_task_change_def parents_ok_def new_task_def task_payload_def engine_defs graph_defs
      policy_defs command_defs w3_def part_defs)

lemma step4: "\<exists>r. handle E0 S0 investigator (OpenCase the_case) (run_of ''x'' ''u'') (Some w3) = Inr (Some w4, r)"
  by (simp add: open_case_def open_case_change_def new_case_def case_payload_def desk_remember_def invalidate_def taint_def
      engine_defs graph_defs command_defs w4_def part_defs)

lemma basis4: "investigation_basis E0 w4 ''case_u'' = Inr ''h''" "affected_tasks E0 w4 the_scope = [''task_u'']"
  by (simp_all add: active_precedents_def investigation_basis_def evidence_basis_def evidence_heads_def engine_defs graph_defs
      policy_defs part_defs)

lemma step5: "\<exists>r. handle E0 S0 investigator (Finish (cmd ''5'' 4) ''case_u'' the_snapshot None) (run_of ''x'' ''u'') (Some w4) =
    Inr (Some w5, r)"
  by (simp add: investigate_finish_def investigate_change_def build_report_def planned_def related_cases_def
      active_precedents_def run_tools_def mandatory_tools_def optional_tools_def trace_entry_def tool_output_def
      basis4 the_snapshot_def engine_defs graph_defs policy_defs command_defs w5_def part_defs)

lemma valid_report5: "valid_report E0 S0 w5 case1 ''report_u'' (run_of ''x'' ''u'') = Inr report1"
  and valid_report6: "valid_report E0 S0 w6 case1 ''report_u'' (run_of ''x'' ''y'') = Inr report1"
  and valid_report7: "valid_report E0 S0 w7 case1 ''report_u'' (run_of ''x'' ''y'') = Inr report1"
  by (simp_all add: valid_report_def require_desk_def source_traced_def has_obligations_def obligations_def active_precedents_def
      investigation_basis_def evidence_basis_def evidence_heads_def engine_defs graph_defs policy_defs part_defs)

lemma step6: "\<exists>r. handle E0 S0 investigator (HandOff the_handoff ''case_u'') (run_of ''x'' ''u'') (Some w5) = Inr (Some w6, r)"
  using valid_report5 by (simp add: handoff_def handoff_change_def reviewer_ok_def engine_defs command_defs w6_def part_defs)

lemma step7: "\<exists>r. handle E0 S0 reviewer (AcceptHandoff (cmd ''7'' 6) ''handoff_u'') (run_of ''x'' ''y'') (Some w6) = Inr (Some w7, r)"
  using valid_report6 by (simp add: accept_handoff_def accept_change_def engine_defs command_defs w7_def part_defs)

lemma step8: "\<exists>r. handle E0 S0 reviewer (Resolve the_resolution ''case_u'') (run_of ''x'' ''y'') (Some w7) = Inr (Some w8, r)"
  using valid_report7 by (simp add: resolve_def resolve_change_def resolve_guard_def review_ack_def
      resolved_def link_resolution_def append_history_def desk_remember_def tainted_def
      observed_status_def new_lesson_def engine_defs graph_defs policy_defs command_defs w8_def part_defs)

lemma step9: "\<exists>r. handle E0 S0 reviewer (Reconsider (cmd ''9'' 8) ''task_u'') (run_of ''v'' ''y'') (Some w8) = Inr (Some w9, r)"
  by (simp add: evaluate_def evaluate_change_def jopt_def engine_defs graph_defs policy_defs command_defs w9_def part_defs)

section \<open>What the bodies weigh\<close>

text \<open>An upper bound of the serialized length that is quick to evaluate.\<close>

fun weigh :: "json \<Rightarrow> nat" and weigh_list :: "json list \<Rightarrow> nat" and weigh_pairs :: "(string \<times> json) list \<Rightarrow> nat" where
  "weigh JNull = 4"
| "weigh (JBool b) = 5"
| "weigh (JInt i) = length (dec_int i)"
| "weigh (JFloat f) = 9"
| "weigh (JStr s) = 6 * length s + 2"
| "weigh (JList xs) = weigh_list xs + 1"
| "weigh (JObj d) = weigh_pairs d + 1"
| "weigh_list [] = 1"
| "weigh_list (x # xs) = weigh x + 2 + weigh_list xs"
| "weigh_pairs [] = 1"
| "weigh_pairs ((k, v) # d) = 6 * length k + 6 + weigh v + weigh_pairs d"

lemma length_quote: "length (quote s) \<le> 6 * length s + 2"
proof -
  have "length (concat (map esc s)) \<le> 6 * length s"
    by (induction s) (auto simp: esc_def)
  then show ?thesis by (simp add: quote_def)
qed

lemma length_enc_float: "length (enc_float (float_repr E0) f) \<le> 9"
  by (cases f) (simp_all add: enc_float_def E0_def)

lemma length_key: "a \<le> x \<Longrightarrow> b \<le> y \<Longrightarrow> length (quote k) + (a + b) \<le> x + (y + (2 + length k * 6))"
  using length_quote [of k] by simp

lemma length_wire:
  "length (wire (float_repr E0) j) \<le> weigh j"
  "length (wire_tail (float_repr E0) xs) \<le> weigh_list xs"
  "length (wire_pairs (float_repr E0) d) \<le> weigh_pairs d"
  using length_quote length_enc_float
  by (induction "float_repr E0" j and "float_repr E0" xs and "float_repr E0" d rule: wire_wire_tail_wire_pairs.induct)
    (auto intro: order_trans dest: length_key)

lemma save_guard_weigh:
  "validate_workspace E0 w = Inr () \<Longrightarrow> weigh (workspace_json E0 w) \<le> 8000000 \<Longrightarrow> save_guard E0 w = Inr ()"
  using length_wire(1) [of "workspace_json E0 w"] by (simp add: save_guard_def)

lemmas json_defs = workspace_json_def state_payload_def dump_dict_def baseline_json_def scope_json_def case_json_def
  task_json_def intent_fields_def decision_json_def decision_payload_def report_json_def report_payload_def handoff_json_def
  jopt_def zero_hash_def dec_int_def dec_nat.simps

lemma saves [simp]: "save_guard E0 w1 = Inr ()" "save_guard E0 w2 = Inr ()" "save_guard E0 w3 = Inr ()"
  "save_guard E0 w4 = Inr ()" "save_guard E0 w5 = Inr ()" "save_guard E0 w6 = Inr ()" "save_guard E0 w7 = Inr ()"
  "save_guard E0 w8 = Inr ()" "save_guard E0 w9 = Inr ()"
  by (rule save_guard_weigh, simp, simp add: json_defs part_defs the_scope_def)+

section \<open>The stores\<close>

definition holding :: "workspace option \<Rightarrow> rows sibyl" where
  "holding l = \<lparr>si_db = (\<lambda>x. if x = (''t'', category, ''h'') then l else None), si_known = None, si_stat = None\<rparr>"

lemma row_key_E0 [simp]: "row_key E0 t = ''h''"
  by (simp add: row_key_def)

lemma load_holding: "(\<And>w. l = Some w \<Longrightarrow> validate_workspace E0 w = Inr ()) \<Longrightarrow> sibyl_load E0 rows_get (holding l) ''t'' = Inr l"
  by (cases l) (simp_all add: sibyl_load_def check_identity_def holding_def rows_get_def)

lemma save_holding: "save_guard E0 w = Inr () \<Longrightarrow> sibyl_save E0 rows_put (holding l) ''t'' w = Inr (holding (Some w))"
  by (simp add: sibyl_save_def check_identity_def holding_def rows_put_def fun_eq_iff)

lemma served_holding:
  assumes "\<exists>r. handle E0 S a q R l = Inr (Some w, r)" "save_guard E0 w = Inr ()" "ac_tenant a = ''t''"
    "\<And>w. l = Some w \<Longrightarrow> validate_workspace E0 w = Inr ()" "fresh_ids (at_start E0 ''t'' l) R"
  shows "served E0 S (holding l) (holding (Some w))"
proof -
  from assms(1) obtain r where "handle E0 S a q R l = Inr (Some w, r)" ..
  then have "serve (sibyl_load E0 rows_get) (sibyl_save E0 rows_put) (ac_tenant a) (handle E0 S a q R) (holding l) =
    Inr (holding (Some w), r)"
    by (simp add: serve_def load_holding assms(2,3,4) save_holding)
  from served.request [OF _ _ this] assms(3,4,5) load_holding show ?thesis by simp
qed

lemma served_run:
  "served E0 S0 (holding None) (holding (Some w1))" "served E0 S0 (holding (Some w1)) (holding (Some w2))"
  "served E0 S0 (holding (Some w2)) (holding (Some w3))" "served E0 S0 (holding (Some w3)) (holding (Some w4))"
  "served E0 S0 (holding (Some w4)) (holding (Some w5))" "served E0 S0 (holding (Some w5)) (holding (Some w6))"
  "served E0 S0 (holding (Some w6)) (holding (Some w7))" "served E0 S0 (holding (Some w7)) (holding (Some w8))"
  "served E0 S0 (holding (Some w8)) (holding (Some w9))"
  by (rule served_holding, rule step1 step2 step3 step4 step5 step6 step7 step8 step9,
      auto simp: fresh_ids_def new_id_def at_start_def empty_workspace_def)+

lemma reachable_start: "reachable E S (holding None)"
  unfolding reachable_def by (rule exI [of _ "holding None"]) (simp add: holding_def no_rows_def fun_eq_iff)

lemma reachable_step: "reachable E S s \<Longrightarrow> served E S s s' \<Longrightarrow> reachable E S s'"
  unfolding reachable_def by (meson rtranclp.rtrancl_into_rtrancl)

lemma reachable_run: "reachable E0 S0 (holding (Some w1))" "reachable E0 S0 (holding (Some w2))"
  "reachable E0 S0 (holding (Some w3))" "reachable E0 S0 (holding (Some w4))" "reachable E0 S0 (holding (Some w5))"
  "reachable E0 S0 (holding (Some w6))" "reachable E0 S0 (holding (Some w7))" "reachable E0 S0 (holding (Some w8))"
  "reachable E0 S0 (holding (Some w9))"
proof -
  note r = reachable_step [OF reachable_start served_run(1)]
  show "reachable E0 S0 (holding (Some w1))" by (rule r)
  note r = reachable_step [OF r served_run(2)]
  show "reachable E0 S0 (holding (Some w2))" by (rule r)
  note r = reachable_step [OF r served_run(3)]
  show "reachable E0 S0 (holding (Some w3))" by (rule r)
  note r = reachable_step [OF r served_run(4)]
  show "reachable E0 S0 (holding (Some w4))" by (rule r)
  note r = reachable_step [OF r served_run(5)]
  show "reachable E0 S0 (holding (Some w5))" by (rule r)
  note r = reachable_step [OF r served_run(6)]
  show "reachable E0 S0 (holding (Some w6))" by (rule r)
  note r = reachable_step [OF r served_run(7)]
  show "reachable E0 S0 (holding (Some w7))" by (rule r)
  note r = reachable_step [OF r served_run(8)]
  show "reachable E0 S0 (holding (Some w8))" by (rule r)
  note r = reachable_step [OF r served_run(9)]
  show "reachable E0 S0 (holding (Some w9))" by (rule r)
qed

lemma stored_holding: "stored E0 (holding (Some w)) ''t'' w \<longleftrightarrow> validate_workspace E0 w = Inr ()"
  by (auto simp: stored_def load_holding sibyl_load_def check_identity_def holding_def rows_get_def)

end
