(* ===== verification/Cw_Tamper.thy ===== *)
theory Cw_Tamper
  imports Cw_Lifecycle
begin

text \<open>
  What the hashes of a workspace are good for: two workspaces with the same root, or two audit
  logs of the same length with the same last hash, hold the same data up to the order of keys, or
  they exhibit a collision of the hash function.
\<close>

section \<open>Reading a canonical object\<close>

lemma map_of_filter_key: "map_of (filter (\<lambda>p. fst p = k) d) k = map_of d k"
  by (induction d) auto

lemma map_of_sort_key: "map_of (sort_key fst d) k = map_of (d :: 'v dict) k"
  using map_of_filter_key [of k "sort_key fst d"] map_of_filter_key [of k d]
  by (simp add: sort_key_stable)

lemma map_of_canon_pairs: "map_of (canon_pairs d) k = map_option canon (map_of d k)"
  by (induction d) auto

lemma canon_field:
  assumes "canon (JObj d) = canon (JObj e)"
  shows "map_option canon (map_of d k) = map_option canon (map_of e k)"
  using assms map_of_sort_key [of "canon_pairs d" k] map_of_sort_key [of "canon_pairs e" k]
  by (simp add: map_of_canon_pairs)

lemma canon_JStr [simp]: "canon x = JStr s \<longleftrightarrow> x = JStr s"
  by (cases x) auto

lemma canon_jget:
  assumes "canon (JObj d) = canon (JObj e)" "jget d k = JStr s"
  shows "jget e k = JStr s"
proof -
  from assms(2) have "map_of d k = Some (JStr s)" by (auto simp: jget_def split: option.splits)
  with canon_field [OF assms(1), of k] have "map_of e k = Some (JStr s)"
    by (cases "map_of e k") (simp_all add: eq_commute [of "JStr s"])
  then show ?thesis by (simp add: jget_def)
qed

section \<open>Collisions\<close>

definition collision :: "env \<Rightarrow> string \<Rightarrow> json \<Rightarrow> json \<Rightarrow> bool" where
  "collision E dm a b \<longleftrightarrow> digest_input E dm a \<noteq> digest_input E dm b \<and>
     sha256 E (digest_input E dm a) = sha256 E (digest_input E dm b)"

lemma digest_eq:
  assumes "digest E dm a = digest E dm b" "float_free a" "float_free b"
  shows "canon a = canon b \<or> collision E dm a b"
  using assms dumps_eq_iff by (auto simp: digest_def collision_def digest_input_def)

section \<open>The audit log\<close>

definition event_body :: "jobj \<Rightarrow> json" where
  "event_body ev = JObj (filter (\<lambda>(k, v). k \<noteq> ''event_hash'') ev)"

lemma jget_body: "k \<noteq> ''event_hash'' \<Longrightarrow> jget (filter (\<lambda>(k, v). k \<noteq> ''event_hash'') ev) k = jget ev k"
  by (induction ev) (auto simp: jget_def)

lemma event_ok_digest: "event_ok E n prev ev \<Longrightarrow> jget ev ''event_hash'' = JStr (digest E ''event'' (event_body ev))"
  by (simp only: event_ok_def event_body_def simp_thms)

lemma body_previous:
  assumes "canon (event_body x) = canon (event_body y)" "jget x ''previous_hash'' = JStr s"
  shows "jget y ''previous_hash'' = JStr s"
  using canon_jget [OF assms(1) [unfolded event_body_def], of "''previous_hash''" s] assms(2) by (simp add: jget_body)

lemma audit_log_binds:
  assumes "audit_ok E n p xs" "audit_ok E n p ys" "length xs = length ys" "last_hash xs = last_hash ys"
    "\<forall>ev \<in> set xs \<union> set ys. float_free (event_body ev)"
  shows "list_all2 (\<lambda>x y. canon (event_body x) = canon (event_body y)) xs ys \<or>
    (\<exists>(x, y) \<in> set (zip xs ys). collision E ''event'' (event_body x) (event_body y))"
  using assms
proof (induction xs arbitrary: ys rule: rev_induct)
  case (snoc x xs)
  from snoc.prems(3) obtain ys' y where ys: "ys = ys' @ [y]" "length ys' = length xs"
    by (cases ys rule: rev_cases) auto
  define prev where "prev zs = (if zs = [] then p else (case jget (last zs) ''event_hash'' of JStr h \<Rightarrow> h | _ \<Rightarrow> []))" for zs
  have ex: "audit_ok E n p xs" "event_ok E (n + int (length xs)) (prev xs) x"
    and ey: "audit_ok E n p ys'" "event_ok E (n + int (length ys')) (prev ys') y"
    using snoc.prems(1,2) by (simp_all add: ys audit_ok_snoc prev_def)
  have "digest E ''event'' (event_body x) = digest E ''event'' (event_body y)"
    using event_ok_digest [OF ex(2)] event_ok_digest [OF ey(2)] snoc.prems(4) by (simp add: ys last_hash_def)
  then consider "collision E ''event'' (event_body x) (event_body y)" | "canon (event_body x) = canon (event_body y)"
    using digest_eq snoc.prems(5) ys by fastforce
  then show ?case
  proof cases
    case 1
    then show ?thesis by (auto simp: ys)
  next
    case 2
    have same: "prev xs = prev ys'"
      using body_previous [OF 2] ex(2) ey(2) by (auto simp: event_ok_def)
    have "last_hash xs = last_hash ys'"
    proof (cases "xs = []")
      case False
      with ys(2) have "ys' \<noteq> []" by auto
      with False same audit_last [OF ex(1)] audit_last [OF ey(1)] show ?thesis
        by (auto simp: prev_def last_hash_def)
    qed (use ys(2) in \<open>simp add: last_hash_def\<close>)
    with snoc.IH [OF ex(1) ey(1)] snoc.prems(5) ys
    have "list_all2 (\<lambda>x y. canon (event_body x) = canon (event_body y)) xs ys' \<or>
      (\<exists>(x, y) \<in> set (zip xs ys'). collision E ''event'' (event_body x) (event_body y))" by auto
    then show ?thesis
    proof
      assume "list_all2 (\<lambda>x y. canon (event_body x) = canon (event_body y)) xs ys'"
      with 2 show ?thesis by (simp add: ys list_all2_appendI)
    next
      assume "\<exists>(x, y) \<in> set (zip xs ys'). collision E ''event'' (event_body x) (event_body y)"
      then show ?thesis by (auto simp: ys)
    qed
  qed
qed simp

section \<open>The root\<close>

lemma root_binds:
  assumes "validate_workspace E v = Inr ()" "validate_workspace E w = Inr ()" "ws_root v = ws_root w"
    "float_free (state_payload E v)" "float_free (state_payload E w)"
  shows "canon (state_payload E v) = canon (state_payload E w) \<or>
    collision E ''workspace'' (state_payload E v) (state_payload E w)"
  using assms by (intro digest_eq) (simp_all add: validate_Inr)

end
