(* ===== verification/Cw_Claims.thy ===== *)
theory Cw_Claims
  imports Cw_Example Cw_Tamper
begin

text \<open>
  The properties of casework, each followed by a witness at a concrete input. The lemmas that
  carry them are in the theories of the components.
\<close>

section \<open>The stores a service can reach\<close>

text \<open>C1: in every store the service can reach, a task that is READY has no taint, has a READY
  decision of its own, and no open case has the scope of the task or of one it depends on.\<close>

theorem reachable_ready_safe:
  assumes "reachable E S s" "stored E s tenant w" "map_of (ws_tasks w) k = Some t" "tk_status t = T_READY"
  shows "tk_taints t = [] \<and>
    (\<exists>d. current_decision w t = Some d \<and> dc_verdict d = READY \<and> dc_task d = k) \<and>
    (\<forall>(i, c) \<in> set (ws_cases w). \<not> blocks E w k c)"
  using reachable_good [OF assms(1)] assms(2-)
  by (auto simp: store_good_def good_def ready_ok_def has_ready_decision_def)

theorem reachable_ready_safe_witness:
  "tk_taints task4 = [] \<and> (\<exists>d. current_decision w9 task4 = Some d \<and> dc_verdict d = READY \<and> dc_task d = ''task_u'') \<and>
   filter (\<lambda>(i, c). blocks E0 w9 ''task_u'' c) (ws_cases w9) = []"
proof -
  have "tk_taints task4 = [] \<and> (\<exists>d. current_decision w9 task4 = Some d \<and> dc_verdict d = READY \<and> dc_task d = ''task_u'') \<and>
   (\<forall>(i, c) \<in> set (ws_cases w9). \<not> blocks E0 w9 ''task_u'' c)"
    by (rule reachable_ready_safe [OF reachable_run(9), of "''t''"]) (simp_all add: stored_holding task4_def task1_def)
  then show ?thesis by (auto simp: filter_empty_conv)
qed

text \<open>C2: in every store the service can reach, a resolved case was resolved by a reviewer other
  than the actor who opened it and the investigator, after that reviewer accepted the hand-over of
  the version of the case that was resolved.\<close>

theorem reachable_four_eyes:
  assumes "reachable E S s" "stored E s tenant w" "(i, c) \<in> set (ws_cases w)" "rc_status c = RESOLVED"
  shows "\<exists>r h. rc_resolved_by c = Some r \<and> r \<noteq> rc_opened_by c \<and> h \<in> snd ` set (ws_handoffs w) \<and>
    hf_case h = i \<and> hf_accepted h \<and> hf_reviewer h = r \<and> hf_investigator h \<noteq> r \<and>
    hf_case_version h + 1 = rc_version c"
proof -
  from reachable_good [OF assms(1)] assms(2) have "review_ok w" by (auto simp: store_good_def good_def)
  with assms(3,4) have "reviewed (ws_handoffs w) i c" by (auto simp: review_ok_def)
  then show ?thesis unfolding reviewed_def .
qed

theorem reachable_four_eyes_witness:
  "\<exists>r h. rc_resolved_by case2 = Some r \<and> r \<noteq> rc_opened_by case2 \<and> h \<in> snd ` set (ws_handoffs w8) \<and>
    hf_case h = ''case_u'' \<and> hf_accepted h \<and> hf_reviewer h = r \<and> hf_investigator h \<noteq> r \<and>
    hf_case_version h + 1 = rc_version case2"
  by (rule reachable_four_eyes [OF reachable_run(8), of "''t''"]) (simp_all add: stored_holding case2_def)

text \<open>C3: every workspace of a reachable store is the tenant's own, passes the integrity check, and
  every task of it has a complete and acyclic set of dependencies.\<close>

theorem reachable_integrity:
  assumes "reachable E S s" "stored E s tenant w"
  shows "ws_tenant w = tenant \<and> validate_workspace E w = Inr () \<and>
    (\<forall>k \<in> set (keys (ws_tasks w)). well_founded_below (ws_tasks w) k)"
proof (intro conjI ballI)
  from reachable_good [OF assms(1)] assms(2) have g: "good E w" "ws_tenant w = tenant" by (auto simp: store_good_def)
  show "ws_tenant w = tenant" by (rule g)
  show "validate_workspace E w = Inr ()" by (rule stored_valid [OF assms(2)])
  fix k
  assume "k \<in> set (keys (ws_tasks w))"
  then obtain t where "map_of (ws_tasks w) k = Some t" by (metis map_of_None_keys not_None_eq)
  with g(1) show "well_founded_below (ws_tasks w) k" by (auto simp: good_def graph_ok_def)
qed

theorem reachable_integrity_witness:
  "ws_tenant w9 = ''t'' \<and> validate_workspace E0 w9 = Inr () \<and> well_founded_below (ws_tasks w9) ''task_u''"
proof -
  have "stored E0 (holding (Some w9)) ''t'' w9" by (simp add: stored_holding)
  from reachable_integrity [OF reachable_run(9) this] show ?thesis by (simp add: part_defs)
qed

text \<open>C4: a request against a reachable store leaves the workspace of a tenant as it was, or it is
  the request of an actor of that tenant and it adds one revision and one event, which names the
  actor, at the end of the audit log.\<close>

theorem served_appends:
  assumes "reachable E S s" "served E S s s'" "stored E s tenant w"
  shows "\<exists>w'. stored E s' tenant w' \<and> (w' = w \<or> (\<exists>(a :: actor) ev. ac_tenant a = tenant \<and> ws_revision w' = ws_revision w + 1 \<and>
    ws_audit w' = ws_audit w @ [ev] \<and> jget ev ''actor_id'' = JStr (ac_id a)))"
proof -
  obtain w' where w': "stored E s' tenant w'" and d: "w' = w \<or> (\<exists>a. ac_tenant a = tenant \<and> committed E a w w')"
    using served_history [OF assms(2) reachable_good [OF assms(1)] assms(3)] by (elim exE conjE)
  from d show ?thesis
  proof
    assume "\<exists>a. ac_tenant a = tenant \<and> committed E a w w'"
    then obtain a :: actor and ev where "ac_tenant a = tenant" "ws_revision w' = ws_revision w + 1" "ws_audit w' = ws_audit w @ [ev]"
      "jget ev ''actor_id'' = JStr (ac_id a)" by (auto simp: committed_def)
    with w' show ?thesis by (intro exI conjI disjI2)
  qed (use w' in auto)
qed

theorem served_appends_witness:
  "\<exists>w'. stored E0 (holding (Some w9)) ''t'' w' \<and> (w' = w8 \<or> (\<exists>(a :: actor) ev. ac_tenant a = ''t'' \<and> ws_revision w' = ws_revision w8 + 1 \<and>
    ws_audit w' = ws_audit w8 @ [ev] \<and> jget ev ''actor_id'' = JStr (ac_id a)))"
  by (rule served_appends [OF reachable_run(8) served_run(9)]) (simp add: stored_holding)

section \<open>The policy\<close>

text \<open>C18: the policy answers READY exactly when the task may proceed: its dependencies are there and
  acyclic, no open case covers it or one of them, each of them has a baseline that has not expired
  and covers its amount, each parent is READY on a decision that is still current, and the task is
  free of taints or explicitly reviewed.\<close>

theorem policy_ready:
  "(\<exists>rs refs bs. policy_result E w k now ex = Inr (READY, rs, refs, bs)) \<longleftrightarrow> may_proceed E w k now ex"
  by (rule policy_READY_iff)

text \<open>C19: the policy answers DENY, with the sorted ids of the blocking cases, exactly when some open
  case has the scope of the task or of one it depends on.\<close>

theorem policy_deny:
  "(\<exists>rs refs. policy_result E w k now ex = Inr (DENY, rs, refs, bs)) \<longleftrightarrow>
     well_founded_below (ws_tasks w) k \<and> bs \<noteq> [] \<and>
     bs = sort (map fst (filter (\<lambda>(i, c). blocks E w k c) (ws_cases w)))"
  by (rule policy_DENY_iff)

text \<open>C20: the policy answers at all exactly when the dependencies of the task are there and acyclic;
  otherwise it raises one of the two dependency errors.\<close>

theorem policy_total:
  "(\<exists>r. policy_result E w k now ex = Inr r) \<longleftrightarrow> well_founded_below (ws_tasks w) k"
  by (rule policy_result_total)

text \<open>The walk over the dependencies returns every task at or below the one it starts from, each
  once, parents before children and the start last.\<close>

theorem ancestors_spec:
  assumes "ancestors w k = Inr os"
  shows "topological (ws_tasks w) os \<and> distinct os \<and> set os = {x. below (ws_tasks w) x k} \<and> last os = k"
  using ancestors_topological [OF assms] by (auto dest: topological_distinct)

definition diamond :: "task dict" where
  "diamond = map (\<lambda>(k, ps). (k, task1\<lparr>tk_id := k, tk_depends := ps\<rparr>))
     [(''d'', [''c'', ''b'']), (''b'', [''a'']), (''c'', [''a'']), (''a'', [])]"

theorem ancestors_spec_witness:
  "topological (ws_tasks (w3\<lparr>ws_tasks := diamond\<rparr>)) [''a'', ''b'', ''c'', ''d''] \<and> distinct [''a'', ''b'', ''c'', ''d''] \<and>
   set [''a'', ''b'', ''c'', ''d''] = {x. below (ws_tasks (w3\<lparr>ws_tasks := diamond\<rparr>)) x ''d''} \<and>
   last [''a'', ''b'', ''c'', ''d''] = ''d''"
  by (rule ancestors_spec) (simp add: diamond_def ancestors_def walk.simps)

text \<open>C21: the risk of a scope reaches exactly the tasks of the scope and the tasks that depend on
  one of them, at any depth; they are listed once, in order.\<close>

theorem affected_spec:
  assumes "distinct (keys (ws_tasks w))"
  shows "set (affected_tasks E w s) = {k. hit_by E w s k} \<and> sorted (affected_tasks E w s) \<and> distinct (affected_tasks E w s)"
  using affected_tasks_mem [OF assms] affected_tasks_sorted by auto

theorem affected_spec_witness:
  "set (affected_tasks E0 (w3\<lparr>ws_tasks := diamond\<rparr>) the_scope) = {k. hit_by E0 (w3\<lparr>ws_tasks := diamond\<rparr>) the_scope k} \<and>
   sorted (affected_tasks E0 (w3\<lparr>ws_tasks := diamond\<rparr>) the_scope) \<and>
   distinct (affected_tasks E0 (w3\<lparr>ws_tasks := diamond\<rparr>) the_scope)"
  by (rule affected_spec) (simp add: diamond_def)

section \<open>Cases\<close>

text \<open>C22: opening a case taints and suspends exactly the tasks its scope reaches and leaves the other
  tasks as they were; from then on the policy is not READY for a task it reached, at any time and
  with or without an explicit review.\<close>

theorem open_case_suspends:
  assumes "open_case_change E S a c R w seq = Inr (w', r)" "distinct (keys (ws_tasks w))"
  shows "map_of (ws_tasks w') k = (if hit_by E w (oc_scope c) k
      then map_option (taint (version_ref ''case'' (new_id ''case'' (rn_uuid R 2)) 1) ''NEW_RISK'' T_SUSPENDED) (map_of (ws_tasks w) k)
      else map_of (ws_tasks w) k) \<and>
    (hit_by E w (oc_scope c) k \<longrightarrow> (\<nexists>rs refs bs. policy_result E w' k now ex = Inr (READY, rs, refs, bs)))"
proof -
  define c' where "c' = new_case a c R seq"
  define w1 where "w1 = w\<lparr>ws_cases := dset (rc_id c') c' (ws_cases w), ws_case_history := dset (rc_id c') [c'] (ws_case_history w)\<rparr>"
  have c': "rc_scope c' = oc_scope c" "rc_status c' = OPEN" "rc_id c' = new_id ''case'' (rn_uuid R 2)"
    by (simp_all add: c'_def new_case_def)
  from assms(1) obtain w2 where w2: "desk_remember E (sv_desk S) w1 c' [] = Inr w2"
    and w': "w' = fst (invalidate E w2 (oc_scope c) (version_ref ''case'' (rc_id c') 1) ''NEW_RISK'')"
    unfolding open_case_change_def Let_def c'_def [symmetric] w1_def [symmetric] c'(1)
    by (auto split: if_splits prod.splits)
  have t2: "ws_tasks w2 = ws_tasks w" using desk_remember_keeps [OF w2] by (simp add: w1_def)
  have cs: "ws_cases w2 = ws_cases w1"
    using arg_cong [OF desk_remember_artifacts(1) [OF w2], of ws_cases] by simp
  have h: "hit_by E w2 s x = hit_by E w s x" for s x by (simp add: hit_by_def t2)
  note it = invalidate_tasks [of w2 E "oc_scope c" "version_ref ''case'' (rc_id c') 1" "''NEW_RISK''", folded w', unfolded t2 h, OF assms(2)]
  have mem: "(rc_id c', c') \<in> set (ws_cases w')"
  proof -
    have "ws_cases w' = ws_cases w1"
      using arg_cong [OF invalidate_other, of ws_cases] cs unfolding w' by simp
    then have "map_of (ws_cases w') (rc_id c') = Some c'" by (simp add: w1_def)
    then show ?thesis by (rule map_of_SomeD)
  qed
  have "hit_by E w (oc_scope c) k \<longrightarrow> \<not> may_proceed E w' k now ex"
  proof
    assume "hit_by E w (oc_scope c) k"
    then have "blocks E w' k c'" using hit_by_same_graph [of w w' E] it(1) by (simp add: blocks_hit c')
    with mem show "\<not> may_proceed E w' k now ex" by (auto simp: may_proceed_def)
  qed
  with it(2) show ?thesis unfolding policy_READY_iff c'(3) by simp
qed

lemma opened_w3: "\<exists>w' r. open_case_change E0 S0 investigator the_case (run_of ''x'' ''u'') w3 4 = Inr (w', r)"
  by (simp add: open_case_change_def desk_remember_def Let_def split_beta)

lemma hit_task: "hit_by E0 w3 the_scope ''task_u''"
  using affected_tasks_mem [of w3 "''task_u''" E0 the_scope]
  by (simp add: engine_defs graph_defs part_defs)

theorem open_case_suspends_witness:
  "\<exists>w' r. open_case_change E0 S0 investigator the_case (run_of ''x'' ''u'') w3 4 = Inr (w', r) \<and>
    map_of (ws_tasks w') ''task_u'' = Some task2 \<and>
    (\<nexists>rs refs bs. policy_result E0 w' ''task_u'' 5 True = Inr (READY, rs, refs, bs))"
proof -
  from opened_w3 obtain w' r where o: "open_case_change E0 S0 investigator the_case (run_of ''x'' ''u'') w3 4 = Inr (w', r)" by blast
  from open_case_suspends [OF o, of "''task_u''" 5 True] hit_task
  have "map_of (ws_tasks w') ''task_u'' = Some task2 \<and>
    (\<nexists>rs refs bs. policy_result E0 w' ''task_u'' 5 True = Inr (READY, rs, refs, bs))"
    by (simp add: the_case_def taint_def engine_defs part_defs)
  with o show ?thesis by blast
qed

text \<open>A case is only resolved by an actor to whom it was handed over and who accepted, who neither
  opened nor investigated it, on a report of the version of the case, while the case is open and the
  basis of the report is still the basis of the case.\<close>

theorem resolve_separation:
  assumes "resolve_change E S a c i R w seq = Inr (w', res)"
  shows "\<exists>k h r. map_of (ws_cases w) i = Some k \<and> rc_status k = OPEN \<and>
    map_of (ws_handoffs w) (rs_handoff c) = Some h \<and> hf_case h = i \<and> hf_accepted h \<and> hf_reviewer h = ac_id a \<and>
    ac_id a \<noteq> rc_opened_by k \<and> ac_id a \<noteq> hf_investigator h \<and> hf_case_version h = rc_version k \<and>
    map_of (ws_reports w) (hf_report h) = Some r \<and> rp_case_version r = rc_version k \<and>
    investigation_basis E w (rc_id k) = Inr (rp_basis r) \<and>
    map_of (ws_cases w') i = Some (resolved a (rs_resolution c) seq k)"
  using assms
proof (rule resolve_change_Inr)
  fix k h r hist arts w3
  assume g: "resolve_guard E S a c i R w = Inr (k, h, r)"
    and l: "resolve_loop E (version_ref ''resolution'' i (rc_version k + 1)) R 20
       (w\<lparr>ws_cases := dset i (resolved a (rs_resolution c) seq k) (ws_cases w),
          ws_case_history := dset i (hist @ [resolved a (rs_resolution c) seq k]) (ws_case_history w),
          ws_artifacts := arts\<rparr>) (affected_tasks E w (rc_scope k)) = Inr w3"
    and w': "\<exists>l. w' = w3\<lparr>ws_lessons := dset (new_id ''lesson'' (rn_uuid R 5)) l (ws_lessons w3)\<rparr>"
  have "ws_cases w3 = dset i (resolved a (rs_resolution c) seq k) (ws_cases w)"
    using arg_cong [OF conjunct1 [OF resolve_loop_spec [OF l affected_tasks_sorted(2)]], of ws_cases] by simp
  with w' have "map_of (ws_cases w') i = Some (resolved a (rs_resolution c) seq k)" by auto
  moreover have "map_of (ws_reports w) (hf_report h) = Some r \<and> rp_case_version r = rc_version k \<and>
      investigation_basis E w (rc_id k) = Inr (rp_basis r)"
    using resolve_guard_Inr(7) [OF g] by (auto simp: valid_report_def split: option.splits if_splits)
  ultimately show ?thesis using resolve_guard_Inr [OF g] by (auto simp: review_ack_def)
qed

lemma resolving_w7: "\<exists>w' r. resolve_change E0 S0 reviewer the_resolution ''case_u'' (run_of ''x'' ''y'') w7 8 = Inr (w', r)"
  using valid_report7 by (simp add: resolve_change_def resolve_guard_def review_ack_def
      resolved_def link_resolution_def append_history_def desk_remember_def tainted_def
      observed_status_def new_lesson_def engine_defs graph_defs policy_defs command_defs part_defs)

theorem resolve_separation_witness:
  "\<exists>k h r. map_of (ws_cases w7) ''case_u'' = Some k \<and> rc_status k = OPEN \<and> rc_opened_by k = ''i'' \<and>
    map_of (ws_handoffs w7) ''handoff_u'' = Some h \<and> hf_accepted h \<and> hf_reviewer h = ''r'' \<and>
    map_of (ws_reports w7) (hf_report h) = Some r \<and> investigation_basis E0 w7 (rc_id k) = Inr (rp_basis r)"
proof -
  from resolving_w7 obtain w' r where
    "resolve_change E0 S0 reviewer the_resolution ''case_u'' (run_of ''x'' ''y'') w7 8 = Inr (w', r)" by blast
  from resolve_separation [OF this] show ?thesis by (auto simp: the_resolution_def case1_def handoff1_def)
qed

text \<open>Resolving a case revives nothing: every task its scope reaches keeps its taints, gets one more
  that asks for reconsideration and ends DENY or NEEDS_HUMAN; the other tasks stay as they were.\<close>

theorem resolve_revives_nothing:
  assumes "resolve_change E S a c i R w seq = Inr (w', res)" "map_of (ws_cases w) i = Some k0"
    "distinct (keys (ws_tasks w))" "map_of (ws_tasks w) k = Some t"
  shows "\<exists>t'. map_of (ws_tasks w') k = Some t' \<and>
    (if hit_by E w (rc_scope k0) k
     then tk_status t' \<in> {T_DENY, T_NEEDS_HUMAN} \<and> tk_decision t' = tk_decision t \<and>
       tk_taints t' = dset (version_ref ''resolution'' i (rc_version k0 + 1)) ''RECONSIDER_REQUIRED'' (tk_taints t)
     else t' = t)"
  using assms(1)
proof (rule resolve_change_Inr)
  fix k1 h r hist arts w3
  assume g: "resolve_guard E S a c i R w = Inr (k1, h, r)"
    and l: "resolve_loop E (version_ref ''resolution'' i (rc_version k1 + 1)) R 20
       (w\<lparr>ws_cases := dset i (resolved a (rs_resolution c) seq k1) (ws_cases w),
          ws_case_history := dset i (hist @ [resolved a (rs_resolution c) seq k1]) (ws_case_history w),
          ws_artifacts := arts\<rparr>) (affected_tasks E w (rc_scope k1)) = Inr w3"
    and w': "\<exists>l. w' = w3\<lparr>ws_lessons := dset (new_id ''lesson'' (rn_uuid R 5)) l (ws_lessons w3)\<rparr>"
  have k: "k1 = k0" using resolve_guard_Inr(1) [OF g] assms(2) by simp
  have ts: "ws_tasks w' = ws_tasks w3" using w' by auto
  note spec = conjunct2 [OF conjunct2 [OF resolve_loop_spec [OF l affected_tasks_sorted(2)]]]
  show ?thesis
  proof (cases "hit_by E w (rc_scope k0) k")
    case True
    then have "k \<in> set (affected_tasks E w (rc_scope k1))" using affected_tasks_mem [OF assms(3)] k by simp
    with conjunct2 [OF spec] assms(4) obtain t' where "map_of (ws_tasks w3) k = Some t'"
      "observed (version_ref ''resolution'' i (rc_version k1 + 1)) t t'" by fastforce
    with True ts k show ?thesis by (auto simp: observed_def)
  next
    case False
    then have "k \<notin> set (affected_tasks E w (rc_scope k1))" using affected_tasks_mem [OF assms(3)] k by simp
    with conjunct1 [OF spec] assms(4) have "map_of (ws_tasks w3) k = Some t" by simp
    with False ts show ?thesis by auto
  qed
qed

theorem resolve_revives_nothing_witness:
  "\<exists>w' r t'. resolve_change E0 S0 reviewer the_resolution ''case_u'' (run_of ''x'' ''y'') w7 8 = Inr (w', r) \<and>
    map_of (ws_tasks w') ''task_u'' = Some t' \<and> tk_status t' \<noteq> T_READY \<and>
    set (keys (tk_taints task2)) \<subseteq> set (keys (tk_taints t'))"
proof -
  from resolving_w7 obtain w' r where
    o: "resolve_change E0 S0 reviewer the_resolution ''case_u'' (run_of ''x'' ''y'') w7 8 = Inr (w', r)" by blast
  have h: "hit_by E0 w7 the_scope ''task_u''"
    using affected_tasks_mem [of w7 "''task_u''" E0 the_scope] by (simp add: engine_defs graph_defs part_defs)
  from resolve_revives_nothing [OF o, of case1 "''task_u''" task2]
  obtain t' where "map_of (ws_tasks w') ''task_u'' = Some t'" "if hit_by E0 w7 (rc_scope case1) ''task_u'' then
      tk_status t' \<in> {T_DENY, T_NEEDS_HUMAN} \<and> tk_decision t' = tk_decision task2 \<and>
      tk_taints t' = dset (version_ref ''resolution'' ''case_u'' (rc_version case1 + 1)) ''RECONSIDER_REQUIRED'' (tk_taints task2)
     else t' = task2" by auto
  with o h show ?thesis by (intro exI [of _ w'] exI [of _ r] exI [of _ t']) (auto simp: case1_def)
qed

section \<open>Decisions\<close>

text \<open>C23: a READY decision lives at most ten minutes, and never beyond the expiry of the baseline of the
  task or of a task it depends on, nor beyond the decision of a task it depends on.\<close>

theorem ready_decision_expiry:
  assumes "new_decision E w t a session rv explicit R = Inr d" "dc_verdict d = READY"
    "below (ws_tasks w) x (tk_id t)" "map_of (ws_tasks w) x = Some y"
  shows "dc_created d < dc_expires d \<and> dc_expires d \<le> dc_created d + seconds 600 \<and>
    (\<exists>b. map_of (ws_baselines w) (task_scope E y) = Some b \<and> dc_expires d \<le> bl_expires b) \<and>
    (x = tk_id t \<or> (\<exists>e. current_decision w y = Some e \<and> dc_expires d \<le> dc_expires e))"
proof -
  note nd = new_decision_Inr [OF assms(1)]
  note e = nd(7) [OF assms(2)]
  from nd(5) assms(2) have p: "may_proceed E w (tk_id t) (rn_clock R 4) explicit"
    using policy_READY_iff by metis
  with assms(3,4) obtain b where b: "map_of (ws_baselines w) (task_scope E y) = Some b"
    unfolding may_proceed_def covered_def by blast
  have "x = tk_id t \<or> (\<exists>e. current_decision w y = Some e \<and> dc_expires d \<le> dc_expires e)"
  proof (cases "x = tk_id t")
    case False
    with p assms(3,4) obtain e' where "current_decision w y = Some e'"
      unfolding may_proceed_def live_ready_def by blast
    with ready_expiry_ancestor [OF e assms(3,4) False] show ?thesis by blast
  qed simp
  with ready_expiry_bounds [OF e] ready_expiry_baseline [OF e assms(3,4) b] b nd(4) show ?thesis by auto
qed

theorem ready_decision_expiry_witness:
  "\<exists>d. new_decision E0 w3 task1 owner ''s'' 4 False (run_of ''x'' ''u'') = Inr d \<and> dc_created d = 5 \<and> dc_expires d \<le> 100"
proof -
  have "\<exists>d. new_decision E0 w3 task1 owner ''s'' 4 False (run_of ''x'' ''u'') = Inr d \<and> dc_verdict d = READY \<and> dc_created d = 5"
    by (simp add: engine_defs graph_defs policy_defs part_defs)
  then obtain d where d: "new_decision E0 w3 task1 owner ''s'' 4 False (run_of ''x'' ''u'') = Inr d" "dc_verdict d = READY" "dc_created d = 5"
    by blast
  from ready_decision_expiry [OF d(1,2), of "''task_u''" task1] d show ?thesis by (auto simp: task_scope_def scope_key_def base1_def task1_def)
qed

text \<open>A stored decision counts as current exactly when it has not expired, was taken from the task
  basis of now, agrees with the policy of now in verdict and reasons, and is the status of the task;
  it may be prepared for review exactly when it is current and the policy is READY now.\<close>

theorem decision_validity_spec:
  assumes "decision_validity E w k now = Inr v"
  shows "\<exists>t refs. map_of (ws_tasks w) k = Some t \<and>
    policy_result E w k now False = Inr (va_verdict v, va_reasons v, refs, va_blockers v) \<and>
    (va_current v \<longleftrightarrow> (\<exists>d. current_decision w t = Some d \<and> still_current E w k now (va_verdict v) (va_reasons v) t d)) \<and>
    (va_preparable v \<longleftrightarrow> va_current v \<and> va_verdict v = READY)"
  using assms by (rule decision_validity_Inr) blast

theorem decision_validity_spec_witness:
  "\<exists>v. decision_validity E0 w3 ''task_u'' 5 = Inr v \<and> va_preparable v \<and>
    (\<exists>d. current_decision w3 task1 = Some d \<and> still_current E0 w3 ''task_u'' 5 READY (va_reasons v) task1 d)"
proof -
  have "\<exists>v. decision_validity E0 w3 ''task_u'' 5 = Inr v \<and> va_preparable v"
    by (simp add: decision_validity_def engine_defs graph_defs policy_defs part_defs)
  then obtain v where v: "decision_validity E0 w3 ''task_u'' 5 = Inr v" "va_preparable v" by blast
  from decision_validity_spec [OF v(1)] v show ?thesis by auto
qed

text \<open>A review is only prepared for the current READY decision of a task that may proceed now, while
  the decision has not expired and its basis still holds; all it does is to store one artifact that
  is marked as not executable.\<close>

theorem prepare_review_guarded:
  assumes "prepare_review_change E a k i R w seq = Inr (w', r)"
  shows "\<exists>t d. map_of (ws_tasks w) k = Some t \<and> tk_status t = T_READY \<and> tk_decision t = Some i \<and>
    map_of (ws_decisions w) i = Some d \<and> dc_task d = k \<and> dc_verdict d = READY \<and> rn_clock R 8 < dc_expires d \<and>
    task_basis E w k = Inr (dc_basis d) \<and> may_proceed E w k (rn_clock R 7) False \<and>
    (\<exists>x art. w' = w\<lparr>ws_artifacts := dset x art (ws_artifacts w)\<rparr> \<and> jget art ''executable'' = JBool False)"
proof -
  from assms obtain t d v rs refs bs x where a: "map_of (ws_tasks w) k = Some t" "map_of (ws_decisions w) i = Some d"
    "dc_task d = k" "tk_decision t = Some i" "policy_result E w k (rn_clock R 7) False = Inr (v, rs, refs, bs)" "v = READY"
    "tk_status t = T_READY" "dc_verdict d = READY" "\<not> dc_expires d \<le> rn_clock R 8" "task_basis E w k = Inr (dc_basis d)"
    "w' = w\<lparr>ws_artifacts := dset x (review_artifact x k i d) (ws_artifacts w)\<rparr>"
    by (auto simp: prepare_review_change_def find_task_Inr Let_def split: option.splits if_splits)
  have "jget (review_artifact x k i d) ''executable'' = JBool False" by (simp add: review_artifact_def jget_def)
  moreover have "may_proceed E w k (rn_clock R 7) False" using a(5,6) policy_READY_iff by blast
  ultimately show ?thesis using a by auto
qed

theorem prepare_review_guarded_witness:
  "\<exists>w' r. prepare_review_change E0 owner ''task_u'' ''decision_u'' (run_of ''x'' ''u'') w3 4 = Inr (w', r) \<and>
    may_proceed E0 w3 ''task_u'' 5 False"
proof -
  have "\<exists>w' r. prepare_review_change E0 owner ''task_u'' ''decision_u'' (run_of ''x'' ''u'') w3 4 = Inr (w', r)"
    by (simp add: prepare_review_change_def engine_defs graph_defs policy_defs part_defs)
  then obtain w' r where p: "prepare_review_change E0 owner ''task_u'' ''decision_u'' (run_of ''x'' ''u'') w3 4 = Inr (w', r)" by blast
  from prepare_review_guarded [OF p] p show ?thesis by auto
qed

section \<open>Transactions\<close>

text \<open>C24: a command that was committed is answered again from the record, whatever change it would make
  now: nothing is saved and the response is marked as replayed and historical.\<close>

theorem replay_saves_nothing:
  assumes "mutate E a c name payload f boot basis R loaded = Inr (Some w', r)"
    "opened E boot' (ac_tenant a) (Some w') = Inr w'" "recheck w' a name payload = Inr ()"
    "replay_guard E w' a name payload R' = Inr ()"
  shows "mutate E a c name payload f' boot' basis' R' (Some w') =
    Inr (None, dunion r [(''replayed'', JBool True), (''historical_only'', JBool True)])"
  using assms(1)
proof (rule mutate_Inr)
  fix w1 res fp key
  assume fp: "fp = request_hash E name a (cm_session c) payload" "key = idem_key E a (cm_key c)"
    and "commit E a name fp key (rn_clock R 2) (ws_revision (at_start E (ac_tenant a) loaded) + 1) (w1, res) = (w', r)"
  then have "map_of (ws_idempotency w') key = Some [(''request_hash'', JStr fp), (''response'', JObj r)]"
    by (auto simp: commit_def Let_def seal_def)
  with assms(2-) fp show ?thesis by (simp add: mutate_def Let_def jfield_def replayed_def as_obj_def)
qed

definition no_change :: mutation where
  "no_change w seq = Inr (w, [(''state'', JStr ''INITIALIZED'')])"

lemma boot_w1: "\<exists>r. mutate E0 owner (cmd ''1'' 0) ''bootstrap'' [] no_change True None (run_of ''u'' ''u'') None = Inr (Some w1, r)"
  by (simp add: no_change_def valid_defs empty_workspace_def engine_defs command_defs w1_def part_defs)

theorem replay_saves_nothing_witness:
  "\<exists>r. mutate E0 owner (cmd ''1'' 0) ''bootstrap'' [] no_change True None (run_of ''x'' ''y'') (Some w1) = Inr (None, r) \<and>
    jget r ''historical_only'' = JBool True"
proof -
  from boot_w1 obtain r where
    m: "mutate E0 owner (cmd ''1'' 0) ''bootstrap'' [] no_change True None (run_of ''u'' ''u'') None = Inr (Some w1, r)" by blast
  have "mutate E0 owner (cmd ''1'' 0) ''bootstrap'' [] no_change True None (run_of ''x'' ''y'') (Some w1) =
    Inr (None, dunion r [(''replayed'', JBool True), (''historical_only'', JBool True)])"
    by (rule replay_saves_nothing [OF m]) (simp_all add: opened_def recheck_def replay_guard_def)
  then show ?thesis by (simp add: jget_def map_of_dunion)
qed

text \<open>The key of a recorded command does not serve for a different command: the request is refused
  as a conflict and nothing is saved.\<close>

theorem key_reuse_refused:
  assumes "opened E boot (ac_tenant a) loaded = Inr w" "recheck w a name payload = Inr ()"
    "map_of (ws_idempotency w) (idem_key E a (cm_key c)) = Some p" "p \<noteq> []" "jfield p ''request_hash'' = Inr h"
    "h \<noteq> JStr (request_hash E name a (cm_session c) payload)"
  shows "mutate E a c name payload f boot basis R loaded = Inl (Casework ''IDEMPOTENCY_CONFLICT'' 409)"
  using assms by (cases p) (simp_all add: mutate_def Let_def)

theorem key_reuse_refused_witness:
  "mutate E0 owner (cmd ''1'' 0) ''bootstrap'' [] no_change True None (run_of ''x'' ''y'')
    (Some (w1\<lparr>ws_idempotency := [(''1'', [(''request_hash'', JStr ''z'')])]\<rparr>)) = Inl (Casework ''IDEMPOTENCY_CONFLICT'' 409)"
  by (rule key_reuse_refused [where h = "JStr ''z''" and p = "[(''request_hash'', JStr ''z'')]"
        and w = "w1\<lparr>ws_idempotency := [(''1'', [(''request_hash'', JStr ''z'')])]\<rparr>"])
    (simp_all add: opened_def recheck_def cmd_def jfield_def valid_defs part_defs)

text \<open>A command without an evidence basis is committed only at the revision it names and below the
  capacity; the commit moves to the next revision, records the response under the key of the command,
  and the response is marked as not executable.\<close>

theorem commit_at_named_revision:
  assumes "mutate E a c name payload f boot None R loaded = Inr (Some w', r)"
  shows "\<exists>w. opened E boot (ac_tenant a) loaded = Inr w \<and> cm_revision c = ws_revision w \<and> ws_revision w < 5000 \<and>
    ws_revision w' = ws_revision w + 1 \<and> jget r ''executable'' = JBool False \<and>
    map_of (ws_idempotency w') (idem_key E a (cm_key c)) =
      Some [(''request_hash'', JStr (request_hash E name a (cm_session c) payload)), (''response'', JObj r)]"
  using assms
proof (rule mutate_Inr)
  fix w1 res fp key
  let ?w = "at_start E (ac_tenant a) loaded"
  assume o: "opened E boot (ac_tenant a) loaded = Inr ?w" "fresh_check E ?w c None = Inr ()" "ws_revision ?w < 5000"
    and fp: "fp = request_hash E name a (cm_session c) payload" "key = idem_key E a (cm_key c)"
    and cm: "commit E a name fp key (rn_clock R 2) (ws_revision ?w + 1) (w1, res) = (w', r)"
  from cm have "ws_revision w' = ws_revision ?w + 1" "jget r ''executable'' = JBool False"
    "map_of (ws_idempotency w') key = Some [(''request_hash'', JStr fp), (''response'', JObj r)]"
    by (auto simp: commit_def Let_def seal_def jget_def map_of_dunion)
  moreover from o(2) have "cm_revision c = ws_revision ?w" by (simp add: fresh_check_def)
  ultimately show ?thesis using o(1,3) fp by auto
qed

theorem commit_at_named_revision_witness:
  "\<exists>w r. opened E0 True ''t'' None = Inr w \<and> ws_revision w = 0 \<and>
    map_of (ws_idempotency w1) ''1'' = Some [(''request_hash'', JStr ''h''), (''response'', JObj r)]"
proof -
  from boot_w1 obtain r where
    m: "mutate E0 owner (cmd ''1'' 0) ''bootstrap'' [] no_change True None (run_of ''u'' ''u'') None = Inr (Some w1, r)" by blast
  from commit_at_named_revision [OF m] show ?thesis by (auto simp: cmd_def)
qed

text \<open>C25: a report is only stored when the investigation basis of the case is still the one its
  investigation began with; it carries that basis and the investigator, and its root binds it.\<close>

theorem report_on_current_basis:
  assumes "investigate_finish E S a c i n answer R (Some w) = Inr (Some w', res)"
  shows "investigation_basis E w i = Inr (sn_basis n) \<and>
    (\<exists>r. map_of (ws_reports w') (rp_id r) = Some r \<and> rp_case r = i \<and> rp_investigator r = ac_id a \<and>
       rp_basis r = sn_basis n \<and> rp_case_version r = rc_version (sn_case n) \<and>
       rp_root r = digest E ''investigation'' (JObj (report_payload r)))"
proof -
  from assms obtain r where b: "build_report E a i n (planned E n answer) R = Inr r"
    and m: "mutate E a c ''case.investigate'' [(''case_id'', JStr i)] (investigate_change E S a c i n (answer \<noteq> None) r R)
      False (Some (i, sn_basis n)) R (Some w) = Inr (Some w', res)"
    by (auto simp: investigate_finish_def)
  from b have r: "rp_case r = i" "rp_investigator r = ac_id a" "rp_basis r = sn_basis n"
    "rp_case_version r = rc_version (sn_case n)" "rp_root r = digest E ''investigation'' (JObj (report_payload r))"
    by (auto simp: build_report_def Let_def report_payload_def)
  show ?thesis using m
  proof (rule mutate_Inr)
    fix w1 x fp key
    assume f: "fresh_check E (at_start E (ac_tenant a) (Some w)) c (Some (i, sn_basis n)) = Inr ()"
      and ch: "investigate_change E S a c i n (answer \<noteq> None) r R (at_start E (ac_tenant a) (Some w))
        (ws_revision (at_start E (ac_tenant a) (Some w)) + 1) = Inr (w1, x)"
      and cm: "commit E a ''case.investigate'' fp key (rn_clock R 2) (ws_revision (at_start E (ac_tenant a) (Some w)) + 1) (w1, x) = (w', res)"
    from ch have "ws_reports w1 = dset (rp_id r) r (ws_reports w)"
      by (auto simp: investigate_change_def at_start_def split: option.splits)
    moreover from cm have "ws_reports w' = ws_reports w1" by (auto simp: commit_def Let_def seal_def)
    ultimately have "map_of (ws_reports w') (rp_id r) = Some r" by simp
    with r f show ?thesis by (auto simp: fresh_check_def at_start_def ebind_eq_Inr split: if_splits)
  qed
qed

theorem report_on_current_basis_witness:
  "\<exists>r. map_of (ws_reports w5) (rp_id r) = Some r \<and> rp_basis r = ''h'' \<and> rp_investigator r = ''i''"
proof -
  from step5 obtain x where "investigate_finish E0 S0 investigator (cmd ''5'' 4) ''case_u'' the_snapshot None (run_of ''x'' ''u'') (Some w4) =
    Inr (Some w5, x)" by auto
  from report_on_current_basis [OF this] show ?thesis by (simp only: the_snapshot_def snapshot.simps actor_simps) blast
qed

section \<open>Tamper evidence\<close>

text \<open>C26: two workspaces that pass the integrity check with the same root hold the same data, up to the
  order of keys, or their payloads are a collision of the hash function. Payloads with a float are
  left aside: their text is that of the platform.\<close>

theorem root_tamper_evident:
  assumes "validate_workspace E v = Inr ()" "validate_workspace E w = Inr ()" "ws_root v = ws_root w"
    "float_free (state_payload E v)" "float_free (state_payload E w)"
  shows "canon (state_payload E v) = canon (state_payload E w) \<or>
    collision E ''workspace'' (state_payload E v) (state_payload E w)"
  using assms by (rule root_binds)

theorem root_tamper_evident_witness:
  "canon (state_payload E0 w1) = canon (state_payload E0 w2) \<or> collision E0 ''workspace'' (state_payload E0 w1) (state_payload E0 w2)"
  by (rule root_tamper_evident) (simp_all add: json_defs part_defs the_scope_def)

text \<open>C27: two audit logs of the same length that pass the check and end in the same hash agree event by
  event, up to the order of keys, or two of their events at the same place are a collision.\<close>

theorem audit_tamper_evident:
  assumes "audit_ok E 1 zero_hash xs" "audit_ok E 1 zero_hash ys" "length xs = length ys" "last_hash xs = last_hash ys"
    "\<forall>ev \<in> set xs \<union> set ys. float_free (event_body ev)"
  shows "list_all2 (\<lambda>x y. canon (event_body x) = canon (event_body y)) xs ys \<or>
    (\<exists>(x, y) \<in> set (zip xs ys). collision E ''event'' (event_body x) (event_body y))"
  using assms by (rule audit_log_binds)

theorem audit_tamper_evident_witness:
  "list_all2 (\<lambda>x y. canon (event_body x) = canon (event_body y)) (ws_audit w2) (ws_audit w2) \<or>
    (\<exists>(x, y) \<in> set (zip (ws_audit w2) (ws_audit w2)). collision E0 ''event'' (event_body x) (event_body y))"
  by (rule audit_tamper_evident) (simp_all add: event_ok_def jget_def event_body_def part_defs)

end
