(* ===== verification/Effects.thy ===== *)
theory Effects
  imports Prelude
begin

text \<open>
  Programs of several effects on a state that others share: an operation that raises keeps what
  it changed before.
\<close>

section \<open>Operations that raise and keep their effects\<close>

type_synonym ('a, 's) op = "'s \<Rightarrow> 'a res \<times> 's"

definition sbind :: "('a, 's) op \<Rightarrow> ('a \<Rightarrow> ('b, 's) op) \<Rightarrow> ('b, 's) op" where
  "sbind m f s = (case m s of (Inl e, s') \<Rightarrow> (Inl e, s') | (Inr x, s') \<Rightarrow> f x s')"

definition lift :: "'a res \<Rightarrow> ('a, 's) op" where
  "lift r s = (r, s)"

text \<open>\<^verbatim>\<open>try: m except Exception as exc: h(exc)\<close>.\<close>

definition recover :: "('a, 's) op \<Rightarrow> (err \<Rightarrow> ('a, 's) op) \<Rightarrow> ('a, 's) op" where
  "recover m h s = (case m s of (Inl e, s') \<Rightarrow> h e s' | (Inr x, s') \<Rightarrow> (Inr x, s'))"

lemma sbind_simps [simp]: "sbind (lift (Inr x)) f s = f x s" "sbind (lift (Inl e)) f s = (Inl e, s)"
  by (simp_all add: sbind_def lift_def)

lemma sbind_Inr: "sbind m f s = (Inr y, s') \<longleftrightarrow> (\<exists>x t. m s = (Inr x, t) \<and> f x t = (Inr y, s'))"
  by (auto simp: sbind_def split: prod.splits sum.splits)

lemma sbind_snd: "snd (sbind m f s) = (case m s of (Inl e, t) \<Rightarrow> t | (Inr x, t) \<Rightarrow> snd (f x t))"
  by (simp add: sbind_def split: prod.splits sum.splits)

lemma lift_snd: "snd (lift r s) = s"
  by (simp add: lift_def)

lemma recover_snd: "snd (recover m h s) = (case m s of (Inl e, t) \<Rightarrow> snd (h e t) | (Inr x, t) \<Rightarrow> t)"
  by (simp add: recover_def split: prod.splits sum.splits)

end
