(* ===== verification/Cw_Programs.thy ===== *)
theory Cw_Programs
  imports Cw_Lifecycle Cw_Views Effects
begin

text \<open>
  The operations of several transactions (\<^verbatim>\<open>collect\<close>, \<^verbatim>\<open>mission\<close> and \<^verbatim>\<open>resume_mission\<close> of \<^verbatim>\<open>source_service.py\<close>,
  \<^verbatim>\<open>investigate\<close> of \<^verbatim>\<open>service.py\<close>, \<^verbatim>\<open>verify\<close> of \<^verbatim>\<open>partner_review.py\<close>, \<^verbatim>\<open>handle\<close> of \<^verbatim>\<open>incident_ingress.py\<close>) as programs
  over the effects they use. Between two effects anything may happen to the state.
\<close>

section \<open>The effects\<close>

text \<open>
  A transaction that only reads yields what it loads and the clocks and ids it is given; another runs a
  handler. Reads of a source, calls of the model and of the partner's client are made outside transactions.
\<close>

record 's platform =
  pf_load :: "string \<Rightarrow> (run \<times> workspace option, 's) op"
  pf_run :: "string \<Rightarrow> handler \<Rightarrow> (jobj, 's) op"
  pf_now :: "(int, 's) op"
  pf_fetch :: "source_spec \<Rightarrow> string \<Rightarrow> scope \<Rightarrow> (json, 's) op"
  pf_model :: "(jobj \<Rightarrow> string list \<Rightarrow> (string list \<times> json, 's) op) option"
  pf_history :: "string \<Rightarrow> json \<Rightarrow> (jobj, 's) op"

definition reading :: "'s platform \<Rightarrow> string \<Rightarrow> (run \<Rightarrow> workspace option \<Rightarrow> 'a res) \<Rightarrow> ('a, 's) op" where
  "reading P t f = sbind (pf_load P t) (\<lambda>(R, l). lift (in_tx (f R l)))"

text \<open>What an effect answered, an exception included.\<close>

definition attempt :: "('a, 's) op \<Rightarrow> ('a res, 's) op" where
  "attempt m s = (case m s of (r, s') \<Rightarrow> (Inr r, s'))"

definition conflict :: "err \<Rightarrow> bool" where
  "conflict e = (case e of Casework code _ \<Rightarrow> code = ''REVISION_CONFLICT'' | PyExc _ \<Rightarrow> False)"

definition revision_now :: "env \<Rightarrow> string \<Rightarrow> run \<Rightarrow> workspace option \<Rightarrow> int res" where
  "revision_now E t R l = ebind (opened E False t l) (\<lambda>w. Inr (ws_revision w))"

text \<open>The loop of four attempts at the current revision.\<close>

fun retried :: "(int, 's) op \<Rightarrow> (int \<Rightarrow> (jobj, 's) op) \<Rightarrow> string \<Rightarrow> nat \<Rightarrow> (jobj, 's) op" where
  "retried rev_of m code 0 = lift (Inl (Casework code 409))"
| "retried rev_of m code (Suc n) =
     sbind rev_of (\<lambda>v. recover (m v) (\<lambda>e. if conflict e then retried rev_of m code n else lift (Inl e)))"

section \<open>Collecting\<close>

text \<open>After the reservation: a cached receipt, a replay that is not sent again, or the read and its record.\<close>

definition after_reservation :: "'s platform \<Rightarrow> env \<Rightarrow> service \<Rightarrow> actor \<Rightarrow> collect_command \<Rightarrow> string \<Rightarrow> risk_case \<Rightarrow> source_spec \<Rightarrow> string
    \<Rightarrow> jobj \<Rightarrow> (jobj, 's) op"
where
  "after_reservation P E S a c i k s resource r =
     sbind (lift (jfield r ''state'')) (\<lambda>st.
     if st = JStr ''CACHE_HIT'' then lift (Inr r)
     else if truthy (jget r ''replayed'') then
       reading P (ac_tenant a) (\<lambda>R l. replayed_read E a i (fetch_id E (ac_tenant a) (ac_id a) (cm_key c)) l)
     else
       sbind (attempt (pf_fetch P s resource (rc_scope k))) (\<lambda>answer.
       sbind (pf_now P) (\<lambda>finished.
       retried (reading P (ac_tenant a) (revision_now E (ac_tenant a)))
         (\<lambda>v. pf_run P (ac_tenant a) (finish_read E S a c i k answer finished v)) ''SOURCE_FINISH_CONTENTION'' 4)))"

definition collect :: "'s platform \<Rightarrow> env \<Rightarrow> service \<Rightarrow> actor \<Rightarrow> collect_command \<Rightarrow> string \<Rightarrow> (jobj, 's) op" where
  "collect P E S a c i =
     sbind (lift (authorize a operators None)) (\<lambda>_.
     sbind (reading P (ac_tenant a) (\<lambda>R l. found_case E a i l)) (\<lambda>k.
     sbind (lift (desk_of S)) (\<lambda>D.
     sbind (lift (read_target D a (lc_source c) (lc_resource c) (rc_scope k))) (\<lambda>(s, resource).
     sbind (pf_run P (ac_tenant a) (reserve_read E S a c i k)) (after_reservation P E S a c i k s resource)))))"

section \<open>Investigating\<close>

definition investigate :: "'s platform \<Rightarrow> env \<Rightarrow> service \<Rightarrow> actor \<Rightarrow> 'c command_scheme \<Rightarrow> string \<Rightarrow> (jobj, 's) op" where
  "investigate P E S a c i =
     sbind (lift (authorize a {Investigator} None)) (\<lambda>_.
     sbind (pf_load P (ac_tenant a)) (\<lambda>(R, l).
     sbind (lift (investigate_start E S a c i R l)) (\<lambda>begun. case begun of
       Inl r \<Rightarrow> lift (Inr r)
     | Inr n \<Rightarrow>
         (case pf_model P of
            None \<Rightarrow> pf_run P (ac_tenant a) (investigate_finish E S a c i n None)
          | Some model \<Rightarrow>
              sbind (pf_run P (ac_tenant a) (investigate_reserve E a c i (sn_basis n))) (\<lambda>claim.
              if truthy (jget claim ''replayed'') then reading P (ac_tenant a) (\<lambda>R l. investigate_uncertain E a c i l)
              else
                sbind (attempt (model (model_context E n) (mandatory_tools n @ optional_tools))) (\<lambda>answer.
                pf_run P (ac_tenant a) (investigate_finish E S a c i n
                  (Some (case answer of Inl _ \<Rightarrow> None | Inr x \<Rightarrow> Some x)))))))))"

section \<open>Missions\<close>

definition as_int :: "json \<Rightarrow> int res" where
  "as_int v = (case v of JInt n \<Rightarrow> Inr n | _ \<Rightarrow> Inl (PyExc ''ValidationError''))"

definition overview_revision :: "'s platform \<Rightarrow> env \<Rightarrow> actor \<Rightarrow> string \<Rightarrow> (int, 's) op" where
  "overview_revision P E a backend =
     sbind (reading P (ac_tenant a) (overview E a backend)) (\<lambda>v. lift (ebind (jfield v ''revision'') as_int))"

definition step_command :: "env \<Rightarrow> mission_command \<Rightarrow> nat \<Rightarrow> source_query \<Rightarrow> int \<Rightarrow> collect_command" where
  "step_command E c n q revision =
     \<lparr>cm_key = mission_key E ''mission-step'' (JList [JStr (cm_key c), JInt (int n)]), cm_session = cm_session c, cm_revision = revision,
      lc_source = sq_source q, lc_resource = sq_resource q, lc_force = False\<rparr>"

definition step_done :: "jobj \<Rightarrow> bool" where
  "step_done r \<longleftrightarrow> (jget r ''state'' \<in> {JStr ''OBSERVED'', JStr ''CACHE_HIT''} \<or> jget (jsub r ''request'') ''state'' = JStr ''OBSERVED'')
     \<and> truthy (jget r ''receipt'')"

text \<open>The reads of the queries in order; whether all of them have a receipt.\<close>

fun mission_steps :: "'s platform \<Rightarrow> env \<Rightarrow> service \<Rightarrow> actor \<Rightarrow> mission_command \<Rightarrow> string \<Rightarrow> int \<Rightarrow> json list \<Rightarrow> source_query list
    \<Rightarrow> (json list \<times> bool, 's) op"
where
  "mission_steps P E S a c i revision outs [] = lift (Inr (outs, True))"
| "mission_steps P E S a c i revision outs (q # qs) =
     sbind (reading P (ac_tenant a) (\<lambda>R l. ebind (opened E False (ac_tenant a) l) (\<lambda>w. ebind (find_case w a i) (\<lambda>_. Inr (ws_revision w))))) (\<lambda>v.
     sbind (collect P E S a (step_command E c (length outs) q (if outs = [] then revision else v)) i) (\<lambda>r.
     if step_done r then sbind (lift (jfield r ''revision'')) (\<lambda>_. mission_steps P E S a c i revision (outs @ [JObj r]) qs)
     else lift (Inr (outs @ [JObj r], False))))"

definition plain_command :: "mission_command \<Rightarrow> string \<Rightarrow> int \<Rightarrow> command" where
  "plain_command c key revision = \<lparr>cm_key = key, cm_session = cm_session c, cm_revision = revision\<rparr>"

definition mission_answer :: "string \<Rightarrow> string \<Rightarrow> json list \<Rightarrow> jobj \<Rightarrow> jobj" where
  "mission_answer m stage outs more_fields = [(''mission_id'', JStr m), (''stage'', JStr stage), (''steps'', JList outs)] @ more_fields
     @ [(''resolution_performed'', JBool False), (''executable'', JBool False)]"

definition report_of :: "jobj \<Rightarrow> string res" where
  "report_of r = ebind (ebind (jfield r ''report'') as_obj) (\<lambda>d. ebind (jfield d ''report_id'') as_text)"

text \<open>After the reads: the investigation, its report, and the hand-over when a reviewer is named.\<close>

definition mission_report :: "'s platform \<Rightarrow> env \<Rightarrow> service \<Rightarrow> actor \<Rightarrow> string \<Rightarrow> mission_command \<Rightarrow> string \<Rightarrow> json list \<Rightarrow> (jobj, 's) op" where
  "mission_report P E S a backend c i outs =
     (let m = mission_id E a c in
      sbind (overview_revision P E a backend) (\<lambda>v.
      sbind (investigate P E S a (plain_command c (mission_key E ''mission-report'' (JStr (cm_key c))) v) i) (\<lambda>report.
      sbind (lift (report_of report)) (\<lambda>rid.
      sbind (reading P (ac_tenant a) (\<lambda>R l. report_still_valid E S a i rid R l)) (\<lambda>valid.
      if \<not> valid then lift (Inr (mission_answer m ''REPORT_STALE'' outs [(''report'', JObj report),
           (''next_step'', JStr ''Inspect changes and start a new mission idempotency key'')]))
      else (case mi_reviewer c of
          Some (x # xs) \<Rightarrow>
            sbind (overview_revision P E a backend) (\<lambda>v2.
            sbind (pf_run P (ac_tenant a) (handoff E S a \<lparr>cm_key = mission_key E ''mission-handoff'' (JStr (cm_key c)), cm_session = cm_session c,
                cm_revision = v2, hc_report = rid, hc_reviewer = x # xs\<rparr> i)) (\<lambda>h.
            lift (Inr (mission_answer m (if h = [] then ''INVESTIGATED'' else ''HANDED_OFF'') outs [(''report'', JObj report), (''handoff'', JObj h)]))))
        | _ \<Rightarrow> lift (Inr (mission_answer m ''INVESTIGATED'' outs [(''report'', JObj report), (''handoff'', JNull)]))))))))"

definition mission :: "'s platform \<Rightarrow> env \<Rightarrow> service \<Rightarrow> actor \<Rightarrow> string \<Rightarrow> mission_command \<Rightarrow> string \<Rightarrow> (jobj, 's) op" where
  "mission P E S a backend c i =
     sbind (pf_run P (ac_tenant a) (plan_mission E S a c i)) (\<lambda>_.
     sbind (lift (desk_of S)) (\<lambda>D.
     sbind (reading P (ac_tenant a) (\<lambda>R l. mission_ready E D a i (mission_id E a c) l)) (\<lambda>revision.
     sbind (mission_steps P E S a c i revision [] (mi_queries c)) (\<lambda>(outs, complete).
     if \<not> complete then lift (Inr (mission_answer (mission_id E a c) ''COLLECTION_INCOMPLETE'' outs []))
     else
       sbind (reading P (ac_tenant a) (\<lambda>R l. sources_current E D a c i (rn_clock R 44) l)) (\<lambda>current.
       if \<not> current then lift (Inr (mission_answer (mission_id E a c) ''SOURCES_STALE'' outs []))
       else mission_report P E S a backend c i outs)))))"

definition resume_mission :: "'s platform \<Rightarrow> env \<Rightarrow> service \<Rightarrow> actor \<Rightarrow> string \<Rightarrow> 'c command_scheme \<Rightarrow> string \<Rightarrow> (jobj, 's) op" where
  "resume_mission P E S a backend c m =
     sbind (lift (authorize a {Investigator} None)) (\<lambda>_.
     sbind (reading P (ac_tenant a) (\<lambda>R l. resumable E a m l)) (\<lambda>(r, i).
     sbind (pf_run P (ac_tenant a) (resume_signal E a c m r i)) (\<lambda>resumed.
     sbind (overview_revision P E a backend) (\<lambda>v.
     sbind (lift (original_command r v)) (\<lambda>original.
     sbind (mission P E S a backend original i) (\<lambda>result.
     lift (Inr (dunion result [(''resume_signal'', JObj resumed), (''logical_request_reused'', JBool True)]))))))))"

section \<open>The partner's review and incidents\<close>

definition verify_review :: "'s platform \<Rightarrow> env \<Rightarrow> service \<Rightarrow> actor \<Rightarrow> 'c command_scheme \<Rightarrow> string \<Rightarrow> string \<Rightarrow> (jobj, 's) op" where
  "verify_review P E S a c p job =
     sbind (lift (authorize a {Investigator, Reviewer} None)) (\<lambda>_.
     sbind (pf_load P (ac_tenant a)) (\<lambda>(R, l).
     sbind (pf_load P (ac_tenant a)) (\<lambda>(_, later).
     sbind (lift (partner_begin E S a c p job R l later)) (\<lambda>begun. case begun of
       Inl r \<Rightarrow> lift (Inr r)
     | Inr (i, plan) \<Rightarrow>
         sbind (lift (jfield plan ''requirements'')) (\<lambda>requirements.
         sbind (attempt (pf_history P job requirements)) (\<lambda>history.
         sbind (lift (partner_result job history)) (\<lambda>v.
         pf_run P (ac_tenant a) (save_partner E S a c p job i plan v))))))))"

definition receive_incident :: "'s platform \<Rightarrow> env \<Rightarrow> service \<Rightarrow> (string \<Rightarrow> string option) \<Rightarrow> string \<Rightarrow> string option \<Rightarrow> string option
    \<Rightarrow> string option \<Rightarrow> string \<Rightarrow> (jobj, 's) op"
where
  "receive_incident P E S environ source timestamp delivery signature raw =
     sbind (pf_now P) (\<lambda>now.
     sbind (lift (admitted E S environ now source timestamp delivery signature raw)) (\<lambda>d.
     sbind (lift (incident_actor S d)) (\<lambda>a.
     retried (reading P (ac_tenant a) (revision_now E (ac_tenant a))) (\<lambda>v. pf_run P (ac_tenant a) (ingest E S a d now v))
       ''INCIDENT_CONTENTION'' 4)))"

end
