(* ===== verification/Cw_Reads.thy ===== *)
theory Cw_Reads
  imports Cw_Programs
begin

text \<open>
  How often the programs of the evidence desk read an external source, whatever other requests run
  between their effects: the interface of the effects is a locale, the bounds are proved inside it, and a
  world of a store, other people's requests and a log of reads provides it.
\<close>

section \<open>Recorded commands\<close>

definition key_recorded :: "env \<Rightarrow> rows sibyl \<Rightarrow> string \<Rightarrow> string \<Rightarrow> bool" where
  "key_recorded E s t k \<longleftrightarrow> (\<exists>w p. stored E s t w \<and> map_of (ws_idempotency w) k = Some p \<and> p \<noteq> [])"

lemma recorded_later: "(served E S)\<^sup>*\<^sup>* s s' \<Longrightarrow> store_good E s \<Longrightarrow> key_recorded E s t k \<Longrightarrow> key_recorded E s' t k"
  unfolding key_recorded_def using recorded_stays by blast

lemma replayed_marked: "replayed p = Inr r \<Longrightarrow> jget r ''replayed'' = JBool True"
  by (auto simp: replayed_def)

lemma mutate_replayed:
  assumes "mutate E a c name payload f boot basis R (Some w) = Inr x" "map_of (ws_idempotency w) (idem_key E a (cm_key c)) = Some p" "p \<noteq> []"
  shows "jget (snd x) ''replayed'' = JBool True"
  using assms by (cases p) (auto simp: mutate_def Let_def opened_def replayed_marked split: if_splits)

lemma commit_not_replayed: "jget (snd (commit E a name fp key tm n (w, res))) ''replayed'' = JBool False"
  by (simp add: commit_def Let_def)

text \<open>A reservation of a recorded key is a replay; one that is no replay is recorded.\<close>

lemma reserve_recorded:
  assumes s: "serve (sibyl_load E rows_get) (sibyl_save E rows_put) (ac_tenant a) (reserve_read E S a c i k R) u = Inr (v, r)"
  shows "key_recorded E u (ac_tenant a) (idem_key E a (cm_key c)) \<Longrightarrow> jget r ''replayed'' = JBool True"
    "jget r ''replayed'' \<noteq> JBool True \<Longrightarrow> key_recorded E v (ac_tenant a) (idem_key E a (cm_key c))"
proof -
  show "jget r ''replayed'' = JBool True" if "key_recorded E u (ac_tenant a) (idem_key E a (cm_key c))"
  proof -
    from that obtain w p where w: "sibyl_load E rows_get u (ac_tenant a) = Inr (Some w)"
        and p: "map_of (ws_idempotency w) (idem_key E a (cm_key c)) = Some p" "p \<noteq> []"
      by (auto simp: key_recorded_def stored_def)
    from s obtain x where x: "reserve_read E S a c i k R (Some w) = Inr x" "snd x = r"
      by (cases rule: rows.sibyl.serve_cases) (use w in auto)
    from reserve_read_mutate [OF x(1)] obtain payload where "mutate E a c ''source.reserve'' payload (reserve_mutation E S a c i k R) False None R (Some w) = Inr x" ..
    from mutate_replayed [OF this p] x(2) show ?thesis by simp
  qed
  show "key_recorded E v (ac_tenant a) (idem_key E a (cm_key c))" if n: "jget r ''replayed'' \<noteq> JBool True"
    using s
  proof (cases rule: rows.sibyl.serve_cases)
    case (kept l)
    from reserve_read_mutate [OF kept(2)] obtain payload where "mutate E a c ''source.reserve'' payload (reserve_mutation E S a c i k R) False None R l = Inr (None, r)" ..
    then have "jget r ''replayed'' = JBool True"
      by (auto simp: mutate_def Let_def commit_def replayed_marked split: option.splits list.splits prod.splits if_splits)
    with n show ?thesis by simp
  next
    case (saved l w)
    from reserve_read_mutate [OF saved(2)] obtain payload where "mutate E a c ''source.reserve'' payload (reserve_mutation E S a c i k R) False None R l = Inr (Some w, r)" ..
    then show ?thesis
    proof (rule mutate_Inr)
      fix w1 res fp key
      assume "key = idem_key E a (cm_key c)"
        and c: "commit E a ''source.reserve'' fp key (rn_clock R 2) (ws_revision (at_start E (ac_tenant a) l) + 1) (w1, res) = (w, r)"
      with commit_idempotency [of E a "''source.reserve''" fp key "rn_clock R 2" "ws_revision (at_start E (ac_tenant a) l) + 1" w1 res] saved(4)
      show ?thesis by (auto simp: key_recorded_def stored_def)
    qed
  qed
qed

section \<open>Programs that read\<close>

locale serving_platform =
  fixes P :: "'s platform" and E :: env and S :: service and store :: "'s \<Rightarrow> rows sibyl" and reads :: "'s \<Rightarrow> nat"
  assumes load_law: "(served E S)\<^sup>*\<^sup>* (store s) (store (snd (pf_load P t s))) \<and> reads (snd (pf_load P t s)) = reads s"
    and now_law: "(served E S)\<^sup>*\<^sup>* (store s) (store (snd (pf_now P s))) \<and> reads (snd (pf_now P s)) = reads s"
    and fetch_law: "(served E S)\<^sup>*\<^sup>* (store s) (store (snd (pf_fetch P sp x sc s))) \<and> reads (snd (pf_fetch P sp x sc s)) \<le> Suc (reads s)"
    and model_law: "pf_model P = Some m \<Longrightarrow> (served E S)\<^sup>*\<^sup>* (store s) (store (snd (m context tools s))) \<and> reads (snd (m context tools s)) = reads s"
    and run_law: "(served E S)\<^sup>*\<^sup>* (store s) (store (snd (pf_run P (ac_tenant a) (handle E S a q) s))) \<and>
      reads (snd (pf_run P (ac_tenant a) (handle E S a q) s)) = reads s"
    and run_answer: "pf_run P (ac_tenant a) (handle E S a q) s = (Inr r, s') \<Longrightarrow> \<exists>u R. (served E S)\<^sup>*\<^sup>* (store s) u \<and>
      serve (sibyl_load E rows_get) (sibyl_save E rows_put) (ac_tenant a) (handle E S a q R) u = Inr (store s', r)"
begin

text \<open>A program that serves the store and makes at most \<open>n\<close> reads.\<close>

definition bounded :: "nat \<Rightarrow> ('a, 's) op \<Rightarrow> bool" where
  "bounded n m \<longleftrightarrow> (\<forall>s. (served E S)\<^sup>*\<^sup>* (store s) (store (snd (m s))) \<and> reads (snd (m s)) \<le> n + reads s)"

lemma boundedD: "bounded n m \<Longrightarrow> m s = (r, s') \<Longrightarrow> (served E S)\<^sup>*\<^sup>* (store s) (store s') \<and> reads s' \<le> n + reads s"
  unfolding bounded_def by (metis snd_conv)

lemma bounded_sbind: "bounded n m \<Longrightarrow> (\<And>x. bounded k (f x)) \<Longrightarrow> bounded (n + k) (sbind m f)"
  unfolding bounded_def
proof (intro allI)
  fix s
  assume m: "\<forall>s. (served E S)\<^sup>*\<^sup>* (store s) (store (snd (m s))) \<and> reads (snd (m s)) \<le> n + reads s"
    and f: "\<And>x. \<forall>s. (served E S)\<^sup>*\<^sup>* (store s) (store (snd (f x s))) \<and> reads (snd (f x s)) \<le> k + reads s"
  obtain r t where r: "m s = (r, t)" by (cases "m s")
  have t: "(served E S)\<^sup>*\<^sup>* (store s) (store t)" "reads t \<le> n + reads s" using m [rule_format, of s] r by simp_all
  show "(served E S)\<^sup>*\<^sup>* (store s) (store (snd (sbind m f s))) \<and> reads (snd (sbind m f s)) \<le> n + k + reads s"
  proof (cases r)
    case (Inl e)
    with r t show ?thesis by (simp add: sbind_def)
  next
    case (Inr x)
    with r have "sbind m f s = f x t" by (simp add: sbind_def)
    with f [rule_format, of t x] t show ?thesis by (auto intro: rtranclp_trans)
  qed
qed

lemma bounded_lift [simp]: "bounded n (lift r)"
  by (simp add: bounded_def lift_def)

lemma bounded_mono: "bounded n m \<Longrightarrow> n \<le> k \<Longrightarrow> bounded k m"
  by (auto simp: bounded_def intro: order_trans)

lemma bounded_attempt: "bounded n m \<Longrightarrow> bounded n (attempt m)"
  by (simp add: bounded_def attempt_def split: prod.splits) (metis snd_conv)

lemma bounded_recover: "bounded n m \<Longrightarrow> (\<And>e. bounded k (h e)) \<Longrightarrow> bounded (n + k) (recover m h)"
  unfolding bounded_def
proof (intro allI)
  fix s
  assume m: "\<forall>s. (served E S)\<^sup>*\<^sup>* (store s) (store (snd (m s))) \<and> reads (snd (m s)) \<le> n + reads s"
    and h: "\<And>e. \<forall>s. (served E S)\<^sup>*\<^sup>* (store s) (store (snd (h e s))) \<and> reads (snd (h e s)) \<le> k + reads s"
  obtain r t where r: "m s = (r, t)" by (cases "m s")
  have t: "(served E S)\<^sup>*\<^sup>* (store s) (store t)" "reads t \<le> n + reads s" using m [rule_format, of s] r by simp_all
  show "(served E S)\<^sup>*\<^sup>* (store s) (store (snd (recover m h s))) \<and> reads (snd (recover m h s)) \<le> n + k + reads s"
  proof (cases r)
    case (Inl e)
    with r have "recover m h s = h e t" by (simp add: recover_def)
    with h [rule_format, of t e] t show ?thesis by (auto intro: rtranclp_trans)
  qed (use r t in \<open>auto simp: recover_def\<close>)
qed

lemmas bounded_then = bounded_sbind [where n = 0, simplified]

lemma bounded_run: "bounded 0 (pf_run P (ac_tenant a) (handle E S a q))"
  using run_law by (simp add: bounded_def)

lemma bounded_load: "bounded 0 (pf_load P t)"
  using load_law by (simp add: bounded_def)

lemma bounded_now: "bounded 0 (pf_now P)"
  using now_law by (simp add: bounded_def)

lemma bounded_reading: "bounded 0 (reading P t f)"
  unfolding reading_def by (rule bounded_then [OF bounded_load]) (auto split: prod.splits)

lemma bounded_fetch: "bounded 1 (attempt (pf_fetch P sp x sc))"
  by (rule bounded_attempt) (use fetch_law in \<open>simp add: bounded_def\<close>)

lemma bounded_retried:
  assumes "bounded 0 rev_of" "\<And>v. bounded 0 (m v)"
  shows "bounded 0 (retried rev_of m code n)"
proof (induction n)
  case (Suc n)
  have "bounded 0 (recover (m v) (\<lambda>e. if conflict e then retried rev_of m code n else lift (Inl e)))" for v
    using bounded_recover [OF assms(2), of 0] Suc.IH by (simp split: if_splits)
  then show ?case by (simp add: bounded_then [OF assms(1)])
qed simp

lemmas own_runs = bounded_run [where q = "ReserveRead c i k" for c i k, simplified]
  bounded_run [where q = "FinishRead c i k answer finished v" for c i k answer finished v, simplified]
  bounded_run [where q = "PlanMission c i" for c i, simplified]
  bounded_run [where q = "HandOff c i" for c i, simplified]
  bounded_run [where q = "Reserve c i b" for c i b, simplified]
  bounded_run [where q = "Finish c i n answer" for c i n answer, simplified]
  bounded_run [where q = "ResumeMission c m r i" for c m r i, simplified]

subsection \<open>Collecting\<close>

lemma bounded_finish: "bounded 0 (retried (reading P (ac_tenant a) f)
    (\<lambda>v. pf_run P (ac_tenant a) (finish_read E S a c i k answer finished v)) code n)"
  by (intro bounded_retried bounded_reading own_runs)

lemma after_bounded: "bounded 1 (after_reservation P E S a c i k sp x r)"
proof -
  have "bounded 1 (sbind (attempt (pf_fetch P sp x (rc_scope k))) (\<lambda>answer. sbind (pf_now P) (\<lambda>finished.
       retried (reading P (ac_tenant a) (revision_now E (ac_tenant a)))
         (\<lambda>v. pf_run P (ac_tenant a) (finish_read E S a c i k answer finished v)) ''SOURCE_FINISH_CONTENTION'' 4)))"
    using bounded_sbind [OF bounded_fetch bounded_then [OF bounded_now bounded_finish]] by simp
  then show ?thesis unfolding after_reservation_def
    by (intro bounded_then) (auto intro: bounded_mono [OF bounded_reading])
qed

lemma after_replay: "jget r ''replayed'' = JBool True \<Longrightarrow> bounded 0 (after_reservation P E S a c i k sp x r)"
  unfolding after_reservation_def by (intro bounded_then) (auto intro: bounded_reading)

lemma collect_bounded: "bounded 1 (collect P E S a c i)"
  unfolding collect_def
  by (intro bounded_then bounded_lift bounded_reading) (auto intro!: bounded_then [OF own_runs(1)] after_bounded [simplified] split: prod.splits)

text \<open>A program that reads only when it records the key, and not when the key is recorded already.\<close>

definition guarded :: "string \<Rightarrow> string \<Rightarrow> ('a, 's) op \<Rightarrow> bool" where
  "guarded t key m \<longleftrightarrow> (\<forall>s r s'. m s = (r, s') \<longrightarrow> store_good E (store s) \<longrightarrow>
     (reads s' \<le> reads s \<or> key_recorded E (store s') t key) \<and> (key_recorded E (store s) t key \<longrightarrow> reads s' \<le> reads s))"

lemma guarded_steady: "bounded 0 m \<Longrightarrow> guarded t key m"
  unfolding guarded_def by (auto dest: boundedD)

lemma guarded_sbind:
  assumes m: "bounded 0 m" and f: "\<And>x. guarded t key (f x)"
  shows "guarded t key (sbind m f)"
  unfolding guarded_def
proof (intro allI impI)
  fix s r s'
  assume r: "sbind m f s = (r, s')" and g: "store_good E (store s)"
  obtain q u where q: "m s = (q, u)" by (cases "m s")
  have u: "(served E S)\<^sup>*\<^sup>* (store s) (store u)" "reads u \<le> reads s" using boundedD [OF m q] by simp_all
  have gu: "store_good E (store u)" by (rule later_good [OF u(1) g])
  show "(reads s' \<le> reads s \<or> key_recorded E (store s') t key) \<and> (key_recorded E (store s) t key \<longrightarrow> reads s' \<le> reads s)"
  proof (cases q)
    case (Inl e)
    with q r u show ?thesis by (auto simp: sbind_def)
  next
    case (Inr x)
    with q r have "f x u = (r, s')" by (simp add: sbind_def)
    with f [of x] gu have "(reads s' \<le> reads u \<or> key_recorded E (store s') t key) \<and> (key_recorded E (store u) t key \<longrightarrow> reads s' \<le> reads u)"
      unfolding guarded_def by blast
    with u recorded_later [OF u(1) g] show ?thesis by (meson order_trans)
  qed
qed

lemma guarded_reservation:
  "guarded (ac_tenant a) (idem_key E a (cm_key c)) (sbind (pf_run P (ac_tenant a) (reserve_read E S a c i k)) (after_reservation P E S a c i k sp x))"
  unfolding guarded_def
proof (intro allI impI)
  fix s r s'
  let ?K = "key_recorded E (store s') (ac_tenant a) (idem_key E a (cm_key c))"
  assume r: "sbind (pf_run P (ac_tenant a) (reserve_read E S a c i k)) (after_reservation P E S a c i k sp x) s = (r, s')"
    and g: "store_good E (store s)"
  obtain q u where q: "pf_run P (ac_tenant a) (reserve_read E S a c i k) s = (q, u)" by (cases "pf_run P (ac_tenant a) (reserve_read E S a c i k) s")
  have u: "(served E S)\<^sup>*\<^sup>* (store s) (store u)" "reads u \<le> reads s" using boundedD [OF own_runs(1) q] by simp_all
  show "(reads s' \<le> reads s \<or> ?K) \<and> (key_recorded E (store s) (ac_tenant a) (idem_key E a (cm_key c)) \<longrightarrow> reads s' \<le> reads s)"
  proof (cases q)
    case (Inl e)
    with q r u show ?thesis by (auto simp: sbind_def)
  next
    case (Inr y)
    with q r have rest: "after_reservation P E S a c i k sp x y u = (r, s')" by (simp add: sbind_def)
    from run_answer [where q = "ReserveRead c i k", simplified, OF q [unfolded Inr]] obtain v R where v: "(served E S)\<^sup>*\<^sup>* (store s) v"
        "serve (sibyl_load E rows_get) (sibyl_save E rows_put) (ac_tenant a) (reserve_read E S a c i k R) v = Inr (store u, y)" by blast
    show ?thesis
    proof (cases "jget y ''replayed'' = JBool True")
      case True
      from boundedD [OF after_replay [OF True] rest] u show ?thesis by auto
    next
      case False
      from reserve_recorded(2) [OF v(2) False] recorded_later [OF _ later_good [OF u(1) g]] boundedD [OF after_bounded rest] have ?K by blast
      moreover have "\<not> key_recorded E (store s) (ac_tenant a) (idem_key E a (cm_key c))"
        using reserve_recorded(1) [OF v(2)] False recorded_later [OF v(1) g] by blast
      ultimately show ?thesis by simp
    qed
  qed
qed

lemma collect_guarded: "guarded (ac_tenant a) (idem_key E a (cm_key c)) (collect P E S a c i)"
  unfolding collect_def by (intro guarded_sbind bounded_lift bounded_reading)
    (auto intro!: guarded_sbind guarded_reservation split: prod.splits)

text \<open>Two runs of the same command, with anything served in between, read at most once.\<close>

lemma collect_once:
  assumes g: "store_good E (store s)" and r1: "collect P E S a c i s = (r1, s1)" and r2: "collect P E S a c' i' s1 = (r2, s2)"
    and k: "cm_key c' = cm_key c"
  shows "reads s2 \<le> Suc (reads s)"
proof -
  note b1 = boundedD [OF collect_bounded r1] and b2 = boundedD [OF collect_bounded r2]
  have g1: "store_good E (store s1)" using b1 later_good g by blast
  from collect_guarded [of a c i] r1 g have "reads s1 \<le> reads s \<or> key_recorded E (store s1) (ac_tenant a) (idem_key E a (cm_key c))"
    unfolding guarded_def by blast
  moreover from collect_guarded [of a c' i'] r2 g1 k
  have "key_recorded E (store s1) (ac_tenant a) (idem_key E a (cm_key c)) \<longrightarrow> reads s2 \<le> reads s1"
    unfolding guarded_def by metis
  ultimately show ?thesis using b1 b2 by auto
qed

subsection \<open>Missions\<close>

lemma bounded_overview: "bounded 0 (overview_revision P E a backend)"
  unfolding overview_revision_def by (intro bounded_then bounded_reading bounded_lift)

lemma bounded_investigate: "bounded 0 (investigate P E S a (c :: command) i)"
  unfolding investigate_def
proof (intro bounded_then bounded_lift, intro bounded_then bounded_load)
  fix x y
  have m: "bounded 0 (attempt (m ctx tools))" if "pf_model P = Some m" for m ctx tools
    by (rule bounded_attempt) (use model_law [OF that] in \<open>simp add: bounded_def\<close>)
  show "bounded 0 (case y of (R, l) \<Rightarrow> sbind (lift (investigate_start E S a c i R l)) (\<lambda>begun. case begun of
       Inl r \<Rightarrow> lift (Inr r)
     | Inr n \<Rightarrow>
         (case pf_model P of
            None \<Rightarrow> pf_run P (ac_tenant a) (investigate_finish E S a c i n None)
          | Some model \<Rightarrow>
              sbind (pf_run P (ac_tenant a) (investigate_reserve E a c i (sn_basis n))) (\<lambda>claim.
              if truthy (jget claim ''replayed'') then reading P (ac_tenant a) (\<lambda>R l. investigate_uncertain E a c i l)
              else
                sbind (attempt (model (model_context E n) (mandatory_tools n @ optional_tools))) (\<lambda>answer.
                pf_run P (ac_tenant a) (investigate_finish E S a c i n
                  (Some (case answer of Inl _ \<Rightarrow> None | Inr x \<Rightarrow> Some x))))))))"
    by (auto intro!: bounded_then own_runs bounded_reading m split: prod.splits sum.splits option.splits)
qed

lemma bounded_steps: "bounded (length qs) (mission_steps P E S a c i revision outs qs)"
proof (induction qs arbitrary: outs)
  case (Cons q qs)
  have "bounded (length qs) (if step_done r then sbind (lift (jfield r ''revision'')) (\<lambda>_. mission_steps P E S a c i revision (outs @ [JObj r]) qs)
     else lift (Inr (outs @ [JObj r], False)))" for r
    using bounded_then [OF bounded_lift Cons.IH] by auto
  from bounded_sbind [OF collect_bounded this] show ?case
    by (simp add: bounded_then [OF bounded_reading])
qed simp

lemma bounded_mission_report: "bounded 0 (mission_report P E S a backend c i outs)"
  unfolding mission_report_def Let_def
  by (intro bounded_then bounded_overview bounded_investigate bounded_lift bounded_reading)
    (auto intro!: bounded_then bounded_overview own_runs split: option.splits list.splits)

lemma bounded_mission: "bounded (length (mi_queries c)) (mission P E S a backend c i)"
proof -
  have rest: "bounded 0 (if \<not> complete then lift (Inr (mission_answer (mission_id E a c) ''COLLECTION_INCOMPLETE'' outs []))
     else sbind (reading P (ac_tenant a) (\<lambda>R l. sources_current E D a c i (rn_clock R 44) l)) (\<lambda>current.
       if \<not> current then lift (Inr (mission_answer (mission_id E a c) ''SOURCES_STALE'' outs []))
       else mission_report P E S a backend c i outs))" for complete outs D
    by (auto intro!: bounded_then bounded_reading bounded_mission_report)
  have "bounded (length (mi_queries c)) (sbind (mission_steps P E S a c i revision [] (mi_queries c)) (\<lambda>(outs, complete).
     if \<not> complete then lift (Inr (mission_answer (mission_id E a c) ''COLLECTION_INCOMPLETE'' outs []))
     else sbind (reading P (ac_tenant a) (\<lambda>R l. sources_current E D a c i (rn_clock R 44) l)) (\<lambda>current.
       if \<not> current then lift (Inr (mission_answer (mission_id E a c) ''SOURCES_STALE'' outs []))
       else mission_report P E S a backend c i outs)))" for revision D
    by (rule bounded_sbind [OF bounded_steps, where k = 0, simplified]) (simp only: split_paired_all prod.case rest)
  then show ?thesis unfolding mission_def
    by (intro bounded_then [OF own_runs(3)] bounded_then [OF bounded_lift] bounded_then [OF bounded_reading])
qed

lemma bounded_resume: "bounded 4 (resume_mission P E S a backend (c :: command) m)"
proof -
  have o4: "bounded 4 (sbind (mission P E S a backend q i) f)" if "original_command r v = Inr q" "\<And>x. bounded 0 (f x)" for q i f r v
  proof -
    from that(1) have "length (mi_queries q) \<le> 4" by (auto simp: original_command_def valid_mission_def Let_def split: json.splits if_splits)
    moreover have "bounded (length (mi_queries q) + 0) (sbind (mission P E S a backend q i) f)"
      by (rule bounded_sbind [OF bounded_mission that(2)])
    ultimately show ?thesis by (simp add: bounded_mono)
  qed
  have l4: "bounded 4 (sbind (lift (original_command r v)) (\<lambda>q. sbind (mission P E S a backend q i) f))" if "\<And>x. bounded 0 (f x)" for r v i f
    using o4 [OF _ that] by (cases "original_command r v") (simp_all add: bounded_def sbind_def lift_def)
  show ?thesis unfolding resume_mission_def
    by (intro bounded_then bounded_lift bounded_reading) (auto intro!: bounded_then own_runs bounded_overview l4 split: prod.splits)
qed

end

section \<open>The world of a store\<close>

text \<open>
  What surrounds a service: the requests of others before each effect, the clocks and ids each effect is given, the
  network, the model and the partner's client. An id that is in use makes a transaction fail: \<^verbatim>\<open>uuid4\<close> is taken to be new.
\<close>

record surroundings =
  su_traffic :: "nat \<Rightarrow> (actor \<times> request \<times> run) list"
  su_runs :: "nat \<Rightarrow> run"
  su_net :: "nat \<Rightarrow> net"
  su_outside :: outside
  su_environ :: "string \<Rightarrow> string"
  su_model :: "(nat \<Rightarrow> jobj \<Rightarrow> string list \<Rightarrow> (string list \<times> json) res) option"
  su_acp :: "nat \<Rightarrow> string \<Rightarrow> json res"

record desk_world =
  wl_store :: "rows sibyl"
  wl_step :: nat
  wl_reads :: "(string \<times> string) list"

definition serve_fresh :: "env \<Rightarrow> string \<Rightarrow> run \<Rightarrow> handler \<Rightarrow> rows sibyl \<Rightarrow> (rows sibyl \<times> jobj) res" where
  "serve_fresh E t R h s =
     ebind (sibyl_load E rows_get s t) (\<lambda>l.
     ebind (check (fresh_ids (at_start E t l) R) (PyExc ''uuid4'')) (\<lambda>_.
     serve (sibyl_load E rows_get) (sibyl_save E rows_put) t (h R) s))"

definition other_request :: "env \<Rightarrow> service \<Rightarrow> actor \<times> request \<times> run \<Rightarrow> rows sibyl \<Rightarrow> rows sibyl" where
  "other_request E S x s = (case x of (a, q, R) \<Rightarrow>
     (case serve_fresh E (ac_tenant a) R (handle E S a q) s of Inl _ \<Rightarrow> s | Inr (s', _) \<Rightarrow> s'))"

definition tick :: "env \<Rightarrow> service \<Rightarrow> surroundings \<Rightarrow> desk_world \<Rightarrow> desk_world" where
  "tick E S U w = w\<lparr>wl_store := fold (other_request E S) (su_traffic U (wl_step w)) (wl_store w), wl_step := Suc (wl_step w)\<rparr>"

definition world_run :: "env \<Rightarrow> service \<Rightarrow> surroundings \<Rightarrow> string \<Rightarrow> handler \<Rightarrow> (jobj, desk_world) op" where
  "world_run E S U t h w =
     (let w1 = tick E S U w in
      case serve_fresh E t (su_runs U (wl_step w)) h (wl_store w1) of
        Inl e \<Rightarrow> (Inl e, w1) | Inr (s', r) \<Rightarrow> (Inr r, w1\<lparr>wl_store := s'\<rparr>))"

definition desk_platform :: "env \<Rightarrow> service \<Rightarrow> surroundings \<Rightarrow> desk_world platform" where
  "desk_platform E S U = \<lparr>
     pf_load = (\<lambda>t w. (ebind (sibyl_load E rows_get (wl_store (tick E S U w)) t) (\<lambda>l. Inr (su_runs U (wl_step w), l)), tick E S U w)),
     pf_run = world_run E S U,
     pf_now = (\<lambda>w. (Inr (rn_clock (su_runs U (wl_step w)) 43), tick E S U w)),
     pf_fetch = (\<lambda>s x sc w. (source_fetch E (su_net U (wl_step w)) (su_outside U) (su_environ U) s x sc (rn_clock (su_runs U (wl_step w)) 42),
       (tick E S U w)\<lparr>wl_reads := (sp_id s, x) # wl_reads w\<rparr>)),
     pf_model = map_option (\<lambda>m context tools w. (m (wl_step w) context tools, tick E S U w)) (su_model U),
     pf_history = (\<lambda>job requirements w. (case sv_partner S of None \<Rightarrow> Inl (PyExc ''AttributeError'')
        | Some V \<Rightarrow> job_history E V job requirements (su_acp U (wl_step w) job), tick E S U w))\<rparr>"

lemma serve_fresh_served: "serve_fresh E (ac_tenant a) R (handle E S a q) s = Inr (s', r) \<Longrightarrow> served E S s s'"
  by (auto simp: serve_fresh_def intro: served.intros split: if_splits)

lemma serve_fresh_serve: "serve_fresh E t R h s = Inr x \<Longrightarrow> serve (sibyl_load E rows_get) (sibyl_save E rows_put) t (h R) s = Inr x"
  by (auto simp: serve_fresh_def split: if_splits)

lemma traffic_served: "(served E S)\<^sup>*\<^sup>* s (fold (other_request E S) xs s)"
proof (induction xs arbitrary: s)
  case (Cons x xs)
  have "(served E S)\<^sup>*\<^sup>* s (other_request E S x s)"
    by (cases x) (auto simp: other_request_def dest: serve_fresh_served split: sum.splits prod.splits)
  with Cons.IH show ?case by (auto intro: rtranclp_trans)
qed simp

lemma tick_served: "(served E S)\<^sup>*\<^sup>* (wl_store w) (wl_store (tick E S U w))"
  by (simp add: tick_def traffic_served)

lemma tick_reads [simp]: "wl_reads (tick E S U w) = wl_reads w"
  by (simp add: tick_def)

lemma world_run_served:
  "(served E S)\<^sup>*\<^sup>* (wl_store w) (wl_store (snd (world_run E S U (ac_tenant a) (handle E S a q) w))) \<and>
   wl_reads (snd (world_run E S U (ac_tenant a) (handle E S a q) w)) = wl_reads w"
  using tick_served [of E S w U]
  by (auto simp: world_run_def Let_def intro: rtranclp.rtrancl_into_rtrancl dest: serve_fresh_served split: sum.splits prod.splits)

lemma world_run_answer:
  assumes "world_run E S U t h w = (Inr r, w')"
  shows "\<exists>u R. (served E S)\<^sup>*\<^sup>* (wl_store w) u \<and> serve (sibyl_load E rows_get) (sibyl_save E rows_put) t (h R) u = Inr (wl_store w', r)"
  using assms tick_served [of E S w U] serve_fresh_serve
  by (fastforce simp: world_run_def Let_def split: sum.splits prod.splits)

interpretation desk: serving_platform "desk_platform E S U" E S wl_store "\<lambda>w. length (wl_reads w)" for E S U
  by unfold_locales
    (auto simp: desk_platform_def tick_served world_run_served split: option.splits, blast dest!: world_run_answer)

end
