(* ===== verification/Cw_Desk_Example.thy ===== *)
theory Cw_Desk_Example
  imports Cw_Reads Cw_Example
begin

text \<open>
  A run with an evidence desk: the case of the first run is opened, and the investigator reserves a read
  of the issue tracker. The bound and the record theorems are applied to it.
\<close>

definition tracker :: source_spec where
  "tracker = \<lparr>sp_id = ''g'', sp_kind = ''github_issue'', sp_tenant = ''t'', sp_subjects = [''a''], sp_group = ''w'',
     sp_repositories = [''p/q''], sp_token_env = None, sp_rpc_url = None, sp_chain = 8453, sp_ttl = 300, sp_confirmations = 3,
     sp_attempts = 1\<rparr>"

lemma tracker_simps [simp]: "sp_id tracker = ''g''" "sp_attempts tracker = 1"
  by (simp_all add: tracker_def)

definition S1 :: service where
  "S1 = S0\<lparr>sv_desk := Some \<lparr>dk_specs = [tracker], dk_policies = []\<rparr>\<rparr>"

definition the_read :: collect_command where
  "the_read = \<lparr>cm_key = ''5'', cm_session = ''s'', cm_revision = 4, lc_source = ''g'', lc_resource = ''p/q#7'', lc_force = False\<rparr>"

lemma d1: "\<exists>r. handle E0 S1 owner (Bootstrap (cmd ''1'' 0)) (run_of ''u'' ''u'') None = Inr (Some w1, r)"
  by (simp add: bootstrap_def valid_defs empty_workspace_def engine_defs command_defs w1_def part_defs S1_def)

lemma d2: "\<exists>r. handle E0 S1 owner (SetBaseline the_baseline) (run_of ''u'' ''u'') (Some w1) = Inr (Some w2, r)"
  by (simp add: set_baseline_def set_baseline_change_def invalidate_def baseline_payload_def engine_defs graph_defs
      command_defs w2_def part_defs S1_def)

lemma d3: "\<exists>r. handle E0 S1 owner (RegisterTask the_task) (run_of ''u'' ''u'') (Some w2) = Inr (Some w3, r)"
  by (simp add: register_task_def register_task_change_def parents_ok_def new_task_def task_payload_def engine_defs graph_defs
      policy_defs command_defs w3_def part_defs S1_def)

lemma remember3: "desk_remember E0 (sv_desk S1) (w3\<lparr>ws_cases := [(''case_u'', case1)], ws_case_history := [(''case_u'', [case1])]\<rparr>) case1 [] =
   Inr (w3\<lparr>ws_cases := [(''case_u'', case1)], ws_case_history := [(''case_u'', [case1])]\<rparr>)"
  by (simp add: desk_remember_def S1_def remember_policy_def effective_policy_def obligations_def desk_policy_def part_defs)

lemma d4: "\<exists>r. handle E0 S1 investigator (OpenCase the_case) (run_of ''x'' ''u'') (Some w3) = Inr (Some w4, r)"
  using remember3 by (simp add: open_case_def open_case_change_def new_case_def case_payload_def invalidate_def taint_def
      engine_defs graph_defs command_defs w4_def part_defs)


definition request5 :: jobj where
  "request5 = request_item E0 investigator ''case_u'' case1 tracker ''p/q#7'' ''fetch_h'' 5"

definition head5 :: jobj where
  "head5 = head_item ''case_u'' case1 tracker ''fetch_h''"

definition v5 :: workspace where
  "v5 = w4\<lparr>ws_revision := 5, ws_artifacts := [(''h'', head5), (''fetch_h'', request5)],
     ws_audit := ws_audit w4 @ [event_row 5 ''i'' ''investigator'' ''source.reserve'' ''h''],
     ws_idempotency := ws_idempotency w4 @ [(''5'', answer_row [(''request_id'', JStr ''fetch_h''), (''state'', JStr ''PENDING''),
       (''external_calls'', JInt 0)] 5)], ws_root := ''h''\<rparr>"

lemma v5_fields [simp]:
  "ws_tenant v5 = ''t''" "ws_revision v5 = 5" "ws_baselines v5 = ws_baselines w4" "ws_cases v5 = ws_cases w4"
  "ws_case_history v5 = ws_case_history w4" "ws_baseline_history v5 = ws_baseline_history w4" "ws_tasks v5 = ws_tasks w4"
  "ws_decisions v5 = ws_decisions w4" "ws_reports v5 = []" "ws_handoffs v5 = []" "ws_lessons v5 = []"
  "ws_artifacts v5 = [(''h'', head5), (''fetch_h'', request5)]"
  "ws_audit v5 = ws_audit w4 @ [event_row 5 ''i'' ''investigator'' ''source.reserve'' ''h'']" "ws_root v5 = ''h''"
  by (simp_all add: v5_def)

lemma valid_v5 [simp]: "validate_workspace E0 v5 = Inr ()"
  by (simp add: valid_defs part_defs)

lemma read_target5: "read_target \<lparr>dk_specs = [tracker], dk_policies = []\<rparr> investigator ''g'' ''p/q#7'' the_scope = Inr (tracker, ''p/q#7'')"
  by (simp add: read_target_def allowed_spec_def spec_of_def tracker_def source_resource_def) code_simp

lemma guard5: "desk_remember E0 (Some \<lparr>dk_specs = [tracker], dk_policies = []\<rparr>) w4 case1 [''g''] =
   Inr (w4\<lparr>ws_artifacts := [(''h'', [(''kind'', JStr ''SOURCE_POLICY_GUARD''), (''case_id'', JStr ''case_u''), (''required_sources'', JList [JStr ''g'']),
      (''min_independence_groups'', JInt 0), (''configured_policy_required'', JBool False), (''configured_sources'', JList []),
      (''authority'', JBool False), (''executable'', JBool False)])]\<rparr>)"
  by (simp add: desk_remember_def remember_policy_def effective_policy_def obligations_def desk_policy_def part_defs sorted_set_def
     obligation_fields_def guard_key_def guard_of_def Let_def jget_def jstrings_def)

lemma d5: "\<exists>r. handle E0 S1 investigator (ReserveRead the_read ''case_u'' case1) (run_of ''x'' ''u'') (Some w4) = Inr (Some v5, r)"
  using read_target5 guard5
  by (simp add: reserve_read_def reserve_read_change_def desk_of_def S1_def the_read_def fetch_id_def attempts_made_def source_request_def
     current_receipts_def evidence_heads_def collect_heads.simps receipts_loop.simps cached_receipt.simps head_of_case_def source_key_def read_payload_def request5_def head5_def
     engine_defs graph_defs part_defs v5_def)


lemma saves5 [simp]: "save_guard E0 v5 = Inr ()"
  by (rule save_guard_weigh, simp, simp add: json_defs part_defs the_scope_def v5_def head5_def request5_def head_item_def request_item_def spec_hash_def)

lemma reachable_read: "reachable E0 S1 (holding (Some w4))" "reachable E0 S1 (holding (Some v5))"
proof -
  have r: "served E0 S1 (holding None) (holding (Some w1))" "served E0 S1 (holding (Some w1)) (holding (Some w2))"
    "served E0 S1 (holding (Some w2)) (holding (Some w3))" "served E0 S1 (holding (Some w3)) (holding (Some w4))"
    "served E0 S1 (holding (Some w4)) (holding (Some v5))"
    by (rule served_holding, rule d1 d2 d3 d4 d5, auto simp: fresh_ids_def new_id_def at_start_def empty_workspace_def)+
  note r4 = reachable_step [OF reachable_step [OF reachable_step [OF reachable_step [OF reachable_start r(1)] r(2)] r(3)] r(4)]
  show "reachable E0 S1 (holding (Some w4))" by (rule r4)
  show "reachable E0 S1 (holding (Some v5))" by (rule reachable_step [OF r4 r(5)])
qed

section \<open>The read returns\<close>

definition seen6 :: jobj where
  "seen6 = [(''facts'', JObj [(''state'', JStr ''open'')]), (''payload_sha256'', JStr (replicate 64 (CHR ''0''))), (''provenance'', JStr ''p''),
     (''external_calls'', JInt 1), (''claim_boundary'', JStr ''b'')]"

lemma utf8_ascii: "list_all (\<lambda>c. (of_char c :: nat) < 128) s \<Longrightarrow> utf8_ok s"
proof -
  have "list_all (\<lambda>c. (of_char c :: nat) < 128) s \<Longrightarrow> utf8_from [] s" by (induction s) (simp_all add: utf8_lead_def Let_def)
  then show "list_all (\<lambda>c. (of_char c :: nat) < 128) s \<Longrightarrow> utf8_ok s" by (simp add: utf8_ok_def)
qed

lemma quote_words: "quote ''facts'' = CHR 0x22 # ''facts'' @ [CHR 0x22]" "quote ''state'' = CHR 0x22 # ''state'' @ [CHR 0x22]"
  "quote ''open'' = CHR 0x22 # ''open'' @ [CHR 0x22]" "quote ''payload_sha256'' = CHR 0x22 # ''payload_sha256'' @ [CHR 0x22]"
  "quote ''provenance'' = CHR 0x22 # ''provenance'' @ [CHR 0x22]" "quote ''p'' = CHR 0x22 # ''p'' @ [CHR 0x22]"
  "quote ''external_calls'' = CHR 0x22 # ''external_calls'' @ [CHR 0x22]" "quote ''claim_boundary'' = CHR 0x22 # ''claim_boundary'' @ [CHR 0x22]"
  "quote ''b'' = CHR 0x22 # ''b'' @ [CHR 0x22]" "quote (replicate n (CHR ''0'')) = CHR 0x22 # replicate n (CHR ''0'') @ [CHR 0x22]"
  by (simp_all add: quote_def esc_def concat_replicate_trivial map_replicate)

lemma list_all_replicate_ascii: "list_all (\<lambda>c. (of_char c :: nat) < 128) (replicate n (CHR ''0''))"
  by (induction n) simp_all

lemma wide6: "length (wide (float_repr E0) (JObj seen6)) \<le> 64000" "utf8_ok (wide (float_repr E0) (JObj seen6))"
  by (simp_all add: seen6_def quote_words dec_int_def dec_nat.simps utf8_ascii list_all_replicate_ascii)

lemma readable6: "readable fl fr (JObj seen6)"
  by (simp add: seen6_def, code_simp)
lemma strict6: "strict_json fl 64000 (wide (float_repr E0) (JObj seen6)) = Inr (JObj seen6)"
  using wide6 readable6 by (intro strict_json_wide) (simp_all add: seen6_def)

lemma seen6_read: "read_result E0 (Inr (JObj seen6)) = Inr seen6"
  using strict6 by (simp add: read_result_def bounded_observation_def envelope_valid_def seen6_def renamed_def envelope_keys_def jget_def short_text_def valid_digest_def py_len_def list_all_iff is_hexlow_def is_digit_def)


definition receipt6 :: jobj where
  "receipt6 = new_receipt E0 ''case_u'' case1 tracker ''p/q#7'' ''source_u'' 5 seen6"

definition v6r :: workspace where
  "v6r = v5\<lparr>ws_revision := 6, ws_artifacts := [(''h'', finished_head ''OBSERVED'' (Inr seen6) ''source_u'' head5),
       (''fetch_h'', finished_item E0 ''OBSERVED'' 5 (Inr seen6) ''source_u'' request5), (''source_u'', receipt6)],
     ws_audit := ws_audit v5 @ [event_row 6 ''i'' ''investigator'' ''source.finish'' ''h''],
     ws_idempotency := ws_idempotency v5 @ [(''d'', answer_row [(''request_id'', JStr ''fetch_h''), (''state'', JStr ''OBSERVED''),
       (''error'', JNull), (''receipt'', JObj receipt6), (''external_calls'', JInt 1), (''no_external_retry'', JBool True)] 6)], ws_root := ''h''\<rparr>"

lemma done_key [simp]: "idem_key E0 investigator (CHR ''d'' # s) = ''d''"
  by (simp add: idem_key_def digest_def digest_input_def E0_def sha0_def dumps_def quote_def esc_def)

lemma v5_idem [simp]: "map_of (ws_idempotency v5) ''d'' = None" "dset ''d'' r (ws_idempotency v5) = ws_idempotency v5 @ [(''d'', r)]"
  by (simp_all add: v5_def)

lemma calls6 [simp]: "map_of seen6 ''external_calls'' = Some (JInt 1)"
  by (simp add: seen6_def)

lemma uuid10 [simp]: "rn_uuid (run_of ''x'' ''u'') 10 = ''u''"
  by (simp add: run_of_def)

lemma d6: "\<exists>r. handle E0 S1 investigator (FinishRead the_read ''case_u'' case1 (Inr (JObj seen6)) 5 5) (run_of ''x'' ''u'') (Some v5) = Inr (Some v6r, r)"
  using read_target5 seen6_read
  by (simp add: finish_read_def finish_read_change_def desk_of_def S1_def the_read_def fetch_id_def done_command_def
     source_key_def finish_payload_def request5_def request_item_def head5_def head_item_def finished_state_def receipt6_def jopt_def
     engine_defs graph_defs part_defs v6r_def)


lemma valid_v6r [simp]: "validate_workspace E0 v6r = Inr ()"
  by (simp add: valid_defs part_defs v6r_def)

lemmas receipt_defs = receipt6_def new_receipt_def seen6_def finished_head_def finished_item_def head5_def head_item_def request5_def request_item_def
  spec_hash_def tracker_def dunion_def

lemma saves6r [simp]: "save_guard E0 v6r = Inr ()"
  by (rule save_guard_weigh, simp, simp add: json_defs part_defs the_scope_def v6r_def receipt_defs Let_def v5_def)

lemma reachable_receipt: "reachable E0 S1 (holding (Some v6r))"
proof -
  have "served E0 S1 (holding (Some v5)) (holding (Some v6r))"
    by (rule served_holding, rule d6, auto simp: fresh_ids_def new_id_def at_start_def)
  then show ?thesis by (rule reachable_step [OF reachable_read(2)])
qed

section \<open>A review by the partner\<close>

definition the_partner :: virtuals_spec where
  "the_partner = \<lparr>vs_tenant = ''t'', vs_subjects = [''a''], vs_chain = 8453, vs_client = ''0x'', vs_provider = ''0y'', vs_offering = ''o'',
     vs_budget = 1, vs_executable = ''e'', vs_sha256 = ''s'', vs_home = ''m'', vs_ttl = 60\<rparr>"

definition S2 :: service where
  "S2 = S0\<lparr>sv_partner := Some the_partner\<rparr>"

lemma p1: "\<exists>r. handle E0 S2 owner (Bootstrap (cmd ''1'' 0)) (run_of ''u'' ''u'') None = Inr (Some w1, r)"
  by (simp add: bootstrap_def valid_defs empty_workspace_def engine_defs command_defs w1_def part_defs S2_def)

lemma p2: "\<exists>r. handle E0 S2 owner (SetBaseline the_baseline) (run_of ''u'' ''u'') (Some w1) = Inr (Some w2, r)"
  by (simp add: set_baseline_def set_baseline_change_def invalidate_def baseline_payload_def engine_defs graph_defs
      command_defs w2_def part_defs S2_def)

lemma p3: "\<exists>r. handle E0 S2 owner (RegisterTask the_task) (run_of ''u'' ''u'') (Some w2) = Inr (Some w3, r)"
  by (simp add: register_task_def register_task_change_def parents_ok_def new_task_def task_payload_def engine_defs graph_defs
      policy_defs command_defs w3_def part_defs S2_def)

lemma p4: "\<exists>r. handle E0 S2 investigator (OpenCase the_case) (run_of ''x'' ''u'') (Some w3) = Inr (Some w4, r)"
  by (simp add: open_case_def open_case_change_def new_case_def case_payload_def desk_remember_def invalidate_def taint_def
      engine_defs graph_defs command_defs w4_def part_defs S2_def)

lemma p5: "\<exists>r. handle E0 S2 investigator (Finish (cmd ''5'' 4) ''case_u'' the_snapshot None) (run_of ''x'' ''u'') (Some w4) =
    Inr (Some w5, r)"
  by (simp add: investigate_finish_def investigate_change_def build_report_def planned_def related_cases_def
      active_precedents_def run_tools_def mandatory_tools_def optional_tools_def trace_entry_def tool_output_def
      basis4 the_snapshot_def engine_defs graph_defs policy_defs command_defs w5_def part_defs S2_def)

lemma valid_report_p: "valid_report E0 S2 w5 case1 ''report_u'' (run_of ''x'' ''u'') = Inr report1"
  by (simp_all add: valid_report_def require_desk_def source_traced_def has_obligations_def obligations_def active_precedents_def
      investigation_basis_def evidence_basis_def evidence_heads_def engine_defs graph_defs policy_defs part_defs S2_def)

definition plan6 :: jobj where
  "plan6 = partner_plan E0 the_partner ''acpreview_u'' ''case_u'' case1 report1
     (partner_requirements E0 ''acpreview_u'' case1 report1 None) 5"

definition v6 :: workspace where
  "v6 = w5\<lparr>ws_revision := 6, ws_artifacts := [(''acpreview_u'', plan6)],
     ws_audit := ws_audit w5 @ [event_row 6 ''i'' ''investigator'' ''acp.prepare'' ''h''],
     ws_idempotency := ws_idempotency w5 @ [(''6'', answer_row [(''plan'', JObj plan6),
       (''note'', JStr ''Creating/funding/completing remains an explicit external operator action'')] 6)], ws_root := ''h''\<rparr>"

lemma p6: "\<exists>r. handle E0 S2 investigator (PreparePartner (cmd ''6'' 5) ''case_u'' ''report_u'') (run_of ''x'' ''u'') (Some w5) = Inr (Some v6, r)"
  using valid_report_p
  by (simp add: prepare_partner_def prepare_partner_change_def partner_of_def existing_plan_def S2_def the_partner_def run_of_def plan6_def v6_def
     engine_defs graph_defs command_defs part_defs)


lemma idem_key7 [simp]: "idem_key E0 investigator ''7'' = ''7''"
  by (simp add: idem_key_def digest_def digest_input_def E0_def sha0_def dumps_def quote_def esc_def)

lemma v6_fields [simp]:
  "ws_tenant v6 = ''t''" "ws_revision v6 = 6" "ws_baselines v6 = ws_baselines w5" "ws_cases v6 = ws_cases w5"
  "ws_case_history v6 = ws_case_history w5" "ws_baseline_history v6 = ws_baseline_history w5" "ws_tasks v6 = ws_tasks w5"
  "ws_decisions v6 = ws_decisions w5" "ws_reports v6 = ws_reports w5" "ws_handoffs v6 = []" "ws_lessons v6 = []"
  "ws_artifacts v6 = [(''acpreview_u'', plan6)]"
  "ws_audit v6 = ws_audit w5 @ [event_row 6 ''i'' ''investigator'' ''acp.prepare'' ''h'']" "ws_root v6 = ''h''"
  by (simp_all add: v6_def)

lemma v6_idem [simp]: "map_of (ws_idempotency v6) ''7'' = None" "dset ''7'' r (ws_idempotency v6) = ws_idempotency v6 @ [(''7'', r)]"
  by (simp_all add: v6_def)

lemma valid_v6 [simp]: "validate_workspace E0 v6 = Inr ()"
  by (simp add: valid_defs part_defs)

definition answer7 :: jobj where
  "answer7 = [(''status'', JStr ''completed'')]"

definition plan7 :: jobj where
  "plan7 = dset ''observations'' (JList [JObj (dset ''observed_at'' (JStr ''t'') answer7)])
     (dset ''state'' (JStr ''HISTORY_OBSERVED'') (dset ''bound_job_id'' (JStr ''7'') plan6))"

definition v7 :: workspace where
  "v7 = v6\<lparr>ws_revision := 7, ws_artifacts := [(''acpreview_u'', plan7)],
     ws_audit := ws_audit v6 @ [event_row 7 ''i'' ''investigator'' ''acp.verify'' ''h''],
     ws_idempotency := ws_idempotency v6 @ [(''7'', answer_row [(''verification'', JObj answer7), (''current'', JBool False),
       (''invalid_reasons'', JList [JStr ''ACP_PLAN_EXPIRED'']), (''partner_bonus_claimed'', JBool False),
       (''case_status_unchanged'', JStr ''OPEN''), (''resolution_performed'', JBool False)] 7)], ws_root := ''h''\<rparr>"

lemma valid_report_v: "valid_report E0 S2 (v6\<lparr>ws_artifacts := [(''acpreview_u'', plan7)]\<rparr>) case1 ''report_u'' (run_of ''x'' ''u'') = Inr report1"
  by (simp add: valid_report_def require_desk_def source_traced_def has_obligations_def obligations_def active_precedents_def obligation_step_def
      investigation_basis_def evidence_basis_def evidence_heads_def collect_heads.simps head_of_case_def plan7_def plan6_def partner_plan_def answer7_def
      engine_defs graph_defs policy_defs part_defs S2_def)

lemma p7: "\<exists>r. handle E0 S2 investigator (SavePartner (cmd ''7'' 6) ''acpreview_u'' ''7'' (JStr ''case_u'') plan6 answer7) (run_of ''x'' ''u'') (Some v6) = Inr (Some v7, r)"
  using valid_report_v
  by (simp add: save_partner_def save_partner_change_def S2_def job_free_def job_reused_def observed_plan_def plan_reasons_def jget_or_def
     plan7_def plan6_def partner_plan_def answer7_def the_partner_def v7_def parsed_time_def virtuals_hash_def partner_payload_def
     engine_defs graph_defs command_defs part_defs)


lemmas plan_defs = plan7_def plan6_def partner_plan_def partner_requirements_def answer7_def the_partner_def

lemma uni_lower_E0 [simp]: "uni_lower E0 s = s"
  by (simp add: E0_def)

lemma valid_v7 [simp]: "validate_workspace E0 v7 = Inr ()"
  by (simp add: valid_defs part_defs v7_def)

lemma saves67 [simp]: "save_guard E0 v6 = Inr ()" "save_guard E0 v7 = Inr ()"
  by (rule save_guard_weigh, simp, simp add: json_defs part_defs the_scope_def v6_def v7_def plan_defs virtuals_hash_def scope_key_def)+

lemma reachable_review: "reachable E0 S2 (holding (Some v7))"
proof -
  have r: "served E0 S2 (holding None) (holding (Some w1))" "served E0 S2 (holding (Some w1)) (holding (Some w2))"
    "served E0 S2 (holding (Some w2)) (holding (Some w3))" "served E0 S2 (holding (Some w3)) (holding (Some w4))"
    "served E0 S2 (holding (Some w4)) (holding (Some w5))" "served E0 S2 (holding (Some w5)) (holding (Some v6))"
    "served E0 S2 (holding (Some v6)) (holding (Some v7))"
    by (rule served_holding, rule p1 p2 p3 p4 p5 p6 p7, auto simp: fresh_ids_def new_id_def at_start_def empty_workspace_def)+
  show ?thesis
    by (rule reachable_step [OF reachable_step [OF reachable_step [OF reachable_step [OF reachable_step [OF reachable_step [OF
      reachable_step [OF reachable_start r(1)] r(2)] r(3)] r(4)] r(5)] r(6)] r(7)])
qed

end
