(* ===== verification/Cw_Source_Facts.thy ===== *)
theory Cw_Source_Facts
  imports Cw_Partner
begin

text \<open>
  What the answers of outside systems were checked for: an observation of a Base transaction, and the
  history of an ACP job.
\<close>

section \<open>An observed transaction\<close>

lemma schema_error_Inr [simp]: "schema_error m = Inr v \<longleftrightarrow> m = Inr v"
  by (auto simp: schema_error_def split: sum.splits err.splits)

lemma base_resource_Inr [simp]: "base_resource s resource sc = Inr x \<longleftrightarrow> tx_hash_text resource \<and> sc_chain sc = sp_chain s \<and> x = py_lower resource"
  by (auto simp: base_resource_def)

lemma bound_transaction_Inr:
  assumes "bound_transaction E sc txid tx receipt = Inr (t, r)"
  shows "tx = JObj t \<and> receipt = JObj r \<and> low_field E t ''hash'' = Inr txid \<and> low_field E r ''transactionHash'' = Inr txid \<and>
    low_field E t ''to'' = Inr (sc_target sc) \<and> low_field E r ''to'' = Inr (sc_target sc) \<and>
    low_field E t ''from'' = low_field E r ''from'' \<and>
    py_eq (jget t ''blockHash'') (jget r ''blockHash'') \<and> py_eq (jget t ''blockNumber'') (jget r ''blockNumber'')"
proof -
  from assms obtain a b where o: "tx = JObj a" "receipt = JObj b"
    by (cases tx; cases receipt) (simp_all add: bound_transaction_def)
  show ?thesis using assms unfolding o bound_transaction_def by (auto split: if_splits)
qed

lemma jfield_get: "jfield d f = Inr x \<Longrightarrow> x = jget d f"
  by (auto simp: jfield_def jget_def split: option.splits)

lemma block_of_Inr:
  assumes "block_of E N U s r = Inr (number, confirmations, answers)"
  shows "\<exists>block top. source_rpc E N s 3 ''eth_getBlockByNumber'' [jget r ''blockNumber'', JBool False] = Inr (JObj block) \<and>
    source_rpc E N s 4 ''eth_blockNumber'' [] = Inr top \<and> int16 U (jget r ''blockNumber'') = Inr number \<and>
    int16 U top = Inr (confirmations + number - 1) \<and> py_eq (jget block ''hash'') (jget r ''blockHash'')"
  using assms by (auto simp: block_of_def dest!: jfield_get split: if_splits)

definition observed_fact :: "json \<Rightarrow> string \<Rightarrow> json" where
  "observed_fact v f = (case v of JObj d \<Rightarrow> jget (jsub d ''facts'') f | _ \<Rightarrow> JNull)"

lemma base_fetch_bound:
  assumes "base_fetch E N U s resource sc = Inr v"
  shows "\<exists>t r block top number. sc_chain sc = sp_chain s \<and>
    source_rpc E N s 1 ''eth_getTransactionReceipt'' [JStr (py_lower resource)] = Inr (JObj r) \<and>
    source_rpc E N s 2 ''eth_getTransactionByHash'' [JStr (py_lower resource)] = Inr (JObj t) \<and>
    low_field E t ''hash'' = Inr (py_lower resource) \<and> low_field E r ''transactionHash'' = Inr (py_lower resource) \<and>
    low_field E t ''to'' = Inr (sc_target sc) \<and> low_field E r ''to'' = Inr (sc_target sc) \<and>
    source_rpc E N s 3 ''eth_getBlockByNumber'' [jget r ''blockNumber'', JBool False] = Inr (JObj block) \<and>
    py_eq (jget block ''hash'') (jget r ''blockHash'') \<and> int16 U (jget r ''blockNumber'') = Inr number \<and>
    source_rpc E N s 4 ''eth_blockNumber'' [] = Inr top \<and>
    (\<exists>c. int16 U top = Inr (c + number - 1) \<and> sp_confirmations s \<le> c \<and> observed_fact v ''confirmations'' = JInt c) \<and>
    observed_fact v ''tx_hash'' = JStr (py_lower resource) \<and> observed_fact v ''to'' = JStr (sc_target sc) \<and>
    observed_fact v ''block_hash'' = jget r ''blockHash'' \<and>
    (int16 U (jget r ''status'') = Inr 1 \<and> observed_fact v ''transaction_succeeded'' = JBool True \<or>
     int16 U (jget r ''status'') = Inr 0 \<and> observed_fact v ''transaction_succeeded'' = JBool False)"
proof -
  from assms obtain chain receipt tx t r number confirmations answers status sent where
      sc: "sc_chain sc = sp_chain s"
    and receipt: "source_rpc E N s 1 ''eth_getTransactionReceipt'' [JStr (py_lower resource)] = Inr receipt"
    and tx: "source_rpc E N s 2 ''eth_getTransactionByHash'' [JStr (py_lower resource)] = Inr tx"
    and b: "bound_transaction E sc (py_lower resource) tx receipt = Inr (t, r)"
    and k: "block_of E N U s r = Inr (number, confirmations, answers)" "sp_confirmations s \<le> confirmations"
    and st: "int16 U (jget r ''status'') = Inr status" "status = 0 \<or> status = 1"
    and v: "v = source_envelope (base_facts E s sc (py_lower resource) r number confirmations status sent)
        (sha256 E (dumps_sorted (float_repr E) (JList ([chain, receipt, tx] @ answers))))
        ''BASE_RPC_OBSERVED'' 5 ''RPC observation at fetch time; not perpetual finality or business authorization''"
    unfolding base_fetch_def by (elim ebind_InrE) (auto split: if_splits dest!: jfield_get)
  note o = bound_transaction_Inr [OF b]
  have f: "observed_fact v ''confirmations'' = JInt confirmations" "observed_fact v ''tx_hash'' = JStr (py_lower resource)"
    "observed_fact v ''to'' = JStr (sc_target sc)" "observed_fact v ''block_hash'' = jget r ''blockHash''"
    "observed_fact v ''transaction_succeeded'' = JBool (status = 1)"
    by (simp_all add: v observed_fact_def source_envelope_def base_facts_def jsub_def jget_def)
  obtain block top where block: "source_rpc E N s 3 ''eth_getBlockByNumber'' [jget r ''blockNumber'', JBool False] = Inr (JObj block)"
      "source_rpc E N s 4 ''eth_blockNumber'' [] = Inr top" "int16 U (jget r ''blockNumber'') = Inr number"
      "int16 U top = Inr (confirmations + number - 1)" "py_eq (jget block ''hash'') (jget r ''blockHash'')"
    using block_of_Inr [OF k(1)] by blast
  show ?thesis
    using sc receipt tx o block k(2) st f by (intro exI [of _ t] exI [of _ r] exI [of _ block] exI [of _ top] exI [of _ number]) auto
qed

section \<open>The history of a job\<close>

definition request_entry :: "env \<Rightarrow> virtuals_spec \<Rightarrow> string \<Rightarrow> json \<Rightarrow> bool" where
  "request_entry E V wanted entry \<longleftrightarrow> (case message_of E entry of
     Some (sender, e, m) \<Rightarrow> sender = uni_lower E (vs_client V) \<and> jget e ''contentType'' = JStr ''requirement'' \<and>
       digest E ''acp-requirements'' (JObj m) = wanted
   | None \<Rightarrow> False)"

definition review_entry :: "env \<Rightarrow> virtuals_spec \<Rightarrow> json \<Rightarrow> jobj option" where
  "review_entry E V entry = (case message_of E entry of
     Some (sender, e, m) \<Rightarrow> if sender = uni_lower E (vs_provider V) \<and> jget m ''schema_version'' = JStr ''memoryguard-review/1''
       then Some m else None
   | None \<Rightarrow> None)"

definition good_review :: "string \<Rightarrow> jobj \<Rightarrow> bool" where
  "good_review wanted m \<longleftrightarrow> review_valid wanted m = Inr True"

lemma scan_entry_spec:
  assumes "scan_entry E V wanted q entry = Inr q'"
  shows "rv_bound q' = (rv_bound q \<or> request_entry E V wanted entry)"
    "rv_invalid q' = (rv_invalid q \<or> (\<exists>m. review_entry E V entry = Some m \<and> \<not> good_review wanted m))"
    "rv_reviews q' = rv_reviews q @ (case review_entry E V entry of Some m \<Rightarrow> if good_review wanted m then [m] else [] | None \<Rightarrow> [])"
  using assms
  by (auto simp: scan_entry_def request_entry_def review_entry_def good_review_def Let_def split: option.splits if_splits prod.splits)

lemma scan_entries_spec:
  assumes "scan_entries E V wanted q es = Inr q'"
  shows "rv_bound q' = (rv_bound q \<or> list_ex (request_entry E V wanted) es) \<and>
    rv_invalid q' = (rv_invalid q \<or> (\<exists>m \<in> set (List.map_filter (review_entry E V) es). \<not> good_review wanted m)) \<and>
    rv_reviews q' = rv_reviews q @ filter (good_review wanted) (List.map_filter (review_entry E V) es)"
  using assms
proof (induction es arbitrary: q)
  case (Cons e es)
  then obtain q1 where q1: "scan_entry E V wanted q e = Inr q1" "scan_entries E V wanted q1 es = Inr q'" by auto
  from Cons.IH [OF q1(2)] scan_entry_spec [OF q1(1)] show ?case
    by (cases "review_entry E V e") (auto simp: List.map_filter_def)
qed (simp add: List.map_filter_def)

text \<open>The reviews a provider sent, in their order.\<close>

definition provider_reviews :: "env \<Rightarrow> virtuals_spec \<Rightarrow> json list \<Rightarrow> jobj list" where
  "provider_reviews E V es = List.map_filter (review_entry E V) es"

lemma few_digests: "length (remdups (map f xs)) \<le> 1 \<Longrightarrow> x \<in> set xs \<Longrightarrow> y \<in> set xs \<Longrightarrow> f x = f y"
  by (metis One_nat_def card_le_Suc0_iff_eq finite_set image_eqI length_remdups_card_conv list.set_map)

lemma job_history_bound:
  assumes "job_history E V job requirements answer = Inr d"
  shows "\<exists>data es st. answer = Inr (JObj data) \<and> jget data ''entries'' = JList es \<and> jget data ''status'' = JStr st \<and>
    derived_phase ''open'' es = Inr st \<and> list_ex (request_entry E V (digest E ''acp-requirements'' requirements)) es \<and>
    list_all (good_review (digest E ''acp-requirements'' requirements)) (provider_reviews E V es) \<and>
    (\<forall>m \<in> set (provider_reviews E V es). \<forall>n \<in> set (provider_reviews E V es).
       digest E ''acp-review-message'' (JObj m) = digest E ''acp-review-message'' (JObj n)) \<and>
    jget d ''review'' = (if provider_reviews E V es = [] then JNull else JObj (last (provider_reviews E V es))) \<and>
    jget d ''complete_review_observed'' = JBool (st = ''completed'' \<and> provider_reviews E V es \<noteq> [])"
proof -
  let ?w = "digest E ''acp-requirements'' requirements"
  note h = assms [unfolded job_history_def Let_def]
  from h have i: "job_id_text job" by (cases "job_id_text job") simp_all
  obtain v where v: "answer = Inr v" using h i by (cases answer) simp_all
  obtain data es where p: "history_shape V job v = Inr (data, es)" using h i v by (cases "history_shape V job v") auto
  obtain st where st: "derived_phase ''open'' es = Inr st" using h i v p by (cases "derived_phase ''open'' es") simp_all
  have eq: "jget data ''status'' = JStr st" using h i v p st by (cases "jget data ''status'' = JStr st") simp_all
  note a = v p st eq
  obtain q where q1: "scan_entries E V ?w \<lparr>rv_bound = False, rv_invalid = False, rv_reviews = []\<rparr> es = Inr q"
    using h i a by (cases "scan_entries E V ?w \<lparr>rv_bound = False, rv_invalid = False, rv_reviews = []\<rparr> es") simp_all
  then have q2: "rv_bound q" "\<not> rv_invalid q" "length (remdups (map (\<lambda>m. digest E ''acp-review-message'' (JObj m)) (rv_reviews q))) \<le> 1"
    and d: "d = history_body E V job ?w data (rv_reviews q)"
    using h i a by (simp_all split: if_splits)
  note q = q1 q2
  from a(2) have s: "v = JObj data" "jget data ''entries'' = JList es"
    by (auto simp: history_shape_def split: json.splits if_splits)
  note sp = scan_entries_spec [OF q(1), simplified, folded provider_reviews_def]
  have ok: "list_all (good_review ?w) (provider_reviews E V es)" using sp q(3) by (auto simp: list_all_iff)
  then have rv: "rv_reviews q = provider_reviews E V es" using sp by (simp add: list_all_iff)
  have same: "digest E ''acp-review-message'' (JObj m) = digest E ''acp-review-message'' (JObj n)"
    if "m \<in> set (provider_reviews E V es)" "n \<in> set (provider_reviews E V es)" for m n
    using few_digests [OF q(4), of m n] that by (simp add: rv)
  have f: "jget d ''review'' = (if provider_reviews E V es = [] then JNull else JObj (last (provider_reviews E V es)))"
    "jget d ''complete_review_observed'' = JBool (st = ''completed'' \<and> provider_reviews E V es \<noteq> [])"
    unfolding d history_body_def rv eq by (simp_all add: jget_def)
  have "list_ex (request_entry E V ?w) es" using sp q(2) by simp
  with v s st eq ok same f show ?thesis by blast
qed

end
