(* ===== verification/Cw_Desk_Views.thy ===== *)
theory Cw_Desk_Views
  imports Cw_Mission Cw_Views
begin

text \<open>
  The read operations of \<^verbatim>\<open>EvidenceDesk\<close> (\<^verbatim>\<open>dossier\<close>, \<^verbatim>\<open>export_report\<close>, \<^verbatim>\<open>catalog\<close>, \<^verbatim>\<open>list_missions\<close>,
  \<^verbatim>\<open>inspect_mission\<close> in \<^verbatim>\<open>source_service.py\<close>): they load, check and render, and return no workspace.
\<close>

section \<open>Cases and reports\<close>

definition case_request :: "string \<Rightarrow> jobj \<Rightarrow> bool" where
  "case_request i v \<longleftrightarrow> jget v ''kind'' = JStr ''SOURCE_REQUEST'' \<and> jget v ''case_id'' = JStr i"

definition request_row :: "jobj \<Rightarrow> json res" where
  "request_row v = ebind (jfield v ''request_id'') (\<lambda>r. ebind (jfield v ''state'') (\<lambda>st. ebind (jfield v ''source_id'') (\<lambda>s.
     Inr (JObj [(''request_id'', r), (''state'', st), (''source_id'', s)]))))"

definition dossier :: "env \<Rightarrow> desk \<Rightarrow> actor \<Rightarrow> string \<Rightarrow> reader" where
  "dossier E D a i R loaded =
     ebind (authorize a readers None) (\<lambda>_. in_tx
     (ebind (opened E False (ac_tenant a) loaded) (\<lambda>w.
      ebind (find_case w a i) (\<lambda>_.
      ebind (desk_context E D w i (rn_clock R 55)) (\<lambda>x.
      let requests = filter (case_request i) (map snd (ws_artifacts w)) in
      ebind (emap request_row requests) (\<lambda>rows.
      Inr (dunion (as_fields (context_value x)) [(''revision'', JInt (ws_revision w)),
        (''acquisition_attempts'', JInt (int (length requests))), (''request_states'', JList rows), (''executable'', JBool False)])))))))"

definition export_report :: "env \<Rightarrow> service \<Rightarrow> actor \<Rightarrow> string \<Rightarrow> reader" where
  "export_report E S a r R loaded =
     ebind (authorize a readers None) (\<lambda>_. in_tx
     (ebind (opened E False (ac_tenant a) loaded) (\<lambda>w.
      ebind (case map_of (ws_reports w) r of None \<Rightarrow> Inl (Casework ''REPORT_NOT_FOUND'' 404) | Some x \<Rightarrow> Inr x) (\<lambda>rep.
      ebind (find_case w a (rp_case rep)) (\<lambda>k.
      ebind (case valid_report E S w k r R of
          Inr _ \<Rightarrow> Inr True | Inl (Casework _ _) \<Rightarrow> Inr False | Inl e \<Rightarrow> Inl e) (\<lambda>current.
      Inr [(''schema_version'', JStr ''casework-report-export/1''), (''report'', report_json rep),
        (''source_snapshot'', jopt JObj (map_of (ws_artifacts w) (report_sources_key E r))), (''current'', JBool current),
        (''scope'', JStr ''Hashes verify internal consistency, not external truth or independently authenticated authorship''),
        (''executable'', JBool False)]))))))"

definition visible_to :: "actor \<Rightarrow> string \<Rightarrow> string list \<Rightarrow> bool" where
  "visible_to a tenant subjects \<longleftrightarrow> tenant = ac_tenant a \<and> list_ex (\<lambda>x. x \<in> set (ac_subjects a)) subjects"

definition catalog_row :: "source_spec \<Rightarrow> json" where
  "catalog_row s = JObj [(''source_id'', JStr (sp_id s)), (''kind'', JStr (sp_kind s)), (''independence_group'', JStr (sp_group s)),
     (''ttl_seconds'', JInt (sp_ttl s)), (''max_attempts_per_case'', JInt (sp_attempts s))]"

text \<open>No two sources of a configuration have one id, so its dictionary of sources is their list.\<close>

definition catalog :: "desk \<Rightarrow> virtuals_spec option \<Rightarrow> actor \<Rightarrow> jobj res" where
  "catalog D partner a =
     ebind (authorize a readers None) (\<lambda>_.
     Inr [(''sources'', JList (map catalog_row (filter (\<lambda>s. visible_to a (sp_tenant s) (sp_subjects s)) (dk_specs D)))),
       (''virtuals_configured'', JBool (case partner of None \<Rightarrow> False | Some V \<Rightarrow> visible_to a (vs_tenant V) (vs_subjects V))),
       (''read_only_connectors'', JBool True), (''partner_bonus_claimed'', JBool False), (''executable'', JBool False)])"

section \<open>Missions\<close>

definition visible_mission :: "workspace \<Rightarrow> actor \<Rightarrow> jobj \<Rightarrow> bool" where
  "visible_mission w a v \<longleftrightarrow> jget v ''kind'' = JStr ''EVIDENCE_MISSION'' \<and>
     (case jget v ''case_id'' of JStr i \<Rightarrow>
        (case map_of (ws_cases w) i of None \<Rightarrow> False | Some k \<Rightarrow> sc_subject (rc_scope k) \<in> set (ac_subjects a))
      | _ \<Rightarrow> False)"

text \<open>The newest first: a stable sort in reverse by the time of creation, then by the id.\<close>

definition newest_first :: "jobj list \<Rightarrow> jobj list" where
  "newest_first vs = rev (sort_key (\<lambda>v. jint_or v ''created_seq'' 0) (sort_key (\<lambda>v. jstring (jget v ''mission_id'')) (rev vs)))"

definition mission_row :: "jobj \<Rightarrow> json res" where
  "mission_row v =
     ebind (jfield v ''mission_id'') (\<lambda>m. ebind (jfield v ''case_id'') (\<lambda>i. ebind (jfield v ''operator_id'') (\<lambda>p.
     ebind (jfield v ''case_version'') (\<lambda>n.
     Inr (JObj [(''mission_id'', m), (''case_id'', i), (''operator_id'', p), (''case_version'', n),
       (''resume_supported'', JBool (truthy (jget v ''origin_idempotency_key'')))])))))"

definition list_missions :: "env \<Rightarrow> actor \<Rightarrow> reader" where
  "list_missions E a R loaded =
     ebind (authorize a readers None) (\<lambda>_. in_tx
     (ebind (opened E False (ac_tenant a) loaded) (\<lambda>w.
      ebind (emap mission_row (newest_first (filter (visible_mission w a) (map snd (ws_artifacts w))))) (\<lambda>rows.
      Inr [(''missions'', JList rows), (''revision'', JInt (ws_revision w)), (''executable'', JBool False)]))))"

text \<open>The state of one planned step, found by the keys a run of the mission uses.\<close>

definition step_state :: "env \<Rightarrow> workspace \<Rightarrow> actor \<Rightarrow> json \<Rightarrow> json \<Rightarrow> nat \<Rightarrow> json res" where
  "step_state E w a origin operator n =
     (let key = mission_key E ''mission-step'' (JList [origin, JInt (int n)]);
          fetch = ''fetch_'' @ take 32 (digest E ''fetch-id'' (JList [JStr (ac_tenant a), operator, JStr key]))
      in case map_of (ws_artifacts w) fetch of
           Some (q # qs) \<Rightarrow> Inr (jget (q # qs) ''state'')
         | _ \<Rightarrow> (case map_of (ws_idempotency w) (digest E ''idempotency-key'' (JList [operator, JStr key])) of
             Some (q # qs) \<Rightarrow> ebind (ebind (jfield (q # qs) ''response'') has_get) (\<lambda>r. Inr (jget r ''state''))
           | _ \<Rightarrow> Inr (JStr ''NOT_STARTED'')))"

fun step_rows :: "env \<Rightarrow> workspace \<Rightarrow> actor \<Rightarrow> jobj \<Rightarrow> nat \<Rightarrow> json list \<Rightarrow> json list res" where
  "step_rows E w a r n [] = Inr []"
| "step_rows E w a r n (q # qs) =
     ebind (if truthy (jget r ''origin_idempotency_key'')
       then ebind (jfield r ''operator_id'') (\<lambda>operator. step_state E w a (jget r ''origin_idempotency_key'') operator n)
       else Inr (JStr ''LEGACY_IDENTITY_UNAVAILABLE'')) (\<lambda>st.
     ebind (ebind (as_obj q) (\<lambda>d. jfield d ''source_id'')) (\<lambda>s.
     ebind (step_rows E w a r (n + 1) qs) (\<lambda>rows.
     Inr (JObj [(''index'', JInt (int n)), (''source_id'', s), (''state'', st)] # rows))))"

definition source_unchanged :: "env \<Rightarrow> desk \<Rightarrow> string \<times> json \<Rightarrow> bool" where
  "source_unchanged E D = (\<lambda>(i, h). case spec_of D i of None \<Rightarrow> False | Some s \<Rightarrow> h = JStr (spec_hash E s))"

text \<open>The attempt at an investigation and its report, under the key a run of the mission uses.\<close>

definition mission_attempt :: "env \<Rightarrow> workspace \<Rightarrow> jobj \<Rightarrow> (json \<times> json) res" where
  "mission_attempt E w r =
     (if \<not> truthy (jget r ''origin_idempotency_key'') then Inr (JNull, JNull) else
      let key = mission_key E ''mission-report'' (jget r ''origin_idempotency_key'') in
      ebind (jfield r ''operator_id'') (\<lambda>operator.
      ebind (case map_of (ws_idempotency w) (digest E ''idempotency-key'' (JList [operator, JStr key])) of
          Some (q # qs) \<Rightarrow> ebind (ebind (jfield (q # qs) ''response'') has_get) (\<lambda>d. Inr (jget d ''report''))
        | _ \<Rightarrow> Inr JNull) (\<lambda>rep.
      Inr (jopt JObj (map_of (ws_artifacts w) (''investigation_'' @ take 40 (digest E ''investigation-attempt'' (JList [operator, JStr key])))), rep))))"

definition report_checked :: "env \<Rightarrow> service \<Rightarrow> workspace \<Rightarrow> risk_case \<Rightarrow> json \<Rightarrow> run \<Rightarrow> (json \<times> bool) res" where
  "report_checked E S w k rep R =
     (if \<not> truthy rep then Inr (JNull, False) else
      ebind (ebind (as_obj rep) (\<lambda>d. jfield d ''report_id'')) (\<lambda>i.
      case valid_report E S w k (jstring i) R of
        Inr _ \<Rightarrow> Inr (i, True) | Inl (Casework _ _) \<Rightarrow> Inr (i, False) | Inl e \<Rightarrow> Inl e))"

definition inspect_mission :: "env \<Rightarrow> service \<Rightarrow> desk \<Rightarrow> actor \<Rightarrow> string \<Rightarrow> reader" where
  "inspect_mission E S D a m R loaded =
     ebind (authorize a readers None) (\<lambda>_. in_tx
     (ebind (opened E False (ac_tenant a) loaded) (\<lambda>w.
      ebind (stored_mission w m) (\<lambda>r.
      ebind (jfield r ''case_id'') (\<lambda>i.
      ebind (find_case w a (jstring i)) (\<lambda>k.
      ebind (ebind (jfield r ''planned_queries'') (\<lambda>qs. case qs of JList xs \<Rightarrow> Inr xs | _ \<Rightarrow> Inl (PyExc ''TypeError''))) (\<lambda>queries.
      ebind (step_rows E w a r 0 queries) (\<lambda>steps.
      ebind (jfield r ''case_version'') (\<lambda>version.
      ebind (ebind (jfield r ''source_policy_hashes'') has_get) (\<lambda>hashes.
      ebind (mission_attempt E w r) (\<lambda>(begun, rep).
      ebind (report_checked E S w k rep R) (\<lambda>(report_id, current).
      Inr [(''mission'', JObj (filter (\<lambda>(f, _). f \<notin> {''origin_session_id'', ''origin_idempotency_key''}) r)), (''steps'', JList steps),
        (''case_current'', JBool (py_eq version (JInt (rc_version k)) \<and> rc_status k = OPEN)),
        (''config_matches'', JBool (list_all (source_unchanged E D) hashes)), (''report_id'', report_id),
        (''report_current'', JBool current), (''revision'', JInt (ws_revision w)),
        (''resume_supported'', JBool (truthy (jget r ''origin_idempotency_key'') \<and> truthy (jget r ''origin_session_id''))),
        (''investigation_state'', case begun of JObj (d # ds) \<Rightarrow> jget (d # ds) ''state'' | _ \<Rightarrow> JStr ''NO_RESERVED_MODEL_ATTEMPT''),
        (''executable'', JBool False), (''resolution_performed'', JBool False)]))))))))))))"

section \<open>All views\<close>

text \<open>A read operation of the service or of its desk, with its arguments.\<close>

datatype view =
    Overview string
  | ReplayTask string
  | RecoverTask string
  | CaseTimeline string
  | Dossier string
  | ExportReport string
  | ListMissions
  | InspectMission string

fun look :: "env \<Rightarrow> service \<Rightarrow> desk \<Rightarrow> actor \<Rightarrow> view \<Rightarrow> reader" where
  "look E S D a (Overview backend) = overview E a backend"
| "look E S D a (ReplayTask k) = replay E a k"
| "look E S D a (RecoverTask k) = recovery E a k"
| "look E S D a (CaseTimeline i) = case_timeline E a i"
| "look E S D a (Dossier i) = dossier E D a i"
| "look E S D a (ExportReport r) = export_report E S a r"
| "look E S D a ListMissions = list_missions E a"
| "look E S D a (InspectMission m) = inspect_mission E S D a m"

lemmas look_defs = overview_def replay_def recovery_def case_timeline_def dossier_def export_report_def list_missions_def
  inspect_mission_def

lemma look_opened: "look E S D a v R loaded = Inr r \<Longrightarrow> \<exists>w. opened E False (ac_tenant a) loaded = Inr w"
  by (cases v) (auto simp: look_defs elim!: ebind_InrE)

end
