(* ===== verification/Cw_Desk_Claims.thy ===== *)
theory Cw_Desk_Claims
  imports Cw_Desk_Example Cw_Source_Facts Cw_Desk_Views
begin

text \<open>
  The separation of tenants, and the properties of the evidence desk, of the partner's reviews, of the
  incident ingress and of the JSON boundary, each followed by a witness at a concrete input.
\<close>

section \<open>Tenants\<close>

text \<open>C5: tenants are kept apart without trusting the client of the database: whatever row it returns and however it
  stores one, a request that is answered, in a run that draws new ids, worked on no row or on one of the actor's own tenant,
  and changed nothing in the store but the actor's own row, to a workspace of the actor's tenant; a view that is answered shows a row of the
  actor's tenant.\<close>

theorem tenant_isolation:
  assumes "loaded = get (si_db s) (ac_tenant a) category (row_key E (ac_tenant a))"
  shows "(\<forall>q s' r. serve (sibyl_load E get) (sibyl_save E put) (ac_tenant a) (handle E S a q R) s = Inr (s', r) \<longrightarrow>
      fresh_ids (at_start E (ac_tenant a) loaded) R \<longrightarrow>
      (\<forall>w. loaded = Some w \<longrightarrow> ws_tenant w = ac_tenant a) \<and>
      (s' = s \<or> (\<exists>w'. ws_tenant w' = ac_tenant a \<and>
         s' = s\<lparr>si_db := put (si_db s) (ac_tenant a) category (row_key E (ac_tenant a)) w'\<rparr>))) \<and>
    (\<forall>v r. ebind (sibyl_load E get s (ac_tenant a)) (look E S D a v R) = Inr r \<longrightarrow>
      (\<exists>w. loaded = Some w \<and> ws_tenant w = ac_tenant a))"
proof (rule conjI; intro allI impI)
  fix q s' r
  assume s: "serve (sibyl_load E get) (sibyl_save E put) (ac_tenant a) (handle E S a q R) s = Inr (s', r)"
    and fr: "fresh_ids (at_start E (ac_tenant a) loaded) R"
  from s obtain saved where h: "handle E S a q R loaded = Inr (saved, r)"
    and u: "case saved of None \<Rightarrow> s' = s | Some w \<Rightarrow> sibyl_save E put s (ac_tenant a) w = Inr s'"
    by (rule served_row [where get = get, OF _ assms])
  from handle_own [OF h fr] have o: "own a loaded" "own a saved" by auto
  have "s' = s \<or> (\<exists>w'. ws_tenant w' = ac_tenant a \<and>
      s' = s\<lparr>si_db := put (si_db s) (ac_tenant a) category (row_key E (ac_tenant a)) w'\<rparr>)"
    using u o(2) by (cases saved) (auto simp: sibyl_save_def own_def)
  with o(1) show "(\<forall>w. loaded = Some w \<longrightarrow> ws_tenant w = ac_tenant a) \<and> (s' = s \<or> (\<exists>w'. ws_tenant w' = ac_tenant a \<and>
      s' = s\<lparr>si_db := put (si_db s) (ac_tenant a) category (row_key E (ac_tenant a)) w'\<rparr>))" by (simp add: own_def)
next
  fix v r
  assume "ebind (sibyl_load E get s (ac_tenant a)) (look E S D a v R) = Inr r"
  then have "look E S D a v R loaded = Inr r" by (auto simp: sibyl_load_def assms elim!: ebind_InrE split: option.splits)
  then obtain w where "opened E False (ac_tenant a) loaded = Inr w" using look_opened by blast
  then show "\<exists>w. loaded = Some w \<and> ws_tenant w = ac_tenant a" by (auto simp: opened_Inr at_start_def split: option.splits)
qed

text \<open>A client that returns the row of one tenant to everybody, and an actor of another tenant.\<close>

definition shared_get :: "rows entity_get" where
  "shared_get d tenant c k = d (''t'', c, k)"

definition stranger :: actor where
  "stranger = owner\<lparr>ac_tenant := ''z''\<rparr>"

theorem tenant_isolation_witness:
  "(\<forall>q. \<exists>e. serve (sibyl_load E0 shared_get) (sibyl_save E0 rows_put) ''z'' (handle E0 S0 stranger q (run_of ''u'' ''u''))
      (holding (Some w1)) = Inl e) \<and>
   (\<exists>s r w'. serve (sibyl_load E0 rows_get) (sibyl_save E0 rows_put) ''t'' (handle E0 S0 owner (SetBaseline the_baseline) (run_of ''u'' ''u''))
      (holding (Some w1)) = Inr (s, r) \<and> ws_tenant w' = ''t'' \<and> si_db s (''t'', category, ''h'') = Some w')"
proof (intro conjI allI)
  have t: "ws_tenant w1 = ''t''" "ac_tenant stranger = ''z''" by (simp_all add: w1_def empty_workspace_def stranger_def)
  have f: "fresh_ids w1 (run_of ''u'' ''u'')" by (simp add: fresh_ids_def new_id_def)
  fix q
  have l: "Some w1 = shared_get (si_db (holding (Some w1))) (ac_tenant stranger) category (row_key E0 (ac_tenant stranger))"
    by (simp add: shared_get_def holding_def)
  have "serve (sibyl_load E0 shared_get) (sibyl_save E0 rows_put) ''z'' (handle E0 S0 stranger q (run_of ''u'' ''u''))
      (holding (Some w1)) \<noteq> Inr (s, r)" for s r
    using tenant_isolation [where get = shared_get, OF l, THEN conjunct1, rule_format, of rows_put S0 q "run_of ''u'' ''u''" s r] f t
    by (auto simp: at_start_def)
  then show "\<exists>e. serve (sibyl_load E0 shared_get) (sibyl_save E0 rows_put) ''z'' (handle E0 S0 stranger q (run_of ''u'' ''u''))
      (holding (Some w1)) = Inl e"
    by (cases "serve (sibyl_load E0 shared_get) (sibyl_save E0 rows_put) ''z'' (handle E0 S0 stranger q (run_of ''u'' ''u''))
      (holding (Some w1))") auto
next
  from step2 obtain r where "handle E0 S0 owner (SetBaseline the_baseline) (run_of ''u'' ''u'') (Some w1) = Inr (Some w2, r)" ..
  then have s: "serve (sibyl_load E0 rows_get) (sibyl_save E0 rows_put) ''t'' (handle E0 S0 owner (SetBaseline the_baseline) (run_of ''u'' ''u''))
      (holding (Some w1)) = Inr (holding (Some w2), r)"
    using stored_holding [of w1] by (simp add: serve_def stored_def save_holding)
  have "ws_tenant w2 = ''t''" by (simp add: w2_def w1_def empty_workspace_def)
  moreover have "si_db (holding (Some w2)) (''t'', category, ''h'') = Some w2" by (simp add: holding_def)
  ultimately show "\<exists>s r w'. serve (sibyl_load E0 rows_get) (sibyl_save E0 rows_put) ''t''
      (handle E0 S0 owner (SetBaseline the_baseline) (run_of ''u'' ''u'')) (holding (Some w1)) = Inr (s, r) \<and> ws_tenant w' = ''t'' \<and>
      si_db s (''t'', category, ''h'') = Some w'" using s by blast
qed

section \<open>The records of reachable stores\<close>

lemma E0_numbers: "number_texts (float_repr E0)"
  by (simp add: number_texts_def E0_def number_char_def is_digit_def)

lemma tracker_spec: "spec_of \<lparr>dk_specs = [tracker], dk_policies = []\<rparr> ''g'' = Some tracker"
  by (subst spec_of_def) simp

lemma allowed12: "attempts_allowed S1" "attempts_allowed S2"
  by (auto simp: attempts_allowed_def S1_def S2_def spec_of_def split: if_splits)

text \<open>C8: no record of a reachable store is executable or claims authority, and a source receipt has exactly
  the fields of a receipt and carries the hash of all the others.\<close>

theorem reachable_records_inert:
  assumes "reachable E S s" "stored E s tenant w" "map_of (ws_artifacts w) i = Some v"
    "attempts_allowed S" "number_texts (float_repr E)"
  shows "jget v ''executable'' \<noteq> JBool True \<and> jget v ''authoritative'' \<noteq> JBool True \<and> jget v ''authority'' \<noteq> JBool True \<and>
    (jget v ''kind'' = JStr ''SOURCE_RECEIPT'' \<longrightarrow> set (keys v) = sealed_keys \<and>
       jget v ''receipt_root'' = JStr (digest E ''source-receipt'' (JObj (filter (\<lambda>(k, x). k \<noteq> ''receipt_root'') v))))"
proof -
  from reachable_tidy [OF assms(1,4,5)] assms(2,3) have "record_ok E v" by (auto simp: store_tidy_def tidy_def)
  then show ?thesis by (simp add: record_ok_def inert_def sealed_receipt_def)
qed

theorem reachable_records_inert_witness:
  "jget receipt6 ''executable'' \<noteq> JBool True \<and> set (keys receipt6) = sealed_keys \<and>
   jget receipt6 ''receipt_root'' = JStr (digest E0 ''source-receipt'' (JObj (filter (\<lambda>(k, x). k \<noteq> ''receipt_root'') receipt6)))"
proof -
  have k: "jget receipt6 ''kind'' = JStr ''SOURCE_RECEIPT''" by (simp add: receipt_defs Let_def jget_def)
  have "stored E0 (holding (Some v6r)) ''t'' v6r" by (simp add: stored_holding)
  from reachable_records_inert [OF reachable_receipt this _ allowed12(1) E0_numbers, of "''source_u''" receipt6] k
  show ?thesis by (simp add: v6r_def)
qed

text \<open>C7: in a reachable store no source was read more often for a case than its configuration allows.\<close>

theorem reachable_read_budget:
  assumes "reachable E S s" "stored E s tenant w" "sv_desk S = Some D" "spec_of D src = Some sp"
    "attempts_allowed S" "number_texts (float_repr E)"
  shows "int (attempts_made w i src) \<le> sp_attempts sp"
proof -
  from reachable_tidy [OF assms(1,5,6)] assms(2) have "within_budget S (ws_artifacts w)" by (auto simp: store_tidy_def tidy_def)
  with assms(3,4) show ?thesis by (simp add: within_budget_def attempts_made)
qed

theorem reachable_read_budget_witness: "attempts_made v5 ''case_u'' ''g'' = 1 \<and> int (attempts_made v5 ''case_u'' ''g'') \<le> 1"
proof
  show "attempts_made v5 ''case_u'' ''g'' = 1"
    by (simp add: attempts_made_def source_request_def head5_def head_item_def request5_def request_item_def jget_def)
  have "int (attempts_made v5 ''case_u'' ''g'') \<le> sp_attempts tracker"
    by (rule reachable_read_budget [OF reachable_read(2) _ _ tracker_spec allowed12(1) E0_numbers, of "''t''"])
      (simp_all add: stored_holding S1_def)
  then show "int (attempts_made v5 ''case_u'' ''g'') \<le> 1" by simp
qed

definition plans_bound :: "string \<Rightarrow> workspace \<Rightarrow> string list" where
  "plans_bound job w = map fst (filter (\<lambda>(p, v). jget v ''kind'' = JStr ''ACP_REVIEW_PLAN'' \<and> jget v ''bound_job_id'' = JStr job)
     (ws_artifacts w))"

lemma plans_bound_once:
  assumes "distinct (keys (ws_artifacts w))" "jobs_once (ws_artifacts w)"
  shows "length (plans_bound job w) \<le> 1"
proof -
  have d: "distinct (plans_bound job w)" unfolding plans_bound_def using assms(1) distinct_map_filter by blast
  have "p = q" if "p \<in> set (plans_bound job w)" "q \<in> set (plans_bound job w)" for p q
  proof -
    from that obtain u v where u: "(p, u) \<in> set (ws_artifacts w)" "jget u ''kind'' = JStr ''ACP_REVIEW_PLAN''" "jget u ''bound_job_id'' = JStr job"
        and v: "(q, v) \<in> set (ws_artifacts w)" "jget v ''kind'' = JStr ''ACP_REVIEW_PLAN''" "jget v ''bound_job_id'' = JStr job"
      unfolding plans_bound_def by auto
    from assms(2) u(2,3) v(2,3) map_of_distinct_iff [OF assms(1)] u(1) v(1) show "p = q"
      unfolding jobs_once_def acp_plan_def by blast
  qed
  then have "card (set (plans_bound job w)) \<le> 1" by (simp add: card_le_Suc0_iff_eq)
  with distinct_card [OF d] show ?thesis by simp
qed

text \<open>C10: in a reachable store at most one review plan is bound to a job of the partner.\<close>

theorem reachable_job_once:
  assumes "reachable E S s" "stored E s tenant w" "attempts_allowed S" "number_texts (float_repr E)"
  shows "length (plans_bound job w) \<le> 1"
proof -
  from reachable_tidy [OF assms(1,3,4)] assms(2) have "distinct (keys (ws_artifacts w)) \<and> jobs_once (ws_artifacts w)"
    by (auto simp: store_tidy_def tidy_def)
  then show ?thesis using plans_bound_once by blast
qed

theorem reachable_job_once_witness: "plans_bound ''7'' v7 = [''acpreview_u''] \<and> length (plans_bound ''7'' v7) \<le> 1"
proof
  show "plans_bound ''7'' v7 = [''acpreview_u'']" by (simp add: plans_bound_def v7_def plan_defs jget_def)
  show "length (plans_bound ''7'' v7) \<le> 1"
    by (rule reachable_job_once [OF reachable_review _ allowed12(2) E0_numbers, of "''t''"]) (simp add: stored_holding)
qed

text \<open>
  Only the first plan of a report is looked at when another is asked for: once that one has expired, no later plan is
  found, however long it is still current.
\<close>

lemma expired_plan_hides_later:
  assumes "ws_artifacts w = xs @ (p, u) # ys" "jget u ''kind'' = JStr ''ACP_REVIEW_PLAN''" "jget u ''report_id'' = JStr report_id"
    "\<And>v. v \<in> snd ` set xs \<Longrightarrow> jget v ''kind'' \<noteq> JStr ''ACP_REVIEW_PLAN'' \<or> jget v ''report_id'' \<noteq> JStr report_id"
    "ebind (jfield u ''expires_at'') (parsed_time E) = Inr t" "t \<le> now"
  shows "existing_plan E V w report_id now = Inr None"
proof -
  have "List.find (\<lambda>v. jget v ''kind'' = JStr ''ACP_REVIEW_PLAN'' \<and> jget v ''report_id'' = JStr report_id) (map snd (ws_artifacts w)) = Some u"
    unfolding assms(1) using assms(2-4) by (induction xs) auto
  with assms(5,6) show ?thesis by (simp add: existing_plan_def)
qed

section \<open>Reads of external sources\<close>

text \<open>C6: two runs of the same read command, with whatever other requests served in between and during them,
  read the external source at most once; a command that was reserved before is not sent again.\<close>

theorem collect_reads_once:
  assumes "reachable E S (wl_store w)" "collect (desk_platform E S U) E S a c i w = (r1, u1)"
    "collect (desk_platform E S U) E S a c' i' u1 = (r2, u2)" "cm_key c' = cm_key c"
  shows "length (wl_reads u2) \<le> Suc (length (wl_reads w))"
  by (rule desk.collect_once [OF reachable_good [OF assms(1)] assms(2-4)])

definition quiet_world :: surroundings where
  "quiet_world = \<lparr>su_traffic = (\<lambda>_. []), su_runs = (\<lambda>_. run_of ''x'' ''u''), su_net = (\<lambda>_ _ _ _ _ _. Inl (PyExc ''ConnectError'')),
     su_outside = \<lparr>ou_answer = (\<lambda>_ _ _. Inr JNull), ou_odd_int = (\<lambda>_. Inr 0), ou_shown = (\<lambda>_. []), ou_now = 0\<rparr>,
     su_environ = (\<lambda>_. []), su_model = None, su_acp = (\<lambda>_ _. Inr JNull)\<rparr>"

definition world4 :: desk_world where
  "world4 = \<lparr>wl_store = holding (Some w4), wl_step = 0, wl_reads = []\<rparr>"

theorem collect_reads_once_witness:
  "length (wl_reads (snd (collect (desk_platform E0 S1 quiet_world) E0 S1 investigator the_read ''case_u''
     (snd (collect (desk_platform E0 S1 quiet_world) E0 S1 investigator the_read ''case_u'' world4))))) \<le> 1"
proof -
  have "reachable E0 S1 (wl_store world4)" using reachable_read(1) by (simp add: world4_def)
  from collect_reads_once [OF this prod.collapse [symmetric] prod.collapse [symmetric] HOL.refl] show ?thesis by (simp add: world4_def)
qed

text \<open>C13: a mission reads at most once per planned query, and a mission that is resumed at most four times.\<close>

theorem mission_reads_bounded:
  "length (wl_reads (snd (mission (desk_platform E S U) E S a backend c i w))) \<le> length (mi_queries c) + length (wl_reads w) \<and>
   length (wl_reads (snd (resume_mission (desk_platform E S U) E S a backend (q :: command) m w))) \<le> 4 + length (wl_reads w)"
  using desk.boundedD [OF desk.bounded_mission prod.collapse [symmetric]] desk.boundedD [OF desk.bounded_resume prod.collapse [symmetric]]
  by blast

section \<open>Answers of outside systems\<close>

text \<open>C11: a job history of the partner's client is accepted only if its entries hold the requirements of the plan, sent by
  the client; if every review the provider sent is a valid answer to them and all reviews agree; and if its
  status is the one its own events derive. A complete review is reported exactly when that status is completed
  and the provider sent a review.\<close>

theorem history_is_bound:
  assumes "job_history E V job requirements answer = Inr d"
  shows "\<exists>data es st. answer = Inr (JObj data) \<and> jget data ''entries'' = JList es \<and> jget data ''status'' = JStr st \<and>
    derived_phase ''open'' es = Inr st \<and> list_ex (request_entry E V (digest E ''acp-requirements'' requirements)) es \<and>
    list_all (good_review (digest E ''acp-requirements'' requirements)) (provider_reviews E V es) \<and>
    (\<forall>m \<in> set (provider_reviews E V es). \<forall>n \<in> set (provider_reviews E V es).
       digest E ''acp-review-message'' (JObj m) = digest E ''acp-review-message'' (JObj n)) \<and>
    jget d ''review'' = (if provider_reviews E V es = [] then JNull else JObj (last (provider_reviews E V es))) \<and>
    jget d ''complete_review_observed'' = JBool (st = ''completed'' \<and> provider_reviews E V es \<noteq> [])"
  using assms by (rule job_history_bound)

definition entry8 :: json where
  "entry8 = JObj [(''kind'', JStr ''message''), (''from'', JStr ''0x''), (''contentType'', JStr ''requirement''), (''content'', JStr ''{}'')]"

definition history8 :: jobj where
  "history8 = [(''protocol'', JStr ''v2''), (''jobId'', JStr ''7''), (''chainId'', JInt 8453), (''status'', JStr ''open''),
     (''entries'', JList [entry8]), (''entryCount'', JInt 1)]"

lemma message8: "message_of E0 entry8 = Some (''0x'', [(''kind'', JStr ''message''), (''from'', JStr ''0x''),
   (''contentType'', JStr ''requirement''), (''content'', JStr ''{}'')], [])"
proof -
  have "loads fl ''{}'' = Some (JObj [])" for fl by (simp add: loads_def bom_def skip_blank_def json_blank_def eval_nat_numeral)
  then have "strict_json fl 32000 ''{}'' = Inr (JObj [])" for fl by (simp add: strict_json_Inr utf8_ascii)
  then show ?thesis by (simp add: message_of_def entry8_def jget_def jget_or_def jstring_def py_len_def)
qed

lemma phase8: "next_phase st entry8 = Inr st"
  by (simp add: next_phase_def entry8_def jget_def)

lemma partner_fields [simp]: "vs_chain the_partner = 8453" "vs_client the_partner = ''0x''" "vs_provider the_partner = ''0y''"
  by (simp_all add: the_partner_def)

theorem history_is_bound_witness:
  "\<exists>d es. job_history E0 the_partner ''7'' (JObj []) (Inr (JObj history8)) = Inr d \<and> jget history8 ''entries'' = JList es \<and>
     list_ex (request_entry E0 the_partner ''h'') es \<and> jget d ''complete_review_observed'' = JBool False"
proof -
  have "\<exists>d. job_history E0 the_partner ''7'' (JObj []) (Inr (JObj history8)) = Inr d"
    by (simp add: job_history_def job_id_text_def is_digit_def history_shape_def history8_def text_in_def job_states_def
       shows_as_def scan_entry_def message8 phase8 Let_def jget_def)
  then obtain d where d: "job_history E0 the_partner ''7'' (JObj []) (Inr (JObj history8)) = Inr d" ..
  from history_is_bound [OF d] d show ?thesis by (fastforce simp: history8_def jget_def)
qed

text \<open>C12: an observation of a transaction on Base rests on answers of the node that name the transaction in the receipt
  and in the transaction, both to the contract of the scope; on a block that still has the hash of the receipt; and on
  at least as many confirmations as the source asks for. The facts recorded are those.\<close>

theorem observation_is_bound:
  assumes "base_fetch E N U s resource sc = Inr v"
  shows "\<exists>t r block top number. sc_chain sc = sp_chain s \<and>
    source_rpc E N s 1 ''eth_getTransactionReceipt'' [JStr (py_lower resource)] = Inr (JObj r) \<and>
    source_rpc E N s 2 ''eth_getTransactionByHash'' [JStr (py_lower resource)] = Inr (JObj t) \<and>
    low_field E t ''hash'' = Inr (py_lower resource) \<and> low_field E r ''transactionHash'' = Inr (py_lower resource) \<and>
    low_field E t ''to'' = Inr (sc_target sc) \<and> low_field E r ''to'' = Inr (sc_target sc) \<and>
    source_rpc E N s 3 ''eth_getBlockByNumber'' [jget r ''blockNumber'', JBool False] = Inr (JObj block) \<and>
    py_eq (jget block ''hash'') (jget r ''blockHash'') \<and> int16 U (jget r ''blockNumber'') = Inr number \<and>
    source_rpc E N s 4 ''eth_blockNumber'' [] = Inr top \<and>
    (\<exists>c. int16 U top = Inr (c + number - 1) \<and> sp_confirmations s \<le> c \<and> observed_fact v ''confirmations'' = JInt c) \<and>
    observed_fact v ''tx_hash'' = JStr (py_lower resource) \<and> observed_fact v ''to'' = JStr (sc_target sc) \<and>
    observed_fact v ''block_hash'' = jget r ''blockHash'' \<and>
    (int16 U (jget r ''status'') = Inr 1 \<and> observed_fact v ''transaction_succeeded'' = JBool True \<or>
     int16 U (jget r ''status'') = Inr 0 \<and> observed_fact v ''transaction_succeeded'' = JBool False)"
  using assms by (rule base_fetch_bound)

text \<open>A node that answers five requests in JSON that \<^verbatim>\<open>json.dumps\<close> writes.\<close>

definition plain :: "char \<Rightarrow> bool" where
  "plain c \<longleftrightarrow> 32 \<le> (of_char c :: nat) \<and> (of_char c :: nat) < 127 \<and> c \<noteq> CHR 0x22 \<and> c \<noteq> CHR 0x5C"

lemma quote_plain: "list_all plain s \<Longrightarrow> quote s = CHR 0x22 # s @ [CHR 0x22]"
proof -
  have "esc c = [c]" if "plain c" for c
    using that by (auto simp: plain_def esc_def)
  then show "list_all plain s \<Longrightarrow> quote s = CHR 0x22 # s @ [CHR 0x22]"
    by (induction s) (auto simp: quote_def)
qed

lemma zeros [simp]: "list_all plain (replicate n (CHR ''0''))" "list_all (\<lambda>c. (of_char c :: nat) < 128) (replicate n (CHR ''0''))"
  "list_all is_hex (replicate n (CHR ''0''))" "list_all is_hexlow (replicate n (CHR ''0''))"
  by (induction n) (simp_all add: plain_def is_hex_def is_hexlow_def is_digit_def)

definition modest :: "nat \<Rightarrow> json \<Rightarrow> bool" where
  "modest m v \<longleftrightarrow> readable (float_text E0) (float_repr E0) v \<and> list_all (\<lambda>c. (of_char c :: nat) < 128) (wide (float_repr E0) v) \<and>
     length (wide (float_repr E0) v) \<le> m \<and> json_depth v \<le> 48 \<and> json_nodes v \<le> 100000"

lemma read_back: "modest m v \<Longrightarrow> strict_json (float_text E0) m (wide (float_repr E0) v) = Inr v \<and> length (wide (float_repr E0) v) \<le> m"
  using strict_json_wide utf8_ascii by (auto simp: modest_def)

definition rpc_body :: "json \<Rightarrow> json" where
  "rpc_body x = JObj [(''jsonrpc'', JStr ''2.0''), (''id'', JInt 1), (''result'', x)]"

definition hash9 :: string where
  "hash9 = ''0x'' @ replicate 64 (CHR ''0'')"

definition from9 :: string where
  "from9 = ''0x'' @ replicate 40 (CHR ''0'')"

definition receipt9 :: jobj where
  "receipt9 = [(''transactionHash'', JStr hash9), (''to'', JStr ''0x''), (''from'', JStr from9), (''blockHash'', JStr hash9),
     (''blockNumber'', JStr ''0x5''), (''status'', JStr ''0x1'')]"

definition sent9 :: jobj where
  "sent9 = [(''hash'', JStr hash9), (''to'', JStr ''0x''), (''from'', JStr from9), (''blockHash'', JStr hash9),
     (''blockNumber'', JStr ''0x5''), (''value'', JStr ''0x0'')]"

definition block9 :: jobj where
  "block9 = [(''hash'', JStr hash9), (''number'', JStr ''0x5'')]"

definition node9 :: net where
  "node9 n verb url headers body = Inr \<lparr>hr_status = 200, hr_chunks = [(0, wide (float_repr E0)
     (rpc_body ([JStr ''0x2105'', JObj receipt9, JObj sent9, JObj block9, JStr ''0x9''] ! n)))]\<rparr>"

definition chain9 :: source_spec where
  "chain9 = tracker\<lparr>sp_kind := ''base_transaction''\<rparr>"

abbreviation outside9 :: outside where
  "outside9 \<equiv> su_outside quiet_world"

lemma rpc9: "source_rpc E0 node9 chain9 0 verb args = Inr (JStr ''0x2105'')" "source_rpc E0 node9 chain9 1 verb args = Inr (JObj receipt9)"
  "source_rpc E0 node9 chain9 2 verb args = Inr (JObj sent9)" "source_rpc E0 node9 chain9 3 verb args = Inr (JObj block9)"
  "source_rpc E0 node9 chain9 4 verb args = Inr (JStr ''0x9'')"
proof -
  have a: "source_rpc E0 node9 chain9 n verb args = Inr x"
    if "[JStr ''0x2105'', JObj receipt9, JObj sent9, JObj block9, JStr ''0x9''] ! n = x" "strict_json (float_text E0) 512000 (wide (float_repr E0) (rpc_body x)) = Inr (rpc_body x)"
      "length (wide (float_repr E0) (rpc_body x)) \<le> 512000" for n x
    using that by (simp add: source_rpc_def http_json_def bounded_json_def transport_def node9_def) (simp add: rpc_body_def jget_def)
  note d = modest_def rpc_body_def receipt9_def sent9_def block9_def hash9_def from9_def quote_plain plain_def dec_int_def dec_nat.simps
  have b: "strict_json (float_text E0) 512000 (wide (float_repr E0) (rpc_body x)) = Inr (rpc_body x) \<and> length (wide (float_repr E0) (rpc_body x)) \<le> 512000"
    if "x \<in> {JStr ''0x2105'', JObj receipt9, JObj sent9, JObj block9, JStr ''0x9''}" for x
    by (rule read_back) (use that in \<open>auto simp: d\<close>)
  show "source_rpc E0 node9 chain9 0 verb args = Inr (JStr ''0x2105'')" "source_rpc E0 node9 chain9 1 verb args = Inr (JObj receipt9)"
    "source_rpc E0 node9 chain9 2 verb args = Inr (JObj sent9)" "source_rpc E0 node9 chain9 3 verb args = Inr (JObj block9)"
    "source_rpc E0 node9 chain9 4 verb args = Inr (JStr ''0x9'')"
    using b by (simp_all add: a)
qed

lemma lows9: "low_field E0 sent9 ''hash'' = Inr hash9" "low_field E0 receipt9 ''transactionHash'' = Inr hash9"
  "low_field E0 sent9 ''to'' = Inr ''0x''" "low_field E0 receipt9 ''to'' = Inr ''0x''"
  "low_field E0 sent9 ''from'' = Inr from9" "low_field E0 receipt9 ''from'' = Inr from9"
  by (simp_all add: low_field_def jget_or_def sent9_def receipt9_def)

lemma ints9: "int16 U (JStr ''0x2105'') = Inr 8453" "int16 U (JStr ''0x5'') = Inr 5" "int16 U (JStr ''0x9'') = Inr 9"
  "int16 U (JStr ''0x1'') = Inr 1" "int16 U (JStr ''0x0'') = Inr 0"
  by (simp_all add: int16_def, code_simp+)

lemma texts9: "tx_hash_text hash9" "py_lower hash9 = hash9" "valid_address from9"
  by (simp_all add: tx_hash_text_def valid_address_def hash9_def from9_def py_lower_def map_replicate to_lower_def is_upper_def)

lemma fetch9: "\<exists>v. base_fetch E0 node9 outside9 chain9 hash9 the_scope = Inr v"
proof -
  have t: "sc_target the_scope = ''0x''" "sc_chain the_scope = 8453" "sp_chain chain9 = 8453" "sp_confirmations chain9 = 3"
    by (simp_all add: the_scope_def chain9_def tracker_def)
  have f: "jget receipt9 ''blockNumber'' = JStr ''0x5''" "jget receipt9 ''blockHash'' = JStr hash9" "jget sent9 ''blockNumber'' = JStr ''0x5''"
    "jget sent9 ''blockHash'' = JStr hash9" "jget block9 ''hash'' = JStr hash9" "jget_or receipt9 ''from'' (JStr []) = JStr from9"
    "jget_or receipt9 ''blockHash'' (JStr []) = JStr hash9" "jfield receipt9 ''blockNumber'' = Inr (JStr ''0x5'')"
    "jfield receipt9 ''blockHash'' = Inr (JStr hash9)" "jfield block9 ''number'' = Inr (JStr ''0x5'')"
    "jfield receipt9 ''status'' = Inr (JStr ''0x1'')" "jfield sent9 ''value'' = Inr (JStr ''0x0'')" "truthy (JObj block9)"
    by (simp_all add: receipt9_def sent9_def block9_def jget_def jget_or_def jfield_def)
  have b: "bound_transaction E0 the_scope hash9 (JObj sent9) (JObj receipt9) = Inr (sent9, receipt9)"
    by (simp add: bound_transaction_def lows9 t f texts9 as_text_def)
  have k: "\<exists>xs. block_of E0 node9 outside9 chain9 receipt9 = Inr (5, 5, xs)"
    by (simp add: block_of_def f rpc9 ints9 has_get_def) (simp add: block9_def)
  then show ?thesis
    by (auto simp: base_fetch_def base_resource_def texts9 t rpc9 rpc9 [unfolded One_nat_def] ints9 b f schema_error_def)
qed

theorem observation_is_bound_witness:
  "\<exists>v c. base_fetch E0 node9 outside9 chain9 hash9 the_scope = Inr v \<and> observed_fact v ''confirmations'' = JInt c \<and>
     sp_confirmations chain9 \<le> c \<and> observed_fact v ''to'' = JStr (sc_target the_scope)"
proof -
  from fetch9 obtain v where v: "base_fetch E0 node9 outside9 chain9 hash9 the_scope = Inr v" ..
  from observation_is_bound [OF v] v show ?thesis by blast
qed

section \<open>Signed incidents\<close>

text \<open>C9: two deliveries that a source is admitted with under one signature have one timestamp and one delivery id and
  consist of the same bytes, unless the texts that HMAC hashes for the two are a collision of SHA-256.\<close>

theorem incident_signature_binds:
  assumes "admitted E S environ now source t d sig raw = Inr x" "admitted E S environ now' source t' d' sig' raw' = Inr y"
    "header sig = header sig'" "hex_hash E"
  shows "header t = header t' \<and> header d = header d' \<and> raw = raw' \<or>
    (\<exists>s. incident_spec_of S source = Some s \<and> hmac_collision E (incident_secret environ s)
       (signed_text (header t) (header d) raw) (signed_text (header t') (header d') raw'))"
proof -
  from assms(1) obtain s b v where s: "incident_spec_of S source = Some s" "headers_ok (header t) (header d) (header sig)"
      "header sig = ''sha256='' @ hmac_sha256 E (incident_secret environ s) (signed_text (header t) (header d) raw)"
      "strict_json (float_text E) 16384 raw = Inr v" "incident_body_of v = Some b" unfolding admitted_Inr by blast
  from assms(2) obtain s' b' v' where s': "incident_spec_of S source = Some s'" "headers_ok (header t') (header d') (header sig')"
      "header sig' = ''sha256='' @ hmac_sha256 E (incident_secret environ s') (signed_text (header t') (header d') raw')"
      "strict_json (float_text E) 16384 raw' = Inr v'" "incident_body_of v' = Some b'" unfolding admitted_Inr by blast
  from s(1,3) s'(1,3) assms(3) have "hmac_sha256 E (incident_secret environ s) (signed_text (header t) (header d) raw) =
     hmac_sha256 E (incident_secret environ s) (signed_text (header t') (header d') raw')" by simp
  from hmac_inj [OF assms(4) this] show ?thesis
  proof
    assume e: "signed_text (header t) (header d) raw = signed_text (header t') (header d') raw'"
    have "header t = header t' \<and> header d = header d' \<and> raw = raw'"
      by (rule signed_text_unique [OF e _ _ _ body_head [OF s(4,5)] body_head [OF s'(4,5)]])
        (use s(2) s'(2) in \<open>simp_all add: headers_ok_def\<close>)
    then show ?thesis ..
  qed (use s(1) in blast)
qed

definition E9 :: env where
  "E9 = E0\<lparr>sha256 := (\<lambda>_. replicate 64 (CHR ''0''))\<rparr>"

definition S9 :: service where
  "S9 = S0\<lparr>sv_incidents := [\<lparr>ic_id = ''src'', ic_actor = ''i'', ic_secret = ''K'', ic_scope = the_scope, ic_skew = 120\<rparr>]\<rparr>"

definition body9 :: "string \<Rightarrow> string" where
  "body9 k = wide (float_repr E0) (JObj [(''kind'', JStr k), (''evidence_digest'', JStr (replicate 64 (CHR ''0'')))])"

definition admit9 :: "string \<Rightarrow> delivered res" where
  "admit9 raw = admitted E9 S9 (\<lambda>_. Some (replicate 32 (CHR ''x''))) 0 ''src'' (Some ''0000000000'') (Some ''delivery'')
     (Some (''sha256='' @ replicate 64 (CHR ''0''))) raw"

lemma admit9_Inr:
  assumes "k \<in> {''dispute'', ''revocation''}"
  shows "\<exists>x. admit9 (body9 k) = Inr x"
proof -
  have r: "strict_json (float_text E0) 16384 (body9 k) = Inr (JObj [(''kind'', JStr k), (''evidence_digest'', JStr (replicate 64 (CHR ''0'')))]) \<and>
      length (body9 k) \<le> 16384" for fl
    unfolding body9_def by (rule read_back) (use assms in \<open>auto simp: modest_def quote_plain plain_def\<close>)
  have b: "\<exists>b. incident_body_of (JObj [(''kind'', JStr k), (''evidence_digest'', JStr (replicate 64 (CHR ''0'')))]) = Some b"
    using assms by (auto simp: incident_body_of_def jget_def valid_digest_def)
  have h: "headers_ok ''0000000000'' ''delivery'' (''sha256='' @ replicate 64 (CHR ''0''))"
    by (simp add: headers_ok_def is_digit_def delivery_char_def char_classes)
  have t: "undec 0 ''0000000000'' = 0" by code_simp
  show ?thesis
    using b r h t
    by (auto simp: admit9_def admitted_Inr incident_spec_of_def S9_def header_def in_skew_def seconds_def incident_secret_def py_len_def hmac_sha256_def E9_def)
qed

theorem incident_signature_binds_witness:
  "hmac_collision E9 (replicate 32 (CHR ''x'')) (signed_text ''0000000000'' ''delivery'' (body9 ''dispute''))
     (signed_text ''0000000000'' ''delivery'' (body9 ''revocation''))"
proof -
  obtain x where x: "admit9 (body9 ''dispute'') = Inr x" using admit9_Inr [of "''dispute''"] by auto
  obtain y where y: "admit9 (body9 ''revocation'') = Inr y" using admit9_Inr [of "''revocation''"] by auto
  have h: "hex_hash E9" by (simp add: hex_hash_def E9_def)
  have n: "body9 ''dispute'' \<noteq> body9 ''revocation''" by (simp add: body9_def quote_plain plain_def)
  from incident_signature_binds [OF x [unfolded admit9_def] y [unfolded admit9_def] HOL.refl h] n
  show ?thesis by (auto simp: header_def incident_secret_def)
qed

section \<open>The JSON boundary\<close>

text \<open>What the bounded reader accepts is valid UTF-8 within the size asked for, has no key twice in one object, is at
  most 48 levels deep and of at most 100000 nodes, and holds no float that is not finite; everything else is a
  ValueError. The fuel of the model is enough: more of it changes nothing.\<close>

theorem strict_json_accepts:
  "(strict_json fl m raw = Inr v \<longleftrightarrow> length raw \<le> m \<and> utf8_ok raw \<and> loads fl raw = Some v \<and> distinct_keys v \<and>
     json_depth v \<le> 48 \<and> json_nodes v \<le> 100000 \<and> finite_floats v) \<and>
   ((\<exists>e. strict_json fl m raw = Inl e) \<longleftrightarrow> strict_json fl m raw = Inl (PyExc ''ValueError'')) \<and>
   p_value fl (2 * length raw + 2 + extra) raw = p_value fl (2 * length raw + 2) raw"
  using loads_keys [of fl raw v] strict_json_Inl [of fl m raw] fuel_enough [of raw "2 * length raw + 2 + extra" fl]
  by (auto simp: strict_json_Inr)

text \<open>C14: what \<^verbatim>\<open>json.dumps(v, ensure_ascii=False)\<close> writes is read back as the value it was written from, when the
  value has no key twice in one object, its integers have at most 4300 digits, and its text is UTF-8 and within the limits of
  size, depth and nodes. Floats included: they have to be finite, and \<^verbatim>\<open>repr\<close> has to print each of them as a float that
  \<^verbatim>\<open>float\<close> reads back, which is what the two are documented to do.\<close>

theorem json_round_trip:
  assumes "distinct_keys v" "small_ints v" "float_tokens fr v" "floats_back fl fr v"
    "utf8_ok (wide fr v)" "length (wide fr v) \<le> m" "json_depth v \<le> 48" "json_nodes v \<le> 100000"
  shows "strict_json fl m (wide fr v) = Inr v"
  using assms by (intro strict_json_wide) (simp_all add: readable_def)

text \<open>Two floats, printed and read back.\<close>

definition halves_repr :: "rat \<Rightarrow> string" where
  "halves_repr q = (if q = 1 / 2 then ''0.5'' else ''-1.5e+300'')"

definition halves_text :: "string \<Rightarrow> pyfloat" where
  "halves_text t = (if t = ''0.5'' then Fin (1 / 2) else Fin (- 15 * 10 ^ 299))"

definition mixed_value :: json where
  "mixed_value = JObj [(''a'', JList [JInt 7, JStr ''b'', JFloat (Fin (1 / 2))]), (''c'', JFloat (Fin (- 15 * 10 ^ 299)))]"

theorem json_round_trip_witness:
  "wide halves_repr mixed_value = CHR ''{'' # quote ''a'' @ '': [7, '' @ quote ''b'' @ '', 0.5], '' @ quote ''c'' @ '': -1.5e+300}'' \<and>
   strict_json halves_text 100 (wide halves_repr mixed_value) = Inr mixed_value"
proof
  have big: "(- 15 * 10 ^ 299 :: rat) \<noteq> 1 / 2" by simp
  have tk: "float_token ''0.5''" "float_token ''-1.5e+300''" by code_simp+
  note d = mixed_value_def halves_repr_def halves_text_def enc_float_def quote_plain plain_def dec_int_def dec_nat.simps
  show w: "wide halves_repr mixed_value =
      CHR ''{'' # quote ''a'' @ '': [7, '' @ quote ''b'' @ '', 0.5], '' @ quote ''c'' @ '': -1.5e+300}''"
    using big by (simp add: d)
  show "strict_json halves_text 100 (wide halves_repr mixed_value) = Inr mixed_value"
  proof (rule json_round_trip)
    show "float_tokens halves_repr mixed_value" "floats_back halves_text halves_repr mixed_value"
      using tk big by (simp_all add: d)
  qed (simp_all add: w, simp_all add: d utf8_ascii)
qed

section \<open>Recorded answers\<close>

text \<open>C15: a command that was answered stays answered: in every later store its record and its answer are found
  under the same key.\<close>

theorem recorded_answers_stay:
  assumes "reachable E S s" "(served E S)\<^sup>*\<^sup>* s s'" "stored E s tenant w" "map_of (ws_idempotency w) k = Some p" "p \<noteq> []"
  shows "\<exists>w'. stored E s' tenant w' \<and> map_of (ws_idempotency w') k = Some p"
  by (rule recorded_stays [OF assms(2) reachable_good [OF assms(1)] assms(3-5)])

theorem recorded_answers_stay_witness:
  "\<exists>w'. stored E0 (holding (Some w3)) ''t'' w' \<and> map_of (ws_idempotency w') ''1'' = Some (answer_row [(''state'', JStr ''INITIALIZED'')] 1)"
proof (rule recorded_answers_stay)
  show "reachable E0 S0 (holding (Some w1))" by (rule reachable_run)
  show "(served E0 S0)\<^sup>*\<^sup>* (holding (Some w1)) (holding (Some w3))" using served_run(2,3) by (meson rtranclp.simps)
  show "stored E0 (holding (Some w1)) ''t'' w1" by (simp add: stored_holding)
qed (simp_all add: w1_def answer_row_def)

end
