(* ===== verification/Cw_Access.thy ===== *)
theory Cw_Access
  imports Cw_Sources
begin

text \<open>
  Who may call: the credential registry of a deployment (\<^verbatim>\<open>src/src/proofops_casework/auth.py\<close>), read from
  the JSON document of its file, and the check of a bearer token.
\<close>

section \<open>Credentials\<close>

definition role_of :: "string \<Rightarrow> role option" where
  "role_of s = map_of (map (\<lambda>r. (role_str r, r)) [Owner, Investigator, Reviewer, Viewer]) s"

text \<open>A dictionary with exactly these keys.\<close>

definition exact_keys :: "string list \<Rightarrow> jobj \<Rightarrow> bool" where
  "exact_keys ks d \<longleftrightarrow> set (keys d) = set ks"

text \<open>\<^verbatim>\<open>Actor.model_validate\<close> of a JSON value.\<close>

fun identifiers :: "json list \<Rightarrow> string list option" where
  "identifiers [] = Some []"
| "identifiers (JStr s # xs) = (if valid_identifier s then map_option ((#) s) (identifiers xs) else None)"
| "identifiers (_ # xs) = None"

definition actor_of :: "json \<Rightarrow> actor option" where
  "actor_of v = (case v of
     JObj d \<Rightarrow>
       (case (jget d ''actor_id'', jget d ''tenant_id'', jget d ''role'', jget d ''subjects'') of
          (JStr i, JStr t, JStr r, JList ss) \<Rightarrow>
            (if exact_keys [''actor_id'', ''tenant_id'', ''role'', ''subjects''] d \<and> valid_identifier i \<and> valid_identifier t
             then case (role_of r, identifiers ss) of
                 (Some r', Some ss') \<Rightarrow> Some \<lparr>ac_id = i, ac_tenant = t, ac_role = r', ac_subjects = ss'\<rparr>
               | _ \<Rightarrow> None
             else None)
        | _ \<Rightarrow> None)
   | _ \<Rightarrow> None)"

type_synonym registry = "(string \<times> actor) list"

definition credential :: "registry \<Rightarrow> json \<Rightarrow> (string \<times> actor) res" where
  "credential entries row = (case row of
     JObj d \<Rightarrow>
       ebind (check (exact_keys [''token_sha256'', ''principal''] d) (PyExc ''ValueError'')) (\<lambda>_.
       ebind (case jget d ''token_sha256'' of JStr h \<Rightarrow> if valid_digest h then Inr h else Inl (PyExc ''ValueError'')
              | _ \<Rightarrow> Inl (PyExc ''ValueError'')) (\<lambda>h.
       ebind (case actor_of (jget d ''principal'') of None \<Rightarrow> Inl (PyExc ''ValidationError'') | Some p \<Rightarrow> Inr p) (\<lambda>p.
       ebind (check (h \<notin> fst ` set entries \<and> ac_id p \<notin> (ac_id \<circ> snd) ` set entries) (PyExc ''ValueError'')) (\<lambda>_.
       ebind (check (ac_subjects p \<noteq> []) (PyExc ''ValueError'')) (\<lambda>_.
       Inr (h, p))))))
   | _ \<Rightarrow> Inl (PyExc ''ValueError''))"

fun credentials :: "registry \<Rightarrow> json list \<Rightarrow> registry res" where
  "credentials entries [] = Inr entries"
| "credentials entries (row # rows) = ebind (credential entries row) (\<lambda>e. credentials (entries @ [e]) rows)"

definition token_registry :: "json \<Rightarrow> registry res" where
  "token_registry records = (case records of
     JList rows \<Rightarrow>
       ebind (check (1 \<le> length rows \<and> length rows \<le> 128) (PyExc ''ValueError'')) (\<lambda>_. credentials [] rows)
   | _ \<Rightarrow> Inl (PyExc ''ValueError''))"

text \<open>The document of \<^verbatim>\<open>from_file\<close>, as \<^verbatim>\<open>read_json_file\<close> has read it.\<close>

definition registry_document :: "json \<Rightarrow> registry res" where
  "registry_document data = (case data of
     JObj d \<Rightarrow> ebind (check (exact_keys [''credentials''] d) (PyExc ''ValueError'')) (\<lambda>_. token_registry (jget d ''credentials''))
   | _ \<Rightarrow> Inl (PyExc ''ValueError''))"

text \<open>The loop goes on after a match; the last one counts.\<close>

definition matched :: "string \<Rightarrow> registry \<Rightarrow> actor option" where
  "matched candidate entries = foldl (\<lambda>m (expected, p). if candidate = expected then Some p else m) None entries"

definition authenticate :: "env \<Rightarrow> registry \<Rightarrow> string option \<Rightarrow> actor res" where
  "authenticate E entries authorization = (case authorization of
     None \<Rightarrow> Inl (Casework ''AUTHENTICATION_REQUIRED'' 401)
   | Some s \<Rightarrow>
       ebind (check (take 7 s = ''Bearer '') (Casework ''AUTHENTICATION_REQUIRED'' 401)) (\<lambda>_.
       let token = drop 7 s in
       ebind (check (32 \<le> py_len token \<and> py_len token \<le> 512) (Casework ''INVALID_CREDENTIAL'' 401)) (\<lambda>_.
       case matched (sha256 E token) entries of
         None \<Rightarrow> Inl (Casework ''INVALID_CREDENTIAL'' 401)
       | Some p \<Rightarrow> Inr p)))"

subsection \<open>What a registry promises\<close>

definition registry_ok :: "registry \<Rightarrow> bool" where
  "registry_ok entries \<longleftrightarrow> distinct (map fst entries) \<and> distinct (map (ac_id \<circ> snd) entries) \<and>
     list_all (\<lambda>(h, p). valid_digest h \<and> ac_subjects p \<noteq> [] \<and> valid_identifier (ac_id p) \<and> valid_identifier (ac_tenant p)) entries"

lemma actor_of_ids: "actor_of v = Some p \<Longrightarrow> valid_identifier (ac_id p) \<and> valid_identifier (ac_tenant p)"
  by (auto simp: actor_of_def split: json.splits if_splits option.splits)

lemma credential_ok:
  assumes "registry_ok entries" "credential entries row = Inr e"
  shows "registry_ok (entries @ [e])"
proof -
  obtain h p where e: "e = (h, p)" by fastforce
  from assms(2) obtain d v where d: "valid_digest h" "actor_of v = Some p" "h \<notin> fst ` set entries" "ac_id p \<notin> (ac_id \<circ> snd) ` set entries"
      "ac_subjects p \<noteq> []"
    unfolding e by (auto simp: credential_def ebind_eq_Inr split: json.splits if_splits option.splits)
  from assms(1) d actor_of_ids [OF d(2)] show ?thesis by (auto simp: registry_ok_def e)
qed

lemma credentials_ok: "credentials entries rows = Inr R \<Longrightarrow> registry_ok entries \<Longrightarrow> registry_ok R \<and> length R = length entries + length rows"
  by (induction rows arbitrary: entries) (fastforce simp: ebind_eq_Inr dest: credential_ok)+

lemma token_registry_ok: "token_registry v = Inr R \<Longrightarrow> registry_ok R \<and> 1 \<le> length R \<and> length R \<le> 128"
  by (auto simp: token_registry_def ebind_eq_Inr registry_ok_def dest!: credentials_ok split: json.splits if_splits)

lemma matched_append: "matched c (xs @ [(h, p)]) = (if c = h then Some p else matched c xs)"
  by (simp add: matched_def)

lemma matched_Some: "distinct (map fst entries) \<Longrightarrow> matched c entries = Some p \<longleftrightarrow> (c, p) \<in> set entries"
proof (induction entries rule: rev_induct)
  case Nil
  show ?case by (simp add: matched_def)
next
  case (snoc e es)
  obtain h q where "e = (h, q)" by fastforce
  with snoc show ?case by (force simp: matched_append)
qed

text \<open>A caller is a principal exactly if it shows a token of the admitted length whose hash is recorded for that principal.\<close>

lemma authenticate_Inr:
  assumes "registry_ok entries"
  shows "authenticate E entries a = Inr p \<longleftrightarrow>
    (\<exists>token. a = Some (''Bearer '' @ token) \<and> 32 \<le> py_len token \<and> py_len token \<le> 512 \<and> (sha256 E token, p) \<in> set entries)"
    (is "?L \<longleftrightarrow> ?R")
proof
  assume ?L
  then obtain s where s: "a = Some s" "take 7 s = ''Bearer ''" "32 \<le> py_len (drop 7 s)" "py_len (drop 7 s) \<le> 512"
      "matched (sha256 E (drop 7 s)) entries = Some p"
    by (auto simp: authenticate_def ebind_eq_Inr Let_def split: option.splits if_splits)
  from s(2) have "s = ''Bearer '' @ drop 7 s" by (metis append_take_drop_id)
  with s assms show ?R by (auto simp: matched_Some registry_ok_def)
next
  assume ?R
  with assms show ?L by (auto simp: authenticate_def registry_ok_def matched_Some [symmetric])
qed

end
