(* ===== verification/Cw_Config.thy ===== *)
theory Cw_Config
  imports Cw_Access Cw_Ingress
begin

text \<open>
  The connector configuration (\<^verbatim>\<open>src/src/proofops_casework/source_models.py\<close>): from the JSON value of the operator's file to
  the records the desk, the partner and the ingress work with, with the checks of the models in between; and the checks
  of \<^verbatim>\<open>IncidentIngress.__init__\<close>. Two checks need the host: whether an RPC address is a public HTTPS one
  (\<^verbatim>\<open>urlsplit\<close>, \<^verbatim>\<open>ipaddress\<close>) and whether the home of the partner's client is absolute and safe (\<^verbatim>\<open>lstat\<close>); they
  are parameters. A number written as a float is not taken for an integer.
\<close>

record host =
  ho_rpc_ok :: "string \<Rightarrow> bool"
  ho_home_ok :: "string \<Rightarrow> bool"

section \<open>Fields\<close>

definition only_keys :: "string list \<Rightarrow> jobj \<Rightarrow> bool" where
  "only_keys ks d \<longleftrightarrow> set (keys d) \<subseteq> set ks"

definition text_field :: "jobj \<Rightarrow> string \<Rightarrow> (string \<Rightarrow> bool) \<Rightarrow> string option" where
  "text_field d k ok = (case map_of d k of Some (JStr s) \<Rightarrow> if ok s then Some s else None | _ \<Rightarrow> None)"

definition opt_text_field :: "jobj \<Rightarrow> string \<Rightarrow> string option option" where
  "opt_text_field d k = (case map_of d k of None \<Rightarrow> Some None | Some JNull \<Rightarrow> Some None | Some (JStr s) \<Rightarrow> Some (Some s) | _ \<Rightarrow> None)"

definition int_field :: "jobj \<Rightarrow> string \<Rightarrow> int \<Rightarrow> (int \<Rightarrow> bool) \<Rightarrow> int option" where
  "int_field d k dflt ok = (case map_of d k of None \<Rightarrow> Some dflt | Some (JInt n) \<Rightarrow> if ok n then Some n else None | _ \<Rightarrow> None)"

definition list_field :: "jobj \<Rightarrow> string \<Rightarrow> nat \<Rightarrow> json list option" where
  "list_field d k hi = (case map_of d k of None \<Rightarrow> Some [] | Some (JList xs) \<Rightarrow> if length xs \<le> hi then Some xs else None | _ \<Rightarrow> None)"

definition ids_field :: "jobj \<Rightarrow> string \<Rightarrow> nat \<Rightarrow> string list option" where
  "ids_field d k hi = Option.bind (list_field d k hi) (\<lambda>xs. if xs = [] then None else identifiers xs)"

fun texts :: "json list \<Rightarrow> string list option" where
  "texts [] = Some []"
| "texts (JStr s # xs) = map_option ((#) s) (texts xs)"
| "texts (_ # xs) = None"

fun all_of :: "('a \<Rightarrow> 'b option) \<Rightarrow> 'a list \<Rightarrow> 'b list option" where
  "all_of f [] = Some []"
| "all_of f (x # xs) = Option.bind (f x) (\<lambda>y. map_option ((#) y) (all_of f xs))"

definition env_name :: "string \<Rightarrow> bool" where
  "env_name s = (case s of [] \<Rightarrow> False
     | c # r \<Rightarrow> is_upper c \<and> list_all (\<lambda>d. is_upper d \<or> is_digit d \<or> d = CHR ''_'') r \<and> 2 \<le> length r \<and> length r \<le> 95)"

definition between :: "int \<Rightarrow> int \<Rightarrow> int \<Rightarrow> bool" where
  "between lo hi n \<longleftrightarrow> lo \<le> n \<and> n \<le> hi"

section \<open>The models\<close>

definition scope_of :: "json \<Rightarrow> scope option" where
  "scope_of v = (case v of
     JObj d \<Rightarrow>
       (if only_keys [''subject_id'', ''chain_id'', ''target'', ''method''] d then
          Option.bind (text_field d ''subject_id'' (\<lambda>_. True)) (\<lambda>subj.
          Option.bind (int_field d ''chain_id'' 84532 (\<lambda>_. True)) (\<lambda>chain.
          Option.bind (text_field d ''target'' (\<lambda>_. True)) (\<lambda>target.
          Option.bind (text_field d ''method'' (\<lambda>_. True)) (\<lambda>meth.
          case make_scope subj chain target meth of Inl _ \<Rightarrow> None | Inr s \<Rightarrow> Some s))))
        else None)
   | _ \<Rightarrow> None)"

definition safe_repository :: "string \<Rightarrow> bool" where
  "safe_repository r \<longleftrightarrow> repository_text r \<and> drop 1 (dropWhile (\<lambda>c. c \<noteq> CHR ''/'') r) \<notin> {''.'', ''..''}"

text \<open>\<^verbatim>\<open>SourceSpec.validate_config\<close>; the repositories of a tracker are sorted and in lower case afterwards.\<close>

definition valid_spec :: "host \<Rightarrow> source_spec \<Rightarrow> source_spec option" where
  "valid_spec H s =
     (if \<not> (case sp_token_env s of None \<Rightarrow> True | Some e \<Rightarrow> env_name e) then None
      else if sp_kind s = ''github_issue'' then
        (if sp_repositories s = [] \<or> sp_rpc_url s \<noteq> None \<or> \<not> list_all safe_repository (sp_repositories s) then None
         else Some (s\<lparr>sp_repositories := sorted_set (map py_lower (sp_repositories s))\<rparr>))
      else (case sp_rpc_url s of None \<Rightarrow> None | Some u \<Rightarrow> if u \<noteq> [] \<and> ho_rpc_ok H u then Some s else None))"

definition source_of :: "host \<Rightarrow> json \<Rightarrow> source_spec option" where
  "source_of H v = (case v of
     JObj d \<Rightarrow>
       (if only_keys [''source_id'', ''kind'', ''tenant_id'', ''subjects'', ''independence_group'', ''repositories'', ''token_env'', ''rpc_url'',
            ''chain_id'', ''ttl_seconds'', ''min_confirmations'', ''max_attempts_per_case''] d then
          Option.bind (text_field d ''source_id'' valid_identifier) (\<lambda>i.
          Option.bind (text_field d ''kind'' (\<lambda>k. k \<in> {''github_issue'', ''base_transaction''})) (\<lambda>kind.
          Option.bind (text_field d ''tenant_id'' valid_identifier) (\<lambda>tenant.
          Option.bind (ids_field d ''subjects'' 32) (\<lambda>subjects.
          Option.bind (text_field d ''independence_group'' valid_identifier) (\<lambda>group.
          Option.bind (Option.bind (list_field d ''repositories'' 32) texts) (\<lambda>repos.
          Option.bind (opt_text_field d ''token_env'') (\<lambda>token.
          Option.bind (opt_text_field d ''rpc_url'') (\<lambda>url.
          Option.bind (int_field d ''chain_id'' 84532 (\<lambda>n. n \<in> {8453, 84532})) (\<lambda>chain.
          Option.bind (int_field d ''ttl_seconds'' 300 (between 15 86400)) (\<lambda>ttl.
          Option.bind (int_field d ''min_confirmations'' 3 (between 1 100)) (\<lambda>confirmations.
          Option.bind (int_field d ''max_attempts_per_case'' 20 (between 1 100)) (\<lambda>attempts.
          valid_spec H \<lparr>sp_id = i, sp_kind = kind, sp_tenant = tenant, sp_subjects = subjects, sp_group = group, sp_repositories = repos,
            sp_token_env = token, sp_rpc_url = url, sp_chain = chain, sp_ttl = ttl, sp_confirmations = confirmations, sp_attempts = attempts\<rparr>))))))))))))
        else None)
   | _ \<Rightarrow> None)"

definition policy_of :: "json \<Rightarrow> evidence_policy option" where
  "policy_of v = (case v of
     JObj d \<Rightarrow>
       (if only_keys [''tenant_id'', ''scope'', ''required_sources'', ''min_independence_groups'', ''require_for_resolution''] d \<and>
           map_of d ''require_for_resolution'' \<in> {None, Some (JBool True)} then
          Option.bind (text_field d ''tenant_id'' valid_identifier) (\<lambda>tenant.
          Option.bind (scope_of (jget d ''scope'')) (\<lambda>sc.
          Option.bind (ids_field d ''required_sources'' 8) (\<lambda>required.
          Option.bind (int_field d ''min_independence_groups'' 1 (between 1 8)) (\<lambda>groups.
          Some \<lparr>ep_tenant = tenant, ep_scope = sc, ep_required = required, ep_groups = groups\<rparr>))))
        else None)
   | _ \<Rightarrow> None)"

definition incident_of :: "json \<Rightarrow> incident_spec option" where
  "incident_of v = (case v of
     JObj d \<Rightarrow>
       (if only_keys [''source_id'', ''actor_id'', ''secret_env'', ''scope'', ''max_clock_skew_seconds''] d then
          Option.bind (text_field d ''source_id'' valid_identifier) (\<lambda>i.
          Option.bind (text_field d ''actor_id'' valid_identifier) (\<lambda>a.
          Option.bind (text_field d ''secret_env'' env_name) (\<lambda>secret.
          Option.bind (scope_of (jget d ''scope'')) (\<lambda>sc.
          Option.bind (int_field d ''max_clock_skew_seconds'' 120 (between 15 600)) (\<lambda>skew.
          Some \<lparr>ic_id = i, ic_actor = a, ic_secret = secret, ic_scope = sc, ic_skew = skew\<rparr>)))))
        else None)
   | _ \<Rightarrow> None)"

definition offering_name :: "string \<Rightarrow> bool" where
  "offering_name s = (case s of [] \<Rightarrow> False
     | c # r \<Rightarrow> is_alnum c \<and> list_all (\<lambda>d. is_alnum d \<or> d \<in> {CHR '' '', CHR ''_'', CHR ''.'', CHR ''-''}) r \<and> 1 \<le> length r \<and> length r \<le> 95)"

definition virtuals_of :: "host \<Rightarrow> json \<Rightarrow> virtuals_spec option" where
  "virtuals_of H v = (case v of
     JObj d \<Rightarrow>
       (if only_keys [''tenant_id'', ''subjects'', ''chain_id'', ''client_address'', ''provider_address'', ''offering_name'', ''max_budget_micros'',
            ''cli_executable'', ''cli_sha256'', ''cli_home'', ''ttl_seconds''] d then
          Option.bind (text_field d ''tenant_id'' valid_identifier) (\<lambda>tenant.
          Option.bind (ids_field d ''subjects'' 32) (\<lambda>subjects.
          Option.bind (int_field d ''chain_id'' 84532 (\<lambda>n. n \<in> {8453, 84532})) (\<lambda>chain.
          Option.bind (text_field d ''client_address'' valid_address) (\<lambda>client.
          Option.bind (text_field d ''provider_address'' valid_address) (\<lambda>provider.
          Option.bind (text_field d ''offering_name'' offering_name) (\<lambda>offering.
          Option.bind (int_field d ''max_budget_micros'' 100000 (between 1 10000000)) (\<lambda>budget.
          Option.bind (text_field d ''cli_executable'' (starts (CHR ''/''))) (\<lambda>exe.
          Option.bind (text_field d ''cli_sha256'' valid_digest) (\<lambda>sha.
          Option.bind (text_field d ''cli_home'' (ho_home_ok H)) (\<lambda>home.
          Option.bind (int_field d ''ttl_seconds'' 3600 (between 60 86400)) (\<lambda>ttl.
          if py_lower client = py_lower provider then None
          else Some \<lparr>vs_tenant = tenant, vs_subjects = subjects, vs_chain = chain, vs_client = client, vs_provider = provider,
            vs_offering = offering, vs_budget = budget, vs_executable = exe, vs_sha256 = sha, vs_home = home, vs_ttl = ttl\<rparr>)))))))))))
        else None)
   | _ \<Rightarrow> None)"

record connector_config =
  cc_desk :: desk
  cc_incidents :: "incident_spec list"
  cc_virtuals :: "virtuals_spec option"

text \<open>The cross references are checked last; \<open>valid_config\<close> holds those of the policies.\<close>

definition config_of :: "host \<Rightarrow> json \<Rightarrow> connector_config option" where
  "config_of H v = (case v of
     JObj d \<Rightarrow>
       (if only_keys [''schema_version'', ''sources'', ''policies'', ''incidents'', ''virtuals''] d \<and>
           map_of d ''schema_version'' \<in> {None, Some (JStr ''casework-connectors/1'')} then
          Option.bind (Option.bind (list_field d ''sources'' 32) (all_of (source_of H))) (\<lambda>specs.
          Option.bind (Option.bind (list_field d ''policies'' 32) (all_of policy_of)) (\<lambda>policies.
          Option.bind (Option.bind (list_field d ''incidents'' 16) (all_of incident_of)) (\<lambda>incidents.
          Option.bind (case map_of d ''virtuals'' of None \<Rightarrow> Some None | Some JNull \<Rightarrow> Some None | Some x \<Rightarrow> map_option Some (virtuals_of H x)) (\<lambda>virtuals.
          if valid_config \<lparr>dk_specs = specs, dk_policies = policies\<rparr> \<and> distinct (map ic_id incidents)
          then Some \<lparr>cc_desk = \<lparr>dk_specs = specs, dk_policies = policies\<rparr>, cc_incidents = incidents, cc_virtuals = virtuals\<rparr>
          else None))))
        else None)
   | _ \<Rightarrow> None)"

section \<open>The ingress\<close>

text \<open>\<^verbatim>\<open>IncidentIngress.__init__\<close>: the secrets seen so far are carried along.\<close>

fun ingress_ready :: "(string \<Rightarrow> string option) \<Rightarrow> actor dict \<Rightarrow> string list \<Rightarrow> incident_spec list \<Rightarrow> unit res" where
  "ingress_ready environ actors seen [] = Inr ()"
| "ingress_ready environ actors seen (s # ss) =
     ebind (case map_of actors (ic_actor s) of None \<Rightarrow> Inl (PyExc ''ValueError'') | Some a \<Rightarrow> Inr a) (\<lambda>a.
     ebind (authorize a {Owner, Investigator} (Some (sc_subject (ic_scope s)))) (\<lambda>_.
     ebind (check (32 \<le> py_len (incident_secret environ s)) (PyExc ''ValueError'')) (\<lambda>_.
     ebind (check (incident_secret environ s \<notin> set seen) (PyExc ''ValueError'')) (\<lambda>_.
     ingress_ready environ actors (seen @ [incident_secret environ s]) ss))))"

section \<open>What a configuration promises\<close>

definition spec_ok :: "host \<Rightarrow> source_spec \<Rightarrow> bool" where
  "spec_ok H s \<longleftrightarrow> valid_identifier (sp_id s) \<and> valid_identifier (sp_tenant s) \<and> sp_subjects s \<noteq> [] \<and> sp_chain s \<in> {8453, 84532} \<and>
     between 15 86400 (sp_ttl s) \<and> between 1 100 (sp_confirmations s) \<and> between 1 100 (sp_attempts s) \<and>
     (if sp_kind s = ''github_issue'' then sp_repositories s \<noteq> [] \<and> sp_rpc_url s = None
      else sp_kind s = ''base_transaction'' \<and> (\<exists>u. sp_rpc_url s = Some u \<and> ho_rpc_ok H u))"

lemma text_fieldD: "text_field d k ok = Some s \<Longrightarrow> ok s"
  by (auto simp: text_field_def split: option.splits json.splits if_splits)

lemma int_fieldD: "int_field d k z ok = Some n \<Longrightarrow> ok z \<Longrightarrow> ok n"
  by (auto simp: int_field_def split: option.splits json.splits if_splits)

lemma identifiers_length: "identifiers xs = Some ss \<Longrightarrow> length ss = length xs"
  by (induction xs arbitrary: ss rule: identifiers.induct) (auto split: if_splits)

lemma ids_fieldD: "ids_field d k hi = Some ss \<Longrightarrow> ss \<noteq> []"
  by (auto simp: ids_field_def bind_eq_Some_conv split: if_splits dest: identifiers_length)

lemma sorted_set_empty: "sorted_set xs = [] \<longleftrightarrow> xs = []"
  unfolding sorted_set_def by (metis set_empty set_remdups set_sort)

lemma valid_spec_Some:
  "valid_spec H s = Some s' \<Longrightarrow> (\<exists>rs. s' = s\<lparr>sp_repositories := rs\<rparr> \<and> (sp_kind s = ''github_issue'' \<longrightarrow> rs \<noteq> [] \<and> sp_rpc_url s = None) \<and>
     (sp_kind s \<noteq> ''github_issue'' \<longrightarrow> (\<exists>u. sp_rpc_url s = Some u \<and> ho_rpc_ok H u)))"
proof (cases "sp_kind s = ''github_issue''")
  case False
  moreover assume "valid_spec H s = Some s'"
  ultimately show ?thesis by (intro exI [of _ "sp_repositories s"]) (auto simp: valid_spec_def split: if_splits option.splits)
next
  case True
  moreover assume "valid_spec H s = Some s'"
  ultimately show ?thesis
    by (intro exI [of _ "sorted_set (map py_lower (sp_repositories s))"]) (auto simp: valid_spec_def sorted_set_empty split: if_splits option.splits)
qed

lemma source_of_ok:
  assumes "source_of H v = Some s"
  shows "spec_ok H s"
proof -
  from assms obtain d where d: "v = JObj d" by (cases v) (simp_all add: source_of_def)
  from assms obtain t where "valid_spec H t = Some s" "text_field d ''source_id'' valid_identifier = Some (sp_id t)"
      "text_field d ''kind'' (\<lambda>k. k \<in> {''github_issue'', ''base_transaction''}) = Some (sp_kind t)"
      "text_field d ''tenant_id'' valid_identifier = Some (sp_tenant t)" "ids_field d ''subjects'' 32 = Some (sp_subjects t)"
      "int_field d ''chain_id'' 84532 (\<lambda>n. n \<in> {8453, 84532}) = Some (sp_chain t)"
      "int_field d ''ttl_seconds'' 300 (between 15 86400) = Some (sp_ttl t)"
      "int_field d ''min_confirmations'' 3 (between 1 100) = Some (sp_confirmations t)"
      "int_field d ''max_attempts_per_case'' 20 (between 1 100) = Some (sp_attempts t)"
    unfolding source_of_def d json.case by (clarsimp simp only: bind_eq_Some_conv split: if_splits) (erule that; simp)
  from this(1) valid_spec_Some [OF this(1)] this(2-5) int_fieldD [OF this(6)] int_fieldD [OF this(7)] int_fieldD [OF this(8)]
    int_fieldD [OF this(9)] show ?thesis
    by (auto simp: spec_ok_def between_def dest!: text_fieldD ids_fieldD)
qed

lemma all_of_Some: "all_of f xs = Some ys \<Longrightarrow> list_all2 (\<lambda>x y. f x = Some y) xs ys"
  by (induction xs arbitrary: ys) (auto simp: bind_eq_Some_conv)

lemma config_of_ok:
  assumes "config_of H v = Some c"
  shows "valid_config (cc_desk c) \<and> list_all (spec_ok H) (dk_specs (cc_desk c)) \<and> distinct (map ic_id (cc_incidents c))"
proof -
  from assms obtain xs specs where x: "all_of (source_of H) xs = Some specs" "dk_specs (cc_desk c) = specs"
      "valid_config (cc_desk c)" "distinct (map ic_id (cc_incidents c))"
    by (auto simp: config_of_def bind_eq_Some_conv split: json.splits if_splits)
  have "list_all (spec_ok H) specs"
    using all_of_Some [OF x(1)] source_of_ok by (induction rule: list_all2_induct) auto
  with x show ?thesis by simp
qed

lemma ingress_ready_ok:
  "ingress_ready environ actors seen ss = Inr () \<Longrightarrow> distinct seen \<Longrightarrow>
     distinct (seen @ map (incident_secret environ) ss) \<and> list_all (\<lambda>s. 32 \<le> py_len (incident_secret environ s) \<and>
       (\<exists>a. map_of actors (ic_actor s) = Some a \<and> ac_role a \<in> {Owner, Investigator} \<and> sc_subject (ic_scope s) \<in> set (ac_subjects a))) ss"
proof (induction ss arbitrary: seen)
  case (Cons s ss)
  from Cons.prems(1) obtain a where a: "map_of actors (ic_actor s) = Some a" "ac_role a \<in> {Owner, Investigator}"
      "sc_subject (ic_scope s) \<in> set (ac_subjects a)" "32 \<le> py_len (incident_secret environ s)" "incident_secret environ s \<notin> set seen"
      "ingress_ready environ actors (seen @ [incident_secret environ s]) ss = Inr ()"
    by (auto simp: ebind_eq_Inr authorize_def split: option.splits if_splits)
  from Cons.IH [OF a(6)] Cons.prems(2) a(1-5) show ?case by auto
qed simp

end
