(* ===== verification/Cw_Mcp.thy ===== *)
theory Cw_Mcp
  imports Cw_Sources "HOL-Library.Sublist"
begin

text \<open>
  The read-only MCP server over the API (\<^verbatim>\<open>src/src/proofops_casework/mcp_readonly.py\<close>): its seven tools, the
  dispatch of one message with the state of the handshake, and the loop over the lines of its input. The check
  of the origin in the constructor (\<^verbatim>\<open>urlsplit\<close>) is left out: a server starts from an origin that passed it.
\<close>

section \<open>Tools\<close>

text \<open>The address of a tool is its template, cut at the identifier.\<close>

record mcp_tool =
  mt_name :: string
  mt_prefix :: string
  mt_suffix :: string
  mt_arg :: "string option"
  mt_text :: string

definition mcp_tools :: "mcp_tool list" where
  "mcp_tools =
    [\<lparr>mt_name = ''memoryguard_report_sources'', mt_prefix = ''/api/v2/reports/'', mt_suffix = ''/sources'', mt_arg = Some ''report_id'',
       mt_text = ''Read the exact historical source bundle used by a report; hashes are not truth''\<rparr>,
     \<lparr>mt_name = ''memoryguard_overview'', mt_prefix = ''/api/v2/casework'', mt_suffix = [], mt_arg = None,
       mt_text = ''Read scoped current workbench state; never action authority''\<rparr>,
     \<lparr>mt_name = ''memoryguard_recovery'', mt_prefix = ''/api/v2/tasks/'', mt_suffix = ''/recovery'', mt_arg = Some ''task_id'',
       mt_text = ''Read dependency-first recovery plan, without performing it''\<rparr>,
     \<lparr>mt_name = ''memoryguard_impact'', mt_prefix = ''/api/v2/tasks/'', mt_suffix = ''/impact'', mt_arg = Some ''task_id'',
       mt_text = ''Read current causal dependency graph''\<rparr>,
     \<lparr>mt_name = ''memoryguard_case_history'', mt_prefix = ''/api/v2/cases/'', mt_suffix = ''/timeline'', mt_arg = Some ''case_id'',
       mt_text = ''Read append-only versions of a scoped risk case''\<rparr>,
     \<lparr>mt_name = ''memoryguard_sources'', mt_prefix = ''/api/v2/cases/'', mt_suffix = ''/dossier'', mt_arg = Some ''case_id'',
       mt_text = ''Read source receipts and freshness; not external fact truth''\<rparr>,
     \<lparr>mt_name = ''memoryguard_partner_review'', mt_prefix = ''/api/v2/partner-reviews/'', mt_suffix = [], mt_arg = Some ''plan_id'',
       mt_text = ''Read a request-bound ACP observation; no creation or payment''\<rparr>]"

definition tool_named :: "string \<Rightarrow> mcp_tool option" where
  "tool_named s = map_of (map (\<lambda>t. (mt_name t, t)) mcp_tools) s"

definition tool_definition :: "mcp_tool \<Rightarrow> json" where
  "tool_definition t =
     (let props = (case mt_arg t of None \<Rightarrow> [] | Some k \<Rightarrow>
            [(k, JObj [(''type'', JStr ''string''), (''pattern'', JStr ''^[A-Za-z0-9][A-Za-z0-9_.:-]{2,95}$'')])]) in
      JObj [(''name'', JStr (mt_name t)), (''description'', JStr (mt_text t)),
        (''inputSchema'', JObj [(''type'', JStr ''object''), (''properties'', JObj props), (''required'', jstrs (keys props)),
           (''additionalProperties'', JBool False)]),
        (''annotations'', JObj [(''readOnlyHint'', JBool True), (''destructiveHint'', JBool False), (''idempotentHint'', JBool True),
           (''openWorldHint'', JBool False)])])"

section \<open>One message\<close>

text \<open>\<open>mc_calls\<close> records the requests to the API, in their order.\<close>

record mcp =
  mc_base :: string
  mc_token :: string
  mc_initialized :: bool
  mc_ready :: bool
  mc_calls :: "(string \<times> string) list"

definition mcp_server :: "string \<Rightarrow> string \<Rightarrow> mcp" where
  "mcp_server base token = \<lparr>mc_base = base, mc_token = token, mc_initialized = False, mc_ready = False, mc_calls = []\<rparr>"

definition mcp_result :: "json \<Rightarrow> json \<Rightarrow> json" where
  "mcp_result ident v = JObj [(''jsonrpc'', JStr ''2.0''), (''id'', ident), (''result'', v)]"

definition mcp_error :: "json \<Rightarrow> int \<Rightarrow> string \<Rightarrow> json" where
  "mcp_error ident code text = JObj [(''jsonrpc'', JStr ''2.0''), (''id'', ident),
     (''error'', JObj [(''code'', JInt code), (''message'', JStr text)])]"

definition initialize_result :: json where
  "initialize_result = JObj [(''protocolVersion'', JStr ''2025-06-18''),
     (''capabilities'', JObj [(''tools'', JObj [(''listChanged'', JBool False)])]),
     (''serverInfo'', JObj [(''name'', JStr ''memoryguard-readonly''), (''version'', JStr ''2.2.0'')]),
     (''instructions'', JStr ''All data is scoped audit information. No returned READY or review constitutes permission to move money.'')]"

definition tool_text :: "string \<Rightarrow> bool \<Rightarrow> json" where
  "tool_text s failed = JObj [(''content'', JList [JObj [(''type'', JStr ''text''), (''text'', JStr s)]]), (''isError'', JBool failed)]"

text \<open>The address of a call, unless its arguments are refused.\<close>

definition call_path :: "jobj \<Rightarrow> string + string" where
  "call_path params = (case (jget params ''name'', jget_or params ''arguments'' (JObj [])) of
     (JStr s, JObj args) \<Rightarrow>
       (case tool_named s of
          None \<Rightarrow> Inl ''Invalid tool''
        | Some t \<Rightarrow>
            (case mt_arg t of
               None \<Rightarrow> if args = [] then Inr (mt_prefix t @ mt_suffix t) else Inl ''Unexpected tool arguments''
             | Some k \<Rightarrow>
                 (if set (keys args) \<noteq> {k} then Inl ''Unexpected tool arguments''
                  else case jget args k of
                      JStr i \<Rightarrow> if valid_identifier i then Inr (mt_prefix t @ i @ mt_suffix t) else Inl ''Invalid scoped identifier''
                    | _ \<Rightarrow> Inl ''Invalid scoped identifier'')))
   | _ \<Rightarrow> Inl ''Invalid tool'')"

text \<open>\<open>N\<close> is the API at the other end; the client is the bounded one with 1000000 bytes and twelve seconds.\<close>

definition call_tool :: "env \<Rightarrow> net \<Rightarrow> json \<Rightarrow> jobj \<Rightarrow> mcp \<Rightarrow> json \<times> mcp" where
  "call_tool E N ident params st = (case call_path params of
     Inl e \<Rightarrow> (mcp_error ident (-32602) e, st)
   | Inr path \<Rightarrow>
       (let url = mc_base st @ path;
            answer = bounded_json E 12 1000000
              (N (length (mc_calls st)) ''GET'' url [(''Authorization'', JStr (''Bearer '' @ mc_token st))] JNull)
        in (mcp_result ident (case answer of
              Inr (d, _) \<Rightarrow> tool_text (wide (float_repr E) (JObj d)) False
            | Inl _ \<Rightarrow> tool_text ''Scoped MemoryGuard data unavailable. Do not assume permission.'' True),
            st\<lparr>mc_calls := mc_calls st @ [(''GET'', url)]\<rparr>)))"

definition answer_request :: "env \<Rightarrow> net \<Rightarrow> string \<Rightarrow> json \<Rightarrow> jobj \<Rightarrow> mcp \<Rightarrow> json \<times> mcp" where
  "answer_request E N verb ident params st =
     (if verb = ''initialize'' then
        (if mc_initialized st then (mcp_error ident (-32600) ''Already initialized'', st)
         else case jget params ''protocolVersion'' of
             JStr _ \<Rightarrow> (mcp_result ident initialize_result, st\<lparr>mc_initialized := True\<rparr>)
           | _ \<Rightarrow> (mcp_error ident (-32602) ''Missing protocolVersion'', st))
      else if verb = ''ping'' then (mcp_result ident (JObj []), st)
      else if \<not> mc_ready st then (mcp_error ident (-32002) ''Initialization not completed'', st)
      else if verb = ''tools/list'' then (mcp_result ident (JObj [(''tools'', JList (map tool_definition mcp_tools))]), st)
      else if verb \<noteq> ''tools/call'' then (mcp_error ident (-32601) ''Method not supported'', st)
      else call_tool E N ident params st)"

text \<open>A message without an identifier is a notification and is not answered.\<close>

definition dispatch :: "env \<Rightarrow> net \<Rightarrow> json \<Rightarrow> mcp \<Rightarrow> json option \<times> mcp" where
  "dispatch E N msg st = (case msg of
     JObj d \<Rightarrow>
       (if jget d ''jsonrpc'' \<noteq> JStr ''2.0'' then (Some (mcp_error JNull (-32600) ''Invalid request''), st)
        else case jget d ''method'' of
            JStr verb \<Rightarrow>
              (if ''id'' \<notin> set (keys d) then
                 (None, if verb = ''notifications/initialized'' \<and> mc_initialized st then st\<lparr>mc_ready := True\<rparr> else st)
               else
                 (let ident = jget d ''id'' in
                  case ident of
                    JInt _ \<Rightarrow> (case jget_or d ''params'' (JObj []) of
                        JObj params \<Rightarrow> map_prod Some id (answer_request E N verb ident params st)
                      | _ \<Rightarrow> (Some (mcp_error ident (-32602) ''Invalid parameters''), st))
                  | JStr _ \<Rightarrow> (case jget_or d ''params'' (JObj []) of
                        JObj params \<Rightarrow> map_prod Some id (answer_request E N verb ident params st)
                      | _ \<Rightarrow> (Some (mcp_error ident (-32602) ''Invalid parameters''), st))
                  | _ \<Rightarrow> (Some (mcp_error ident (-32600) ''Invalid request identifier''), st)))
          | _ \<Rightarrow> (Some (mcp_error JNull (-32600) ''Invalid method''), st))
   | _ \<Rightarrow> (Some (mcp_error JNull (-32600) ''Invalid request''), st))"

section \<open>The loop\<close>

text \<open>
  The lines are what \<^verbatim>\<open>readline(65537)\<close> returns; the end of the input is the end of the list. The answers
  written, the code returned and the state at the end.
\<close>

definition respond :: "env \<Rightarrow> net \<Rightarrow> string \<Rightarrow> mcp \<Rightarrow> json option \<times> mcp" where
  "respond E N line st = (case strict_json (float_text E) 65536 line of
     Inl _ \<Rightarrow> (Some (mcp_error JNull (-32700) ''Parse error''), st)
   | Inr msg \<Rightarrow> dispatch E N msg st)"

fun serve_lines :: "env \<Rightarrow> net \<Rightarrow> string list \<Rightarrow> mcp \<Rightarrow> string list \<times> int \<times> mcp" where
  "serve_lines E N [] st = ([], 0, st)"
| "serve_lines E N (line # rest) st =
     (if length line > 65536 then ([], 2, st)
      else let (answer, st1) = respond E N line st; (out, code, st2) = serve_lines E N rest st1 in
        ((case answer of None \<Rightarrow> out | Some a \<Rightarrow> (wide (float_repr E) a @ [CHR 0x0A]) # out), code, st2))"

section \<open>What the server can do\<close>

text \<open>An address the tools can name.\<close>

definition readable_path :: "string \<Rightarrow> bool" where
  "readable_path p \<longleftrightarrow> (\<exists>t \<in> set mcp_tools. case mt_arg t of None \<Rightarrow> p = mt_prefix t @ mt_suffix t
     | Some k \<Rightarrow> \<exists>i. valid_identifier i \<and> p = mt_prefix t @ i @ mt_suffix t)"

lemma tool_named_in: "tool_named s = Some t \<Longrightarrow> t \<in> set mcp_tools"
  by (auto simp: tool_named_def dest!: map_of_SomeD)

lemma call_path_readable: "call_path params = Inr p \<Longrightarrow> readable_path p"
  unfolding call_path_def readable_path_def
  by (auto split: json.splits option.splits if_splits dest!: tool_named_in intro!: bexI)

text \<open>A step of the server: what a message can do to its state.\<close>

definition asks :: "string \<Rightarrow> json \<Rightarrow> bool" where
  "asks verb msg \<longleftrightarrow> (\<exists>d. msg = JObj d \<and> jget d ''method'' = JStr verb)"

definition mcp_step :: "json \<Rightarrow> mcp \<Rightarrow> mcp \<Rightarrow> bool" where
  "mcp_step msg st st1 \<longleftrightarrow>
     st1 = st \<or>
     asks ''initialize'' msg \<and> st1 = st\<lparr>mc_initialized := True\<rparr> \<or>
     asks ''notifications/initialized'' msg \<and> mc_initialized st \<and> st1 = st\<lparr>mc_ready := True\<rparr> \<or>
     asks ''tools/call'' msg \<and> mc_ready st \<and> (\<exists>p. readable_path p \<and> st1 = st\<lparr>mc_calls := mc_calls st @ [(''GET'', mc_base st @ p)]\<rparr>)"

lemma call_tool_step: "call_tool E N ident params st = (a, st1) \<Longrightarrow>
   st1 = st \<or> (\<exists>p. readable_path p \<and> st1 = st\<lparr>mc_calls := mc_calls st @ [(''GET'', mc_base st @ p)]\<rparr>)"
  by (auto simp: call_tool_def Let_def dest: call_path_readable split: sum.splits)

lemma answer_request_step:
  assumes "answer_request E N verb ident params st = (a, st1)" "asks verb msg"
  shows "mcp_step msg st st1"
  using assms call_tool_step [of E N ident params st a st1]
  by (auto simp: answer_request_def mcp_step_def split: if_splits json.splits)

lemma answered: "map_prod Some id q = (a, s) \<longleftrightarrow> (\<exists>x. a = Some x \<and> q = (x, s))"
  by (cases q) auto

lemma dispatch_step:
  assumes "dispatch E N msg st = (a, st1)"
  shows "mcp_step msg st st1"
proof (cases msg)
  case (JObj d)
  show ?thesis
  proof (cases "jget d ''method''")
    case (JStr verb)
    have v: "asks verb msg" using JObj JStr by (simp add: asks_def)
    have q: "answer_request E N verb ident params st = (x, y) \<Longrightarrow> mcp_step msg st y" for ident params x y
      using answer_request_step [OF _ v] .
    have "st1 = st \<or> verb = ''notifications/initialized'' \<and> mc_initialized st \<and> st1 = st\<lparr>mc_ready := True\<rparr> \<or>
        (\<exists>ident params x. answer_request E N verb ident params st = (x, st1))"
      using assms by (auto simp: JObj JStr dispatch_def Let_def answered split: if_splits json.splits)
    moreover have "mcp_step msg st st" "mc_initialized st \<Longrightarrow> verb = ''notifications/initialized'' \<Longrightarrow> mcp_step msg st (st\<lparr>mc_ready := True\<rparr>)"
      using v by (simp_all add: mcp_step_def)
    ultimately show ?thesis using q by metis
  qed (use assms in \<open>simp_all add: JObj dispatch_def mcp_step_def split: if_splits\<close>)
qed (use assms in \<open>simp_all add: dispatch_def mcp_step_def\<close>)

lemma respond_step:
  assumes "respond E N line st = (a, st1)"
  shows "st1 = st \<or> (\<exists>msg. strict_json (float_text E) 65536 line = Inr msg \<and> mcp_step msg st st1)"
  using assms by (auto simp: respond_def split: sum.splits dest: dispatch_step)

definition line_asks :: "env \<Rightarrow> string \<Rightarrow> string \<Rightarrow> bool" where
  "line_asks E verb line \<longleftrightarrow> (\<exists>msg. strict_json (float_text E) 65536 line = Inr msg \<and> asks verb msg)"

text \<open>What still has to be asked, in this order, before the API is read.\<close>

definition still :: "mcp \<Rightarrow> string list" where
  "still st = (if mc_ready st then [''tools/call''] else if mc_initialized st then [''notifications/initialized'', ''tools/call'']
     else [''initialize'', ''notifications/initialized'', ''tools/call''])"

lemma serve_lines_Cons:
  assumes "serve_lines E N (line # rest) st = (out, code, st2)"
  shows "st2 = st \<and> out = [] \<or> (\<exists>a st1 out1. respond E N line st = (a, st1) \<and> serve_lines E N rest st1 = (out1, code, st2) \<and>
    length out \<le> Suc (length out1))"
  using assms by (auto split: if_splits prod.splits option.splits)

lemma serve_lines_reads:
  assumes "serve_lines E N lines st = (out, code, st2)"
  shows "mc_base st2 = mc_base st \<and> mc_token st2 = mc_token st \<and> length out \<le> length lines \<and>
    (\<exists>ps. mc_calls st2 = mc_calls st @ map (\<lambda>p. (''GET'', mc_base st @ p)) ps \<and> list_all readable_path ps \<and> length ps \<le> length lines \<and>
       (ps \<noteq> [] \<longrightarrow> (\<exists>ls. subseq ls lines \<and> list_all2 (line_asks E) (still st) ls)))"
  using assms
proof (induction lines arbitrary: st out)
  case Nil
  then show ?case by simp
next
  case (Cons line rest)
  show ?case
  proof (cases "st2 = st \<and> out = []")
    case True
    then show ?thesis by (auto intro!: exI [of _ "[]"])
  next
    case False
    with serve_lines_Cons [OF Cons.prems] obtain a st1 out1 where r: "respond E N line st = (a, st1)"
        "serve_lines E N rest st1 = (out1, code, st2)" "length out \<le> Suc (length out1)" by auto
    from Cons.IH [OF r(2)] obtain ps where ps: "mc_base st2 = mc_base st1" "mc_token st2 = mc_token st1" "length out1 \<le> length rest"
        "mc_calls st2 = mc_calls st1 @ map (\<lambda>p. (''GET'', mc_base st1 @ p)) ps" "list_all readable_path ps" "length ps \<le> length rest"
        "ps \<noteq> [] \<Longrightarrow> \<exists>ls. subseq ls rest \<and> list_all2 (line_asks E) (still st1) ls" by auto
    have asked: "\<exists>ls. subseq ls (line # rest) \<and> list_all2 (line_asks E) (still st) ls"
      if "ps \<noteq> []" "still st = still st1 \<or> (\<exists>verb. still st = verb # still st1 \<and> line_asks E verb line)"
      using ps(7) [OF that(1)] that(2) by (metis list_all2_Cons1 list_emb_Cons subseq_Cons2)
    from respond_step [OF r(1)] consider "st1 = st"
      | msg where "strict_json (float_text E) 65536 line = Inr msg" "mcp_step msg st st1" by blast
    then show ?thesis
    proof cases
      case 1
      with ps r(3) asked show ?thesis by (intro conjI exI [of _ ps]) auto
    next
      case 2
      from 2(2) consider (same) "st1 = st"
        | (init) "asks ''initialize'' msg" "st1 = st\<lparr>mc_initialized := True\<rparr>"
        | (ready) "asks ''notifications/initialized'' msg" "mc_initialized st" "st1 = st\<lparr>mc_ready := True\<rparr>"
        | (calls) p where "asks ''tools/call'' msg" "mc_ready st" "readable_path p" "st1 = st\<lparr>mc_calls := mc_calls st @ [(''GET'', mc_base st @ p)]\<rparr>"
        unfolding mcp_step_def by blast
      then show ?thesis
      proof cases
        case same
        with ps r(3) asked show ?thesis by (intro conjI exI [of _ ps]) auto
      next
        case init
        with 2(1) have "still st = still st1 \<or> (\<exists>verb. still st = verb # still st1 \<and> line_asks E verb line)"
          by (auto simp: still_def line_asks_def)
        with init ps r(3) asked show ?thesis by (intro conjI exI [of _ ps]) auto
      next
        case ready
        with 2(1) have "still st = still st1 \<or> (\<exists>verb. still st = verb # still st1 \<and> line_asks E verb line)"
          by (auto simp: still_def line_asks_def)
        with ready ps r(3) asked show ?thesis by (intro conjI exI [of _ ps]) auto
      next
        case calls
        have "subseq [line] (line # rest) \<and> list_all2 (line_asks E) (still st) [line]"
          using calls 2(1) by (auto simp: still_def line_asks_def)
        with calls ps r(3) show ?thesis by (intro conjI exI [of _ "p # ps"]) auto
      qed
    qed
  qed
qed

end
