(* ===== verification/Cw_Access_Claims.thy ===== *)
theory Cw_Access_Claims
  imports Cw_Config Cw_Mcp Cw_Example
begin

text \<open>
  The properties of the credential registry and of the read-only MCP server, and what the connector configuration
  gives to the other theorems.
\<close>

text \<open>The desk of a configuration that was accepted meets the hypothesis on budgets of the theorems on reachable stores.\<close>

lemma config_allows_attempts:
  assumes "config_of H v = Some c" "sv_desk S = Some (cc_desk c)"
  shows "attempts_allowed S"
proof -
  have "0 \<le> sp_attempts s" if "spec_of (cc_desk c) i = Some s" for i s
  proof -
    from that have "s \<in> set (dk_specs (cc_desk c))" by (auto simp: spec_of_def dest!: map_of_SomeD)
    with config_of_ok [OF assms(1)] have "spec_ok H s" by (simp add: list_all_iff)
    then show ?thesis by (simp add: spec_ok_def between_def)
  qed
  with assms(2) show ?thesis by (simp add: attempts_allowed_def)
qed

text \<open>C16: a registry that was accepted authenticates a caller as a principal exactly if the caller shows, as a bearer
  token of 32 to 512 code points, one whose SHA-256 is recorded for that principal; the principals are told apart by
  their hashes and by their identifiers, and each has a tenant and subjects of its own.\<close>

theorem registry_authenticates:
  assumes "token_registry v = Inr R"
  shows "(authenticate E R a = Inr p \<longleftrightarrow>
      (\<exists>token. a = Some (''Bearer '' @ token) \<and> 32 \<le> py_len token \<and> py_len token \<le> 512 \<and> (sha256 E token, p) \<in> set R)) \<and>
    distinct (map fst R) \<and> distinct (map (ac_id \<circ> snd) R) \<and> 1 \<le> length R \<and> length R \<le> 128 \<and>
    list_all (\<lambda>(h, q). valid_identifier (ac_tenant q) \<and> ac_subjects q \<noteq> []) R"
  using token_registry_ok [OF assms] authenticate_Inr [of R E a p] by (auto simp: registry_ok_def list_all_iff)

definition the_row :: json where
  "the_row = JObj [(''token_sha256'', JStr (replicate 64 (CHR ''0''))), (''principal'', JObj [(''actor_id'', JStr ''ann''),
     (''tenant_id'', JStr ''acme''), (''role'', JStr ''owner''), (''subjects'', JList [JStr ''pay''])])]"

definition ann :: actor where
  "ann = \<lparr>ac_id = ''ann'', ac_tenant = ''acme'', ac_role = Owner, ac_subjects = [''pay'']\<rparr>"

lemma ann_row: "token_registry (JList [the_row]) = Inr [(replicate 64 (CHR ''0''), ann)]"
proof -
  have "valid_digest (replicate 64 (CHR ''0''))" by (simp add: valid_digest_def list_all_iff is_hexlow_def is_digit_def)
  moreover have "valid_identifier ''ann''" "valid_identifier ''acme''" "valid_identifier ''pay''"
    by (simp_all add: valid_identifier_def ident_char_def char_classes)
  ultimately show ?thesis
    by (simp add: token_registry_def credential_def the_row_def exact_keys_def actor_of_def role_of_def ann_def jget_def)
qed

theorem registry_authenticates_witness:
  "authenticate (E0\<lparr>sha256 := (\<lambda>_. replicate 64 (CHR ''0''))\<rparr>) [(replicate 64 (CHR ''0''), ann)]
     (Some (''Bearer '' @ replicate 32 (CHR ''x''))) = Inr ann"
  by (subst registry_authenticates [OF ann_row, THEN conjunct1])
    (intro exI [of _ "replicate 32 (CHR ''x'')"], simp add: py_len_def)

text \<open>C17: whatever lines the MCP server reads and whatever the API answers, it only ever sends GET requests to the
  addresses of its tools with a scoped identifier, at most one per line, and it writes at most one answer per line; and it
  sends one only after the handshake: an \<^verbatim>\<open>initialize\<close>, a later \<^verbatim>\<open>notifications/initialized\<close> and a later
  \<^verbatim>\<open>tools/call\<close>.\<close>

theorem mcp_reads_only:
  "\<exists>ps. mc_calls (snd (snd (serve_lines E N lines (mcp_server base token)))) = map (\<lambda>p. (''GET'', base @ p)) ps \<and>
     list_all readable_path ps \<and> length ps \<le> length lines \<and>
     length (fst (serve_lines E N lines (mcp_server base token))) \<le> length lines \<and>
     (ps = [] \<or> (\<exists>a b c. subseq [a, b, c] lines \<and> line_asks E ''initialize'' a \<and> line_asks E ''notifications/initialized'' b \<and>
        line_asks E ''tools/call'' c))"
proof -
  obtain out code st where s: "serve_lines E N lines (mcp_server base token) = (out, code, st)" by (rule prod_cases3)
  from serve_lines_reads [OF s] obtain ps where ps: "mc_calls st = map (\<lambda>p. (''GET'', base @ p)) ps" "list_all readable_path ps"
      "length ps \<le> length lines" "length out \<le> length lines"
      "ps \<noteq> [] \<Longrightarrow> \<exists>ls. subseq ls lines \<and> list_all2 (line_asks E) (still (mcp_server base token)) ls"
    by (auto simp: mcp_server_def)
  have "\<exists>a b c. subseq [a, b, c] lines \<and> line_asks E ''initialize'' a \<and> line_asks E ''notifications/initialized'' b \<and>
      line_asks E ''tools/call'' c" if "ps \<noteq> []"
    using ps(5) [OF that] by (auto simp: still_def mcp_server_def list_all2_Cons1)
  with ps(1-4) show ?thesis unfolding s by auto
qed

end
