(* ===== verification/Cw_Gate.thy ===== *)
theory Cw_Gate
  imports Cw_Models Py_Loads "HOL-Library.Sublist"
begin

text \<open>
  The limit on request bodies in front of the API (\<^verbatim>\<open>src/src/proofops_casework/request_limit.py\<close>). What
  \<^verbatim>\<open>wait_for(receive())\<close> gives at each turn of the loop is a list of events, a timeout among them; the
  decision is what the middleware does with them.
\<close>

datatype body_event = Chunk string bool | Disconnect | Timeout

text \<open>The application gets the body, or its own channel; or the middleware answers, or says nothing.\<close>

datatype gate = Untouched | Body string | Refused int string | Dropped | Waiting

fun body_of :: "nat \<Rightarrow> string \<Rightarrow> body_event list \<Rightarrow> gate" where
  "body_of m raw [] = Waiting"
| "body_of m raw (Timeout # _) = Refused 408 ''REQUEST_BODY_TIMEOUT''"
| "body_of m raw (Disconnect # _) = Dropped"
| "body_of m raw (Chunk b cont # es) =
     (if length (raw @ b) > m then Refused 413 ''PAYLOAD_TOO_LARGE''
      else if cont then body_of m (raw @ b) es else Body (raw @ b))"

definition byte_blank :: "char \<Rightarrow> bool" where
  "byte_blank c \<longleftrightarrow> c \<in> {CHR '' '', CHR 0x09, CHR 0x0A, CHR 0x0D, CHR 0x0B, CHR 0x0C}"

definition byte_strip :: "string \<Rightarrow> string" where
  "byte_strip s = rev (dropWhile byte_blank (rev (dropWhile byte_blank s)))"

text \<open>A header that is sent twice counts with its last value.\<close>

definition media_type :: "(string \<times> string) list \<Rightarrow> string" where
  "media_type headers =
     (let v = (case map_of (rev (map (\<lambda>(k, x). (py_lower k, x)) headers)) ''content-type'' of None \<Rightarrow> [] | Some x \<Rightarrow> x)
      in py_lower (byte_strip (takeWhile (\<lambda>c. c \<noteq> CHR '';'') v)))"

definition is_json_media :: "string \<Rightarrow> bool" where
  "is_json_media m \<longleftrightarrow> m = [] \<or> m = ''application/json'' \<or> (prefix ''application/'' m \<and> suffix ''+json'' m)"

definition body_gate :: "(string \<Rightarrow> pyfloat) \<Rightarrow> nat \<Rightarrow> bool \<Rightarrow> string \<Rightarrow> (string \<times> string) list \<Rightarrow> body_event list \<Rightarrow> gate" where
  "body_gate fl m http path headers events =
     (if \<not> http \<or> \<not> prefix ''/api/v2/'' path then Untouched
      else case body_of m [] events of
          Body raw \<Rightarrow>
            (if raw \<noteq> [] \<and> is_json_media (media_type headers) then
               (case strict_json fl m raw of Inl _ \<Rightarrow> Refused 422 ''AMBIGUOUS_OR_INVALID_JSON'' | Inr _ \<Rightarrow> Body raw)
             else Body raw)
        | g \<Rightarrow> g)"

section \<open>What passes\<close>

lemma body_of_Body:
  assumes "body_of m raw0 es = Body raw" "length raw0 \<le> m"
  shows "length raw \<le> m \<and> (\<exists>bs b rest. es = map (\<lambda>c. Chunk c True) bs @ Chunk b False # rest \<and> raw = raw0 @ concat bs @ b)"
  using assms
proof (induction m raw0 es rule: body_of.induct)
  case (4 m raw0 b cont es)
  show ?case
  proof (cases cont)
    case True
    with 4 obtain bs d rest where "length raw \<le> m" "es = map (\<lambda>c. Chunk c True) bs @ Chunk d False # rest" "raw = (raw0 @ b) @ concat bs @ d"
      by (auto split: if_splits)
    with True show ?thesis by (intro conjI exI [of _ "b # bs"]) auto
  next
    case False
    with 4 have "length raw \<le> m" "Chunk b cont # es = map (\<lambda>c. Chunk c True) [] @ Chunk b False # es" "raw = raw0 @ concat [] @ b"
      by (auto split: if_splits)
    then show ?thesis by blast
  qed
qed auto

text \<open>A body that reaches the application is within the limit, is what was sent, and, where it is JSON, has one reading.\<close>

lemma body_gate_Body:
  assumes "body_gate fl m http path headers events = Body raw"
  shows "length raw \<le> m \<and> (\<exists>bs b rest. events = map (\<lambda>c. Chunk c True) bs @ Chunk b False # rest \<and> raw = concat bs @ b) \<and>
    (raw \<noteq> [] \<and> is_json_media (media_type headers) \<longrightarrow> (\<exists>v. strict_json fl m raw = Inr v \<and> distinct_keys v))"
proof -
  from assms have b: "body_of m [] events = Body raw"
    and j: "raw \<noteq> [] \<and> is_json_media (media_type headers) \<longrightarrow> (\<exists>v. strict_json fl m raw = Inr v)"
    by (auto simp: body_gate_def split: gate.splits if_splits sum.splits)
  from j have "raw \<noteq> [] \<and> is_json_media (media_type headers) \<longrightarrow> (\<exists>v. strict_json fl m raw = Inr v \<and> distinct_keys v)"
    using loads_keys by (auto simp: strict_json_Inr)
  with body_of_Body [OF b] show ?thesis by simp
qed

end
