(* ===== verification/Mg_Models.thy ===== *)
theory Mg_Models
  imports Mg_Canonical
begin

text \<open>
  The data of the v1 module (\<^verbatim>\<open>src/src/proofops_memoryguard/models.py\<close> and \<^verbatim>\<open>errors.py\<close>): one
  datatype per enum with its value, one record per frozen dataclass, and \<^verbatim>\<open>to_dict\<close> of those
  that are hashed or stored. Times are aware UTC times in microseconds.
\<close>

section \<open>Enumerations\<close>

datatype evidence_mode = DemoFixture | CallerSupplied | IdentityVerified | BaseTestnet | BaseMainnet
datatype observation_kind = BaselineApproved | DisputeOpened | TargetRevoked | VendorNote
datatype observation_status = Accepted | PartiallyAccepted | Quarantined | ReviewRequired
datatype mg_verdict = V_Ready | V_Deny | V_NeedsHuman | V_MemoryUnavailable
datatype anchor_state = NotConfigured | LocalFinalized | ConfirmationRequired | Pending | Verified | Failed

fun mode_str :: "evidence_mode \<Rightarrow> string" where
  "mode_str DemoFixture = ''demo_fixture''"
| "mode_str CallerSupplied = ''caller_supplied''"
| "mode_str IdentityVerified = ''identity_verified''"
| "mode_str BaseTestnet = ''base_testnet''"
| "mode_str BaseMainnet = ''base_mainnet''"

fun okind_str :: "observation_kind \<Rightarrow> string" where
  "okind_str BaselineApproved = ''baseline_approved''"
| "okind_str DisputeOpened = ''dispute_opened''"
| "okind_str TargetRevoked = ''target_revoked''"
| "okind_str VendorNote = ''vendor_note''"

fun ostatus_str :: "observation_status \<Rightarrow> string" where
  "ostatus_str Accepted = ''accepted''"
| "ostatus_str PartiallyAccepted = ''partially_accepted''"
| "ostatus_str Quarantined = ''quarantined''"
| "ostatus_str ReviewRequired = ''review_required''"

fun mverdict_str :: "mg_verdict \<Rightarrow> string" where
  "mverdict_str V_Ready = ''ready''"
| "mverdict_str V_Deny = ''deny''"
| "mverdict_str V_NeedsHuman = ''needs_human''"
| "mverdict_str V_MemoryUnavailable = ''memory_unavailable''"

fun anchor_str :: "anchor_state \<Rightarrow> string" where
  "anchor_str NotConfigured = ''not_configured''"
| "anchor_str LocalFinalized = ''local_finalized''"
| "anchor_str ConfirmationRequired = ''confirmation_required''"
| "anchor_str Pending = ''pending''"
| "anchor_str Verified = ''verified''"
| "anchor_str Failed = ''failed''"

text \<open>Two values of an enum never share a text.\<close>

lemma enum_str_inj [simp]:
  "mode_str m = mode_str m' \<longleftrightarrow> m = m'" "okind_str k = okind_str k' \<longleftrightarrow> k = k'"
  "ostatus_str s = ostatus_str s' \<longleftrightarrow> s = s'" "mverdict_str v = mverdict_str v' \<longleftrightarrow> v = v'"
  "anchor_str a = anchor_str a' \<longleftrightarrow> a = a'"
  by ((cases m; cases m'; simp), (cases k; cases k'; simp), (cases s; cases s'; simp),
      (cases v; cases v'; simp), (cases a; cases a'; simp))

section \<open>Observations\<close>

record observation =
  obs_subject :: string
  obs_session :: string
  obs_kind :: observation_kind
  obs_source :: string
  obs_facts :: jobj
  obs_text :: "string option"
  obs_mode :: evidence_mode
  obs_key :: string
  obs_at :: int

record stored_observation =
  so_id :: string
  so_subject :: string
  so_session :: string
  so_kind :: observation_kind
  so_source :: string
  so_mode :: evidence_mode
  so_status :: observation_status
  so_facts :: jobj
  so_quarantined :: "string list"
  so_reasons :: "string list"
  so_text_hash :: "string option"
  so_key :: string
  so_at :: int
  so_previous :: string
  so_hash :: string

record subject_memory =
  sm_subject :: string
  sm_version :: int
  sm_root :: string
  sm_observations :: "stored_observation list"
  sm_updated :: int

definition empty_subject :: "string \<Rightarrow> int \<Rightarrow> subject_memory" where
  "empty_subject ref now = \<lparr>sm_subject = ref, sm_version = 0, sm_root = replicate 64 (CHR ''0''),
     sm_observations = [], sm_updated = now\<rparr>"

definition stored_json :: "env \<Rightarrow> stored_observation \<Rightarrow> json" where
  "stored_json E o' = JObj [(''observation_id'', JStr (so_id o')), (''subject_ref'', JStr (so_subject o')),
     (''session_id'', JStr (so_session o')), (''kind'', JStr (okind_str (so_kind o'))),
     (''source_id'', JStr (so_source o')), (''evidence_mode'', JStr (mode_str (so_mode o'))),
     (''status'', JStr (ostatus_str (so_status o'))), (''accepted_facts'', JObj (so_facts o')),
     (''quarantined_fields'', jstrs (so_quarantined o')), (''reason_codes'', jstrs (so_reasons o')),
     (''raw_text_hash'', jopt JStr (so_text_hash o')), (''idempotency_key'', JStr (so_key o')),
     (''observed_at'', JStr (iso_time E (so_at o'))), (''previous_hash'', JStr (so_previous o')),
     (''observation_hash'', JStr (so_hash o'))]"

definition subject_json :: "env \<Rightarrow> subject_memory \<Rightarrow> json" where
  "subject_json E s = JObj [(''schema_version'', JStr ''1.0''), (''subject_ref'', JStr (sm_subject s)),
     (''version'', JInt (sm_version s)), (''memory_root'', JStr (sm_root s)),
     (''observations'', JList (map (stored_json E) (sm_observations s))),
     (''updated_at'', JStr (iso_time E (sm_updated s)))]"

record receipt =
  re_id :: string
  re_status :: observation_status
  re_accepted :: "string list"
  re_quarantined :: "string list"
  re_reasons :: "string list"
  re_version :: int
  re_root :: string
  re_mode :: evidence_mode
  re_at :: int

section \<open>Intents and decisions\<close>

record payment_intent =
  pi_subject :: string
  pi_session :: string
  pi_chain :: int
  pi_target :: string
  pi_method :: string
  pi_amount :: pyfloat
  pi_key :: string
  pi_mode :: evidence_mode
  pi_created :: int

definition payment_json :: "env \<Rightarrow> payment_intent \<Rightarrow> json" where
  "payment_json E p = JObj [(''subject_id'', JStr (pi_subject p)), (''session_id'', JStr (pi_session p)),
     (''chain_id'', JInt (pi_chain p)), (''target'', JStr (pi_target p)), (''method'', JStr (pi_method p)),
     (''amount_usd'', JFloat (pi_amount p)), (''idempotency_key'', JStr (pi_key p)),
     (''evidence_mode'', JStr (mode_str (pi_mode p))), (''created_at'', JStr (iso_time E (pi_created p)))]"

record draft =
  dd_id :: string
  dd_subject :: string
  dd_session :: string
  dd_verdict :: mg_verdict
  dd_reasons :: "string list"
  dd_causal :: "string list"
  dd_cross :: bool
  dd_version :: int
  dd_root :: string
  dd_policy :: string
  dd_intent :: payment_intent
  dd_intent_hash :: string
  dd_proof :: string
  dd_nonce :: string
  dd_created :: int
  dd_expires :: int
  dd_anchor :: anchor_state

definition draft_json :: "env \<Rightarrow> draft \<Rightarrow> json" where
  "draft_json E d = JObj [(''schema_version'', JStr ''1.0''), (''decision_id'', JStr (dd_id d)),
     (''subject_ref'', JStr (dd_subject d)), (''session_id'', JStr (dd_session d)),
     (''verdict'', JStr (mverdict_str (dd_verdict d))), (''reason_codes'', jstrs (dd_reasons d)),
     (''causal_memory_ids'', jstrs (dd_causal d)), (''cross_session'', JBool (dd_cross d)),
     (''memory_version'', JInt (dd_version d)), (''memory_root'', JStr (dd_root d)),
     (''policy_hash'', JStr (dd_policy d)), (''intent'', payment_json E (dd_intent d)),
     (''intent_hash'', JStr (dd_intent_hash d)), (''proof_root'', JStr (dd_proof d)),
     (''nonce'', JStr (dd_nonce d)), (''created_at'', JStr (iso_time E (dd_created d))),
     (''expires_at'', JStr (iso_time E (dd_expires d))), (''anchor_state'', JStr (anchor_str (dd_anchor d))),
     (''executable'', JBool False)]"

section \<open>Finalization\<close>

record anchor_plan =
  ap_chain :: int
  ap_network :: string
  ap_contract :: string
  ap_to :: string
  ap_data :: string
  ap_value :: string
  ap_proof :: string

record anchor_verification =
  av_state :: anchor_state
  av_tx :: "string option"
  av_chain :: "int option"
  av_contract :: "string option"
  av_block :: "int option"
  av_reasons :: "string list"

record finalization =
  fz_decision :: string
  fz_verdict :: mg_verdict
  fz_state :: anchor_state
  fz_proof :: string
  fz_executable :: bool
  fz_plan :: "anchor_plan option"
  fz_verification :: "anchor_verification option"
  fz_reasons :: "string list"

definition plan_json :: "anchor_plan \<Rightarrow> json" where
  "plan_json p = JObj [(''chain_id'', JInt (ap_chain p)), (''network'', JStr (ap_network p)),
     (''contract'', JStr (ap_contract p)), (''to'', JStr (ap_to p)), (''data'', JStr (ap_data p)),
     (''value'', JStr (ap_value p)), (''proof_root'', JStr (ap_proof p))]"

definition verification_json :: "anchor_verification \<Rightarrow> json" where
  "verification_json v = JObj [(''state'', JStr (anchor_str (av_state v))), (''tx_hash'', jopt JStr (av_tx v)),
     (''chain_id'', jopt JInt (av_chain v)), (''contract'', jopt JStr (av_contract v)),
     (''block_number'', jopt JInt (av_block v)), (''reason_codes'', jstrs (av_reasons v))]"

definition finalization_json :: "finalization \<Rightarrow> json" where
  "finalization_json f = JObj [(''decision_id'', JStr (fz_decision f)), (''verdict'', JStr (mverdict_str (fz_verdict f))),
     (''state'', JStr (anchor_str (fz_state f))), (''proof_root'', JStr (fz_proof f)),
     (''executable'', JBool (fz_executable f)), (''anchor_plan'', jopt plan_json (fz_plan f)),
     (''anchor_verification'', jopt verification_json (fz_verification f)),
     (''reason_codes'', jstrs (fz_reasons f))]"

end
