(* ===== verification/Mg_Policy.thy ===== *)
theory Mg_Policy
  imports Mg_Models
begin

text \<open>
  The policy of the v1 module (\<^verbatim>\<open>policy.py\<close>): the classification of one observation into
  accepted facts, quarantined fields and reason codes, and the decision over stored
  observations. A target is compared in lower case; no character outside ASCII has a lower
  case in an address, so the ASCII lower case is exact.
\<close>

section \<open>Facts\<close>

definition evm_address :: "string \<Rightarrow> bool" where
  "evm_address s \<longleftrightarrow> length s = 42 \<and> take 2 s = ''0x'' \<and> list_all is_hex (drop 2 s)"

definition lower_ascii :: "string \<Rightarrow> string" where
  "lower_ascii s = map (\<lambda>c. if is_upper c then char_of ((of_char c :: nat) + 32) else c) s"

definition machine_char :: "char \<Rightarrow> bool" where
  "machine_char c \<longleftrightarrow> is_alnum c \<or> c \<in> {CHR ''.'', CHR ''_'', CHR '':'', CHR ''-''}"

definition machine_id :: "string \<Rightarrow> bool" where
  "machine_id s = (case s of [] \<Rightarrow> False
     | c # r \<Rightarrow> is_alnum c \<and> list_all machine_char r \<and> 2 \<le> length r \<and> length r \<le> 127)"

definition method_name :: "string \<Rightarrow> bool" where
  "method_name s = (case s of [] \<Rightarrow> False
     | c # r \<Rightarrow> is_alpha c \<and> list_all (\<lambda>d. is_alnum d \<or> d = CHR ''_'') r \<and> length r \<le> 63)"

definition revocation_reasons :: "string list" where
  "revocation_reasons = [''user_revoked'', ''security_incident'', ''compliance_hold'', ''manual_block'']"

fun allowed_fields :: "observation_kind \<Rightarrow> string list" where
  "allowed_fields BaselineApproved = [''chain_id'', ''target'', ''method'', ''max_amount_usd'', ''expires_at'']"
| "allowed_fields DisputeOpened = [''target'', ''dispute_id'', ''status'']"
| "allowed_fields TargetRevoked = [''target'', ''reason_code'']"
| "allowed_fields VendorNote = []"

definition trusted :: "evidence_mode \<Rightarrow> bool" where
  "trusted m \<longleftrightarrow> m \<in> {DemoFixture, IdentityVerified, BaseTestnet, BaseMainnet}"

text \<open>
  \<^verbatim>\<open>float(i)\<close>: an integer beyond the range of a double raises OverflowError; one in the range of
  the amounts is exact, and a larger one is rejected whatever it rounds to.
\<close>

definition float_of_int :: "int \<Rightarrow> pyfloat res" where
  "float_of_int i = (if \<bar>i\<bar> \<ge> 2 ^ 1024 - 2 ^ 970 then Inl (PyExc ''OverflowError'') else Inr (Fin (of_int i)))"

definition valid_amount :: "pyfloat \<Rightarrow> bool" where
  "valid_amount f = (case f of Fin r \<Rightarrow> 0 < r \<and> r \<le> 1000000 | _ \<Rightarrow> False)"

text \<open>\<^verbatim>\<open>datetime.fromisoformat(value.replace("Z", "+00:00"))\<close>.\<close>

definition z_offset :: "string \<Rightarrow> string" where
  "z_offset s = concat (map (\<lambda>c. if c = CHR ''Z'' then ''+00:00'' else [c]) s)"

text \<open>The answer of \<^verbatim>\<open>_validate_fact\<close>: the normalized value, or the reason it is refused.\<close>

definition validate_fact :: "env \<Rightarrow> observation_kind \<Rightarrow> string \<Rightarrow> json \<Rightarrow> (string + json) res" where
  "validate_fact E kind key v =
     (if key = ''target'' then
        Inr (case v of JStr s \<Rightarrow> if evm_address s then Inr (JStr (lower_ascii s)) else Inl ''invalid_target''
             | _ \<Rightarrow> Inl ''invalid_target'')
      else if key = ''chain_id'' then
        Inr (case v of JInt i \<Rightarrow> if i \<in> {8453, 84532} then Inr v else Inl ''invalid_chain_id''
             | _ \<Rightarrow> Inl ''invalid_chain_id'')
      else if key = ''method'' then
        Inr (case v of JStr s \<Rightarrow> if method_name s then Inr v else Inl ''invalid_method''
             | _ \<Rightarrow> Inl ''invalid_method'')
      else if key = ''max_amount_usd'' then
        (case v of
           JInt i \<Rightarrow> ebind (float_of_int i) (\<lambda>f. Inr (if valid_amount f then Inr (JFloat f) else Inl ''invalid_max_amount''))
         | JFloat f \<Rightarrow> Inr (if valid_amount f then Inr (JFloat f) else Inl ''invalid_max_amount'')
         | _ \<Rightarrow> Inr (Inl ''invalid_max_amount''))
      else if key = ''expires_at'' then
        Inr (case v of JStr s \<Rightarrow> (case parse_time E (z_offset s) of
               Some (t, True) \<Rightarrow> Inr (JStr (iso_time E t)) | _ \<Rightarrow> Inl ''invalid_expiry'')
             | _ \<Rightarrow> Inl ''invalid_expiry'')
      else if key = ''status'' then
        Inr (if kind = DisputeOpened \<and> v = JStr ''open'' then Inr (JStr ''open'') else Inl ''invalid_dispute_status'')
      else if key = ''dispute_id'' then
        Inr (case v of JStr s \<Rightarrow> if machine_id s then Inr v else Inl ''invalid_dispute_id''
             | _ \<Rightarrow> Inl ''invalid_dispute_id'')
      else if key = ''reason_code'' then
        Inr (case v of JStr s \<Rightarrow> if s \<in> set revocation_reasons then Inr v else Inl ''invalid_reason_code''
             | _ \<Rightarrow> Inl ''invalid_reason_code'')
      else Inr (Inl ''unknown_fact_field''))"

section \<open>Classification\<close>

record classification =
  cl_status :: observation_status
  cl_facts :: jobj
  cl_quarantined :: "string list"
  cl_reasons :: "string list"

text \<open>Accepted facts, quarantined fields and reasons, in the order the facts come.\<close>

fun sort_facts :: "env \<Rightarrow> observation_kind \<Rightarrow> jobj \<Rightarrow> (jobj \<times> string list \<times> string list) res" where
  "sort_facts E kind [] = Inr ([], [], [])"
| "sort_facts E kind ((k, v) # fs) =
     ebind (if k \<in> set (allowed_fields kind) then validate_fact E kind k v else Inr (Inl ''unknown_fact_field'')) (\<lambda>a.
     ebind (sort_facts E kind fs) (\<lambda>(acc, quar, reas).
     Inr (case a of Inr n \<Rightarrow> ((k, n) # acc, quar, reas) | Inl why \<Rightarrow> (acc, k # quar, why # reas))))"

definition instruction_patterns :: "(string \<times> item list list) list" where
  "instruction_patterns =
     [(''ignore_previous_rules'',
        [[Words [''ignore''], Space1, Words [''all''], Space1, Words [''previous'', ''prior'', ''safety'']],
         [Words [''ignore''], Space1, Words [''previous'', ''prior'', ''safety'']]]),
      (''authority_override'',
        [[Words [''override'', ''bypass'', ''disable''], Gap 24, Words [''policy'', ''rule'', ''guard'']]]),
      (''payment_instruction'',
        [[Words [''pay'', ''transfer'', ''send''], Gap 24, Words [''now'', ''immediately'', ''funds'', ''money'']]]),
      (''prompt_boundary_attack'',
        [[Words [''system prompt'', ''developer message'', ''act as'', ''tool call'']]]),
      (''secret_request'',
        [[Words [''private key'', ''api key'', ''access token'', ''cookie'', ''password'']]])]"

definition matched_codes :: "string \<Rightarrow> string list" where
  "matched_codes text = map fst (filter (\<lambda>(code, alts). list_ex (\<lambda>p. search_at p (code_points text)) alts)
     instruction_patterns)"

definition text_reasons :: "string \<Rightarrow> string list" where
  "text_reasons text = (case matched_codes text of [] \<Rightarrow> [''untrusted_free_text''] | cs \<Rightarrow> cs)"

definition has_text :: "observation \<Rightarrow> bool" where
  "has_text o' = (case obs_text o' of None \<Rightarrow> False | Some s \<Rightarrow> s \<noteq> [])"

definition status_for :: "observation \<Rightarrow> jobj \<Rightarrow> string list \<Rightarrow> observation_status" where
  "status_for o' accepted quarantined =
     (if accepted \<noteq> [] \<and> quarantined \<noteq> [] then PartiallyAccepted
      else if accepted \<noteq> [] then Accepted
      else if obs_mode o' = CallerSupplied \<and> obs_facts o' \<noteq> [] then ReviewRequired
      else Quarantined)"

definition classify :: "env \<Rightarrow> observation \<Rightarrow> classification res" where
  "classify E o' =
     ebind (sort_facts E (obs_kind o') (obs_facts o')) (\<lambda>(acc0, quar0, reas0).
     let quar1 = (if has_text o' then quar0 @ [''raw_text''] else quar0);
         reas1 = (if has_text o' then reas0 @ text_reasons (the (obs_text o')) else reas0);
         untrusted = (\<not> trusted (obs_mode o') \<and> acc0 \<noteq> []);
         quar2 = (if untrusted then quar1 @ keys acc0 else quar1);
         acc2 = (if untrusted then [] else acc0);
         reas2 = (if untrusted then reas1 @ [''source_not_identity_verified''] else reas1);
         note = (obs_kind o' = VendorNote);
         acc3 = (if note then [] else acc2);
         quar3 = (if note \<and> ''raw_text'' \<notin> set quar2 then quar2 @ [''raw_text''] else quar2);
         reas3 = (if note then reas2 @ [''vendor_text_never_authoritative''] else reas2)
     in Inr \<lparr>cl_status = status_for o' acc3 quar3, cl_facts = acc3, cl_quarantined = sorted_set quar3,
          cl_reasons = sorted_set (if reas3 = [] then [''structured_fact_accepted''] else reas3)\<rparr>)"

section \<open>The decision\<close>

record policy_decision =
  po_verdict :: mg_verdict
  po_reasons :: "string list"
  po_causal :: "string list"

definition active_for :: "evidence_mode \<Rightarrow> stored_observation \<Rightarrow> bool" where
  "active_for m x \<longleftrightarrow> so_status x \<in> {Accepted, PartiallyAccepted} \<and>
     (if m = DemoFixture then trusted (so_mode x) else so_mode x \<in> {IdentityVerified, BaseTestnet, BaseMainnet})"

text \<open>A stored fact as text; only a string can be an address or a status.\<close>

definition fact_is :: "jobj \<Rightarrow> string \<Rightarrow> string \<Rightarrow> bool" where
  "fact_is facts k s = (case jget facts k of JStr x \<Rightarrow> lower_ascii x = s | _ \<Rightarrow> False)"

definition is_revocation :: "string \<Rightarrow> stored_observation \<Rightarrow> bool" where
  "is_revocation target x \<longleftrightarrow> so_kind x = TargetRevoked \<and> fact_is (so_facts x) ''target'' target"

definition is_dispute :: "string \<Rightarrow> stored_observation \<Rightarrow> bool" where
  "is_dispute target x \<longleftrightarrow> so_kind x = DisputeOpened \<and> fact_is (so_facts x) ''target'' target \<and>
     \<not> fact_is (so_facts x) ''status'' ''resolved''"

definition is_baseline :: "payment_intent \<Rightarrow> string \<Rightarrow> stored_observation \<Rightarrow> bool" where
  "is_baseline p target x \<longleftrightarrow> so_kind x = BaselineApproved \<and> fact_is (so_facts x) ''target'' target \<and>
     py_eq (jget (so_facts x) ''chain_id'') (JInt (pi_chain p)) \<and> jget (so_facts x) ''method'' = JStr (pi_method p)"

text \<open>
  \<^verbatim>\<open>float(facts.get("max_amount_usd", 0))\<close>. The classifier only stores floats, so the other branches are not reached; for a text,
  which \<^verbatim>\<open>float\<close> would parse, the branch stands for a text that is no number.
\<close>

definition fact_limit :: "jobj \<Rightarrow> pyfloat res" where
  "fact_limit facts = (case map_of facts ''max_amount_usd'' of
     None \<Rightarrow> Inr (Fin 0)
   | Some (JFloat f) \<Rightarrow> Inr f
   | Some (JInt i) \<Rightarrow> float_of_int i
   | Some (JBool b) \<Rightarrow> Inr (Fin (if b then 1 else 0))
   | Some (JStr _) \<Rightarrow> Inl (PyExc ''ValueError'')
   | Some _ \<Rightarrow> Inl (PyExc ''TypeError''))"

fun fle :: "pyfloat \<Rightarrow> pyfloat \<Rightarrow> bool" where
  "fle NaN y = False"
| "fle x NaN = False"
| "fle NInf y = True"
| "fle x PInf = True"
| "fle (Fin a) (Fin b) = (a \<le> b)"
| "fle x y = False"

text \<open>Whether the expiry of a baseline has passed; a naive time counts as UTC.\<close>

definition fact_expired :: "env \<Rightarrow> jobj \<Rightarrow> int \<Rightarrow> bool res" where
  "fact_expired E facts now =
     (if \<not> truthy (jget facts ''expires_at'') then Inr False
      else case jget facts ''expires_at'' of
        JStr s \<Rightarrow> (case parse_time E (z_offset s) of None \<Rightarrow> Inl (PyExc ''ValueError'') | Some (t, _) \<Rightarrow> Inr (t \<le> now))
      | _ \<Rightarrow> Inl (PyExc ''ValueError''))"

fun valid_baselines :: "env \<Rightarrow> payment_intent \<Rightarrow> (nat \<Rightarrow> int) \<Rightarrow> nat \<Rightarrow> stored_observation list \<Rightarrow> stored_observation list res"
where
  "valid_baselines E p clk i [] = Inr []"
| "valid_baselines E p clk i (x # xs) =
     ebind (fact_limit (so_facts x)) (\<lambda>limit.
     ebind (fact_expired E (so_facts x) (clk i)) (\<lambda>old.
     ebind (valid_baselines E p clk (i + 1) xs) (\<lambda>ys.
     Inr (if \<not> old \<and> fle (pi_amount p) limit then x # ys else ys))))"

definition policy_decide :: "env \<Rightarrow> payment_intent \<Rightarrow> stored_observation list \<Rightarrow> (nat \<Rightarrow> int) \<Rightarrow> policy_decision res" where
  "policy_decide E p obs clk =
     (let active = filter (active_for (pi_mode p)) obs;
          target = lower_ascii (pi_target p);
          revocations = filter (is_revocation target) active;
          disputes = filter (is_dispute target) active
      in if revocations \<noteq> [] then
           Inr \<lparr>po_verdict = V_Deny, po_reasons = [''target_revoked_in_persistent_memory''],
                po_causal = map so_id revocations\<rparr>
         else if disputes \<noteq> [] then
           Inr \<lparr>po_verdict = V_Deny, po_reasons = [''open_dispute_recalled_from_persistent_memory''],
                po_causal = map so_id disputes\<rparr>
         else ebind (valid_baselines E p clk 0 (filter (is_baseline p target) active)) (\<lambda>valid.
           Inr (if valid \<noteq> [] then
                  \<lparr>po_verdict = V_Ready, po_reasons = [''trusted_baseline_recalled'', ''human_confirmation_still_required''],
                   po_causal = [so_id (last valid)]\<rparr>
                else \<lparr>po_verdict = V_NeedsHuman, po_reasons = [''no_authoritative_memory_for_target''], po_causal = []\<rparr>)))"

end
