(* ===== verification/Mg_Module.thy ===== *)
theory Mg_Module
  imports Mg_Policy
begin

text \<open>
  The v1 module: the hash chain and the proofs (\<^verbatim>\<open>proof.py\<close>), the memory port and its in-memory
  adapter (\<^verbatim>\<open>ports.py\<close>, \<^verbatim>\<open>adapters/memory_fake.py\<close>), and the operations \<^verbatim>\<open>observe\<close>,
  \<^verbatim>\<open>decide\<close>, \<^verbatim>\<open>finalize\<close> and \<^verbatim>\<open>inspect_finalization\<close> of \<^verbatim>\<open>module.py\<close>. The anchor is a
  parameter; an error is the class name of the exception.
\<close>

section \<open>Proofs\<close>

definition observation_payload :: "env \<Rightarrow> stored_observation \<Rightarrow> json" where
  "observation_payload E x = JObj [(''observation_id'', JStr (so_id x)), (''subject_ref'', JStr (so_subject x)),
     (''session_id'', JStr (so_session x)), (''kind'', JStr (okind_str (so_kind x))),
     (''source_id'', JStr (so_source x)), (''evidence_mode'', JStr (mode_str (so_mode x))),
     (''status'', JStr (ostatus_str (so_status x))), (''accepted_facts'', JObj (so_facts x)),
     (''quarantined_fields'', jstrs (so_quarantined x)), (''reason_codes'', jstrs (so_reasons x)),
     (''raw_text_hash'', jopt JStr (so_text_hash x)), (''idempotency_key'', JStr (so_key x)),
     (''observed_at'', JStr (iso_time E (so_at x))), (''previous_hash'', JStr (so_previous x))]"

definition observation_hash :: "env \<Rightarrow> stored_observation \<Rightarrow> string res" where
  "observation_hash E x = domain_hash E ''observation'' (observation_payload E x)"

definition genesis :: string where
  "genesis = replicate 64 (CHR ''0'')"

definition integrity :: err where
  "integrity = PyExc ''MemoryIntegrityError''"

fun chain_root :: "env \<Rightarrow> string \<Rightarrow> string \<Rightarrow> stored_observation list \<Rightarrow> string res" where
  "chain_root E ref previous [] = Inr previous"
| "chain_root E ref previous (x # xs) =
     ebind (check (so_subject x = ref) integrity) (\<lambda>_.
     ebind (check (so_previous x = previous) integrity) (\<lambda>_.
     ebind (observation_hash E x) (\<lambda>expected.
     ebind (check (so_hash x = expected) integrity) (\<lambda>_.
     chain_root E ref expected xs))))"

definition validate_subject :: "env \<Rightarrow> subject_memory \<Rightarrow> unit res" where
  "validate_subject E s =
     ebind (check (sm_version s = int (length (sm_observations s))) integrity) (\<lambda>_.
     ebind (chain_root E (sm_subject s) genesis (sm_observations s)) (\<lambda>root.
     check (sm_root s = root) integrity))"

definition intent_payload :: "payment_intent \<Rightarrow> json" where
  "intent_payload p = JObj [(''subject_ref'', JStr (pi_subject p)), (''chain_id'', JInt (pi_chain p)),
     (''target'', JStr (lower_ascii (pi_target p))), (''method'', JStr (pi_method p)),
     (''amount_usd'', JFloat (pi_amount p)), (''evidence_mode'', JStr (mode_str (pi_mode p)))]"

definition intent_hash :: "env \<Rightarrow> payment_intent \<Rightarrow> string res" where
  "intent_hash E p = domain_hash E ''intent'' (intent_payload p)"

definition proof_payload :: "env \<Rightarrow> draft \<Rightarrow> json" where
  "proof_payload E d = JObj [(''decision_id'', JStr (dd_id d)), (''subject_ref'', JStr (dd_subject d)),
     (''session_id'', JStr (dd_session d)), (''verdict'', JStr (mverdict_str (dd_verdict d))),
     (''reason_codes'', jstrs (dd_reasons d)), (''causal_memory_ids'', jstrs (dd_causal d)),
     (''cross_session'', JBool (dd_cross d)), (''memory_version'', JInt (dd_version d)),
     (''memory_root'', JStr (dd_root d)), (''policy_hash'', JStr (dd_policy d)),
     (''intent_hash'', JStr (dd_intent_hash d)), (''nonce'', JStr (dd_nonce d)),
     (''created_at'', JStr (iso_time E (dd_created d))), (''expires_at'', JStr (iso_time E (dd_expires d)))]"

definition proof_root :: "env \<Rightarrow> draft \<Rightarrow> string res" where
  "proof_root E d = domain_hash E ''decision-proof'' (proof_payload E d)"

definition validate_draft :: "env \<Rightarrow> draft \<Rightarrow> unit res" where
  "validate_draft E d =
     ebind (check (pi_subject (dd_intent d) = dd_subject d) integrity) (\<lambda>_.
     ebind (check (pi_session (dd_intent d) = dd_session d) integrity) (\<lambda>_.
     ebind (intent_hash E (dd_intent d)) (\<lambda>h.
     ebind (check (h = dd_intent_hash d) integrity) (\<lambda>_.
     ebind (proof_root E d) (\<lambda>r. check (r = dd_proof d) integrity)))))"

section \<open>The memory port\<close>

record memory =
  mm_subjects :: "subject_memory dict"
  mm_drafts :: "draft dict"
  mm_finals :: "finalization dict"

definition load_subject :: "memory \<Rightarrow> string \<Rightarrow> subject_memory option" where
  "load_subject m ref = map_of (mm_subjects m) ref"

definition commit_observation :: "memory \<Rightarrow> int \<Rightarrow> subject_memory \<Rightarrow> memory res" where
  "commit_observation m previous s =
     (let actual = (case load_subject m (sm_subject s) of None \<Rightarrow> 0 | Some c \<Rightarrow> sm_version c) in
      ebind (check (actual = previous) (PyExc ''MemoryConflictError'')) (\<lambda>_.
      Inr (m\<lparr>mm_subjects := dset (sm_subject s) s (mm_subjects m)\<rparr>)))"

definition save_draft :: "memory \<Rightarrow> draft \<Rightarrow> memory" where
  "save_draft m d = m\<lparr>mm_drafts := dset (dd_id d) d (mm_drafts m)\<rparr>"

definition load_draft :: "memory \<Rightarrow> string \<Rightarrow> draft option" where
  "load_draft m i = map_of (mm_drafts m) i"

definition save_final :: "memory \<Rightarrow> finalization \<Rightarrow> memory" where
  "save_final m f = m\<lparr>mm_finals := dset (fz_decision f) f (mm_finals m)\<rparr>"

definition load_final :: "memory \<Rightarrow> string \<Rightarrow> finalization option" where
  "load_final m i = map_of (mm_finals m) i"

record guard =
  gd_policy_hash :: string
  gd_ttl :: int
  gd_plan :: "draft \<Rightarrow> anchor_plan option res"
  gd_verify :: "draft \<Rightarrow> string \<Rightarrow> anchor_verification res"

text \<open>\<^verbatim>\<open>MemoryGuard.__init__\<close>: the policy is hashed once.\<close>

definition make_guard :: "env \<Rightarrow> jobj \<Rightarrow> int \<Rightarrow> bool \<Rightarrow> string \<Rightarrow> (draft \<Rightarrow> anchor_plan option res)
    \<Rightarrow> (draft \<Rightarrow> string \<Rightarrow> anchor_verification res) \<Rightarrow> guard res"
where
  "make_guard E policy ttl production backend plan verify =
     ebind (check (30 \<le> ttl \<and> ttl \<le> 3600) (PyExc ''ValueError'')) (\<lambda>_.
     ebind (check (\<not> production \<or> backend = ''sibyl_memory'') (PyExc ''ValueError'')) (\<lambda>_.
     ebind (domain_hash E ''policy'' (JObj policy)) (\<lambda>h.
     Inr \<lparr>gd_policy_hash = h, gd_ttl = ttl, gd_plan = plan, gd_verify = verify\<rparr>)))"

section \<open>Identifiers\<close>

definition plain_identifier :: "nat \<Rightarrow> nat \<Rightarrow> string \<Rightarrow> bool" where
  "plain_identifier lo hi s \<longleftrightarrow> lo \<le> py_len (py_strip s) \<and> py_len (py_strip s) \<le> hi \<and>
     list_all (\<lambda>c. (of_char c :: nat) \<ge> 32) s"

definition machine_identifier :: "string \<Rightarrow> bool" where
  "machine_identifier s \<longleftrightarrow> plain_identifier 8 128 s \<and>
     (case s of [] \<Rightarrow> False | c # r \<Rightarrow> is_alnum c \<and> list_all machine_char r)"

definition value_check :: "bool \<Rightarrow> unit res" where
  "value_check ok = check ok (PyExc ''ValueError'')"

section \<open>Observing\<close>

definition observation_args :: "observation \<Rightarrow> unit res" where
  "observation_args x =
     ebind (value_check (plain_identifier 3 200 (obs_subject x))) (\<lambda>_.
     ebind (value_check (machine_identifier (obs_session x))) (\<lambda>_.
     ebind (value_check (plain_identifier 3 200 (obs_source x))) (\<lambda>_.
     ebind (value_check (machine_identifier (obs_key x))) (\<lambda>_.
     value_check (case obs_text x of None \<Rightarrow> True | Some s \<Rightarrow> py_len s \<le> 10000)))))"

definition optional_text_hash :: "env \<Rightarrow> observation \<Rightarrow> string option res" where
  "optional_text_hash E x =
     (if has_text x then ebind (text_hash E (the (obs_text x))) (\<lambda>h. Inr (Some h)) else Inr None)"

definition same_request :: "env \<Rightarrow> observation \<Rightarrow> classification \<Rightarrow> stored_observation \<Rightarrow> bool res" where
  "same_request E x c dup =
     ebind (domain_hash E ''source'' (JStr (obs_source x))) (\<lambda>source.
     ebind (optional_text_hash E x) (\<lambda>text.
     Inr (so_kind dup = obs_kind x \<and> so_source dup = source \<and> so_mode dup = obs_mode x \<and>
       py_eq (JObj (so_facts dup)) (JObj (cl_facts c)) \<and> so_quarantined dup = cl_quarantined c \<and>
       so_reasons dup = cl_reasons c \<and> so_text_hash dup = text)))"

definition receipt_of :: "stored_observation \<Rightarrow> subject_memory \<Rightarrow> receipt" where
  "receipt_of x s = \<lparr>re_id = so_id x, re_status = so_status x, re_accepted = sort (keys (so_facts x)),
     re_quarantined = so_quarantined x, re_reasons = so_reasons x, re_version = sm_version s,
     re_root = sm_root s, re_mode = so_mode x, re_at = so_at x\<rparr>"

definition new_stored :: "env \<Rightarrow> string \<Rightarrow> observation \<Rightarrow> classification \<Rightarrow> subject_memory \<Rightarrow> string \<Rightarrow> stored_observation res"
where
  "new_stored E ref x c current uuid =
     ebind (domain_hash E ''source'' (JStr (obs_source x))) (\<lambda>source.
     ebind (optional_text_hash E x) (\<lambda>text.
     let s = \<lparr>so_id = ''obs_'' @ take 20 uuid, so_subject = ref, so_session = obs_session x, so_kind = obs_kind x,
              so_source = source, so_mode = obs_mode x, so_status = cl_status c, so_facts = cl_facts c,
              so_quarantined = cl_quarantined c, so_reasons = cl_reasons c, so_text_hash = text,
              so_key = obs_key x, so_at = obs_at x,
              so_previous = (if sm_version current \<noteq> 0 then sm_root current else genesis), so_hash = []\<rparr>
     in ebind (observation_hash E s) (\<lambda>h. Inr (s\<lparr>so_hash := h\<rparr>))))"

definition extended :: "subject_memory \<Rightarrow> string \<Rightarrow> stored_observation \<Rightarrow> int \<Rightarrow> subject_memory" where
  "extended current ref x now = \<lparr>sm_subject = ref, sm_version = sm_version current + 1, sm_root = so_hash x,
     sm_observations = sm_observations current @ [x], sm_updated = now\<rparr>"

definition observe :: "env \<Rightarrow> memory \<Rightarrow> observation \<Rightarrow> string \<Rightarrow> int \<Rightarrow> (memory \<times> receipt) res" where
  "observe E m x uuid now =
     ebind (observation_args x) (\<lambda>_.
     ebind (subject_ref E (obs_subject x)) (\<lambda>ref.
     let current = (case load_subject m ref of None \<Rightarrow> empty_subject ref now | Some s \<Rightarrow> s) in
     ebind (validate_subject E current) (\<lambda>_.
     ebind (classify E x) (\<lambda>c.
     case List.find (\<lambda>y. so_key y = obs_key x) (sm_observations current) of
       Some dup \<Rightarrow>
         ebind (same_request E x c dup) (\<lambda>same.
         ebind (check same (PyExc ''MemoryConflictError'')) (\<lambda>_. Inr (m, receipt_of dup current)))
     | None \<Rightarrow>
         ebind (new_stored E ref x c current uuid) (\<lambda>s.
         let updated = extended current ref s now in
         ebind (validate_subject E updated) (\<lambda>_.
         ebind (commit_observation m (sm_version current) updated) (\<lambda>m'.
         Inr (m', receipt_of s updated))))))))"

section \<open>Deciding\<close>

definition amount_arg :: "pyfloat \<Rightarrow> bool" where
  "amount_arg f \<longleftrightarrow> \<not> fle f (Fin 0) \<and> \<not> (f \<noteq> NaN \<and> \<not> fle f (Fin 1000000))"

definition intent_args :: "payment_intent \<Rightarrow> unit res" where
  "intent_args p =
     ebind (value_check (plain_identifier 3 200 (pi_subject p))) (\<lambda>_.
     ebind (value_check (machine_identifier (pi_session p))) (\<lambda>_.
     ebind (value_check (machine_identifier (pi_key p))) (\<lambda>_.
     ebind (value_check (plain_identifier 1 120 (pi_method p))) (\<lambda>_.
     ebind (value_check (method_name (pi_method p))) (\<lambda>_.
     ebind (value_check (pi_chain p \<in> {8453, 84532})) (\<lambda>_.
     ebind (value_check (evm_address (pi_target p))) (\<lambda>_.
     value_check (amount_arg (pi_amount p)))))))))"

definition safe_intent :: "string \<Rightarrow> payment_intent \<Rightarrow> payment_intent" where
  "safe_intent ref p = p\<lparr>pi_subject := ref, pi_target := lower_ascii (pi_target p)\<rparr>"

definition crosses_session :: "payment_intent \<Rightarrow> string list \<Rightarrow> stored_observation list \<Rightarrow> bool" where
  "crosses_session p causal obs \<longleftrightarrow> list_ex (\<lambda>x. so_id x \<in> set causal \<and> so_session x \<noteq> pi_session p) obs"

text \<open>\<open>clk\<close> gives the readings inside the policy, \<open>now\<close> the one of the draft.\<close>

definition decide :: "env \<Rightarrow> guard \<Rightarrow> memory \<Rightarrow> payment_intent \<Rightarrow> string \<Rightarrow> string \<Rightarrow> (nat \<Rightarrow> int) \<Rightarrow> int \<Rightarrow> (memory \<times> draft) res"
where
  "decide E G m p uuid nonce clk now =
     ebind (intent_args p) (\<lambda>_.
     ebind (subject_ref E (pi_subject p)) (\<lambda>ref.
     let s = (case load_subject m ref of None \<Rightarrow> empty_subject ref now | Some s \<Rightarrow> s) in
     ebind (validate_subject E s) (\<lambda>_.
     ebind (policy_decide E p (sm_observations s) clk) (\<lambda>po.
     let safe = safe_intent ref p in
     ebind (intent_hash E safe) (\<lambda>h.
     let d = \<lparr>dd_id = ''dec_'' @ take 20 uuid, dd_subject = ref, dd_session = pi_session p,
           dd_verdict = po_verdict po, dd_reasons = po_reasons po, dd_causal = po_causal po,
           dd_cross = crosses_session p (po_causal po) (sm_observations s), dd_version = sm_version s,
           dd_root = sm_root s, dd_policy = gd_policy_hash G, dd_intent = safe, dd_intent_hash = h,
           dd_proof = [], dd_nonce = nonce, dd_created = now, dd_expires = now + gd_ttl G * 1000000,
           dd_anchor = NotConfigured\<rparr>
     in ebind (proof_root E d) (\<lambda>r.
     let d' = d\<lparr>dd_proof := r\<rparr> in
     ebind (validate_draft E d') (\<lambda>_. Inr (save_draft m d', d'))))))))"

section \<open>Finalizing\<close>

definition final_error :: err where
  "final_error = PyExc ''FinalizationError''"

definition given :: "string option \<Rightarrow> bool" where
  "given tx = (case tx of None \<Rightarrow> False | Some s \<Rightarrow> s \<noteq> [])"

definition loaded_draft :: "env \<Rightarrow> memory \<Rightarrow> string \<Rightarrow> draft res" where
  "loaded_draft E m i =
     ebind (value_check (machine_identifier i)) (\<lambda>_.
     case load_draft m i of
       None \<Rightarrow> Inl (PyExc ''DecisionNotFoundError'')
     | Some d \<Rightarrow> ebind (validate_draft E d) (\<lambda>_. Inr d))"

text \<open>A READY draft is only finalized on the memory it was taken from.\<close>

definition memory_unchanged :: "env \<Rightarrow> memory \<Rightarrow> draft \<Rightarrow> unit res" where
  "memory_unchanged E m d =
     (if dd_verdict d \<noteq> V_Ready then Inr ()
      else case load_subject m (dd_subject d) of
        None \<Rightarrow> Inl final_error
      | Some s \<Rightarrow> ebind (validate_subject E s) (\<lambda>_.
          check (sm_version s = dd_version d \<and> sm_root s = dd_root d) final_error))"

definition final_matches :: "draft \<Rightarrow> finalization \<Rightarrow> bool" where
  "final_matches d f \<longleftrightarrow> fz_decision f = dd_id d \<and> fz_verdict f = dd_verdict d \<and> fz_proof f = dd_proof d"

definition bound_tx :: "finalization \<Rightarrow> string option" where
  "bound_tx f = (case fz_verification f of None \<Rightarrow> None | Some v \<Rightarrow> av_tx v)"

text \<open>What an existing finalization answers: \<open>Some\<close> it is returned, \<open>None\<close> the work goes on.\<close>

definition existing_answer :: "draft \<Rightarrow> string option \<Rightarrow> finalization \<Rightarrow> finalization option res" where
  "existing_answer d tx f =
     ebind (check (final_matches d f) integrity) (\<lambda>_.
     if fz_state f \<in> {Verified, LocalFinalized, Failed} then
       ebind (check (\<not> (fz_state f = Verified \<and> given tx \<and> tx \<noteq> bound_tx f)) final_error) (\<lambda>_. Inr (Some f))
     else
       ebind (check (\<not> (fz_state f = Pending \<and> given tx \<and> fz_verification f \<noteq> None \<and> tx \<noteq> bound_tx f)) final_error) (\<lambda>_.
       Inr (if given tx then None else Some f)))"

definition plain_final :: "draft \<Rightarrow> anchor_state \<Rightarrow> anchor_plan option \<Rightarrow> string list \<Rightarrow> finalization" where
  "plain_final d st plan reasons = \<lparr>fz_decision = dd_id d, fz_verdict = dd_verdict d, fz_state = st,
     fz_proof = dd_proof d, fz_executable = False, fz_plan = plan, fz_verification = None, fz_reasons = reasons\<rparr>"

text \<open>A verified READY would be executable, but the result is switched back: nothing executes.\<close>

definition verified_final :: "draft \<Rightarrow> anchor_verification \<Rightarrow> finalization" where
  "verified_final d v =
     (let executable = (dd_verdict d = V_Ready \<and> av_state v = Verified);
          reasons = av_reasons v @ (if executable then [''execution_adapter_not_implemented''] else []);
          executable' = (if executable then False else executable)
      in \<lparr>fz_decision = dd_id d, fz_verdict = dd_verdict d, fz_state = av_state v, fz_proof = dd_proof d,
          fz_executable = executable', fz_plan = None, fz_verification = Some v, fz_reasons = reasons\<rparr>)"

definition new_final :: "guard \<Rightarrow> memory \<Rightarrow> draft \<Rightarrow> string option \<Rightarrow> (memory \<times> finalization) res" where
  "new_final G m d tx =
     (case (given tx, tx) of
        (True, Some h) \<Rightarrow>
          ebind (gd_verify G d h) (\<lambda>v.
          let f = verified_final d v in
          Inr (if av_state v \<in> {Pending, Verified} then save_final m f else m, f))
      | _ \<Rightarrow>
          ebind (gd_plan G d) (\<lambda>plan.
          let f = (if plan \<noteq> None then plain_final d ConfirmationRequired plan [''user_wallet_confirmation_required'']
                   else if dd_verdict d = V_Ready then
                     plain_final d Failed None [''base_anchor_required_before_ready_can_finalize'']
                   else plain_final d LocalFinalized None [''deny_or_review_finalized_locally'', ''base_anchor_not_configured''])
          in Inr (save_final m f, f)))"

definition finalize :: "env \<Rightarrow> guard \<Rightarrow> memory \<Rightarrow> string \<Rightarrow> string option \<Rightarrow> int \<Rightarrow> (memory \<times> finalization) res" where
  "finalize E G m i tx now =
     ebind (loaded_draft E m i) (\<lambda>d.
     ebind (check (now < dd_expires d) final_error) (\<lambda>_.
     ebind (check (dd_policy d = gd_policy_hash G) final_error) (\<lambda>_.
     ebind (memory_unchanged E m d) (\<lambda>_.
     ebind (case load_final m i of None \<Rightarrow> Inr None | Some f \<Rightarrow> existing_answer d tx f) (\<lambda>answer.
     case answer of Some f \<Rightarrow> Inr (m, f) | None \<Rightarrow> new_final G m d tx)))))"

definition inspect_final :: "env \<Rightarrow> memory \<Rightarrow> string \<Rightarrow> finalization res" where
  "inspect_final E m i =
     ebind (loaded_draft E m i) (\<lambda>d.
     case load_final m i of
       None \<Rightarrow> Inl (PyExc ''DecisionNotFoundError'')
     | Some f \<Rightarrow> ebind (check (final_matches d f) integrity) (\<lambda>_. Inr f))"

end
