(* ===== verification/Mg_Facts.thy ===== *)
theory Mg_Facts
  imports Mg_Module
begin

text \<open>
  What the v1 module guarantees: which observations can ever have authority, what the policy
  answers, that the memory stays a valid hash chain, that repeating an observation changes
  nothing, and that finalization never executes and never outlives the memory it was taken from.
\<close>

section \<open>Hashes\<close>

lemma domain_hash_total: "finite_floats v \<Longrightarrow> \<exists>h. domain_hash E dm v = Inr h"
  using normalize_total(1) [of v E] by (auto simp: domain_hash_def canonical_json_def)

lemma domain_hash_str [simp]: "domain_hash E dm (JStr s) = Inr (sha256 E (domain_prefix dm @ dumps (float_repr E) (JStr (nfc E s))))"
  by (simp add: domain_hash_def canonical_json_def)

lemma text_hash_total: "\<exists>h. text_hash E s = Inr h"
  by (simp add: text_hash_def)

lemma optional_text_hash_total: "\<exists>h. optional_text_hash E x = Inr h"
  using text_hash_total by (auto simp: optional_text_hash_def ebind_eq_Inr)

lemma finite_floats_pairs_iff: "finite_floats_pairs d \<longleftrightarrow> (\<forall>p \<in> set d. finite_floats (snd p))"
  by (induction d) auto

lemma finite_payload: "finite_floats (observation_payload E x) \<longleftrightarrow> finite_floats_pairs (so_facts x)"
  by (auto simp: observation_payload_def jopt_def split: option.splits)

section \<open>Classification\<close>

text \<open>A normalized fact is a value the policy can read: text, an integer or a finite float.\<close>

lemma validate_fact_finite: "validate_fact E k key v = Inr (Inr n) \<Longrightarrow> finite_floats n"
  by (auto simp: validate_fact_def valid_amount_def float_of_int_def
      split: json.splits if_splits pyfloat.splits option.splits prod.splits bool.splits)

lemma sort_facts_spec:
  "sort_facts E k fs = Inr (acc, quar, reas) \<Longrightarrow>
     set (keys acc) \<subseteq> set (allowed_fields k) \<and>
     (\<forall>(key, n) \<in> set acc. \<exists>v. (key, v) \<in> set fs \<and> validate_fact E k key v = Inr (Inr n)) \<and>
     (\<forall>key \<in> set (keys fs). key \<in> set (keys acc) \<or> key \<in> set quar) \<and> (quar = [] \<longleftrightarrow> reas = [])"
proof (induction fs arbitrary: acc quar reas)
  case (Cons p fs)
  obtain key v where p: "p = (key, v)" by (cases p)
  from Cons.prems p obtain r acc' quar' reas' where
    r: "(if key \<in> set (allowed_fields k) then validate_fact E k key v else Inr (Inl ''unknown_fact_field'')) = Inr r"
    and rest: "sort_facts E k fs = Inr (acc', quar', reas')"
    and res: "(case r of Inr n \<Rightarrow> ((key, n) # acc', quar', reas') | Inl why \<Rightarrow> (acc', key # quar', why # reas')) = (acc, quar, reas)"
    by auto
  note IH = Cons.IH [OF rest]
  show ?case
  proof (cases r)
    case (Inr n)
    with res have e: "acc = (key, n) # acc'" "quar = quar'" "reas = reas'" by auto
    from r Inr have k: "key \<in> set (allowed_fields k)" "validate_fact E k key v = Inr (Inr n)"
      by (auto split: if_splits)
    have "\<forall>(key, n) \<in> set acc. \<exists>v. (key, v) \<in> set (p # fs) \<and> validate_fact E k key v = Inr (Inr n)"
      using IH k(2) unfolding e p by fastforce
    with IH k(1) show ?thesis unfolding e p by auto
  next
    case (Inl why)
    with res have e: "acc = acc'" "quar = key # quar'" "reas = why # reas'" by auto
    have "\<forall>(key, n) \<in> set acc. \<exists>v. (key, v) \<in> set (p # fs) \<and> validate_fact E k key v = Inr (Inr n)"
      using IH unfolding e p by fastforce
    with IH show ?thesis unfolding e p by auto
  qed
qed auto

lemma classify_Inr:
  assumes "classify E x = Inr c"
  obtains acc quar reas where "sort_facts E (obs_kind x) (obs_facts x) = Inr (acc, quar, reas)"
    "cl_facts c = (if trusted (obs_mode x) \<and> obs_kind x \<noteq> VendorNote then acc else [])"
    "has_text x \<Longrightarrow> ''raw_text'' \<in> set (cl_quarantined c)"
    "obs_kind x = VendorNote \<Longrightarrow> ''raw_text'' \<in> set (cl_quarantined c)"
    "set quar \<subseteq> set (cl_quarantined c)"
    "\<not> trusted (obs_mode x) \<Longrightarrow> set (keys acc) \<subseteq> set (cl_quarantined c)"
    "cl_status c = status_for x (cl_facts c) (cl_quarantined c)"
proof -
  from assms obtain acc quar reas where s: "sort_facts E (obs_kind x) (obs_facts x) = Inr (acc, quar, reas)"
    by (auto simp: classify_def)
  note c = assms [unfolded classify_def s ebind_Inr prod.case Let_def sum.inject]
  show ?thesis
  proof (rule that [OF s])
    show "cl_facts c = (if trusted (obs_mode x) \<and> obs_kind x \<noteq> VendorNote then acc else [])"
      "has_text x \<Longrightarrow> ''raw_text'' \<in> set (cl_quarantined c)"
      "obs_kind x = VendorNote \<Longrightarrow> ''raw_text'' \<in> set (cl_quarantined c)"
      unfolding c [symmetric] by auto
    show "set quar \<subseteq> set (cl_quarantined c)" unfolding c [symmetric] by auto
    show "\<not> trusted (obs_mode x) \<Longrightarrow> set (keys acc) \<subseteq> set (cl_quarantined c)"
      unfolding c [symmetric] by auto
    show "cl_status c = status_for x (cl_facts c) (cl_quarantined c)"
      unfolding c [symmetric] by (auto simp: status_for_def)
  qed
qed

text \<open>Without authority: an untrusted source, a vendor note, or text alone.\<close>

lemma classify_no_authority:
  assumes "classify E x = Inr c" "\<not> trusted (obs_mode x) \<or> obs_kind x = VendorNote"
  shows "cl_facts c = [] \<and> cl_status c \<in> {Quarantined, ReviewRequired}"
  using assms(1)
proof (rule classify_Inr)
  fix acc
  assume "cl_facts c = (if trusted (obs_mode x) \<and> obs_kind x \<noteq> VendorNote then acc else [])"
    "cl_status c = status_for x (cl_facts c) (cl_quarantined c)"
  with assms(2) show ?thesis by (auto simp: status_for_def)
qed

lemma classify_accepted_finite: "classify E x = Inr c \<Longrightarrow> finite_floats_pairs (cl_facts c)"
proof (erule classify_Inr)
  fix acc quar reas
  assume s: "sort_facts E (obs_kind x) (obs_facts x) = Inr (acc, quar, reas)"
    and f: "cl_facts c = (if trusted (obs_mode x) \<and> obs_kind x \<noteq> VendorNote then acc else [])"
  have "finite_floats (snd p)" if "p \<in> set acc" for p
    using sort_facts_spec [OF s] that validate_fact_finite by (cases p) fastforce
  with f show "finite_floats_pairs (cl_facts c)" by (simp add: finite_floats_pairs_iff)
qed

section \<open>The policy\<close>

lemma filter_active [simp]:
  "filter (active_for m) (filter (active_for m) xs) = filter (active_for m) xs"
  by (simp add: filter_filter)

text \<open>An observation that is not active for the mode of the intent changes no decision.\<close>

lemma policy_ignores_inactive: "policy_decide E p (filter (active_for (pi_mode p)) obs) clk = policy_decide E p obs clk"
  by (simp add: policy_decide_def)

definition revoked :: "payment_intent \<Rightarrow> stored_observation list \<Rightarrow> bool" where
  "revoked p obs \<longleftrightarrow> (\<exists>x \<in> set obs. active_for (pi_mode p) x \<and> is_revocation (lower_ascii (pi_target p)) x)"

definition disputed :: "payment_intent \<Rightarrow> stored_observation list \<Rightarrow> bool" where
  "disputed p obs \<longleftrightarrow> (\<exists>x \<in> set obs. active_for (pi_mode p) x \<and> is_dispute (lower_ascii (pi_target p)) x)"

text \<open>A baseline that covers the intent at the readings of the clock.\<close>

definition baseline_covers :: "env \<Rightarrow> payment_intent \<Rightarrow> int \<Rightarrow> stored_observation \<Rightarrow> bool" where
  "baseline_covers E p now x \<longleftrightarrow> is_baseline p (lower_ascii (pi_target p)) x \<and> active_for (pi_mode p) x \<and>
     (\<exists>limit. fact_limit (so_facts x) = Inr limit \<and> fle (pi_amount p) limit) \<and>
     fact_expired E (so_facts x) now = Inr False"

lemma valid_baselines_mem:
  "valid_baselines E p (\<lambda>_. now) i xs = Inr ys \<Longrightarrow> x \<in> set ys \<longleftrightarrow> x \<in> set xs \<and>
     (\<exists>limit. fact_limit (so_facts x) = Inr limit \<and> fle (pi_amount p) limit) \<and> fact_expired E (so_facts x) now = Inr False"
  by (induction xs arbitrary: i ys) (auto split: if_splits)

lemma policy_decide_cases:
  assumes "policy_decide E p obs (\<lambda>_. now) = Inr po"
  shows "po_verdict po = V_Deny \<longleftrightarrow> revoked p obs \<or> disputed p obs"
    "po_verdict po = V_Ready \<longleftrightarrow> \<not> revoked p obs \<and> \<not> disputed p obs \<and> (\<exists>x \<in> set obs. baseline_covers E p now x)"
    "po_verdict po \<noteq> V_MemoryUnavailable"
    "set (po_causal po) \<subseteq> so_id ` {x \<in> set obs. active_for (pi_mode p) x}"
proof -
  define act where "act = filter (active_for (pi_mode p)) obs"
  define t where "t = lower_ascii (pi_target p)"
  have r: "revoked p obs \<longleftrightarrow> filter (is_revocation t) act \<noteq> []" and d: "disputed p obs \<longleftrightarrow> filter (is_dispute t) act \<noteq> []"
    by (auto simp: revoked_def disputed_def act_def t_def filter_empty_conv)
  note P = assms [unfolded policy_decide_def Let_def act_def [symmetric] t_def [symmetric]]
  consider (rev) "revoked p obs" "po_verdict po = V_Deny" "po_causal po = map so_id (filter (is_revocation t) act)"
    | (dis) "\<not> revoked p obs" "disputed p obs" "po_verdict po = V_Deny" "po_causal po = map so_id (filter (is_dispute t) act)"
    | (rest) valid where "\<not> revoked p obs" "\<not> disputed p obs"
        "valid_baselines E p (\<lambda>_. now) 0 (filter (is_baseline p t) act) = Inr valid"
        "po_verdict po = (if valid \<noteq> [] then V_Ready else V_NeedsHuman)"
        "po_causal po = (if valid \<noteq> [] then [so_id (last valid)] else [])"
    using P r d by (auto split: if_splits)
  note cases = this
  have sub: "set valid \<subseteq> set act" if "valid_baselines E p (\<lambda>_. now) 0 (filter (is_baseline p t) act) = Inr valid" for valid
    using valid_baselines_mem [OF that] by auto
  have cov: "valid \<noteq> [] \<longleftrightarrow> (\<exists>x \<in> set obs. baseline_covers E p now x)"
    if "valid_baselines E p (\<lambda>_. now) 0 (filter (is_baseline p t) act) = Inr valid" for valid
  proof -
    have "valid \<noteq> [] \<longleftrightarrow> (\<exists>x. x \<in> set valid)" by (simp add: ex_in_conv)
    also have "\<dots> \<longleftrightarrow> (\<exists>x \<in> set obs. baseline_covers E p now x)"
      unfolding valid_baselines_mem [OF that] by (auto simp: act_def baseline_covers_def t_def)
    finally show ?thesis .
  qed
  have act: "so_id ` set act = so_id ` {x \<in> set obs. active_for (pi_mode p) x}" by (simp add: act_def)
  show "po_verdict po = V_Deny \<longleftrightarrow> revoked p obs \<or> disputed p obs"
    using cases by cases auto
  show "po_verdict po = V_Ready \<longleftrightarrow> \<not> revoked p obs \<and> \<not> disputed p obs \<and> (\<exists>x \<in> set obs. baseline_covers E p now x)"
    using cases by cases (use cov in auto)
  show "po_verdict po \<noteq> V_MemoryUnavailable" using cases by cases auto
  have "set (po_causal po) \<subseteq> so_id ` set act"
    using cases
  proof cases
    case (rest valid)
    from sub [OF rest(3)] have "valid \<noteq> [] \<Longrightarrow> last valid \<in> set act" by auto
    with rest(5) show ?thesis by auto
  qed auto
  then show "set (po_causal po) \<subseteq> so_id ` {x \<in> set obs. active_for (pi_mode p) x}" unfolding act .
qed

section \<open>The hash chain\<close>

lemma chain_root_snoc:
  "chain_root E ref g (xs @ [x]) = Inr r \<longleftrightarrow>
     (\<exists>p. chain_root E ref g xs = Inr p \<and> so_subject x = ref \<and> so_previous x = p \<and>
       observation_hash E x = Inr r \<and> so_hash x = r)"
  by (induction xs arbitrary: g) (auto simp: ebind_eq_Inr)

lemma chain_root_Nil_iff: "chain_root E ref g xs = Inr r \<Longrightarrow> xs = [] \<Longrightarrow> r = g"
  by simp

lemma validate_subject_Inr:
  "validate_subject E s = Inr () \<longleftrightarrow> sm_version s = int (length (sm_observations s)) \<and>
     chain_root E (sm_subject s) genesis (sm_observations s) = Inr (sm_root s)"
  by (auto simp: validate_subject_def)

definition memory_ok :: "env \<Rightarrow> memory \<Rightarrow> bool" where
  "memory_ok E m \<longleftrightarrow> (\<forall>ref s. load_subject m ref = Some s \<longrightarrow> sm_subject s = ref \<and> validate_subject E s = Inr ()) \<and>
     (\<forall>i f. load_final m i = Some f \<longrightarrow> \<not> fz_executable f)"

lemma empty_subject_valid: "validate_subject E (empty_subject ref now) = Inr ()"
  by (simp add: validate_subject_Inr empty_subject_def genesis_def)

text \<open>The subject an operation works on.\<close>

definition current_subject :: "memory \<Rightarrow> string \<Rightarrow> int \<Rightarrow> subject_memory" where
  "current_subject m ref now = (case load_subject m ref of None \<Rightarrow> empty_subject ref now | Some s \<Rightarrow> s)"

lemma observe_Inr:
  assumes "observe E m x uuid now = Inr (m', r)"
  obtains ref c where "subject_ref E (obs_subject x) = Inr ref" "observation_args x = Inr ()"
    "validate_subject E (current_subject m ref now) = Inr ()" "classify E x = Inr c"
    "(m' = m \<and> (\<exists>dup. List.find (\<lambda>y. so_key y = obs_key x) (sm_observations (current_subject m ref now)) = Some dup \<and>
        same_request E x c dup = Inr True \<and> r = receipt_of dup (current_subject m ref now))) \<or>
     (\<exists>s. List.find (\<lambda>y. so_key y = obs_key x) (sm_observations (current_subject m ref now)) = None \<and>
        new_stored E ref x c (current_subject m ref now) uuid = Inr s \<and>
        validate_subject E (extended (current_subject m ref now) ref s now) = Inr () \<and>
        m' = m\<lparr>mm_subjects := dset ref (extended (current_subject m ref now) ref s now) (mm_subjects m)\<rparr> \<and>
        r = receipt_of s (extended (current_subject m ref now) ref s now))"
proof -
  from assms obtain ref c where a: "subject_ref E (obs_subject x) = Inr ref" "observation_args x = Inr ()"
    "validate_subject E (current_subject m ref now) = Inr ()" "classify E x = Inr c"
    and res: "(case List.find (\<lambda>y. so_key y = obs_key x) (sm_observations (current_subject m ref now)) of
       Some dup \<Rightarrow>
         ebind (same_request E x c dup) (\<lambda>same.
         ebind (check same (PyExc ''MemoryConflictError'')) (\<lambda>_. Inr (m, receipt_of dup (current_subject m ref now))))
     | None \<Rightarrow>
         ebind (new_stored E ref x c (current_subject m ref now) uuid) (\<lambda>s.
         ebind (validate_subject E (extended (current_subject m ref now) ref s now)) (\<lambda>_.
         ebind (commit_observation m (sm_version (current_subject m ref now)) (extended (current_subject m ref now) ref s now)) (\<lambda>m'.
         Inr (m', receipt_of s (extended (current_subject m ref now) ref s now)))))) = Inr (m', r)"
    unfolding observe_def Let_def current_subject_def [symmetric] by (elim ebind_InrE) auto
  have "sm_subject (extended q ref s n) = ref" for q s n by (simp add: extended_def)
  with res show ?thesis
    by (intro that [OF a]) (auto simp: commit_observation_def Let_def split: option.splits if_splits)
qed

section \<open>Memory after an operation\<close>

lemma new_stored_Inr:
  assumes "new_stored E ref x c q uuid = Inr s"
  obtains src th where "domain_hash E ''source'' (JStr (obs_source x)) = Inr src"
    "optional_text_hash E x = Inr th" "so_kind s = obs_kind x" "so_source s = src" "so_mode s = obs_mode x"
    "so_facts s = cl_facts c" "so_quarantined s = cl_quarantined c" "so_reasons s = cl_reasons c"
    "so_text_hash s = th" "so_key s = obs_key x" "so_status s = cl_status c" "so_subject s = ref"
    "so_id s = ''obs_'' @ take 20 uuid" "so_session s = obs_session x"
    "so_previous s = (if sm_version q \<noteq> 0 then sm_root q else genesis)" "observation_hash E s = Inr (so_hash s)"
proof -
  from assms obtain src th h where st: "domain_hash E ''source'' (JStr (obs_source x)) = Inr src"
    "optional_text_hash E x = Inr th" and h: "observation_hash E
       \<lparr>so_id = ''obs_'' @ take 20 uuid, so_subject = ref, so_session = obs_session x, so_kind = obs_kind x,
              so_source = src, so_mode = obs_mode x, so_status = cl_status c, so_facts = cl_facts c,
              so_quarantined = cl_quarantined c, so_reasons = cl_reasons c, so_text_hash = th,
              so_key = obs_key x, so_at = obs_at x,
              so_previous = (if sm_version q \<noteq> 0 then sm_root q else genesis), so_hash = []\<rparr> = Inr h"
    and s: "s = \<lparr>so_id = ''obs_'' @ take 20 uuid, so_subject = ref, so_session = obs_session x, so_kind = obs_kind x,
              so_source = src, so_mode = obs_mode x, so_status = cl_status c, so_facts = cl_facts c,
              so_quarantined = cl_quarantined c, so_reasons = cl_reasons c, so_text_hash = th,
              so_key = obs_key x, so_at = obs_at x,
              so_previous = (if sm_version q \<noteq> 0 then sm_root q else genesis), so_hash = h\<rparr>"
    unfolding new_stored_def Let_def by auto
  have "observation_hash E s = Inr h" using h unfolding s by (simp add: observation_hash_def observation_payload_def)
  with st s show ?thesis by (intro that [of src th]) simp_all
qed

text \<open>The observations of a subject only grow, by one, at the end; others stay as they are.\<close>

lemma observe_appends:
  assumes "observe E m x uuid now = Inr (m', r)"
  shows "\<exists>ref. subject_ref E (obs_subject x) = Inr ref \<and>
    (\<forall>ref'. ref' \<noteq> ref \<longrightarrow> load_subject m' ref' = load_subject m ref') \<and>
    (m' = m \<or> (\<exists>s. load_subject m' ref = Some (extended (current_subject m ref now) ref s now) \<and>
       re_id r = so_id s \<and> so_key s = obs_key x)) \<and> mm_drafts m' = mm_drafts m \<and> mm_finals m' = mm_finals m"
  using assms
proof (rule observe_Inr)
  fix ref c
  assume ref: "subject_ref E (obs_subject x) = Inr ref" and
    d: "m' = m \<and> (\<exists>dup. List.find (\<lambda>y. so_key y = obs_key x) (sm_observations (current_subject m ref now)) = Some dup \<and>
        same_request E x c dup = Inr True \<and> r = receipt_of dup (current_subject m ref now)) \<or>
     (\<exists>s. List.find (\<lambda>y. so_key y = obs_key x) (sm_observations (current_subject m ref now)) = None \<and>
        new_stored E ref x c (current_subject m ref now) uuid = Inr s \<and>
        validate_subject E (extended (current_subject m ref now) ref s now) = Inr () \<and>
        m' = m\<lparr>mm_subjects := dset ref (extended (current_subject m ref now) ref s now) (mm_subjects m)\<rparr> \<and>
        r = receipt_of s (extended (current_subject m ref now) ref s now))"
  from d show ?thesis
  proof (elim disjE exE conjE)
    fix s
    assume n: "new_stored E ref x c (current_subject m ref now) uuid = Inr s"
      and m': "m' = m\<lparr>mm_subjects := dset ref (extended (current_subject m ref now) ref s now) (mm_subjects m)\<rparr>"
      and r: "r = receipt_of s (extended (current_subject m ref now) ref s now)"
    have "so_key s = obs_key x" using n by (rule new_stored_Inr)
    then show ?thesis using ref m' r by (auto simp: load_subject_def receipt_of_def)
  qed (use ref in auto)
qed

lemma observe_keeps:
  assumes ok: "memory_ok E m" and o: "observe E m x uuid now = Inr (m', r)"
  shows "memory_ok E m'"
  using o
proof (rule observe_Inr)
  fix ref c
  assume d: "m' = m \<and> (\<exists>dup. List.find (\<lambda>y. so_key y = obs_key x) (sm_observations (current_subject m ref now)) = Some dup \<and>
        same_request E x c dup = Inr True \<and> r = receipt_of dup (current_subject m ref now)) \<or>
     (\<exists>s. List.find (\<lambda>y. so_key y = obs_key x) (sm_observations (current_subject m ref now)) = None \<and>
        new_stored E ref x c (current_subject m ref now) uuid = Inr s \<and>
        validate_subject E (extended (current_subject m ref now) ref s now) = Inr () \<and>
        m' = m\<lparr>mm_subjects := dset ref (extended (current_subject m ref now) ref s now) (mm_subjects m)\<rparr> \<and>
        r = receipt_of s (extended (current_subject m ref now) ref s now))"
  have sub: "sm_subject (extended q ref s now) = ref" for q s by (simp add: extended_def)
  from d ok show ?thesis
    by (elim disjE exE conjE) (auto simp: memory_ok_def load_subject_def load_final_def sub)
qed

text \<open>Sending the same observation again answers the same receipt and changes nothing.\<close>

lemma find_append_None: "List.find P xs = None \<Longrightarrow> P x \<Longrightarrow> List.find P (xs @ [x]) = Some x"
  by (induction xs) (auto split: if_splits)

lemma observe_again:
  assumes o: "observe E m x uuid now = Inr (m', r)"
  shows "\<exists>r'. observe E m' x uuid' now' = Inr (m', r') \<and> re_id r' = re_id r \<and> re_version r' = re_version r \<and>
    re_root r' = re_root r"
  using o
proof (rule observe_Inr)
  fix ref c
  assume a: "subject_ref E (obs_subject x) = Inr ref" "observation_args x = Inr ()" "classify E x = Inr c"
    and v: "validate_subject E (current_subject m ref now) = Inr ()"
    and d: "m' = m \<and> (\<exists>dup. List.find (\<lambda>y. so_key y = obs_key x) (sm_observations (current_subject m ref now)) = Some dup \<and>
        same_request E x c dup = Inr True \<and> r = receipt_of dup (current_subject m ref now)) \<or>
     (\<exists>s. List.find (\<lambda>y. so_key y = obs_key x) (sm_observations (current_subject m ref now)) = None \<and>
        new_stored E ref x c (current_subject m ref now) uuid = Inr s \<and>
        validate_subject E (extended (current_subject m ref now) ref s now) = Inr () \<and>
        m' = m\<lparr>mm_subjects := dset ref (extended (current_subject m ref now) ref s now) (mm_subjects m)\<rparr> \<and>
        r = receipt_of s (extended (current_subject m ref now) ref s now))"
  have again: "observe E m' x uuid' now' = Inr (m', receipt_of dup q)"
    if "validate_subject E q = Inr ()" "current_subject m' ref now' = q"
      "List.find (\<lambda>y. so_key y = obs_key x) (sm_observations q) = Some dup" "same_request E x c dup = Inr True" for q dup
    using that a unfolding observe_def current_subject_def [symmetric] by (simp add: Let_def)
  from d show ?thesis
  proof (elim disjE exE conjE)
    fix dup
    assume m': "m' = m" and f: "List.find (\<lambda>y. so_key y = obs_key x) (sm_observations (current_subject m ref now)) = Some dup"
      and s: "same_request E x c dup = Inr True" and r: "r = receipt_of dup (current_subject m ref now)"
    from f have "current_subject m ref now = current_subject m ref now'"
      by (cases "load_subject m ref") (auto simp: current_subject_def empty_subject_def)
    with again [OF v _ f s] m' r show ?thesis by auto
  next
    fix s
    assume f: "List.find (\<lambda>y. so_key y = obs_key x) (sm_observations (current_subject m ref now)) = None"
      and n: "new_stored E ref x c (current_subject m ref now) uuid = Inr s"
      and w: "validate_subject E (extended (current_subject m ref now) ref s now) = Inr ()"
      and m': "m' = m\<lparr>mm_subjects := dset ref (extended (current_subject m ref now) ref s now) (mm_subjects m)\<rparr>"
      and r: "r = receipt_of s (extended (current_subject m ref now) ref s now)"
    have k: "so_key s = obs_key x" using n by (rule new_stored_Inr)
    have "List.find (\<lambda>y. so_key y = obs_key x) (sm_observations (extended (current_subject m ref now) ref s now)) = Some s"
      using find_append_None [OF f] k by (simp add: extended_def)
    moreover have "same_request E x c s = Inr True"
      using n by (rule new_stored_Inr) (simp add: same_request_def)
    moreover have "current_subject m' ref now' = extended (current_subject m ref now) ref s now"
      by (simp add: m' current_subject_def load_subject_def)
    ultimately show ?thesis using again [OF w] r by auto
  qed
qed

section \<open>Drafts and finalization\<close>

lemma decide_Inr:
  assumes "decide E G m p uuid nonce clk now = Inr (m', d)"
  obtains ref where "subject_ref E (pi_subject p) = Inr ref" "intent_args p = Inr ()" "validate_draft E d = Inr ()"
    "validate_subject E (current_subject m ref now) = Inr ()"
    "\<exists>po. policy_decide E p (sm_observations (current_subject m ref now)) clk = Inr po \<and>
       dd_verdict d = po_verdict po \<and> dd_reasons d = po_reasons po \<and> dd_causal d = po_causal po"
    "dd_subject d = ref" "dd_version d = sm_version (current_subject m ref now)"
    "dd_root d = sm_root (current_subject m ref now)" "dd_expires d = now + gd_ttl G * 1000000"
    "dd_policy d = gd_policy_hash G" "m' = save_draft m d" "dd_id d = ''dec_'' @ take 20 uuid"
  using assms
  unfolding decide_def Let_def current_subject_def [symmetric] by (elim ebind_InrE) auto

lemma decide_keeps: "memory_ok E m \<Longrightarrow> decide E G m p uuid nonce clk now = Inr (m', d) \<Longrightarrow> memory_ok E m'"
  by (erule decide_Inr) (simp add: memory_ok_def save_draft_def load_subject_def load_final_def)

lemma existing_answer_same: "existing_answer d tx f = Inr (Some g) \<Longrightarrow> g = f"
  by (auto simp: existing_answer_def split: if_splits)

lemma verified_final_simps [simp]: "\<not> fz_executable (verified_final d v)" "final_matches d (verified_final d v)"
  by (simp_all add: verified_final_def Let_def final_matches_def)

lemma plain_final_simps [simp]: "\<not> fz_executable (plain_final d st plan rs)" "final_matches d (plain_final d st plan rs)"
  by (simp_all add: plain_final_def final_matches_def)

lemma new_final_spec:
  assumes "new_final G m d tx = Inr (m', f)"
  shows "\<not> fz_executable f" "m' = m \<or> m' = save_final m f" "final_matches d f"
proof -
  consider (verified) h v where "tx = Some h" "gd_verify G d h = Inr v" "f = verified_final d v" "m' = m \<or> m' = save_final m f"
    | (plain) st plan rs where "f = plain_final d st plan rs" "m' = save_final m f"
  proof (cases "given tx")
    case True
    then obtain h where h: "tx = Some h" by (auto simp: given_def split: option.splits)
    with assms True obtain v where v: "gd_verify G d h = Inr v"
      and r: "m' = (if av_state v \<in> {Pending, Verified} then save_final m f else m)" "f = verified_final d v"
      by (auto simp: new_final_def Let_def elim!: ebind_InrE split: if_splits)
    from r(1) have "m' = m \<or> m' = save_final m f" by (simp split: if_splits)
    with that(1) [OF h v r(2)] show ?thesis .
  next
    case False
    with assms obtain plan where "(let f = (if plan \<noteq> None then plain_final d ConfirmationRequired plan [''user_wallet_confirmation_required'']
                   else if dd_verdict d = V_Ready then
                     plain_final d Failed None [''base_anchor_required_before_ready_can_finalize'']
                   else plain_final d LocalFinalized None [''deny_or_review_finalized_locally'', ''base_anchor_not_configured''])
          in Inr (save_final m f, f)) = (Inr (m', f) :: (memory \<times> finalization) res)"
      by (auto simp: new_final_def elim!: ebind_InrE)
    then show ?thesis by (cases "plan \<noteq> None"; cases "dd_verdict d = V_Ready") (auto simp: Let_def intro: that(2))
  qed
  note cases = this
  show "\<not> fz_executable f" using cases by cases simp_all
  show "m' = m \<or> m' = save_final m f" using cases by cases auto
  show "final_matches d f" using cases by cases simp_all
qed

lemma finalize_Inr:
  assumes "finalize E G m i tx now = Inr (m', f)"
  obtains d where "loaded_draft E m i = Inr d" "now < dd_expires d" "dd_policy d = gd_policy_hash G"
    "memory_unchanged E m d = Inr ()"
    "(m' = m \<and> load_final m i = Some f) \<or> new_final G m d tx = Inr (m', f)"
proof -
  from assms obtain d answer where d: "loaded_draft E m i = Inr d" "\<not> now \<ge> dd_expires d" "dd_policy d = gd_policy_hash G"
    "memory_unchanged E m d = Inr ()"
    and an: "(case load_final m i of None \<Rightarrow> Inr None | Some f \<Rightarrow> existing_answer d tx f) = Inr answer"
    and res: "(case answer of Some f \<Rightarrow> Inr (m, f) | None \<Rightarrow> new_final G m d tx) = Inr (m', f)"
    unfolding finalize_def by (elim ebind_InrE) (rule that, auto)
  have "(m' = m \<and> load_final m i = Some f) \<or> new_final G m d tx = Inr (m', f)"
  proof (cases answer)
    case None
    with res show ?thesis by simp
  next
    case (Some g)
    with an obtain g' where "load_final m i = Some g'" "existing_answer d tx g' = Inr (Some g)"
      by (cases "load_final m i") auto
    with existing_answer_same [OF this(2)] Some res show ?thesis by simp
  qed
  then show ?thesis using that [OF d(1) _ d(3,4)] d(2) by simp
qed

lemma save_final_keeps: "memory_ok E m \<Longrightarrow> \<not> fz_executable f \<Longrightarrow> memory_ok E (save_final m f)"
  by (simp add: memory_ok_def save_final_def load_subject_def load_final_def)

lemma finalize_keeps:
  assumes ok: "memory_ok E m" and f: "finalize E G m i tx now = Inr (m', f)"
  shows "memory_ok E m' \<and> \<not> fz_executable f"
  using f
proof (rule finalize_Inr)
  fix d
  assume "(m' = m \<and> load_final m i = Some f) \<or> new_final G m d tx = Inr (m', f)"
  then show ?thesis
  proof
    assume n: "new_final G m d tx = Inr (m', f)"
    with new_final_spec(1,2) [OF n] ok save_final_keeps show ?thesis by auto
  next
    assume "m' = m \<and> load_final m i = Some f"
    with ok show ?thesis unfolding memory_ok_def by blast
  qed
qed

text \<open>A READY draft is bound to the memory: any further observation of the subject stops it.\<close>

lemma finalize_bound:
  assumes "finalize E G m i tx now = Inr (m', f)" "load_draft m i = Some d" "dd_verdict d = V_Ready"
  shows "\<exists>s. load_subject m (dd_subject d) = Some s \<and> validate_subject E s = Inr () \<and>
    sm_version s = dd_version d \<and> sm_root s = dd_root d"
  using assms(1)
proof (rule finalize_Inr)
  fix e
  assume "loaded_draft E m i = Inr e" "memory_unchanged E m e = Inr ()"
  with assms(2,3) show ?thesis
    by (auto simp: loaded_draft_def memory_unchanged_def split: option.splits if_splits)
qed

end
