(* ===== verification/Mg_Example.thy ===== *)
theory Mg_Example
  imports Mg_Facts
begin

text \<open>
  A run of the v1 module, evaluated step by step: a trusted baseline, a READY draft taken from it,
  a revocation of the target, and the drafts and finalizations around it. The hash of this
  environment is a constant, so that every chain of records is well formed.
\<close>

definition M0 :: env where
  "M0 = \<lparr>sha256 = (\<lambda>_. ''h''), float_repr = (\<lambda>_. ''0.5''), float_text = (\<lambda>_. Fin 0), iso_time = (\<lambda>_. ''t''), dump_time = (\<lambda>_. ''t''),
     parse_time = (\<lambda>_. Some (1000000000, True)), nfc = (\<lambda>s. s), uni_lower = (\<lambda>s. s),
     runtime_id = ''r'', process_id = 1, build_commit = ''c''\<rparr>"

lemma M0_simps [simp]: "parse_time M0 s = Some (1000000000, True)" "iso_time M0 t = ''t''" "nfc M0 s = s"
  "uni_lower M0 s = s" "sha256 M0 s = ''h''"
  by (simp_all add: M0_def)

lemma domain_hash_M0 [simp]: "finite_floats v \<Longrightarrow> domain_hash M0 dm v = Inr ''h''"
  using normalize_total(1) [of v M0] by (auto simp: domain_hash_def canonical_json_def M0_def)

definition address :: string where
  "address = ''0x0123456789012345678901234567890123456789''"

definition approval :: observation where
  "approval = \<lparr>obs_subject = ''user'', obs_session = ''session-1'', obs_kind = BaselineApproved, obs_source = ''desk'',
     obs_facts = [(''target'', JStr address), (''chain_id'', JInt 8453), (''method'', JStr ''pay''),
       (''max_amount_usd'', JInt 10)],
     obs_text = None, obs_mode = IdentityVerified, obs_key = ''approval-1'', obs_at = 1\<rparr>"

definition revocation :: observation where
  "revocation = \<lparr>obs_subject = ''user'', obs_session = ''session-2'', obs_kind = TargetRevoked, obs_source = ''desk'',
     obs_facts = [(''target'', JStr address), (''reason_code'', JStr ''user_revoked'')],
     obs_text = None, obs_mode = IdentityVerified, obs_key = ''revoked-1'', obs_at = 2\<rparr>"

definition payment :: payment_intent where
  "payment = \<lparr>pi_subject = ''user'', pi_session = ''session-3'', pi_chain = 8453, pi_target = address, pi_method = ''pay'',
     pi_amount = Fin 5, pi_key = ''payment-1'', pi_mode = IdentityVerified, pi_created = 3\<rparr>"

definition G0 :: guard where
  "G0 = \<lparr>gd_policy_hash = ''h'', gd_ttl = 60, gd_plan = (\<lambda>_. Inr None),
     gd_verify = (\<lambda>_ _. Inl (PyExc ''FinalizationError''))\<rparr>"

definition empty_memory :: memory where
  "empty_memory = \<lparr>mm_subjects = [], mm_drafts = [], mm_finals = []\<rparr>"

definition stored1 :: stored_observation where
  "stored1 = \<lparr>so_id = ''obs_a'', so_subject = ''h'', so_session = ''session-1'', so_kind = BaselineApproved, so_source = ''h'',
     so_mode = IdentityVerified, so_status = Accepted, so_facts = [(''target'', JStr address), (''chain_id'', JInt 8453),
       (''method'', JStr ''pay''), (''max_amount_usd'', JFloat (Fin 10))],
     so_quarantined = [], so_reasons = [''structured_fact_accepted''], so_text_hash = None, so_key = ''approval-1'',
     so_at = 1, so_previous = genesis, so_hash = ''h''\<rparr>"

definition stored2 :: stored_observation where
  "stored2 = \<lparr>so_id = ''obs_b'', so_subject = ''h'', so_session = ''session-2'', so_kind = TargetRevoked, so_source = ''h'',
     so_mode = IdentityVerified, so_status = Accepted, so_facts = [(''target'', JStr address), (''reason_code'', JStr ''user_revoked'')],
     so_quarantined = [], so_reasons = [''structured_fact_accepted''], so_text_hash = None, so_key = ''revoked-1'',
     so_at = 2, so_previous = ''h'', so_hash = ''h''\<rparr>"

definition subject1 :: subject_memory where
  "subject1 = \<lparr>sm_subject = ''h'', sm_version = 1, sm_root = ''h'', sm_observations = [stored1], sm_updated = 5\<rparr>"
definition subject2 :: subject_memory where
  "subject2 = \<lparr>sm_subject = ''h'', sm_version = 2, sm_root = ''h'', sm_observations = [stored1, stored2], sm_updated = 6\<rparr>"

definition draft1 :: draft where
  "draft1 = \<lparr>dd_id = ''dec_00000001'', dd_subject = ''h'', dd_session = ''session-3'', dd_verdict = V_Ready,
     dd_reasons = [''trusted_baseline_recalled'', ''human_confirmation_still_required''], dd_causal = [''obs_a''],
     dd_cross = True, dd_version = 1, dd_root = ''h'', dd_policy = ''h'', dd_intent = payment\<lparr>pi_subject := ''h''\<rparr>,
     dd_intent_hash = ''h'', dd_proof = ''h'', dd_nonce = ''n'', dd_created = 5, dd_expires = 60000005, dd_anchor = NotConfigured\<rparr>"

definition m1 :: memory where "m1 = \<lparr>mm_subjects = [(''h'', subject1)], mm_drafts = [], mm_finals = []\<rparr>"
definition m2 :: memory where "m2 = m1\<lparr>mm_drafts := [(''dec_00000001'', draft1)]\<rparr>"
definition m3 :: memory where "m3 = m2\<lparr>mm_subjects := [(''h'', subject2)]\<rparr>"

lemmas mg_parts = stored1_def stored2_def subject1_def subject2_def draft1_def m1_def m2_def m3_def empty_memory_def
  approval_def revocation_def payment_def G0_def

text \<open>Printable ASCII is not stripped.\<close>

definition printable :: "char \<Rightarrow> bool" where
  "printable c \<longleftrightarrow> 32 < (of_char c :: nat) \<and> (of_char c :: nat) < 128"

lemma code_points_printable: "list_all printable s \<Longrightarrow> code_points s = map (\<lambda>c. [c]) s"
  by (induction s) (auto simp: printable_def split: list.splits)

lemma printable_no_space: "printable c \<Longrightarrow> \<not> is_space [c]"
  by (auto simp: is_space_def spaces_def printable_def)

lemma py_strip_printable:
  assumes "list_all printable s"
  shows "py_strip s = s"
proof -
  have d: "dropWhile is_space (map (\<lambda>c. [c]) t) = map (\<lambda>c. [c]) t" if "list_all printable t" for t
    using that by (cases t) (auto simp: printable_no_space)
  have "concat (map (\<lambda>c. [c]) s) = s" by (induction s) auto
  with assms d [of s] d [of "rev s"] show ?thesis
    by (simp add: py_strip_def code_points_printable rev_map)
qed

lemma py_len_printable: "list_all printable s \<Longrightarrow> py_len s = length s"
  by (induction s) (auto simp: py_len_def printable_def)

lemma plain_printable: "list_all printable s \<Longrightarrow> lo \<le> length s \<Longrightarrow> length s \<le> hi \<Longrightarrow> plain_identifier lo hi s"
  by (auto simp: plain_identifier_def py_strip_printable py_len_printable printable_def list_all_iff)

lemma machine_printable:
  "list_all printable s \<Longrightarrow> 8 \<le> length s \<Longrightarrow> length s \<le> 128 \<Longrightarrow> is_alnum (hd s) \<Longrightarrow> list_all machine_char (tl s) \<Longrightarrow> machine_identifier s"
  by (cases s) (auto simp: machine_identifier_def plain_printable)

lemmas char_class_defs = printable_def machine_char_def is_alnum_def is_alpha_def is_digit_def is_lower_def is_upper_def is_hex_def

lemma plain_ids [simp]: "plain_identifier 3 200 ''user''" "plain_identifier 3 200 ''desk''" "plain_identifier (Suc 0) 120 ''pay''"
  by (rule plain_printable, simp_all add: printable_def)+

lemma machine_ids [simp]: "machine_identifier ''session-1''" "machine_identifier ''session-2''" "machine_identifier ''session-3''"
  "machine_identifier ''approval-1''" "machine_identifier ''revoked-1''" "machine_identifier ''payment-1''"
  "machine_identifier ''dec_00000001''"
  by (rule machine_printable, simp_all add: char_class_defs)+

lemma other_ids [simp]: "method_name ''pay''" "evm_address address" "lower_ascii address = address"
  by (simp_all add: method_name_def evm_address_def lower_ascii_def address_def char_class_defs)

lemma subject_ref_M0 [simp]: "subject_ref M0 s = Inr ''h''"
  by (simp add: subject_ref_def)

lemmas observe_defs = observe_def observation_args_def value_check_def load_subject_def validate_subject_def
  commit_observation_def new_stored_def extended_def receipt_of_def observation_hash_def observation_payload_def
  optional_text_hash_def empty_subject_def genesis_def Let_def classify_def validate_fact_def has_text_def status_for_def
  trusted_def valid_amount_def float_of_int_def sorted_set_def jopt_def

lemma observed1: "\<exists>r. observe M0 empty_memory approval ''a'' 5 = Inr (m1, r)"
  by (simp add: observe_defs mg_parts)

lemma observed2: "\<exists>r. observe M0 m2 revocation ''b'' 6 = Inr (m3, r)"
  by (simp add: observe_defs mg_parts revocation_reasons_def)

lemmas decide_defs = decide_def intent_args_def value_check_def amount_arg_def load_subject_def validate_subject_def
  observation_hash_def observation_payload_def policy_decide_def active_for_def is_revocation_def is_dispute_def is_baseline_def
  fact_is_def fact_limit_def fact_expired_def crosses_session_def safe_intent_def intent_hash_def intent_payload_def
  proof_root_def proof_payload_def validate_draft_def save_draft_def Let_def jget_def jopt_def genesis_def trusted_def

lemma decided1: "decide M0 G0 m1 payment ''00000001'' ''n'' (\<lambda>_. 5) 5 = Inr (m2, draft1)"
  by (simp add: decide_defs mg_parts)

end
