(* ===== verification/Mg_Claims.thy ===== *)
theory Mg_Claims
  imports Mg_Example
begin

text \<open>
  The properties of the v1 module, each followed by a witness at a concrete input. The lemmas
  that carry them are in \<^verbatim>\<open>Mg_Facts\<close>.
\<close>

section \<open>What an observation can do\<close>

text \<open>C28: an observation from an untrusted source, or a vendor note from any source, never contributes
  an accepted fact, and its status is one the policy ignores.\<close>

theorem untrusted_has_no_authority:
  assumes "classify E x = Inr c" "\<not> trusted (obs_mode x) \<or> obs_kind x = VendorNote"
  shows "cl_facts c = [] \<and> cl_status c \<notin> {Accepted, PartiallyAccepted}"
  using classify_no_authority [OF assms] by auto

theorem untrusted_has_no_authority_witness:
  "\<exists>c. classify M0 (approval\<lparr>obs_mode := CallerSupplied\<rparr>) = Inr c \<and> cl_facts c = [] \<and> cl_status c = ReviewRequired"
proof -
  have "\<exists>c. classify M0 (approval\<lparr>obs_mode := CallerSupplied\<rparr>) = Inr c \<and> cl_status c = ReviewRequired"
    by (simp add: observe_defs mg_parts)
  then obtain c where c: "classify M0 (approval\<lparr>obs_mode := CallerSupplied\<rparr>) = Inr c" "cl_status c = ReviewRequired" by blast
  from untrusted_has_no_authority [OF c(1)] c show ?thesis by (auto simp: trusted_def)
qed

text \<open>An accepted fact has a field of the kind of the observation and is the normal form of a value
  that was sent under that field; a text is always quarantined.\<close>

theorem accepted_facts_are_validated:
  assumes "classify E x = Inr c"
  shows "(\<forall>(key, n) \<in> set (cl_facts c). key \<in> set (allowed_fields (obs_kind x)) \<and>
      (\<exists>v. (key, v) \<in> set (obs_facts x) \<and> validate_fact E (obs_kind x) key v = Inr (Inr n))) \<and>
    (has_text x \<longrightarrow> ''raw_text'' \<in> set (cl_quarantined c))"
  using assms
proof (rule classify_Inr)
  fix acc quar reas
  assume s: "sort_facts E (obs_kind x) (obs_facts x) = Inr (acc, quar, reas)"
    and f: "cl_facts c = (if trusted (obs_mode x) \<and> obs_kind x \<noteq> VendorNote then acc else [])"
    and t: "has_text x \<Longrightarrow> ''raw_text'' \<in> set (cl_quarantined c)"
  from sort_facts_spec [OF s] f t show ?thesis by (auto simp: image_subset_iff)
qed

theorem accepted_facts_are_validated_witness:
  "\<exists>c. classify M0 (revocation\<lparr>obs_text := Some ''hi''\<rparr>) = Inr c \<and> cl_facts c \<noteq> [] \<and> ''raw_text'' \<in> set (cl_quarantined c) \<and>
    fst (hd (cl_facts c)) \<in> set (allowed_fields TargetRevoked)"
proof -
  have "\<exists>c. classify M0 (revocation\<lparr>obs_text := Some ''hi''\<rparr>) = Inr c \<and> cl_facts c \<noteq> []"
    by (simp add: observe_defs mg_parts revocation_reasons_def)
  then obtain c where c: "classify M0 (revocation\<lparr>obs_text := Some ''hi''\<rparr>) = Inr c" "cl_facts c \<noteq> []" by blast
  then have "hd (cl_facts c) \<in> set (cl_facts c)" by simp
  with accepted_facts_are_validated [OF c(1)] c show ?thesis
    by (intro exI [of _ c]) (auto simp: has_text_def revocation_def split_beta)
qed

text \<open>C29: the policy denies exactly when an active observation revokes or disputes the target; otherwise
  it is READY exactly when an active baseline covers the payment and has not expired; every memory it
  names as the cause is an active observation.\<close>

theorem policy_priority:
  assumes "policy_decide E p obs (\<lambda>_. now) = Inr po"
  shows "(po_verdict po = V_Deny \<longleftrightarrow> revoked p obs \<or> disputed p obs) \<and>
    (po_verdict po = V_Ready \<longleftrightarrow> \<not> revoked p obs \<and> \<not> disputed p obs \<and> (\<exists>x \<in> set obs. baseline_covers E p now x)) \<and>
    set (po_causal po) \<subseteq> so_id ` {x \<in> set obs. active_for (pi_mode p) x}"
  using policy_decide_cases [OF assms] by blast

theorem policy_priority_witness:
  "\<exists>po. policy_decide M0 payment [stored1, stored2] (\<lambda>_. 5) = Inr po \<and> po_verdict po = V_Deny \<and>
    revoked payment [stored1, stored2]"
proof -
  have "\<exists>po. policy_decide M0 payment [stored1, stored2] (\<lambda>_. 5) = Inr po \<and> po_verdict po = V_Deny"
    by (simp add: decide_defs mg_parts)
  then obtain po where po: "policy_decide M0 payment [stored1, stored2] (\<lambda>_. 5) = Inr po" "po_verdict po = V_Deny" by blast
  have "\<not> disputed payment [stored1, stored2]" by (simp add: disputed_def is_dispute_def mg_parts)
  with policy_priority [OF po(1)] po show ?thesis by blast
qed

text \<open>An observation that is not active for the mode of the payment changes no decision.\<close>

theorem inactive_memory_is_ignored:
  "policy_decide E p (filter (active_for (pi_mode p)) obs) clk = policy_decide E p obs clk"
  by (rule policy_ignores_inactive)

section \<open>The memory\<close>

text \<open>An observation touches only its own subject, and it either changes nothing or appends one
  record, under its own key, to the chain of the subject.\<close>

theorem observe_only_appends:
  assumes "observe E m x uuid now = Inr (m', r)"
  shows "\<exists>ref. subject_ref E (obs_subject x) = Inr ref \<and>
    (\<forall>ref'. ref' \<noteq> ref \<longrightarrow> load_subject m' ref' = load_subject m ref') \<and>
    (m' = m \<or> (\<exists>s. load_subject m' ref = Some (extended (current_subject m ref now) ref s now) \<and>
       re_id r = so_id s \<and> so_key s = obs_key x)) \<and> mm_drafts m' = mm_drafts m \<and> mm_finals m' = mm_finals m"
  using assms by (rule observe_appends)

theorem observe_only_appends_witness:
  "\<exists>r. observe M0 m2 revocation ''b'' 6 = Inr (m3, r) \<and> mm_drafts m3 = mm_drafts m2 \<and>
    (\<exists>s. load_subject m3 ''h'' = Some (extended subject1 ''h'' s 6) \<and> re_id r = so_id s)"
proof -
  from observed2 obtain r where r: "observe M0 m2 revocation ''b'' 6 = Inr (m3, r)" by blast
  have "m3 \<noteq> m2" by (simp add: mg_parts)
  with observe_only_appends [OF r] r show ?thesis
    by (auto simp: current_subject_def load_subject_def m2_def m1_def)
qed

text \<open>C30: observing and finalizing keep the memory well formed: every subject is a valid hash chain
  under its own reference, and no stored finalization is executable.\<close>

theorem memory_stays_valid:
  assumes "memory_ok E m"
  shows "(\<forall>m' r. observe E m x uuid now = Inr (m', r) \<longrightarrow> memory_ok E m') \<and>
    (\<forall>m' d. decide E G m p uuid nonce clk now = Inr (m', d) \<longrightarrow> memory_ok E m') \<and>
    (\<forall>m' f. finalize E G m i tx now = Inr (m', f) \<longrightarrow> memory_ok E m' \<and> \<not> fz_executable f)"
  using observe_keeps [OF assms] decide_keeps [OF assms] finalize_keeps [OF assms] by blast

theorem memory_stays_valid_witness: "memory_ok M0 m3"
proof -
  have "memory_ok M0 empty_memory" by (simp add: memory_ok_def empty_memory_def load_subject_def load_final_def)
  with observed1 memory_stays_valid have 1: "memory_ok M0 m1" by blast
  with decided1 memory_stays_valid have 2: "memory_ok M0 m2" by blast
  with observed2 memory_stays_valid show ?thesis by blast
qed

text \<open>Sending an observation again, at any later time, changes nothing and answers the same record.\<close>

theorem observe_idempotent:
  assumes "observe E m x uuid now = Inr (m', r)"
  shows "\<exists>r'. observe E m' x uuid' now' = Inr (m', r') \<and> re_id r' = re_id r \<and> re_version r' = re_version r \<and>
    re_root r' = re_root r"
  using assms by (rule observe_again)

theorem observe_idempotent_witness:
  "\<exists>r r'. observe M0 m2 revocation ''b'' 6 = Inr (m3, r) \<and> observe M0 m3 revocation ''z'' 99 = Inr (m3, r') \<and> re_id r' = re_id r"
proof -
  from observed2 obtain r where r: "observe M0 m2 revocation ''b'' 6 = Inr (m3, r)" by blast
  from observe_idempotent [OF this] r show ?thesis by blast
qed

section \<open>Decisions and finalization\<close>

text \<open>A draft carries the verdict of the policy on the memory it was taken from, names the version
  and root of that memory, and passes its own integrity check.\<close>

theorem draft_is_bound:
  assumes "decide E G m p uuid nonce clk now = Inr (m', d)"
  shows "validate_draft E d = Inr () \<and> load_draft m' (dd_id d) = Some d \<and>
    (\<exists>ref po. subject_ref E (pi_subject p) = Inr ref \<and> dd_subject d = ref \<and>
      policy_decide E p (sm_observations (current_subject m ref now)) clk = Inr po \<and> dd_verdict d = po_verdict po \<and>
      dd_version d = sm_version (current_subject m ref now) \<and> dd_root d = sm_root (current_subject m ref now))"
  using assms by (rule decide_Inr) (auto simp: load_draft_def save_draft_def)

theorem draft_is_bound_witness:
  "validate_draft M0 draft1 = Inr () \<and> load_draft m2 ''dec_00000001'' = Some draft1 \<and>
    dd_root draft1 = sm_root (current_subject m1 ''h'' 5)"
  using draft_is_bound [OF decided1] by (auto simp: draft1_def)

text \<open>C31: once the subject has another observation, a READY draft taken before it can no longer be
  finalized, with or without an anchor transaction, at any time.\<close>

theorem ready_draft_goes_stale:
  assumes "observe E m x uuid now = Inr (m', r)" "m' \<noteq> m" "subject_ref E (obs_subject x) = Inr (dd_subject d)"
    "load_draft m i = Some d" "dd_verdict d = V_Ready" "dd_version d \<le> sm_version (current_subject m (dd_subject d) now)"
  shows "\<nexists>y. finalize E G m' i tx t = Inr y"
proof
  assume "\<exists>y. finalize E G m' i tx t = Inr y"
  then obtain m'' f where f: "finalize E G m' i tx t = Inr (m'', f)" by auto
  obtain s where s: "load_subject m' (dd_subject d) = Some (extended (current_subject m (dd_subject d) now) (dd_subject d) s now)"
    "mm_drafts m' = mm_drafts m" using observe_appends [OF assms(1)] assms(2,3) by auto
  with assms(4) have "load_draft m' i = Some d" by (simp add: load_draft_def)
  from finalize_bound [OF f this assms(5)] s assms(6) show False by (auto simp: extended_def)
qed

theorem ready_draft_goes_stale_witness:
  "load_draft m3 ''dec_00000001'' = Some draft1 \<and> (\<nexists>y. finalize M0 G0 m3 ''dec_00000001'' None 7 = Inr y)"
proof -
  from observed2 obtain r where r: "observe M0 m2 revocation ''b'' 6 = Inr (m3, r)" by blast
  have "\<nexists>y. finalize M0 G0 m3 ''dec_00000001'' None 7 = Inr y"
    by (rule ready_draft_goes_stale [OF r, of draft1])
      (simp_all add: load_draft_def current_subject_def load_subject_def mg_parts)
  then show ?thesis by (simp add: load_draft_def m3_def m2_def)
qed

end
