(* ===== verification/Mg_Wire.thy ===== *)
theory Mg_Wire
  imports Mg_Models
begin

text \<open>
  Reading a stored document back: \<^verbatim>\<open>from_dict\<close> of the classes of
  \<^verbatim>\<open>src/src/proofops_memoryguard/models.py\<close>, with the conversions of Python's builtins they rely
  on, and the round trip with \<^verbatim>\<open>to_dict\<close>.
\<close>

section \<open>Python's conversions\<close>

text \<open>
  What the builtins do with values that \<^verbatim>\<open>to_dict\<close> never writes in that place is a parameter: the
  text of a float, a list or a dictionary, the number in a text, the float nearest to a large
  integer, and an item or a key that is not a text, which Python would keep unchecked.
\<close>

record builtins =
  odd_text :: "json \<Rightarrow> string"
  text_int :: "string \<Rightarrow> int res"
  text_float :: "string \<Rightarrow> pyfloat res"
  large_float :: "int \<Rightarrow> pyfloat res"
  odd_item :: "json \<Rightarrow> string res"

text \<open>\<^verbatim>\<open>str(v)\<close>, \<^verbatim>\<open>int(v)\<close> and \<^verbatim>\<open>float(v)\<close>.\<close>

definition py_str :: "builtins \<Rightarrow> json \<Rightarrow> string" where
  "py_str P v = (case v of JStr s \<Rightarrow> s | JNull \<Rightarrow> ''None'' | JBool b \<Rightarrow> (if b then ''True'' else ''False'')
     | JInt i \<Rightarrow> dec_int i | _ \<Rightarrow> odd_text P v)"

definition py_int :: "builtins \<Rightarrow> json \<Rightarrow> int res" where
  "py_int P v = (case v of JInt i \<Rightarrow> Inr i | JBool b \<Rightarrow> Inr (if b then 1 else 0) | JStr s \<Rightarrow> text_int P s
     | JFloat (Fin r) \<Rightarrow> Inr (if r < 0 then \<lceil>r\<rceil> else \<lfloor>r\<rfloor>) | JFloat NaN \<Rightarrow> Inl (PyExc ''ValueError'')
     | JFloat _ \<Rightarrow> Inl (PyExc ''OverflowError'') | _ \<Rightarrow> Inl (PyExc ''TypeError''))"

definition py_float :: "builtins \<Rightarrow> json \<Rightarrow> pyfloat res" where
  "py_float P v = (case v of JFloat f \<Rightarrow> Inr f | JInt i \<Rightarrow> (if \<bar>i\<bar> \<le> 2 ^ 53 then Inr (Fin (of_int i)) else large_float P i)
     | JBool b \<Rightarrow> Inr (Fin (if b then 1 else 0)) | JStr s \<Rightarrow> text_float P s | _ \<Rightarrow> Inl (PyExc ''TypeError''))"

text \<open>Iterating over a value: the items of a list, the keys of a dictionary, the characters of a text.\<close>

definition items_of :: "json \<Rightarrow> json list res" where
  "items_of v = (case v of JList xs \<Rightarrow> Inr xs | JObj d \<Rightarrow> Inr (map JStr (keys d))
     | JStr s \<Rightarrow> Inr (map JStr (code_points s)) | _ \<Rightarrow> Inl (PyExc ''TypeError''))"

definition text_item :: "builtins \<Rightarrow> json \<Rightarrow> string res" where
  "text_item P v = (case v of JStr s \<Rightarrow> Inr s | _ \<Rightarrow> odd_item P v)"

text \<open>\<^verbatim>\<open>dict(v)\<close>: a dictionary is copied, anything else is read as a sequence of pairs.\<close>

definition pair_of :: "builtins \<Rightarrow> json \<Rightarrow> (string \<times> json) res" where
  "pair_of P v = ebind (items_of v) (\<lambda>xs. case xs of
     [k, x] \<Rightarrow> ebind (text_item P k) (\<lambda>s. Inr (s, x)) | _ \<Rightarrow> Inl (PyExc ''ValueError''))"

definition dict_of :: "builtins \<Rightarrow> json \<Rightarrow> jobj res" where
  "dict_of P v = (case v of JObj d \<Rightarrow> Inr d
     | _ \<Rightarrow> ebind (items_of v) (\<lambda>xs. ebind (emap (pair_of P) xs) (\<lambda>ps. Inr (dunion [] ps))))"

text \<open>\<^verbatim>\<open>_parse_time\<close>: a text without an offset is a time in UTC.\<close>

definition stored_time :: "env \<Rightarrow> json \<Rightarrow> int res" where
  "stored_time E v = (case v of
     JStr s \<Rightarrow> (case parse_time E (concat (map (\<lambda>c. if c = CHR ''Z'' then ''+00:00'' else [c]) s)) of
        Some (t, _) \<Rightarrow> Inr t | None \<Rightarrow> Inl (PyExc ''ValueError''))
   | _ \<Rightarrow> Inl (PyExc ''AttributeError''))"

text \<open>\<^verbatim>\<open>Enum(text)\<close>: the member with that value.\<close>

definition member :: "('a \<Rightarrow> string) \<Rightarrow> 'a list \<Rightarrow> string \<Rightarrow> 'a res" where
  "member f vs s = (case List.find (\<lambda>v. f v = s) vs of None \<Rightarrow> Inl (PyExc ''ValueError'') | Some v \<Rightarrow> Inr v)"

lemma member_own: "inj f \<Longrightarrow> v \<in> set vs \<Longrightarrow> member f vs (f v) = Inr v"
  by (auto simp: member_def inj_eq find_None_iff dest: find_Some_iff [THEN iffD1] split: option.splits)

section \<open>Fields\<close>

definition text_field :: "builtins \<Rightarrow> jobj \<Rightarrow> string \<Rightarrow> string res" where
  "text_field P d k = ebind (jfield d k) (\<lambda>v. Inr (py_str P v))"

definition int_field :: "builtins \<Rightarrow> jobj \<Rightarrow> string \<Rightarrow> int res" where
  "int_field P d k = ebind (jfield d k) (py_int P)"

definition time_field :: "env \<Rightarrow> jobj \<Rightarrow> string \<Rightarrow> int res" where
  "time_field E d k = ebind (jfield d k) (stored_time E)"

definition enum_field :: "builtins \<Rightarrow> ('a \<Rightarrow> string) \<Rightarrow> 'a list \<Rightarrow> jobj \<Rightarrow> string \<Rightarrow> 'a res" where
  "enum_field P f vs d k = ebind (text_field P d k) (member f vs)"

text \<open>\<^verbatim>\<open>str(d[k]) if d.get(k) else None\<close>.\<close>

definition opt_text :: "builtins \<Rightarrow> jobj \<Rightarrow> string \<Rightarrow> string option" where
  "opt_text P d k = (if truthy (jget d k) then Some (py_str P (jget d k)) else None)"

text \<open>\<^verbatim>\<open>int(d[k]) if d.get(k) is not None else None\<close>.\<close>

definition opt_int :: "builtins \<Rightarrow> jobj \<Rightarrow> string \<Rightarrow> int option res" where
  "opt_int P d k = (if jget d k = JNull then Inr None else ebind (py_int P (jget d k)) (\<lambda>i. Inr (Some i)))"

text \<open>\<^verbatim>\<open>tuple(d.get(k, ()))\<close> of texts.\<close>

definition texts_field :: "builtins \<Rightarrow> jobj \<Rightarrow> string \<Rightarrow> string list res" where
  "texts_field P d k = (case map_of d k of None \<Rightarrow> Inr [] | Some v \<Rightarrow> ebind (items_of v) (emap (text_item P)))"

definition dict_field :: "builtins \<Rightarrow> jobj \<Rightarrow> string \<Rightarrow> jobj res" where
  "dict_field P d k = (case map_of d k of None \<Rightarrow> Inr [] | Some v \<Rightarrow> dict_of P v)"

lemma py_str_JStr [simp]: "py_str P (JStr s) = s"
  and py_int_JInt [simp]: "py_int P (JInt i) = Inr i"
  and py_float_JFloat [simp]: "py_float P (JFloat f) = Inr f"
  and dict_of_JObj [simp]: "dict_of P (JObj d) = Inr d"
  and items_of_JList [simp]: "items_of (JList xs) = Inr xs"
  by (simp_all add: py_str_def py_int_def py_float_def dict_of_def items_of_def)

lemma text_items [simp]: "emap (text_item P) (map JStr xs) = Inr xs"
  by (induction xs) (simp_all add: text_item_def)

lemmas field_defs = text_field_def int_field_def time_field_def enum_field_def opt_text_def opt_int_def texts_field_def
  dict_field_def jfield_def jget_def

section \<open>Documents\<close>

definition all_modes :: "evidence_mode list" where
  "all_modes = [DemoFixture, CallerSupplied, IdentityVerified, BaseTestnet, BaseMainnet]"
definition all_kinds :: "observation_kind list" where
  "all_kinds = [BaselineApproved, DisputeOpened, TargetRevoked, VendorNote]"
definition all_statuses :: "observation_status list" where
  "all_statuses = [Accepted, PartiallyAccepted, Quarantined, ReviewRequired]"
definition all_verdicts :: "mg_verdict list" where
  "all_verdicts = [V_Ready, V_Deny, V_NeedsHuman, V_MemoryUnavailable]"
definition all_anchors :: "anchor_state list" where
  "all_anchors = [NotConfigured, LocalFinalized, ConfirmationRequired, Pending, Verified, Failed]"

lemma members [simp]: "member mode_str all_modes (mode_str m) = Inr m" "member okind_str all_kinds (okind_str k) = Inr k"
  "member ostatus_str all_statuses (ostatus_str s) = Inr s" "member mverdict_str all_verdicts (mverdict_str v) = Inr v"
  "member anchor_str all_anchors (anchor_str a) = Inr a"
  by (rule member_own; (cases m; simp add: all_modes_def inj_def | cases k; simp add: all_kinds_def inj_def
    | cases s; simp add: all_statuses_def inj_def | cases v; simp add: all_verdicts_def inj_def
    | cases a; simp add: all_anchors_def inj_def | simp add: inj_def))+

definition stored_from :: "env \<Rightarrow> builtins \<Rightarrow> jobj \<Rightarrow> stored_observation res" where
  "stored_from E P d =
     ebind (text_field P d ''observation_id'') (\<lambda>i.
     ebind (text_field P d ''subject_ref'') (\<lambda>ref.
     ebind (text_field P d ''session_id'') (\<lambda>session.
     ebind (enum_field P okind_str all_kinds d ''kind'') (\<lambda>kind.
     ebind (text_field P d ''source_id'') (\<lambda>source.
     ebind (enum_field P mode_str all_modes d ''evidence_mode'') (\<lambda>mode.
     ebind (enum_field P ostatus_str all_statuses d ''status'') (\<lambda>status.
     ebind (dict_field P d ''accepted_facts'') (\<lambda>facts.
     ebind (texts_field P d ''quarantined_fields'') (\<lambda>quarantined.
     ebind (texts_field P d ''reason_codes'') (\<lambda>reasons.
     ebind (text_field P d ''idempotency_key'') (\<lambda>key.
     ebind (time_field E d ''observed_at'') (\<lambda>tm.
     ebind (text_field P d ''previous_hash'') (\<lambda>previous.
     ebind (text_field P d ''observation_hash'') (\<lambda>h.
     Inr \<lparr>so_id = i, so_subject = ref, so_session = session, so_kind = kind, so_source = source, so_mode = mode,
          so_status = status, so_facts = facts, so_quarantined = quarantined, so_reasons = reasons,
          so_text_hash = opt_text P d ''raw_text_hash'', so_key = key, so_at = tm, so_previous = previous,
          so_hash = h\<rparr>))))))))))))))"

definition subject_from :: "env \<Rightarrow> builtins \<Rightarrow> jobj \<Rightarrow> subject_memory res" where
  "subject_from E P d =
     ebind (text_field P d ''subject_ref'') (\<lambda>ref.
     ebind (int_field P d ''version'') (\<lambda>version.
     ebind (text_field P d ''memory_root'') (\<lambda>root.
     ebind (case map_of d ''observations'' of None \<Rightarrow> Inr []
            | Some v \<Rightarrow> ebind (items_of v) (emap (\<lambda>item. ebind (dict_of P item) (stored_from E P)))) (\<lambda>obs.
     ebind (time_field E d ''updated_at'') (\<lambda>tm.
     Inr \<lparr>sm_subject = ref, sm_version = version, sm_root = root, sm_observations = obs, sm_updated = tm\<rparr>)))))"

definition payment_from :: "env \<Rightarrow> builtins \<Rightarrow> jobj \<Rightarrow> jobj \<Rightarrow> payment_intent res" where
  "payment_from E P d p =
     ebind (jfield d ''subject_ref'') (\<lambda>ref.
     let subject = py_str P (case map_of p ''subject_id'' of None \<Rightarrow> ref | Some v \<Rightarrow> v) in
     ebind (text_field P p ''session_id'') (\<lambda>session.
     ebind (int_field P p ''chain_id'') (\<lambda>chain.
     ebind (text_field P p ''target'') (\<lambda>target.
     ebind (text_field P p ''method'') (\<lambda>m.
     ebind (ebind (jfield p ''amount_usd'') (py_float P)) (\<lambda>amount.
     ebind (text_field P p ''idempotency_key'') (\<lambda>key.
     ebind (enum_field P mode_str all_modes p ''evidence_mode'') (\<lambda>mode.
     ebind (time_field E p ''created_at'') (\<lambda>tm.
     Inr \<lparr>pi_subject = subject, pi_session = session, pi_chain = chain, pi_target = target, pi_method = m,
          pi_amount = amount, pi_key = key, pi_mode = mode, pi_created = tm\<rparr>)))))))))"

definition anchor_field :: "builtins \<Rightarrow> jobj \<Rightarrow> anchor_state res" where
  "anchor_field P d = member anchor_str all_anchors
     (case map_of d ''anchor_state'' of None \<Rightarrow> ''not_configured'' | Some v \<Rightarrow> py_str P v)"

definition draft_from :: "env \<Rightarrow> builtins \<Rightarrow> jobj \<Rightarrow> draft res" where
  "draft_from E P d =
     ebind (ebind (jfield d ''intent'') (dict_of P)) (\<lambda>p.
     ebind (payment_from E P d p) (\<lambda>intent.
     ebind (text_field P d ''decision_id'') (\<lambda>i.
     ebind (text_field P d ''subject_ref'') (\<lambda>ref.
     ebind (text_field P d ''session_id'') (\<lambda>session.
     ebind (enum_field P mverdict_str all_verdicts d ''verdict'') (\<lambda>v.
     ebind (texts_field P d ''reason_codes'') (\<lambda>reasons.
     ebind (texts_field P d ''causal_memory_ids'') (\<lambda>causal.
     ebind (jfield d ''cross_session'') (\<lambda>cross.
     ebind (int_field P d ''memory_version'') (\<lambda>version.
     ebind (text_field P d ''memory_root'') (\<lambda>root.
     ebind (text_field P d ''policy_hash'') (\<lambda>policy.
     ebind (text_field P d ''intent_hash'') (\<lambda>ih.
     ebind (text_field P d ''proof_root'') (\<lambda>proof_r.
     ebind (text_field P d ''nonce'') (\<lambda>nonce.
     ebind (time_field E d ''created_at'') (\<lambda>created.
     ebind (time_field E d ''expires_at'') (\<lambda>expires.
     ebind (anchor_field P d) (\<lambda>anchor.
     Inr \<lparr>dd_id = i, dd_subject = ref, dd_session = session, dd_verdict = v, dd_reasons = reasons, dd_causal = causal,
          dd_cross = truthy cross, dd_version = version, dd_root = root, dd_policy = policy, dd_intent = intent,
          dd_intent_hash = ih, dd_proof = proof_r, dd_nonce = nonce, dd_created = created, dd_expires = expires,
          dd_anchor = anchor\<rparr>))))))))))))))))))"

definition plan_from :: "builtins \<Rightarrow> jobj \<Rightarrow> anchor_plan res" where
  "plan_from P d =
     ebind (int_field P d ''chain_id'') (\<lambda>chain.
     ebind (text_field P d ''network'') (\<lambda>network.
     ebind (text_field P d ''contract'') (\<lambda>contract.
     ebind (text_field P d ''to'') (\<lambda>to.
     ebind (text_field P d ''data'') (\<lambda>data.
     ebind (text_field P d ''value'') (\<lambda>v.
     ebind (text_field P d ''proof_root'') (\<lambda>root.
     Inr \<lparr>ap_chain = chain, ap_network = network, ap_contract = contract, ap_to = to, ap_data = data,
          ap_value = v, ap_proof = root\<rparr>)))))))"

definition verification_from :: "builtins \<Rightarrow> jobj \<Rightarrow> anchor_verification res" where
  "verification_from P d =
     ebind (enum_field P anchor_str all_anchors d ''state'') (\<lambda>st.
     ebind (opt_int P d ''chain_id'') (\<lambda>chain.
     ebind (opt_int P d ''block_number'') (\<lambda>block.
     ebind (texts_field P d ''reason_codes'') (\<lambda>reasons.
     Inr \<lparr>av_state = st, av_tx = opt_text P d ''tx_hash'', av_chain = chain, av_contract = opt_text P d ''contract'',
          av_block = block, av_reasons = reasons\<rparr>))))"

text \<open>\<^verbatim>\<open>f(dict(x)) if x else None\<close>.\<close>

definition opt_part :: "builtins \<Rightarrow> (jobj \<Rightarrow> 'a res) \<Rightarrow> json \<Rightarrow> 'a option res" where
  "opt_part P f v = (if truthy v then ebind (dict_of P v) (\<lambda>d. ebind (f d) (\<lambda>x. Inr (Some x))) else Inr None)"

definition finalization_from :: "builtins \<Rightarrow> jobj \<Rightarrow> finalization res" where
  "finalization_from P d =
     ebind (text_field P d ''decision_id'') (\<lambda>i.
     ebind (enum_field P mverdict_str all_verdicts d ''verdict'') (\<lambda>v.
     ebind (enum_field P anchor_str all_anchors d ''state'') (\<lambda>st.
     ebind (text_field P d ''proof_root'') (\<lambda>root.
     ebind (jfield d ''executable'') (\<lambda>ex.
     ebind (opt_part P (plan_from P) (jget d ''anchor_plan'')) (\<lambda>plan.
     ebind (opt_part P (verification_from P) (jget d ''anchor_verification'')) (\<lambda>ver.
     ebind (texts_field P d ''reason_codes'') (\<lambda>reasons.
     Inr \<lparr>fz_decision = i, fz_verdict = v, fz_state = st, fz_proof = root, fz_executable = truthy ex,
          fz_plan = plan, fz_verification = ver, fz_reasons = reasons\<rparr>))))))))"

section \<open>The round trip\<close>

text \<open>
  The documented round trip of \<^verbatim>\<open>datetime.isoformat\<close> and \<^verbatim>\<open>fromisoformat\<close>: an aware UTC time is
  written with the offset \<^verbatim>\<open>+00:00\<close>, so its text holds no \<^verbatim>\<open>Z\<close>, and it is read back.
\<close>

definition times_round_trip :: "env \<Rightarrow> bool" where
  "times_round_trip E \<longleftrightarrow> (\<forall>t. CHR ''Z'' \<notin> set (iso_time E t) \<and> parse_time E (iso_time E t) = Some (t, True))"

lemma no_z_same: "CHR ''Z'' \<notin> set s \<Longrightarrow> concat (map (\<lambda>c. if c = CHR ''Z'' then ''+00:00'' else [c]) s) = s"
  by (induction s) auto

lemma stored_time_iso [simp]: "times_round_trip E \<Longrightarrow> stored_time E (JStr (iso_time E t)) = Inr t"
  by (simp add: stored_time_def times_round_trip_def no_z_same)

text \<open>An empty text is read back as no text at all.\<close>

definition no_empty :: "string option \<Rightarrow> bool" where
  "no_empty x \<longleftrightarrow> x \<noteq> Some []"

lemma opt_text_jopt: "map_of d k = Some (jopt JStr x) \<Longrightarrow> no_empty x \<Longrightarrow> opt_text P d k = x"
  by (cases x) (auto simp: opt_text_def jget_def jopt_def no_empty_def)

lemma opt_int_jopt: "map_of d k = Some (jopt JInt x) \<Longrightarrow> opt_int P d k = Inr x"
  by (cases x) (auto simp: opt_int_def jget_def jopt_def)

lemma stored_round_trip:
  assumes "times_round_trip E" "no_empty (so_text_hash x)" "stored_json E x = JObj d"
  shows "stored_from E P d = Inr x"
proof -
  from assms(3) have d: "d = (case stored_json E x of JObj e \<Rightarrow> e)" by simp
  have "opt_text P d ''raw_text_hash'' = so_text_hash x"
    by (rule opt_text_jopt [OF _ assms(2)]) (simp add: d stored_json_def)
  then show ?thesis
    by (simp add: stored_from_def field_defs d stored_json_def assms(1))
qed

lemma subject_round_trip:
  assumes "times_round_trip E" "\<forall>x \<in> set (sm_observations s). no_empty (so_text_hash x)" "subject_json E s = JObj d"
  shows "subject_from E P d = Inr s"
proof -
  from assms(3) have d: "d = (case subject_json E s of JObj e \<Rightarrow> e)" by simp
  have "ebind (dict_of P (stored_json E x)) (stored_from E P) = Inr x" if "x \<in> set (sm_observations s)" for x
    using stored_round_trip [OF assms(1), of x _ P] assms(2) that by (auto simp: stored_json_def)
  then have "emap (\<lambda>item. ebind (dict_of P item) (stored_from E P)) (map (stored_json E) (sm_observations s)) = Inr (sm_observations s)"
    by (simp add: emap_Inr_iff list_all2_map1 list_all2_same)
  then show ?thesis
    by (simp add: subject_from_def field_defs d subject_json_def assms(1))
qed

lemma draft_round_trip:
  assumes "times_round_trip E" "draft_json E x = JObj d"
  shows "draft_from E P d = Inr x"
proof -
  from assms(2) have d: "d = (case draft_json E x of JObj e \<Rightarrow> e)" by simp
  show ?thesis
    by (simp add: draft_from_def payment_from_def anchor_field_def field_defs d draft_json_def payment_json_def assms(1))
qed

lemma plan_round_trip: "plan_json x = JObj d \<Longrightarrow> plan_from P d = Inr x"
  by (simp add: plan_from_def field_defs plan_json_def) (drule sym, simp)

lemma verification_round_trip:
  assumes "no_empty (av_tx x)" "no_empty (av_contract x)" "verification_json x = JObj d"
  shows "verification_from P d = Inr x"
proof -
  from assms(3) have d: "d = (case verification_json x of JObj e \<Rightarrow> e)" by simp
  have "opt_text P d ''tx_hash'' = av_tx x" "opt_text P d ''contract'' = av_contract x"
    by (rule opt_text_jopt, simp add: d verification_json_def, rule assms)+
  moreover have "opt_int P d ''chain_id'' = Inr (av_chain x)" "opt_int P d ''block_number'' = Inr (av_block x)"
    by (rule opt_int_jopt, simp add: d verification_json_def)+
  moreover have "enum_field P anchor_str all_anchors d ''state'' = Inr (av_state x)" "texts_field P d ''reason_codes'' = Inr (av_reasons x)"
    by (simp_all add: d verification_json_def field_defs)
  ultimately show ?thesis by (simp add: verification_from_def)
qed

lemma opt_part_jopt:
  assumes "\<And>y. \<exists>e. f y = JObj e \<and> e \<noteq> []" "\<And>y e. x = Some y \<Longrightarrow> f y = JObj e \<Longrightarrow> g e = Inr y"
  shows "opt_part P g (jopt f x) = Inr x"
proof (cases x)
  case (Some y)
  from assms(1) [of y] obtain e where "f y = JObj e" "e \<noteq> []" by blast
  with assms(2) [OF Some] Some show ?thesis by (simp add: opt_part_def jopt_def)
qed (simp add: opt_part_def jopt_def)

lemma finalization_round_trip:
  assumes "\<forall>v. fz_verification x = Some v \<longrightarrow> no_empty (av_tx v) \<and> no_empty (av_contract v)" "finalization_json x = JObj d"
  shows "finalization_from P d = Inr x"
proof -
  from assms(2) have d: "d = (case finalization_json x of JObj e \<Rightarrow> e)" by simp
  have "opt_part P (plan_from P) (jopt plan_json (fz_plan x)) = Inr (fz_plan x)"
    by (rule opt_part_jopt) (simp_all add: plan_json_def [of "_ :: anchor_plan"] plan_round_trip)
  moreover have "opt_part P (verification_from P) (jopt verification_json (fz_verification x)) = Inr (fz_verification x)"
    by (rule opt_part_jopt) (use assms(1) verification_round_trip in \<open>auto simp: verification_json_def\<close>)
  ultimately show ?thesis
    by (simp add: finalization_from_def field_defs d finalization_json_def)
qed

end
