(* ===== verification/Mg_Runs.thy ===== *)
theory Mg_Runs
  imports Mg_Wire
begin

text \<open>
  The data of the agent (\<^verbatim>\<open>src/src/proofops_memoryguard/agent_models.py\<close>): plans of the model, the
  events of the trace, and the recorded run with its stored form and the way back.
\<close>

section \<open>States and phases\<close>

datatype agent_state = AwaitFinalize | BlockAndEscalate | AwaitHumanReview | HaltMemoryUnavailable | BlockAndRedecide
  | HaltActionUnavailable | DegradedSafeOnly | Cancelled | AnchorVerified
datatype tool_phase = Considered | Called | Succeeded | Refused | Suppressed

fun astate_str :: "agent_state \<Rightarrow> string" where
  "astate_str AwaitFinalize = ''await_finalize''"
| "astate_str BlockAndEscalate = ''block_and_escalate''"
| "astate_str AwaitHumanReview = ''await_human_review''"
| "astate_str HaltMemoryUnavailable = ''halt_memory_unavailable''"
| "astate_str BlockAndRedecide = ''block_and_redecide''"
| "astate_str HaltActionUnavailable = ''halt_action_unavailable''"
| "astate_str DegradedSafeOnly = ''degraded_safe_only''"
| "astate_str Cancelled = ''cancelled''"
| "astate_str AnchorVerified = ''anchor_verified''"

text \<open>The phase \<^verbatim>\<open>FAILED\<close> is \<open>Refused\<close> here, since \<open>Failed\<close> is the anchor state.\<close>

fun phase_str :: "tool_phase \<Rightarrow> string" where
  "phase_str Considered = ''considered''"
| "phase_str Called = ''called''"
| "phase_str Succeeded = ''succeeded''"
| "phase_str Refused = ''failed''"
| "phase_str Suppressed = ''suppressed''"

definition all_states :: "agent_state list" where
  "all_states = [AwaitFinalize, BlockAndEscalate, AwaitHumanReview, HaltMemoryUnavailable, BlockAndRedecide,
     HaltActionUnavailable, DegradedSafeOnly, Cancelled, AnchorVerified]"
definition all_phases :: "tool_phase list" where
  "all_phases = [Considered, Called, Succeeded, Refused, Suppressed]"

lemma inj_agent_enums: "inj astate_str" "inj phase_str"
proof -
  show "inj astate_str" by (rule injI) (case_tac x; case_tac y; simp)
  show "inj phase_str" by (rule injI) (case_tac x; case_tac y; simp)
qed

lemma agent_members [simp]: "member astate_str all_states (astate_str s) = Inr s" "member phase_str all_phases (phase_str p) = Inr p"
proof -
  have "s \<in> set all_states" "p \<in> set all_phases" by ((cases s; simp add: all_states_def), (cases p; simp add: all_phases_def))
  then show "member astate_str all_states (astate_str s) = Inr s" "member phase_str all_phases (phase_str p) = Inr p"
    by (simp_all add: member_own inj_agent_enums)
qed

section \<open>Plans, events and runs\<close>

record goal =
  go_intent :: payment_intent

record model_plan =
  mp_explanation :: string
  mp_steps :: "string list"
  mp_tools :: "string list"
  mp_receipt :: "jobj option"

record tool_event =
  te_seq :: int
  te_tool :: string
  te_phase :: tool_phase
  te_reason :: string
  te_input :: string
  te_output :: "string option"
  te_at :: int

definition event_json :: "env \<Rightarrow> tool_event \<Rightarrow> json" where
  "event_json E x = JObj [(''sequence'', JInt (te_seq x)), (''tool'', JStr (te_tool x)),
     (''phase'', JStr (phase_str (te_phase x))), (''reason_code'', JStr (te_reason x)),
     (''input_hash'', JStr (te_input x)), (''output_hash'', jopt JStr (te_output x)),
     (''occurred_at'', JStr (iso_time E (te_at x)))]"

definition event_from :: "env \<Rightarrow> builtins \<Rightarrow> jobj \<Rightarrow> tool_event res" where
  "event_from E P d =
     ebind (int_field P d ''sequence'') (\<lambda>i.
     ebind (text_field P d ''tool'') (\<lambda>tool.
     ebind (enum_field P phase_str all_phases d ''phase'') (\<lambda>ph.
     ebind (text_field P d ''reason_code'') (\<lambda>why.
     ebind (text_field P d ''input_hash'') (\<lambda>h.
     ebind (time_field E d ''occurred_at'') (\<lambda>tm.
     Inr \<lparr>te_seq = i, te_tool = tool, te_phase = ph, te_reason = why, te_input = h,
          te_output = opt_text P d ''output_hash'', te_at = tm\<rparr>))))))"

record agent_run =
  ar_id :: string
  ar_request :: string
  ar_runtime :: string
  ar_state :: agent_state
  ar_decision :: draft
  ar_fingerprint :: string
  ar_explanation :: string
  ar_steps :: "string list"
  ar_degraded :: bool
  ar_model :: string
  ar_receipt :: "jobj option"
  ar_requested :: "string list"
  ar_trace :: "tool_event list"
  ar_artifacts :: "json dict"
  ar_anchor :: anchor_state
  ar_executable :: bool
  ar_created :: int
  ar_updated :: int
  ar_schema :: string

definition run_json :: "env \<Rightarrow> agent_run \<Rightarrow> json" where
  "run_json E r = JObj [(''schema_version'', JStr (ar_schema r)), (''run_id'', JStr (ar_id r)),
     (''request_hash'', JStr (ar_request r)), (''runtime_instance_id'', JStr (ar_runtime r)),
     (''state'', JStr (astate_str (ar_state r))), (''verdict'', JStr (mverdict_str (dd_verdict (ar_decision r)))),
     (''decision'', draft_json E (ar_decision r)), (''decision_id'', JStr (dd_id (ar_decision r))),
     (''action_fingerprint'', JStr (ar_fingerprint r)), (''cross_session'', JBool (dd_cross (ar_decision r))),
     (''causal_memory_ids'', jstrs (dd_causal (ar_decision r))), (''explanation'', JStr (ar_explanation r)),
     (''explanation_source'', JStr ''deterministic_authoritative_copy''), (''raw_model_output_persisted'', JBool False),
     (''operator_steps'', jstrs (ar_steps r)), (''planning_degraded'', JBool (ar_degraded r)),
     (''model_kind'', JStr (ar_model r)), (''model_receipt'', jopt JObj (ar_receipt r)),
     (''model_requested_safe_tools'', jstrs (ar_requested r)), (''tool_trace'', JList (map (event_json E) (ar_trace r))),
     (''artifacts'', JObj (ar_artifacts r)), (''proof_root'', JStr (dd_proof (ar_decision r))),
     (''anchor_state'', JStr (anchor_str (ar_anchor r))), (''executable'', JBool (ar_executable r)),
     (''created_at'', JStr (iso_time E (ar_created r))), (''updated_at'', JStr (iso_time E (ar_updated r)))]"

text \<open>\<^verbatim>\<open>tuple(str(item) for item in d.get(k, ()))\<close>.\<close>

definition shown_items :: "builtins \<Rightarrow> jobj \<Rightarrow> string \<Rightarrow> string list res" where
  "shown_items P d k = (case map_of d k of None \<Rightarrow> Inr [] | Some v \<Rightarrow> ebind (items_of v) (\<lambda>xs. Inr (map (py_str P) xs)))"

definition shown_or :: "builtins \<Rightarrow> jobj \<Rightarrow> string \<Rightarrow> string \<Rightarrow> string" where
  "shown_or P d k other = (case map_of d k of None \<Rightarrow> other | Some v \<Rightarrow> py_str P v)"

definition run_from :: "env \<Rightarrow> builtins \<Rightarrow> jobj \<Rightarrow> agent_run res" where
  "run_from E P d =
     ebind (text_field P d ''run_id'') (\<lambda>i.
     ebind (text_field P d ''request_hash'') (\<lambda>request.
     ebind (text_field P d ''runtime_instance_id'') (\<lambda>runtime.
     ebind (enum_field P astate_str all_states d ''state'') (\<lambda>st.
     ebind (ebind (jfield d ''decision'') (dict_of P)) (\<lambda>dd.
     ebind (draft_from E P dd) (\<lambda>dec.
     ebind (text_field P d ''action_fingerprint'') (\<lambda>fp.
     ebind (text_field P d ''explanation'') (\<lambda>explanation.
     ebind (shown_items P d ''operator_steps'') (\<lambda>steps.
     ebind (text_field P d ''model_kind'') (\<lambda>model.
     ebind (shown_items P d ''model_requested_safe_tools'') (\<lambda>requested.
     ebind (case map_of d ''tool_trace'' of None \<Rightarrow> Inr []
            | Some v \<Rightarrow> ebind (items_of v) (emap (\<lambda>item. ebind (dict_of P item) (event_from E P)))) (\<lambda>tr.
     ebind (dict_field P d ''artifacts'') (\<lambda>arts.
     ebind (anchor_field P d) (\<lambda>anchor.
     ebind (jfield d ''executable'') (\<lambda>ex.
     ebind (time_field E d ''created_at'') (\<lambda>created.
     ebind (time_field E d ''updated_at'') (\<lambda>updated.
     Inr \<lparr>ar_id = i, ar_request = request, ar_runtime = runtime, ar_state = st, ar_decision = dec, ar_fingerprint = fp,
          ar_explanation = explanation, ar_steps = steps, ar_degraded = truthy (jget d ''planning_degraded''),
          ar_model = model, ar_receipt = (case jget d ''model_receipt'' of JObj r \<Rightarrow> Some r | _ \<Rightarrow> None),
          ar_requested = requested, ar_trace = tr, ar_artifacts = arts, ar_anchor = anchor, ar_executable = truthy ex,
          ar_created = created, ar_updated = updated, ar_schema = shown_or P d ''schema_version'' ''1.0''\<rparr>)))))))))))))))))"

section \<open>The round trip\<close>

lemma event_round_trip:
  assumes "times_round_trip E" "no_empty (te_output x)" "event_json E x = JObj d"
  shows "event_from E P d = Inr x"
proof -
  from assms(3) have d: "d = (case event_json E x of JObj e \<Rightarrow> e)" by simp
  have "opt_text P d ''output_hash'' = te_output x"
    by (rule opt_text_jopt [OF _ assms(2)]) (simp add: d event_json_def)
  then show ?thesis by (simp add: event_from_def field_defs d event_json_def assms(1))
qed

lemma shown_texts [simp]: "map (py_str P) (map JStr xs) = xs"
  by (induction xs) simp_all

lemma run_round_trip:
  assumes "times_round_trip E" "\<forall>x \<in> set (ar_trace r). no_empty (te_output x)" "run_json E r = JObj d"
  shows "run_from E P d = Inr r"
proof -
  from assms(3) have d: "d = (case run_json E r of JObj e \<Rightarrow> e)" by simp
  have "ebind (dict_of P (event_json E x)) (event_from E P) = Inr x" if "x \<in> set (ar_trace r)" for x
    using event_round_trip [OF assms(1), of x _ P] assms(2) that by (auto simp: event_json_def)
  then have t: "emap (\<lambda>item. ebind (dict_of P item) (event_from E P)) (map (event_json E) (ar_trace r)) = Inr (ar_trace r)"
    by (simp add: emap_Inr_iff list_all2_map1 list_all2_same)
  have dec: "ebind (dict_of P (draft_json E (ar_decision r))) (draft_from E P) = Inr (ar_decision r)"
    using draft_round_trip [OF assms(1), of "ar_decision r" _ P] by (simp add: draft_json_def)
  have rc: "(case jopt JObj (ar_receipt r) of JObj x \<Rightarrow> Some x | _ \<Rightarrow> None) = ar_receipt r"
    by (cases "ar_receipt r") (simp_all add: jopt_def)
  from dec obtain dd where dd: "draft_json E (ar_decision r) = JObj dd" "draft_from E P dd = Inr (ar_decision r)"
    by (simp add: draft_json_def)
  show ?thesis
    by (simp add: run_from_def field_defs shown_items_def shown_or_def anchor_field_def d run_json_def assms(1) dd t rc del: map_map)
qed

end
