(* ===== verification/Mg_Agent.thy ===== *)
theory Mg_Agent
  imports Mg_Runs Mg_Module Effects
begin

text \<open>
  The agent of the v1 module (\<^verbatim>\<open>src/src/proofops_memoryguard/agent.py\<close>) and its in-memory adapters
  for safety actions and the run ledger (\<^verbatim>\<open>adapters/safety_actions.py\<close>,
  \<^verbatim>\<open>adapters/agent_ledger.py\<close>). The planning model is a parameter. An operation works on the
  state of its adapters and keeps what it changed there when it raises.
\<close>

section \<open>Exceptions\<close>

definition exc_name :: "err \<Rightarrow> string" where
  "exc_name e = (case e of Casework c n \<Rightarrow> ''CaseworkError'' | PyExc n \<Rightarrow> n)"

section \<open>Tools\<close>

definition review_tool :: string where "review_tool = ''human_review.prepare''"
definition escalation_tool :: string where "escalation_tool = ''operator_escalation.create''"
definition brief_tool :: string where "brief_tool = ''causal_evidence_brief.prepare''"
definition registered_tools :: "string list" where
  "registered_tools = [review_tool, escalation_tool, brief_tool]"
definition prepare_tool :: string where "prepare_tool = ''proof_anchor.prepare''"
definition verify_tool :: string where "verify_tool = ''proof_anchor.verify''"

lemmas tool_names = review_tool_def escalation_tool_def brief_tool_def prepare_tool_def verify_tool_def

section \<open>The trace\<close>

text \<open>\<^verbatim>\<open>_Trace.add\<close>; \<open>clk n\<close> is the time of the event at index \<open>n\<close>.\<close>

definition add_event :: "env \<Rightarrow> (nat \<Rightarrow> int) \<Rightarrow> tool_event list \<Rightarrow> string \<Rightarrow> tool_phase \<Rightarrow> string \<Rightarrow> json \<Rightarrow> json option
    \<Rightarrow> tool_event list res"
where
  "add_event E clk tr tool ph why inp out =
     ebind (domain_hash E (''agent-tool-input:'' @ tool) inp) (\<lambda>i.
     ebind (case out of None \<Rightarrow> Inr None
            | Some v \<Rightarrow> ebind (domain_hash E (''agent-tool-output:'' @ tool) v) (\<lambda>h. Inr (Some h))) (\<lambda>h.
     Inr (tr @ [\<lparr>te_seq = int (length tr) + 1, te_tool = tool, te_phase = ph, te_reason = why, te_input = i,
                 te_output = h, te_at = clk (length tr)\<rparr>])))"

section \<open>Safety actions\<close>

definition action_id :: "env \<Rightarrow> string \<Rightarrow> draft \<Rightarrow> string res" where
  "action_id E dm d = ebind (domain_hash E dm (JStr (dd_id d))) (\<lambda>h. Inr (''act_'' @ take 20 h))"

definition review_receipt :: "env \<Rightarrow> draft \<Rightarrow> jobj res" where
  "review_receipt E d = ebind (action_id E ''review-action'' d) (\<lambda>i.
     Inr [(''action_id'', JStr i), (''kind'', JStr ''non_executable_human_review_card''), (''decision_id'', JStr (dd_id d)),
       (''verdict'', JStr (mverdict_str (dd_verdict d))), (''proof_root'', JStr (dd_proof d)),
       (''expires_at'', JStr (iso_time E (dd_expires d))),
       (''required_gate'', JStr ''human_review_before_any_external_action''), (''executable'', JBool False)])"

definition escalation_receipt :: "env \<Rightarrow> draft \<Rightarrow> jobj res" where
  "escalation_receipt E d = ebind (action_id E ''escalation-action'' d) (\<lambda>i.
     ebind (domain_hash E ''agent-escalation'' (JStr (dd_id d))) (\<lambda>c.
     Inr [(''action_id'', JStr i), (''kind'', JStr ''operator_escalation_case''), (''case_ref'', JStr c),
       (''decision_id'', JStr (dd_id d)), (''verdict'', JStr (mverdict_str (dd_verdict d))),
       (''reason_codes'', jstrs (dd_reasons d)), (''causal_memory_ids'', jstrs (dd_causal d)),
       (''executable'', JBool False)]))"

definition brief_receipt :: "env \<Rightarrow> draft \<Rightarrow> jobj res" where
  "brief_receipt E d = ebind (action_id E ''evidence-brief-action'' d) (\<lambda>i.
     Inr [(''action_id'', JStr i), (''kind'', JStr ''causal_evidence_brief''), (''decision_id'', JStr (dd_id d)),
       (''verdict'', JStr (mverdict_str (dd_verdict d))), (''reason_codes'', jstrs (dd_reasons d)),
       (''causal_memory_ids'', jstrs (dd_causal d)), (''memory_version'', JInt (dd_version d)),
       (''memory_root'', JStr (dd_root d)), (''proof_root'', JStr (dd_proof d)), (''executable'', JBool False)])"

text \<open>\<^verbatim>\<open>InMemorySafetyActionAdapter._save\<close>: an action id keeps its content.\<close>

definition save_action :: "jobj \<Rightarrow> (jobj, jobj dict) op" where
  "save_action receipt acts =
     (let k = (case jget receipt ''action_id'' of JStr s \<Rightarrow> s | _ \<Rightarrow> []) in
      (case map_of acts k of
         Some old \<Rightarrow> (if py_eq (JObj old) (JObj receipt) then (Inr receipt, dset k receipt acts)
                      else (Inl (PyExc ''ValueError''), acts))
       | None \<Rightarrow> (Inr receipt, dset k receipt acts)))"

text \<open>The port of the safety actions: an operation per tool, on the state of the adapter.\<close>

record 'a actions_port =
  ac_review :: "draft \<Rightarrow> (jobj, 'a) op"
  ac_escalation :: "draft \<Rightarrow> (jobj, 'a) op"
  ac_brief :: "draft \<Rightarrow> (jobj, 'a) op"

definition memory_actions :: "env \<Rightarrow> jobj dict actions_port" where
  "memory_actions E = \<lparr>ac_review = (\<lambda>d. sbind (lift (review_receipt E d)) save_action),
     ac_escalation = (\<lambda>d. sbind (lift (escalation_receipt E d)) save_action),
     ac_brief = (\<lambda>d. sbind (lift (brief_receipt E d)) save_action)\<rparr>"

text \<open>\<^verbatim>\<open>UnavailableSafetyActionAdapter\<close>: every operation raises.\<close>

definition unavailable_actions :: "'a actions_port" where
  "unavailable_actions = (let fail = (\<lambda>_. lift (Inl (PyExc ''MemoryBackendUnavailable''))) in
     \<lparr>ac_review = fail, ac_escalation = fail, ac_brief = fail\<rparr>)"

definition call_action :: "'a actions_port \<Rightarrow> string \<Rightarrow> draft \<Rightarrow> (jobj, 'a) op" where
  "call_action X tool d =
     (if tool = review_tool then ac_review X d
      else if tool = escalation_tool then ac_escalation X d
      else if tool = brief_tool then ac_brief X d
      else lift (Inl (PyExc ''ValueError'')))"

section \<open>The configured agent\<close>

record agent =
  ag_guard :: guard
  ag_plan :: "jobj \<Rightarrow> string list \<Rightarrow> model_plan res"
  ag_model_kind :: string
  ag_runtime :: string
  ag_production :: bool
  ag_py :: builtins

definition make_agent :: "guard \<Rightarrow> (jobj \<Rightarrow> string list \<Rightarrow> model_plan res) \<Rightarrow> string \<Rightarrow> string \<Rightarrow> string \<Rightarrow> string \<Rightarrow> bool
    \<Rightarrow> builtins \<Rightarrow> agent res"
where
  "make_agent G plan model_kind ledger_kind action_kind runtime production P =
     ebind (check (\<not> (production \<and> model_kind \<noteq> ''remote_structured_model'')) (PyExc ''ValueError'')) (\<lambda>_.
     ebind (check (\<not> (production \<and> ledger_kind \<noteq> ''sibyl_agent_ledger'')) (PyExc ''ValueError'')) (\<lambda>_.
     ebind (check (\<not> (production \<and> action_kind \<noteq> ''sibyl_safe_actions'')) (PyExc ''ValueError'')) (\<lambda>_.
     Inr \<lparr>ag_guard = G, ag_plan = plan, ag_model_kind = model_kind, ag_runtime = runtime,
          ag_production = production, ag_py = P\<rparr>)))"

text \<open>The identity of a request and of an action; \<^verbatim>\<open>subject\<close> is the subject's reference.\<close>

definition request_payload :: "env \<Rightarrow> string \<Rightarrow> payment_intent \<Rightarrow> json" where
  "request_payload E subject p = JObj [(''subject_ref'', JStr subject), (''session_id'', JStr (pi_session p)),
     (''chain_id'', JInt (pi_chain p)), (''target'', JStr (uni_lower E (pi_target p))), (''method'', JStr (pi_method p)),
     (''amount_usd'', JFloat (pi_amount p)), (''evidence_mode'', JStr (mode_str (pi_mode p))),
     (''idempotency_key'', JStr (pi_key p))]"

definition action_payload :: "env \<Rightarrow> string \<Rightarrow> payment_intent \<Rightarrow> json" where
  "action_payload E subject p = JObj [(''subject_ref'', JStr subject), (''chain_id'', JInt (pi_chain p)),
     (''target'', JStr (uni_lower E (pi_target p))), (''method'', JStr (pi_method p)),
     (''amount_usd'', JFloat (pi_amount p)), (''evidence_mode'', JStr (mode_str (pi_mode p)))]"

definition run_name :: "env \<Rightarrow> string \<Rightarrow> payment_intent \<Rightarrow> string res" where
  "run_name E subject p =
     ebind (domain_hash E ''agent-run'' (JObj [(''subject_ref'', JStr subject), (''key'', JStr (pi_key p))])) (\<lambda>h.
     Inr (''run_'' @ take 20 h))"

definition goal_request :: "env \<Rightarrow> goal \<Rightarrow> string res" where
  "goal_request E g = ebind (subject_ref E (pi_subject (go_intent g))) (\<lambda>ref.
     domain_hash E ''agent-request'' (request_payload E ref (go_intent g)))"

definition goal_fingerprint :: "env \<Rightarrow> goal \<Rightarrow> string res" where
  "goal_fingerprint E g = ebind (subject_ref E (pi_subject (go_intent g))) (\<lambda>ref.
     domain_hash E ''agent-action'' (action_payload E ref (go_intent g)))"

definition goal_run :: "env \<Rightarrow> goal \<Rightarrow> string res" where
  "goal_run E g = ebind (subject_ref E (pi_subject (go_intent g))) (\<lambda>ref. run_name E ref (go_intent g))"

definition draft_run :: "env \<Rightarrow> draft \<Rightarrow> string res" where
  "draft_run E d = run_name E (dd_subject d) (dd_intent d)"

definition draft_request :: "env \<Rightarrow> draft \<Rightarrow> string res" where
  "draft_request E d = domain_hash E ''agent-request'' (request_payload E (dd_subject d) (dd_intent d))"

definition draft_fingerprint :: "env \<Rightarrow> draft \<Rightarrow> string res" where
  "draft_fingerprint E d = domain_hash E ''agent-action'' (action_payload E (pi_subject (dd_intent d)) (dd_intent d))"

text \<open>The authority of the agent is reduced from the verdict: state, allowed tools, mandatory tool.\<close>

definition authorization :: "draft \<Rightarrow> agent_state \<times> string list \<times> string" where
  "authorization d =
     (if dd_verdict d = V_Ready then (AwaitFinalize, [review_tool, brief_tool], review_tool)
      else if dd_verdict d = V_Deny then (BlockAndEscalate, [escalation_tool, brief_tool], escalation_tool)
      else (AwaitHumanReview, [escalation_tool, brief_tool], escalation_tool))"

definition agent_context :: "env \<Rightarrow> draft \<Rightarrow> agent_state \<Rightarrow> jobj res" where
  "agent_context E d st =
     ebind (domain_hash E ''agent-model-target'' (JStr (pi_target (dd_intent d)))) (\<lambda>th.
     Inr [(''state'', JStr (astate_str st)), (''verdict'', JStr (mverdict_str (dd_verdict d))),
       (''reason_codes'', jstrs (dd_reasons d)), (''causal_memory_ids'', jstrs (dd_causal d)),
       (''cross_session'', JBool (dd_cross d)), (''chain_id'', JInt (pi_chain (dd_intent d))), (''target_hash'', JStr th),
       (''method'', JStr (pi_method (dd_intent d))), (''amount_usd'', JFloat (pi_amount (dd_intent d))),
       (''evidence_mode'', JStr (mode_str (pi_mode (dd_intent d))))])"

definition fallback_plan :: model_plan where
  "fallback_plan = \<lparr>mp_explanation = ''The external planning model was unavailable. MemoryGuard'' @ [CHR 0x27] @
       ''s verdict remains authoritative, and only the deterministic non-payment safety step was retained.'',
     mp_steps = [''Review the authoritative reason codes and causal memory IDs.''], mp_tools = [], mp_receipt = None\<rparr>"

definition state_copy :: "agent_state \<Rightarrow> string \<times> string" where
  "state_copy st =
     (if st = HaltActionUnavailable then
        (''The safe-action Adapter was unavailable, so the Agent stopped without claiming that a review or escalation artifact was created.'',
         ''Restore the Sibyl safety-action Adapter and start a new Agent run.'')
      else if st = AwaitFinalize then
        (''MemoryGuard recalled a matching trusted baseline. The Agent prepared a non-executable review card and did not gain payment authority.'',
         ''Review the causal memory and proof before any external action.'')
      else if st = BlockAndEscalate then
        (''MemoryGuard recalled a dispute or revocation. The Agent suppressed review preparation and created a non-executable escalation case.'',
         ''Investigate the causal memory IDs; do not perform the requested action.'')
      else
        (''MemoryGuard did not grant an automated path. The Agent created a non-executable operator review case.'',
         ''Obtain new trusted evidence and start a new Agent run.''))"

definition operator_copy :: "agent_state \<Rightarrow> bool \<Rightarrow> string \<times> string list" where
  "operator_copy st degraded =
     (fst (state_copy st) @ (if degraded then '' The external planning model was unavailable.'' else []), [snd (state_copy st)])"

end
