(* ===== verification/Mg_Agent_Run.thy ===== *)
theory Mg_Agent_Run
  imports Mg_Agent
begin

text \<open>
  Running, inspecting and resuming a recorded run of the agent: \<^verbatim>\<open>_validate_run\<close>, \<^verbatim>\<open>run\<close>,
  \<^verbatim>\<open>inspect\<close> and \<^verbatim>\<open>resume\<close> of \<^verbatim>\<open>src/src/proofops_memoryguard/agent.py\<close>.
\<close>

section \<open>The check of a recorded run\<close>

definition hash64 :: "string \<Rightarrow> bool" where
  "hash64 s \<longleftrightarrow> length s = 64 \<and> list_all is_hexlow s"

definition known_tools :: "string list" where
  "known_tools = [''memoryguard.decide'', ''model.plan'', ''model.receipt'', ''agent.cancel'', prepare_tool, verify_tool]
     @ registered_tools"

definition valid_state :: "draft \<Rightarrow> agent_state \<Rightarrow> bool" where
  "valid_state d st \<longleftrightarrow> (let base = fst (authorization d) in
     st \<in> {base, HaltActionUnavailable, DegradedSafeOnly, BlockAndRedecide} \<or> (base \<noteq> BlockAndEscalate \<and> st = Cancelled))"

text \<open>One event of the trace, against the run: every branch raises the same integrity error.\<close>

definition event_valid :: "agent_run \<Rightarrow> tool_event \<Rightarrow> bool" where
  "event_valid r x \<longleftrightarrow>
     (let allowed = fst (snd (authorization (ar_decision r))) in
      hash64 (te_input x) \<and> (case te_output x of None \<Rightarrow> True | Some h \<Rightarrow> hash64 h) \<and>
      (te_tool x \<in> set known_tools \<or> (te_phase x = Suppressed \<and> te_reason x = ''tool_not_registered'')) \<and>
      (if te_tool x \<in> set registered_tools \<and> te_phase x \<in> {Called, Succeeded} then
         te_tool x \<in> set allowed \<and> (if te_tool x = brief_tool then te_tool x \<in> set (ar_requested r) else True)
       else True) \<and>
      (if te_tool x \<in> {prepare_tool, verify_tool} \<and> te_phase x \<in> {Called, Succeeded, Refused}
       then te_tool x \<in> set (keys (ar_artifacts r)) else True))"

definition receipt_fields :: "string list" where
  "receipt_fields = [''backend'', ''configured_model'', ''resolved_model'', ''generation_id'', ''completion_sha256'',
     ''model_context_hash'', ''completed_at'']"

definition text_present :: "jobj \<Rightarrow> string \<Rightarrow> bool" where
  "text_present d k \<longleftrightarrow> (case jget d k of JStr s \<Rightarrow> s \<noteq> [] | _ \<Rightarrow> False)"

definition receipt_events :: "agent_run \<Rightarrow> tool_event list" where
  "receipt_events r = filter (\<lambda>x. te_tool x = ''model.receipt'') (ar_trace r)"

definition planned_events :: "agent_run \<Rightarrow> tool_event list" where
  "planned_events r = filter (\<lambda>x. te_tool x = ''model.plan'' \<and> te_phase x = Succeeded) (ar_trace r)"

definition receipt_traced :: "agent_run \<Rightarrow> string \<Rightarrow> string \<Rightarrow> bool" where
  "receipt_traced r inp out \<longleftrightarrow>
     (case (receipt_events r, planned_events r) of
        ([x], [p]) \<Rightarrow> te_phase x = Succeeded \<and> te_reason x = ''non_secret_provider_receipt'' \<and> te_input x = inp \<and>
          te_output x = Some out \<and> te_seq x = te_seq p + 1
      | _ \<Rightarrow> False)"

definition model_context_of :: "env \<Rightarrow> jobj \<Rightarrow> string list \<Rightarrow> string res" where
  "model_context_of E ctx allowed = domain_hash E ''agent-model-context''
     (JObj [(''context'', JObj ctx), (''allowed_tools'', jstrs allowed)])"

definition receipt_valid :: "env \<Rightarrow> agent_run \<Rightarrow> jobj \<Rightarrow> unit res" where
  "receipt_valid E r rc =
     (case authorization (ar_decision r) of (base, allowed, mandatory) \<Rightarrow>
      ebind (check (list_all (text_present rc) receipt_fields) integrity) (\<lambda>_.
      ebind (check (hash64 (case jget rc ''completion_sha256'' of JStr s \<Rightarrow> s | _ \<Rightarrow> [])) integrity) (\<lambda>_.
      ebind (check (jget rc ''backend'' = JStr (ar_model r) \<and> jget rc ''live_call_verified'' = JBool True \<and>
        jget rc ''structured_output_validated'' = JBool True \<and>
        jget rc ''production_reliability_claimed'' = JBool False) integrity) (\<lambda>_.
      ebind (agent_context E (ar_decision r) base) (\<lambda>ctx.
      ebind (model_context_of E ctx allowed) (\<lambda>h.
      ebind (check (jget rc ''model_context_hash'' = JStr h) integrity) (\<lambda>_.
      ebind (domain_hash E ''agent-tool-output:model.receipt'' (JObj rc)) (\<lambda>out.
      ebind (domain_hash E ''agent-tool-input:model.receipt''
          (JObj [(''run_id'', JStr (ar_id r)), (''model_context_hash'', JStr h)])) (\<lambda>inp.
      check (receipt_traced r inp out) integrity)))))))))"

definition schema_valid :: "env \<Rightarrow> bool \<Rightarrow> agent_run \<Rightarrow> unit res" where
  "schema_valid E production r =
     ebind (check (ar_schema r \<in> {''1.0'', ''1.1''}) integrity) (\<lambda>_.
     if ar_schema r = ''1.0'' then check (ar_receipt r = None \<and> receipt_events r = []) integrity
     else ebind (check (\<not> (ar_degraded r \<and> ar_receipt r \<noteq> None)) integrity) (\<lambda>_.
       case ar_receipt r of
         Some rc \<Rightarrow> receipt_valid E r rc
       | None \<Rightarrow> ebind (check (receipt_events r = []) integrity) (\<lambda>_.
           check (\<not> (production \<and> \<not> ar_degraded r)) integrity)))"

definition action_domain :: "string \<Rightarrow> string" where
  "action_domain tool = (if tool = review_tool then ''review-action''
     else if tool = escalation_tool then ''escalation-action'' else ''evidence-brief-action'')"

definition artifact_valid :: "env \<Rightarrow> agent_run \<Rightarrow> string \<times> json \<Rightarrow> unit res" where
  "artifact_valid E r = (\<lambda>(name, v). case v of
     JObj a \<Rightarrow>
       ebind (check (\<not> (truthy (jget a ''decision_id'') \<and> jget a ''decision_id'' \<noteq> JStr (dd_id (ar_decision r)))) integrity) (\<lambda>_.
       ebind (check (jget a ''executable'' = JBool False) integrity) (\<lambda>_.
       if name \<in> set registered_tools then
         ebind (action_id E (action_domain name) (ar_decision r)) (\<lambda>i.
         ebind (check (jget a ''action_id'' = JStr i) integrity) (\<lambda>_.
         ebind (domain_hash E (''agent-tool-output:'' @ name) v) (\<lambda>out.
         check (list_ex (\<lambda>x. te_tool x = name \<and> te_phase x = Succeeded \<and> te_output x = Some out) (ar_trace r)) integrity)))
       else Inr ()))
   | _ \<Rightarrow> Inl integrity)"

definition proof_artifact :: "agent_run \<Rightarrow> json" where
  "proof_artifact r = (if truthy (jget (ar_artifacts r) verify_tool) then jget (ar_artifacts r) verify_tool
     else jget (ar_artifacts r) prepare_tool)"

definition proof_tool :: "agent_run \<Rightarrow> string" where
  "proof_tool r = (if map_of (ar_artifacts r) verify_tool \<noteq> None then verify_tool else prepare_tool)"

definition anchor_valid :: "env \<Rightarrow> agent_run \<Rightarrow> unit res" where
  "anchor_valid E r =
     (if truthy (proof_artifact r) then
        (let a = (case proof_artifact r of JObj d \<Rightarrow> d | _ \<Rightarrow> []) in
         ebind (check (jget a ''state'' = JStr (anchor_str (ar_anchor r))) integrity) (\<lambda>_.
         ebind (check (jget a ''proof_root'' = JStr (dd_proof (ar_decision r))) integrity) (\<lambda>_.
         ebind (domain_hash E (''agent-tool-output:'' @ proof_tool r) (proof_artifact r)) (\<lambda>out.
         check (list_ex (\<lambda>x. te_tool x = proof_tool r \<and> te_phase x \<in> {Succeeded, Refused} \<and> te_output x = Some out)
           (ar_trace r)) integrity))))
      else check (ar_anchor r = NotConfigured) integrity)"

definition copy_valid :: "agent_run \<Rightarrow> bool" where
  "copy_valid r \<longleftrightarrow>
     operator_copy (if ar_state r = HaltActionUnavailable then HaltActionUnavailable else fst (authorization (ar_decision r)))
       (ar_degraded r) = (ar_explanation r, ar_steps r)"

definition identity_valid :: "env \<Rightarrow> agent_run \<Rightarrow> unit res" where
  "identity_valid E r =
     ebind (validate_draft E (ar_decision r)) (\<lambda>_.
     ebind (draft_run E (ar_decision r)) (\<lambda>i.
     ebind (check (ar_id r = i) integrity) (\<lambda>_.
     ebind (draft_request E (ar_decision r)) (\<lambda>h.
     ebind (check (ar_request r = h) integrity) (\<lambda>_.
     ebind (check (\<not> ar_executable r) integrity) (\<lambda>_.
     ebind (draft_fingerprint E (ar_decision r)) (\<lambda>fp.
     check (ar_fingerprint r = fp) integrity)))))))"

definition artifacts_valid :: "env \<Rightarrow> agent_run \<Rightarrow> unit res" where
  "artifacts_valid E r =
     ebind (check (set (keys (ar_artifacts r)) \<subseteq> set (registered_tools @ [prepare_tool, verify_tool])) integrity) (\<lambda>_.
     ebind (check (ar_state r = HaltActionUnavailable \<or> snd (snd (authorization (ar_decision r))) \<in> set (keys (ar_artifacts r)))
       integrity) (\<lambda>_.
     ebind (check (\<not> (brief_tool \<in> set (keys (ar_artifacts r)) \<and> brief_tool \<notin> set (ar_requested r))) integrity) (\<lambda>_.
     ebind (emap (artifact_valid E r) (ar_artifacts r)) (\<lambda>_. Inr ()))))"

definition validate_run :: "env \<Rightarrow> agent \<Rightarrow> agent_run \<Rightarrow> unit res" where
  "validate_run E A r =
     ebind (identity_valid E r) (\<lambda>_.
     ebind (check (map te_seq (ar_trace r) = map int [1..<length (ar_trace r) + 1]) integrity) (\<lambda>_.
     ebind (check (\<not> (ag_production A \<and> ar_model r \<noteq> ''remote_structured_model'')) integrity) (\<lambda>_.
     ebind (check (valid_state (ar_decision r) (ar_state r)) integrity) (\<lambda>_.
     ebind (check (set (ar_requested r) \<subseteq> set (fst (snd (authorization (ar_decision r))))) integrity) (\<lambda>_.
     ebind (check (list_all (event_valid r) (ar_trace r)) integrity) (\<lambda>_.
     ebind (schema_valid E (ag_production A) r) (\<lambda>_.
     ebind (artifacts_valid E r) (\<lambda>_.
     ebind (anchor_valid E r) (\<lambda>_.
     check (copy_valid r) integrity)))))))))"

section \<open>The world of the agent\<close>

text \<open>What one operation draws from outside: the times and the fresh names.\<close>

record moment =
  mo_event :: "nat \<Rightarrow> int"
  mo_policy :: "nat \<Rightarrow> int"
  mo_guard :: int
  mo_end :: int
  mo_uuid :: string
  mo_nonce :: string

record 'a world =
  wd_memory :: memory
  wd_actions :: 'a
  wd_runs :: "agent_run dict"

text \<open>The in-memory ledger: a run is stored under its id.\<close>

definition save_run :: "agent_run \<Rightarrow> (unit, 'a world) op" where
  "save_run r w = (Inr (), w\<lparr>wd_runs := dset (ar_id r) r (wd_runs w)\<rparr>)"

definition load_run :: "string \<Rightarrow> 'a world \<Rightarrow> agent_run option" where
  "load_run i w = map_of (wd_runs w) i"

definition on_actions :: "('b, 'a) op \<Rightarrow> ('b, 'a world) op" where
  "on_actions m w = (case m (wd_actions w) of (r, a) \<Rightarrow> (r, w\<lparr>wd_actions := a\<rparr>))"

definition guard_decide :: "env \<Rightarrow> agent \<Rightarrow> goal \<Rightarrow> moment \<Rightarrow> (draft, 'a world) op" where
  "guard_decide E A g R w =
     (case decide E (ag_guard A) (wd_memory w) (go_intent g) (mo_uuid R) (mo_nonce R) (mo_policy R) (mo_guard R) of
        Inl e \<Rightarrow> (Inl e, w) | Inr (m, d) \<Rightarrow> (Inr d, w\<lparr>wd_memory := m\<rparr>))"

definition guard_finalize :: "env \<Rightarrow> agent \<Rightarrow> string \<Rightarrow> string option \<Rightarrow> moment \<Rightarrow> (finalization, 'a world) op" where
  "guard_finalize E A i tx R w =
     (case finalize E (ag_guard A) (wd_memory w) i tx (mo_guard R) of
        Inl e \<Rightarrow> (Inl e, w) | Inr (m, f) \<Rightarrow> (Inr f, w\<lparr>wd_memory := m\<rparr>))"

section \<open>Running a goal\<close>

text \<open>
  The planning call: when it raises, the events it had added stay in the trace. The answer is the
  plan or the exception, with the trace.
\<close>

definition try_plan :: "env \<Rightarrow> agent \<Rightarrow> moment \<Rightarrow> string \<Rightarrow> jobj \<Rightarrow> string list \<Rightarrow> tool_event list \<Rightarrow> model_plan res \<times> tool_event list"
where
  "try_plan E A R run_id ctx allowed tr =
     (case ag_plan A ctx allowed of
        Inl e \<Rightarrow> (Inl e, tr)
      | Inr p \<Rightarrow>
        (case ebind (domain_hash E ''model-explanation'' (JStr (mp_explanation p))) (\<lambda>h.
              add_event E (mo_event R) tr ''model.plan'' Succeeded ''structured_plan_received'' (JObj ctx)
                (Some (JObj [(''requested_tools'', jstrs (mp_tools p)), (''explanation_hash'', JStr h)]))) of
           Inl e \<Rightarrow> (Inl e, tr)
         | Inr tr1 \<Rightarrow>
           (case mp_receipt p of
              None \<Rightarrow> (Inr p, tr1)
            | Some rc \<Rightarrow>
              (case add_event E (mo_event R) tr1 ''model.receipt'' Succeeded ''non_secret_provider_receipt''
                   (JObj [(''run_id'', JStr run_id),
                     (''model_context_hash'', JStr (shown_or (ag_py A) rc ''model_context_hash'' []))]) (Some (JObj rc)) of
                 Inl e \<Rightarrow> (Inl e, tr1) | Inr tr2 \<Rightarrow> (Inr p, tr2)))))"

definition plan_or_fallback :: "env \<Rightarrow> agent \<Rightarrow> moment \<Rightarrow> string \<Rightarrow> jobj \<Rightarrow> string list \<Rightarrow> tool_event list
    \<Rightarrow> (model_plan \<times> bool \<times> tool_event list) res"
where
  "plan_or_fallback E A R run_id ctx allowed tr =
     (case try_plan E A R run_id ctx allowed tr of
        (Inr p, tr') \<Rightarrow> Inr (p, False, tr')
      | (Inl e, tr') \<Rightarrow> ebind (add_event E (mo_event R) tr' ''model.plan'' Refused (''planning_failed_'' @ exc_name e) (JObj ctx) None)
          (\<lambda>tr''. Inr (fallback_plan, True, tr'')))"

text \<open>Tools the model names and the registry does not know are visibly suppressed.\<close>

fun suppress_unknown :: "env \<Rightarrow> moment \<Rightarrow> draft \<Rightarrow> string list \<Rightarrow> tool_event list \<Rightarrow> tool_event list res" where
  "suppress_unknown E R d [] tr = Inr tr"
| "suppress_unknown E R d (u # us) tr =
     ebind (add_event E (mo_event R) tr u Suppressed ''tool_not_registered'' (JObj [(''decision_id'', JStr (dd_id d))]) None)
       (suppress_unknown E R d us)"

record progress =
  pg_trace :: "tool_event list"
  pg_artifacts :: "json dict"
  pg_failed :: bool

definition tool_input :: "draft \<Rightarrow> json" where
  "tool_input d = JObj [(''decision_id'', JStr (dd_id d)), (''verdict'', JStr (mverdict_str (dd_verdict d)))]"

text \<open>
  The call of one tool. An artifact whose trace event cannot be hashed stays in the artifacts,
  and the step counts as failed.
\<close>

definition perform :: "env \<Rightarrow> 'a actions_port \<Rightarrow> moment \<Rightarrow> draft \<Rightarrow> string \<Rightarrow> progress \<Rightarrow> (progress, 'a) op" where
  "perform E X R d tool p acts =
     (case call_action X tool d acts of
        (Inl e, acts') \<Rightarrow>
          (ebind (add_event E (mo_event R) (pg_trace p) tool Refused (''safe_action_failed_'' @ exc_name e) (tool_input d) None)
             (\<lambda>tr. Inr (p\<lparr>pg_trace := tr, pg_failed := True\<rparr>)), acts')
      | (Inr a, acts') \<Rightarrow>
          (let p' = p\<lparr>pg_artifacts := dset tool (JObj a) (pg_artifacts p)\<rparr> in
           case add_event E (mo_event R) (pg_trace p) tool Succeeded ''persisted_by_safe_action_adapter'' (tool_input d) (Some (JObj a)) of
             Inr tr \<Rightarrow> (Inr (p'\<lparr>pg_trace := tr\<rparr>), acts')
           | Inl e \<Rightarrow>
             (ebind (add_event E (mo_event R) (pg_trace p) tool Refused (''safe_action_failed_'' @ exc_name e) (tool_input d) None)
               (\<lambda>tr. Inr (p'\<lparr>pg_trace := tr, pg_failed := True\<rparr>)), acts')))"

definition tool_step :: "env \<Rightarrow> 'a actions_port \<Rightarrow> moment \<Rightarrow> draft \<Rightarrow> string list \<Rightarrow> string \<Rightarrow> progress \<Rightarrow> (progress, 'a) op" where
  "tool_step E X R d requested tool p =
     (case authorization d of (base, allowed, mandatory) \<Rightarrow>
      sbind (lift (add_event E (mo_event R) (pg_trace p) tool Considered ''closed_tool_registry'' (tool_input d) None)) (\<lambda>tr.
      if tool \<notin> set allowed then
        lift (ebind (add_event E (mo_event R) tr tool Suppressed (''verdict_'' @ mverdict_str (dd_verdict d)) (tool_input d) None)
          (\<lambda>tr'. Inr (p\<lparr>pg_trace := tr'\<rparr>)))
      else if tool \<noteq> mandatory \<and> tool \<notin> set requested then
        lift (ebind (add_event E (mo_event R) tr tool Suppressed ''not_requested_by_model'' (tool_input d) None)
          (\<lambda>tr'. Inr (p\<lparr>pg_trace := tr'\<rparr>)))
      else
        sbind (lift (add_event E (mo_event R) tr tool Called
          (if tool = mandatory then ''mandatory_safety_action'' else ''requested_by_model_and_authorized'') (tool_input d) None))
          (\<lambda>tr'. perform E X R d tool (p\<lparr>pg_trace := tr'\<rparr>))))"

fun tool_loop :: "env \<Rightarrow> 'a actions_port \<Rightarrow> moment \<Rightarrow> draft \<Rightarrow> string list \<Rightarrow> string list \<Rightarrow> progress \<Rightarrow> (progress, 'a) op" where
  "tool_loop E X R d requested [] p = lift (Inr p)"
| "tool_loop E X R d requested (t # ts) p = sbind (tool_step E X R d requested t p) (tool_loop E X R d requested ts)"

definition new_run :: "agent \<Rightarrow> string \<Rightarrow> string \<Rightarrow> string \<Rightarrow> draft \<Rightarrow> model_plan \<Rightarrow> bool \<Rightarrow> progress \<Rightarrow> int \<Rightarrow> agent_run" where
  "new_run A run_id request fp d plan degraded p now =
     (case authorization d of (base, allowed, mandatory) \<Rightarrow>
      let st = (if pg_failed p then HaltActionUnavailable else if degraded then DegradedSafeOnly else base);
          copy = operator_copy (if pg_failed p then HaltActionUnavailable else base) degraded
      in \<lparr>ar_id = run_id, ar_request = request, ar_runtime = ag_runtime A, ar_state = st, ar_decision = d, ar_fingerprint = fp,
          ar_explanation = fst copy, ar_steps = snd copy, ar_degraded = degraded, ar_model = ag_model_kind A,
          ar_receipt = mp_receipt plan, ar_requested = filter (\<lambda>t. t \<in> set allowed) (mp_tools plan),
          ar_trace = pg_trace p, ar_artifacts = pg_artifacts p, ar_anchor = NotConfigured, ar_executable = False,
          ar_created = now, ar_updated = now, ar_schema = ''1.1''\<rparr>)"

definition fresh_run :: "env \<Rightarrow> agent \<Rightarrow> 'a actions_port \<Rightarrow> goal \<Rightarrow> string \<Rightarrow> string \<Rightarrow> moment \<Rightarrow> (agent_run, 'a world) op" where
  "fresh_run E A X g request run_id R =
     sbind (lift (goal_fingerprint E g)) (\<lambda>fp.
     let inp = JObj [(''action_fingerprint'', JStr fp)] in
     sbind (lift (add_event E (mo_event R) [] ''memoryguard.decide'' Considered ''mandatory_authority'' inp None)) (\<lambda>tr.
     sbind (lift (add_event E (mo_event R) tr ''memoryguard.decide'' Called ''mandatory_authority'' inp None)) (\<lambda>tr.
     sbind (guard_decide E A g R) (\<lambda>d.
     sbind (lift (add_event E (mo_event R) tr ''memoryguard.decide'' Succeeded (''verdict_'' @ mverdict_str (dd_verdict d)) inp
       (Some (JObj [(''decision_id'', JStr (dd_id d)), (''proof_root'', JStr (dd_proof d))])))) (\<lambda>tr.
     sbind (lift (agent_context E d (fst (authorization d)))) (\<lambda>ctx.
     sbind (lift (add_event E (mo_event R) tr ''model.plan'' Considered ''bounded_planning'' (JObj ctx) None)) (\<lambda>tr.
     sbind (lift (add_event E (mo_event R) tr ''model.plan'' Called ''bounded_planning'' (JObj ctx) None)) (\<lambda>tr.
     sbind (lift (plan_or_fallback E A R run_id ctx (fst (snd (authorization d))) tr)) (\<lambda>(plan, degraded, tr).
     sbind (lift (suppress_unknown E R d (sorted_set (filter (\<lambda>t. t \<notin> set registered_tools) (mp_tools plan))) tr)) (\<lambda>tr.
     sbind (on_actions (tool_loop E X R d (mp_tools plan) registered_tools
       \<lparr>pg_trace = tr, pg_artifacts = [], pg_failed = False\<rparr>)) (\<lambda>p.
     let r = new_run A run_id request fp d plan degraded p (mo_end R) in
     sbind (lift (validate_run E A r)) (\<lambda>_.
     sbind (save_run r) (\<lambda>_. lift (Inr r))))))))))))))"

definition run_claimed :: "env \<Rightarrow> agent \<Rightarrow> 'a actions_port \<Rightarrow> goal \<Rightarrow> string \<Rightarrow> string \<Rightarrow> moment \<Rightarrow> (agent_run, 'a world) op" where
  "run_claimed E A X g request run_id R w =
     (case load_run run_id w of
        Some r \<Rightarrow> lift (ebind (validate_run E A r) (\<lambda>_.
          ebind (check (ar_request r = request) (PyExc ''MemoryConflictError'')) (\<lambda>_. Inr r))) w
      | None \<Rightarrow> fresh_run E A X g request run_id R w)"

definition run_goal :: "env \<Rightarrow> agent \<Rightarrow> 'a actions_port \<Rightarrow> goal \<Rightarrow> moment \<Rightarrow> (agent_run, 'a world) op" where
  "run_goal E A X g R =
     sbind (lift (goal_request E g)) (\<lambda>request. sbind (lift (goal_run E g)) (\<lambda>run_id. run_claimed E A X g request run_id R))"

definition inspect_run :: "env \<Rightarrow> agent \<Rightarrow> string \<Rightarrow> (agent_run, 'a world) op" where
  "inspect_run E A i w =
     (case load_run i w of
        None \<Rightarrow> (Inl (PyExc ''DecisionNotFoundError''), w)
      | Some r \<Rightarrow> lift (ebind (validate_run E A r) (\<lambda>_. Inr r)) w)"

section \<open>Resuming a run\<close>

text \<open>A signal of a person; \<^verbatim>\<open>kind\<close> is a free text in the code too.\<close>

record signal =
  sg_kind :: string
  sg_tx :: "string option"

text \<open>The three events of a step that is asked for: considered, called, and what came of it.\<close>

definition begin_step :: "env \<Rightarrow> moment \<Rightarrow> string \<Rightarrow> string \<Rightarrow> json \<Rightarrow> tool_event list \<Rightarrow> tool_event list res" where
  "begin_step E R tool why inp tr =
     ebind (add_event E (mo_event R) tr tool Considered why inp None) (\<lambda>tr1.
     add_event E (mo_event R) tr1 tool Called why inp None)"

definition cancel_run :: "env \<Rightarrow> moment \<Rightarrow> agent_run \<Rightarrow> (agent_run, 'a world) op" where
  "cancel_run E R r =
     (if ar_state r \<in> {BlockAndEscalate, HaltActionUnavailable, DegradedSafeOnly, BlockAndRedecide, Cancelled} then lift (Inr r)
      else
        (let inp = JObj [(''run_id'', JStr (ar_id r))] in
         sbind (lift (begin_step E R ''agent.cancel'' ''human_cancel_signal'' inp (ar_trace r))) (\<lambda>tr.
         sbind (lift (add_event E (mo_event R) tr ''agent.cancel'' Succeeded ''run_cancelled'' inp (Some inp))) (\<lambda>tr.
         let r' = r\<lparr>ar_state := Cancelled, ar_trace := tr, ar_updated := mo_end R\<rparr> in
         sbind (save_run r') (\<lambda>_. lift (Inr r'))))))"

text \<open>The run after an anchor step: the event, the artifact and the anchor state of the result.\<close>

definition anchored :: "env \<Rightarrow> moment \<Rightarrow> string \<Rightarrow> tool_phase \<Rightarrow> json \<Rightarrow> finalization \<Rightarrow> agent_run \<Rightarrow> tool_event list
    \<Rightarrow> (agent_run, 'a world) op"
where
  "anchored E R tool ph inp f r tr =
     sbind (lift (add_event E (mo_event R) tr tool ph (''anchor_'' @ anchor_str (fz_state f)) inp (Some (finalization_json f)))) (\<lambda>tr'.
     let r' = r\<lparr>ar_trace := tr', ar_anchor := fz_state f, ar_artifacts := dset tool (finalization_json f) (ar_artifacts r),
          ar_updated := mo_end R, ar_executable := False\<rparr> in
     sbind (save_run r') (\<lambda>_. lift (Inr r')))"

definition prepare_run :: "env \<Rightarrow> agent \<Rightarrow> moment \<Rightarrow> agent_run \<Rightarrow> (agent_run, 'a world) op" where
  "prepare_run E A R r =
     (let inp = JObj [(''decision_id'', JStr (dd_id (ar_decision r)))] in
      sbind (lift (begin_step E R prepare_tool ''human_request'' inp (ar_trace r))) (\<lambda>tr.
      sbind (guard_finalize E A (dd_id (ar_decision r)) None R) (\<lambda>f.
      anchored E R prepare_tool (if fz_state f = Failed then Refused else Succeeded) inp f r tr)))"

definition recall_failure :: "agent_run \<Rightarrow> jobj" where
  "recall_failure r = [(''decision_id'', JStr (dd_id (ar_decision r))), (''state'', JStr ''failed''),
     (''proof_root'', JStr (dd_proof (ar_decision r))), (''reason_codes'', jstrs [''decision_requires_fresh_recall'']),
     (''executable'', JBool False)]"

definition redecide_run :: "env \<Rightarrow> moment \<Rightarrow> json \<Rightarrow> err \<Rightarrow> agent_run \<Rightarrow> tool_event list \<Rightarrow> (agent_run, 'a world) op" where
  "redecide_run E R inp e r tr =
     sbind (lift (add_event E (mo_event R) tr verify_tool Refused (''decision_requires_recall_'' @ exc_name e) inp
       (Some (JObj (recall_failure r))))) (\<lambda>tr'.
     let r' = r\<lparr>ar_state := BlockAndRedecide, ar_trace := tr', ar_anchor := Failed,
          ar_artifacts := dset verify_tool (JObj (recall_failure r)) (ar_artifacts r), ar_updated := mo_end R,
          ar_executable := False\<rparr> in
     sbind (save_run r') (\<lambda>_. lift (Inr r')))"

definition verify_run :: "env \<Rightarrow> agent \<Rightarrow> moment \<Rightarrow> string \<Rightarrow> agent_run \<Rightarrow> (agent_run, 'a world) op" where
  "verify_run E A R tx r =
     (let inp = JObj [(''decision_id'', JStr (dd_id (ar_decision r))), (''tx_hash'', JStr tx)] in
      sbind (lift (begin_step E R verify_tool ''human_wallet_signal'' inp (ar_trace r))) (\<lambda>tr w.
      case guard_finalize E A (dd_id (ar_decision r)) (Some tx) R w of
        (Inl e, w') \<Rightarrow> (if e = final_error then redecide_run E R inp e r tr w' else (Inl e, w'))
      | (Inr f, w') \<Rightarrow> anchored E R verify_tool (if fz_state f \<in> {Pending, Verified} then Succeeded else Refused) inp f r tr w'))"

definition verified_tx :: "agent_run \<Rightarrow> json" where
  "verified_tx r = jget (jsub (jsub (ar_artifacts r) verify_tool) ''anchor_verification'') ''tx_hash''"

definition resume_run :: "env \<Rightarrow> agent \<Rightarrow> string \<Rightarrow> signal \<Rightarrow> moment \<Rightarrow> (agent_run, 'a world) op" where
  "resume_run E A i s R =
     sbind (inspect_run E A i) (\<lambda>r.
     if sg_kind s = ''cancel'' then cancel_run E R r
     else if ar_state r \<in> {Cancelled, HaltActionUnavailable, DegradedSafeOnly, BlockAndRedecide}
       then lift (Inl (PyExc ''ValueError''))
     else if sg_kind s = ''prepare_anchor'' then prepare_run E A R r
     else if sg_kind s \<noteq> ''anchor_transaction_observed'' \<or> \<not> given (sg_tx s) then lift (Inl (PyExc ''ValueError''))
     else if ar_anchor r = Verified then
       (if verified_tx r = JStr (the (sg_tx s)) then lift (Inr r) else lift (Inl (PyExc ''ValueError'')))
     else verify_run E A R (the (sg_tx s)) r)"

end
