(* ===== verification/Mg_Agent_Valid.thy ===== *)
theory Mg_Agent_Valid
  imports Mg_Agent_Facts
begin

text \<open>
  The recorded runs stay valid: a step that appends its own events, keeps the artifacts of the
  safety actions and records a matching anchor artifact leads from a run that passes
  \<^verbatim>\<open>_validate_run\<close> to one that passes it.
\<close>

section \<open>Appending to a valid run\<close>

lemma emap_ok_iff: "(\<exists>ys. emap f xs = Inr ys) \<longleftrightarrow> (\<forall>x \<in> set xs. \<exists>y. f x = Inr y)"
  by (induction xs) (auto simp: ebind_eq_Inr)

lemma unit_Inr: "(\<exists>u. m = Inr (u :: unit)) \<longleftrightarrow> m = Inr ()"
  by simp

lemma artifacts_valid_Inr:
  "artifacts_valid E r = Inr () \<longleftrightarrow>
     set (keys (ar_artifacts r)) \<subseteq> set (registered_tools @ [prepare_tool, verify_tool]) \<and>
     (ar_state r = HaltActionUnavailable \<or> snd (snd (authorization (ar_decision r))) \<in> set (keys (ar_artifacts r))) \<and>
     \<not> (brief_tool \<in> set (keys (ar_artifacts r)) \<and> brief_tool \<notin> set (ar_requested r)) \<and>
     (\<forall>x \<in> set (ar_artifacts r). artifact_valid E r x = Inr ())"
  using emap_ok_iff [of "artifact_valid E r" "ar_artifacts r"]
  by (auto simp: artifacts_valid_def ebind_eq_Inr)

lemma validate_run_Inr:
  "validate_run E A r = Inr () \<longleftrightarrow> identity_valid E r = Inr () \<and>
     map te_seq (ar_trace r) = map int [1..<length (ar_trace r) + 1] \<and>
     \<not> (ag_production A \<and> ar_model r \<noteq> ''remote_structured_model'') \<and> valid_state (ar_decision r) (ar_state r) \<and>
     set (ar_requested r) \<subseteq> set (fst (snd (authorization (ar_decision r)))) \<and> list_all (event_valid r) (ar_trace r) \<and>
     schema_valid E (ag_production A) r = Inr () \<and> artifacts_valid E r = Inr () \<and> anchor_valid E r = Inr () \<and> copy_valid r"
  by (simp add: validate_run_def ebind_eq_Inr)

lemma event_valid_mono:
  assumes "event_valid r x" "ar_decision r' = ar_decision r" "ar_requested r' = ar_requested r"
    "set (keys (ar_artifacts r)) \<subseteq> set (keys (ar_artifacts r'))"
  shows "event_valid r' x"
proof -
  have "(if b then te_tool x \<in> set (keys (ar_artifacts r')) else True)"
    if "(if b then te_tool x \<in> set (keys (ar_artifacts r)) else True)" for b
    using that assms(4) by (cases b) auto
  with assms(1) show ?thesis unfolding event_valid_def Let_def assms(2,3) by (elim conjE) (intro conjI)
qed

lemma artifact_valid_mono:
  assumes "artifact_valid E r x = Inr ()" "ar_decision r' = ar_decision r" "set (ar_trace r) \<subseteq> set (ar_trace r')"
  shows "artifact_valid E r' x = Inr ()"
proof -
  have "list_ex P (ar_trace r')" if "list_ex P (ar_trace r)" for P using that assms(3) by (auto simp: list_ex_iff)
  with assms(1,2) show ?thesis
    by (cases x; cases "snd x") (auto simp: artifact_valid_def ebind_eq_Inr split: if_splits)
qed

lemma schema_valid_same:
  assumes "receipt_events r' = receipt_events r" "planned_events r' = planned_events r" "ar_decision r' = ar_decision r"
    "ar_id r' = ar_id r" "ar_model r' = ar_model r" "ar_receipt r' = ar_receipt r" "ar_degraded r' = ar_degraded r"
    "ar_schema r' = ar_schema r"
  shows "schema_valid E production r' = schema_valid E production r"
  using assms by (cases "ar_receipt r") (simp_all add: schema_valid_def receipt_valid_def receipt_traced_def)

text \<open>A step of a resumed run: what it may change.\<close>

definition stepped :: "agent_run \<Rightarrow> agent_state \<Rightarrow> tool_event list \<Rightarrow> json dict \<Rightarrow> anchor_state \<Rightarrow> int \<Rightarrow> agent_run" where
  "stepped r st xs arts an u = r\<lparr>ar_state := st, ar_trace := ar_trace r @ xs, ar_artifacts := arts, ar_anchor := an,
     ar_executable := False, ar_updated := u\<rparr>"

lemma stepped_simps [simp]: "ar_state (stepped r st xs arts an u) = st" "ar_trace (stepped r st xs arts an u) = ar_trace r @ xs"
  "ar_artifacts (stepped r st xs arts an u) = arts" "ar_anchor (stepped r st xs arts an u) = an"
  "\<not> ar_executable (stepped r st xs arts an u)" "ar_decision (stepped r st xs arts an u) = ar_decision r"
  "ar_id (stepped r st xs arts an u) = ar_id r" "ar_requested (stepped r st xs arts an u) = ar_requested r"
  "ar_model (stepped r st xs arts an u) = ar_model r" "ar_receipt (stepped r st xs arts an u) = ar_receipt r"
  "ar_degraded (stepped r st xs arts an u) = ar_degraded r" "ar_schema (stepped r st xs arts an u) = ar_schema r"
  "ar_request (stepped r st xs arts an u) = ar_request r" "ar_fingerprint (stepped r st xs arts an u) = ar_fingerprint r"
  "ar_explanation (stepped r st xs arts an u) = ar_explanation r" "ar_steps (stepped r st xs arts an u) = ar_steps r"
  by (simp_all add: stepped_def)

lemma stepped_valid:
  assumes v: "validate_run E A r = Inr ()"
    and seq: "map te_seq xs = map int [length (ar_trace r) + 1..<length (ar_trace r) + length xs + 1]"
    and ev: "\<forall>x \<in> set xs. event_valid (stepped r st xs arts an u) x \<and> te_tool x \<notin> {''model.receipt'', ''model.plan''}"
    and arts: "arts = ar_artifacts r \<or> (\<exists>tool a. tool \<in> {prepare_tool, verify_tool} \<and> arts = dset tool (JObj a) (ar_artifacts r) \<and>
       artifact_valid E (stepped r st xs arts an u) (tool, JObj a) = Inr ())"
    and st: "valid_state (ar_decision r) st" "st \<noteq> HaltActionUnavailable" "ar_state r \<noteq> HaltActionUnavailable"
    and an: "anchor_valid E (stepped r st xs arts an u) = Inr ()"
  shows "validate_run E A (stepped r st xs arts an u) = Inr ()"
proof -
  let ?r = "stepped r st xs arts an u"
  note v = v [unfolded validate_run_Inr]
  have keys: "set (keys (ar_artifacts r)) \<subseteq> set (keys arts)" "set (keys arts) \<subseteq> set (keys (ar_artifacts r)) \<union> {prepare_tool, verify_tool}"
  proof -
    have "fst ` set arts = fst ` set (ar_artifacts r) \<or> (\<exists>tool \<in> {prepare_tool, verify_tool}. fst ` set arts = insert tool (fst ` set (ar_artifacts r)))"
      using arts by (elim disjE exE conjE) auto
    then show "set (keys (ar_artifacts r)) \<subseteq> set (keys arts)" "set (keys arts) \<subseteq> set (keys (ar_artifacts r)) \<union> {prepare_tool, verify_tool}"
      unfolding set_map by blast+
  qed
  have "map te_seq (ar_trace r @ xs) = map int [1..<length (ar_trace r @ xs) + 1]"
    using v seq upt_add_eq_append [of 1 "length (ar_trace r) + 1" "length xs"] by simp
  moreover have "list_all (event_valid ?r) (ar_trace r @ xs)"
    using v ev event_valid_mono [of r _ ?r] keys(1) by (auto simp: list_all_iff)
  moreover have "schema_valid E (ag_production A) ?r = Inr ()"
  proof -
    have "receipt_events ?r = receipt_events r" "planned_events ?r = planned_events r"
      using ev by (auto simp: receipt_events_def planned_events_def filter_empty_conv)
    with v schema_valid_same [of ?r r] show ?thesis by simp
  qed
  moreover have "artifacts_valid E ?r = Inr ()"
  proof -
    have tools: "brief_tool \<notin> {prepare_tool, verify_tool}" by (simp add: tool_names)
    have "artifact_valid E ?r x = Inr ()" if "x \<in> set arts" for x
    proof (cases "x \<in> set (ar_artifacts r)")
      case True
      with v have "artifact_valid E r x = Inr ()" by (simp add: artifacts_valid_Inr)
      then show ?thesis by (rule artifact_valid_mono) simp_all
    next
      case False
      with that arts show ?thesis by (auto dest: set_dset_subset [THEN subsetD])
    qed
    moreover from v have a: "set (keys (ar_artifacts r)) \<subseteq> set (registered_tools @ [prepare_tool, verify_tool])"
      "snd (snd (authorization (ar_decision r))) \<in> set (keys (ar_artifacts r))"
      "brief_tool \<notin> set (keys (ar_artifacts r)) \<or> brief_tool \<in> set (ar_requested r)"
      using st(3) by (simp_all only: artifacts_valid_Inr) blast+
    moreover have "set (keys arts) \<subseteq> set (registered_tools @ [prepare_tool, verify_tool])" using a(1) keys(2) by (simp only: set_append list.set) blast
    moreover have "snd (snd (authorization (ar_decision r))) \<in> set (keys arts)" using a(2) keys(1) by blast
    moreover have "brief_tool \<notin> set (keys arts) \<or> brief_tool \<in> set (ar_requested r)" using a(3) keys(2) tools by blast
    ultimately show ?thesis by (simp only: artifacts_valid_Inr stepped_simps) blast
  qed
  moreover have "identity_valid E ?r = Inr ()"
    using conjunct1 [OF v] by (auto simp: identity_valid_def ebind_eq_Inr split: if_splits)
  moreover have "copy_valid ?r" using v st by (simp add: copy_valid_def)
  ultimately show ?thesis unfolding validate_run_Inr using v st(1) an by simp
qed

section \<open>The worlds of the agent\<close>

definition run_ok :: "env \<Rightarrow> agent \<Rightarrow> memory \<Rightarrow> string \<Rightarrow> agent_run \<Rightarrow> bool" where
  "run_ok E A m i r \<longleftrightarrow> ar_id r = i \<and> validate_run E A r = Inr () \<and> load_draft m (dd_id (ar_decision r)) = Some (ar_decision r)"

definition world_ok :: "env \<Rightarrow> agent \<Rightarrow> 'a world \<Rightarrow> bool" where
  "world_ok E A w \<longleftrightarrow> memory_ok E (wd_memory w) \<and> (\<forall>i r. load_run i w = Some r \<longrightarrow> run_ok E A (wd_memory w) i r)"

lemma save_run_ok:
  assumes "world_ok E A w" "run_ok E A (wd_memory w) (ar_id r) r" "sbind (save_run r) (\<lambda>_. lift (Inr q)) w = (out, w')"
  shows "world_ok E A w'"
  using assms by (auto simp: world_ok_def save_run_def sbind_def lift_def load_run_def split: if_splits)

lemma begin_step_hashed:
  assumes "begin_step E R tool why inp tr = Inr tr'" "sha_hex E"
  obtains x y where "tr' = tr @ [x, y]" "te_seq x = int (length tr) + 1" "te_seq y = int (length tr) + 2"
    "hashed x" "hashed y" "te_tool x = tool" "te_tool y = tool"
proof -
  from assms(1) obtain tr1 where a: "add_event E (mo_event R) tr tool Considered why inp None = Inr tr1"
    "add_event E (mo_event R) tr1 tool Called why inp None = Inr tr'" unfolding begin_step_def by (elim ebind_InrE)
  from a(1) assms(2) obtain x where x: "tr1 = tr @ [x]" "te_seq x = int (length tr) + 1" "te_tool x = tool" "hashed x"
    by (rule add_event_hashed)
  from a(2) assms(2) obtain y where y: "tr' = tr1 @ [y]" "te_seq y = int (length tr1) + 1" "te_tool y = tool" "hashed y"
    by (rule add_event_hashed)
  from x y show ?thesis by (intro that [of x y]) simp_all
qed

lemma step_event_valid:
  assumes "hashed x" "te_tool x \<in> {''agent.cancel'', prepare_tool, verify_tool}"
    "te_tool x = ''agent.cancel'' \<or> te_tool x \<in> set (keys (ar_artifacts r))"
  shows "event_valid r x"
proof -
  have "te_tool x \<in> set known_tools" "te_tool x \<notin> set registered_tools"
    using assms(2) by (auto simp: known_tools_def registered_tools_def tool_names)
  moreover have "te_tool x \<in> {prepare_tool, verify_tool} \<Longrightarrow> te_tool x \<in> set (keys (ar_artifacts r))"
    using assms(3) by (auto simp: tool_names)
  ultimately show ?thesis using assms(1) unfolding event_valid_def hashed_def Let_def by auto
qed

lemma three_seqs: "te_seq x = int n + 1 \<Longrightarrow> te_seq y = int n + 2 \<Longrightarrow> te_seq z = int n + 3 \<Longrightarrow>
  map te_seq [x, y, z] = map int [n + 1..<n + length [x, y, z] + 1]"
  by (simp add: upt_rec)

lemma not_executable: "validate_run E A r = Inr () \<Longrightarrow> ar_executable r = False"
  by (auto simp: validate_run_Inr identity_valid_def ebind_eq_Inr split: if_splits)

lemma cancel_keeps:
  assumes w: "world_ok E A w" and r: "run_ok E A (wd_memory w) i r" and h: "sha_hex E" and c: "cancel_run E R r w = (out, w')"
  shows "world_ok E A w'"
proof (cases "ar_state r \<in> {BlockAndEscalate, HaltActionUnavailable, DegradedSafeOnly, BlockAndRedecide, Cancelled}")
  case True
  with c w show ?thesis by (simp add: cancel_run_def lift_def)
next
  case False
  note st = this
  from c False have c: "(let inp = JObj [(''run_id'', JStr (ar_id r))] in
         sbind (lift (begin_step E R ''agent.cancel'' ''human_cancel_signal'' inp (ar_trace r))) (\<lambda>tr.
         sbind (lift (add_event E (mo_event R) tr ''agent.cancel'' Succeeded ''run_cancelled'' inp (Some inp))) (\<lambda>tr.
         let r' = r\<lparr>ar_state := Cancelled, ar_trace := tr, ar_updated := mo_end R\<rparr> in
         sbind (save_run r') (\<lambda>_. lift (Inr r'))))) w = (out, w')"
    by (simp add: cancel_run_def)
  from r have v: "validate_run E A r = Inr ()" by (simp add: run_ok_def)
  note v' = v [unfolded validate_run_Inr]
  show ?thesis
    using c unfolding Let_def
  proof (elim sbind_lift_inv [where P = "world_ok E A", OF _ w], goal_cases)
    case (1 tr1 tr2)
    from 1(1) h obtain x y where xy: "tr1 = ar_trace r @ [x, y]" "te_seq x = int (length (ar_trace r)) + 1"
      "te_seq y = int (length (ar_trace r)) + 2" "hashed x" "hashed y" "te_tool x = ''agent.cancel''" "te_tool y = ''agent.cancel''"
      by (rule begin_step_hashed)
    from 1(2) h obtain z where z: "tr2 = tr1 @ [z]" "te_seq z = int (length tr1) + 1" "te_tool z = ''agent.cancel''" "hashed z"
      by (rule add_event_hashed)
    let ?r = "stepped r Cancelled [x, y, z] (ar_artifacts r) (ar_anchor r) (mo_end R)"
    have eq: "r\<lparr>ar_state := Cancelled, ar_trace := tr2, ar_updated := mo_end R\<rparr> = ?r"
      using xy(1) z(1) not_executable [OF v] by (simp add: stepped_def)
    have base: "valid_state (ar_decision r) Cancelled"
      using v' st by (cases "dd_verdict (ar_decision r)") (auto simp: valid_state_def authorization_def Let_def)
    have "validate_run E A ?r = Inr ()"
    proof (rule stepped_valid [OF v])
      show "map te_seq [x, y, z] = map int [length (ar_trace r) + 1..<length (ar_trace r) + length [x, y, z] + 1]"
        by (rule three_seqs) (use xy z in simp_all)
      show "\<forall>x \<in> set [x, y, z]. event_valid ?r x \<and> te_tool x \<notin> {''model.receipt'', ''model.plan''}"
        using xy z by (auto intro!: step_event_valid)
      show "anchor_valid E ?r = Inr ()"
        using v' unfolding anchor_valid_def proof_artifact_def proof_tool_def
        by (auto simp: Let_def ebind_eq_Inr split: if_splits)
    qed (use base st in auto)
    with r have "run_ok E A (wd_memory w) (ar_id ?r) ?r" by (simp add: run_ok_def)
    from save_run_ok [OF w this] 1(3) eq show ?case by simp
  qed
qed

text \<open>An artifact that stands for the anchor of a run, and the event that binds it.\<close>

definition anchor_part :: "agent_run \<Rightarrow> anchor_state \<Rightarrow> jobj \<Rightarrow> bool" where
  "anchor_part r an a \<longleftrightarrow> jget a ''decision_id'' = JStr (dd_id (ar_decision r)) \<and> jget a ''executable'' = JBool False \<and>
     jget a ''state'' = JStr (anchor_str an) \<and> jget a ''proof_root'' = JStr (dd_proof (ar_decision r)) \<and> a \<noteq> []"

lemma anchored_valid:
  assumes v: "validate_run E A r = Inr ()" and h: "sha_hex E"
    and b: "begin_step E R tool why inp (ar_trace r) = Inr tr1"
    and e: "add_event E (mo_event R) tr1 tool ph why' inp (Some (JObj a)) = Inr tr2"
    and ph: "ph \<in> {Succeeded, Refused}" and a: "anchor_part r an a"
    and tool: "tool = verify_tool \<or> tool = prepare_tool \<and> verify_tool \<notin> set (keys (ar_artifacts r))"
    and st: "valid_state (ar_decision r) st" "st \<noteq> HaltActionUnavailable" "ar_state r \<noteq> HaltActionUnavailable"
  shows "\<exists>xs. tr2 = ar_trace r @ xs \<and>
    validate_run E A (stepped r st xs (dset tool (JObj a) (ar_artifacts r)) an u) = Inr ()"
proof -
  from b h obtain x y where xy: "tr1 = ar_trace r @ [x, y]" "te_seq x = int (length (ar_trace r)) + 1"
    "te_seq y = int (length (ar_trace r)) + 2" "hashed x" "hashed y" "te_tool x = tool" "te_tool y = tool"
    by (rule begin_step_hashed)
  from e h obtain z out where z: "tr2 = tr1 @ [z]" "te_seq z = int (length tr1) + 1" "te_tool z = tool" "te_phase z = ph" "hashed z"
    "domain_hash E (''agent-tool-output:'' @ tool) (JObj a) = Inr out" "te_output z = Some out"
    by (rule add_event_hashed) blast
  let ?arts = "dset tool (JObj a) (ar_artifacts r)"
  let ?r = "stepped r st [x, y, z] ?arts an u"
  have t: "tool \<in> {prepare_tool, verify_tool}" "tool \<notin> set registered_tools"
    using tool by (auto simp: registered_tools_def tool_names)
  have anchor: "anchor_valid E ?r = Inr ()"
  proof -
    have ne: "prepare_tool \<noteq> verify_tool" by (simp add: tool_names)
    have "proof_artifact ?r = JObj a" "proof_tool ?r = tool"
      using tool
    proof (atomize(full), elim disjE)
      assume "tool = verify_tool"
      with a show "proof_artifact ?r = JObj a \<and> proof_tool ?r = tool"
        by (simp add: proof_artifact_def proof_tool_def jget_def anchor_part_def)
    next
      assume p: "tool = prepare_tool \<and> verify_tool \<notin> set (keys (ar_artifacts r))"
      then have "map_of (ar_artifacts r) verify_tool = None" by (intro map_of_None_keys [THEN iffD2]) (rule conjunct2)
      with p ne show "proof_artifact ?r = JObj a \<and> proof_tool ?r = tool"
        by (simp add: proof_artifact_def proof_tool_def jget_def)
    qed
    with a z ph show ?thesis by (auto simp: anchor_valid_def anchor_part_def)
  qed
  have "validate_run E A ?r = Inr ()"
  proof (rule stepped_valid [OF v])
    show "map te_seq [x, y, z] = map int [length (ar_trace r) + 1..<length (ar_trace r) + length [x, y, z] + 1]"
      by (rule three_seqs) (use xy z in simp_all)
    have "event_valid ?r q" if "q \<in> {x, y, z}" for q
    proof (rule step_event_valid)
      show "hashed q" using that xy z by auto
      have "te_tool q = tool" using that xy z by auto
      then show "te_tool q \<in> {''agent.cancel'', prepare_tool, verify_tool}" "te_tool q = ''agent.cancel'' \<or> te_tool q \<in> set (keys (ar_artifacts ?r))"
        using t(1) by auto
    qed
    moreover have "te_tool q \<notin> {''model.receipt'', ''model.plan''}" if "q \<in> {x, y, z}" for q
    proof -
      have "te_tool q = tool" using that xy z by auto
      with t(1) show ?thesis by (auto simp: tool_names)
    qed
    ultimately show "\<forall>q \<in> set [x, y, z]. event_valid ?r q \<and> te_tool q \<notin> {''model.receipt'', ''model.plan''}" by simp
    have "artifact_valid E ?r (tool, JObj a) = Inr ()"
      using t(2) a by (simp add: artifact_valid_def anchor_part_def)
    with t(1) show "?arts = ar_artifacts r \<or> (\<exists>tool' b. tool' \<in> {prepare_tool, verify_tool} \<and> ?arts = dset tool' (JObj b) (ar_artifacts r) \<and>
       artifact_valid E ?r (tool', JObj b) = Inr ())" by blast
  qed (use anchor st in auto)
  with xy z show ?thesis by auto
qed

lemma finalize_facts:
  assumes f: "finalize E G m i tx now = Inr (m', f)" and ok: "memory_ok E m" and d: "load_draft m i = Some d"
  shows "memory_ok E m'" "mm_drafts m' = mm_drafts m" "final_matches d f" "\<not> fz_executable f"
proof -
  show "memory_ok E m'" "\<not> fz_executable f" using finalize_keeps [OF ok f] by auto
  from f d obtain answer where an: "(case load_final m i of None \<Rightarrow> Inr None | Some g \<Rightarrow> existing_answer d tx g) = Inr answer"
    "(case answer of Some g \<Rightarrow> Inr (m, g) | None \<Rightarrow> new_final G m d tx) = Inr (m', f)"
    unfolding finalize_def loaded_draft_def by (elim ebind_InrE) (auto split: if_splits)
  have "final_matches d f \<and> mm_drafts m' = mm_drafts m"
  proof (cases answer)
    case None
    with an(2) have "new_final G m d tx = Inr (m', f)" by simp
    from new_final_spec [OF this] show ?thesis by (auto simp: save_final_def)
  next
    case (Some g)
    with an have "existing_answer d tx g = Inr (Some g)" "f = g" "m' = m"
      using existing_answer_same by (auto split: option.splits)
    then show ?thesis by (auto simp: existing_answer_def split: if_splits)
  qed
  then show "mm_drafts m' = mm_drafts m" "final_matches d f" by simp_all
qed

lemma final_part: "final_matches (ar_decision r) f \<Longrightarrow> \<not> fz_executable f \<Longrightarrow>
  \<exists>a. finalization_json f = JObj a \<and> anchor_part r (fz_state f) a"
  by (simp add: anchor_part_def finalization_json_def final_matches_def jget_def)

section \<open>Resuming keeps the world valid\<close>

lemma guard_finalize_world:
  assumes "guard_finalize E A (dd_id (ar_decision r)) tx R w = (out, w')" "world_ok E A w" "run_ok E A (wd_memory w) i r"
  shows "world_ok E A w'" "run_ok E A (wd_memory w') i r" "\<And>f. out = Inr f \<Longrightarrow> final_matches (ar_decision r) f \<and> \<not> fz_executable f"
proof -
  have d: "load_draft (wd_memory w) (dd_id (ar_decision r)) = Some (ar_decision r)" using assms(3) by (simp add: run_ok_def)
  have m: "memory_ok E (wd_memory w)" using assms(2) by (simp add: world_ok_def)
  show "world_ok E A w'" "run_ok E A (wd_memory w') i r"
    using assms finalize_facts(1,2) [OF _ m d]
    by (auto simp: guard_finalize_def world_ok_def run_ok_def load_draft_def load_run_def split: sum.splits prod.splits)
  show "final_matches (ar_decision r) f \<and> \<not> fz_executable f" if "out = Inr f" for f
    using assms(1) that finalize_facts(3,4) [OF _ m d] by (auto simp: guard_finalize_def split: sum.splits prod.splits)
qed

lemma saved_step:
  assumes "world_ok E A w" "run_ok E A (wd_memory w) i r" "ar_id r' = ar_id r" "ar_decision r' = ar_decision r"
    "validate_run E A r' = Inr ()" "sbind (save_run r') (\<lambda>_. lift (Inr r')) w = (out, w')"
  shows "world_ok E A w'"
  using assms by (intro save_run_ok [OF assms(1) _ assms(6)]) (simp add: run_ok_def)

lemma anchored_keeps:
  assumes w: "world_ok E A w" and r: "run_ok E A (wd_memory w) i r" and h: "sha_hex E"
    and b: "begin_step E R tool why inp (ar_trace r) = Inr tr1" and f: "final_matches (ar_decision r) f" "\<not> fz_executable f"
    and c: "anchored E R tool ph inp f r tr1 w = (out, w')" and ph: "ph \<in> {Succeeded, Refused}"
    and tool: "tool = verify_tool \<or> tool = prepare_tool \<and> verify_tool \<notin> set (keys (ar_artifacts r))"
    and st: "ar_state r \<noteq> HaltActionUnavailable"
  shows "world_ok E A w'"
  using c unfolding anchored_def
proof (elim sbind_lift_inv [where P = "world_ok E A", OF _ w], goal_cases)
  case (1 tr2)
  have v: "validate_run E A r = Inr ()" using r by (simp add: run_ok_def)
  obtain a where a: "finalization_json f = JObj a" "anchor_part r (fz_state f) a" using final_part [OF f] by blast
  have "valid_state (ar_decision r) (ar_state r)" using v by (simp add: validate_run_Inr)
  from anchored_valid [OF v h b 1(1) [unfolded a(1)] ph a(2) tool this st st, of "mo_end R"]
  obtain xs where xs: "tr2 = ar_trace r @ xs" "validate_run E A (stepped r (ar_state r) xs (dset tool (JObj a) (ar_artifacts r)) (fz_state f) (mo_end R)) = Inr ()"
    by blast
  have "r\<lparr>ar_trace := tr2, ar_anchor := fz_state f, ar_artifacts := dset tool (finalization_json f) (ar_artifacts r),
          ar_updated := mo_end R, ar_executable := False\<rparr> =
    stepped r (ar_state r) xs (dset tool (JObj a) (ar_artifacts r)) (fz_state f) (mo_end R)"
    using xs(1) a(1) by (simp add: stepped_def)
  with 1(2) xs(2) show ?case unfolding Let_def by (intro saved_step [OF w r]) simp_all
qed

lemma prepare_keeps:
  assumes w: "world_ok E A w" and r: "run_ok E A (wd_memory w) i r" and h: "sha_hex E"
    and c: "prepare_run E A R r w = (out, w')" and st: "ar_state r \<noteq> HaltActionUnavailable"
    and tool: "verify_tool \<notin> set (keys (ar_artifacts r))"
  shows "world_ok E A w'"
  using c unfolding prepare_run_def Let_def
proof (elim sbind_lift_inv [where P = "world_ok E A", OF _ w], goal_cases)
  case (1 tr1)
  from 1(2) show ?case
  proof (rule sbind_inv, goal_cases)
    case (1 q t)
    then show ?case by (rule guard_finalize_world(1) [OF _ w r])
  next
    case (2 f t)
    note g = guard_finalize_world [OF 2(1) w r]
    from g(3) 2(3) show ?case
      by (intro anchored_keeps [OF g(1,2) h 1(1) _ _ 2(3)]) (use tool st in auto)
  qed
qed

lemma redecide_keeps:
  assumes w: "world_ok E A w" and r: "run_ok E A (wd_memory w) i r" and h: "sha_hex E"
    and b: "begin_step E R verify_tool why inp (ar_trace r) = Inr tr1"
    and c: "redecide_run E R inp e r tr1 w = (out, w')" and st: "ar_state r \<noteq> HaltActionUnavailable"
  shows "world_ok E A w'"
  using c unfolding redecide_run_def
proof (elim sbind_lift_inv [where P = "world_ok E A", OF _ w], goal_cases)
  case (1 tr2)
  have v: "validate_run E A r = Inr ()" using r by (simp add: run_ok_def)
  have a: "anchor_part r Failed (recall_failure r)" by (simp add: anchor_part_def recall_failure_def jget_def)
  have "valid_state (ar_decision r) BlockAndRedecide" by (simp add: valid_state_def Let_def)
  from anchored_valid [OF v h b 1(1) _ a _ this _ st, of "mo_end R"]
  obtain xs where xs: "tr2 = ar_trace r @ xs"
    "validate_run E A (stepped r BlockAndRedecide xs (dset verify_tool (JObj (recall_failure r)) (ar_artifacts r)) Failed (mo_end R)) = Inr ()"
    by auto
  have "r\<lparr>ar_state := BlockAndRedecide, ar_trace := tr2, ar_anchor := Failed,
          ar_artifacts := dset verify_tool (JObj (recall_failure r)) (ar_artifacts r), ar_updated := mo_end R, ar_executable := False\<rparr> =
    stepped r BlockAndRedecide xs (dset verify_tool (JObj (recall_failure r)) (ar_artifacts r)) Failed (mo_end R)"
    using xs(1) by (simp add: stepped_def)
  with 1(2) xs(2) show ?case unfolding Let_def by (intro saved_step [OF w r]) simp_all
qed

lemma verify_keeps:
  assumes w: "world_ok E A w" and r: "run_ok E A (wd_memory w) i r" and h: "sha_hex E"
    and c: "verify_run E A R tx r w = (out, w')" and st: "ar_state r \<noteq> HaltActionUnavailable"
  shows "world_ok E A w'"
  using c unfolding verify_run_def Let_def
proof (elim sbind_lift_inv [where P = "world_ok E A", OF _ w], goal_cases)
  case (1 tr1)
  obtain q t where g: "guard_finalize E A (dd_id (ar_decision r)) (Some tx) R w = (q, t)" by fastforce
  note gw = guard_finalize_world [OF g w r]
  show ?case
  proof (cases q)
    case (Inl e)
    with 1(2) g gw(1) redecide_keeps [OF gw(1,2) h 1(1) _ st] show ?thesis by (auto split: if_splits)
  next
    case (Inr f)
    with 1(2) g have "anchored E R verify_tool (if fz_state f \<in> {Pending, Verified} then Succeeded else Refused)
      (JObj [(''decision_id'', JStr (dd_id (ar_decision r))), (''tx_hash'', JStr tx)]) f r tr1 t = (out, w')" by simp
    from anchored_keeps [OF gw(1,2) h 1(1) _ _ this] gw(3) [OF Inr] st show ?thesis by auto
  qed
qed

lemma resume_keeps_world:
  assumes w: "world_ok E A w" and h: "sha_hex E" and c: "resume_run E A i s R w = (out, w')"
    and first: "\<And>r. sg_kind s = ''prepare_anchor'' \<Longrightarrow> load_run i w = Some r \<Longrightarrow> verify_tool \<notin> set (keys (ar_artifacts r))"
  shows "world_ok E A w'"
  using c unfolding resume_run_def
proof (rule sbind_inv, goal_cases)
  case (1 q t)
  then show ?case using w by (auto simp: inspect_run_def lift_def split: option.splits)
next
  case (2 r t)
  from 2(1) have t: "t = w" and r: "load_run i w = Some r" by (auto simp: inspect_run_def lift_def split: option.splits)
  with w have ok: "run_ok E A (wd_memory w) i r" by (simp add: world_ok_def)
  show ?case
  proof (cases "sg_kind s = ''cancel''")
    case True
    with 2(3) t cancel_keeps [OF w ok h] show ?thesis by auto
  next
    case False
    note nc = this
    show ?thesis
    proof (cases "ar_state r \<in> {Cancelled, HaltActionUnavailable, DegradedSafeOnly, BlockAndRedecide}")
      case True
      with 2(3) t nc w show ?thesis by (simp add: lift_def)
    next
      case False
      then have st: "ar_state r \<noteq> HaltActionUnavailable" by simp
      show ?thesis
      proof (cases "sg_kind s = ''prepare_anchor''")
        case True
        with 2(3) t nc False prepare_keeps [OF w ok h _ st first [OF True r]] show ?thesis by auto
      next
        case pr: False
        with 2(3) t nc False w verify_keeps [OF w ok h _ st, of R "the (sg_tx s)"] show ?thesis
          by (auto simp: lift_def split: if_splits)
      qed
    qed
  qed
qed

section \<open>Planning an anchor once more\<close>

text \<open>The memory and every run but one are valid and bound to their drafts.\<close>

definition others_ok :: "env \<Rightarrow> agent \<Rightarrow> string \<Rightarrow> 'a world \<Rightarrow> bool" where
  "others_ok E A i w \<longleftrightarrow> memory_ok E (wd_memory w) \<and>
     (\<forall>j r. j \<noteq> i \<longrightarrow> load_run j w = Some r \<longrightarrow> run_ok E A (wd_memory w) j r)"

lemma world_others: "world_ok E A w \<Longrightarrow> others_ok E A i w"
  by (simp add: world_ok_def others_ok_def)

lemma anchored_others:
  "anchored E R tool ph inp f r tr w = (out, w') \<Longrightarrow> others_ok E A (ar_id r) w \<Longrightarrow> others_ok E A (ar_id r) w'"
  unfolding anchored_def Let_def
  by (elim sbind_lift_inv [where P = "others_ok E A (ar_id r)"], assumption)
    (auto simp: save_run_def sbind_def lift_def others_ok_def load_run_def)

lemma prepare_others:
  assumes w: "world_ok E A w" and r: "run_ok E A (wd_memory w) i r" and c: "prepare_run E A R r w = (out, w')"
  shows "others_ok E A i w'"
proof -
  have i: "ar_id r = i" using r by (simp add: run_ok_def)
  from c show ?thesis unfolding prepare_run_def Let_def
  proof (elim sbind_lift_inv [where P = "others_ok E A i", OF _ world_others [OF w]], goal_cases)
    case (1 tr1)
    from 1(2) show ?case
    proof (rule sbind_inv, goal_cases)
      case (1 q t)
      then show ?case by (rule world_others [OF guard_finalize_world(1) [OF _ w r]])
    next
      case (2 f t)
      from anchored_others [OF 2(3)] world_others [OF guard_finalize_world(1) [OF 2(1) w r]] i show ?case by blast
    qed
  qed
qed

lemma resume_keeps_others:
  assumes w: "world_ok E A w" and h: "sha_hex E" and c: "resume_run E A i s R w = (out, w')"
  shows "others_ok E A i w'"
proof (cases "\<exists>r. sg_kind s = ''prepare_anchor'' \<and> load_run i w = Some r \<and> verify_tool \<in> set (keys (ar_artifacts r))")
  case False
  then have "world_ok E A w'" by (intro resume_keeps_world [OF w h c]) auto
  then show ?thesis by (rule world_others)
next
  case True
  then obtain r where r: "sg_kind s = ''prepare_anchor''" "load_run i w = Some r" by blast
  with w have ok: "run_ok E A (wd_memory w) i r" by (simp add: world_ok_def)
  from c r ok have "w' = w \<or> prepare_run E A R r w = (out, w')"
    by (auto simp: resume_run_def inspect_run_def run_ok_def sbind_def lift_def split: if_splits)
  with world_others [OF w] prepare_others [OF w ok] show ?thesis by blast
qed

end
