(* ===== verification/Mg_Agent_Limits.thy ===== *)
theory Mg_Agent_Limits
  imports Mg_Agent_Valid
begin

text \<open>
  Runs keep the world valid too, and the two inputs on which the agent's own check refuses what
  the agent wrote: a tool name that collides with a name of the trace, and a plan asked for after
  a verification that ended in another state.
\<close>

section \<open>What a run went through\<close>

lemma sbind_lift_Inr: "sbind (lift q) f s = (Inr y, s') \<longleftrightarrow> (\<exists>x. q = Inr x \<and> f x s = (Inr y, s'))"
  by (auto simp: sbind_Inr lift_def)

lemma fresh_run_Inr:
  assumes "fresh_run E A X g request run_id R w = (Inr r, w')"
  obtains fp d w1 tr0 ctx tr1 tr2 plan degraded tr3 tr4 p w2 where
    "guard_decide E A g R w = (Inr d, w1)" "agent_context E d (fst (authorization d)) = Inr ctx"
    "add_event E (mo_event R) tr1 ''model.plan'' Called ''bounded_planning'' (JObj ctx) None = Inr tr2"
    "plan_or_fallback E A R run_id ctx (fst (snd (authorization d))) tr2 = Inr (plan, degraded, tr3)"
    "suppress_unknown E R d (sorted_set (filter (\<lambda>t. t \<notin> set registered_tools) (mp_tools plan))) tr3 = Inr tr4"
    "on_actions (tool_loop E X R d (mp_tools plan) registered_tools \<lparr>pg_trace = tr4, pg_artifacts = [], pg_failed = False\<rparr>) w1 = (Inr p, w2)"
    "r = new_run A run_id request fp d plan degraded p (mo_end R)" "validate_run E A r = Inr ()"
    "w' = w2\<lparr>wd_runs := dset (ar_id r) r (wd_runs w2)\<rparr>"
  using assms unfolding fresh_run_def Let_def sbind_lift_Inr
  by (elim exE conjE, unfold sbind_Inr [of "guard_decide E A g R"] sbind_lift_Inr case_prod_beta, elim exE conjE,
      unfold sbind_Inr [of "on_actions m" for m] sbind_lift_Inr, elim exE conjE)
    (rule that, auto simp: save_run_def sbind_def lift_def)

lemma new_run_simps [simp]: "ar_id (new_run A i q fp d plan dg p t) = i" "ar_decision (new_run A i q fp d plan dg p t) = d"
  "ar_trace (new_run A i q fp d plan dg p t) = pg_trace p" "ar_receipt (new_run A i q fp d plan dg p t) = mp_receipt plan"
  "ar_schema (new_run A i q fp d plan dg p t) = ''1.1''" "ar_degraded (new_run A i q fp d plan dg p t) = dg"
  "ar_artifacts (new_run A i q fp d plan dg p t) = pg_artifacts p"
  by (simp_all add: new_run_def Let_def split: prod.splits)

section \<open>Runs keep the world valid\<close>

lemma guard_decide_world:
  assumes "guard_decide E A g R w = (out, w1)" "world_ok E A w" "load_draft (wd_memory w) (''dec_'' @ take 20 (mo_uuid R)) = None"
  shows "world_ok E A w1" "\<And>d. out = Inr d \<Longrightarrow> load_draft (wd_memory w1) (dd_id d) = Some d"
proof -
  have *: "memory_ok E m' \<and> dd_id d = ''dec_'' @ take 20 (mo_uuid R) \<and> m' = save_draft (wd_memory w) d"
    if "decide E (ag_guard A) (wd_memory w) (go_intent g) (mo_uuid R) (mo_nonce R) (mo_policy R) (mo_guard R) = Inr (m', d)" for m' d
    using decide_keeps [OF _ that] decide_Inr [OF that] assms(2) by (auto simp: world_ok_def)
  have other: "dd_id (ar_decision q) \<noteq> ''dec_'' @ take 20 (mo_uuid R)" if "load_run i w = Some q" for i q
    using assms(2,3) that by (fastforce simp: world_ok_def run_ok_def)
  have keep: "run_ok E A (save_draft (wd_memory w) d) i q"
    if "load_run i w = Some q" "dd_id d = ''dec_'' @ take 20 (mo_uuid R)" for d i q
    using assms(2) that other [OF that(1)] by (simp add: world_ok_def run_ok_def load_draft_def save_draft_def)
  show "world_ok E A w1"
  proof (cases "decide E (ag_guard A) (wd_memory w) (go_intent g) (mo_uuid R) (mo_nonce R) (mo_policy R) (mo_guard R)")
    case (Inl e)
    with assms(1,2) show ?thesis by (simp add: guard_decide_def)
  next
    case (Inr md)
    then obtain m' d where md: "decide E (ag_guard A) (wd_memory w) (go_intent g) (mo_uuid R) (mo_nonce R) (mo_policy R) (mo_guard R) = Inr (m', d)"
      by (cases md) simp
    with assms(1) have "w1 = w\<lparr>wd_memory := m'\<rparr>" by (simp add: guard_decide_def)
    with * [OF md] keep [of _ _ d] show ?thesis by (auto simp: world_ok_def load_run_def)
  qed
  show "load_draft (wd_memory w1) (dd_id d) = Some d" if "out = Inr d" for d
    using assms(1) that * by (auto simp: guard_decide_def load_draft_def save_draft_def split: sum.splits prod.splits)
qed

lemma run_keeps_world:
  assumes w: "world_ok E A w" and run: "run_goal E A X g R w = (out, w')"
    and new: "load_draft (wd_memory w) (''dec_'' @ take 20 (mo_uuid R)) = None"
  shows "world_ok E A w'"
proof -
  have fresh: "world_ok E A w'" if "fresh_run E A X g request run_id R w = (out, w')" for request run_id
    using that unfolding fresh_run_def Let_def
  proof (elim sbind_lift_inv [where P = "world_ok E A", OF _ w], goal_cases)
    case (1 fp tr1 tr2)
    from 1(4) show ?case
    proof (rule sbind_inv [where P = "world_ok E A"], goal_cases)
      case (1 q t)
      then show ?case using guard_decide_world(1) [OF _ w new] by blast
    next
      case (2 d t)
      note Pt = 2(2) and dt = guard_decide_world(2) [OF 2(1) w new refl]
      from 2(3) show ?case
      proof (elim sbind_lift_inv [where P = "world_ok E A", OF _ Pt], unfold case_prod_beta,
          elim sbind_lift_inv [where P = "world_ok E A", OF _ Pt], goal_cases)
        case (1 tr3 ctx tr4 tr5 plan tr6)
        let ?Q = "\<lambda>v. world_ok E A v \<and> load_draft (wd_memory v) (dd_id d) = Some d"
        have *: "?Q t'" if "on_actions m t = (q, t')" for m q t'
          using that Pt dt by (auto simp: on_actions_def world_ok_def load_run_def split: prod.splits)
        from 1(7) have "?Q w'"
        proof (rule sbind_inv [where P = ?Q], goal_cases)
          case (1 r t')
          then show ?case by (rule *)
        next
          case (2 p t')
          from 2(3) show ?case
          proof (elim sbind_lift_inv [where P = ?Q, OF _ 2(2)], goal_cases)
            case 1
            let ?r = "new_run A run_id request fp d (fst plan) (fst (snd plan)) p (mo_end R)"
            from 2(2) 1(1) have "run_ok E A (wd_memory t') (ar_id ?r) ?r" by (simp add: run_ok_def)
            with save_run_ok [OF conjunct1 [OF 2(2)] this 1(2)] 2(2) 1(2) show ?case
              by (auto simp: save_run_def sbind_def lift_def)
          qed
        qed
        then show ?case ..
      qed
    qed
  qed
  from run show ?thesis unfolding run_goal_def
  proof (elim sbind_lift_inv [where P = "world_ok E A", OF _ w], goal_cases)
    case (1 request run_id)
    then show ?case using fresh w by (auto simp: run_claimed_def lift_def split: option.splits)
  qed
qed

section \<open>A tool named like the receipt event\<close>

lemma add_event_extends: "add_event E clk tr tool ph why inp out = Inr tr' \<Longrightarrow> set tr \<subseteq> set tr'"
  by (auto elim!: add_event_Inr)

lemma suppress_unknown_traced:
  assumes "suppress_unknown E R d us tr = Inr tr'"
  shows "set tr \<subseteq> set tr' \<and> (\<forall>u \<in> set us. \<exists>x \<in> set tr'. te_tool x = u \<and> te_phase x = Suppressed)"
  using assms
proof (induction us arbitrary: tr)
  case (Cons u us)
  from Cons.prems obtain tr1 where a: "add_event E (mo_event R) tr u Suppressed ''tool_not_registered'' (JObj [(''decision_id'', JStr (dd_id d))]) None = Inr tr1"
    and s: "suppress_unknown E R d us tr1 = Inr tr'" unfolding suppress_unknown.simps by (elim ebind_InrE)
  from a obtain x where "tr1 = tr @ [x]" "te_tool x = u" "te_phase x = Suppressed" by (rule add_event_Inr)
  with Cons.IH [OF s] show ?case by auto
qed simp

lemma perform_extends: "perform E X R d tool p a = (Inr p', a') \<Longrightarrow> set (pg_trace p) \<subseteq> set (pg_trace p')"
  by (auto simp: perform_def Let_def split: prod.splits sum.splits dest!: add_event_extends)

lemma tool_step_extends: "tool_step E X R d requested tool p a = (Inr p', a') \<Longrightarrow> set (pg_trace p) \<subseteq> set (pg_trace p')"
  unfolding tool_step_def case_prod_beta sbind_lift_Inr
  by (auto simp: sbind_lift_Inr lift_def split: if_splits dest!: add_event_extends perform_extends) blast+

lemma tool_loop_extends: "tool_loop E X R d requested ts p a = (Inr p', a') \<Longrightarrow> set (pg_trace p) \<subseteq> set (pg_trace p')"
proof (induction ts arbitrary: p a)
  case (Cons t ts)
  then show ?case using tool_step_extends by (fastforce simp: sbind_Inr)
qed (simp add: lift_def)

lemma plan_not_degraded:
  assumes c: "add_event E clk tr1 ''model.plan'' Called why (JObj ctx) None = Inr tr2" and p: "ag_plan A ctx allowed = Inr p"
    and rc: "\<And>rc. mp_receipt p = Some rc \<Longrightarrow> finite_floats (JObj rc)"
  shows "\<exists>tr3. plan_or_fallback E A R run_id ctx allowed tr2 = Inr (p, False, tr3)"
proof -
  from c obtain i where i: "domain_hash E ''agent-tool-input:model.plan'' (JObj ctx) = Inr i"
    by (auto elim!: add_event_Inr)
  obtain h where h: "domain_hash E ''model-explanation'' (JStr (mp_explanation p)) = Inr h" by simp
  obtain o1 where o1: "domain_hash E ''agent-tool-output:model.plan'' (JObj [(''requested_tools'', jstrs (mp_tools p)), (''explanation_hash'', JStr h)]) = Inr o1"
    using domain_hash_total [of "JObj [(''requested_tools'', jstrs (mp_tools p)), (''explanation_hash'', JStr h)]"] by auto
  from i h o1 obtain tr3 where s: "ebind (domain_hash E ''model-explanation'' (JStr (mp_explanation p))) (\<lambda>h.
              add_event E (mo_event R) tr2 ''model.plan'' Succeeded ''structured_plan_received'' (JObj ctx)
                (Some (JObj [(''requested_tools'', jstrs (mp_tools p)), (''explanation_hash'', JStr h)]))) = Inr tr3"
    by (simp add: add_event_def)
  show ?thesis
  proof (cases "mp_receipt p")
    case None
    with p s show ?thesis by (simp add: plan_or_fallback_def try_plan_def)
  next
    case (Some rc)
    let ?in = "JObj [(''run_id'', JStr run_id), (''model_context_hash'', JStr (shown_or (ag_py A) rc ''model_context_hash'' []))]"
    obtain a where a: "domain_hash E ''agent-tool-input:model.receipt'' ?in = Inr a" using domain_hash_total [of ?in] by auto
    obtain b where b: "domain_hash E ''agent-tool-output:model.receipt'' (JObj rc) = Inr b" using domain_hash_total [OF assms(3) [OF Some]] by blast
    from a b obtain tr4 where "add_event E (mo_event R) tr3 ''model.receipt'' Succeeded ''non_secret_provider_receipt'' ?in (Some (JObj rc)) = Inr tr4"
      by (simp add: add_event_def)
    with Some p s show ?thesis by (simp add: plan_or_fallback_def try_plan_def)
  qed
qed

lemma receipt_traced_D: "receipt_traced r inp out \<Longrightarrow> \<exists>y. receipt_events r = [y] \<and> te_phase y = Succeeded"
  unfolding receipt_traced_def by (auto split: list.splits)

lemma schema_one_receipt:
  assumes "schema_valid E production r = Inr ()" "ar_schema r = ''1.1''"
  shows "receipt_events r = [] \<or> (\<exists>y. receipt_events r = [y] \<and> te_phase y = Succeeded)"
proof (cases "ar_receipt r")
  case None
  with assms show ?thesis by (simp add: schema_valid_def split: if_splits)
next
  case (Some rc)
  with assms have "receipt_valid E r rc = Inr ()" by (simp add: schema_valid_def split: if_splits)
  then obtain inp out where "receipt_traced r inp out"
    unfolding receipt_valid_def case_prod_beta by (elim ebind_InrE) auto
  then show ?thesis using receipt_traced_D by blast
qed

text \<open>The run a fresh goal makes, before it is checked and saved.\<close>

definition made_run :: "env \<Rightarrow> agent \<Rightarrow> 'a actions_port \<Rightarrow> goal \<Rightarrow> string \<Rightarrow> string \<Rightarrow> moment \<Rightarrow> (agent_run, 'a world) op" where
  "made_run E A X g request run_id R =
     sbind (lift (goal_fingerprint E g)) (\<lambda>fp.
     let inp = JObj [(''action_fingerprint'', JStr fp)] in
     sbind (lift (add_event E (mo_event R) [] ''memoryguard.decide'' Considered ''mandatory_authority'' inp None)) (\<lambda>tr.
     sbind (lift (add_event E (mo_event R) tr ''memoryguard.decide'' Called ''mandatory_authority'' inp None)) (\<lambda>tr.
     sbind (guard_decide E A g R) (\<lambda>d.
     sbind (lift (add_event E (mo_event R) tr ''memoryguard.decide'' Succeeded (''verdict_'' @ mverdict_str (dd_verdict d)) inp
       (Some (JObj [(''decision_id'', JStr (dd_id d)), (''proof_root'', JStr (dd_proof d))])))) (\<lambda>tr.
     sbind (lift (agent_context E d (fst (authorization d)))) (\<lambda>ctx.
     sbind (lift (add_event E (mo_event R) tr ''model.plan'' Considered ''bounded_planning'' (JObj ctx) None)) (\<lambda>tr.
     sbind (lift (add_event E (mo_event R) tr ''model.plan'' Called ''bounded_planning'' (JObj ctx) None)) (\<lambda>tr.
     sbind (lift (plan_or_fallback E A R run_id ctx (fst (snd (authorization d))) tr)) (\<lambda>(plan, degraded, tr).
     sbind (lift (suppress_unknown E R d (sorted_set (filter (\<lambda>t. t \<notin> set registered_tools) (mp_tools plan))) tr)) (\<lambda>tr.
     sbind (on_actions (tool_loop E X R d (mp_tools plan) registered_tools
       \<lparr>pg_trace = tr, pg_artifacts = [], pg_failed = False\<rparr>)) (\<lambda>p.
     lift (Inr (new_run A run_id request fp d plan degraded p (mo_end R))))))))))))))"

lemma sbind_assoc: "sbind (sbind m f) h = sbind m (\<lambda>x. sbind (f x) h)"
  by (auto simp: sbind_def fun_eq_iff split: sum.splits prod.splits)

lemma sbind_lift_Inr_fun: "sbind (lift (Inr x)) f = f x"
  by (simp add: fun_eq_iff)

lemma fresh_made: "fresh_run E A X g request run_id R =
    sbind (made_run E A X g request run_id R) (\<lambda>r. sbind (lift (validate_run E A r)) (\<lambda>_. sbind (save_run r) (\<lambda>_. lift (Inr r))))"
  unfolding fresh_run_def made_run_def Let_def sbind_assoc case_prod_beta sbind_lift_Inr_fun by (rule HOL.refl)

text \<open>Making a run reads the memory and takes the safety actions, and leaves the recorded runs alone.\<close>

lemma made_run_runs: "made_run E A X g request run_id R w = (out, w') \<Longrightarrow> wd_runs w' = wd_runs w"
proof -
  let ?P = "\<lambda>v. wd_runs v = wd_runs w"
  have P: "?P w" by (rule HOL.refl)
  assume "made_run E A X g request run_id R w = (out, w')"
  then show ?thesis unfolding made_run_def Let_def
  proof (elim sbind_lift_inv [where P = ?P, OF _ P], goal_cases)
    case (1 fp tr1 tr2)
    from 1(4) show ?case
    proof (rule sbind_inv [where P = ?P], goal_cases)
      case (1 q t)
      then show ?case by (auto simp: guard_decide_def split: sum.splits prod.splits)
    next
      case (2 d t)
      from 2(3) show ?case
      proof (elim sbind_lift_inv [where P = ?P, OF _ 2(2)], unfold case_prod_beta,
          elim sbind_lift_inv [where P = ?P, OF _ 2(2)], goal_cases)
        case (1 tr3 ctx tr4 tr5 plan tr6)
        from 1(7) show ?case
        proof (rule sbind_inv [where P = ?P], goal_cases)
          case (1 q v)
          with 2(2) show ?case by (auto simp: on_actions_def split: prod.splits)
        qed (simp add: lift_def)
      qed
    qed
  qed
qed

lemma made_run_receipt:
  assumes m: "made_run E A X g request run_id R w = (Inr r, w')"
    and p: "\<And>ctx allowed. ag_plan A ctx allowed = Inr p" "''model.receipt'' \<in> set (mp_tools p)"
    and rc: "\<And>rc. mp_receipt p = Some rc \<Longrightarrow> finite_floats (JObj rc)"
  shows "ar_schema r = ''1.1'' \<and> (\<exists>x \<in> set (ar_trace r). te_tool x = ''model.receipt'' \<and> te_phase x = Suppressed)"
proof -
  from m obtain fp d w1 tr1 ctx tr2 plan degraded tr3 tr4 q w2 where
      c: "add_event E (mo_event R) tr1 ''model.plan'' Called ''bounded_planning'' (JObj ctx) None = Inr tr2"
      and pf: "plan_or_fallback E A R run_id ctx (fst (snd (authorization d))) tr2 = Inr (plan, degraded, tr3)"
      and su: "suppress_unknown E R d (sorted_set (filter (\<lambda>t. t \<notin> set registered_tools) (mp_tools plan))) tr3 = Inr tr4"
      and lo: "on_actions (tool_loop E X R d (mp_tools plan) registered_tools \<lparr>pg_trace = tr4, pg_artifacts = [], pg_failed = False\<rparr>) w1 = (Inr q, w2)"
      and r: "r = new_run A run_id request fp d plan degraded q (mo_end R)"
    unfolding made_run_def Let_def sbind_lift_Inr
    by (elim exE conjE, unfold sbind_Inr [of "guard_decide E A g R"] sbind_lift_Inr case_prod_beta, elim exE conjE,
        unfold sbind_Inr [of "on_actions m" for m] sbind_lift_Inr, elim exE conjE)
      (rule that, auto simp: lift_def)
  from plan_not_degraded [OF c p(1) rc] obtain tr5 where
    "plan_or_fallback E A R run_id ctx (fst (snd (authorization d))) tr2 = Inr (p, False, tr5)" by blast
  with pf have plan: "plan = p" by simp
  have "''model.receipt'' \<notin> set registered_tools" by (simp add: registered_tools_def tool_names)
  with p(2) plan have "''model.receipt'' \<in> set (sorted_set (filter (\<lambda>t. t \<notin> set registered_tools) (mp_tools plan)))" by simp
  with suppress_unknown_traced [OF su] obtain x where x: "x \<in> set tr4" "te_tool x = ''model.receipt''" "te_phase x = Suppressed" by blast
  from lo have "set tr4 \<subseteq> set (pg_trace q)" using tool_loop_extends by (fastforce simp: on_actions_def split: prod.splits)
  with x r show ?thesis by auto
qed

lemma receipt_not_valid:
  assumes "ar_schema r = ''1.1''" "x \<in> set (ar_trace r)" "te_tool x = ''model.receipt''" "te_phase x = Suppressed"
  shows "\<exists>e. validate_run E A r = Inl e"
proof -
  have "validate_run E A r \<noteq> Inr ()"
  proof
    assume "validate_run E A r = Inr ()"
    then have "schema_valid E (ag_production A) r = Inr ()" by (simp add: validate_run_Inr)
    moreover have "x \<in> set (receipt_events r)" using assms(2,3) by (simp add: receipt_events_def)
    ultimately show False using schema_one_receipt [OF _ assms(1)] assms(4) by fastforce
  qed
  then show ?thesis by (cases "validate_run E A r") auto
qed

section \<open>A plan asked for after a verification\<close>

lemma prepare_after_verify:
  assumes "resume_run E A i s R w = (Inr r', w')" "sg_kind s = ''prepare_anchor''" "load_run i w = Some r" "ar_id r = i"
    "jget (ar_artifacts r) verify_tool = JObj a" "a \<noteq> []" "jget a ''state'' \<noteq> JStr (anchor_str (ar_anchor r'))"
  shows "load_run i w' = Some r' \<and> validate_run E A r' \<noteq> Inr ()"
proof -
  have ne: "prepare_tool \<noteq> verify_tool" by (simp add: tool_names)
  from assms(1-3) have "prepare_run E A R r w = (Inr r', w')"
    by (auto simp: resume_run_def inspect_run_def sbind_Inr sbind_lift_Inr lift_def split: if_splits option.splits)
  then obtain tr f v where c: "anchored E R prepare_tool (if fz_state f = Failed then Refused else Succeeded)
      (JObj [(''decision_id'', JStr (dd_id (ar_decision r)))]) f r tr v = (Inr r', w')"
    by (auto simp: prepare_run_def Let_def sbind_lift_Inr sbind_Inr)
  then obtain tr' where r': "r' = r\<lparr>ar_trace := tr', ar_anchor := fz_state f,
      ar_artifacts := dset prepare_tool (finalization_json f) (ar_artifacts r), ar_updated := mo_end R, ar_executable := False\<rparr>"
    and w': "w' = v\<lparr>wd_runs := dset (ar_id r) r' (wd_runs v)\<rparr>"
    by (auto simp: anchored_def Let_def sbind_lift_Inr sbind_Inr save_run_def lift_def)
  have "jget (ar_artifacts r') verify_tool = JObj a" using r' ne assms(5) by (simp add: jget_def)
  with assms(6,7) have "anchor_valid E r' \<noteq> Inr ()"
    by (auto simp: anchor_valid_def proof_artifact_def Let_def)
  then show ?thesis using w' assms(4) by (simp add: load_run_def validate_run_Inr)
qed

end
