(* ===== verification/Mg_Agent_Example.thy ===== *)
theory Mg_Agent_Example
  imports Mg_Agent_Limits Mg_Example
begin

text \<open>
  An agent at work: a payment nobody approved is escalated, an anchor is planned for the decision,
  the transaction that is reported for it fails to verify. Every hash of this environment is the
  same text of 64 digits.
\<close>

definition hx :: string where "hx = replicate 64 (CHR ''a'')"

definition M1 :: env where "M1 = M0\<lparr>sha256 := (\<lambda>_. hx)\<rparr>"

lemma M1_simps [simp]: "iso_time M1 t = ''t''" "nfc M1 s = s" "uni_lower M1 s = s" "sha256 M1 s = hx"
  by (simp_all add: M1_def)

lemma hash64_hx [simp]: "hash64 hx"
  by (simp add: hash64_def hx_def is_hexlow_def list_all_iff)

lemma hx_nonempty [simp]: "hx \<noteq> []" "take 20 hx = replicate 20 (CHR ''a'')"
  by (simp_all add: hx_def)

lemma sha_hex_M1 [simp]: "sha_hex M1"
  by (simp add: sha_hex_def)

lemma domain_hash_M1 [simp]: "finite_floats v \<Longrightarrow> domain_hash M1 dm v = Inr hx"
  using normalize_total(1) [of v M1] by (auto simp: domain_hash_def canonical_json_def)

lemma subject_ref_M1 [simp]: "subject_ref M1 s = Inr hx"
  by (simp add: subject_ref_def)

definition plan1 :: anchor_plan where
  "plan1 = \<lparr>ap_chain = 8453, ap_network = ''n'', ap_contract = ''c'', ap_to = ''c'', ap_data = ''d'', ap_value = ''0'', ap_proof = hx\<rparr>"

definition failed1 :: anchor_verification where
  "failed1 = \<lparr>av_state = Failed, av_tx = None, av_chain = None, av_contract = None, av_block = None, av_reasons = []\<rparr>"

definition G1 :: guard where
  "G1 = \<lparr>gd_policy_hash = hx, gd_ttl = 60, gd_plan = (\<lambda>_. Inr (Some plan1)), gd_verify = (\<lambda>_ _. Inr failed1)\<rparr>"

definition B1 :: builtins where
  "B1 = \<lparr>odd_text = (\<lambda>_. []), text_int = (\<lambda>_. Inr 0), text_float = (\<lambda>_. Inr NaN), large_float = (\<lambda>_. Inr PInf), odd_item = (\<lambda>_. Inr [])\<rparr>"

definition asks :: "string list \<Rightarrow> model_plan" where
  "asks tools = \<lparr>mp_explanation = ''why'', mp_steps = [], mp_tools = tools, mp_receipt = None\<rparr>"

definition A1 :: "string list \<Rightarrow> agent" where
  "A1 tools = \<lparr>ag_guard = G1, ag_plan = (\<lambda>_ _. Inr (asks tools)), ag_model_kind = ''m'', ag_runtime = ''r'', ag_production = False, ag_py = B1\<rparr>"

definition at_1 :: moment where
  "at_1 = \<lparr>mo_event = (\<lambda>_. 5), mo_policy = (\<lambda>_. 5), mo_guard = 5, mo_end = 5, mo_uuid = ''00000001'', mo_nonce = ''n''\<rparr>"

definition goal1 :: goal where "goal1 = \<lparr>go_intent = payment\<rparr>"

definition start1 :: "jobj dict world" where
  "start1 = \<lparr>wd_memory = empty_memory, wd_actions = [], wd_runs = []\<rparr>"

definition draft2 :: draft where
  "draft2 = \<lparr>dd_id = ''dec_00000001'', dd_subject = hx, dd_session = ''session-3'', dd_verdict = V_NeedsHuman,
     dd_reasons = [''no_authoritative_memory_for_target''], dd_causal = [], dd_cross = False, dd_version = 0, dd_root = genesis,
     dd_policy = hx, dd_intent = payment\<lparr>pi_subject := hx\<rparr>, dd_intent_hash = hx, dd_proof = hx, dd_nonce = ''n'', dd_created = 5,
     dd_expires = 60000005, dd_anchor = NotConfigured\<rparr>"

definition run_id1 :: string where "run_id1 = ''run_'' @ replicate 20 (CHR ''a'')"

definition action1 :: jobj where
  "action1 = [(''action_id'', JStr (''act_'' @ replicate 20 (CHR ''a''))), (''kind'', JStr ''operator_escalation_case''), (''case_ref'', JStr hx),
       (''decision_id'', JStr ''dec_00000001''), (''verdict'', JStr ''needs_human''),
       (''reason_codes'', jstrs [''no_authoritative_memory_for_target'']), (''causal_memory_ids'', jstrs []), (''executable'', JBool False)]"

definition ev :: "int \<Rightarrow> string \<Rightarrow> tool_phase \<Rightarrow> string \<Rightarrow> bool \<Rightarrow> tool_event" where
  "ev n tool ph why out = \<lparr>te_seq = n, te_tool = tool, te_phase = ph, te_reason = why, te_input = hx,
     te_output = (if out then Some hx else None), te_at = 5\<rparr>"

definition trace1 :: "tool_event list" where
  "trace1 = [ev 1 ''memoryguard.decide'' Considered ''mandatory_authority'' False,
     ev 2 ''memoryguard.decide'' Called ''mandatory_authority'' False, ev 3 ''memoryguard.decide'' Succeeded ''verdict_needs_human'' True,
     ev 4 ''model.plan'' Considered ''bounded_planning'' False, ev 5 ''model.plan'' Called ''bounded_planning'' False,
     ev 6 ''model.plan'' Succeeded ''structured_plan_received'' True,
     ev 7 review_tool Considered ''closed_tool_registry'' False, ev 8 review_tool Suppressed ''verdict_needs_human'' False,
     ev 9 escalation_tool Considered ''closed_tool_registry'' False, ev 10 escalation_tool Called ''mandatory_safety_action'' False,
     ev 11 escalation_tool Succeeded ''persisted_by_safe_action_adapter'' True,
     ev 12 brief_tool Considered ''closed_tool_registry'' False, ev 13 brief_tool Suppressed ''not_requested_by_model'' False]"

definition run1 :: agent_run where
  "run1 = \<lparr>ar_id = run_id1, ar_request = hx, ar_runtime = ''r'', ar_state = AwaitHumanReview, ar_decision = draft2, ar_fingerprint = hx,
     ar_explanation = fst (operator_copy AwaitHumanReview False), ar_steps = snd (operator_copy AwaitHumanReview False),
     ar_degraded = False, ar_model = ''m'', ar_receipt = None, ar_requested = [], ar_trace = trace1,
     ar_artifacts = [(escalation_tool, JObj action1)], ar_anchor = NotConfigured, ar_executable = False, ar_created = 5,
     ar_updated = 5, ar_schema = ''1.1''\<rparr>"

definition world1 :: "jobj dict world" where
  "world1 = \<lparr>wd_memory = \<lparr>mm_subjects = [], mm_drafts = [(''dec_00000001'', draft2)], mm_finals = []\<rparr>,
     wd_actions = [(''act_'' @ replicate 20 (CHR ''a''), action1)], wd_runs = [(run_id1, run1)]\<rparr>"

lemma add_event_M1 [simp]:
  "finite_floats inp \<Longrightarrow> add_event M1 (\<lambda>_. 5) tr tool ph why inp None = Inr (tr @ [ev (int (length tr) + 1) tool ph why False])"
  "finite_floats inp \<Longrightarrow> finite_floats v \<Longrightarrow>
   add_event M1 (\<lambda>_. 5) tr tool ph why inp (Some v) = Inr (tr @ [ev (int (length tr) + 1) tool ph why True])"
  by (simp_all add: add_event_def ev_def)

lemma decided2: "decide M1 G1 empty_memory payment ''00000001'' ''n'' (\<lambda>_. 5) 5 =
  Inr (\<lparr>mm_subjects = [], mm_drafts = [(''dec_00000001'', draft2)], mm_finals = []\<rparr>, draft2)"
  by (simp add: decide_defs mg_parts G1_def draft2_def empty_subject_def fle.simps)

lemma authorization2 [simp]: "authorization draft2 = (AwaitHumanReview, [escalation_tool, brief_tool], escalation_tool)"
  by (simp add: authorization_def draft2_def)

lemma draft2_simps [simp]: "dd_id draft2 = ''dec_00000001''" "dd_verdict draft2 = V_NeedsHuman" "dd_proof draft2 = hx"
  "dd_reasons draft2 = [''no_authoritative_memory_for_target'']" "dd_causal draft2 = []" "dd_subject draft2 = hx"
  "pi_amount (dd_intent draft2) = Fin 5" "pi_subject (dd_intent draft2) = hx" "dd_policy draft2 = hx" "dd_expires draft2 = 60000005"
  by (simp_all add: draft2_def payment_def)

lemma tools_differ [simp]: "review_tool \<noteq> escalation_tool" "review_tool \<noteq> brief_tool" "escalation_tool \<noteq> brief_tool"
  "escalation_tool \<noteq> review_tool" "brief_tool \<noteq> review_tool" "brief_tool \<noteq> escalation_tool"
  by (simp_all add: tool_names)

lemma validate_draft2 [simp]: "validate_draft M1 draft2 = Inr ()"
  by (simp add: validate_draft_def intent_hash_def intent_payload_def proof_root_def proof_payload_def draft2_def payment_def)

lemma identity2: "identity_valid M1 run1 = Inr ()"
  by (simp add: identity_valid_def run1_def draft_run_def run_name_def draft_request_def request_payload_def draft_fingerprint_def
      action_payload_def run_id1_def)

lemma validate_run1: "validate_run M1 (A1 tools) run1 = Inr ()"
  unfolding validate_run_Inr
proof (intro conjI)
  show "identity_valid M1 run1 = Inr ()" by (rule identity2)
  show "map te_seq (ar_trace run1) = map int [1..<length (ar_trace run1) + 1]"
    by (simp add: run1_def trace1_def ev_def upt_rec)
  show "\<not> (ag_production (A1 tools) \<and> ar_model run1 \<noteq> ''remote_structured_model'')" by (simp add: A1_def)
  show "valid_state (ar_decision run1) (ar_state run1)" by (simp add: valid_state_def run1_def)
  show "set (ar_requested run1) \<subseteq> set (fst (snd (authorization (ar_decision run1))))" by (simp add: run1_def)
  show "list_all (event_valid run1) (ar_trace run1)"
    by (simp add: run1_def trace1_def event_valid_def ev_def known_tools_def registered_tools_def tool_names)
  show "schema_valid M1 (ag_production (A1 tools)) run1 = Inr ()"
    by (simp add: schema_valid_def run1_def receipt_events_def trace1_def ev_def A1_def tool_names)
  show "artifacts_valid M1 run1 = Inr ()"
    by (simp add: artifacts_valid_def run1_def artifact_valid_def action1_def jget_def registered_tools_def action_id_def action_domain_def
        trace1_def ev_def)
  show "anchor_valid M1 run1 = Inr ()"
    by (simp add: anchor_valid_def proof_artifact_def run1_def jget_def tool_names)
  show "copy_valid run1" by (simp add: copy_valid_def run1_def)
qed

lemma A1_simps [simp]: "ag_guard (A1 t) = G1" "ag_plan (A1 t) x y = Inr (asks t)" "ag_runtime (A1 t) = ''r''"
  "ag_model_kind (A1 t) = ''m''" "mp_tools (asks t) = t" "mp_receipt (asks t) = None"
  by (simp_all add: A1_def asks_def)

lemma at_1_simps [simp]: "mo_event at_1 = (\<lambda>_. 5)" "mo_policy at_1 = (\<lambda>_. 5)" "mo_guard at_1 = 5" "mo_end at_1 = 5"
  "mo_uuid at_1 = ''00000001''" "mo_nonce at_1 = ''n''"
  by (simp_all add: at_1_def)

lemma context2: "\<exists>c. agent_context M1 draft2 AwaitHumanReview = Inr c \<and> finite_floats (JObj c)"
  by (simp add: agent_context_def jopt_def)

lemma decided_step: "guard_decide M1 (A1 t) goal1 at_1 start1 = (Inr draft2, start1\<lparr>wd_memory := wd_memory world1\<rparr>)"
  using decided2 by (simp add: guard_decide_def goal1_def start1_def world1_def)

lemma tools_step: "on_actions (tool_loop M1 (memory_actions M1) at_1 draft2 [review_tool] registered_tools
      \<lparr>pg_trace = take 6 trace1, pg_artifacts = [], pg_failed = False\<rparr>) (start1\<lparr>wd_memory := wd_memory world1\<rparr>) =
    (Inr \<lparr>pg_trace = trace1, pg_artifacts = [(escalation_tool, JObj action1)], pg_failed = False\<rparr>,
     world1\<lparr>wd_runs := []\<rparr>)"
proof -
  let ?p = "\<lambda>n arts. \<lparr>pg_trace = take n trace1, pg_artifacts = arts, pg_failed = False\<rparr>"
  let ?a = "[(''act_'' @ replicate 20 (CHR ''a''), action1)]"
  have 1: "tool_step M1 (memory_actions M1) at_1 draft2 [review_tool] review_tool (?p 6 []) [] = (Inr (?p 8 []), [])"
    by (simp add: tool_step_def tool_input_def trace1_def lift_def)
  have c: "call_action (memory_actions M1) escalation_tool draft2 [] = (Inr action1, ?a)"
    by (simp add: call_action_def memory_actions_def escalation_receipt_def action_id_def save_action_def jget_def action1_def lift_def)
  have 2: "tool_step M1 (memory_actions M1) at_1 draft2 [review_tool] escalation_tool (?p 8 []) [] = (Inr (?p 11 [(escalation_tool, JObj action1)]), ?a)"
    by (simp add: tool_step_def tool_input_def trace1_def perform_def c) (simp add: action1_def)
  have 3: "tool_step M1 (memory_actions M1) at_1 draft2 [review_tool] brief_tool (?p 11 arts) acts = (Inr (?p 13 arts), acts)" for arts acts
    by (simp add: tool_step_def tool_input_def trace1_def lift_def)
  have "tool_loop M1 (memory_actions M1) at_1 draft2 [review_tool] registered_tools (?p 6 []) [] = (Inr (?p 13 [(escalation_tool, JObj action1)]), ?a)"
    by (simp add: registered_tools_def sbind_def 1 2 3 lift_def del: take_Suc_Cons)
  then show ?thesis by (simp add: on_actions_def start1_def world1_def trace1_def)
qed

lemma ran1: "run_goal M1 (A1 [review_tool]) (memory_actions M1) goal1 at_1 start1 = (Inr run1, world1)"
proof -
  obtain c where c: "agent_context M1 draft2 AwaitHumanReview = Inr c" "finite_floats (JObj c)" using context2 by blast
  have n: "new_run (A1 [review_tool]) run_id1 hx hx draft2 (asks [review_tool]) False
      \<lparr>pg_trace = trace1, pg_artifacts = [(escalation_tool, JObj action1)], pg_failed = False\<rparr> 5 = run1"
    by (simp add: new_run_def run1_def Let_def)
  have t6: "[ev 1 ''memoryguard.decide'' Considered ''mandatory_authority'' False,
     ev 2 ''memoryguard.decide'' Called ''mandatory_authority'' False, ev 3 ''memoryguard.decide'' Succeeded ''verdict_needs_human'' True,
     ev 4 ''model.plan'' Considered ''bounded_planning'' False, ev 5 ''model.plan'' Called ''bounded_planning'' False,
     ev 6 ''model.plan'' Succeeded ''structured_plan_received'' True] = take 6 trace1" by (simp add: trace1_def)
  have fp: "goal_fingerprint M1 goal1 = Inr hx"
    by (simp add: goal_fingerprint_def action_payload_def goal1_def payment_def)
  have pl: "plan_or_fallback M1 (A1 [review_tool]) at_1 run_id1 c al tr =
    Inr (asks [review_tool], False, tr @ [ev (int (length tr) + 1) ''model.plan'' Succeeded ''structured_plan_received'' True])" for al tr
    using c(2) by (simp add: plan_or_fallback_def try_plan_def)
  have un: "review_tool \<in> set registered_tools" "sorted_set ([] :: string list) = []" by (simp_all add: registered_tools_def)
  have d: "sbind (guard_decide M1 (A1 [review_tool]) goal1 at_1) k start1 = k draft2 (start1\<lparr>wd_memory := wd_memory world1\<rparr>)"
    for k :: "draft \<Rightarrow> (agent_run, jobj dict world) op" by (simp add: sbind_def decided_step)
  have tl: "sbind (on_actions (tool_loop M1 (memory_actions M1) at_1 draft2 [review_tool] registered_tools
      \<lparr>pg_trace = take 6 trace1, pg_artifacts = [], pg_failed = False\<rparr>)) k (start1\<lparr>wd_memory := wd_memory world1\<rparr>) =
    k \<lparr>pg_trace = trace1, pg_artifacts = [(escalation_tool, JObj action1)], pg_failed = False\<rparr> (world1\<lparr>wd_runs := []\<rparr>)"
    for k :: "progress \<Rightarrow> (agent_run, jobj dict world) op" by (simp add: sbind_def tools_step del: take_Suc_Cons)
  have sv: "sbind (save_run run1) k (world1\<lparr>wd_runs := []\<rparr>) = k () world1"
    for k :: "unit \<Rightarrow> (agent_run, jobj dict world) op" by (simp add: sbind_def save_run_def world1_def run1_def)
  have f: "fresh_run M1 (A1 [review_tool]) (memory_actions M1) goal1 hx run_id1 at_1 start1 = (Inr run1, world1)"
    using c
    by (simp add: fresh_run_def fp d tl [folded t6] pl un n validate_run1 sv lift_def)
  have "goal_request M1 goal1 = Inr hx" "goal_run M1 goal1 = Inr run_id1"
    by (simp_all add: goal_request_def goal_run_def run_name_def request_payload_def goal1_def payment_def run_id1_def)
  then show ?thesis
    using f by (simp add: run_goal_def run_claimed_def load_run_def start1_def)
qed

section \<open>A production agent whose model names the receipt event\<close>

definition receipt2 :: jobj where
  "receipt2 = [(''backend'', JStr ''remote_structured_model''), (''configured_model'', JStr ''c''), (''resolved_model'', JStr ''c''),
     (''generation_id'', JStr ''g''), (''completion_sha256'', JStr hx), (''model_context_hash'', JStr hx), (''completed_at'', JStr ''t''),
     (''live_call_verified'', JBool True), (''structured_output_validated'', JBool True), (''production_reliability_claimed'', JBool False)]"

definition plan2 :: model_plan where
  "plan2 = \<lparr>mp_explanation = ''why'', mp_steps = [], mp_tools = [''model.receipt''], mp_receipt = Some receipt2\<rparr>"

definition A2 :: agent where
  "A2 = \<lparr>ag_guard = G1, ag_plan = (\<lambda>_ _. Inr plan2), ag_model_kind = ''remote_structured_model'', ag_runtime = ''r'',
     ag_production = True, ag_py = B1\<rparr>"

lemma receipt2_finite: "finite_floats (JObj receipt2)"
  by (simp add: receipt2_def)

lemma A2_simps [simp]: "ag_guard A2 = G1" "ag_plan A2 x y = Inr plan2" "mp_tools plan2 = [''model.receipt'']" "mp_receipt plan2 = Some receipt2"
  by (simp_all add: A2_def plan2_def)

lemma tools_named: "\<exists>p a. tool_loop M1 (memory_actions M1) at_1 draft2 [''model.receipt''] registered_tools
      \<lparr>pg_trace = tr, pg_artifacts = [], pg_failed = False\<rparr> [] = (Inr p, a)"
proof -
  let ?a = "[(''act_'' @ replicate 20 (CHR ''a''), action1)]"
  have n: "review_tool \<noteq> ''model.receipt''" "escalation_tool \<noteq> ''model.receipt''" "brief_tool \<noteq> ''model.receipt''"
    by (simp_all add: tool_names)
  have 1: "\<exists>p'. tool_step M1 (memory_actions M1) at_1 draft2 [''model.receipt''] review_tool p [] = (Inr p', []) \<and> pg_artifacts p' = pg_artifacts p" for p
    by (simp add: tool_step_def tool_input_def lift_def)
  have c: "call_action (memory_actions M1) escalation_tool draft2 [] = (Inr action1, ?a)"
    by (simp add: call_action_def memory_actions_def escalation_receipt_def action_id_def save_action_def jget_def action1_def lift_def)
  have 2: "\<exists>p'. tool_step M1 (memory_actions M1) at_1 draft2 [''model.receipt''] escalation_tool p [] = (Inr p', ?a)" for p
    by (simp add: tool_step_def tool_input_def perform_def c) (simp add: action1_def)
  have 3: "\<exists>p'. tool_step M1 (memory_actions M1) at_1 draft2 [''model.receipt''] brief_tool p a = (Inr p', a)" for p a
    using n by (simp add: tool_step_def tool_input_def lift_def)
  obtain p1 where p1: "tool_step M1 (memory_actions M1) at_1 draft2 [''model.receipt''] review_tool
      \<lparr>pg_trace = tr, pg_artifacts = [], pg_failed = False\<rparr> [] = (Inr p1, [])" using 1 by blast
  obtain p2 where p2: "tool_step M1 (memory_actions M1) at_1 draft2 [''model.receipt''] escalation_tool p1 [] = (Inr p2, ?a)" using 2 by blast
  obtain p3 where p3: "tool_step M1 (memory_actions M1) at_1 draft2 [''model.receipt''] brief_tool p2 ?a = (Inr p3, ?a)" using 3 by blast
  show ?thesis using p1 p2 p3 by (simp add: registered_tools_def sbind_def lift_def)
qed

lemma made2: "\<exists>r w. made_run M1 A2 (memory_actions M1) goal1 hx run_id1 at_1 start1 = (Inr r, w)"
proof -
  obtain c where c: "agent_context M1 draft2 AwaitHumanReview = Inr c" "finite_floats (JObj c)" using context2 by blast
  have fp: "goal_fingerprint M1 goal1 = Inr hx"
    by (simp add: goal_fingerprint_def action_payload_def goal1_def payment_def)
  obtain tr2 where pl: "plan_or_fallback M1 A2 at_1 run_id1 c [escalation_tool, brief_tool] tr = Inr (plan2, False, tr2 tr)" for tr
    using c(2) receipt2_finite by (simp add: plan_or_fallback_def try_plan_def)
  have un: "filter (\<lambda>t. t \<notin> set registered_tools) [''model.receipt''] = [''model.receipt'']" by (simp add: registered_tools_def tool_names)
  have so: "sorted_set [''model.receipt''] = [''model.receipt'']" by (simp add: sorted_set_def)
  have d: "guard_decide M1 A2 goal1 at_1 start1 = (Inr draft2, start1\<lparr>wd_memory := wd_memory world1\<rparr>)"
    using decided2 by (simp add: guard_decide_def goal1_def start1_def world1_def)
  have tl: "\<exists>p v. on_actions (tool_loop M1 (memory_actions M1) at_1 draft2 [''model.receipt''] registered_tools
      \<lparr>pg_trace = tr, pg_artifacts = [], pg_failed = False\<rparr>) (start1\<lparr>wd_memory := wd_memory world1\<rparr>) = (Inr p, v)" for tr
    using tools_named [of tr] by (auto simp: on_actions_def start1_def)
  have db: "sbind (guard_decide M1 A2 goal1 at_1) k start1 = k draft2 (start1\<lparr>wd_memory := wd_memory world1\<rparr>)"
    for k :: "draft \<Rightarrow> (agent_run, jobj dict world) op" by (simp add: sbind_def d)
  have tb: "\<exists>r w. sbind (on_actions (tool_loop M1 (memory_actions M1) at_1 draft2 [''model.receipt''] registered_tools
      \<lparr>pg_trace = tr, pg_artifacts = [], pg_failed = False\<rparr>)) (\<lambda>p. lift (Inr (f p))) (start1\<lparr>wd_memory := wd_memory world1\<rparr>) = (Inr r, w)"
    for tr and f :: "progress \<Rightarrow> agent_run" using tl [of tr] by (auto simp: sbind_def lift_def)
  show ?thesis using c by (simp add: made_run_def fp db pl un so tb del: filter.simps)
qed

section \<open>Three resumptions\<close>

definition planned_final :: finalization where
  "planned_final = plain_final draft2 ConfirmationRequired (Some plan1) [''user_wallet_confirmation_required'']"

definition failed_final :: finalization where
  "failed_final = verified_final draft2 failed1"

definition step3 :: "int \<Rightarrow> string \<Rightarrow> string \<Rightarrow> tool_phase \<Rightarrow> string \<Rightarrow> tool_event list" where
  "step3 n tool why ph why' = [ev (n + 1) tool Considered why False, ev (n + 2) tool Called why False, ev (n + 3) tool ph why' True]"

definition run2 :: agent_run where
  "run2 = stepped run1 AwaitHumanReview (step3 13 prepare_tool ''human_request'' Succeeded ''anchor_confirmation_required'')
     (dset prepare_tool (finalization_json planned_final) (ar_artifacts run1)) ConfirmationRequired 5"

definition run3 :: agent_run where
  "run3 = stepped run2 AwaitHumanReview (step3 16 verify_tool ''human_wallet_signal'' Refused ''anchor_failed'')
     (dset verify_tool (finalization_json failed_final) (ar_artifacts run2)) Failed 5"

definition world2 :: "jobj dict world" where
  "world2 = world1\<lparr>wd_memory := (wd_memory world1)\<lparr>mm_finals := [(''dec_00000001'', planned_final)]\<rparr>, wd_runs := [(run_id1, run2)]\<rparr>"

definition world3 :: "jobj dict world" where
  "world3 = world2\<lparr>wd_runs := [(run_id1, run3)]\<rparr>"

definition ask_plan :: signal where "ask_plan = \<lparr>sg_kind = ''prepare_anchor'', sg_tx = None\<rparr>"
definition report_tx :: signal where "report_tx = \<lparr>sg_kind = ''anchor_transaction_observed'', sg_tx = Some ''0x1''\<rparr>"

lemma world1_ok: "world_ok M1 (A1 [review_tool]) world1"
proof (rule run_keeps_world [OF _ ran1])
  show "world_ok M1 (A1 [review_tool]) start1"
    by (simp add: world_ok_def start1_def memory_ok_def empty_memory_def load_subject_def load_final_def load_run_def)
qed (simp add: start1_def empty_memory_def load_draft_def)

lemma run1_simps [simp]: "ar_state run1 = AwaitHumanReview" "ar_decision run1 = draft2" "ar_id run1 = run_id1" "ar_trace run1 = trace1"
  "ar_anchor run1 = NotConfigured" "ar_artifacts run1 = [(escalation_tool, JObj action1)]" "\<not> ar_executable run1"
  by (simp_all add: run1_def)

lemma machine_dec [simp]: "length trace1 = 13" by (simp add: trace1_def)

lemma resumed1: "resume_run M1 (A1 [review_tool]) run_id1 ask_plan at_1 world1 = (Inr run2, world2)"
proof -
  have fin: "guard_finalize M1 (A1 [review_tool]) ''dec_00000001'' None at_1 world1 =
    (Inr planned_final, world1\<lparr>wd_memory := (wd_memory world1)\<lparr>mm_finals := [(''dec_00000001'', planned_final)]\<rparr>\<rparr>)"
    by (simp add: guard_finalize_def finalize_def loaded_draft_def value_check_def load_draft_def world1_def G1_def memory_unchanged_def
        load_final_def new_final_def given_def Let_def planned_final_def save_final_def plain_final_def)
  have st: "fz_state planned_final = ConfirmationRequired" by (simp add: planned_final_def plain_final_def)
  have ff: "finite_floats (finalization_json planned_final)"
    by (simp add: finalization_json_def planned_final_def plain_final_def jopt_def plan_json_def)
  have "load_run run_id1 world1 = Some run1" by (simp add: load_run_def world1_def)
  with fin st ff show ?thesis
    by (simp add: resume_run_def inspect_run_def validate_run1 sbind_def lift_def ask_plan_def prepare_run_def begin_step_def anchored_def
        Let_def save_run_def run2_def world2_def stepped_def step3_def world1_def)
qed

lemma world2_ok: "world_ok M1 (A1 [review_tool]) world2"
  using resume_keeps_world [OF world1_ok sha_hex_M1 resumed1]
  by (simp add: ask_plan_def load_run_def world1_def tool_names)

lemma run2_valid: "validate_run M1 (A1 [review_tool]) run2 = Inr ()"
proof -
  have "load_run run_id1 world2 = Some run2" by (simp add: load_run_def world2_def)
  with world2_ok show ?thesis by (auto simp: world_ok_def run_ok_def)
qed

lemma resumed2: "resume_run M1 (A1 [review_tool]) run_id1 report_tx at_1 world2 = (Inr run3, world3)"
proof -
  have fin: "guard_finalize M1 (A1 [review_tool]) ''dec_00000001'' (Some ''0x1'') at_1 world2 = (Inr failed_final, world2)"
    by (simp add: guard_finalize_def finalize_def loaded_draft_def value_check_def load_draft_def world2_def world1_def G1_def memory_unchanged_def
        load_final_def existing_answer_def final_matches_def new_final_def given_def Let_def planned_final_def plain_final_def
        failed_final_def failed1_def verified_final_def)
  have st: "fz_state failed_final = Failed" by (simp add: failed_final_def verified_final_def failed1_def Let_def)
  have ff: "finite_floats (finalization_json failed_final)"
    by (simp add: finalization_json_def failed_final_def verified_final_def failed1_def Let_def jopt_def verification_json_def)
  have "load_run run_id1 world2 = Some run2" by (simp add: load_run_def world2_def)
  moreover have "length (ar_trace run2) = 16" by (simp add: run2_def step3_def)
  moreover have "ar_state run2 = AwaitHumanReview" "ar_anchor run2 = ConfirmationRequired" "ar_id run2 = run_id1" "ar_decision run2 = draft2"
    by (simp_all add: run2_def)
  ultimately show ?thesis
    using fin st ff
    by (simp add: resume_run_def inspect_run_def run2_valid sbind_def lift_def report_tx_def verify_run_def begin_step_def anchored_def
        Let_def save_run_def run3_def world3_def stepped_def step3_def given_def world2_def)
qed

lemma resumed3: "\<exists>r w. resume_run M1 (A1 [review_tool]) run_id1 ask_plan at_1 world3 = (Inr r, w) \<and> ar_anchor r = ConfirmationRequired"
proof -
  have fin: "guard_finalize M1 (A1 [review_tool]) ''dec_00000001'' None at_1 world3 = (Inr planned_final, world3)"
    by (simp add: guard_finalize_def finalize_def loaded_draft_def value_check_def load_draft_def world3_def world2_def world1_def G1_def
        memory_unchanged_def load_final_def existing_answer_def final_matches_def given_def planned_final_def plain_final_def)
  have st: "fz_state planned_final = ConfirmationRequired" by (simp add: planned_final_def plain_final_def)
  have ff: "finite_floats (finalization_json planned_final)"
    by (simp add: finalization_json_def planned_final_def plain_final_def jopt_def plan_json_def)
  have "world_ok M1 (A1 [review_tool]) world3"
    by (rule resume_keeps_world [OF world2_ok sha_hex_M1 resumed2]) (simp add: report_tx_def)
  moreover have r: "load_run run_id1 world3 = Some run3" by (simp add: load_run_def world3_def)
  ultimately have "validate_run M1 (A1 [review_tool]) run3 = Inr ()" by (auto simp: world_ok_def run_ok_def)
  moreover have "ar_state run3 = AwaitHumanReview" "ar_decision run3 = draft2" "ar_id run3 = run_id1" by (simp_all add: run3_def run2_def)
  ultimately show ?thesis
    using fin st ff r
    by (simp add: resume_run_def inspect_run_def sbind_def lift_def ask_plan_def prepare_run_def begin_step_def anchored_def
        Let_def save_run_def)
qed

end
