(* ===== verification/Mg_Agent_Actions.thy ===== *)
theory Mg_Agent_Actions
  imports Mg_Agent_Facts
begin

text \<open>
  What the agent may add to the store of safety actions: the store only grows, by receipts of the
  decided draft that the verdict allows, also when the run raises afterwards.
\<close>

text \<open>A receipt of a draft: it names the draft, executes nothing, and is a review card only for READY.\<close>

definition receipt_for :: "draft \<Rightarrow> jobj \<Rightarrow> bool" where
  "receipt_for d a \<longleftrightarrow> jget a ''decision_id'' = JStr (dd_id d) \<and> jget a ''executable'' = JBool False \<and>
     (jget a ''kind'' = JStr ''non_executable_human_review_card'' \<and> dd_verdict d = V_Ready \<or>
      jget a ''kind'' = JStr ''operator_escalation_case'' \<and> dd_verdict d \<noteq> V_Ready \<or>
      jget a ''kind'' = JStr ''causal_evidence_brief'')"

definition actions_grow :: "jobj dict \<Rightarrow> (jobj \<Rightarrow> bool) \<Rightarrow> jobj dict \<Rightarrow> bool" where
  "actions_grow old new acts \<longleftrightarrow> (\<forall>i a. map_of acts i = Some a \<longrightarrow> map_of old i = Some a \<or> new a)"

lemma save_action_grows:
  assumes "save_action a acts = (out, acts')" "actions_grow old new acts" "new a"
  shows "actions_grow old new acts'"
  using assms by (auto simp: save_action_def actions_grow_def Let_def split: option.splits if_splits) blast+

lemma allowed_verdict:
  "review_tool \<in> set (fst (snd (authorization d))) \<Longrightarrow> dd_verdict d = V_Ready"
  "escalation_tool \<in> set (fst (snd (authorization d))) \<Longrightarrow> dd_verdict d \<noteq> V_Ready"
  by (auto simp: authorization_def tool_names split: if_splits)

lemma review_receipt_for: "review_receipt E d = Inr a \<Longrightarrow> dd_verdict d = V_Ready \<Longrightarrow> receipt_for d a"
  unfolding review_receipt_def by (elim ebind_InrE) (auto simp: receipt_for_def jget_def)

lemma escalation_receipt_for: "escalation_receipt E d = Inr a \<Longrightarrow> dd_verdict d \<noteq> V_Ready \<Longrightarrow> receipt_for d a"
  unfolding escalation_receipt_def by (elim ebind_InrE) (auto simp: receipt_for_def jget_def)

lemma brief_receipt_for: "brief_receipt E d = Inr a \<Longrightarrow> receipt_for d a"
  unfolding brief_receipt_def by (elim ebind_InrE) (auto simp: receipt_for_def jget_def)

lemma saved_receipt_grows:
  assumes "sbind (lift q) save_action acts = (out, acts')" "actions_grow old new acts" "\<And>a. q = Inr a \<Longrightarrow> new a"
  shows "actions_grow old new acts'"
  using assms save_action_grows [of _ acts out acts' old new] by (cases q) (auto simp: sbind_def lift_def)

lemma call_action_grows:
  assumes c: "call_action (memory_actions E) tool d acts = (out, acts')" and g: "actions_grow old (receipt_for d) acts"
    and a: "tool \<in> set (fst (snd (authorization d)))"
  shows "actions_grow old (receipt_for d) acts'"
proof -
  consider "tool = review_tool" | "tool = escalation_tool" | "tool = brief_tool"
    using a by (auto simp: authorization_def split: if_splits)
  then show ?thesis
  proof cases
    case 1
    with c have "sbind (lift (review_receipt E d)) save_action acts = (out, acts')" by (simp add: call_action_def memory_actions_def)
    then show ?thesis by (rule saved_receipt_grows [OF _ g]) (use a 1 in \<open>auto intro: review_receipt_for allowed_verdict\<close>)
  next
    case 2
    with c have "sbind (lift (escalation_receipt E d)) save_action acts = (out, acts')"
      by (simp add: call_action_def memory_actions_def tool_names)
    then show ?thesis by (rule saved_receipt_grows [OF _ g]) (use a 2 allowed_verdict(2) in \<open>blast intro: escalation_receipt_for\<close>)
  next
    case 3
    with c have "sbind (lift (brief_receipt E d)) save_action acts = (out, acts')"
      by (simp add: call_action_def memory_actions_def tool_names)
    then show ?thesis by (rule saved_receipt_grows [OF _ g]) (rule brief_receipt_for)
  qed
qed

lemma run_actions:
  assumes run: "run_goal E A (memory_actions E) g R w = (out, w')" and new: "map_of (wd_actions w') i = Some a"
  shows "map_of (wd_actions w) i = Some a \<or> (\<exists>m d. decide E (ag_guard A) (wd_memory w) (go_intent g) (mo_uuid R) (mo_nonce R)
    (mo_policy R) (mo_guard R) = Inr (m, d) \<and> receipt_for d a)"
proof -
  define new where "new = (\<lambda>a. \<exists>m d. decide E (ag_guard A) (wd_memory w) (go_intent g) (mo_uuid R) (mo_nonce R)
    (mo_policy R) (mo_guard R) = Inr (m, d) \<and> receipt_for d a)"
  have "actions_grow (wd_actions w) new (wd_actions w')"
  proof (rule run_goal_inv [OF run])
    show "actions_grow (wd_actions w) new (wd_actions w)" by (simp add: actions_grow_def)
    fix m d tool acts out' acts'
    assume d: "decide E (ag_guard A) (wd_memory w) (go_intent g) (mo_uuid R) (mo_nonce R) (mo_policy R) (mo_guard R) = Inr (m, d)"
      and t: "tool \<in> set (fst (snd (authorization d)))" and g: "actions_grow (wd_actions w) new acts"
      and c: "call_action (memory_actions E) tool d acts = (out', acts')"
    have n: "new a \<longleftrightarrow> receipt_for d a" for a using d by (auto simp: new_def)
    then have "new = receipt_for d" by (rule ext)
    with call_action_grows [OF c _ t] g show "actions_grow (wd_actions w) new acts'" by simp
  qed
  with assms(2) show ?thesis by (auto simp: actions_grow_def new_def)
qed

end
