(* ===== verification/Mg_Sibyl.thy ===== *)
theory Mg_Sibyl
  imports Mg_Agent_Run
begin

text \<open>
  The production adapters over the client of the memory SDK: \<^verbatim>\<open>SibylMemoryAdapter\<close>
  (\<^verbatim>\<open>adapters/sibyl.py\<close>), \<^verbatim>\<open>SibylAgentRunAdapter\<close>
  (\<^verbatim>\<open>adapters/agent_ledger.py\<close>) and \<^verbatim>\<open>SibylSafetyActionAdapter\<close> (\<^verbatim>\<open>adapters/safety_actions.py\<close>).
  The client is a parameter. A write of two steps keeps the first when the second raises.
\<close>

section \<open>The client\<close>

text \<open>
  \<open>sk_get\<close> answers \<open>None\<close> for the SDK's NotFoundError; \<open>sk_own\<close> tells the errors that belong to
  the SDK's base class, which the adapters translate.
\<close>

record 'd sdk =
  sk_get :: "string \<Rightarrow> string \<Rightarrow> (jobj option, 'd) op"
  sk_set :: "string \<Rightarrow> string \<Rightarrow> jobj \<Rightarrow> string \<Rightarrow> (unit, 'd) op"
  sk_event :: "jobj \<Rightarrow> (unit, 'd) op"
  sk_own :: "err \<Rightarrow> bool"

definition unavailable :: err where
  "unavailable = PyExc ''MemoryBackendUnavailable''"

text \<open>\<^verbatim>\<open>except self._sibyl_error as exc: raise self._translate(exc)\<close>.\<close>

definition translated :: "'d sdk \<Rightarrow> ('a, 'd) op \<Rightarrow> ('a, 'd) op" where
  "translated C m = recover m (\<lambda>e. lift (Inl (if sk_own C e then unavailable else e)))"

definition event_body :: "string list \<Rightarrow> string list \<Rightarrow> jobj \<Rightarrow> jobj" where
  "event_body evaluated forward extra = [(''evaluated'', jstrs evaluated), (''forward'', jstrs forward), (''extra'', JObj extra)]"

definition sibyl_key :: "env \<Rightarrow> string \<Rightarrow> string res" where
  "sibyl_key E v = domain_hash E ''sibyl-key'' (JStr v)"

definition subject_category :: string where "subject_category = ''memoryguard-subject''"
definition decision_category :: string where "decision_category = ''memoryguard-decision''"
definition finalization_category :: string where "finalization_category = ''memoryguard-finalization''"
definition run_category :: string where "run_category = ''memoryguard-agent-run''"
definition action_category :: string where "action_category = ''memoryguard-safe-action''"

text \<open>Reading a row: a missing row is \<open>None\<close>, a body is decoded.\<close>

definition sibyl_read :: "'d sdk \<Rightarrow> string \<Rightarrow> string res \<Rightarrow> (jobj \<Rightarrow> 'a res) \<Rightarrow> ('a option, 'd) op" where
  "sibyl_read C cat key decode = translated C
     (sbind (lift key) (\<lambda>k. sbind (sk_get C cat k) (\<lambda>row. lift (case row of
        None \<Rightarrow> Inr None | Some body \<Rightarrow> ebind (decode body) (\<lambda>x. Inr (Some x))))))"

definition body_of :: "json \<Rightarrow> jobj" where
  "body_of j = (case j of JObj d \<Rightarrow> d | _ \<Rightarrow> [])"

section \<open>The memory adapter\<close>

definition sibyl_load_subject :: "env \<Rightarrow> builtins \<Rightarrow> 'd sdk \<Rightarrow> string \<Rightarrow> (subject_memory option, 'd) op" where
  "sibyl_load_subject E P C ref = sibyl_read C subject_category (sibyl_key E ref) (subject_from E P)"

definition safe_event :: "stored_observation \<Rightarrow> jobj" where
  "safe_event x = [(''observation_id'', JStr (so_id x)), (''subject_ref'', JStr (so_subject x)),
     (''kind'', JStr (okind_str (so_kind x))), (''status'', JStr (ostatus_str (so_status x))),
     (''evidence_mode'', JStr (mode_str (so_mode x))), (''reason_codes'', jstrs (so_reasons x)),
     (''observation_hash'', JStr (so_hash x))]"

definition sibyl_commit :: "env \<Rightarrow> builtins \<Rightarrow> 'd sdk \<Rightarrow> int \<Rightarrow> subject_memory \<Rightarrow> stored_observation \<Rightarrow> (unit, 'd) op" where
  "sibyl_commit E P C previous s x = recover
     (sbind (sibyl_load_subject E P C (sm_subject s)) (\<lambda>current.
      let actual = (case current of None \<Rightarrow> 0 | Some c \<Rightarrow> sm_version c) in
      sbind (lift (check (actual = previous) (PyExc ''MemoryConflictError''))) (\<lambda>_.
      sbind (sk_event C (event_body [''memoryguard_observation_validated''] [''commit_warm_subject_entity''] (safe_event x))) (\<lambda>_.
      sbind (lift (sibyl_key E (sm_subject s))) (\<lambda>k.
      sk_set C subject_category k (body_of (subject_json E s)) ''active'')))))
     (\<lambda>e. lift (Inl (if e = PyExc ''MemoryConflictError'' then e else if sk_own C e then unavailable else e)))"

definition sibyl_save_decision :: "env \<Rightarrow> 'd sdk \<Rightarrow> draft \<Rightarrow> (unit, 'd) op" where
  "sibyl_save_decision E C d = translated C
     (sbind (lift (sibyl_key E (dd_id d))) (\<lambda>k.
      sbind (sk_set C decision_category k (body_of (draft_json E d)) ''draft'') (\<lambda>_.
      sk_event C (event_body [''memoryguard_decision_drafted''] []
        [(''decision_id'', JStr (dd_id d)), (''verdict'', JStr (mverdict_str (dd_verdict d))),
         (''proof_root'', JStr (dd_proof d)), (''memory_version'', JInt (dd_version d))]))))"

definition sibyl_load_decision :: "env \<Rightarrow> builtins \<Rightarrow> 'd sdk \<Rightarrow> string \<Rightarrow> (draft option, 'd) op" where
  "sibyl_load_decision E P C i = sibyl_read C decision_category (sibyl_key E i) (draft_from E P)"

definition sibyl_save_finalization :: "env \<Rightarrow> 'd sdk \<Rightarrow> finalization \<Rightarrow> (unit, 'd) op" where
  "sibyl_save_finalization E C f = translated C
     (sbind (sk_event C (event_body [''memoryguard_finalization_validated''] [''commit_finalization_entity'']
        [(''decision_id'', JStr (fz_decision f)), (''verdict'', JStr (mverdict_str (fz_verdict f))),
         (''proof_root'', JStr (fz_proof f)), (''anchor_state'', JStr (anchor_str (fz_state f))),
         (''executable'', JBool (fz_executable f))])) (\<lambda>_.
      sbind (lift (sibyl_key E (fz_decision f))) (\<lambda>k.
      sk_set C finalization_category k (body_of (finalization_json f)) (anchor_str (fz_state f)))))"

definition sibyl_load_finalization :: "env \<Rightarrow> builtins \<Rightarrow> 'd sdk \<Rightarrow> string \<Rightarrow> (finalization option, 'd) op" where
  "sibyl_load_finalization E P C i = sibyl_read C finalization_category (sibyl_key E i) (finalization_from P)"

section \<open>The run ledger\<close>

definition run_key :: "env \<Rightarrow> string \<Rightarrow> string res" where
  "run_key E i = domain_hash E ''sibyl-agent-run-key'' (JStr i)"

text \<open>The envelope binds the body of the run by its hash.\<close>

definition envelope :: "env \<Rightarrow> agent_run \<Rightarrow> jobj res" where
  "envelope E r = ebind (domain_hash E ''agent-run-ledger'' (run_json E r)) (\<lambda>h.
     Inr [(''schema_version'', JStr ''1.0''), (''run'', run_json E r), (''run_hash'', JStr h)])"

definition sibyl_save_run :: "env \<Rightarrow> 'd sdk \<Rightarrow> agent_run \<Rightarrow> (unit, 'd) op" where
  "sibyl_save_run E C r = translated C
     (sbind (lift (envelope E r)) (\<lambda>body.
      sbind (lift (run_key E (ar_id r))) (\<lambda>k.
      sbind (sk_set C run_category k body (astate_str (ar_state r))) (\<lambda>_.
      sk_event C (event_body [''memoryguard_agent_run_reduced''] [''commit_agent_run_entity'']
        [(''run_id'', JStr (ar_id r)), (''state'', JStr (astate_str (ar_state r))),
         (''decision_id'', JStr (dd_id (ar_decision r))), (''verdict'', JStr (mverdict_str (dd_verdict (ar_decision r)))),
         (''trace_length'', JInt (int (length (ar_trace r)))), (''executable'', JBool False)])))))"

definition open_envelope :: "env \<Rightarrow> builtins \<Rightarrow> jobj \<Rightarrow> agent_run res" where
  "open_envelope E P body =
     ebind (ebind (jfield body ''run'') (dict_of P)) (\<lambda>run.
     ebind (domain_hash E ''agent-run-ledger'' (JObj run)) (\<lambda>h.
     ebind (check (jget body ''run_hash'' = JStr h) unavailable) (\<lambda>_. run_from E P run)))"

definition sibyl_load_run :: "env \<Rightarrow> builtins \<Rightarrow> 'd sdk \<Rightarrow> string \<Rightarrow> (agent_run option, 'd) op" where
  "sibyl_load_run E P C i = sibyl_read C run_category (run_key E i) (open_envelope E P)"

section \<open>The safety actions\<close>

definition action_key :: "env \<Rightarrow> string \<Rightarrow> string res" where
  "action_key E i = domain_hash E ''sibyl-safe-action-key'' (JStr i)"

text \<open>
  An existing action is returned when it is the same, and refused when it is another. A ValueError
  is raised as it is, also when it comes from the SDK.
\<close>

definition sibyl_save_action :: "env \<Rightarrow> 'd sdk \<Rightarrow> jobj \<Rightarrow> (jobj, 'd) op" where
  "sibyl_save_action E C receipt =
     recover
      (sbind (lift (action_key E (case jget receipt ''action_id'' of JStr s \<Rightarrow> s | _ \<Rightarrow> []))) (\<lambda>k.
       sbind (sk_get C action_category k) (\<lambda>row. case row of
         Some old \<Rightarrow> lift (if py_eq (JObj old) (JObj receipt) then Inr old else Inl (PyExc ''ValueError''))
       | None \<Rightarrow>
         sbind (sk_event C (event_body [''memoryguard_safe_action_authorized''] [''commit_non_executable_safety_action'']
           [(''action_id'', jget receipt ''action_id''), (''kind'', jget receipt ''kind''),
            (''decision_id'', jget receipt ''decision_id''), (''verdict'', jget receipt ''verdict''),
            (''executable'', JBool False)])) (\<lambda>_.
         sbind (sk_set C action_category k receipt ''prepared'') (\<lambda>_. lift (Inr receipt))))))
      (\<lambda>e. lift (Inl (if e = PyExc ''ValueError'' then e else if sk_own C e then unavailable else e)))"

definition sibyl_actions :: "env \<Rightarrow> 'd sdk \<Rightarrow> 'd actions_port" where
  "sibyl_actions E C = \<lparr>ac_review = (\<lambda>d. sbind (lift (review_receipt E d)) (sibyl_save_action E C)),
     ac_escalation = (\<lambda>d. sbind (lift (escalation_receipt E d)) (sibyl_save_action E C)),
     ac_brief = (\<lambda>d. sbind (lift (brief_receipt E d)) (sibyl_save_action E C))\<rparr>"

section \<open>The memory port\<close>

text \<open>
  What \<^verbatim>\<open>MemoryGuard\<close> relies on when it commits: the version it read is checked, the subject it
  wrote is what is loaded next, and other subjects are untouched. \<open>name\<close> are the references in use.
\<close>

locale memory_port =
  fixes load :: "string \<Rightarrow> (subject_memory option, 's) op"
    and commit :: "int \<Rightarrow> subject_memory \<Rightarrow> stored_observation \<Rightarrow> (unit, 's) op"
    and name :: "string \<Rightarrow> bool"
    and storable :: "subject_memory \<Rightarrow> bool"
  assumes load_pure: "snd (load ref s) = s"
    and commit_checks: "commit previous m x s = (Inr u, s') \<Longrightarrow>
      \<exists>c. fst (load (sm_subject m) s) = Inr c \<and> (case c of None \<Rightarrow> 0 | Some k \<Rightarrow> sm_version k) = previous"
    and commit_load: "commit previous m x s = (Inr u, s') \<Longrightarrow> storable m \<Longrightarrow> name (sm_subject m) \<Longrightarrow>
      fst (load (sm_subject m) s') = Inr (Some m)"
    and commit_other: "commit previous m x s = (Inr u, s') \<Longrightarrow> name ref \<Longrightarrow> name (sm_subject m) \<Longrightarrow> ref \<noteq> sm_subject m \<Longrightarrow>
      fst (load ref s') = fst (load ref s)"
    and commit_conflict: "fst (load (sm_subject m) s) = Inr c \<Longrightarrow> (case c of None \<Rightarrow> 0 | Some k \<Rightarrow> sm_version k) \<noteq> previous \<Longrightarrow>
      commit previous m x s = (Inl (PyExc ''MemoryConflictError''), s)"
begin

text \<open>Two writers who read the same version: the second is refused and changes nothing.\<close>

lemma no_lost_update:
  assumes "commit n a x s = (Inr u, s')" "storable a" "name (sm_subject a)" "sm_version a = n + 1" "sm_subject b = sm_subject a"
  shows "commit n b y s' = (Inl (PyExc ''MemoryConflictError''), s')"
  by (rule commit_conflict [of _ _ "Some a"]) (use assms commit_load [OF assms(1-3)] in auto)

end

definition port_load :: "string \<Rightarrow> (subject_memory option, memory) op" where
  "port_load ref m = (Inr (load_subject m ref), m)"

definition port_commit :: "int \<Rightarrow> subject_memory \<Rightarrow> stored_observation \<Rightarrow> (unit, memory) op" where
  "port_commit previous s x m = (case commit_observation m previous s of Inl e \<Rightarrow> (Inl e, m) | Inr m' \<Rightarrow> (Inr (), m'))"

interpretation in_memory: memory_port port_load port_commit "\<lambda>_. True" "\<lambda>_. True"
  by unfold_locales
    (auto simp: port_load_def port_commit_def commit_observation_def load_subject_def Let_def split: sum.splits if_splits option.splits)

section \<open>The adapter over a client that keeps its rows\<close>

text \<open>The documented behaviour of the client: reading changes nothing, a row is found under the key it was set under.\<close>

locale sdk_client =
  fixes C :: "'d sdk"
  assumes get_pure: "snd (sk_get C c k d) = d"
    and set_get: "sk_set C c k b st d = (Inr u, d') \<Longrightarrow> fst (sk_get C c k d') = Inr (Some b)"
    and set_other: "sk_set C c k b st d = (Inr u, d') \<Longrightarrow> (c', k') \<noteq> (c, k) \<Longrightarrow> fst (sk_get C c' k' d') = fst (sk_get C c' k' d)"
    and event_get: "sk_event C x d = (Inr u, d') \<Longrightarrow> fst (sk_get C c k d') = fst (sk_get C c k d)"

lemma translated_Inr: "translated C m d = (Inr x, d') \<longleftrightarrow> m d = (Inr x, d')"
  by (auto simp: translated_def recover_def lift_def split: prod.splits sum.splits)

lemma fst_translated_Inr: "fst (translated C m d) = Inr x \<longleftrightarrow> fst (m d) = Inr x"
  by (auto simp: translated_def recover_def lift_def split: prod.splits sum.splits)

context sdk_client
begin

lemma get_state: "sk_get C c k d = (r, d') \<Longrightarrow> d' = d"
  using get_pure [of c k d] by simp

lemma read_pure: "snd (sibyl_read C cat key decode d) = d"
  by (auto simp: sibyl_read_def translated_def recover_def sbind_def lift_def split: prod.splits sum.splits dest: get_state)

lemma read_row:
  assumes "fst (sk_get C cat k d) = Inr row"
  shows "fst (sibyl_read C cat (Inr k) decode d) = (case row of None \<Rightarrow> Inr None
    | Some b \<Rightarrow> (case decode b of Inl e \<Rightarrow> Inl (if sk_own C e then unavailable else e) | Inr x \<Rightarrow> Inr (Some x)))"
  using assms get_pure [of cat k d]
  by (auto simp: sibyl_read_def translated_def recover_def sbind_def lift_def split: prod.splits sum.splits option.splits)

lemma read_same:
  assumes "fst (sk_get C cat k d') = fst (sk_get C cat k d)"
  shows "fst (sibyl_read C cat (Inr k) decode d') = fst (sibyl_read C cat (Inr k) decode d)"
  using assms
  by (auto simp: sibyl_read_def translated_def recover_def sbind_def lift_def split: prod.splits sum.splits option.splits)

end

locale sibyl_memory = sdk_client C for C :: "'d sdk" +
  fixes E :: env and P :: builtins and name :: "string \<Rightarrow> bool"
  assumes times: "times_round_trip E"
    and keys: "name a \<Longrightarrow> name b \<Longrightarrow> sibyl_key E a = sibyl_key E b \<Longrightarrow> a = b"
begin

lemma key_Inr: "\<exists>k. sibyl_key E ref = Inr k"
  by (simp add: sibyl_key_def domain_hash_def canonical_json_def)

lemma commit_Inr:
  assumes "sibyl_commit E P C previous s x d = (Inr u, d')"
  obtains c k d1 where "fst (sibyl_load_subject E P C (sm_subject s) d) = Inr c"
    "(case c of None \<Rightarrow> 0 | Some m \<Rightarrow> sm_version m) = previous" "sibyl_key E (sm_subject s) = Inr k"
    "\<And>c k. fst (sk_get C c k d1) = fst (sk_get C c k d)"
    "sk_set C subject_category k (body_of (subject_json E s)) ''active'' d1 = (Inr u, d')"
proof -
  from assms obtain c d0 d1 u1 k where l: "sibyl_load_subject E P C (sm_subject s) d = (Inr c, d0)"
    and v: "(case c of None \<Rightarrow> 0 | Some m \<Rightarrow> sm_version m) = previous"
    and e: "sk_event C (event_body [''memoryguard_observation_validated''] [''commit_warm_subject_entity''] (safe_event x)) d0 = (Inr u1, d1)"
    and k: "sibyl_key E (sm_subject s) = Inr k" "sk_set C subject_category k (body_of (subject_json E s)) ''active'' d1 = (Inr u, d')"
    by (auto simp: sibyl_commit_def recover_def sbind_def lift_def Let_def check_def split: prod.splits sum.splits if_splits)
  have "d0 = d" using l read_pure [of subject_category "sibyl_key E (sm_subject s)" "subject_from E P" d]
    by (simp add: sibyl_load_subject_def)
  with event_get [OF e] l v k show ?thesis by (intro that [of c k d1]) simp_all
qed

lemma port: "memory_port (sibyl_load_subject E P C) (sibyl_commit E P C) name
    (\<lambda>s. \<forall>x \<in> set (sm_observations s). no_empty (so_text_hash x))"
proof
  show "snd (sibyl_load_subject E P C ref d) = d" for ref d
    by (simp add: sibyl_load_subject_def read_pure)
  show "\<exists>c. fst (sibyl_load_subject E P C (sm_subject m) d) = Inr c \<and> (case c of None \<Rightarrow> 0 | Some k \<Rightarrow> sm_version k) = previous"
    if "sibyl_commit E P C previous m x d = (Inr u, d')" for previous m x d u d'
    using that by (rule commit_Inr) blast
  show "fst (sibyl_load_subject E P C (sm_subject m) d') = Inr (Some m)"
    if c: "sibyl_commit E P C previous m x d = (Inr u, d')" and s: "\<forall>x \<in> set (sm_observations m). no_empty (so_text_hash x)"
    for previous m x d u d'
    using c
  proof (rule commit_Inr)
    fix k d1
    assume k: "sibyl_key E (sm_subject m) = Inr k" and w: "sk_set C subject_category k (body_of (subject_json E m)) ''active'' d1 = (Inr u, d')"
    have "subject_from E P (body_of (subject_json E m)) = Inr m"
      by (rule subject_round_trip [OF times s]) (simp add: body_of_def subject_json_def)
    with read_row [OF set_get [OF w], of "subject_from E P"] k show ?thesis by (simp add: sibyl_load_subject_def)
  qed
  show "fst (sibyl_load_subject E P C ref d') = fst (sibyl_load_subject E P C ref d)"
    if c: "sibyl_commit E P C previous m x d = (Inr u, d')" and n: "name ref" "name (sm_subject m)" "ref \<noteq> sm_subject m"
    for previous m x d u d' ref
    using c
  proof (rule commit_Inr)
    fix k d1
    assume k: "sibyl_key E (sm_subject m) = Inr k" and same: "\<And>c k. fst (sk_get C c k d1) = fst (sk_get C c k d)"
      and w: "sk_set C subject_category k (body_of (subject_json E m)) ''active'' d1 = (Inr u, d')"
    obtain k' where k': "sibyl_key E ref = Inr k'" using key_Inr by blast
    with k keys [OF n(1,2)] n(3) have "k' \<noteq> k" by auto
    with set_other [OF w, of subject_category k'] same have "fst (sk_get C subject_category k' d') = fst (sk_get C subject_category k' d)" by simp
    with read_same k' show ?thesis by (simp add: sibyl_load_subject_def)
  qed
  show "sibyl_commit E P C previous m x d = (Inl (PyExc ''MemoryConflictError''), d)"
    if "fst (sibyl_load_subject E P C (sm_subject m) d) = Inr c" "(case c of None \<Rightarrow> 0 | Some k \<Rightarrow> sm_version k) \<noteq> previous"
    for m d c previous x
    using that read_pure [of subject_category "sibyl_key E (sm_subject m)" "subject_from E P" d]
    by (cases "sibyl_load_subject E P C (sm_subject m) d") (auto simp: sibyl_load_subject_def sibyl_commit_def recover_def sbind_def lift_def)
qed

end

sublocale sibyl_memory \<subseteq> sibyl: memory_port "sibyl_load_subject E P C" "sibyl_commit E P C" name
    "\<lambda>s. \<forall>x \<in> set (sm_observations s). no_empty (so_text_hash x)"
  by (rule port)

section \<open>A client in memory\<close>

text \<open>Rows under category and key, and the log of the events; nothing fails.\<close>

record sdk_rows =
  sr_rows :: "(string \<times> string) \<Rightarrow> jobj option"
  sr_events :: "jobj list"

definition rows_client :: "sdk_rows sdk" where
  "rows_client = \<lparr>sk_get = (\<lambda>c k d. (Inr (sr_rows d (c, k)), d)),
     sk_set = (\<lambda>c k b st d. (Inr (), d\<lparr>sr_rows := (sr_rows d)((c, k) \<mapsto> b)\<rparr>)),
     sk_event = (\<lambda>x d. (Inr (), d\<lparr>sr_events := sr_events d @ [x]\<rparr>)), sk_own = (\<lambda>_. False)\<rparr>"

interpretation rows_client: sdk_client rows_client
  by unfold_locales (auto simp: rows_client_def)

text \<open>
  An environment in which the hypotheses hold: the hash returns its input, a time is written as a
  decimal number and read back.
\<close>

definition plain_env :: env where
  "plain_env = \<lparr>sha256 = (\<lambda>s. s), float_repr = (\<lambda>_. ''0.5''), float_text = (\<lambda>_. Fin 0), iso_time = dec_int, dump_time = dec_int,
     parse_time = (\<lambda>s. Some (case s of CHR ''-'' # r \<Rightarrow> - int (undec 0 r) | _ \<Rightarrow> int (undec 0 s), True)),
     nfc = (\<lambda>s. s), uni_lower = (\<lambda>s. s), runtime_id = ''r'', process_id = 1, build_commit = ''c''\<rparr>"

lemma dec_nat_no_char: "c \<in> set (dec_nat n) \<Longrightarrow> c \<noteq> CHR ''-'' \<and> c \<noteq> CHR ''Z''"
  using dec_nat_digits [of c n] by (auto simp: is_digit_def)

lemma plain_times: "times_round_trip plain_env"
  unfolding times_round_trip_def
proof (intro allI conjI)
  fix t
  show "CHR ''Z'' \<notin> set (iso_time plain_env t)"
    by (auto simp: plain_env_def dec_int_def dest: dec_nat_no_char)
  have "dec_nat n \<noteq> CHR ''-'' # l" for n l using dec_nat_no_char [of "CHR ''-''" n] by auto
  then have "(case dec_nat n of CHR ''-'' # r \<Rightarrow> a r | _ \<Rightarrow> b) = (b :: int)" for n a b
    by (auto split: list.splits char.splits bool.splits)
  then show "parse_time plain_env (iso_time plain_env t) = Some (t, True)"
    by (auto simp: plain_env_def dec_int_def undec_dec_nat)
qed

lemma plain_keys: "sibyl_key plain_env a = sibyl_key plain_env b \<Longrightarrow> a = b"
  by (auto simp: sibyl_key_def domain_hash_def canonical_json_def plain_env_def dumps_def dest: quote_split [of a "[]" b "[]", simplified])

interpretation rows_memory: sibyl_memory rows_client plain_env B "\<lambda>_. True" for B
  by unfold_locales (auto simp: plain_times plain_keys)

end
