(* ===== verification/Mg_Refine.thy ===== *)
theory Mg_Refine
  imports Mg_Sibyl
begin

text \<open>
  The production memory of the guard against the memory in a dict: over a client that keeps its
  rows, every successful operation of \<^verbatim>\<open>SibylMemoryAdapter\<close> is the operation of
  \<^verbatim>\<open>InMemoryMemoryAdapter\<close> on the memory that the rows represent. And the run ledger: a run is read
  back as it was saved.
\<close>

section \<open>Writing one row\<close>

definition row_written :: "'d sdk \<Rightarrow> string \<Rightarrow> string \<Rightarrow> jobj \<Rightarrow> 'd \<Rightarrow> 'd \<Rightarrow> bool" where
  "row_written C c k b d d' \<longleftrightarrow> (\<forall>c' k'. fst (sk_get C c' k' d') =
     (if (c', k') = (c, k) then Inr (Some b) else fst (sk_get C c' k' d)))"

context sdk_client
begin

lemma set_written: "sk_set C c k b st d = (Inr u, d') \<Longrightarrow> row_written C c k b d d'"
  unfolding row_written_def using set_get set_other by fastforce

lemma event_first: "sk_event C x d = (Inr u, d1) \<Longrightarrow> row_written C c k b d1 d' \<Longrightarrow> row_written C c k b d d'"
  unfolding row_written_def using event_get by fastforce

lemma event_last: "row_written C c k b d d1 \<Longrightarrow> sk_event C x d1 = (Inr u, d') \<Longrightarrow> row_written C c k b d d'"
  unfolding row_written_def using event_get by fastforce

lemma save_decision_written:
  assumes "sibyl_save_decision E C x d = (Inr u, d')" "sibyl_key E (dd_id x) = Inr k"
  shows "row_written C decision_category k (body_of (draft_json E x)) d d'"
  using assms set_written event_last
  unfolding sibyl_save_decision_def translated_Inr by (fastforce simp: sbind_def lift_def split: prod.splits sum.splits)

lemma save_finalization_written:
  assumes "sibyl_save_finalization E C x d = (Inr u, d')" "sibyl_key E (fz_decision x) = Inr k"
  shows "row_written C finalization_category k (body_of (finalization_json x)) d d'"
  using assms set_written event_first
  unfolding sibyl_save_finalization_def translated_Inr by (fastforce simp: sbind_def lift_def split: prod.splits sum.splits)

lemma save_run_written:
  assumes "sibyl_save_run E C r d = (Inr u, d')" "envelope E r = Inr b" "run_key E (ar_id r) = Inr k"
  shows "row_written C run_category k b d d'"
  using assms set_written event_last
  unfolding sibyl_save_run_def translated_Inr by (fastforce simp: sbind_def lift_def split: prod.splits sum.splits)

lemma read_written:
  assumes "row_written C c k b d d'" "decode b = Inr x"
  shows "fst (sibyl_read C c (Inr k) decode d') = Inr (Some x)"
  using assms read_row [of c k d' "Some b" decode] by (simp add: row_written_def)

lemma read_unwritten:
  assumes "row_written C c k b d d'" "(c', k') \<noteq> (c, k)"
  shows "fst (sibyl_read C c' (Inr k') decode d') = fst (sibyl_read C c' (Inr k') decode d)"
  using assms by (intro read_same) (auto simp: row_written_def)

section \<open>The run ledger\<close>

lemma run_saved:
  assumes t: "times_round_trip E" and o: "\<forall>x \<in> set (ar_trace r). no_empty (te_output x)"
    and s: "sibyl_save_run E C r d = (Inr u, d')"
  shows "sibyl_load_run E P C (ar_id r) d' = (Inr (Some r), d')"
proof -
  from s obtain b where b: "envelope E r = Inr b"
    unfolding sibyl_save_run_def translated_Inr by (auto simp: sbind_def lift_def split: prod.splits sum.splits)
  then obtain h where h: "domain_hash E ''agent-run-ledger'' (run_json E r) = Inr h"
    "b = [(''schema_version'', JStr ''1.0''), (''run'', run_json E r), (''run_hash'', JStr h)]"
    unfolding envelope_def by (elim ebind_InrE) auto
  obtain run where run: "run_json E r = JObj run" by (simp add: run_json_def)
  obtain k where k: "run_key E (ar_id r) = Inr k" by (auto simp: run_key_def domain_hash_def canonical_json_def)
  have "open_envelope E P b = Inr r"
    using h run run_round_trip [OF t o run, of P] by (simp add: open_envelope_def jfield_def jget_def dict_of_def)
  from read_written [OF save_run_written [OF s b k], of "open_envelope E P", OF this] k
  have "fst (sibyl_load_run E P C (ar_id r) d') = Inr (Some r)" by (simp add: sibyl_load_run_def)
  moreover have "snd (sibyl_load_run E P C (ar_id r) d') = d'" by (simp add: sibyl_load_run_def read_pure)
  ultimately show ?thesis by (metis prod.collapse)
qed

end

section \<open>The memory\<close>

text \<open>
  The rows represent a memory when every reference in use is loaded from both alike: subjects,
  decisions and finalizations.
\<close>

definition represents :: "env \<Rightarrow> builtins \<Rightarrow> 'd sdk \<Rightarrow> (string \<Rightarrow> bool) \<Rightarrow> 'd \<Rightarrow> memory \<Rightarrow> bool" where
  "represents E P C name d m \<longleftrightarrow> (\<forall>ref. name ref \<longrightarrow>
     sibyl_load_subject E P C ref d = (Inr (load_subject m ref), d) \<and>
     sibyl_load_decision E P C ref d = (Inr (load_draft m ref), d) \<and>
     sibyl_load_finalization E P C ref d = (Inr (load_final m ref), d))"

lemma categories_differ [simp]: "subject_category \<noteq> decision_category" "subject_category \<noteq> finalization_category"
  "decision_category \<noteq> finalization_category" "decision_category \<noteq> subject_category"
  "finalization_category \<noteq> subject_category" "finalization_category \<noteq> decision_category"
  by (simp_all add: subject_category_def decision_category_def finalization_category_def)

context sibyl_memory
begin

lemma represents_fst: "represents E P C name d m \<longleftrightarrow> (\<forall>ref. name ref \<longrightarrow>
     fst (sibyl_load_subject E P C ref d) = Inr (load_subject m ref) \<and>
     fst (sibyl_load_decision E P C ref d) = Inr (load_draft m ref) \<and>
     fst (sibyl_load_finalization E P C ref d) = Inr (load_final m ref))"
  unfolding represents_def sibyl_load_subject_def sibyl_load_decision_def sibyl_load_finalization_def
  by (metis read_pure prod.collapse fst_conv)

lemma other_row:
  assumes "row_written C c k b d d'" "sibyl_key E w = Inr k" "name w" "name ref" "c' \<noteq> c \<or> ref \<noteq> w"
  shows "fst (sibyl_read C c' (sibyl_key E ref) decode d') = fst (sibyl_read C c' (sibyl_key E ref) decode d)"
proof -
  obtain k' where k': "sibyl_key E ref = Inr k'" using key_Inr by blast
  with assms(2-5) keys [of ref w] have "(c', k') \<noteq> (c, k)" by auto
  with read_unwritten [OF assms(1)] k' show ?thesis by simp
qed

lemma commit_written:
  assumes "sibyl_commit E P C previous s x d = (Inr u, d')" "sibyl_key E (sm_subject s) = Inr k"
  shows "row_written C subject_category k (body_of (subject_json E s)) d d'"
  using assms(1)
proof (rule commit_Inr)
  fix k' d1
  assume "sibyl_key E (sm_subject s) = Inr k'" and same: "\<And>c k. fst (sk_get C c k d1) = fst (sk_get C c k d)"
    and w: "sk_set C subject_category k' (body_of (subject_json E s)) ''active'' d1 = (Inr u, d')"
  with assms(2) set_written [OF w] show ?thesis by (simp add: row_written_def)
qed

lemma commit_represented:
  assumes r: "represents E P C name d m" and n: "name (sm_subject s)"
    and st: "\<forall>x \<in> set (sm_observations s). no_empty (so_text_hash x)"
    and c: "sibyl_commit E P C previous s x d = (Inr u, d')"
  shows "\<exists>m'. commit_observation m previous s = Inr m' \<and> represents E P C name d' m'"
proof -
  obtain k where k: "sibyl_key E (sm_subject s) = Inr k" using key_Inr by blast
  note w = commit_written [OF c k]
  from port have p: "memory_port (sibyl_load_subject E P C) (sibyl_commit E P C) name
    (\<lambda>s. \<forall>x \<in> set (sm_observations s). no_empty (so_text_hash x))" .
  from memory_port.commit_checks [OF p c] r n
  have v: "commit_observation m previous s = Inr (m\<lparr>mm_subjects := dset (sm_subject s) s (mm_subjects m)\<rparr>)"
    by (auto simp: commit_observation_def represents_fst)
  have own: "fst (sibyl_load_subject E P C (sm_subject s) d') = Inr (Some s)"
    by (rule memory_port.commit_load [OF p c st n])
  have "represents E P C name d' (m\<lparr>mm_subjects := dset (sm_subject s) s (mm_subjects m)\<rparr>)"
    using r own
    unfolding represents_fst sibyl_load_subject_def sibyl_load_decision_def sibyl_load_finalization_def
    by (auto simp: load_subject_def load_draft_def load_final_def other_row [OF w k n])
  with v show ?thesis by blast
qed

lemma decision_represented:
  assumes r: "represents E P C name d m" and n: "name (dd_id x)" and c: "sibyl_save_decision E C x d = (Inr u, d')"
  shows "represents E P C name d' (save_draft m x)"
proof -
  obtain k where k: "sibyl_key E (dd_id x) = Inr k" using key_Inr by blast
  note w = save_decision_written [OF c k]
  have "draft_from E P (body_of (draft_json E x)) = Inr x"
    by (rule draft_round_trip [OF times]) (simp add: body_of_def draft_json_def)
  from read_written [where decode = "draft_from E P", OF w this]
  have own: "fst (sibyl_read C decision_category (sibyl_key E (dd_id x)) (draft_from E P) d') = Inr (Some x)" by (simp add: k)
  show ?thesis
    using r own
    unfolding represents_fst sibyl_load_subject_def sibyl_load_decision_def sibyl_load_finalization_def
    by (auto simp: load_subject_def load_draft_def load_final_def save_draft_def other_row [OF w k n])
qed

lemma finalization_represented:
  assumes r: "represents E P C name d m" and n: "name (fz_decision x)" and c: "sibyl_save_finalization E C x d = (Inr u, d')"
    and st: "\<forall>v. fz_verification x = Some v \<longrightarrow> no_empty (av_tx v) \<and> no_empty (av_contract v)"
  shows "represents E P C name d' (save_final m x)"
proof -
  obtain k where k: "sibyl_key E (fz_decision x) = Inr k" using key_Inr by blast
  note w = save_finalization_written [OF c k]
  have "finalization_from P (body_of (finalization_json x)) = Inr x"
    by (rule finalization_round_trip [OF st]) (simp add: body_of_def finalization_json_def)
  from read_written [where decode = "finalization_from P", OF w this]
  have own: "fst (sibyl_read C finalization_category (sibyl_key E (fz_decision x)) (finalization_from P) d') = Inr (Some x)" by (simp add: k)
  show ?thesis
    using r own
    unfolding represents_fst sibyl_load_subject_def sibyl_load_decision_def sibyl_load_finalization_def
    by (auto simp: load_subject_def load_draft_def load_final_def save_final_def other_row [OF w k n])
qed

text \<open>What the dict refuses, the rows refuse with the same exception and unchanged.\<close>

lemma conflict_represented:
  assumes r: "represents E P C name d m" and n: "name (sm_subject s)" and e: "commit_observation m previous s = Inl e"
  shows "sibyl_commit E P C previous s x d = (Inl e, d)"
proof -
  from port have p: "memory_port (sibyl_load_subject E P C) (sibyl_commit E P C) name
    (\<lambda>s. \<forall>x \<in> set (sm_observations s). no_empty (so_text_hash x))" .
  from e have v: "(case load_subject m (sm_subject s) of None \<Rightarrow> 0 | Some c \<Rightarrow> sm_version c) \<noteq> previous"
    and "e = PyExc ''MemoryConflictError''" by (auto simp: commit_observation_def check_def Let_def split: if_splits)
  moreover from r n have "fst (sibyl_load_subject E P C (sm_subject s) d) = Inr (load_subject m (sm_subject s))"
    by (simp add: represents_fst)
  ultimately show ?thesis using memory_port.commit_conflict [OF p] by simp
qed

end

section \<open>An instance\<close>

definition no_rows :: sdk_rows where
  "no_rows = \<lparr>sr_rows = (\<lambda>_. None), sr_events = []\<rparr>"

lemma rows_save_run: "envelope E r = Inr b \<Longrightarrow> run_key E (ar_id r) = Inr k \<Longrightarrow> \<exists>d'. sibyl_save_run E rows_client r d = (Inr (), d')"
  by (simp add: sibyl_save_run_def translated_def recover_def sbind_def lift_def rows_client_def)

lemma no_rows_represent: "represents plain_env P rows_client (\<lambda>_. True) no_rows \<lparr>mm_subjects = [], mm_drafts = [], mm_finals = []\<rparr>"
  unfolding rows_memory.represents_fst
  by (auto simp: sibyl_load_subject_def sibyl_load_decision_def sibyl_load_finalization_def sibyl_read_def translated_def
      recover_def sbind_def lift_def rows_client_def no_rows_def load_subject_def load_draft_def load_final_def
      sibyl_key_def domain_hash_def canonical_json_def)

end
