(* ===== verification/Mg_Agent_Claims.thy ===== *)
theory Mg_Agent_Claims
  imports Mg_Agent_Example Mg_Agent_Actions Mg_Refine
begin

text \<open>
  The properties of the agent, of its ledger and of the production memory.
\<close>

section \<open>The agent\<close>

text \<open>C32: the verdict of the guard bounds what the agent does. Whatever the model asks for, and also
  when the run raises an exception after an action was taken, every action that a run adds to the
  store of safety actions names the draft that was decided, executes nothing, and is a review card
  only for a READY verdict and an escalation only for another verdict.\<close>

theorem agent_actions_follow_verdict:
  assumes "run_goal E A (memory_actions E) g R w = (out, w')" "map_of (wd_actions w') i = Some a"
  shows "map_of (wd_actions w) i = Some a \<or>
    (\<exists>m d. decide E (ag_guard A) (wd_memory w) (go_intent g) (mo_uuid R) (mo_nonce R) (mo_policy R) (mo_guard R) = Inr (m, d) \<and>
      jget a ''decision_id'' = JStr (dd_id d) \<and> jget a ''executable'' = JBool False \<and>
      (jget a ''kind'' = JStr ''non_executable_human_review_card'' \<and> dd_verdict d = V_Ready \<or>
       jget a ''kind'' = JStr ''operator_escalation_case'' \<and> dd_verdict d \<noteq> V_Ready \<or>
       jget a ''kind'' = JStr ''causal_evidence_brief''))"
  using run_actions [OF assms] unfolding receipt_for_def by blast

theorem agent_actions_follow_verdict_witness:
  "map_of (wd_actions world1) (''act_'' @ replicate 20 (CHR ''a'')) = Some action1 \<and>
   jget action1 ''kind'' = JStr ''operator_escalation_case'' \<and> jget action1 ''decision_id'' = JStr (dd_id draft2) \<and>
   dd_verdict draft2 \<noteq> V_Ready"
proof -
  have a: "map_of (wd_actions world1) (''act_'' @ replicate 20 (CHR ''a'')) = Some action1" by (simp add: world1_def)
  have k: "jget action1 ''kind'' = JStr ''operator_escalation_case''" by (simp add: action1_def jget_def)
  have "map_of (wd_actions start1) (''act_'' @ replicate 20 (CHR ''a'')) = None" by (simp add: start1_def)
  with agent_actions_follow_verdict [OF ran1 a] k decided2
  have "jget action1 ''decision_id'' = JStr (dd_id draft2) \<and> dd_verdict draft2 \<noteq> V_Ready"
    by (auto simp: start1_def goal1_def)
  with a k show ?thesis by blast
qed

text \<open>C33: the recorded runs stay valid. Running a goal keeps every recorded run valid and bound to its stored
  draft, with any safety action adapter and whatever it answers or raises, provided that the id drawn for the new draft
  is not in use. Resuming a run does so too, with one exception: planning an anchor for a run that already has an
  artifact of a verification may leave that run invalid; the memory and all other runs stay valid then as well.\<close>

theorem agent_world_stays_valid:
  assumes "world_ok E A w" "sha_hex E"
  shows "(\<forall>X g out w'. run_goal E A X g R w = (out, w') \<longrightarrow> load_draft (wd_memory w) (''dec_'' @ take 20 (mo_uuid R)) = None
      \<longrightarrow> world_ok E A w') \<and>
    (\<forall>s out w'. resume_run E A i s R w = (out, w') \<longrightarrow>
      others_ok E A i w' \<and>
      (world_ok E A w' \<or>
        (sg_kind s = ''prepare_anchor'' \<and> (\<exists>r. load_run i w = Some r \<and> verify_tool \<in> set (keys (ar_artifacts r))))))"
proof (intro conjI allI impI)
  fix X :: "'a actions_port" and g out w'
  assume "run_goal E A X g R w = (out, w')" "load_draft (wd_memory w) (''dec_'' @ take 20 (mo_uuid R)) = None"
  then show "world_ok E A w'" by (rule run_keeps_world [OF assms(1)])
next
  fix s out w'
  assume c: "resume_run E A i s R w = (out, w')"
  then show "others_ok E A i w'" by (rule resume_keeps_others [OF assms])
  show "world_ok E A w' \<or>
    (sg_kind s = ''prepare_anchor'' \<and> (\<exists>r. load_run i w = Some r \<and> verify_tool \<in> set (keys (ar_artifacts r))))"
    using resume_keeps_world [OF assms c] by blast
qed

theorem agent_world_stays_valid_witness: "world_ok M1 (A1 [review_tool]) world3"
proof -
  have "world_ok M1 (A1 [review_tool]) start1"
    by (simp add: world_ok_def start1_def memory_ok_def load_subject_def load_final_def load_run_def empty_memory_def)
  moreover have "load_draft (wd_memory start1) (''dec_'' @ take 20 (mo_uuid at_1)) = None"
    by (simp add: start1_def load_draft_def empty_memory_def)
  ultimately have w1: "world_ok M1 (A1 [review_tool]) world1"
    using agent_world_stays_valid [THEN conjunct1, OF _ sha_hex_M1] ran1 by blast
  have "verify_tool \<notin> set (keys (ar_artifacts run1))" by (simp add: run1_def tool_names)
  moreover have "load_run run_id1 world1 = Some run1" by (simp add: load_run_def world1_def)
  ultimately have w2: "world_ok M1 (A1 [review_tool]) world2"
    using agent_world_stays_valid [THEN conjunct2, rule_format, OF w1 sha_hex_M1 resumed1] by auto
  have "sg_kind report_tx \<noteq> ''prepare_anchor''" by (simp add: report_tx_def)
  with agent_world_stays_valid [THEN conjunct2, rule_format, OF w2 sha_hex_M1 resumed2] show ?thesis by blast
qed

text \<open>C34: a model that names a tool \<^verbatim>\<open>model.receipt\<close>, with or without the receipt a production plan has to come with
  (whose floats, if any, are finite, or it could not be hashed), makes every fresh run fail and no run is recorded: when the
  run is made, its trace has the suppressed name as an event, and it is the agent's own check that refuses it, after the
  safety actions were taken.\<close>

theorem receipt_tool_name_refused:
  assumes "load_run run_id w = None" "\<And>ctx allowed. ag_plan A ctx allowed = Inr p" "''model.receipt'' \<in> set (mp_tools p)"
    "\<And>rc. mp_receipt p = Some rc \<Longrightarrow> finite_floats (JObj rc)"
  shows "\<exists>e w'. run_claimed E A X g request run_id R w = (Inl e, w') \<and> wd_runs w' = wd_runs w \<and>
    (case made_run E A X g request run_id R w of
       (Inl e', w'') \<Rightarrow> e = e' \<and> w' = w''
     | (Inr r, w'') \<Rightarrow> w' = w'' \<and> validate_run E A r = Inl e \<and>
         (\<exists>x \<in> set (ar_trace r). te_tool x = ''model.receipt'' \<and> te_phase x = Suppressed))"
proof -
  have c: "run_claimed E A X g request run_id R w = fresh_run E A X g request run_id R w" by (simp add: run_claimed_def assms(1))
  obtain q w'' where m: "made_run E A X g request run_id R w = (q, w'')" by fastforce
  note runs = made_run_runs [OF m]
  show ?thesis
  proof (cases q)
    case (Inl e)
    with m runs show ?thesis by (auto simp: c fresh_made sbind_def)
  next
    case (Inr r)
    note t = made_run_receipt [OF m [unfolded Inr] assms(2-4)]
    then obtain e where "validate_run E A r = Inl e" using receipt_not_valid by blast
    with m runs Inr t show ?thesis by (auto simp: c fresh_made sbind_def lift_def)
  qed
qed

theorem receipt_tool_name_refused_witness:
  "mp_receipt plan2 \<noteq> None \<and> ag_production A2 \<and>
   (\<exists>r e w. made_run M1 A2 (memory_actions M1) goal1 hx run_id1 at_1 start1 = (Inr r, w) \<and> validate_run M1 A2 r = Inl e \<and>
     run_claimed M1 A2 (memory_actions M1) goal1 hx run_id1 at_1 start1 = (Inl e, w))"
proof -
  obtain r w where m: "made_run M1 A2 (memory_actions M1) goal1 hx run_id1 at_1 start1 = (Inr r, w)" using made2 by blast
  have "load_run run_id1 start1 = None" by (simp add: load_run_def start1_def)
  from receipt_tool_name_refused [OF this, of A2 plan2 M1 "memory_actions M1" goal1 hx at_1] m receipt2_finite
  have "\<exists>e. run_claimed M1 A2 (memory_actions M1) goal1 hx run_id1 at_1 start1 = (Inl e, w) \<and> validate_run M1 A2 r = Inl e" by auto
  with m show ?thesis by (auto simp: A2_def)
qed

text \<open>C35: planning an anchor after a verification whose state differs stores a run that no longer
  passes the check, so that every later inspection and resumption of it is refused.\<close>

theorem plan_after_verification_refused:
  assumes "resume_run E A i s R w = (Inr r', w')" "sg_kind s = ''prepare_anchor''" "load_run i w = Some r" "ar_id r = i"
    "jget (ar_artifacts r) verify_tool = JObj a" "a \<noteq> []" "jget a ''state'' \<noteq> JStr (anchor_str (ar_anchor r'))"
  shows "load_run i w' = Some r' \<and> (\<exists>e. inspect_run E A i w' = (Inl e, w') \<and> resume_run E A i s' R' w' = (Inl e, w'))"
proof -
  from prepare_after_verify [OF assms] have "load_run i w' = Some r'" and "validate_run E A r' \<noteq> Inr ()" by auto
  then show ?thesis by (cases "validate_run E A r'") (auto simp: inspect_run_def resume_run_def sbind_def lift_def)
qed

theorem plan_after_verification_refused_witness:
  "\<exists>r w e. resume_run M1 (A1 [review_tool]) run_id1 ask_plan at_1 world3 = (Inr r, w) \<and>
    inspect_run M1 (A1 [review_tool]) run_id1 w = (Inl e, w)"
proof -
  from resumed3 obtain r w where r: "resume_run M1 (A1 [review_tool]) run_id1 ask_plan at_1 world3 = (Inr r, w)"
    "ar_anchor r = ConfirmationRequired" by blast
  have l: "load_run run_id1 world3 = Some run3" by (simp add: load_run_def world3_def)
  obtain a where a: "jget (ar_artifacts run3) verify_tool = JObj a" "a \<noteq> []" "jget a ''state'' = JStr ''failed''"
    by (simp add: run3_def run2_def jget_def finalization_json_def failed_final_def verified_final_def failed1_def Let_def tool_names)
  have "ar_id run3 = run_id1" by (simp add: run3_def run2_def)
  from plan_after_verification_refused [OF r(1) _ l this a(1,2)] a(3) r show ?thesis by (auto simp: ask_plan_def)
qed

section \<open>The production adapters\<close>

text \<open>C36: over a client of the memory SDK that finds a row under the key it was set under, a run is
  read back from the Sibyl ledger exactly as it was saved, its trace, artifacts and decision included.\<close>

theorem ledger_round_trip:
  assumes "sdk_client C" "times_round_trip E" "\<forall>x \<in> set (ar_trace r). no_empty (te_output x)"
    "sibyl_save_run E C r d = (Inr u, d')"
  shows "sibyl_load_run E P C (ar_id r) d' = (Inr (Some r), d')"
  by (rule sdk_client.run_saved [OF assms])

theorem ledger_round_trip_witness:
  "\<exists>d. sibyl_save_run plain_env rows_client run1 no_rows = (Inr (), d) \<and>
    sibyl_load_run plain_env B1 rows_client run_id1 d = (Inr (Some run1), d)"
proof -
  have f: "finite_floats (run_json plain_env run1)"
    by (simp add: run_json_def run1_def draft_json_def payment_json_def draft2_def payment_def trace1_def ev_def event_json_def
        jopt_def action1_def)
  obtain b where b: "envelope plain_env run1 = Inr b"
    using domain_hash_total [OF f, of plain_env "''agent-run-ledger''"] by (auto simp: envelope_def)
  obtain k where k: "run_key plain_env (ar_id run1) = Inr k" by (auto simp: run_key_def domain_hash_def canonical_json_def)
  obtain d where d: "sibyl_save_run plain_env rows_client run1 no_rows = (Inr (), d)"
    using rows_save_run [OF b k] by blast
  have "\<forall>x \<in> set (ar_trace run1). no_empty (te_output x)"
    by (simp add: run1_def trace1_def ev_def no_empty_def)
  from ledger_round_trip [OF rows_client.sdk_client_axioms plain_times this d, of B1] d show ?thesis
    by (auto simp: run1_def)
qed

text \<open>C37: the production memory refines the memory in a dict. When the rows of the client represent
  a memory, every operation of the Sibyl adapter that returns leaves rows that represent the result
  of the same operation of the in-memory adapter, a commit in particular only succeeds when that one
  does; and a commit against another version is refused with the same exception and changes nothing.\<close>

theorem sibyl_refines_memory:
  assumes "sdk_client C" "times_round_trip E" "\<And>a b. name a \<Longrightarrow> name b \<Longrightarrow> sibyl_key E a = sibyl_key E b \<Longrightarrow> a = b"
    and r: "represents E P C name d m"
  shows "(\<forall>previous s x d'. name (sm_subject s) \<longrightarrow> (\<forall>y \<in> set (sm_observations s). no_empty (so_text_hash y)) \<longrightarrow>
        sibyl_commit E P C previous s x d = (Inr (), d') \<longrightarrow>
        (\<exists>m'. commit_observation m previous s = Inr m' \<and> represents E P C name d' m')) \<and>
    (\<forall>previous s x e. name (sm_subject s) \<longrightarrow> commit_observation m previous s = Inl e \<longrightarrow>
        sibyl_commit E P C previous s x d = (Inl e, d)) \<and>
    (\<forall>x d'. name (dd_id x) \<longrightarrow> sibyl_save_decision E C x d = (Inr (), d') \<longrightarrow> represents E P C name d' (save_draft m x)) \<and>
    (\<forall>x d'. name (fz_decision x) \<longrightarrow> (\<forall>v. fz_verification x = Some v \<longrightarrow> no_empty (av_tx v) \<and> no_empty (av_contract v)) \<longrightarrow>
        sibyl_save_finalization E C x d = (Inr (), d') \<longrightarrow> represents E P C name d' (save_final m x))"
proof -
  have l: "sibyl_memory C E name"
    by (intro sibyl_memory.intro sibyl_memory_axioms.intro) (use assms in auto)
  show ?thesis
    using sibyl_memory.commit_represented [OF l r] sibyl_memory.conflict_represented [OF l r]
      sibyl_memory.decision_represented [OF l r] sibyl_memory.finalization_represented [OF l r]
    by blast
qed

theorem sibyl_refines_memory_witness:
  "\<exists>d m. sibyl_commit plain_env B1 rows_client 0 (empty_subject ''s'' 0) stored1 no_rows = (Inr (), d) \<and>
    represents plain_env B1 rows_client (\<lambda>_. True) d m \<and> load_subject m ''s'' = Some (empty_subject ''s'' 0)"
proof -
  let ?m = "\<lparr>mm_subjects = [], mm_drafts = [], mm_finals = []\<rparr>"
  obtain d where d: "sibyl_commit plain_env B1 rows_client 0 (empty_subject ''s'' 0) stored1 no_rows = (Inr (), d)"
    by (simp add: sibyl_commit_def sibyl_load_subject_def sibyl_read_def translated_def recover_def sbind_def lift_def rows_client_def
        no_rows_def empty_subject_def sibyl_key_def domain_hash_def canonical_json_def Let_def)
  obtain m where m: "commit_observation ?m 0 (empty_subject ''s'' 0) = Inr m" "load_subject m ''s'' = Some (empty_subject ''s'' 0)"
    by (simp add: commit_observation_def load_subject_def empty_subject_def)
  have obs: "\<forall>y \<in> set (sm_observations (empty_subject ''s'' 0)). no_empty (so_text_hash y)" by (simp add: empty_subject_def)
  from sibyl_refines_memory [OF rows_client.sdk_client_axioms plain_times _ no_rows_represent, of B1] plain_keys obs d
  obtain m' where "commit_observation ?m 0 (empty_subject ''s'' 0) = Inr m'" "represents plain_env B1 rows_client (\<lambda>_. True) d m'"
    by blast
  with m d show ?thesis by auto
qed

end
