(* ===== verification/Mg_Anchor.thy ===== *)
theory Mg_Anchor
  imports Mg_Facts Cw_Anchor
begin

text \<open>
  The anchor adapters of the guard (\<^verbatim>\<open>src/src/proofops_memoryguard/adapters/base_anchor.py\<close>): the
  disabled one, and the one that plans a transaction of the proof root and checks its receipt
  against the answers of a Base RPC node.
\<close>

section \<open>Bytes\<close>

text \<open>\<^verbatim>\<open>bytes.fromhex\<close>: pairs of digits, blanks between them.\<close>

definition byte_blank :: "char \<Rightarrow> bool" where
  "byte_blank c \<longleftrightarrow> c = CHR '' '' \<or> (9 \<le> (of_char c :: nat) \<and> of_char c \<le> (13 :: nat))"

fun from_hex :: "string \<Rightarrow> string res" where
  "from_hex [] = Inr []"
| "from_hex [c] = (if byte_blank c then Inr [] else Inl (PyExc ''ValueError''))"
| "from_hex (c # d # s) =
     (if byte_blank c then from_hex (d # s)
      else if is_hex c \<and> is_hex d then ebind (from_hex s) (\<lambda>b. Inr (char_of (16 * hex_val c + hex_val d) # b))
      else Inl (PyExc ''ValueError''))"


section \<open>The adapter\<close>

record chain_adapter =
  ca_chain :: int
  ca_network :: string
  ca_contract :: string

definition make_adapter :: "env \<Rightarrow> int \<Rightarrow> string \<Rightarrow> string \<Rightarrow> chain_adapter res" where
  "make_adapter E chain network contract =
     ebind (check (chain \<in> {8453, 84532}) (PyExc ''ValueError'')) (\<lambda>_.
     ebind (check (valid_address contract) (PyExc ''ValueError'')) (\<lambda>_.
     Inr \<lparr>ca_chain = chain, ca_network = network, ca_contract = uni_lower E contract\<rparr>))"

definition disabled_verification :: anchor_verification where
  "disabled_verification = \<lparr>av_state = Failed, av_tx = None, av_chain = None, av_contract = None, av_block = None,
     av_reasons = [''base_anchor_not_configured'']\<rparr>"

definition selector :: "(string \<Rightarrow> string) \<Rightarrow> string \<Rightarrow> string" where
  "selector keccak signature = bytes_hex (take 4 (keccak signature))"

definition adapter_plan :: "(string \<Rightarrow> string) \<Rightarrow> chain_adapter \<Rightarrow> draft \<Rightarrow> anchor_plan res" where
  "adapter_plan keccak A d =
     ebind (check (pi_chain (dd_intent d) = ca_chain A) final_error) (\<lambda>_.
     ebind (from_hex (dd_proof d)) (\<lambda>b.
     ebind (check (0 \<le> dd_version d \<and> dd_version d < 2 ^ 256) (PyExc ''OverflowError'')) (\<lambda>_.
     Inr \<lparr>ap_chain = ca_chain A, ap_network = ca_network A, ap_contract = ca_contract A, ap_to = ca_contract A,
          ap_data = ''0x'' @ selector keccak ''anchor(bytes32,uint64)'' @ bytes_hex b @ hex_word (nat (dd_version d)),
          ap_value = ''0x0'', ap_proof = dd_proof d\<rparr>)))"

section \<open>The node\<close>

text \<open>Beside the answers: the text of an exception of the libraries, \<^verbatim>\<open>str(exc) or type(exc).__name__\<close>.\<close>

record node =
  nd_out :: outside
  nd_text :: "err \<Rightarrow> string"

text \<open>An exception is kept as its text; those of the libraries get it from \<open>nd_text\<close>.\<close>

type_synonym 'a said = "string + 'a"

definition told :: "node \<Rightarrow> 'a res \<Rightarrow> 'a said" where
  "told U m = (case m of Inl e \<Rightarrow> Inl (nd_text U e) | Inr x \<Rightarrow> Inr x)"

definition adapter_rpc :: "node \<Rightarrow> nat \<Rightarrow> string \<Rightarrow> json list \<Rightarrow> json said" where
  "adapter_rpc U n verb args =
     ebind (told U (ebind (ou_answer (nd_out U) n verb args) has_get)) (\<lambda>body.
     if truthy (jget body ''error'') then
       ebind (told U (has_get (jget body ''error''))) (\<lambda>e.
       let m = (case jget_or e ''message'' (JStr ''Base RPC error'') of JStr s \<Rightarrow> s | v \<Rightarrow> ou_shown (nd_out U) v) in
       Inl (if m = [] then ''RuntimeError'' else m))
     else Inr (jget body ''result''))"

definition shown :: "outside \<Rightarrow> json \<Rightarrow> string" where
  "shown U v = (case v of JStr s \<Rightarrow> s | _ \<Rightarrow> ou_shown U v)"

section \<open>The event\<close>

definition event_topic :: "(string \<Rightarrow> string) \<Rightarrow> string" where
  "event_topic keccak = ''0x'' @ bytes_hex (keccak ''MemoryProofAnchored(bytes32,address,uint64,uint64)'')"

definition last_points :: "nat \<Rightarrow> string \<Rightarrow> string" where
  "last_points n s = concat (drop (length (code_points s) - n) (code_points s))"

text \<open>The address at the end of the third topic.\<close>

definition event_attester :: "env \<Rightarrow> outside \<Rightarrow> json \<Rightarrow> string" where
  "event_attester E U topic =
     (let s = shown U topic; t = (if take 2 s = ''0x'' then drop 2 s else s) in uni_lower E (''0x'' @ last_points 40 t))"

text \<open>\<^verbatim>\<open>len(topics)\<close> and its first three elements; a dictionary has no element \<^verbatim>\<open>2\<close>.\<close>

definition three_topics :: "json \<Rightarrow> (json \<times> json \<times> json) option res" where
  "three_topics v = ebind (elements v) (\<lambda>xs. case xs of
     a # b # c # _ \<Rightarrow> (case v of JObj _ \<Rightarrow> Inl (PyExc ''KeyError'') | _ \<Rightarrow> Inr (Some (a, b, c)))
   | _ \<Rightarrow> Inr None)"

definition event_matches :: "env \<Rightarrow> (string \<Rightarrow> string) \<Rightarrow> chain_adapter \<Rightarrow> outside \<Rightarrow> draft \<Rightarrow> string \<Rightarrow> json \<Rightarrow> bool res" where
  "event_matches E keccak A U d from_address entry =
     ebind (has_get entry) (\<lambda>l.
     let data = shown U (jget_or l ''data'' (JStr [])) in
     if take 2 data \<noteq> ''0x'' \<or> length (code_points data) < 66 then Inr False else
     ebind (three_topics (jget_or l ''topics'' (JList []))) (\<lambda>topics. case topics of
       None \<Rightarrow> Inr False
     | Some (a, b, c) \<Rightarrow>
         (case int16 U (JStr (concat (take 64 (drop 2 (code_points data))))) of
            Inl e \<Rightarrow> (if e = PyExc ''ValueError'' then Inr False else Inl e)
          | Inr version \<Rightarrow>
              Inr (lowered E U (jget_or l ''address'' (JStr [])) = ca_contract A \<and>
                uni_lower E (shown U a) = uni_lower E (event_topic keccak) \<and>
                uni_lower E (shown U b) = uni_lower E (''0x'' @ dd_proof d) \<and>
                event_attester E U c = from_address \<and> version = dd_version d))))"

text \<open>\<^verbatim>\<open>any\<close> stops at the first match.\<close>

fun any_matches :: "('a \<Rightarrow> bool res) \<Rightarrow> 'a list \<Rightarrow> bool res" where
  "any_matches p [] = Inr False"
| "any_matches p (x # xs) = ebind (p x) (\<lambda>b. if b then Inr True else any_matches p xs)"

section \<open>The verification\<close>

definition told_verification :: "chain_adapter \<Rightarrow> string \<Rightarrow> anchor_state \<Rightarrow> int option \<Rightarrow> string \<Rightarrow> anchor_verification" where
  "told_verification A tx st block reason = \<lparr>av_state = st, av_tx = Some tx, av_chain = Some (ca_chain A),
     av_contract = Some (ca_contract A), av_block = block, av_reasons = [reason]\<rparr>"

definition receipt_check :: "env \<Rightarrow> (string \<Rightarrow> string) \<Rightarrow> chain_adapter \<Rightarrow> node \<Rightarrow> draft \<Rightarrow> jobj \<Rightarrow> int said" where
  "receipt_check E keccak A U d r =
     ebind (check (lowered E (nd_out U) (jget_or r ''status'' (JStr ''0x0'')) = ''0x1'') ''transaction_reverted'') (\<lambda>_.
     ebind (check (lowered E (nd_out U) (jget_or r ''to'' (JStr [])) = ca_contract A) ''receipt_contract_mismatch'') (\<lambda>_.
     let sender = lowered E (nd_out U) (jget_or r ''from'' (JStr [])) in
     ebind (check (valid_address sender) ''receipt_sender_missing_or_invalid'') (\<lambda>_.
     ebind (told U (ebind (elements (jget_or r ''logs'' (JList []))) (any_matches (event_matches E keccak A (nd_out U) d sender)))) (\<lambda>found.
     ebind (check found ''matching_root_version_and_attester_event_not_found'') (\<lambda>_.
     told U (ebind (jfield r ''blockNumber'') (\<lambda>n. int16 (nd_out U) (JStr (shown (nd_out U) n)))))))))"

definition adapter_verify :: "env \<Rightarrow> (string \<Rightarrow> string) \<Rightarrow> chain_adapter \<Rightarrow> node \<Rightarrow> draft \<Rightarrow> string \<Rightarrow> anchor_verification" where
  "adapter_verify E keccak A U d tx =
     (if pi_chain (dd_intent d) \<noteq> ca_chain A then told_verification A tx Failed None ''decision_chain_does_not_match_anchor_chain''
      else if \<not> tx_hash_text tx then told_verification A tx Failed None ''invalid_transaction_hash''
      else
        (case ebind (ebind (adapter_rpc U 0 ''eth_chainId'' []) (\<lambda>v. told U (int16 (nd_out U) (JStr (shown (nd_out U) v))))) (\<lambda>chain.
              ebind (check (chain = ca_chain A) ''rpc_chain_mismatch'') (\<lambda>_.
              ebind (adapter_rpc U 1 ''eth_getTransactionReceipt'' [JStr tx]) (\<lambda>receipt.
              if receipt = JNull then Inr None else
              ebind (told U (has_get receipt)) (\<lambda>r.
              ebind (receipt_check E keccak A U d r) (\<lambda>block. Inr (Some block)))))) of
           Inl reason \<Rightarrow> told_verification A tx Failed None reason
         | Inr None \<Rightarrow> told_verification A tx Pending None ''receipt_not_yet_available''
         | Inr (Some block) \<Rightarrow>
             told_verification A tx Verified (Some block) ''base_receipt_root_memory_version_and_attester_verified''))"

section \<open>What a verification says\<close>

lemma any_matches_True: "any_matches p xs = Inr True \<Longrightarrow> \<exists>x \<in> set xs. p x = Inr True"
  by (induction xs) (auto split: if_splits)

lemma told_Inr [simp]: "told U m = Inr x \<longleftrightarrow> m = Inr x"
  by (auto simp: told_def split: sum.splits)

text \<open>What the node said of a transaction that is verified for a draft.\<close>

definition chain_attests :: "env \<Rightarrow> (string \<Rightarrow> string) \<Rightarrow> chain_adapter \<Rightarrow> node \<Rightarrow> draft \<Rightarrow> string \<Rightarrow> bool" where
  "chain_attests E keccak A U d tx \<longleftrightarrow> pi_chain (dd_intent d) = ca_chain A \<and> tx_hash_text tx \<and>
    (\<exists>r logs entry sender. adapter_rpc U 1 ''eth_getTransactionReceipt'' [JStr tx] = Inr (JObj r) \<and>
      lowered E (nd_out U) (jget_or r ''status'' (JStr ''0x0'')) = ''0x1'' \<and>
      lowered E (nd_out U) (jget_or r ''to'' (JStr [])) = ca_contract A \<and>
      sender = lowered E (nd_out U) (jget_or r ''from'' (JStr [])) \<and> valid_address sender \<and>
      elements (jget_or r ''logs'' (JList [])) = Inr logs \<and> entry \<in> set logs \<and>
      event_matches E keccak A (nd_out U) d sender entry = Inr True)"

lemma adapter_verify_verified:
  assumes "av_state (adapter_verify E keccak A U d tx) = Verified"
  shows "chain_attests E keccak A U d tx"
proof -
  from assms obtain r block where c: "pi_chain (dd_intent d) = ca_chain A" "tx_hash_text tx"
    "adapter_rpc U 1 ''eth_getTransactionReceipt'' [JStr tx] = Inr (JObj r)" and k: "receipt_check E keccak A U d r = Inr block"
    by (auto simp: adapter_verify_def told_verification_def ebind_eq_Inr split: if_splits sum.splits option.splits)
  from k obtain logs where "elements (jget_or r ''logs'' (JList [])) = Inr logs"
    "any_matches (event_matches E keccak A (nd_out U) d (lowered E (nd_out U) (jget_or r ''from'' (JStr [])))) logs = Inr True"
    "lowered E (nd_out U) (jget_or r ''status'' (JStr ''0x0'')) = ''0x1''"
    "lowered E (nd_out U) (jget_or r ''to'' (JStr [])) = ca_contract A" "valid_address (lowered E (nd_out U) (jget_or r ''from'' (JStr [])))"
    unfolding receipt_check_def Let_def by (auto split: if_splits)
  with any_matches_True c show ?thesis unfolding chain_attests_def by blast
qed

text \<open>An event that matches carries the proof root and the version of the draft.\<close>

lemma event_matches_binds:
  assumes "event_matches E keccak A U d sender entry = Inr True"
  shows "\<exists>l a b c data. entry = JObj l \<and> three_topics (jget_or l ''topics'' (JList [])) = Inr (Some (a, b, c)) \<and>
    lowered E U (jget_or l ''address'' (JStr [])) = ca_contract A \<and> uni_lower E (shown U b) = uni_lower E (''0x'' @ dd_proof d) \<and>
    event_attester E U c = sender \<and> int16 U (JStr data) = Inr (dd_version d)"
  using assms unfolding event_matches_def
  by (auto simp: Let_def split: if_splits option.splits sum.splits prod.splits) blast+

section \<open>The anchor port of the guard\<close>

text \<open>
  What the guard relies on: a plan carries the proof root of the draft, and a transaction is only
  called verified when it attests the draft.
\<close>

locale anchor_port =
  fixes plan :: "draft \<Rightarrow> anchor_plan option res"
    and verify :: "draft \<Rightarrow> string \<Rightarrow> anchor_verification res"
    and attested :: "draft \<Rightarrow> string \<Rightarrow> bool"
  assumes plan_proof: "plan d = Inr (Some p) \<Longrightarrow> ap_proof p = dd_proof d"
    and verify_attested: "verify d h = Inr v \<Longrightarrow> av_state v = Verified \<Longrightarrow> attested d h"
begin

lemma new_final_port:
  assumes "new_final (G\<lparr>gd_plan := plan, gd_verify := verify\<rparr>) m d tx = Inr (m', f)"
  shows "fz_proof f = dd_proof d" "\<And>p. fz_plan f = Some p \<Longrightarrow> ap_proof p = dd_proof d"
    "fz_state f = Verified \<Longrightarrow> \<exists>h. tx = Some h \<and> attested d h"
  using assms plan_proof verify_attested
  by (auto simp: new_final_def verified_final_def plain_final_def Let_def split: option.splits if_splits bool.splits prod.splits)

lemma final_attested:
  assumes "finalize E (G\<lparr>gd_plan := plan, gd_verify := verify\<rparr>) m i tx now = Inr (m', f)" "fz_state f = Verified"
    "load_final m i \<noteq> Some f"
  shows "\<exists>d h. load_draft m i = Some d \<and> tx = Some h \<and> attested d h \<and> fz_proof f = dd_proof d"
  using assms(1)
proof (rule finalize_Inr)
  fix d
  assume "loaded_draft E m i = Inr d" and n: "m' = m \<and> load_final m i = Some f \<or>
    new_final (G\<lparr>gd_plan := plan, gd_verify := verify\<rparr>) m d tx = Inr (m', f)"
  moreover from this(1) have "load_draft m i = Some d" by (auto simp: loaded_draft_def split: option.splits)
  ultimately show ?thesis using new_final_port [of G m d tx m' f] assms(2,3) by blast
qed

end

definition port_plan :: "(string \<Rightarrow> string) \<Rightarrow> chain_adapter \<Rightarrow> draft \<Rightarrow> anchor_plan option res" where
  "port_plan keccak A d = ebind (adapter_plan keccak A d) (\<lambda>p. Inr (Some p))"

interpretation disabled_anchor: anchor_port "\<lambda>_. Inr None" "\<lambda>_ _. Inr disabled_verification" "\<lambda>_ _. False"
  by unfold_locales (auto simp: disabled_verification_def)

interpretation base_port: anchor_port "port_plan keccak A" "\<lambda>d h. Inr (adapter_verify E keccak A U d h)" "chain_attests E keccak A U"
  for keccak A E U
  by unfold_locales (auto simp: port_plan_def adapter_plan_def adapter_verify_verified split: if_splits)

section \<open>The two plans agree\<close>

lemma hexlow_char: "is_hexlow c \<Longrightarrow> hex_val c < 16 \<and> hex_char (hex_val c) = c \<and> is_hex c \<and> \<not> byte_blank c"
  by (auto simp: is_hexlow_def is_hex_def is_digit_def hex_val_def hex_char_def byte_blank_def less_eq_char_def)

lemma from_hex_low: "even (length s) \<Longrightarrow> list_all is_hexlow s \<Longrightarrow> \<exists>b. from_hex s = Inr b \<and> bytes_hex b = s"
proof (induction s rule: from_hex.induct)
  case (3 c d s)
  from 3(4) have c: "hex_val c < 16" "hex_char (hex_val c) = c" "is_hex c" "\<not> byte_blank c"
    and d: "hex_val d < 16" "hex_char (hex_val d) = d" "is_hex d" using hexlow_char by auto
  from 3(2) [OF c(4)] c(3) d(3) 3(3,4) obtain b where b: "from_hex s = Inr b" "bytes_hex b = s" by auto
  have "16 * hex_val c + hex_val d < 256" using c d by linarith
  with b c d show ?case by (simp add: bytes_hex_def of_char_of)
qed (simp_all add: bytes_hex_def)

text \<open>Both versions of the program anchor a proof root by the same calldata.\<close>

lemma plans_agree:
  assumes "valid_digest (dd_proof d)" "1 \<le> dd_version d" "dd_version d < 2 ^ 64" "pi_chain (dd_intent d) = ca_chain A"
    "an_selector B = selector keccak ''anchor(bytes32,uint64)''"
  shows "\<exists>p. adapter_plan keccak A d = Inr p \<and> ap_data p = calldata B (dd_proof d) (dd_version d)"
proof -
  from assms(1) have "even (length (dd_proof d))" "list_all is_hexlow (dd_proof d)" by (auto simp: valid_digest_def)
  from from_hex_low [OF this] obtain b where b: "from_hex (dd_proof d) = Inr b" "bytes_hex b = dd_proof d" by blast
  have "(2 :: int) ^ 64 < 2 ^ 256" by simp
  with assms(2,3) have "0 \<le> dd_version d" "dd_version d < 2 ^ 256" by linarith+
  with b assms(4,5) show ?thesis by (simp add: adapter_plan_def calldata_def)
qed

end
