(* ===== verification/Anchor_Claims.thy ===== *)
theory Anchor_Claims
  imports Cw_Example Mg_Example Mg_Anchor
begin

text \<open>
  The properties of the anchors: of casework, and of the guard with its chain adapter; and an
  instance of each, a node that knows one transaction.
\<close>

section \<open>An instance\<close>

definition root1 :: string where "root1 = replicate 64 (CHR ''a'')"
definition tx1 :: string where "tx1 = ''0x'' @ replicate 64 (CHR ''b'')"
definition block1 :: string where "block1 = ''0x'' @ replicate 64 (CHR ''c'')"
definition zeros :: "string \<Rightarrow> string" where "zeros _ = replicate 32 (CHR 0x00)"
definition topic1 :: string where "topic1 = ''0x'' @ bytes_hex (zeros [])"

definition anchor1 :: base_anchor where
  "anchor1 = \<lparr>an_chain = 8453, an_contract = address, an_attester = address, an_confirmations = 2, an_injected = True,
     an_selector = ''00000000'', an_topic = topic1\<rparr>"

definition entry1 :: "string \<Rightarrow> json" where
  "entry1 proof = JObj [(''address'', JStr address), (''topics'', JList [JStr topic1, JStr (''0x'' @ proof), JStr (attester_topic anchor1)]),
     (''data'', JStr (''0x'' @ hex_word 1 @ hex_word 0))]"

definition receipt1 :: "string \<Rightarrow> jobj" where
  "receipt1 proof = [(''transactionHash'', JStr tx1), (''status'', JStr ''0x1''), (''to'', JStr address), (''from'', JStr address),
     (''blockNumber'', JStr (hex_word 1)), (''blockHash'', JStr block1), (''logs'', JList [entry1 proof])]"

definition transaction1 :: jobj where
  "transaction1 = [(''hash'', JStr tx1), (''blockNumber'', JStr (hex_word 1)), (''blockHash'', JStr block1), (''to'', JStr address),
     (''from'', JStr address), (''input'', JStr (calldata anchor1 root1 1)), (''value'', JStr (hex_word 0))]"

definition node1 :: outside where
  "node1 = \<lparr>ou_answer = (\<lambda>n verb args. Inr (if n = 0 then JStr (hex_word 8453) else if n = 1 then JObj (receipt1 root1)
       else if n = 2 then JObj transaction1
       else if n = 3 then JObj [(''hash'', JStr block1), (''number'', JStr (hex_word 1))] else JStr (hex_word 2))),
     ou_odd_int = (\<lambda>_. Inr 0), ou_shown = (\<lambda>_. []), ou_now = 5\<rparr>"

lemma low1: "uni_lower E0 s = s" by (simp add: E0_def)

lemma node1_rpc: "rpc anchor1 node1 n verb args = Inr (if n = 0 then JStr (hex_word 8453) else if n = 1 then JObj (receipt1 root1)
    else if n = 2 then JObj transaction1
    else if n = 3 then JObj [(''hash'', JStr block1), (''number'', JStr (hex_word 1))] else JStr (hex_word 2))"
  by (simp add: rpc_def anchor1_def node1_def)

lemma hash_texts: "tx_hash_text tx1" "tx_hash_text block1" "valid_digest root1" "root1 \<noteq> replicate 64 (CHR ''0'')"
  by (simp_all add: tx_hash_text_def tx1_def block1_def valid_digest_def root1_def is_hex_def is_hexlow_def list_all_iff)

lemma lengths: "length (hex_word 1) = 64" "length (hex_word 0) = 64"
  by (simp_all add: length_hex_word)

lemma plan1_ok: "base_plan anchor1 (JStr root1) (JInt 1) (JInt 8453) = Inr (plan_body anchor1 root1 1)"
  using hash_texts by (simp add: base_plan_def anchor1_def)

lemma entry1_matches: "log_matches E0 anchor1 node1 root1 1 (entry1 root1) = Inr True"
proof -
  have "word_pair (JStr (''0x'' @ hex_word 1 @ hex_word 0)) = Some (''0x'' @ hex_word 1 @ hex_word 0)"
    using lengths hex_word_text by (simp add: word_pair_def)
  moreover have "unhex_word (take 64 (drop 2 (''0x'' @ hex_word 1 @ hex_word 0))) = 1" using lengths by simp
  ultimately show ?thesis
    by (simp add: log_matches_def entry1_def has_get_def jget_or_def elements_def lowered_def low1 anchor1_def)
qed

lemma chain1: "chain_check E0 anchor1 node1 (calldata anchor1 root1 1) root1 1 tx1 =
    Inr (verified_body E0 anchor1 tx1 root1 1 1 (JStr block1) 2 5)"
proof -
  have rb: "receipt_bound E0 anchor1 node1 tx1 (receipt1 root1)"
    by (simp add: receipt_bound_def receipt1_def lowered_def low1 jget_or_def jget_def anchor1_def)
  have tb: "transaction_bound E0 anchor1 node1 tx1 (calldata anchor1 root1 1) (receipt1 root1) transaction1"
    by (simp add: transaction_bound_def receipt1_def transaction1_def lowered_def low1 jget_or_def jget_def anchor1_def)
  have bc: "block_check E0 anchor1 node1 (receipt1 root1) = Inr (1, block1, 2)"
    using hash_texts by (simp add: block_check_def node1_rpc receipt1_def jfield_def lowered_def low1 jget_or_def as_text_def has_get_def)
  have logs: "elements (jget_or (receipt1 root1) ''logs'' (JList [])) = Inr [entry1 root1]"
    by (simp add: elements_def receipt1_def jget_or_def)
  have v: "jget_or transaction1 ''value'' (JStr ''0x1'') = JStr (hex_word 0)" by (simp add: jget_or_def transaction1_def)
  show ?thesis
    using rb tb bc entry1_matches
    by (simp add: chain_check_def node1_rpc has_get_def logs v) (simp add: anchor1_def node1_def)
qed

lemma verified1: "base_verify E0 anchor1 node1 (plan_body anchor1 root1 1) tx1 =
    Inr (verified_body E0 anchor1 tx1 root1 1 1 (JStr block1) 2 5)"
proof -
  have "jfield (plan_body anchor1 root1 1) ''proof_root'' = Inr (JStr root1)" "jfield (plan_body anchor1 root1 1) ''memory_version'' = Inr (JInt 1)"
    "jfield (plan_body anchor1 root1 1) ''chain_id'' = Inr (JInt 8453)" by (simp_all add: jfield_def plan_body_def anchor1_def)
  then show ?thesis using hash_texts chain1 by (simp add: base_verify_def plan1_ok)
qed

section \<open>The audit anchor of casework\<close>

text \<open>C38: what a verified anchor attests. A transaction is only called VERIFIED when the stored plan
  is the plan of its proof root and revision, and the node answered with a successful receipt from the
  attester to the contract, the transaction itself with exactly the planned calldata and no value, an
  event with the proof root and the revision, and a block it still has under that number, deep enough;
  and the calldata of another proof root or revision is another text.\<close>

theorem verified_anchor_is_bound:
  assumes "base_verify E B U plan tx = Inr d" "jget d ''state'' = JStr ''VERIFIED''"
  shows "\<exists>pr v seen. jfield plan ''proof_root'' = Inr (JStr pr) \<and> jfield plan ''memory_version'' = Inr (JInt v) \<and>
    py_eq (JObj (plan_body B pr v)) (JObj plan) \<and> valid_digest pr \<and> 1 \<le> v \<and> v < 2 ^ 64 \<and>
    anchored_on_chain E B U pr v tx seen \<and> jget d ''economic_action_authorized'' = JBool False \<and>
    (\<forall>pr' v'. valid_digest pr' \<and> 0 \<le> v' \<and> calldata B pr' v' = calldata B pr v \<longrightarrow> pr' = pr \<and> v' = v)"
proof -
  from base_verify_verified [OF assms] obtain pr v block h seen where
    *: "jfield plan ''proof_root'' = Inr (JStr pr)" "jfield plan ''memory_version'' = Inr (JInt v)"
    "py_eq (JObj (plan_body B pr v)) (JObj plan)" "valid_digest pr" "1 \<le> v" "v < 2 ^ 64" "anchored_on_chain E B U pr v tx seen"
    "d = verified_body E B tx pr v block h seen (ou_now U)" by blast
  have "pr' = pr \<and> v' = v" if "valid_digest pr'" "0 \<le> v'" "calldata B pr' v' = calldata B pr v" for pr' v'
    by (rule calldata_injective [OF that(3)]) (use that * in \<open>auto simp: valid_digest_def\<close>)
  moreover have "jget d ''economic_action_authorized'' = JBool False" by (simp add: *(8) verified_body_def jget_def)
  ultimately show ?thesis using * by blast
qed

theorem verified_anchor_is_bound_witness:
  "\<exists>d seen. base_verify E0 anchor1 node1 (plan_body anchor1 root1 1) tx1 = Inr d \<and> jget d ''state'' = JStr ''VERIFIED'' \<and>
    anchored_on_chain E0 anchor1 node1 root1 1 tx1 seen"
proof -
  have s: "jget (verified_body E0 anchor1 tx1 root1 1 1 (JStr block1) 2 5) ''state'' = JStr ''VERIFIED''"
    by (simp add: verified_body_def jget_def)
  from verified_anchor_is_bound [OF verified1 s] obtain seen where "anchored_on_chain E0 anchor1 node1 root1 1 tx1 seen"
    by (auto simp: jfield_def plan_body_def)
  with verified1 s show ?thesis by blast
qed

text \<open>C39: a recorded anchor only gains. Storing an answer of the node changes that one record: its plan
  stays, it is bound to the transaction asked for, it was not bound to another one before, and when it
  was verified it stays verified, whatever the node answers now; no payment is authorized.\<close>

theorem verified_anchor_is_kept:
  assumes "verify_change E i tx plan verified w seq = Inr (w', res)"
  shows "\<exists>art art'. map_of (ws_artifacts w) i = Some art \<and> map_of (ws_artifacts w') i = Some art' \<and>
    w' = w\<lparr>ws_artifacts := dset i art' (ws_artifacts w)\<rparr> \<and> jget art' ''plan'' = jget art ''plan'' \<and>
    jget art' ''bound_tx_hash'' = JStr tx \<and>
    (\<forall>s. jget art ''bound_tx_hash'' = JStr s \<and> s \<noteq> [] \<longrightarrow> uni_lower E s = tx) \<and>
    (jget (jsub art ''verification'') ''state'' = JStr ''VERIFIED'' \<longrightarrow> jget (jsub art' ''verification'') ''state'' = JStr ''VERIFIED'') \<and>
    jget res ''payment_authorized'' = JBool False"
  using assms
proof (rule verify_change_Inr)
  fix art old
  assume a: "map_of (ws_artifacts w) i = Some art" "tx_free E art tx = Inr ()" "jget_or art ''verification'' (JObj []) = JObj old"
    "w' = w\<lparr>ws_artifacts := dset i (recorded tx old verified art) (ws_artifacts w)\<rparr>" "jget res ''payment_authorized'' = JBool False"
  then have "jsub art ''verification'' = old"
    by (auto simp: jsub_def jget_or_def jget_def split: option.splits)
  moreover have "\<forall>s. jget art ''bound_tx_hash'' = JStr s \<and> s \<noteq> [] \<longrightarrow> uni_lower E s = tx"
    using a(2) by (auto simp: tx_free_def known_tx_def)
  ultimately show ?thesis using a
    by (intro exI [of _ art] exI [of _ "recorded tx old verified art"]) (auto simp: recorded_def Let_def jsub_def jget_def)
qed

definition kept_record :: jobj where
  "kept_record = (anchor_record ''anchor_u'' ''task_u'' ''decision_u'' (plan_body anchor1 root1 1)) @ [(''bound_tx_hash'', JStr tx1)]"

definition kept_world :: workspace where
  "kept_world = w9\<lparr>ws_artifacts := [(''anchor_u'', dset ''verification'' (JObj [(''state'', JStr ''VERIFIED''), (''tx_hash'', JStr tx1)]) kept_record)]\<rparr>"

theorem verified_anchor_is_kept_witness:
  "\<exists>w res art. verify_change E0 ''anchor_u'' tx1 (plan_body anchor1 root1 1) (pending tx1 []) kept_world 10 = Inr (w, res) \<and>
    map_of (ws_artifacts w) ''anchor_u'' = Some art \<and> jget (jsub art ''verification'') ''state'' = JStr ''VERIFIED''"
proof -
  let ?K = "dset ''verification'' (JObj [(''state'', JStr ''VERIFIED''), (''tx_hash'', JStr tx1)]) kept_record"
  have t: "map_of (ws_tasks kept_world) ''task_u'' = Some task4" "map_of (ws_decisions kept_world) ''decision_u'' = Some dec1"
    by (simp_all add: kept_world_def w9_def)
  have k: "map_of (ws_artifacts kept_world) ''anchor_u'' = Some ?K" by (simp add: kept_world_def)
  have p: "jfield ?K ''plan'' = Inr (JObj (plan_body anchor1 root1 1))"
    by (simp add: kept_record_def anchor_record_def jfield_def)
  have f: "tx_free E0 ?K tx1 = Inr ()"
    by (simp add: tx_free_def known_tx_def kept_record_def anchor_record_def jget_def low1 tx1_def)
  have o: "jget_or ?K ''verification'' (JObj []) = JObj [(''state'', JStr ''VERIFIED''), (''tx_hash'', JStr tx1)]"
    by (simp add: jget_or_def)
  have i: "jfield (recorded tx1 old (pending tx1 []) ?K) ''task_id'' = Inr (JStr ''task_u'')"
    "jfield (recorded tx1 old (pending tx1 []) ?K) ''decision_id'' = Inr (JStr ''decision_u'')" for old
    by (simp_all add: recorded_def Let_def kept_record_def anchor_record_def jfield_def)
  have n: "tk_decision task4 \<noteq> Some (dc_id dec1)" by (simp add: task4_def dec1_def)
  obtain w res where v: "verify_change E0 ''anchor_u'' tx1 (plan_body anchor1 root1 1) (pending tx1 []) kept_world 10 = Inr (w, res)"
    using t k p f o i n by (simp add: verify_change_def Let_def has_get_def field_of_def jstring_def)
  have "map_of (ws_artifacts kept_world) ''anchor_u'' = Some (dset ''verification'' (JObj [(''state'', JStr ''VERIFIED''), (''tx_hash'', JStr tx1)]) kept_record)"
    by (simp add: kept_world_def)
  moreover have "jget (jsub (dset ''verification'' (JObj [(''state'', JStr ''VERIFIED''), (''tx_hash'', JStr tx1)]) kept_record) ''verification'') ''state'' = JStr ''VERIFIED''"
    by (simp add: jsub_def jget_def)
  ultimately show ?thesis using verified_anchor_is_kept [OF v] v by auto
qed

end
