(* ===== verification/Mg_Rate.thy ===== *)
theory Mg_Rate
  imports Complex_Main Prelude
begin

text \<open>
  The rate limiter of the HTTP layer (\<^verbatim>\<open>src/src/proofops_memoryguard/rate_limit.py\<close>): per key the times
  of the admitted calls of the last window, for a bounded number of keys. Times are rationals; the
  rounding of float subtraction is not modelled. Then the traffic it admits.
\<close>

section \<open>The limiter\<close>

record limiter =
  rl_limit :: int
  rl_window :: rat
  rl_max :: int

type_synonym buckets = "rat list dict"

definition make_limiter :: "int \<Rightarrow> rat \<Rightarrow> int \<Rightarrow> limiter res" where
  "make_limiter limit window max_keys =
     ebind (check (\<not> (limit < 1 \<or> window \<le> 0 \<or> max_keys < 1)) (PyExc ''ValueError'')) (\<lambda>_.
     Inr \<lparr>rl_limit = limit, rl_window = window, rl_max = max_keys\<rparr>)"

definition last_of :: "rat list \<Rightarrow> rat res" where
  "last_of v = (if v = [] then Inl (PyExc ''IndexError'') else Inr (last v))"

text \<open>\<^verbatim>\<open>min(buckets, key=...)\<close>: the first key with the least last time.\<close>

fun oldest_from :: "string \<Rightarrow> rat \<Rightarrow> buckets \<Rightarrow> string res" where
  "oldest_from k t [] = Inr k"
| "oldest_from k t ((k', v) # b) = ebind (last_of v) (\<lambda>s. if s < t then oldest_from k' s b else oldest_from k t b)"

fun oldest :: "buckets \<Rightarrow> string res" where
  "oldest [] = Inl (PyExc ''ValueError'')"
| "oldest ((k, v) # b) = ebind (last_of v) (\<lambda>t. oldest_from k t b)"

definition live :: "rat \<Rightarrow> rat list \<Rightarrow> bool" where
  "live cutoff v \<longleftrightarrow> \<not> (v = [] \<or> last v \<le> cutoff)"

definition make_room :: "limiter \<Rightarrow> rat \<Rightarrow> string \<Rightarrow> buckets \<Rightarrow> buckets res" where
  "make_room L cutoff key b =
     (if int (length b) \<ge> rl_max L \<and> map_of b key = None then
        (let b1 = filter (\<lambda>(k, v). live cutoff v) b in
         if int (length b1) \<ge> rl_max L then ebind (oldest b1) (\<lambda>k. Inr (AList.delete k b1)) else Inr b1)
      else Inr b)"

text \<open>\<^verbatim>\<open>int(x)\<close> of a float truncates towards zero.\<close>

definition truncated :: "rat \<Rightarrow> int" where
  "truncated x = (if 0 \<le> x then \<lfloor>x\<rfloor> else \<lceil>x\<rceil>)"

definition bucket_of :: "buckets \<Rightarrow> string \<Rightarrow> rat list" where
  "bucket_of b k = (case map_of b k of None \<Rightarrow> [] | Some v \<Rightarrow> v)"

definition allow :: "limiter \<Rightarrow> rat \<Rightarrow> string \<Rightarrow> buckets \<Rightarrow> (buckets \<times> bool \<times> int) res" where
  "allow L now key b =
     (let cutoff = now - rl_window L in
      ebind (make_room L cutoff key b) (\<lambda>b1.
      let bucket = dropWhile (\<lambda>t. t \<le> cutoff) (bucket_of b1 key) in
      if int (length bucket) \<ge> rl_limit L then
        (case bucket of [] \<Rightarrow> Inl (PyExc ''IndexError'')
         | t # ts \<Rightarrow> Inr (dset key bucket b1, False, max 1 (truncated (rl_window L - (now - t)) + 1)))
      else Inr (dset key (bucket @ [now]) b1, True, 0)))"

section \<open>The buckets\<close>

definition configured :: "limiter \<Rightarrow> bool" where
  "configured L \<longleftrightarrow> 1 \<le> rl_limit L \<and> 0 < rl_window L \<and> 1 \<le> rl_max L"

lemma make_limiter_configured: "make_limiter l w m = Inr L \<Longrightarrow> configured L"
  by (auto simp: make_limiter_def configured_def split: if_splits)

definition buckets_ok :: "limiter \<Rightarrow> rat \<Rightarrow> buckets \<Rightarrow> bool" where
  "buckets_ok L now b \<longleftrightarrow> distinct (keys b) \<and> int (length b) \<le> rl_max L \<and>
     (\<forall>(k, v) \<in> set b. v \<noteq> [] \<and> sorted v \<and> int (length v) \<le> rl_limit L \<and> (\<forall>t \<in> set v. t \<le> now))"

lemma oldest_from_Inr: "(\<And>k v. (k, v) \<in> set b \<Longrightarrow> v \<noteq> []) \<Longrightarrow> \<exists>k'. oldest_from k t b = Inr k' \<and> k' \<in> insert k (set (keys b))"
proof (induction b arbitrary: k t)
  case (Cons p b)
  obtain k1 v where p: "p = (k1, v)" by (cases p)
  with Cons.prems have v: "last_of v = Inr (last v)" by (auto simp: last_of_def)
  have "\<exists>k'. oldest_from k t b = Inr k' \<and> k' \<in> insert k (set (keys b))" for k t
    by (rule Cons.IH) (use Cons.prems in auto)
  from this [of k1 "last v"] this [of k t] p v show ?case by (cases "last v < t") auto
qed simp

lemma oldest_Inr: "b \<noteq> [] \<Longrightarrow> (\<And>k v. (k, v) \<in> set b \<Longrightarrow> v \<noteq> []) \<Longrightarrow> \<exists>k'. oldest b = Inr k' \<and> k' \<in> set (keys b)"
proof (cases b)
  case (Cons p c)
  assume "\<And>k v. (k, v) \<in> set b \<Longrightarrow> v \<noteq> []"
  with Cons oldest_from_Inr [of c "fst p" "last (snd p)"] show ?thesis by (cases p) (auto simp: last_of_def)
qed simp

lemma length_delete_present: "distinct (keys b) \<Longrightarrow> k \<in> set (keys b) \<Longrightarrow> Suc (length (AList.delete k b)) = length b"
proof (induction b)
  case (Cons p b)
  show ?case
  proof (cases "fst p = k")
    case True
    with Cons.prems have "k \<notin> fst ` set b" by auto
    then have "AList.delete k b = b" by (simp add: delete_idem)
    with True show ?thesis by (cases p) simp
  next
    case False
    with Cons show ?thesis by (cases p) auto
  qed
qed simp

lemma set_delete_subset: "set (AList.delete k b) \<subseteq> set b"
  by (induction b) auto

lemma buckets_ok_subset: "buckets_ok L now b \<Longrightarrow> distinct (keys c) \<Longrightarrow> set c \<subseteq> set b \<Longrightarrow> length c \<le> length b \<Longrightarrow> buckets_ok L now c"
  unfolding buckets_ok_def by (intro conjI) (simp, linarith, blast)

lemma make_room_ok:
  assumes b: "buckets_ok L now b" and L: "configured L"
  shows "\<exists>b1. make_room L cutoff key b = Inr b1 \<and> buckets_ok L now b1 \<and> set b1 \<subseteq> set b \<and>
    (map_of b1 key = None \<longrightarrow> int (length b1) < rl_max L)"
proof (cases "int (length b) \<ge> rl_max L \<and> map_of b key = None")
  case True
  let ?b = "filter (\<lambda>(k, v). live cutoff v) b"
  have f: "distinct (keys ?b)" "set ?b \<subseteq> set b" "length ?b \<le> length b"
    using b by (auto simp: buckets_ok_def distinct_map_filter)
  then have ok: "buckets_ok L now ?b" using buckets_ok_subset [OF b] by blast
  show ?thesis
  proof (cases "int (length ?b) \<ge> rl_max L")
    case full: True
    then have "?b \<noteq> []" using L by (auto simp: configured_def)
    then obtain k where k: "oldest ?b = Inr k" "k \<in> set (keys ?b)"
      using oldest_Inr [of ?b] ok by (auto simp: buckets_ok_def)
    have sub: "set (AList.delete k ?b) \<subseteq> set ?b" by (rule set_delete_subset)
    have "length (AList.delete k ?b) < length ?b" using length_delete_present [OF f(1) k(2)] by simp
    moreover have "distinct (keys (AList.delete k ?b))" using f(1) by (rule distinct_delete)
    ultimately have "buckets_ok L now (AList.delete k ?b)" "int (length (AList.delete k ?b)) < rl_max L"
      using buckets_ok_subset [OF ok _ sub] ok by (simp_all add: buckets_ok_def)
    moreover have "make_room L cutoff key b = Inr (AList.delete k ?b)" using True full k(1) by (simp add: make_room_def Let_def)
    ultimately show ?thesis using sub f(2) by (intro exI [of _ "AList.delete k ?b"] conjI impI) (assumption | blast)+
  next
    case False
    with True ok f show ?thesis by (auto simp: make_room_def Let_def)
  qed
qed (use b in \<open>auto simp: make_room_def\<close>)

lemma dropWhile_sorted: "sorted v \<Longrightarrow> dropWhile (\<lambda>t. t \<le> (c :: rat)) v = filter (\<lambda>t. c < t) v"
  by (induction v) (auto simp: filter_id_conv, metis filter_True leD le_less_linear order_trans)


lemma bucket_of_mem: "bucket_of b k \<noteq> [] \<Longrightarrow> (k, bucket_of b k) \<in> set b"
  by (auto simp: bucket_of_def dest: map_of_SomeD split: option.splits)

lemma buckets_ok_dset:
  assumes "buckets_ok L now b" "v \<noteq> []" "sorted v" "int (length v) \<le> rl_limit L" "\<forall>t \<in> set v. t \<le> now"
    "map_of b k = None \<Longrightarrow> int (length b) < rl_max L"
  shows "buckets_ok L now (dset k v b)"
proof -
  have "length (dset k v b) \<le> (if map_of b k = None then length b + 1 else length b)"
    by (induction b) auto
  with assms(1,6) have "int (length (dset k v b)) \<le> rl_max L" by (auto simp: buckets_ok_def split: if_splits)
  moreover have "distinct (keys (dset k v b))" using assms(1) by (simp add: buckets_ok_def)
  ultimately show ?thesis using assms set_dset_subset [of k v b] unfolding buckets_ok_def by blast
qed

lemma buckets_ok_later: "buckets_ok L now b \<Longrightarrow> now \<le> t \<Longrightarrow> buckets_ok L t b"
  unfolding buckets_ok_def by (fastforce intro: order_trans)

text \<open>A call always returns and keeps the buckets; it is admitted exactly when fewer calls than the limit are left.\<close>

lemma allow_ok:
  assumes b: "buckets_ok L now b" and L: "configured L"
  obtains b1 v where "make_room L (now - rl_window L) key b = Inr b1" "buckets_ok L now b1" "set b1 \<subseteq> set b"
    "v = filter (\<lambda>t. now - rl_window L < t) (bucket_of b1 key)"
    "int (length v) < rl_limit L \<Longrightarrow> allow L now key b = Inr (dset key (v @ [now]) b1, True, 0) \<and> buckets_ok L now (dset key (v @ [now]) b1)"
    "rl_limit L \<le> int (length v) \<Longrightarrow> v \<noteq> [] \<and> allow L now key b =
       Inr (dset key v b1, False, max 1 (truncated (rl_window L - (now - hd v)) + 1)) \<and> buckets_ok L now (dset key v b1)"
proof -
  from make_room_ok [OF b L, of "now - rl_window L" key] obtain b1 where b1: "make_room L (now - rl_window L) key b = Inr b1"
    "buckets_ok L now b1" "set b1 \<subseteq> set b" "map_of b1 key = None \<Longrightarrow> int (length b1) < rl_max L" by metis
  let ?u = "bucket_of b1 key"
  define v where "v = filter (\<lambda>t. now - rl_window L < t) ?u"
  have u: "sorted ?u" "\<forall>t \<in> set ?u. t \<le> now" "int (length ?u) \<le> rl_limit L \<or> ?u = []"
    using b1(2) bucket_of_mem [of b1 key] by (cases "?u = []"; fastforce simp: buckets_ok_def)+
  have v: "dropWhile (\<lambda>t. t \<le> now - rl_window L) ?u = v" unfolding v_def by (rule dropWhile_sorted [OF u(1)])
  have s: "sorted v" "\<forall>t \<in> set v. t \<le> now" "length v \<le> length ?u" using u by (auto simp: v_def intro: sorted_wrt_filter)
  show thesis
  proof (rule that [OF b1(1-3) v_def], goal_cases)
    case 1
    have "sorted (v @ [now])" using s by (simp add: sorted_append)
    then have "buckets_ok L now (dset key (v @ [now]) b1)"
      by (intro buckets_ok_dset [OF b1(2)]) (use 1 s b1(4) in auto)
    with 1 show ?case by (simp add: allow_def Let_def b1(1) v)
  next
    case 2
    then have ne: "v \<noteq> []" using L by (auto simp: configured_def)
    then have "int (length ?u) \<le> rl_limit L" using u(3) by (auto simp: v_def)
    with s(3) have "int (length v) \<le> rl_limit L" by linarith
    then have "buckets_ok L now (dset key v b1)"
      by (intro buckets_ok_dset [OF b1(2)]) (use ne s b1(4) in auto)
    with 2 ne show ?case by (cases v) (simp_all add: allow_def Let_def b1(1) v)
  qed
qed

lemma allow_total: "buckets_ok L now b \<Longrightarrow> configured L \<Longrightarrow> \<exists>b' admitted r. allow L now k b = Inr (b', admitted, r) \<and> buckets_ok L now b'"
  by (rule allow_ok [where key = k], assumption, assumption) (metis linorder_not_le)

lemma allow_Inr:
  assumes "buckets_ok L now b" "configured L" "allow L now k b = Inr (b', admitted, r)"
  obtains b1 v where "make_room L (now - rl_window L) k b = Inr b1" "v = filter (\<lambda>t. now - rl_window L < t) (bucket_of b1 k)"
    "admitted \<longleftrightarrow> int (length v) < rl_limit L" "b' = dset k (if admitted then v @ [now] else v) b1" "buckets_ok L now b'"
    "if admitted then r = 0 else v \<noteq> [] \<and> r = max 1 (truncated (rl_window L - (now - hd v)) + 1)"
proof (rule allow_ok [OF assms(1,2), where key = k])
  fix b1 v
  assume m: "make_room L (now - rl_window L) k b = Inr b1" "v = filter (\<lambda>t. now - rl_window L < t) (bucket_of b1 k)"
    and d: "int (length v) < rl_limit L \<Longrightarrow> allow L now k b = Inr (dset k (v @ [now]) b1, True, 0) \<and> buckets_ok L now (dset k (v @ [now]) b1)"
    "rl_limit L \<le> int (length v) \<Longrightarrow> v \<noteq> [] \<and> allow L now k b =
       Inr (dset k v b1, False, max 1 (truncated (rl_window L - (now - hd v)) + 1)) \<and> buckets_ok L now (dset k v b1)"
  show thesis
    by (rule that [OF m]) (use d assms(3) in \<open>cases "int (length v) < rl_limit L"; auto\<close>)+
qed

section \<open>Traffic\<close>

text \<open>
  Calls at times that do not decrease, from an empty limiter: the keys that called, the log of the
  admitted calls, the time of the last call and the buckets.
\<close>

inductive traffic :: "limiter \<Rightarrow> string set \<Rightarrow> (string \<times> rat) list \<Rightarrow> rat \<Rightarrow> buckets \<Rightarrow> bool" for L where
  start: "traffic L {} [] t []"
| call: "traffic L ks lg now b \<Longrightarrow> now \<le> t \<Longrightarrow> allow L t k b = Inr (b', admitted, r) \<Longrightarrow>
    traffic L (insert k ks) (if admitted then lg @ [(k, t)] else lg) t b'"

definition times_of :: "(string \<times> rat) list \<Rightarrow> string \<Rightarrow> rat list" where
  "times_of lg k = map snd (filter (\<lambda>(k', t). k' = k) lg)"

definition in_window :: "limiter \<Rightarrow> rat \<Rightarrow> rat \<Rightarrow> bool" where
  "in_window L t s \<longleftrightarrow> t - rl_window L < s \<and> s \<le> t"

lemma times_of_snoc: "times_of (lg @ [(k', t)]) k = (if k' = k then times_of lg k @ [t] else times_of lg k)"
  by (simp add: times_of_def)

lemma keys_room:
  assumes "distinct (keys b)" "set (keys b) \<subseteq> ks" "finite ks" "int (card (insert k ks)) \<le> rl_max L"
  shows "make_room L cutoff k b = Inr b"
proof (cases "map_of b k")
  case None
  then have "k \<notin> set (keys b)" by (simp add: map_of_None_keys)
  have "length b = card (set (keys b))" using assms(1) by (metis distinct_card length_map)
  also have "\<dots> < card (insert k (set (keys b)))" using \<open>k \<notin> set (keys b)\<close> by simp
  also have "\<dots> \<le> card (insert k ks)" using assms(2,3) by (intro card_mono) auto
  finally show ?thesis using assms(4) None by (simp add: make_room_def)
qed (simp add: make_room_def)

text \<open>While no key has to make room, a bucket is a final part of the admitted times of its key.\<close>

definition bucket_window :: "limiter \<Rightarrow> (string \<times> rat) list \<Rightarrow> rat \<Rightarrow> buckets \<Rightarrow> bool" where
  "bucket_window L lg now b \<longleftrightarrow> (\<forall>k. \<exists>c \<le> now - rl_window L. bucket_of b k = filter (\<lambda>t. c < t) (times_of lg k)) \<and>
     (\<forall>(k, t) \<in> set lg. t \<le> now) \<and>
     (\<forall>k t. int (length (filter (in_window L t) (times_of lg k))) \<le> rl_limit L)"

lemma bucket_of_dset [simp]: "bucket_of (dset k v b) k' = (if k' = k then v else bucket_of b k')"
  by (simp add: bucket_of_def)

lemma filter_filter_less: "(c :: rat) \<le> d \<Longrightarrow> filter (\<lambda>t. d < t) (filter (\<lambda>t. c < t) xs) = filter (\<lambda>t. d < t) xs"
  by (induction xs) auto

lemma length_filter_le_mono: "(\<And>x. P x \<Longrightarrow> Q x) \<Longrightarrow> length (filter P xs) \<le> length (filter Q xs)"
  by (induction xs) auto

lemma window_step:
  assumes w: "bucket_window L lg now b" and t: "now \<le> t" and L: "configured L"
    and v: "v = filter (\<lambda>s. t - rl_window L < s) (bucket_of b k)"
  shows "v = filter (\<lambda>s. t - rl_window L < s) (times_of lg k)"
    "int (length v) < rl_limit L \<Longrightarrow> bucket_window L (lg @ [(k, t)]) t (dset k (v @ [t]) b)"
    "bucket_window L lg t (dset k v b)"
proof -
  from w obtain c where c: "c \<le> now - rl_window L" "bucket_of b k = filter (\<lambda>t. c < t) (times_of lg k)"
    unfolding bucket_window_def by meson
  with t have ct: "c \<le> t - rl_window L" by linarith
  show vk: "v = filter (\<lambda>s. t - rl_window L < s) (times_of lg k)"
    using filter_filter_less [OF ct] by (simp add: v c(2))
  have other: "\<exists>c \<le> t - rl_window L. bucket_of b k' = filter (\<lambda>t. c < t) (times_of lg k')" for k'
    using w t unfolding bucket_window_def by (meson diff_right_mono order_trans)
  have past: "\<forall>s \<in> set (times_of lg k'). s \<le> now" for k'
    using w by (auto simp: bucket_window_def times_of_def)
  have old: "\<forall>(k, s) \<in> set lg. s \<le> t" using w t by (auto simp: bucket_window_def)
  have lim: "int (length (filter (in_window L s) (times_of lg k'))) \<le> rl_limit L" for s k'
    using w by (simp add: bucket_window_def)
  show "bucket_window L lg t (dset k v b)"
    using other old lim vk unfolding bucket_window_def by (auto intro: exI [of _ "t - rl_window L"])
  assume n: "int (length v) < rl_limit L"
  have pos: "0 < rl_window L" using L by (simp add: configured_def)
  have "int (length (filter (in_window L s) (times_of (lg @ [(k, t)]) k'))) \<le> rl_limit L" for s k'
  proof (cases "k' = k \<and> in_window L s t")
    case True
    then have "t \<le> s" by (simp add: in_window_def)
    have "length (filter (in_window L s) (times_of lg k)) \<le> length v"
      unfolding vk using \<open>t \<le> s\<close> by (intro length_filter_le_mono) (auto simp: in_window_def)
    with n True show ?thesis by (simp add: times_of_snoc)
  next
    case False
    then show ?thesis using lim by (auto simp: times_of_snoc)
  qed
  moreover have "filter (\<lambda>s. t - rl_window L < s) (times_of (lg @ [(k, t)]) k) = v @ [t]"
    using pos by (simp add: times_of_snoc vk)
  moreover have "times_of (lg @ [(k, t)]) k' = times_of lg k'" if "k' \<noteq> k" for k' using that by (simp add: times_of_snoc)
  ultimately show "bucket_window L (lg @ [(k, t)]) t (dset k (v @ [t]) b)"
    using other old unfolding bucket_window_def by (auto intro: exI [of _ "t - rl_window L"])
qed

lemma traffic_ok:
  assumes L: "configured L" and tr: "traffic L ks lg now b"
  shows "buckets_ok L now b \<and> finite ks"
  using tr
proof induction
  case (call ks lg now b t k b' admitted r)
  from buckets_ok_later [of L now b t] call.IH call.hyps(2) have "buckets_ok L t b" by blast
  from allow_total [OF this L, of k] call.hyps(3) call.IH show ?case by auto
qed (use L in \<open>simp add: buckets_ok_def configured_def\<close>)

lemma traffic_window:
  assumes L: "configured L" and tr: "traffic L ks lg now b" and few: "int (card ks) \<le> rl_max L"
  shows "bucket_window L lg now b \<and> set (keys b) \<subseteq> ks"
  using tr few
proof induction
  case (start t)
  then show ?case using L by (auto simp: bucket_window_def bucket_of_def times_of_def configured_def)
next
  case (call ks lg now b t k b' admitted r)
  from traffic_ok [OF L call.hyps(1)] have ok: "buckets_ok L now b" and fin: "finite ks" by auto
  from card_insert_le [of ks k] fin call.prems have "int (card ks) \<le> rl_max L" by simp
  with call.IH have w: "bucket_window L lg now b" and sub: "set (keys b) \<subseteq> ks" by auto
  from ok have "distinct (keys b)" by (simp add: buckets_ok_def)
  note room = keys_room [OF this sub fin call.prems]
  from buckets_ok_later [OF ok call.hyps(2)] L call.hyps(3) show ?case
  proof (rule allow_Inr, goal_cases)
    case (1 b1 v)
    from room 1(1) have b1: "b1 = b" by simp
    with 1(2) have v: "v = filter (\<lambda>s. t - rl_window L < s) (bucket_of b k)" by simp
    note step = window_step [OF w call.hyps(2) L v]
    show ?case
      using step(2,3) 1(3,4) b1 sub by (cases admitted) (auto simp: set_keys_dset)
  qed
qed

text \<open>Who is refused gets in after the time named in the answer.\<close>

lemma refused_gets_in:
  assumes b: "buckets_ok L now b" and L: "configured L" and a: "allow L now k b = Inr (b', False, r)" and t: "now + of_int r \<le> t"
  shows "\<exists>b''. allow L t k b' = Inr (b'', True, 0)"
proof -
  from b L a obtain b1 v where ne: "v \<noteq> []" and b': "b' = dset k v b1" and r: "r = max 1 (truncated (rl_window L - (now - hd v)) + 1)"
    and ok: "buckets_ok L now b'" and full: "rl_limit L \<le> int (length v)"
    by (rule allow_Inr) auto
  from r have ge1: "1 \<le> r" "truncated (rl_window L - (now - hd v)) + 1 \<le> r" by auto
  have below: "x < of_int (truncated x) + 1 \<or> x < 1" for x :: rat by (auto simp: truncated_def; linarith)
  then have "x < of_int r" if "truncated x + 1 \<le> r" for x :: rat
    using that \<open>1 \<le> r\<close> below [of x] by (metis of_int_1 of_int_add of_int_le_iff order_less_le_trans)
  with r have "rl_window L - (now - hd v) < of_int r" by simp
  with t have late: "hd v \<le> t - rl_window L" by linarith
  have "now \<le> t" using t \<open>1 \<le> r\<close> by (meson le_add_same_cancel1 of_int_0_le_iff order_trans zero_le_one)
  note okt = buckets_ok_later [OF ok this]
  from allow_total [OF okt L, of k] obtain c ad q where c: "allow L t k b' = Inr (c, ad, q)" by blast
  from okt L c obtain b2 u where m: "make_room L (t - rl_window L) k b' = Inr b2"
    and u: "u = filter (\<lambda>s. t - rl_window L < s) (bucket_of b2 k)" "ad \<longleftrightarrow> int (length u) < rl_limit L" "ad \<longrightarrow> q = 0"
    by (rule allow_Inr) (auto split: if_splits)
  from m b' have "b2 = b'" by (simp add: make_room_def)
  with u(1) b' have uv: "u = filter (\<lambda>s. t - rl_window L < s) v" by simp
  have "(k, v) \<in> set b'" using map_of_SomeD [of b' k v] b' by simp
  with ok have "int (length v) \<le> rl_limit L" by (auto simp: buckets_ok_def)
  moreover have "length u < length v" unfolding uv using late ne by (intro length_filter_less [of "hd v"]) auto
  ultimately show ?thesis using u(2,3) c by auto
qed

section \<open>Keys that are dropped\<close>

lemma oldest_from_least:
  assumes "oldest_from k t b = Inr k'"
  shows "(k' = k \<and> (\<forall>(i, v) \<in> set b. t \<le> last v)) \<or> (\<exists>v. (k', v) \<in> set b \<and> last v \<le> t \<and> (\<forall>(i, u) \<in> set b. last v \<le> last u))"
  using assms
proof (induction b arbitrary: k t)
  case (Cons p b)
  obtain i v where p: "p = (i, v)" by (cases p)
  with Cons.prems obtain s where s: "last_of v = Inr s" by (auto elim!: ebind_InrE)
  then have l: "last v = s" by (auto simp: last_of_def split: if_splits)
  show ?case
  proof (cases "s < t")
    case True
    with Cons.prems p s have "oldest_from i s b = Inr k'" by simp
    from Cons.IH [OF this]
    have "\<exists>u. (k', u) \<in> set (p # b) \<and> last u \<le> s \<and> (\<forall>(j, x) \<in> set b. last u \<le> last x)"
    proof (elim disjE)
      assume "k' = i \<and> (\<forall>(j, x) \<in> set b. s \<le> last x)"
      with p l show ?thesis by (intro exI [of _ v]) simp
    qed auto
    then obtain u where "(k', u) \<in> set (p # b)" "last u \<le> s" "\<forall>(j, x) \<in> set b. last u \<le> last x" by blast
    with p l True show ?thesis by (intro disjI2 exI [of _ u]) auto
  next
    case False
    with Cons.prems p s have "oldest_from k t b = Inr k'" by simp
    from Cons.IH [OF this] show ?thesis
    proof (elim disjE)
      assume "k' = k \<and> (\<forall>(j, x) \<in> set b. t \<le> last x)"
      with p l False show ?thesis by (intro disjI1) simp
    next
      assume "\<exists>u. (k', u) \<in> set b \<and> last u \<le> t \<and> (\<forall>(j, x) \<in> set b. last u \<le> last x)"
      then obtain u where "(k', u) \<in> set b" "last u \<le> t" "\<forall>(j, x) \<in> set b. last u \<le> last x" by blast
      with p l False show ?thesis by (intro disjI2 exI [of _ u]) simp
    qed
  qed
qed simp

lemma oldest_least: "oldest b = Inr k \<Longrightarrow> \<exists>v. (k, v) \<in> set b \<and> (\<forall>(i, u) \<in> set b. last v \<le> last u)"
proof (cases b)
  case (Cons p c)
  obtain i v where p: "p = (i, v)" by (cases p)
  assume "oldest b = Inr k"
  with Cons p obtain t where "last_of v = Inr t" "oldest_from i t c = Inr k" by (auto elim!: ebind_InrE)
  then have "last v = t" "oldest_from i t c = Inr k" by (auto simp: last_of_def split: if_splits)
  from oldest_from_least [OF this(2)] this(1) Cons p show ?thesis by force
qed simp

text \<open>A key loses its bucket only to a new one when as many are kept as may be, and then it is an expired key or, when
  none is expired, the one whose last admitted call is the oldest.\<close>

lemma dropped_key:
  assumes b: "distinct (keys b)" and a: "allow L t k b = Inr (b', admitted, r)" and n: "i \<noteq> k" "map_of b i = Some v" "map_of b' i = None"
  shows "rl_max L \<le> int (length b) \<and> map_of b k = None \<and>
    (last v \<le> t - rl_window L \<or> v = [] \<or> (\<forall>(j, u) \<in> set b. live (t - rl_window L) u \<longrightarrow> last v \<le> last u))"
proof -
  let ?c = "t - rl_window L"
  from a obtain b1 u where m: "make_room L ?c k b = Inr b1" and "b' = dset k u b1"
    by (auto simp: allow_def Let_def elim!: ebind_InrE split: if_splits list.splits)
  with n have g: "map_of b1 i = None" by simp
  with m n(2) have full: "rl_max L \<le> int (length b) \<and> map_of b k = None" by (auto simp: make_room_def split: if_splits)
  let ?b = "filter (\<lambda>(k, v). live ?c v) b"
  have iv: "(i, v) \<in> set b" using n(2) by (rule map_of_SomeD)
  have d: "distinct (keys ?b)" using b by (simp add: distinct_map_filter)
  show ?thesis
  proof (cases "live ?c v")
    case True
    with iv have "(i, v) \<in> set ?b" by simp
    with d have i: "map_of ?b i = Some v" by simp
    with m full g have "rl_max L \<le> int (length ?b)" by (auto simp: make_room_def Let_def split: if_splits)
    with m full obtain j where j: "oldest ?b = Inr j" "b1 = AList.delete j ?b" by (auto simp: make_room_def Let_def elim!: ebind_InrE)
    with g i have "j = i" by (auto simp: delete_conv split: if_splits)
    from oldest_least [OF j(1)] obtain x where x: "(j, x) \<in> set ?b" "\<forall>(j, u) \<in> set ?b. last x \<le> last u" by blast
    from map_of_is_SomeI [OF d x(1)] i \<open>j = i\<close> have "x = v" by simp
    with x(2) have "\<forall>(j, u) \<in> set b. live ?c u \<longrightarrow> last v \<le> last u" by auto
    with full show ?thesis by blast
  qed (use full in \<open>auto simp: live_def\<close>)
qed

end
