(* ===== verification/Mg_Rate_Claims.thy ===== *)
theory Mg_Rate_Claims
  imports Mg_Rate
begin

text \<open>
  The property of the rate limiter, and a limiter of two calls in ten seconds as its instance.
\<close>

text \<open>C40: what the rate limiter promises, for calls at times that do not decrease. Every call returns;
  the buckets stay within the number of keys and the number of calls; as long as no more keys called
  than are kept, no window of the length configured, wherever it ends, holds more admitted calls of a
  key than the limit; whoever is refused and waits the seconds named in the answer gets in. With
  more keys than are kept the bound on windows does not hold, since a key that was dropped starts anew; but a key is
  dropped only for a new one while as many are kept as may be, and only if its last admitted call has left the window or is
  the oldest of those that have not.\<close>

theorem rate_limit_holds:
  assumes "make_limiter limit window max_keys = Inr L" and "traffic L ks lg now b"
  shows "(\<forall>t k. now \<le> t \<longrightarrow> (\<exists>b' admitted r. allow L t k b = Inr (b', admitted, r) \<and> (\<not> admitted \<longrightarrow> 1 \<le> r))) \<and>
    int (length b) \<le> max_keys \<and> (\<forall>(k, v) \<in> set b. int (length v) \<le> limit) \<and>
    (int (card ks) \<le> max_keys \<longrightarrow> (\<forall>k t. int (length (filter (in_window L t) (times_of lg k))) \<le> limit)) \<and>
    (\<forall>t k b' r t'. now \<le> t \<and> allow L t k b = Inr (b', False, r) \<and> t + of_int r \<le> t' \<longrightarrow>
       (\<exists>b''. allow L t' k b' = Inr (b'', True, 0))) \<and>
    (\<forall>t k b' admitted r i v. allow L t k b = Inr (b', admitted, r) \<and> i \<noteq> k \<and> map_of b i = Some v \<and> map_of b' i = None \<longrightarrow>
       max_keys \<le> int (length b) \<and> map_of b k = None \<and>
       (last v \<le> t - window \<or> (\<forall>(j, u) \<in> set b. t - window < last u \<longrightarrow> last v \<le> last u)))"
proof -
  note L = make_limiter_configured [OF assms(1)]
  have f: "rl_limit L = limit" "rl_max L = max_keys" using assms(1) by (auto simp: make_limiter_def split: if_splits)
  from traffic_ok [OF L assms(2)] have ok: "buckets_ok L now b" by blast
  have later: "buckets_ok L t b" if "now \<le> t" for t using buckets_ok_later [OF ok that] .
  have "\<exists>b' admitted r. allow L t k b = Inr (b', admitted, r) \<and> (\<not> admitted \<longrightarrow> 1 \<le> r)" if t: "now \<le> t" for t k
  proof -
    from allow_total [OF later [OF t] L, of k] obtain b' a r where 1: "allow L t k b = Inr (b', a, r)" by blast
    from later [OF t] L 1 have "\<not> a \<longrightarrow> 1 \<le> r" by (rule allow_Inr) (auto split: if_splits)
    with 1 show ?thesis by blast
  qed
  moreover have "int (length b) \<le> max_keys" "\<forall>(k, v) \<in> set b. int (length v) \<le> limit"
    using ok f by (auto simp: buckets_ok_def)
  moreover have "int (card ks) \<le> max_keys \<longrightarrow> (\<forall>k t. int (length (filter (in_window L t) (times_of lg k))) \<le> limit)"
    using traffic_window [OF L assms(2)] f by (auto simp: bucket_window_def)
  moreover have "\<exists>b''. allow L t' k b' = Inr (b'', True, 0)"
    if "now \<le> t" "allow L t k b = Inr (b', False, r)" "t + of_int r \<le> t'" for t k b' r t'
    by (rule refused_gets_in [OF later [OF that(1)] L that(2,3)])
  moreover have "max_keys \<le> int (length b) \<and> map_of b k = None \<and>
      (last v \<le> t - window \<or> (\<forall>(j, u) \<in> set b. t - window < last u \<longrightarrow> last v \<le> last u))"
    if "allow L t k b = Inr (b', admitted, r)" "i \<noteq> k" "map_of b i = Some v" "map_of b' i = None" for t k b' admitted r i v
  proof -
    have ne: "\<forall>(j, u) \<in> set b. u \<noteq> []" "distinct (keys b)" using ok by (auto simp: buckets_ok_def)
    have w: "rl_window L = window" using assms(1) by (auto simp: make_limiter_def split: if_splits)
    have "v \<noteq> []" using ne(1) map_of_SomeD [OF that(3)] by blast
    with dropped_key [OF ne(2) that] ne(1) f w show ?thesis by (fastforce simp: live_def)
  qed
  ultimately show ?thesis by blast
qed

definition limiter2 :: limiter where
  "limiter2 = \<lparr>rl_limit = 2, rl_window = 10, rl_max = 3\<rparr>"

theorem rate_limit_holds_witness:
  "make_limiter 2 10 3 = Inr limiter2 \<and>
   traffic limiter2 {''ip''} [(''ip'', 1), (''ip'', 4)] 5 [(''ip'', [1, 4])] \<and>
   allow limiter2 5 ''ip'' [(''ip'', [1, 4])] = Inr ([(''ip'', [1, 4])], False, 7) \<and>
   (\<exists>b. allow limiter2 12 ''ip'' [(''ip'', [1, 4])] = Inr (b, True, 0)) \<and>
   int (length (filter (in_window limiter2 9) (times_of [(''ip'', 1), (''ip'', 4)] ''ip''))) \<le> 2"
proof -
  note d = allow_def make_room_def bucket_of_def limiter2_def Let_def
  have m: "make_limiter 2 10 3 = Inr limiter2" by (simp add: make_limiter_def limiter2_def)
  have f: "allow limiter2 5 ''ip'' [(''ip'', [1, 4])] = Inr ([(''ip'', [1, 4])], False, 7)"
    by (simp add: d truncated_def)
  have a1: "allow limiter2 1 ''ip'' [] = Inr ([(''ip'', [1])], True, 0)"
    and a2: "allow limiter2 4 ''ip'' [(''ip'', [1])] = Inr ([(''ip'', [1, 4])], True, 0)" by (simp_all add: d)
  have t1: "traffic limiter2 {''ip''} [(''ip'', 1)] 1 [(''ip'', [1])]"
    using traffic.call [OF traffic.start [of limiter2 0] _ a1] by simp
  have t2: "traffic limiter2 {''ip''} [(''ip'', 1), (''ip'', 4)] 4 [(''ip'', [1, 4])]"
    using traffic.call [OF t1 _ a2] by simp
  have t: "traffic limiter2 {''ip''} [(''ip'', 1), (''ip'', 4)] 5 [(''ip'', [1, 4])]"
    using traffic.call [OF t2 _ f] by simp
  note c = rate_limit_holds [OF m t]
  have late: "\<exists>b. allow limiter2 12 ''ip'' [(''ip'', [1, 4])] = Inr (b, True, 0)"
    by (rule c [THEN conjunct2, THEN conjunct2, THEN conjunct2, THEN conjunct2, THEN conjunct1, rule_format, of 5 "''ip''" _ 7])
      (use f in simp)
  have win: "int (length (filter (in_window limiter2 9) (times_of [(''ip'', 1), (''ip'', 4)] ''ip''))) \<le> 2"
    using c by simp
  show ?thesis using m t f late win by blast
qed

end
