(* ===== verification/Spec2Isabelle.thy ===== *)
theory Spec2Isabelle
  imports Cw_Claims Cw_Views Cw_Desk_Claims Cw_Access_Claims Cw_Gate Mg_Claims Mg_Agent_Claims Anchor_Claims Mg_Rate_Claims
begin

text \<open>
  A model of ProofOps MemoryGuard and the theorems that make it correct. The program has two halves that share a
  canonical JSON form and a memory SDK.

  \<^item> \<^emph>\<open>Casework\<close> (\<^verbatim>\<open>src/src/proofops_casework\<close>, version 2): each tenant has one workspace, a document with
    baselines, tasks, risk cases, reports, hand-overs, decisions, artifacts and a hash-chained audit log. Every command
    loads the workspace, checks it, runs a business mutation, seals the result and saves it under an optimistic revision
    and an idempotency key. An evidence desk reads outside sources for a case, a partner may review a report, a signed
    incident may open a case, a root may be anchored on Base.
  \<^item> \<^emph>\<open>The guard\<close> (\<^verbatim>\<open>src/src/proofops_memoryguard\<close>, version 1): a memory of observations per subject, a policy
    that turns them into a draft, and an agent that acts on the verdict and records its runs.

  \<^bold>\<open>Foundations.\<close> \<^verbatim>\<open>Prelude\<close>: results are a sum of an error and a value, \<open>ebind\<close> sequences them and \<open>check\<close> raises;
  a Python dictionary is an association list in insertion order. \<^verbatim>\<open>Py_Json\<close>: JSON values and
  \<^verbatim>\<open>json.dumps\<close> byte for byte; \<^verbatim>\<open>Py_Hex\<close>: \<^verbatim>\<open>hex\<close> and \<^verbatim>\<open>int(s, 16)\<close>; \<^verbatim>\<open>Py_Loads\<close>: \<^verbatim>\<open>json.loads\<close> and
  \<^verbatim>\<open>json_boundary.strict_json\<close>; \<^verbatim>\<open>Py_Round\<close>: what is written is read back, finite floats included, and the reader's fuel is enough;
  \<^verbatim>\<open>Py_Keys\<close>: what is read back from a written object has its keys. \<^verbatim>\<open>Effects\<close>: programs of several effects on a state that
  others share, where an operation that raises keeps what it changed before.

  \<^bold>\<open>Casework, file by file.\<close>
  \<^item> \<^verbatim>\<open>Cw_Models\<close> is \<^verbatim>\<open>models.py\<close>; \<^verbatim>\<open>Cw_Core\<close> is \<^verbatim>\<open>core.py\<close> and the conflict check of \<^verbatim>\<open>source_state.py\<close>; \<^verbatim>\<open>Cw_Graph\<close> proves the
    dependency walk and the invalidation fixpoint against reachability, \<^verbatim>\<open>Cw_Policy\<close> what the policy decides.
  \<^item> \<^verbatim>\<open>Cw_Evidence\<close> is \<^verbatim>\<open>source_state.py\<close>, \<^verbatim>\<open>source_guard.py\<close> and the context and gates of \<^verbatim>\<open>source_service.py\<close> over the records of
    \<^verbatim>\<open>source_models.py\<close>.
  \<^item> \<^verbatim>\<open>Cw_Engine\<close> is the transaction of \<^verbatim>\<open>service.py\<close> (\<^verbatim>\<open>_load\<close>, \<^verbatim>\<open>_mutate\<close>), \<^verbatim>\<open>Cw_Store\<close> is \<^verbatim>\<open>store.py\<close>, \<^verbatim>\<open>Cw_Service\<close>,
    \<^verbatim>\<open>Cw_Investigate\<close> (with \<^verbatim>\<open>receipts.py\<close>) and \<^verbatim>\<open>Cw_Anchoring\<close> are the commands of \<^verbatim>\<open>service.py\<close>, \<^verbatim>\<open>Cw_Views\<close> its read operations;
    \<^verbatim>\<open>Cw_Anchor\<close> is \<^verbatim>\<open>anchoring.py\<close>.
  \<^item> \<^verbatim>\<open>Cw_Sources\<close> is \<^verbatim>\<open>connectors/http_client.py\<close>, \<^verbatim>\<open>base_transaction.py\<close>, \<^verbatim>\<open>github_issue.py\<close> and \<^verbatim>\<open>observations.py\<close>;
    \<^verbatim>\<open>Cw_Collect\<close>, \<^verbatim>\<open>Cw_Mission\<close> and \<^verbatim>\<open>Cw_Desk_Views\<close> are the operations of \<^verbatim>\<open>source_service.py\<close>; \<^verbatim>\<open>Cw_Partner\<close> is
    \<^verbatim>\<open>partner_review.py\<close> and the history check of \<^verbatim>\<open>connectors/virtuals_cli.py\<close>; \<^verbatim>\<open>Cw_Ingress\<close> is \<^verbatim>\<open>incident_ingress.py\<close>.
  \<^item> \<^verbatim>\<open>Cw_Programs\<close> composes the operations of several transactions (a read, a mission and its resumption, an investigation, a
    review) out of their transactions and the calls to outside systems between them.
  \<^item> \<^verbatim>\<open>Cw_Access\<close> is \<^verbatim>\<open>auth.py\<close>, \<^verbatim>\<open>Cw_Mcp\<close> is \<^verbatim>\<open>mcp_readonly.py\<close>, \<^verbatim>\<open>Cw_Gate\<close> is \<^verbatim>\<open>request_limit.py\<close>,
    \<^verbatim>\<open>Cw_Config\<close> reads the connector configuration of \<^verbatim>\<open>source_models.py\<close> with its validators and checks the ingress at its start.

  \<^bold>\<open>The guard, file by file.\<close> \<^verbatim>\<open>Mg_Canonical\<close>, \<^verbatim>\<open>Mg_Models\<close>, \<^verbatim>\<open>Mg_Policy\<close> and \<^verbatim>\<open>Mg_Module\<close> are \<^verbatim>\<open>canonical.py\<close>, \<^verbatim>\<open>models.py\<close> with
  \<^verbatim>\<open>errors.py\<close>, \<^verbatim>\<open>policy.py\<close>, and \<^verbatim>\<open>module.py\<close> with \<^verbatim>\<open>proof.py\<close> and \<^verbatim>\<open>adapters/memory_fake.py\<close>; \<^verbatim>\<open>Mg_Wire\<close> reads stored documents
  back; \<^verbatim>\<open>Mg_Runs\<close>, \<^verbatim>\<open>Mg_Agent\<close> and \<^verbatim>\<open>Mg_Agent_Run\<close> are \<^verbatim>\<open>agent_models.py\<close> and \<^verbatim>\<open>agent.py\<close>; \<^verbatim>\<open>Mg_Sibyl\<close> holds the adapters over the
  memory SDK (\<^verbatim>\<open>adapters/sibyl.py\<close>, \<^verbatim>\<open>safety_actions.py\<close>, \<^verbatim>\<open>agent_ledger.py\<close>); \<^verbatim>\<open>Mg_Anchor\<close> is \<^verbatim>\<open>adapters/base_anchor.py\<close>;
  \<^verbatim>\<open>Mg_Rate\<close> is \<^verbatim>\<open>rate_limit.py\<close>.
\<close>

text \<open>
  \<^bold>\<open>State, steps and interfaces.\<close> The state of casework is the store: one row per tenant, read and written through the entity
  client of the SDK (locale \<open>entity_client\<close>; it gives a \<open>workspace_store\<close>). A request is a value, \<open>handle\<close> maps it to the code's
  handler, \<open>served\<close> is the step of any actor's request on the store and \<open>reachable\<close> its closure from a database without rows. A
  business mutation owes the engine a contract (locale \<open>business_change\<close>, and \<open>record_change\<close> for the records it writes); every
  mutation of the program is an interpretation, so that the invariant holds in every reachable store. The operations of several
  transactions see the world through the effects of a \<open>platform\<close>; locale \<open>serving_platform\<close> states what these do to the store and how
  often they read, and a world of a store, other people's requests before each effect and a log of reads interprets it. In the guard,
  \<open>memory_port\<close> is the port of the memory, with the dictionary and the SDK adapter as instances, and \<open>anchor_port\<close> that of the anchor.

  \<^bold>\<open>What the lemmas show.\<close>
  \<^item> Reachable stores (\<^verbatim>\<open>Cw_Invariant\<close>, \<^verbatim>\<open>Cw_Preserve\<close>, \<^verbatim>\<open>Cw_Preserve_Desk\<close>, \<^verbatim>\<open>Cw_Records\<close>, \<^verbatim>\<open>Cw_Records_Keep\<close>, \<^verbatim>\<open>Cw_Lifecycle\<close>): workspaces
    pass the integrity check and belong to their tenant (which no request or view takes the database client's word for), dependencies are acyclic, READY tasks are safe, resolutions have four eyes, no
    record is executable, read budgets hold, a partner's job is bound to one plan.
  \<^item> The policy, the walk and the fixpoint equal their specifications (\<^verbatim>\<open>Cw_Graph\<close>, \<^verbatim>\<open>Cw_Policy\<close>); opening a case suspends exactly
    what the scope reaches.
  \<^item> Hashes bind (\<^verbatim>\<open>Cw_Tamper\<close>, \<^verbatim>\<open>Cw_Ingress\<close>): equal roots, equal last audit hashes or equal signatures mean equal data, or two
    inputs with the same SHA-256 can be named.
  \<^item> Reads (\<^verbatim>\<open>Cw_Reads\<close>): a command reads its source at most once however often it is repeated, a mission at most once per query.
  \<^item> Outside answers (\<^verbatim>\<open>Cw_Source_Facts\<close>, \<^verbatim>\<open>Cw_Anchoring\<close>, \<^verbatim>\<open>Mg_Anchor\<close>): what a recorded observation, job history or anchor was checked
    against.
  \<^item> The edges: who is authenticated, what the MCP server can send, which bodies pass, what the bounded JSON reader accepts.
  \<^item> The guard (\<^verbatim>\<open>Mg_Facts\<close>, \<^verbatim>\<open>Mg_Agent_Facts\<close>, \<^verbatim>\<open>Mg_Agent_Valid\<close>, \<^verbatim>\<open>Mg_Agent_Limits\<close>, \<^verbatim>\<open>Mg_Agent_Actions\<close>, \<^verbatim>\<open>Mg_Refine\<close>): untrusted facts
    have no authority, chains stay valid, nothing finalized executes, the agent's actions fit the verdict, the SDK adapter refines
    the dictionary; and the two inputs on which the agent's own check rejects a run it recorded.

  The properties are in \<^verbatim>\<open>Cw_Claims\<close>, \<^verbatim>\<open>Cw_Desk_Claims\<close>, \<^verbatim>\<open>Cw_Access_Claims\<close>, \<^verbatim>\<open>Mg_Claims\<close>, \<^verbatim>\<open>Mg_Agent_Claims\<close>, \<^verbatim>\<open>Anchor_Claims\<close> and
  \<^verbatim>\<open>Mg_Rate_Claims\<close>, each with a numbered text before it and, where it has hypotheses, a witness on one of the runs evaluated in
  \<^verbatim>\<open>Cw_Example\<close>, \<^verbatim>\<open>Cw_Desk_Example\<close>, \<^verbatim>\<open>Mg_Example\<close> and \<^verbatim>\<open>Mg_Agent_Example\<close>.
\<close>

text \<open>
  \<^bold>\<open>Representation.\<close> Strings are their UTF-8 bytes: byte order on them is code point order, \<open>py_len\<close> counts code points. Integers are
  unbounded, times are whole microseconds since the epoch, floats are rationals with the three values that are not finite. An
  exception is \<open>Casework code status\<close> or \<open>PyExc name\<close>; inside a casework transaction the latter becomes the 503 of the code.

  \<^bold>\<open>Parameters.\<close> The record \<open>env\<close> holds SHA-256, the printer and reader of floats, the formats of times, NFC, Unicode lower case and the
  identity of the process. A \<open>run\<close> gives the clock and the \<^verbatim>\<open>uuid4\<close> at each call site of an operation (the numbers in \<open>rn_clock R 41\<close> tell the
  sites apart), so no monotonicity is assumed. \<open>net\<close> is the network, a node or an API at the other end; the model, the partner's client and the
  memory SDK are functions too. Hypotheses on them are named: \<open>fresh_ids\<close> (\<^verbatim>\<open>uuid4\<close> is new in the workspace), \<open>hex_hash\<close> (a digest is 64
  hexadecimal digits), \<open>number_texts\<close> (a float is printed with the characters of a number), \<open>attempts_allowed\<close> (the pydantic bound of a
  configured budget), and the laws of the locales. No theorem assumes that SHA-256 is injective.

  \<^bold>\<open>Recursion and fuel.\<close> Everything is total. The dependency walk and the fixpoint recurse on measures proved in \<^verbatim>\<open>Cw_Core\<close>; the
  JSON reader has fuel \<open>2 * length + 2\<close>, and \<open>fuel_enough\<close> shows that more changes nothing; retries and mission steps recurse on the bounds and
  lists of the code.

  \<^bold>\<open>Not modelled.\<close> FastAPI routes and start-up (\<^verbatim>\<open>api.py\<close>, \<^verbatim>\<open>integration_api.py\<close>, \<^verbatim>\<open>runtime.py\<close>, \<^verbatim>\<open>http.py\<close>, \<^verbatim>\<open>settings.py\<close>,
  \<^verbatim>\<open>apps/api/main.py\<close>): each route authenticates and calls one modelled operation. The public summaries of exported files
  (\<^verbatim>\<open>evidence.py\<close>, \<^verbatim>\<open>release_evidence.py\<close>, \<^verbatim>\<open>source_public.py\<close>), which read the file system and git. The remote planner
  (\<^verbatim>\<open>adapters/model.py\<close>) and the identity check of the SDK's installation (\<^verbatim>\<open>adapters/sibyl_identity.py\<close>). Of the connector configuration, the two checks that need the host (a public RPC address, the
  permissions of the client's home) are parameters. The process that runs the partner's client, file locks, threads and health
  reports; a database file replaced during a write. A transaction is one step because the code holds the tenant's lock around it. The scripts under \<^verbatim>\<open>src/scripts\<close>, which drive a
  deployment from outside. Time differences that the code compares as floats (incident skew, rate limits) are exact here.
\<close>

end
